(* ===== verification/Operator_Prelude.thy ===== *)
theory Operator_Prelude
  imports Main "HOL-Library.AList" "HOL-Library.Sublist" "HOL-Library.State_Monad"
    "HOL-Library.Monad_Syntax" "HOL-Library.List_Lexorder" "HOL-Library.Char_ord"
    "HOL-Library.Product_Lexorder" "HOL-Library.Multiset"
begin

text \<open>
  Shared prelude of the development: the parts of Go and of its standard library that the
  operator uses (byte strings, \<open>strings\<close>, \<open>strconv\<close>, \<open>fmt\<close> verbs, \<open>map[string]T\<close>, the
  two's-complement integer types, error values with wrapping), and a small weakest
  precondition calculus for the state monad in which the reconcilers are written.

  Go strings are byte strings and are modelled by \<^typ>\<open>string\<close>, ordered bytewise
  (\<open>List_Lexorder\<close> over \<open>Char_ord\<close>).  A Go map is an association list whose keys are
  distinct; its order stands for one iteration order of the map.
\<close>

named_theorems gomap \<comment> \<open>lookup and update of Go maps\<close>
named_theorems gostr \<comment> \<open>evaluation of the string helpers\<close>
named_theorems wp_rules \<comment> \<open>weakest preconditions of monadic combinators\<close>

section \<open>Machine integers\<close>

text \<open>\<open>int32(x)\<close> and \<open>int64(x)\<close>: conversion of an exact integer to the width, two's complement.\<close>

definition i32 :: "int \<Rightarrow> int" where
  "i32 x = (x + 2147483648) mod 4294967296 - 2147483648"

definition i64 :: "int \<Rightarrow> int" where
  "i64 x = (x + 9223372036854775808) mod 18446744073709551616 - 9223372036854775808"

definition is_i32 :: "int \<Rightarrow> bool" where
  "is_i32 x \<longleftrightarrow> - 2147483648 \<le> x \<and> x < 2147483648"

definition is_i64 :: "int \<Rightarrow> bool" where
  "is_i64 x \<longleftrightarrow> - 9223372036854775808 \<le> x \<and> x < 9223372036854775808"

lemma i32_id [simp]: "is_i32 x \<Longrightarrow> i32 x = x"
  by (simp add: i32_def is_i32_def)

lemma i64_id [simp]: "is_i64 x \<Longrightarrow> i64 x = x"
  by (simp add: i64_def is_i64_def)

lemma is_i32_i32 [simp]: "is_i32 (i32 x)"
proof -
  have "0 \<le> (x + 2147483648) mod 4294967296" and "(x + 2147483648) mod 4294967296 < 4294967296"
    by simp_all
  then show ?thesis by (simp add: i32_def is_i32_def)
qed

text \<open>Arithmetic at a width is arithmetic on the residues: an inner conversion may be dropped.\<close>

lemma is_i64_i64 [simp]: "is_i64 (i64 x)"
proof -
  have "0 \<le> (x + 9223372036854775808) mod 18446744073709551616" "(x + 9223372036854775808) mod 18446744073709551616 < 18446744073709551616"
    by simp_all
  then show ?thesis by (simp add: i64_def is_i64_def)
qed

lemma i64_cong: "i64 x = i64 y \<longleftrightarrow> x mod 18446744073709551616 = y mod 18446744073709551616"
proof -
  have "x mod 18446744073709551616 = y mod 18446744073709551616"
    if "(x + 9223372036854775808) mod 18446744073709551616 = (y + 9223372036854775808) mod 18446744073709551616"
    using mod_diff_cong [OF that refl, of 9223372036854775808] by simp
  moreover have "(x + 9223372036854775808) mod 18446744073709551616 = (y + 9223372036854775808) mod 18446744073709551616"
    if "x mod 18446744073709551616 = y mod 18446744073709551616"
    using mod_add_cong [OF that refl] .
  ultimately show ?thesis by (auto simp: i64_def)
qed

lemma i64_mod: "i64 x mod 18446744073709551616 = x mod 18446744073709551616"
  unfolding i64_def by (simp add: mod_diff_left_eq)

lemma i64_absorb [simp]:
  "i64 (i64 x) = i64 x" "i64 (i64 x + y) = i64 (x + y)" "i64 (x + i64 y) = i64 (x + y)"
  "i64 (i64 x - y) = i64 (x - y)" "i64 (x - i64 y) = i64 (x - y)"
  by (simp_all add: i64_cong i64_mod mod_add_cong [OF i64_mod refl] mod_add_cong [OF refl i64_mod]
      mod_diff_cong [OF i64_mod refl] mod_diff_cong [OF refl i64_mod])

lemma i32_cong: "i32 x = i32 y \<longleftrightarrow> x mod 4294967296 = y mod 4294967296"
proof -
  have "x mod 4294967296 = y mod 4294967296"
    if "(x + 2147483648) mod 4294967296 = (y + 2147483648) mod 4294967296"
    using mod_diff_cong [OF that refl, of 2147483648] by simp
  moreover have "(x + 2147483648) mod 4294967296 = (y + 2147483648) mod 4294967296"
    if "x mod 4294967296 = y mod 4294967296"
    using mod_add_cong [OF that refl] .
  ultimately show ?thesis by (auto simp: i32_def)
qed

lemma i32_mod: "i32 x mod 4294967296 = x mod 4294967296"
  unfolding i32_def by (simp add: mod_diff_left_eq)

lemma i32_absorb [simp]: "i32 (i32 x) = i32 x" "i32 (i32 x + y) = i32 (x + y)" "i32 (x + i32 y) = i32 (x + y)"
  by (simp_all add: i32_cong i32_mod mod_add_cong [OF i32_mod refl] mod_add_cong [OF refl i32_mod])

lemma i64_sum_list: "i64 (sum_list (map (\<lambda>x. i64 (f x)) xs)) = i64 (sum_list (map f xs))"
  by (induction xs) (simp_all, metis i64_absorb(3))

lemma i32_sum_list: "i32 (sum_list (map (\<lambda>x. i32 (f x)) xs)) = i32 (sum_list (map f xs))"
  by (induction xs) (simp_all, metis i32_absorb(3))

text \<open>Between zero and a value of the width.\<close>

lemma is_i64_between: "0 \<le> x \<Longrightarrow> x \<le> y \<Longrightarrow> is_i64 y \<Longrightarrow> is_i64 x"
  by (simp add: is_i64_def)

lemma is_i32_between: "0 \<le> x \<Longrightarrow> x \<le> y \<Longrightarrow> is_i32 y \<Longrightarrow> is_i32 x"
  by (simp add: is_i32_def)

lemma is_i64_0 [simp]: "is_i64 0"
  by (simp add: is_i64_def)

lemma i32_mult_bound:
  assumes "is_i32 a" and "is_i32 b"
  shows "is_i64 (a * b)"
proof -
  have "\<bar>a\<bar> \<le> 2147483648" and "\<bar>b\<bar> \<le> 2147483648"
    using assms by (auto simp: is_i32_def)
  then have "\<bar>a\<bar> * \<bar>b\<bar> \<le> 2147483648 * 2147483648"
    by (intro mult_mono) auto
  then have "\<bar>a * b\<bar> \<le> 4611686018427387904" by (simp add: abs_mult)
  then show ?thesis by (auto simp: is_i64_def abs_le_iff)
qed

section \<open>Strings\<close>

text \<open>\<open>strings.Contains\<close>, \<open>strings.HasPrefix\<close>, \<open>strings.TrimRight\<close>, \<open>strings.Join\<close>.\<close>

fun str_contains :: "string \<Rightarrow> string \<Rightarrow> bool" where
  "str_contains [] needle = (needle = [])"
| "str_contains (c # s) needle = (prefix needle (c # s) \<or> str_contains s needle)"

lemma str_contains_sublist: "str_contains s needle \<longleftrightarrow> sublist needle s"
  by (induction s) (auto simp: sublist_Cons_right)

lemma str_contains_mid [simp]: "str_contains (p @ needle @ s) needle"
  by (auto simp: str_contains_sublist)

definition trim_right :: "string \<Rightarrow> char list \<Rightarrow> string" where
  "trim_right s cutset = rev (dropWhile (\<lambda>c. c \<in> set cutset) (rev s))"

lemma prefix_trim_right: "prefix (trim_right s cs) s"
proof -
  have "suffix (dropWhile (\<lambda>c. c \<in> set cs) (rev s)) (rev s)" by (rule suffix_dropWhile)
  then show ?thesis by (simp add: trim_right_def suffix_to_prefix)
qed

lemma length_trim_right_le [simp]: "length (trim_right s cs) \<le> length s"
  using prefix_trim_right by (rule prefix_length_le)

lemma last_trim_right: "trim_right s cs \<noteq> [] \<Longrightarrow> last (trim_right s cs) \<notin> set cs"
proof -
  assume "trim_right s cs \<noteq> []"
  then have "dropWhile (\<lambda>c. c \<in> set cs) (rev s) \<noteq> []" by (simp add: trim_right_def)
  from hd_dropWhile [OF this] this show ?thesis by (simp add: trim_right_def last_rev)
qed

fun str_join :: "string \<Rightarrow> string list \<Rightarrow> string" where
  "str_join sep [] = []"
| "str_join sep [x] = x"
| "str_join sep (x # y # xs) = x @ sep @ str_join sep (y # xs)"

text \<open>\<open>strings.ToLower\<close> on ASCII bytes; bytes beyond ASCII are left alone.\<close>

definition char_lower :: "char \<Rightarrow> char" where
  "char_lower c = (let n = of_char c :: nat in if 65 \<le> n \<and> n \<le> 90 then char_of (n + 32) else c)"

definition to_lower :: "string \<Rightarrow> string" where
  "to_lower = map char_lower"

text \<open>\<open>%d\<close>: decimal rendering.\<close>

fun nat_digits :: "nat \<Rightarrow> string" where
  "nat_digits n =
     (if n < 10 then [char_of (48 + n)] else nat_digits (n div 10) @ [char_of (48 + n mod 10)])"

declare nat_digits.simps [simp del]

definition fmt_d :: "int \<Rightarrow> string" where
  "fmt_d i = (if i < 0 then CHR ''-'' # nat_digits (nat (- i)) else nat_digits (nat i))"

text \<open>Distinct integers are rendered differently: the digits can be read back.\<close>

definition digits_value :: "string \<Rightarrow> nat" where
  "digits_value s = foldl (\<lambda>a c. a * 10 + (of_char c - 48)) 0 s"

lemma digits_value_nat_digits: "digits_value (nat_digits n) = n"
proof (induction n rule: nat_digits.induct)
  case (1 n)
  show ?case
  proof (cases "n < 10")
    case True
    then show ?thesis by (subst nat_digits.simps) (simp add: digits_value_def)
  next
    case False
    have "digits_value (nat_digits (n div 10)) = n div 10" using 1 [OF False] .
    moreover have "(of_char (char_of (48 + n mod 10) :: char) :: nat) = 48 + n mod 10" by simp
    ultimately show ?thesis using False
      by (subst nat_digits.simps) (simp add: digits_value_def)
  qed
qed

lemma nat_digits_inject [simp]: "nat_digits m = nat_digits n \<longleftrightarrow> m = n"
  by (metis digits_value_nat_digits)

lemma hd_nat_digits: "nat_digits n \<noteq> [] \<and> hd (nat_digits n) \<noteq> CHR ''-''"
proof (induction n rule: nat_digits.induct)
  case (1 n)
  have "char_of (48 + n) \<noteq> CHR ''-''" if "n < 10"
  proof
    assume "char_of (48 + n) = CHR ''-''"
    then have "(of_char (char_of (48 + n) :: char) :: nat) = of_char (CHR ''-'')" by simp
    with that show False by simp
  qed
  with 1 show ?case by (subst (1 2) nat_digits.simps) auto
qed

lemma fmt_d_inject [simp]: "fmt_d i = fmt_d j \<longleftrightarrow> i = j"
proof
  assume eq: "fmt_d i = fmt_d j"
  then have "i < 0 \<longleftrightarrow> j < 0"
    using hd_nat_digits by (metis fmt_d_def list.sel(1))
  with eq show "i = j" by (auto simp: fmt_d_def split: if_splits)
qed simp

text \<open>
  \<open>%q\<close> of a string: \<open>strconv.Quote\<close>.  Exact on ASCII; printable bytes beyond ASCII are kept
  as they are, which is what Go does for valid printable UTF-8.
\<close>

definition hex_digit :: "nat \<Rightarrow> char" where
  "hex_digit n = (if n < 10 then char_of (48 + n) else char_of (87 + n))"

definition quote_char :: "char \<Rightarrow> char \<Rightarrow> string" where
  "quote_char delim c =
     (let n = of_char c :: nat in
      if c = delim \<or> n = 92 then [char_of (92::nat), c]
      else if n = 7 then [char_of (92::nat), CHR ''a'']
      else if n = 8 then [char_of (92::nat), CHR ''b'']
      else if n = 12 then [char_of (92::nat), CHR ''f'']
      else if n = 10 then [char_of (92::nat), CHR ''n'']
      else if n = 13 then [char_of (92::nat), CHR ''r'']
      else if n = 9 then [char_of (92::nat), CHR ''t'']
      else if n = 11 then [char_of (92::nat), CHR ''v'']
      else if n < 32 \<or> n = 127 then [char_of (92::nat), CHR ''x'', hex_digit (n div 16), hex_digit (n mod 16)]
      else [c])"

definition fmt_q :: "string \<Rightarrow> string" where
  "fmt_q s = CHR 0x22 # concat (map (quote_char CHR 0x22) s) @ [CHR 0x22]"

text \<open>\<open>%q\<close> of a byte: a single-quoted character literal.\<close>

definition fmt_qc :: "char \<Rightarrow> string" where
  "fmt_qc c = CHR 0x27 # quote_char CHR 0x27 c @ [CHR 0x27]"

text \<open>\<open>hex.EncodeToString\<close> of a byte slice (bytes as naturals below 256).\<close>

definition hex_encode :: "nat list \<Rightarrow> string" where
  "hex_encode bs = concat (map (\<lambda>b. [hex_digit (b div 16 mod 16), hex_digit (b mod 16)]) bs)"

lemma length_hex_encode [simp]: "length (hex_encode bs) = 2 * length bs"
  by (induction bs) (auto simp: hex_encode_def)

section \<open>Go maps\<close>

type_synonym 'v gomap = "(string \<times> 'v) list"
type_synonym labels = "string gomap"

definition map_ok :: "'v gomap \<Rightarrow> bool" where
  "map_ok m \<longleftrightarrow> distinct (map fst m)"

abbreviation mput :: "string \<Rightarrow> 'v \<Rightarrow> 'v gomap \<Rightarrow> 'v gomap" where
  "mput \<equiv> AList.update"

text \<open>\<open>m[k]\<close> of a \<open>map[string]string\<close>: the zero value when the key is absent.\<close>

definition lget :: "labels \<Rightarrow> string \<Rightarrow> string" where
  "lget m k = (case map_of m k of Some v \<Rightarrow> v | None \<Rightarrow> [])"

text \<open>\<open>for k, v := range src \{ dst[k] = v \}\<close>.\<close>

definition mput_all :: "'v gomap \<Rightarrow> 'v gomap \<Rightarrow> 'v gomap" where
  "mput_all src dst = foldl (\<lambda>m kv. mput (fst kv) (snd kv) m) dst src"

lemma map_of_mput [simp, gomap]: "map_of (mput k v m) = (map_of m)(k \<mapsto> v)"
  by (simp add: update_conv')

lemma map_ok_mput [simp, gomap]: "map_ok m \<Longrightarrow> map_ok (mput k v m)"
  by (simp add: map_ok_def distinct_update)

lemma map_ok_Nil [simp, gomap]: "map_ok []"
  by (simp add: map_ok_def)

lemma mput_all_Nil [simp, gomap]: "mput_all [] m = m"
  by (simp add: mput_all_def)

lemma mput_all_Cons [simp, gomap]: "mput_all (kv # src) m = mput_all src (mput (fst kv) (snd kv) m)"
  by (simp add: mput_all_def)

lemma map_ok_mput_all [simp, gomap]: "map_ok m \<Longrightarrow> map_ok (mput_all src m)"
  by (induction src arbitrary: m) auto

lemma map_of_mput_all [gomap]: "map_ok src \<Longrightarrow> map_of (mput_all src m) = map_of m ++ map_of src"
proof (induction src arbitrary: m)
  case Nil
  then show ?case by simp
next
  case (Cons kv src)
  obtain k v where kv: "kv = (k, v)" by (cases kv)
  from Cons.prems kv have ok: "map_ok src" and notin: "k \<notin> fst ` set src"
    by (auto simp: map_ok_def)
  from notin have "map_of src k = None" by (simp add: map_of_eq_None_iff)
  with Cons.IH [OF ok] kv show ?case
    by (auto simp: fun_eq_iff map_add_def split: option.splits)
qed

lemma mput_ne_Nil [simp]: "mput k v m \<noteq> []"
  by (cases m) (auto split: if_splits)

lemma mput_all_ne_Nil: "mput_all src m = [] \<longleftrightarrow> src = [] \<and> m = []"
  by (induction src arbitrary: m) auto

lemma lget_mput [simp, gomap]: "lget (mput k v m) k' = (if k' = k then v else lget m k')"
  by (simp add: lget_def)

section \<open>Errors\<close>

text \<open>
  A Go error: its text and the sentinel kind that \<open>errors.As\<close> finds through the wrapping
  (\<open>apierrors.IsNotFound\<close> and friends unwrap).  \<open>fmt.Errorf("ctx: %w", err)\<close> prefixes the
  text and keeps the kind.
\<close>

datatype err_kind = KNotFound | KAlreadyExists | KConflict | KNoMatch | KInfraNotReady | KOther

record goerr =
  ekind :: err_kind
  emsg :: string

definition errorf :: "string \<Rightarrow> goerr" where
  "errorf m = \<lparr>ekind = KOther, emsg = m\<rparr>"

definition wrapf :: "string \<Rightarrow> goerr \<Rightarrow> goerr" where
  "wrapf ctx e = e\<lparr>emsg := ctx @ '': '' @ emsg e\<rparr>"

abbreviation IsNotFound :: "goerr \<Rightarrow> bool" where
  "IsNotFound e \<equiv> ekind e = KNotFound"

abbreviation IsAlreadyExists :: "goerr \<Rightarrow> bool" where
  "IsAlreadyExists e \<equiv> ekind e = KAlreadyExists"

lemma ekind_wrapf [simp]: "ekind (wrapf c e) = ekind e"
  by (simp add: wrapf_def)

text \<open>The result of a Go function that returns an error or may panic.\<close>

datatype 'a outcome = Ok 'a | Err goerr | Panic string

section \<open>Weakest preconditions for the state monad\<close>

definition wp :: "('s, 'a) state \<Rightarrow> ('a \<Rightarrow> 's \<Rightarrow> bool) \<Rightarrow> 's \<Rightarrow> bool" where
  "wp m Q s \<longleftrightarrow> (case run_state m s of (a, s') \<Rightarrow> Q a s')"

lemma wp_return [simp, wp_rules]: "wp (State_Monad.return x) Q s = Q x s"
  by (simp add: wp_def State_Monad.return_def)

lemma wp_bind [simp, wp_rules]: "wp (State_Monad.bind m f) Q s = wp m (\<lambda>a. wp (f a) Q) s"
  by (simp add: wp_def State_Monad.bind_def split: prod.splits)

lemma wp_get [simp, wp_rules]: "wp State_Monad.get Q s = Q s s"
  by (simp add: wp_def State_Monad.get_def)

lemma wp_set [simp, wp_rules]: "wp (State_Monad.set s') Q s = Q () s'"
  by (simp add: wp_def State_Monad.set_def)

lemma wp_modify [simp, wp_rules]: "wp (State_Monad.update f) Q s = Q () (f s)"
  by (simp add: wp_def State_Monad.update_def State_Monad.bind_def State_Monad.get_def State_Monad.set_def)

lemma wp_if [simp, wp_rules]:
  "wp (if b then m else n) Q s = (if b then wp m Q s else wp n Q s)"
  by simp

lemma wp_mono: "wp m Q s \<Longrightarrow> (\<And>a s'. Q a s' \<Longrightarrow> R a s') \<Longrightarrow> wp m R s"
  by (auto simp: wp_def split: prod.splits)

lemma wp_conj: "wp m Q s \<Longrightarrow> wp m R s \<Longrightarrow> wp m (\<lambda>a s'. Q a s' \<and> R a s') s"
  by (auto simp: wp_def split: prod.splits)

lemma wp_run: "run_state m s = (a, s') \<Longrightarrow> wp m Q s \<Longrightarrow> Q a s'"
  by (simp add: wp_def)

lemma wp_runI: "(\<And>a s'. run_state m s = (a, s') \<Longrightarrow> Q a s') \<Longrightarrow> wp m Q s"
  by (auto simp: wp_def split: prod.splits)

end
