(* ===== verification/Api_Types.thy ===== *)
theory Api_Types
  imports Operator_Prelude
begin

text \<open>
  The data the workspace controllers work on: the operator's own API types
  (\<open>api/workspaces/v1\<close>) and, of the Kubernetes and k0rdent objects the code reads or writes,
  the fields it touches.

  \<open>resource.Quantity\<close> is code of another repository: its type is the parameter \<open>'q\<close> and its
  operations are the fields of \<open>'q qops\<close>.  Values decoded from JSON are \<open>hval\<close> trees.
  A pointer field is an \<open>option\<close>, a slice a list, a map a \<open>gomap\<close>; a phase is a datatype
  whose first constructor is Go's empty string.  Times are integers (nanoseconds), 0 the zero time.
\<close>

section \<open>Quantities\<close>

record 'q qops =
  q_zero :: 'q                       \<comment> \<open>resource.Quantity literal\<close>
  q_add :: "'q \<Rightarrow> 'q \<Rightarrow> 'q"         \<comment> \<open>a.Add(b)\<close>
  q_sub :: "'q \<Rightarrow> 'q \<Rightarrow> 'q"         \<comment> \<open>a.Sub(b)\<close>
  q_cmp :: "'q \<Rightarrow> 'q \<Rightarrow> int"        \<comment> \<open>a.Cmp(b)\<close>
  q_is_zero :: "'q \<Rightarrow> bool"
  q_value :: "'q \<Rightarrow> int"            \<comment> \<open>Value()\<close>
  q_milli :: "'q \<Rightarrow> int"            \<comment> \<open>MilliValue()\<close>
  q_new_milli :: "int \<Rightarrow> 'q \<Rightarrow> 'q"  \<comment> \<open>NewMilliQuantity(v, q.Format)\<close>
  q_string :: "'q \<Rightarrow> string"

type_synonym 'q ResourceList = "'q gomap"

text \<open>
  What the documentation of \<open>resource.Quantity\<close> promises, for quantities read through \<open>val\<close> as
  exact integers: sums, differences and comparisons are exact, \<open>Value\<close> and \<open>MilliValue\<close>
  round up to units and to thousandths where the result is an \<open>int64\<close> (nothing is said beyond
  that), and \<open>NewMilliQuantity\<close> counts thousandths (a unit of \<open>val\<close> is 1/1000000 of a
  thousandth, the finest precision a quantity has).
\<close>

definition quantity_exact :: "'q qops \<Rightarrow> ('q \<Rightarrow> int) \<Rightarrow> bool" where
  "quantity_exact Q val \<longleftrightarrow>
     val (q_zero Q) = 0 \<and>
     (\<forall>a b. val (q_add Q a b) = val a + val b) \<and>
     (\<forall>a b. val (q_sub Q a b) = val a - val b) \<and>
     (\<forall>a b. q_cmp Q a b = sgn (val a - val b)) \<and>
     (\<forall>a. q_is_zero Q a \<longleftrightarrow> val a = 0) \<and>
     (\<forall>a. is_i64 (- ((- val a) div 1000000000)) \<longrightarrow> q_value Q a = - ((- val a) div 1000000000)) \<and>
     (\<forall>a. is_i64 (- ((- val a) div 1000000)) \<longrightarrow> q_milli Q a = - ((- val a) div 1000000)) \<and>
     (\<forall>m f. val (q_new_milli Q m f) = m * 1000000)"

lemma quantity_exactD:
  assumes "quantity_exact Q val"
  shows "val (q_zero Q) = 0" and "val (q_add Q a b) = val a + val b"
    and "val (q_sub Q a b) = val a - val b" and "q_cmp Q a b = sgn (val a - val b)"
    and "q_is_zero Q a \<longleftrightarrow> val a = 0"
    and "is_i64 (- ((- val a) div 1000000000)) \<Longrightarrow> q_value Q a = - ((- val a) div 1000000000)"
    and "is_i64 (- ((- val a) div 1000000)) \<Longrightarrow> q_milli Q a = - ((- val a) div 1000000)"
    and "val (q_new_milli Q m f) = m * 1000000"
  using assms by (simp_all add: quantity_exact_def)

text \<open>A concrete quantity with these laws: the exact integer itself, read at 64 bits.\<close>

definition int_qops :: "int qops" where
  "int_qops = \<lparr>q_zero = 0, q_add = (+), q_sub = (-), q_cmp = (\<lambda>a b. sgn (a - b)),
     q_is_zero = (\<lambda>a. a = 0), q_value = (\<lambda>a. i64 (- ((- a) div 1000000000))),
     q_milli = (\<lambda>a. i64 (- ((- a) div 1000000))), q_new_milli = (\<lambda>m f. m * 1000000), q_string = fmt_d\<rparr>"

lemma quantity_exact_int: "quantity_exact int_qops id"
  by (simp add: quantity_exact_def int_qops_def)

section \<open>Workspace class types (workspaceclass_types.go)\<close>

type_synonym GPUVendor = string

definition GPUVendorNVIDIA :: GPUVendor where "GPUVendorNVIDIA = ''NVIDIA''"
definition GPUVendorAMD :: GPUVendor where "GPUVendorAMD = ''AMD''"

record 'q ResourceRequirements =
  rr_CPU :: "'q option"
  rr_Memory :: "'q option"
  rr_Storage :: "'q option"
  rr_GPUCount :: "int option"
  rr_GPUVendor :: "GPUVendor option"
  rr_GPUType :: "string option"
  rr_GPUNodeSelector :: "labels option"   \<comment> \<open>None is the nil map\<close>

record 'q WorkspaceResourceSpec =
  ws_Replicas :: "int option"
  ws_PerReplica :: "'q ResourceRequirements"

record ServiceTemplateRef =
  str_Name :: string
  str_Namespace :: string
  str_VersionConstraint :: string

datatype RouteProtocol = RouteProtocolHTTP | RouteProtocolTCP | RouteProtocolSSH

record AccessEndpoint =
  ep_Name :: string
  ep_Protocol :: RouteProtocol
  ep_Port :: int
  ep_ServiceName :: string

type_synonym InjectionPath = string

record ResourceInjectionMap =
  im_Replicas :: "InjectionPath list"
  im_CPU :: "InjectionPath list"
  im_Memory :: "InjectionPath list"
  im_Storage :: "InjectionPath list"
  im_GPUCount :: "InjectionPath list"
  im_GPUVendor :: "InjectionPath list"
  im_GPUType :: "InjectionPath list"

text \<open>\<open>apiextensionsv1.JSON\<close>: the raw bytes.\<close>

type_synonym rawjson = string

record PrerequisiteSpec =
  pq_ServiceTemplate :: ServiceTemplateRef
  pq_Namespace :: string
  pq_Values :: "rawjson option"

text \<open>\<open>UserFacingConfig\<close>, \<open>DisplayName\<close> and \<open>Description\<close> are read by no controller.\<close>

record 'q WorkspaceClassSpec =
  wsc_ServiceTemplate :: ServiceTemplateRef
  wsc_DefaultResources :: "'q WorkspaceResourceSpec"
  wsc_Prerequisites :: "PrerequisiteSpec list"
  wsc_AccessEndpoints :: "AccessEndpoint list"
  wsc_DeployTimeout :: "int option"
  wsc_PrerequisiteDeployTimeout :: "int option"
  wsc_DefaultValues :: "rawjson option"
  wsc_ResourceInjection :: "ResourceInjectionMap option"

record WorkspaceClassStatus =
  wcs_ObservedGeneration :: int
  wcs_Valid :: bool
  wcs_ValidationError :: string

record 'q WorkspaceClass =
  wsc_Name :: string
  wsc_Generation :: int
  wsc_Spec :: "'q WorkspaceClassSpec"
  wsc_Status :: WorkspaceClassStatus

section \<open>Workspace deployment types (workspacedeployment_types.go)\<close>

definition WorkspaceDeploymentFinalizer :: string where
  "WorkspaceDeploymentFinalizer = ''workspaces.exalsius.ai/deployment''"

datatype WorkspaceDeploymentPhase =
    PhaseNone | PhasePending | PhaseInstallingPrerequisites | PhaseWaiting
  | PhaseDeploying | PhaseRunning | PhaseFailed | PhaseDeleting

datatype PrerequisitePhase =
    PrerequisitePhaseNone | PrerequisitePhasePending | PrerequisitePhaseInstalling
  | PrerequisitePhaseSatisfied | PrerequisitePhaseFailed

datatype PrerequisiteSource =
    PrerequisiteSourceNone | PrerequisiteSourceWorkspace | PrerequisiteSourceColony

record 'q ResourceTotals =
  rt_CPU :: "'q option"
  rt_Memory :: "'q option"
  rt_Storage :: "'q option"
  rt_GPUCount :: "int option"
  rt_GPUVendor :: "GPUVendor option"
  rt_GPUType :: "string option"

record 'q FeasibilityStatus =
  fs_Fits :: bool
  fs_EvaluatedAt :: int
  fs_Demanded :: "'q ResourceTotals"
  fs_Available :: "'q ResourceTotals"
  fs_Missing :: "'q ResourceTotals option"
  fs_Message :: string

record PrerequisiteStatus =
  ps_Name :: string
  ps_Phase :: PrerequisitePhase
  ps_Source :: PrerequisiteSource
  ps_Namespace :: string
  ps_Message :: string

record ServiceStateSummary =
  sss_Name :: string
  sss_State :: string
  sss_FailureMessage :: string

record ServiceSetStatusSummary =
  ssss_Name :: string
  ssss_Deployed :: bool
  ssss_Services :: "ServiceStateSummary list"

record EventSummary =
  es_LastSeen :: int
  es_Type :: string
  es_Reason :: string
  es_Message :: string

record FailureContext =
  fc_PhaseWhenFailed :: WorkspaceDeploymentPhase
  fc_Reason :: string
  fc_ServiceSetStatus :: "ServiceSetStatusSummary option"
  fc_RecentEvents :: "EventSummary list"

record AccessEntry =
  ae_Name :: string
  ae_Protocol :: RouteProtocol
  ae_URL :: string
  ae_Ready :: bool
  ae_Message :: string

datatype ConditionStatus = ConditionTrue | ConditionFalse | ConditionUnknown

record Condition =
  c_Type :: string
  c_Status :: ConditionStatus
  c_Reason :: string
  c_Message :: string
  c_ObservedGeneration :: int
  c_LastTransitionTime :: int

text \<open>The condition types and the reasons, under the names of the source.\<close>

abbreviation "ConditionReady \<equiv> ''Ready''"
abbreviation "ConditionClassResolved \<equiv> ''ClassResolved''"
abbreviation "ConditionPrerequisitesMet \<equiv> ''PrerequisitesMet''"
abbreviation "ConditionHelmReleaseReady \<equiv> ''HelmReleaseReady''"
abbreviation "ConditionClusterDeploymentResolved \<equiv> ''ClusterDeploymentResolved''"
abbreviation "ConditionRoutesReady \<equiv> ''RoutesReady''"
abbreviation "ConditionFeasible \<equiv> ''Feasible''"
abbreviation "ConditionResourcesInjected \<equiv> ''ResourcesInjected''"
abbreviation "ReasonClassNotFound \<equiv> ''ClassNotFound''"
abbreviation "ReasonClassResolved \<equiv> ''ClassResolved''"
abbreviation "ReasonClusterDeploymentResolved \<equiv> ''ClusterDeploymentResolved''"
abbreviation "ReasonClusterDeploymentNotFound \<equiv> ''ClusterDeploymentNotFound''"
abbreviation "ReasonPrerequisitesNotReady \<equiv> ''PrerequisitesNotReady''"
abbreviation "ReasonPrerequisitesMet \<equiv> ''PrerequisitesMet''"
abbreviation "ReasonInstallingPrerequisites \<equiv> ''InstallingPrerequisites''"
abbreviation "ReasonHelmReleaseNotReady \<equiv> ''HelmReleaseNotReady''"
abbreviation "ReasonHelmReleaseDeployed \<equiv> ''HelmReleaseDeployed''"
abbreviation "ReasonHelmReleaseFailed \<equiv> ''HelmReleaseFailed''"
abbreviation "ReasonDeploymentReady \<equiv> ''DeploymentReady''"
abbreviation "ReasonDeletionInProgress \<equiv> ''DeletionInProgress''"
abbreviation "ReasonInternalError \<equiv> ''InternalError''"
abbreviation "ReasonSuspended \<equiv> ''Suspended''"
abbreviation "ReasonInvalidPrerequisite \<equiv> ''InvalidPrerequisite''"
abbreviation "ReasonPrerequisiteNamespaceConflict \<equiv> ''PrerequisiteNamespaceConflict''"
abbreviation "ReasonResourcesAvailable \<equiv> ''ResourcesAvailable''"
abbreviation "ReasonInsufficientResources \<equiv> ''InsufficientResources''"
abbreviation "ReasonFeasibilityUnknown \<equiv> ''FeasibilityUnknown''"
abbreviation "ReasonResourcesInjected \<equiv> ''ResourcesInjected''"
abbreviation "ReasonUserPathsOverwritten \<equiv> ''UserPathsOverwritten''"
abbreviation "ReasonInvalidWorkspaceClass \<equiv> ''InvalidWorkspaceClass''"
abbreviation "ReasonRoutesReady \<equiv> ''RoutesReady''"
abbreviation "ReasonRoutingInProgress \<equiv> ''RoutingInProgress''"
abbreviation "ReasonRoutingError \<equiv> ''RoutingError''"
abbreviation "ReasonRoutingInfraNotReady \<equiv> ''RoutingInfraNotReady''"
abbreviation "ReasonGpuOfferingUnavailable \<equiv> ''GpuOfferingUnavailable''"
abbreviation "ReasonWaitingForGpuCapacity \<equiv> ''WaitingForGpuCapacity''"
abbreviation "ReasonCleanupAbandoned \<equiv> ''CleanupAbandoned''"

record ClusterDeploymentRef =
  cdr_Name :: string
  cdr_Namespace :: string

record 'q WorkspaceDeploymentSpec =
  wss_WorkspaceClassRef :: string
  wss_ClusterDeploymentRef :: ClusterDeploymentRef
  wss_Resources :: "'q WorkspaceResourceSpec option"
  wss_Values :: "rawjson option"
  wss_Suspend :: bool

record 'q WorkspaceDeploymentStatus =
  st_Phase :: WorkspaceDeploymentPhase
  st_Conditions :: "Condition list"
  st_ObservedGeneration :: int
  st_ServiceEntryName :: string
  st_ResolvedResources :: "'q WorkspaceResourceSpec option"
  st_Prerequisites :: "PrerequisiteStatus list"
  st_Feasibility :: "'q FeasibilityStatus option"
  st_Access :: "AccessEntry list"
  st_FailureContext :: "FailureContext option"
  st_Message :: string

text \<open>Of \<open>metav1.ObjectMeta\<close>, the fields the controllers read.\<close>

record 'q WorkspaceDeployment =
  wsd_Name :: string
  wsd_Namespace :: string
  wsd_UID :: string
  wsd_Generation :: int
  wsd_CreationTimestamp :: int
  wsd_DeletionTimestamp :: int        \<comment> \<open>0: not being deleted\<close>
  wsd_Finalizers :: "string list"
  wsd_Spec :: "'q WorkspaceDeploymentSpec"
  wsd_Status :: "'q WorkspaceDeploymentStatus"

section \<open>Kubernetes and k0rdent objects, as far as the code touches them\<close>

record 'q Node =
  node_Name :: string
  node_Labels :: labels
  node_Unschedulable :: bool
  node_Conditions :: "(string \<times> ConditionStatus) list"
  node_Allocatable :: "'q ResourceList"

datatype PodPhase = PodPending | PodRunning | PodSucceeded | PodFailed | PodUnknown

record 'q Pod =
  pod_NodeName :: string
  pod_Phase :: PodPhase
  pod_Requests :: "'q ResourceList list"   \<comment> \<open>resources.requests, one per container\<close>

record Namespace =
  ns_Name :: string
  ns_Labels :: "labels option"
  ns_DeletionTimestamp :: int

record Secret =
  sec_Name :: string
  sec_Namespace :: string
  sec_Data :: labels

text \<open>k0rdent's service states, of which the code distinguishes two.\<close>

abbreviation "ServiceStateDeployed \<equiv> ''Deployed''"
abbreviation "ServiceStateFailed \<equiv> ''Failed''"

record ServiceState =
  svs_Name :: string
  svs_Template :: string
  svs_Namespace :: string
  svs_State :: string
  svs_FailureMessage :: string

record ServiceHelmOptions =
  ho_Wait :: bool
  ho_Timeout :: int
  ho_CreateNamespace :: bool

record ServiceWithValues =
  svc_Name :: string
  svc_Namespace :: string
  svc_Template :: string
  svc_Values :: string
  svc_HelmOptions :: ServiceHelmOptions

record ServiceSet =
  ss_Name :: string
  ss_Namespace :: string
  ss_Labels :: labels
  ss_Finalizers :: "string list"
  ss_DeletionTimestamp :: int
  ss_OwnerUIDs :: "string list"
  ss_Cluster :: string
  ss_Provider :: string
  ss_Services :: "ServiceWithValues list"
  ss_StatusDeployed :: bool
  ss_StatusServices :: "ServiceState list"

text \<open>A ClusterDeployment as the workspace controllers see it: (template, namespace) of the
  services in its spec and the reported service states.\<close>

record ClusterDeployment =
  cd_Name :: string
  cd_Namespace :: string
  cd_Labels :: labels
  cd_DeletionTimestamp :: int
  cd_SpecServices :: "(string \<times> string) list"
  cd_StatusServices :: "ServiceState list"

record Event =
  ev_LastTimestamp :: int
  ev_Type :: string
  ev_Reason :: string
  ev_Message :: string

section \<open>Values decoded from JSON\<close>

text \<open>
  \<open>any\<close> as \<open>encoding/json\<close> fills it, plus the \<open>int64\<close> values the injection adds.  A JSON
  number is never inspected and is carried as its text.
\<close>

datatype hval =
    HNull | HBool bool | HNum string | HInt int | HStr string | HArr "hval list" | HMap "(string \<times> hval) list"

type_synonym hmap = "(string \<times> hval) list"

end
