(* ===== verification/Names.thy ===== *)
theory Names
  imports Api_Types
begin

text \<open>
  The names the controllers derive: \<open>internal/controller/workspaces/routing/naming.go\<close>, and
  \<open>boundedName\<close>, \<open>sanitizeLabelValue\<close> and their relatives of \<open>prerequisites.go\<close> and
  \<open>service_apply.go\<close>.  \<open>crypto/sha256\<close> is the parameter \<open>sha\<close>, the digest of a string as a list
  of bytes; what the code relies on is that it is 32 bytes long (\<open>sha_ok\<close>).
\<close>

section \<open>Label values\<close>

definition is_alnum :: "char \<Rightarrow> bool" where
  "is_alnum c \<longleftrightarrow> (let n = of_char c :: nat in
     (48 \<le> n \<and> n \<le> 57) \<or> (65 \<le> n \<and> n \<le> 90) \<or> (97 \<le> n \<and> n \<le> 122))"

definition is_label_char :: "char \<Rightarrow> bool" where
  "is_label_char c \<longleftrightarrow> is_alnum c \<or> c = CHR ''-'' \<or> c = CHR ''_'' \<or> c = CHR ''.''"

text \<open>\<open>labelValueRE\<close>: one alphanumeric, or two with at most 61 label characters between them.\<close>

definition labelValueRE :: "string \<Rightarrow> bool" where
  "labelValueRE v \<longleftrightarrow> v \<noteq> [] \<and> length v \<le> 63 \<and> is_alnum (hd v) \<and> is_alnum (last v) \<and>
     list_all is_label_char v"

section \<open>Names of prerequisites.go and service_apply.go\<close>

definition maxServiceSetNameLen :: nat where "maxServiceSetNameLen = 63"

definition boundedName :: "(string \<Rightarrow> nat list) \<Rightarrow> string \<Rightarrow> string" where
  "boundedName sha name =
     (if length name \<le> maxServiceSetNameLen then name
      else
        let sum = sha name;
            suffix = ''-'' @ hex_encode (take 4 sum);
            prfx = trim_right (take (maxServiceSetNameLen - length suffix) name) ''-.''
        in prfx @ suffix)"

definition prerequisiteServiceSetName :: "(string \<Rightarrow> nat list) \<Rightarrow> string \<Rightarrow> string \<Rightarrow> string" where
  "prerequisiteServiceSetName sha cdName templateName =
     boundedName sha (''wsprereq-'' @ cdName @ ''-'' @ templateName)"

definition sanitizeLabelValue :: "(string \<Rightarrow> nat list) \<Rightarrow> string \<Rightarrow> string" where
  "sanitizeLabelValue sha v =
     (if labelValueRE v then v else ''hash-'' @ hex_encode (take 8 (sha v)))"

definition sanitizeServiceEntryName :: "(string \<Rightarrow> nat list) \<Rightarrow> string \<Rightarrow> string" where
  "sanitizeServiceEntryName sha templateName =
     (let s = to_lower templateName in
      if labelValueRE s then s else ''prereq-'' @ hex_encode (take 8 (sha templateName)))"

definition effectivePrerequisiteNamespace :: "PrerequisiteSpec \<Rightarrow> string" where
  "effectivePrerequisiteNamespace prereq =
     (if pq_Namespace prereq \<noteq> [] then pq_Namespace prereq else ''default'')"

definition serviceSetName :: "(string \<Rightarrow> nat list) \<Rightarrow> 'q WorkspaceDeployment \<Rightarrow> string" where
  "serviceSetName sha wsd =
     boundedName sha (''wsd-'' @ cdr_Name (wss_ClusterDeploymentRef (wsd_Spec wsd)) @ ''-'' @ wsd_Name wsd)"

section \<open>Names and labels of routing/naming.go\<close>

definition LabelWorkspace :: string where "LabelWorkspace = ''workspaces.exalsius.ai/workspace''"

text \<open>A string type with three constants; \<open>MeshModeOther\<close> is any other string.\<close>

datatype MeshMode = MeshModeAmbient | MeshModeSidecar | MeshModeNone | MeshModeOther string

record WaypointConfig =
  wp_Name :: string
  wp_Namespace :: string

record MeshConfig =
  mesh_Mode :: MeshMode
  mesh_WaypointEnabled :: bool
  mesh_WaypointNamespace :: string

definition WaypointNameForClusterDeployment :: "(string \<Rightarrow> nat list) \<Rightarrow> string \<Rightarrow> string" where
  "WaypointNameForClusterDeployment sha cdName =
     (let name = cdName @ ''-waypoint'' in
      if length name \<le> 63 then name
      else
        let h = take 8 (hex_encode (sha cdName));
            keep = 63 - (1 + length h) - length ''-waypoint''
        in take keep cdName @ ''-'' @ h @ ''-waypoint'')"

definition MeshNamespaceLabels :: "MeshMode \<Rightarrow> WaypointConfig \<Rightarrow> labels" where
  "MeshNamespaceLabels mode wpc =
     (case mode of
        MeshModeAmbient \<Rightarrow>
          (''istio.io/dataplane-mode'', ''ambient'') #
          (if wp_Name wpc \<noteq> [] then
             [(''istio.io/use-waypoint'', wp_Name wpc),
              (''istio.io/use-waypoint-namespace'', wp_Namespace wpc),
              (''istio.io/ingress-use-waypoint'', ''true'')]
           else [])
      | MeshModeSidecar \<Rightarrow> [(''istio-injection'', ''enabled'')]
      | _ \<Rightarrow> [])"

definition NamespaceLabels :: "(string \<Rightarrow> nat list) \<Rightarrow> MeshConfig \<Rightarrow> string \<Rightarrow> labels" where
  "NamespaceLabels sha c cdName =
     (let wpc = (if mesh_WaypointEnabled c then
                  \<lparr>wp_Name = WaypointNameForClusterDeployment sha cdName,
                   wp_Namespace = mesh_WaypointNamespace c\<rparr>
                else \<lparr>wp_Name = [], wp_Namespace = []\<rparr>)
      in MeshNamespaceLabels (mesh_Mode c) wpc)"

definition MirrorNamespaceLabels :: "MeshConfig \<Rightarrow> labels" where
  "MirrorNamespaceLabels c = MeshNamespaceLabels (mesh_Mode c) \<lparr>wp_Name = [], wp_Namespace = []\<rparr>"

definition WorkspaceNamespaceName :: "'q WorkspaceDeployment \<Rightarrow> string" where
  "WorkspaceNamespaceName wsd = ''ws-'' @ wsd_Name wsd"

definition HelmReleaseName :: "'q WorkspaceDeployment \<Rightarrow> string" where
  "HelmReleaseName wsd =
     ''wsd-'' @ cdr_Name (wss_ClusterDeploymentRef (wsd_Spec wsd)) @ ''-'' @ wsd_Name wsd"

definition EndpointServiceName :: "'q WorkspaceDeployment \<Rightarrow> AccessEndpoint \<Rightarrow> string" where
  "EndpointServiceName wsd ep =
     (if ep_ServiceName ep \<noteq> [] then ep_ServiceName ep else HelmReleaseName wsd @ ''-'' @ ep_Name ep)"

definition serviceEntryName :: "'q WorkspaceDeployment \<Rightarrow> string" where
  "serviceEntryName wsd = HelmReleaseName wsd"

definition workspaceNamespaceName :: "'q WorkspaceDeployment \<Rightarrow> string" where
  "workspaceNamespaceName wsd = WorkspaceNamespaceName wsd"


section \<open>Lemmas\<close>

definition sha_ok :: "(string \<Rightarrow> nat list) \<Rightarrow> bool" where
  "sha_ok sha \<longleftrightarrow> (\<forall>s. length (sha s) = 32)"

text \<open>A hash of the right length, for the witnesses.\<close>

definition demo_sha :: "string \<Rightarrow> nat list" where
  "demo_sha s = replicate 31 0 @ [length s mod 256]"

lemma demo_sha_ok: "sha_ok demo_sha"
  by (simp add: sha_ok_def demo_sha_def)

lemma of_char_hex_digit: "n < 16 \<Longrightarrow> of_char (hex_digit n) = (if n < 10 then 48 + n else 87 + n :: nat)"
  by (simp add: hex_digit_def)

lemma hex_digit_alnum: "n < 16 \<Longrightarrow> is_alnum (hex_digit n)"
  by (simp add: is_alnum_def of_char_hex_digit Let_def)

lemma hex_digit_inj: "m < 16 \<Longrightarrow> n < 16 \<Longrightarrow> hex_digit m = hex_digit n \<longleftrightarrow> m = n"
proof
  assume mn: "m < 16" "n < 16" and "hex_digit m = hex_digit n"
  then have "(if m < 10 then 48 + m else 87 + m :: nat) = (if n < 10 then 48 + n else 87 + n)"
    by (metis of_char_hex_digit)
  then show "m = n" using mn by (simp split: if_splits)
qed simp

lemma hex_encode_alnum: "c \<in> set (hex_encode bs) \<Longrightarrow> is_alnum c"
  by (auto simp: hex_encode_def intro: hex_digit_alnum)

lemma alnum_label [simp]: "is_alnum c \<Longrightarrow> is_label_char c"
  by (simp add: is_label_char_def)

lemma dash_label [simp]: "is_label_char CHR ''-''"
  by (simp add: is_label_char_def)

lemma hex_ne_Nil [simp]: "hex_encode bs = [] \<longleftrightarrow> bs = []"
  by (cases bs) (simp_all add: hex_encode_def)

text \<open>Shape of a bounded name: a prefix of the name and the hash of all of it.\<close>

lemma boundedName_long:
  assumes "sha_ok sha" and "\<not> length name \<le> 63"
  shows "boundedName sha name =
    trim_right (take 54 name) ''-.'' @ ''-'' @ hex_encode (take 4 (sha name))"
  using assms by (simp add: boundedName_def maxServiceSetNameLen_def Let_def sha_ok_def)

lemma boundedName_length: "sha_ok sha \<Longrightarrow> length (boundedName sha name) \<le> 63"
proof (cases "length name \<le> 63")
  case False
  assume sha: "sha_ok sha"
  have "length (trim_right (take 54 name) ''-.'') \<le> 54"
    using length_trim_right_le [of "take 54 name" "''-.''"] by simp
  with False sha show ?thesis by (simp add: boundedName_long sha_ok_def)
qed (simp add: boundedName_def maxServiceSetNameLen_def)

lemma trim_right_keeps: "xs \<noteq> [] \<Longrightarrow> hd xs \<notin> set cs \<Longrightarrow> trim_right xs cs \<noteq> [] \<and> hd (trim_right xs cs) = hd xs"
proof -
  assume xs: "xs \<noteq> []" "hd xs \<notin> set cs"
  then have "\<not> (\<forall>c \<in> set (rev xs). c \<in> set cs)" by (metis hd_in_set set_rev)
  then have ne: "trim_right xs cs \<noteq> []" by (simp add: trim_right_def dropWhile_eq_Nil_conv)
  with prefix_trim_right [of xs cs] show ?thesis by (metis hd_append2 prefix_def)
qed

lemma set_trim_right: "set (trim_right xs cs) \<subseteq> set xs"
  using prefix_trim_right by (metis set_mono_prefix)

lemma boundedName_label:
  assumes sha: "sha_ok sha" and n: "name \<noteq> []" "is_alnum (hd name)" "is_alnum (last name)" "list_all is_label_char name"
  shows "labelValueRE (boundedName sha name)"
proof (cases "length name \<le> 63")
  case True
  with n show ?thesis by (simp add: boundedName_def maxServiceSetNameLen_def labelValueRE_def)
next
  case False
  let ?p = "trim_right (take 54 name) ''-.''" and ?h = "hex_encode (take 4 (sha name))"
  have h: "?h \<noteq> []" using sha by (simp add: sha_ok_def) (metis length_0_conv numeral_neq_zero)
  have t: "take 54 name \<noteq> []" "hd (take 54 name) = hd name" using n(1) by simp_all
  have "hd name \<notin> set ''-.''" using n(2) by (auto simp: is_alnum_def)
  with t trim_right_keeps [of "take 54 name" "''-.''"] have p: "?p \<noteq> []" "hd ?p = hd name" by simp_all
  have "list_all is_label_char ?p"
    using n(4) set_trim_right [of "take 54 name" "''-.''"] by (auto simp: list_all_iff dest: in_set_takeD)
  moreover have "list_all is_label_char ?h" by (auto simp: list_all_iff dest: hex_encode_alnum)
  moreover have "is_alnum (last ?h)" using h last_in_set hex_encode_alnum by blast
  ultimately show ?thesis
    using p h n(2) boundedName_length [OF sha, of name] False
    by (simp add: boundedName_long [OF sha] labelValueRE_def)
qed

lemma hex_encode_inj:
  assumes "hex_encode xs = hex_encode ys" and "\<forall>b \<in> set xs \<union> set ys. b < 256"
  shows "xs = ys"
  using assms
proof (induction xs arbitrary: ys)
  case Nil
  then show ?case by (metis hex_ne_Nil)
next
  case (Cons x xs)
  then obtain y ys' where ys: "ys = y # ys'" by (cases ys) (simp_all add: hex_encode_def)
  have "hex_digit (x div 16 mod 16) = hex_digit (y div 16 mod 16)" "hex_digit (x mod 16) = hex_digit (y mod 16)"
    and tl: "hex_encode xs = hex_encode ys'"
    using Cons.prems(1) unfolding ys by (simp_all add: hex_encode_def)
  then have digits: "x div 16 mod 16 = y div 16 mod 16" "x mod 16 = y mod 16"
    using hex_digit_inj [of "x div 16 mod 16" "y div 16 mod 16"] hex_digit_inj [of "x mod 16" "y mod 16"] by simp_all
  have "x < 256" "y < 256" using Cons.prems(2) ys by auto
  then have "x div 16 < 16" "y div 16 < 16" by simp_all
  with digits have "x div 16 = y div 16" "x mod 16 = y mod 16" by simp_all
  then have "x = y" by (metis div_mult_mod_eq)
  with Cons.IH [OF tl] Cons.prems(2) ys show ?case by simp
qed

section \<open>Properties\<close>

text \<open>
  C37: a ServiceSet name always fits a label value.  \<open>boundedName\<close> leaves names of up to 63
  characters alone, never returns a longer one, and maps a name that starts and ends
  alphanumerically and otherwise holds label characters to a valid label value.
\<close>

theorem boundedName_valid:
  assumes "sha_ok sha"
  shows "length (boundedName sha name) \<le> 63 \<and>
    (length name \<le> 63 \<longrightarrow> boundedName sha name = name) \<and>
    (name \<noteq> [] \<and> is_alnum (hd name) \<and> is_alnum (last name) \<and> list_all is_label_char name \<longrightarrow>
       labelValueRE (boundedName sha name))"
  using boundedName_length [OF assms] boundedName_label [OF assms]
  by (auto simp: boundedName_def maxServiceSetNameLen_def)

theorem boundedName_valid_witness:
  "length (boundedName demo_sha (replicate 70 CHR ''a'')) \<le> 63 \<and>
   labelValueRE (boundedName demo_sha (replicate 70 CHR ''a''))"
  using boundedName_valid [OF demo_sha_ok, of "replicate 70 CHR ''a''"]
  by (simp add: is_alnum_def is_label_char_def list_all_iff)

text \<open>
  When two derived names coincide.  Two names too long to keep yield the same bounded name only
  if the first four bytes of their hashes agree.
\<close>

theorem boundedName_collision_needs_hash:
  assumes sha: "sha_ok sha" "\<forall>s. \<forall>b \<in> set (sha s). b < 256"
    and long: "63 < length a" "63 < length b" and eq: "boundedName sha a = boundedName sha b"
  shows "take 4 (sha a) = take 4 (sha b)"
proof -
  have len: "length (hex_encode (take 4 (sha x))) = 8" for x using sha(1) by (simp add: sha_ok_def)
  have tail: "drop (length (boundedName sha x) - 8) (boundedName sha x) = hex_encode (take 4 (sha x))"
    if "63 < length x" for x
    using that len [of x] by (simp add: boundedName_long [OF sha(1)])
  have "hex_encode (take 4 (sha a)) = hex_encode (take 4 (sha b))"
    using tail [OF long(1)] tail [OF long(2)] eq by simp
  then show ?thesis
    by (rule hex_encode_inj) (use sha(2) in \<open>auto dest: in_set_takeD\<close>)
qed

theorem boundedName_collision_needs_hash_witness:
  "boundedName demo_sha (replicate 64 CHR ''a'') = boundedName demo_sha (replicate 65 CHR ''a'') \<and>
   take 4 (demo_sha (replicate 64 CHR ''a'')) = take 4 (demo_sha (replicate 65 CHR ''a''))"
proof -
  have b: "\<forall>s. \<forall>b \<in> set (demo_sha s). b < 256" by (auto simp: demo_sha_def)
  have eq: "boundedName demo_sha (replicate 64 CHR ''a'') = boundedName demo_sha (replicate 65 CHR ''a'')"
    by code_simp
  show ?thesis
    using boundedName_collision_needs_hash [OF demo_sha_ok b _ _ eq] eq by simp
qed

text \<open>
  The release and ServiceSet names are not unique.  Workspace \<open>c\<close> on cluster \<open>a-b\<close> and
  workspace \<open>b-c\<close> on cluster \<open>a\<close> get the same ServiceSet and Helm release name, although the
  cluster name is included "to avoid collisions".
\<close>

theorem serviceSetName_collides:
  assumes "cdr_Name (wss_ClusterDeploymentRef (wsd_Spec w1)) = a @ ''-'' @ b" and "wsd_Name w1 = c"
    and "cdr_Name (wss_ClusterDeploymentRef (wsd_Spec w2)) = a" and "wsd_Name w2 = b @ ''-'' @ c"
  shows "serviceSetName sha w1 = serviceSetName sha w2 \<and> serviceEntryName w1 = serviceEntryName w2"
  using assms by (simp add: serviceSetName_def serviceEntryName_def HelmReleaseName_def)

definition demo_wsd :: "string \<Rightarrow> string \<Rightarrow> int WorkspaceDeployment" where
  "demo_wsd cd nm = \<lparr>wsd_Name = nm, wsd_Namespace = ''org'', wsd_UID = nm, wsd_Generation = 1,
     wsd_CreationTimestamp = 0, wsd_DeletionTimestamp = 0, wsd_Finalizers = [],
     wsd_Spec = \<lparr>wss_WorkspaceClassRef = ''class'', wss_ClusterDeploymentRef = \<lparr>cdr_Name = cd, cdr_Namespace = ''org''\<rparr>,
        wss_Resources = None, wss_Values = None, wss_Suspend = False\<rparr>,
     wsd_Status = \<lparr>st_Phase = PhaseNone, st_Conditions = [], st_ObservedGeneration = 0, st_ServiceEntryName = [],
        st_ResolvedResources = None, st_Prerequisites = [], st_Feasibility = None, st_Access = [],
        st_FailureContext = None, st_Message = []\<rparr>\<rparr>"

theorem serviceSetName_collides_witness:
  "serviceSetName demo_sha (demo_wsd ''eu-gpu'' ''lab'') = serviceSetName demo_sha (demo_wsd ''eu'' ''gpu-lab'')"
  using serviceSetName_collides [of "demo_wsd ''eu-gpu'' ''lab''" "''eu''" "''gpu''" "''lab''" "demo_wsd ''eu'' ''gpu-lab''" demo_sha]
  by (simp add: demo_wsd_def)

text \<open>
  Waypoint labels stay on the child.  A per-child waypoint name never exceeds 63 characters;
  the labels of the regional mirror namespace never select a waypoint, and the child namespace's
  labels select exactly the waypoint of its own cluster when the mesh is ambient with waypoints
  enabled.
\<close>

theorem mesh_labels_scope:
  assumes "sha_ok sha"
  shows "length (WaypointNameForClusterDeployment sha cd) \<le> 63 \<and>
    map_of (MirrorNamespaceLabels c) ''istio.io/use-waypoint'' = None \<and>
    map_of (NamespaceLabels sha c cd) ''istio.io/use-waypoint'' =
      (if mesh_Mode c = MeshModeAmbient \<and> mesh_WaypointEnabled c
       then Some (WaypointNameForClusterDeployment sha cd) else None) \<and>
    map_ok (NamespaceLabels sha c cd)"
proof -
  have "length (WaypointNameForClusterDeployment sha cd) \<le> 63"
    using assms by (simp add: WaypointNameForClusterDeployment_def Let_def sha_ok_def)
  moreover have "WaypointNameForClusterDeployment sha cd \<noteq> []"
    by (simp add: WaypointNameForClusterDeployment_def Let_def)
  ultimately show ?thesis
    by (cases "mesh_Mode c") (simp_all add: NamespaceLabels_def MirrorNamespaceLabels_def MeshNamespaceLabels_def Let_def map_ok_def Collect_disj_eq)
qed

theorem mesh_labels_scope_witness:
  "map_of (NamespaceLabels demo_sha \<lparr>mesh_Mode = MeshModeAmbient, mesh_WaypointEnabled = True,
     mesh_WaypointNamespace = ''istio-system''\<rparr> ''gpu1'') ''istio.io/use-waypoint'' = Some ''gpu1-waypoint''"
  using mesh_labels_scope [OF demo_sha_ok, of "''gpu1''" "\<lparr>mesh_Mode = MeshModeAmbient, mesh_WaypointEnabled = True,
     mesh_WaypointNamespace = ''istio-system''\<rparr>"]
  by (simp add: WaypointNameForClusterDeployment_def)

end
