(* ===== verification/Call_Trace.thy ===== *)
theory Call_Trace
  imports Operator_Prelude
begin

text \<open>
  Runs that leave a trace.  The controllers call code outside the repository; a model of them
  appends one event per call to a trace that its state carries.  \<open>traced tr P m s Q\<close> says that
  running \<open>m\<close> from \<open>s\<close> only emits events that satisfy \<open>P\<close> in the light of the events before them,
  and ends with \<open>Q\<close>; \<open>tr\<close> reads the trace off the state.  Its rules follow the program text.

  \<open>cstate\<close> is the state of the components that keep nothing but the world and the trace; the
  workspace reconciler adds the object in memory (\<open>Reconciler_Env\<close>).
\<close>

named_theorems traced_rules \<comment> \<open>rules of the \<open>traced\<close> calculus\<close>

section \<open>Histories\<close>

fun hist_ok :: "('e list \<Rightarrow> 'e \<Rightarrow> bool) \<Rightarrow> 'e list \<Rightarrow> 'e list \<Rightarrow> bool" where
  "hist_ok P h [] = True"
| "hist_ok P h (e # es) = (P h e \<and> hist_ok P (h @ [e]) es)"

lemma hist_ok_append: "hist_ok P h (xs @ ys) \<longleftrightarrow> hist_ok P h xs \<and> hist_ok P (h @ xs) ys"
  by (induction xs arbitrary: h) auto

lemma hist_ok_mono: "hist_ok P h es \<Longrightarrow> (\<And>h e. P h e \<Longrightarrow> P' h e) \<Longrightarrow> hist_ok P' h es"
  by (induction es arbitrary: h) auto

lemma hist_ok_mono_ext:
  "hist_ok P h es \<Longrightarrow> (\<And>xs e. P (h @ xs) e \<Longrightarrow> P' (h @ xs) e) \<Longrightarrow> hist_ok P' h es"
proof (induction es arbitrary: h)
  case (Cons e es)
  have "P' h e" using Cons.prems(1) Cons.prems(2) [of "[]" e] by simp
  moreover have "hist_ok P' (h @ [e]) es"
    using Cons.prems(1) Cons.prems(2) [of "e # _"] by (intro Cons.IH) auto
  ultimately show ?case by simp
qed simp

lemma hist_okD: "hist_ok P h (xs @ e # ys) \<Longrightarrow> P (h @ xs) e"
  by (simp add: hist_ok_append)

lemma hist_ok_nth: "hist_ok P h es \<Longrightarrow> i < length es \<Longrightarrow> P (h @ take i es) (es ! i)"
  by (metis hist_okD id_take_nth_drop)

lemma hist_ok_all: "hist_ok (\<lambda>_. p) h es \<longleftrightarrow> (\<forall>e \<in> set es. p e)"
  by (induction es arbitrary: h) auto

section \<open>The calculus\<close>

definition traced ::
  "('s \<Rightarrow> 'e list) \<Rightarrow> ('e list \<Rightarrow> 'e \<Rightarrow> bool) \<Rightarrow> ('s, 'a) state \<Rightarrow> 's \<Rightarrow> ('a \<Rightarrow> 's \<Rightarrow> bool) \<Rightarrow> bool" where
  "traced tr P m s Q \<longleftrightarrow>
     wp m (\<lambda>a s'. (\<exists>es. tr s' = tr s @ es \<and> hist_ok P (tr s) es) \<and> Q a s') s"

lemma traced_return [traced_rules, intro]: "Q a s \<Longrightarrow> traced tr P (State_Monad.return a) s Q"
  by (simp add: traced_def)

lemma traced_bind [traced_rules]:
  assumes "traced tr P m s (\<lambda>a s'. traced tr P (f a) s' Q)"
  shows "traced tr P (State_Monad.bind m f) s Q"
proof -
  have "wp m (\<lambda>a s'. (\<exists>es. tr s' = tr s @ es \<and> hist_ok P (tr s) es) \<and>
      wp (f a) (\<lambda>a s''. (\<exists>es. tr s'' = tr s' @ es \<and> hist_ok P (tr s') es) \<and> Q a s'') s') s"
    using assms by (simp add: traced_def)
  then show ?thesis
    unfolding traced_def wp_bind
  proof (rule wp_mono)
    fix a s'
    assume *: "(\<exists>es. tr s' = tr s @ es \<and> hist_ok P (tr s) es) \<and>
      wp (f a) (\<lambda>a s''. (\<exists>es. tr s'' = tr s' @ es \<and> hist_ok P (tr s') es) \<and> Q a s'') s'"
    then obtain es where es: "tr s' = tr s @ es" "hist_ok P (tr s) es" by blast
    from * show "wp (f a) (\<lambda>a s'. (\<exists>es. tr s' = tr s @ es \<and> hist_ok P (tr s) es) \<and> Q a s') s'"
      by (auto elim!: wp_mono simp: es hist_ok_append)
  qed
qed

lemma traced_get [traced_rules]: "Q s s \<Longrightarrow> traced tr P State_Monad.get s Q"
  by (simp add: traced_def)

lemma traced_if [traced_rules]:
  "(b \<Longrightarrow> traced tr P m s Q) \<Longrightarrow> (\<not> b \<Longrightarrow> traced tr P n s Q) \<Longrightarrow> traced tr P (if b then m else n) s Q"
  by simp

lemma traced_case_sum [traced_rules]:
  "(\<And>x. v = Inl x \<Longrightarrow> traced tr P (f x) s Q) \<Longrightarrow> (\<And>y. v = Inr y \<Longrightarrow> traced tr P (g y) s Q) \<Longrightarrow>
   traced tr P (case v of Inl x \<Rightarrow> f x | Inr y \<Rightarrow> g y) s Q"
  by (cases v) simp_all

lemma traced_case_option [traced_rules]:
  "(v = None \<Longrightarrow> traced tr P f s Q) \<Longrightarrow> (\<And>y. v = Some y \<Longrightarrow> traced tr P (g y) s Q) \<Longrightarrow>
   traced tr P (case v of None \<Rightarrow> f | Some y \<Rightarrow> g y) s Q"
  by (cases v) simp_all

lemma traced_case_prod [traced_rules]:
  "(\<And>x y. v = (x, y) \<Longrightarrow> traced tr P (f x y) s Q) \<Longrightarrow> traced tr P (case v of (x, y) \<Rightarrow> f x y) s Q"
  by (cases v) simp

lemma traced_case_bool [traced_rules]:
  "(b \<Longrightarrow> traced tr P m s Q) \<Longrightarrow> (\<not> b \<Longrightarrow> traced tr P n s Q) \<Longrightarrow>
   traced tr P (case b of True \<Rightarrow> m | False \<Rightarrow> n) s Q"
  by (cases b) simp_all

lemma traced_case_list [traced_rules]:
  "(v = [] \<Longrightarrow> traced tr P f s Q) \<Longrightarrow> (\<And>y ys. v = y # ys \<Longrightarrow> traced tr P (g y ys) s Q) \<Longrightarrow>
   traced tr P (case v of [] \<Rightarrow> f | y # ys \<Rightarrow> g y ys) s Q"
  by (cases v) simp_all

lemma traced_let [traced_rules]: "(\<And>x. x = v \<Longrightarrow> traced tr P (f x) s Q) \<Longrightarrow> traced tr P (Let v f) s Q"
  by simp

lemma traced_weaken:
  "traced tr P m s Q \<Longrightarrow> (\<And>h e. P h e \<Longrightarrow> P' h e) \<Longrightarrow> (\<And>a s'. Q a s' \<Longrightarrow> Q' a s') \<Longrightarrow> traced tr P' m s Q'"
  unfolding traced_def by (erule wp_mono) (blast intro: hist_ok_mono)

text \<open>Use of a fact about an operation inside a larger one.\<close>

lemma traced_lift:
  assumes "traced tr P\<^sub>0 m s R" and "\<And>h e. P\<^sub>0 h e \<Longrightarrow> P h e"
    and "\<And>a s'. R a s' \<Longrightarrow> (\<exists>es. tr s' = tr s @ es) \<Longrightarrow> Q a s'"
  shows "traced tr P m s Q"
proof -
  have "(\<exists>es. tr s' = tr s @ es \<and> hist_ok P (tr s) es) \<and> Q a s'"
    if "(\<exists>es. tr s' = tr s @ es \<and> hist_ok P\<^sub>0 (tr s) es) \<and> R a s'" for a s'
    using that assms(2,3) by (blast intro: hist_ok_mono)
  with assms(1) show ?thesis unfolding traced_def by (rule wp_mono)
qed

lemma traced_lift_hist:
  assumes "traced tr P\<^sub>0 m s R" and "\<And>h e. P\<^sub>0 h e \<Longrightarrow> P h e"
    and "\<And>a s' es. R a s' \<Longrightarrow> tr s' = tr s @ es \<Longrightarrow> hist_ok P\<^sub>0 (tr s) es \<Longrightarrow> Q a s'"
  shows "traced tr P m s Q"
proof -
  have "(\<exists>es. tr s' = tr s @ es \<and> hist_ok P (tr s) es) \<and> Q a s'"
    if "(\<exists>es. tr s' = tr s @ es \<and> hist_ok P\<^sub>0 (tr s) es) \<and> R a s'" for a s'
    using that assms(2,3) by (blast intro: hist_ok_mono)
  with assms(1) show ?thesis unfolding traced_def by (rule wp_mono)
qed

text \<open>The same, where the calls before the operation count.\<close>

lemma traced_lift_ext:
  assumes "traced tr P\<^sub>0 m s R" and "\<And>xs e. P\<^sub>0 (tr s @ xs) e \<Longrightarrow> P (tr s @ xs) e"
    and "\<And>a s' es. R a s' \<Longrightarrow> tr s' = tr s @ es \<Longrightarrow> Q a s'"
  shows "traced tr P m s Q"
proof -
  have "(\<exists>es. tr s' = tr s @ es \<and> hist_ok P (tr s) es) \<and> Q a s'"
    if "(\<exists>es. tr s' = tr s @ es \<and> hist_ok P\<^sub>0 (tr s) es) \<and> R a s'" for a s'
    using that assms(2,3) by (blast intro: hist_ok_mono_ext)
  with assms(1) show ?thesis unfolding traced_def by (rule wp_mono)
qed

lemma traced_wp: "traced tr P m s R \<Longrightarrow> wp m Q s \<Longrightarrow> traced tr P m s Q"
  by (auto simp: traced_def wp_def split: prod.splits)

lemma traced_run:
  assumes "traced tr P m s Q" and "run_state m s = (a, s')"
  obtains es where "tr s' = tr s @ es" and "hist_ok P (tr s) es" and "Q a s'"
  using assms by (auto simp: traced_def wp_def)

section \<open>Weakest preconditions as introduction rules\<close>

named_theorems wp_intros \<comment> \<open>\<open>wp\<close> of a program text, rule by rule\<close>

lemma wp_returnI [wp_intros]: "Q a s \<Longrightarrow> wp (State_Monad.return a) Q s"
  by simp

lemma wp_bindI [wp_intros]: "wp m (\<lambda>a s'. wp (f a) Q s') s \<Longrightarrow> wp (State_Monad.bind m f) Q s"
  by simp

lemma wp_ifI [wp_intros]: "(b \<Longrightarrow> wp m Q s) \<Longrightarrow> (\<not> b \<Longrightarrow> wp n Q s) \<Longrightarrow> wp (if b then m else n) Q s"
  by simp

lemma wp_case_sumI [wp_intros]:
  "(\<And>x. v = Inl x \<Longrightarrow> wp (f x) Q s) \<Longrightarrow> (\<And>y. v = Inr y \<Longrightarrow> wp (g y) Q s) \<Longrightarrow>
   wp (case v of Inl x \<Rightarrow> f x | Inr y \<Rightarrow> g y) Q s"
  by (cases v) simp_all

lemma wp_case_optionI [wp_intros]:
  "(v = None \<Longrightarrow> wp f Q s) \<Longrightarrow> (\<And>y. v = Some y \<Longrightarrow> wp (g y) Q s) \<Longrightarrow>
   wp (case v of None \<Rightarrow> f | Some y \<Rightarrow> g y) Q s"
  by (cases v) simp_all

lemma wp_case_boolI [wp_intros]:
  "(b \<Longrightarrow> wp m Q s) \<Longrightarrow> (\<not> b \<Longrightarrow> wp n Q s) \<Longrightarrow> wp (case b of True \<Rightarrow> m | False \<Rightarrow> n) Q s"
  by (cases b) simp_all

lemma wp_case_prodI [wp_intros]:
  "(\<And>x y. v = (x, y) \<Longrightarrow> wp (f x y) Q s) \<Longrightarrow> wp (case v of (x, y) \<Rightarrow> f x y) Q s"
  by (cases v) simp

lemma wp_letI [wp_intros]: "(\<And>x. x = v \<Longrightarrow> wp (f x) Q s) \<Longrightarrow> wp (Let v f) Q s"
  by simp

section \<open>World and trace\<close>

record ('w, 'e) cstate =
  cs_world :: 'w
  cs_trace :: "'e list"

type_synonym ('w, 'e, 'a) calls = "(('w, 'e) cstate, 'a) state"

definition call :: "('a \<Rightarrow> 'e) \<Rightarrow> ('w \<Rightarrow> 'a \<times> 'w) \<Rightarrow> ('w, 'e, 'a) calls" where
  "call mk f = do {
     s \<leftarrow> State_Monad.get;
     let (a, w') = f (cs_world s);
     State_Monad.set (s\<lparr>cs_world := w', cs_trace := cs_trace s @ [mk a]\<rparr>);
     State_Monad.return a
   }"

abbreviation tsafe ::
  "('e list \<Rightarrow> 'e \<Rightarrow> bool) \<Rightarrow> ('w, 'e, 'a) calls \<Rightarrow> ('w, 'e) cstate \<Rightarrow> ('a \<Rightarrow> ('w, 'e) cstate \<Rightarrow> bool) \<Rightarrow> bool" where
  "tsafe \<equiv> traced cs_trace"

lemma wp_call [wp_rules]: "wp (call mk f) Q s =
    (case f (cs_world s) of (a, w') \<Rightarrow> Q a (s\<lparr>cs_world := w', cs_trace := cs_trace s @ [mk a]\<rparr>))"
  by (simp add: call_def Let_def split: prod.splits)

lemma wp_callI [wp_intros]:
  assumes "\<And>a w'. f (cs_world s) = (a, w') \<Longrightarrow> Q a (s\<lparr>cs_world := w', cs_trace := cs_trace s @ [mk a]\<rparr>)"
  shows "wp (call mk f) Q s"
  using assms by (simp add: wp_call split: prod.split)

lemma tsafe_call [traced_rules]:
  assumes "\<And>a w'. f (cs_world s) = (a, w') \<Longrightarrow>
    P (cs_trace s) (mk a) \<and> Q a (s\<lparr>cs_world := w', cs_trace := cs_trace s @ [mk a]\<rparr>)"
  shows "tsafe P (call mk f) s Q"
  using assms unfolding traced_def wp_call by (auto split: prod.splits intro: exI [of _ "[_]"])

text \<open>
  A component whose run is a single call for its client: it starts with an empty trace, and the
  client sees the result and the next world.
\<close>

definition run_calls :: "('w, 'e, 'a) calls \<Rightarrow> 'w \<Rightarrow> 'a \<times> 'w" where
  "run_calls m w = (case run_state m \<lparr>cs_world = w, cs_trace = []\<rparr> of (a, s') \<Rightarrow> (a, cs_world s'))"

lemma run_calls_wp:
  assumes "wp m Q \<lparr>cs_world = w, cs_trace = []\<rparr>"
  shows "\<exists>s'. snd (run_calls m w) = cs_world s' \<and> Q (fst (run_calls m w)) s'"
  using assms by (auto simp: run_calls_def wp_def split: prod.splits)

text \<open>A state in which nothing has been called yet.\<close>

abbreviation idle :: "'w \<Rightarrow> ('w, 'e) cstate" where
  "idle w \<equiv> \<lparr>cs_world = w, cs_trace = []\<rparr>"

section \<open>Running a component inside another\<close>

definition embed :: "('e \<Rightarrow> 'f) \<Rightarrow> ('w, 'e, 'a) calls \<Rightarrow> ('w, 'f, 'a) calls" where
  "embed f m = do {
     s \<leftarrow> State_Monad.get;
     let (a, t) = run_state m (idle (cs_world s));
     State_Monad.set (s\<lparr>cs_world := cs_world t, cs_trace := cs_trace s @ map f (cs_trace t)\<rparr>);
     State_Monad.return a
   }"

lemma wp_embedI [wp_intros]:
  assumes "\<And>a t. run_state m (idle (cs_world s)) = (a, t) \<Longrightarrow>
    Q a (s\<lparr>cs_world := cs_world t, cs_trace := cs_trace s @ map f (cs_trace t)\<rparr>)"
  shows "wp (embed f m) Q s"
  using assms by (simp add: embed_def Let_def split: prod.split)

lemma wp_embed: "wp (embed f m) Q s =
    wp m (\<lambda>a t. Q a (s\<lparr>cs_world := cs_world t, cs_trace := cs_trace s @ map f (cs_trace t)\<rparr>)) (idle (cs_world s))"
  by (simp add: embed_def wp_def Let_def split: prod.splits)

text \<open>Evaluation of a run on concrete data.\<close>

lemmas call_simps = State_Monad.bind_def State_Monad.return_def State_Monad.get_def State_Monad.set_def
  call_def Let_def

end
