(* ===== verification/Reconciler_Env.thy ===== *)
theory Reconciler_Env
  imports Names Call_Trace
begin

text \<open>
  The world a reconciler runs in.

  The API server, the remote clusters, the event recorder, the route provider and the clock are
  code the repository only calls: they are the functions of \<open>api\<close> and \<open>route_provider\<close>, over a
  world of any type \<open>'w\<close>.  Each call sees the current world and returns a result and the next
  world, so every outcome, failure and interference by other clients is covered.  A remote
  client is identified with the kubeconfig it was built from.

  The state of a run is the world, the \<open>WorkspaceDeployment\<close> object in memory (which the source
  mutates through a pointer) and the trace of calls with their results.  \<open>Update\<close> and
  \<open>Status().Update\<close> also copy the server's answer into the object; the fields this changes after a
  successful write (resource version and the like) are read by no code here, so only the error is
  modelled.
\<close>

section \<open>The outside\<close>

type_synonym kubeconfig = string

record ('w, 'q) api =
  api_get_wsd :: "string \<Rightarrow> string \<Rightarrow> 'w \<Rightarrow> (goerr + 'q WorkspaceDeployment) \<times> 'w"
  api_list_wsds :: "string option \<Rightarrow> 'w \<Rightarrow> (goerr + 'q WorkspaceDeployment list) \<times> 'w"
  api_update_wsd :: "'q WorkspaceDeployment \<Rightarrow> 'w \<Rightarrow> goerr option \<times> 'w"
  api_update_status :: "'q WorkspaceDeployment \<Rightarrow> 'w \<Rightarrow> goerr option \<times> 'w"
  api_get_wsc :: "string \<Rightarrow> 'w \<Rightarrow> (goerr + 'q WorkspaceClass) \<times> 'w"
  api_get_cd :: "string \<Rightarrow> string \<Rightarrow> 'w \<Rightarrow> (goerr + ClusterDeployment) \<times> 'w"
  api_get_ss :: "string \<Rightarrow> string \<Rightarrow> 'w \<Rightarrow> (goerr + ServiceSet) \<times> 'w"
  api_create_ss :: "ServiceSet \<Rightarrow> 'w \<Rightarrow> goerr option \<times> 'w"
  api_update_ss :: "ServiceSet \<Rightarrow> 'w \<Rightarrow> goerr option \<times> 'w"
  api_delete_ss :: "ServiceSet \<Rightarrow> 'w \<Rightarrow> goerr option \<times> 'w"
  api_patch_ss :: "ServiceSet \<Rightarrow> 'w \<Rightarrow> goerr option \<times> 'w"
  api_set_owner :: "'q WorkspaceDeployment \<Rightarrow> ServiceSet \<Rightarrow> goerr + ServiceSet"
  api_contains_finalizer :: "'q WorkspaceDeployment \<Rightarrow> string \<Rightarrow> bool"
  api_add_finalizer :: "'q WorkspaceDeployment \<Rightarrow> string \<Rightarrow> 'q WorkspaceDeployment"
  api_remove_finalizer :: "'q WorkspaceDeployment \<Rightarrow> string \<Rightarrow> 'q WorkspaceDeployment"
  api_find_condition :: "Condition list \<Rightarrow> string \<Rightarrow> Condition option"
  api_get_secret :: "string \<Rightarrow> string \<Rightarrow> 'w \<Rightarrow> (goerr + Secret) \<times> 'w"
  api_list_events :: "string \<Rightarrow> string \<Rightarrow> 'w \<Rightarrow> (goerr + Event list) \<times> 'w"
  api_rest_config :: "kubeconfig \<Rightarrow> goerr option"
  api_new_client :: "kubeconfig \<Rightarrow> 'w \<Rightarrow> goerr option \<times> 'w"
  api_list_nodes :: "kubeconfig \<Rightarrow> 'w \<Rightarrow> (goerr + 'q Node list) \<times> 'w"
  api_list_pods :: "kubeconfig \<Rightarrow> 'w \<Rightarrow> (goerr + 'q Pod list) \<times> 'w"
  api_get_ns :: "kubeconfig \<Rightarrow> string \<Rightarrow> 'w \<Rightarrow> (goerr + Namespace) \<times> 'w"
  api_create_ns :: "kubeconfig \<Rightarrow> Namespace \<Rightarrow> 'w \<Rightarrow> goerr option \<times> 'w"
  api_update_ns :: "kubeconfig \<Rightarrow> Namespace \<Rightarrow> 'w \<Rightarrow> goerr option \<times> 'w"
  api_delete_ns :: "kubeconfig \<Rightarrow> Namespace \<Rightarrow> 'w \<Rightarrow> goerr option \<times> 'w"
  api_eventf :: "string \<Rightarrow> string \<Rightarrow> string \<Rightarrow> string \<Rightarrow> 'w \<Rightarrow> unit \<times> 'w"
  api_now :: "'w \<Rightarrow> int \<times> 'w"

text \<open>\<open>routing.RouteProvider\<close>: the workspace and its endpoints in, entries or an error out.\<close>

record ('w, 'q) route_provider =
  EnsureRoutes :: "'q WorkspaceDeployment \<Rightarrow> AccessEndpoint list \<Rightarrow> 'w \<Rightarrow> (goerr + AccessEntry list) \<times> 'w"
  CleanupRoutes :: "'q WorkspaceDeployment \<Rightarrow> AccessEndpoint list \<Rightarrow> 'w \<Rightarrow> goerr option \<times> 'w"

text \<open>
  \<open>WorkspaceDeploymentReconciler\<close>, with the libraries its functions use: quantities, the hash, the
  JSON decoder and encoder.  A nil recorder or reader is False.
\<close>

record ('w, 'q) reconciler =
  r_api :: "('w, 'q) api"
  r_RouteProvider :: "('w, 'q) route_provider option"
  r_Recorder :: bool
  r_APIReader :: bool
  r_Mesh :: MeshConfig
  r_Q :: "'q qops"
  r_sha :: "string \<Rightarrow> nat list"
  r_decode :: "string \<Rightarrow> goerr + hval"
  r_marshal :: "hmap \<Rightarrow> goerr + string"

text \<open>
  What \<open>controllerutil\<close> documents of its finalizer helpers: membership, insertion and removal, and
  nothing else of the object changes.
\<close>

definition finalizers_ok :: "('w, 'q) reconciler \<Rightarrow> bool" where
  "finalizers_ok r \<longleftrightarrow>
     (\<forall>w f. api_contains_finalizer (r_api r) w f \<longleftrightarrow> f \<in> set (wsd_Finalizers w)) \<and>
     (\<forall>w f. \<exists>fs. api_add_finalizer (r_api r) w f = w\<lparr>wsd_Finalizers := fs\<rparr> \<and> set fs = insert f (set (wsd_Finalizers w))) \<and>
     (\<forall>w f. \<exists>fs. api_remove_finalizer (r_api r) w f = w\<lparr>wsd_Finalizers := fs\<rparr> \<and> set fs = set (wsd_Finalizers w) - {f})"

section \<open>State, trace and calls\<close>

datatype 'q ev =
    EGetWsd "goerr + 'q WorkspaceDeployment"
  | EListWsds "goerr + 'q WorkspaceDeployment list"
  | EUpdateWsd "'q WorkspaceDeployment" "goerr option"
  | EStatus "'q WorkspaceDeployment" "goerr option"
  | EGetWsc string "goerr + 'q WorkspaceClass"
  | EGetCD string string "goerr + ClusterDeployment"
  | EGetSS string string "goerr + ServiceSet"
  | ECreateSS ServiceSet "goerr option"
  | EUpdateSS ServiceSet "goerr option"
  | EDeleteSS ServiceSet "goerr option"
  | EPatchSS ServiceSet "goerr option"
  | EGetSecret "goerr + Secret"
  | EListEvents "goerr + Event list"
  | ENewClient kubeconfig "goerr option"
  | EListNodes kubeconfig "goerr + 'q Node list"
  | EListPods kubeconfig "goerr + 'q Pod list"
  | EGetNs kubeconfig string "goerr + Namespace"
  | ECreateNs kubeconfig Namespace "goerr option"
  | EUpdateNs kubeconfig Namespace "goerr option"
  | EDeleteNs kubeconfig Namespace "goerr option"
  | EEnsureRoutes "goerr + AccessEntry list"
  | ECleanupRoutes "goerr option"
  | EEventf string string string
  | ENow int

record ('w, 'q) rstate =
  rs_world :: 'w
  rs_wsd :: "'q WorkspaceDeployment"
  rs_trace :: "'q ev list"

type_synonym ('w, 'q, 'a) rec = "(('w, 'q) rstate, 'a) state"

definition invoke :: "('a \<Rightarrow> 'q ev) \<Rightarrow> ('w \<Rightarrow> 'a \<times> 'w) \<Rightarrow> ('w, 'q, 'a) rec" where
  "invoke mk f = do {
     s \<leftarrow> State_Monad.get;
     let (a, w') = f (rs_world s);
     State_Monad.set (s\<lparr>rs_world := w', rs_trace := rs_trace s @ [mk a]\<rparr>);
     State_Monad.return a
   }"

definition get_wsd :: "('w, 'q, 'q WorkspaceDeployment) rec" where
  "get_wsd = do { s \<leftarrow> State_Monad.get; State_Monad.return (rs_wsd s) }"

definition put_wsd :: "'q WorkspaceDeployment \<Rightarrow> ('w, 'q, unit) rec" where
  "put_wsd w = State_Monad.update (\<lambda>s. s\<lparr>rs_wsd := w\<rparr>)"

definition modify_wsd :: "('q WorkspaceDeployment \<Rightarrow> 'q WorkspaceDeployment) \<Rightarrow> ('w, 'q, unit) rec" where
  "modify_wsd f = State_Monad.update (\<lambda>s. s\<lparr>rs_wsd := f (rs_wsd s)\<rparr>)"

definition modify_status ::
  "('q WorkspaceDeploymentStatus \<Rightarrow> 'q WorkspaceDeploymentStatus) \<Rightarrow> ('w, 'q, unit) rec" where
  "modify_status f = modify_wsd (\<lambda>w. w\<lparr>wsd_Status := f (wsd_Status w)\<rparr>)"

text \<open>\<open>r.Update(ctx, wsd)\<close>, \<open>r.Status().Update(ctx, wsd)\<close>, \<open>metav1.Now()\<close>, \<open>r.Recorder.Eventf\<close>.\<close>

definition update_wsd :: "('w, 'q) reconciler \<Rightarrow> ('w, 'q, goerr option) rec" where
  "update_wsd r = do { w \<leftarrow> get_wsd; invoke (EUpdateWsd w) (api_update_wsd (r_api r) w) }"

definition update_status :: "('w, 'q) reconciler \<Rightarrow> ('w, 'q, goerr option) rec" where
  "update_status r = do { w \<leftarrow> get_wsd; invoke (EStatus w) (api_update_status (r_api r) w) }"

definition now :: "('w, 'q) reconciler \<Rightarrow> ('w, 'q, int) rec" where
  "now r = invoke ENow (api_now (r_api r))"

definition eventf :: "('w, 'q) reconciler \<Rightarrow> string \<Rightarrow> string \<Rightarrow> string \<Rightarrow> string \<Rightarrow> ('w, 'q, unit) rec" where
  "eventf r etype reason action msg =
     (if r_Recorder r then
        invoke (\<lambda>_. EEventf etype reason msg) (api_eventf (r_api r) etype reason action msg)
      else State_Monad.return ())"

definition get_ss :: "('w, 'q) reconciler \<Rightarrow> string \<Rightarrow> string \<Rightarrow> ('w, 'q, goerr + ServiceSet) rec" where
  "get_ss r ns name = invoke (EGetSS ns name) (api_get_ss (r_api r) ns name)"

definition get_cd :: "('w, 'q) reconciler \<Rightarrow> string \<Rightarrow> string \<Rightarrow> ('w, 'q, goerr + ClusterDeployment) rec" where
  "get_cd r ns name = invoke (EGetCD ns name) (api_get_cd (r_api r) ns name)"

definition get_wsc :: "('w, 'q) reconciler \<Rightarrow> string \<Rightarrow> ('w, 'q, goerr + 'q WorkspaceClass) rec" where
  "get_wsc r name = invoke (EGetWsc name) (api_get_wsc (r_api r) name)"

record Result =
  RequeueAfter :: int      \<comment> \<open>nanoseconds; 0: no requeue\<close>

abbreviation no_requeue :: Result where "no_requeue \<equiv> \<lparr>RequeueAfter = 0\<rparr>"

definition requeueInterval :: int where "requeueInterval = 15000000000"

abbreviation requeue :: Result where "requeue \<equiv> \<lparr>RequeueAfter = requeueInterval\<rparr>"

text \<open>The outcome of a reconcile: a result with an optional error, or a panic.\<close>

datatype reconcile_result = Return Result "goerr option" | Panicked string

section \<open>GetClusterClientForCD (infra/common/regional.go)\<close>

text \<open>
  The function, over the monad of whichever component calls it: \<open>getSecret\<close> is \<open>Get\<close> of a Secret on
  the management cluster, \<open>restConfig\<close> is \<open>clientcmd.RESTConfigFromKubeConfig\<close>, \<open>newClient\<close> is
  \<open>client.New\<close>.
\<close>

definition cluster_client_for_cd ::
  "(string \<Rightarrow> string \<Rightarrow> ('s, goerr + Secret) state) \<Rightarrow> (kubeconfig \<Rightarrow> goerr option) \<Rightarrow>
   (kubeconfig \<Rightarrow> ('s, goerr option) state) \<Rightarrow> string \<Rightarrow> string \<Rightarrow> ('s, goerr + kubeconfig) state" where
  "cluster_client_for_cd getSecret restConfig newClient namespace cdName = do {
     let kubeconfigSecretName = cdName @ ''-kubeconfig'';
     sr \<leftarrow> getSecret namespace kubeconfigSecretName;
     (case sr of
        Inl e \<Rightarrow> State_Monad.return
          (Inl (wrapf (''failed to get cluster kubeconfig secret '' @ fmt_q kubeconfigSecretName) e))
      | Inr secret \<Rightarrow>
          (case map_of (sec_Data secret) ''value'' of
             None \<Rightarrow> State_Monad.return (Inl (errorf (''cluster kubeconfig secret '' @
                       fmt_q kubeconfigSecretName @ '' does not contain key '' @ [CHR 0x27] @ ''value'' @ [CHR 0x27])))
           | Some kc \<Rightarrow>
               (case restConfig kc of
                  Some e \<Rightarrow> State_Monad.return
                    (Inl (wrapf (''failed to create REST config for cluster '' @ fmt_q cdName) e))
                | None \<Rightarrow> do {
                    ne \<leftarrow> newClient kc;
                    (case ne of
                       Some e \<Rightarrow> State_Monad.return
                         (Inl (wrapf (''failed to create client for cluster '' @ fmt_q cdName) e))
                     | None \<Rightarrow> State_Monad.return (Inr kc))
                  })))
   }"

definition GetClusterClientForCD ::
  "('w, 'q) reconciler \<Rightarrow> string \<Rightarrow> string \<Rightarrow> ('w, 'q, goerr + kubeconfig) rec" where
  "GetClusterClientForCD r =
     cluster_client_for_cd (\<lambda>ns name. invoke EGetSecret (api_get_secret (r_api r) ns name))
       (api_rest_config (r_api r)) (\<lambda>kc. invoke (ENewClient kc) (api_new_client (r_api r) kc))"

section \<open>Reasoning about runs\<close>

text \<open>
  \<open>hist_ok P h es\<close>: every event of \<open>es\<close> satisfies \<open>P\<close> in the light of the events before it
  (\<open>h\<close> and the earlier ones of \<open>es\<close>).  \<open>safe P m s Q\<close>: running \<open>m\<close> from \<open>s\<close> only emits such
  events and ends with \<open>Q\<close>.
\<close>

definition safe ::
  "('q ev list \<Rightarrow> 'q ev \<Rightarrow> bool) \<Rightarrow> ('w, 'q, 'a) rec \<Rightarrow> ('w, 'q) rstate
   \<Rightarrow> ('a \<Rightarrow> ('w, 'q) rstate \<Rightarrow> bool) \<Rightarrow> bool" where
  "safe P m s Q \<longleftrightarrow> traced rs_trace P m s Q"

named_theorems safe_rules \<comment> \<open>rules of the \<open>safe\<close> calculus\<close>

lemma safe_return [safe_rules, intro]: "Q a s \<Longrightarrow> safe P (State_Monad.return a) s Q"
  unfolding safe_def by (rule traced_return)

lemma safe_bind [safe_rules]:
  "safe P m s (\<lambda>a s'. safe P (f a) s' Q) \<Longrightarrow> safe P (State_Monad.bind m f) s Q"
  unfolding safe_def by (rule traced_bind)

lemma safe_get [safe_rules]: "Q s s \<Longrightarrow> safe P State_Monad.get s Q"
  unfolding safe_def by (rule traced_get)

lemma safe_if [safe_rules]:
  "(b \<Longrightarrow> safe P m s Q) \<Longrightarrow> (\<not> b \<Longrightarrow> safe P n s Q) \<Longrightarrow> safe P (if b then m else n) s Q"
  by simp

lemma safe_case_sum [safe_rules]:
  "(\<And>x. v = Inl x \<Longrightarrow> safe P (f x) s Q) \<Longrightarrow> (\<And>y. v = Inr y \<Longrightarrow> safe P (g y) s Q) \<Longrightarrow>
   safe P (case v of Inl x \<Rightarrow> f x | Inr y \<Rightarrow> g y) s Q"
  by (cases v) simp_all

lemma safe_case_option [safe_rules]:
  "(v = None \<Longrightarrow> safe P f s Q) \<Longrightarrow> (\<And>y. v = Some y \<Longrightarrow> safe P (g y) s Q) \<Longrightarrow>
   safe P (case v of None \<Rightarrow> f | Some y \<Rightarrow> g y) s Q"
  by (cases v) simp_all

lemma safe_case_prod [safe_rules]:
  "(\<And>x y. v = (x, y) \<Longrightarrow> safe P (f x y) s Q) \<Longrightarrow> safe P (case v of (x, y) \<Rightarrow> f x y) s Q"
  by (cases v) simp

lemma safe_let [safe_rules]: "(\<And>x. x = v \<Longrightarrow> safe P (f x) s Q) \<Longrightarrow> safe P (Let v f) s Q"
  by simp

lemma safe_weaken:
  "safe P m s Q \<Longrightarrow> (\<And>h e. P h e \<Longrightarrow> P' h e) \<Longrightarrow> (\<And>a s'. Q a s' \<Longrightarrow> Q' a s') \<Longrightarrow> safe P' m s Q'"
  unfolding safe_def by (rule traced_weaken)

lemma safe_lift:
  assumes "safe P\<^sub>0 m s R" and "\<And>h e. P\<^sub>0 h e \<Longrightarrow> P h e"
    and "\<And>a s'. R a s' \<Longrightarrow> (\<exists>es. rs_trace s' = rs_trace s @ es) \<Longrightarrow> Q a s'"
  shows "safe P m s Q"
  using assms unfolding safe_def by (rule traced_lift)

lemma safe_run:
  assumes "safe P m s Q" and "run_state m s = (a, s')"
  obtains es where "rs_trace s' = rs_trace s @ es" and "hist_ok P (rs_trace s) es" and "Q a s'"
  using assms(1) [unfolded safe_def] assms(2) by (rule traced_run)

lemma safe_get_wsd [safe_rules]: "Q (rs_wsd s) s \<Longrightarrow> safe P get_wsd s Q"
  by (simp add: safe_def traced_def get_wsd_def)

lemma safe_put_wsd [safe_rules]: "Q () (s\<lparr>rs_wsd := w\<rparr>) \<Longrightarrow> safe P (put_wsd w) s Q"
  by (simp add: safe_def traced_def put_wsd_def)

lemma safe_modify_wsd [safe_rules]: "Q () (s\<lparr>rs_wsd := f (rs_wsd s)\<rparr>) \<Longrightarrow> safe P (modify_wsd f) s Q"
  by (simp add: safe_def traced_def modify_wsd_def)

lemma safe_modify_status [safe_rules]:
  "Q () (s\<lparr>rs_wsd := (rs_wsd s)\<lparr>wsd_Status := f (wsd_Status (rs_wsd s))\<rparr>\<rparr>) \<Longrightarrow> safe P (modify_status f) s Q"
  unfolding modify_status_def by (rule safe_modify_wsd)

lemma wp_invoke: "wp (invoke mk f) Q s =
    (case f (rs_world s) of (a, w') \<Rightarrow> Q a (s\<lparr>rs_world := w', rs_trace := rs_trace s @ [mk a]\<rparr>))"
  by (simp add: invoke_def Let_def split: prod.splits)

lemma safe_invoke [safe_rules]:
  assumes "\<And>a w'. P (rs_trace s) (mk a) \<and> Q a (s\<lparr>rs_world := w', rs_trace := rs_trace s @ [mk a]\<rparr>)"
  shows "safe P (invoke mk f) s Q"
  using assms unfolding safe_def traced_def wp_invoke by (auto split: prod.splits intro: exI [of _ "[_]"])

lemma safe_update_wsd [safe_rules]:
  assumes "\<And>a w'. P (rs_trace s) (EUpdateWsd (rs_wsd s) a) \<and>
     Q a (s\<lparr>rs_world := w', rs_trace := rs_trace s @ [EUpdateWsd (rs_wsd s) a]\<rparr>)"
  shows "safe P (update_wsd r) s Q"
  unfolding update_wsd_def by (intro safe_rules) (rule assms)

lemma safe_update_status [safe_rules]:
  assumes "\<And>a w'. P (rs_trace s) (EStatus (rs_wsd s) a) \<and>
     Q a (s\<lparr>rs_world := w', rs_trace := rs_trace s @ [EStatus (rs_wsd s) a]\<rparr>)"
  shows "safe P (update_status r) s Q"
  unfolding update_status_def by (intro safe_rules) (rule assms)

text \<open>
  Reads.  Events that change nothing and the emission of an event; an operation that emits only
  these and leaves the object in memory alone.
\<close>

fun is_read :: "'q ev \<Rightarrow> bool" where
  "is_read (EUpdateWsd _ _) = False"
| "is_read (EStatus _ _) = False"
| "is_read (ECreateSS _ _) = False"
| "is_read (EUpdateSS _ _) = False"
| "is_read (EDeleteSS _ _) = False"
| "is_read (EPatchSS _ _) = False"
| "is_read (ECreateNs _ _ _) = False"
| "is_read (EUpdateNs _ _ _) = False"
| "is_read (EDeleteNs _ _ _) = False"
| "is_read (EEnsureRoutes _) = False"
| "is_read (ECleanupRoutes _) = False"
| "is_read _ = True"

text \<open>An operation that only reads: what it emits satisfies any \<open>P\<close> that admits reads.\<close>

definition read_only :: "('w, 'q, 'a) rec \<Rightarrow> bool" where
  "read_only m \<longleftrightarrow> (\<forall>s. safe (\<lambda>_ e. is_read e) m s (\<lambda>_ s'. rs_wsd s' = rs_wsd s))"

lemma read_only_safe:
  assumes "read_only m" and "\<And>h e. is_read e \<Longrightarrow> P h e"
    and "\<And>a s'. rs_wsd s' = rs_wsd s \<Longrightarrow> (\<exists>es. rs_trace s' = rs_trace s @ es) \<Longrightarrow> Q a s'"
  shows "safe P m s Q"
  by (rule safe_lift [OF assms(1) [unfolded read_only_def, rule_format]]) (use assms(2,3) in blast)+

lemma read_only_reads:
  assumes "read_only m" and "\<And>h e. is_read e \<Longrightarrow> P h e"
    and "\<And>a s' es. rs_wsd s' = rs_wsd s \<Longrightarrow> rs_trace s' = rs_trace s @ es \<Longrightarrow> list_all is_read es \<Longrightarrow> Q a s'"
  shows "safe P m s Q"
proof -
  have "wp m (\<lambda>a s'. (\<exists>es. rs_trace s' = rs_trace s @ es \<and> hist_ok (\<lambda>_. is_read) (rs_trace s) es) \<and> rs_wsd s' = rs_wsd s) s"
    using assms(1) by (simp add: read_only_def safe_def traced_def)
  moreover have "hist_ok P (rs_trace s) es" if "hist_ok (\<lambda>_. is_read) (rs_trace s) es" for es
    by (rule hist_ok_mono [OF that assms(2)])
  ultimately show ?thesis
    unfolding safe_def traced_def
    by (elim wp_mono) (use assms(3) in \<open>auto simp: hist_ok_all list_all_iff\<close>)
qed

lemma read_only_GetClusterClientForCD: "read_only (GetClusterClientForCD r ns cd)"
  unfolding read_only_def GetClusterClientForCD_def cluster_client_for_cd_def
  by (intro allI safe_rules conjI) simp_all


section \<open>A concrete outside\<close>

text \<open>
  For the witnesses: the world is a clock, every object is absent, every write succeeds.  The
  witnesses replace the functions they need.
\<close>

definition not_found :: goerr where "not_found = \<lparr>ekind = KNotFound, emsg = ''not found''\<rparr>"

definition demo_api :: "(int, int) api" where
  "demo_api =
     \<lparr>api_get_wsd = (\<lambda>_ _ w. (Inl not_found, w)), api_list_wsds = (\<lambda>_ w. (Inr [], w)),
      api_update_wsd = (\<lambda>_ w. (None, w)), api_update_status = (\<lambda>_ w. (None, w)),
      api_get_wsc = (\<lambda>_ w. (Inl not_found, w)), api_get_cd = (\<lambda>_ _ w. (Inl not_found, w)),
      api_get_ss = (\<lambda>_ _ w. (Inl not_found, w)), api_create_ss = (\<lambda>_ w. (None, w)),
      api_update_ss = (\<lambda>_ w. (None, w)), api_delete_ss = (\<lambda>_ w. (None, w)), api_patch_ss = (\<lambda>_ w. (None, w)),
      api_set_owner = (\<lambda>o1 ss. Inr (ss\<lparr>ss_OwnerUIDs := wsd_UID o1 # ss_OwnerUIDs ss\<rparr>)),
      api_contains_finalizer = (\<lambda>w f. f \<in> set (wsd_Finalizers w)),
      api_add_finalizer = (\<lambda>w f. w\<lparr>wsd_Finalizers := (if f \<in> set (wsd_Finalizers w) then wsd_Finalizers w
                                                           else wsd_Finalizers w @ [f])\<rparr>),
      api_remove_finalizer = (\<lambda>w f. w\<lparr>wsd_Finalizers := removeAll f (wsd_Finalizers w)\<rparr>),
      api_find_condition = (\<lambda>cs ty. find (\<lambda>c. c_Type c = ty) cs),
      api_get_secret = (\<lambda>ns nm w. (Inr \<lparr>sec_Name = nm, sec_Namespace = ns, sec_Data = [(''value'', nm)]\<rparr>, w)),
      api_list_events = (\<lambda>_ _ w. (Inr [], w)), api_rest_config = (\<lambda>_. None), api_new_client = (\<lambda>_ w. (None, w)),
      api_list_nodes = (\<lambda>_ w. (Inr [], w)), api_list_pods = (\<lambda>_ w. (Inr [], w)),
      api_get_ns = (\<lambda>_ _ w. (Inl not_found, w)), api_create_ns = (\<lambda>_ _ w. (None, w)),
      api_update_ns = (\<lambda>_ _ w. (None, w)), api_delete_ns = (\<lambda>_ _ w. (None, w)),
      api_eventf = (\<lambda>_ _ _ _ w. ((), w)), api_now = (\<lambda>w. (w, w + 1))\<rparr>"

definition demo_r :: "(int, int) reconciler" where
  "demo_r = \<lparr>r_api = demo_api, r_RouteProvider = None, r_Recorder = True, r_APIReader = True,
     r_Mesh = \<lparr>mesh_Mode = MeshModeAmbient, mesh_WaypointEnabled = True, mesh_WaypointNamespace = ''istio-system''\<rparr>,
     r_Q = int_qops, r_sha = demo_sha, r_decode = (\<lambda>_. Inr (HMap [])), r_marshal = (\<lambda>_. Inr ''values'')\<rparr>"

definition demo_s :: "int WorkspaceDeployment \<Rightarrow> (int, int) rstate" where
  "demo_s w = \<lparr>rs_world = 100, rs_wsd = w, rs_trace = []\<rparr>"

lemma demo_finalizers_ok: "finalizers_ok demo_r"
proof -
  have upd: "\<exists>fs. w\<lparr>wsd_Finalizers := xs\<rparr> = w\<lparr>wsd_Finalizers := fs\<rparr> \<and> set fs = S" if "set xs = S"
    for w :: "int WorkspaceDeployment" and xs S
    using that by blast
  show ?thesis
    unfolding finalizers_ok_def demo_r_def demo_api_def reconciler.simps api.simps
    by (intro conjI allI upd) auto
qed

lemmas demo_env = demo_r_def demo_api_def demo_s_def demo_wsd_def not_found_def

text \<open>Evaluation of a run.\<close>

lemmas run_simps = State_Monad.bind_def State_Monad.return_def State_Monad.get_def State_Monad.set_def
  State_Monad.update_def invoke_def get_wsd_def put_wsd_def modify_wsd_def modify_status_def Let_def

end
