(* ===== verification/Conditions.thy ===== *)
theory Conditions
  imports Reconciler_Env
begin

text \<open>
  \<open>setCondition\<close> of \<open>workspacedeployment_controller.go\<close>: the condition list of a status as a store
  keyed by type (\<open>find_condition\<close> reads it).
\<close>

section \<open>Operations\<close>

text \<open>The loop of \<open>setCondition\<close> over the existing conditions; \<open>c\<close> already carries the time.\<close>

fun put_condition :: "Condition \<Rightarrow> Condition list \<Rightarrow> Condition list" where
  "put_condition c [] = [c]"
| "put_condition c (existing # cs) =
     (if c_Type existing = c_Type c then
        (if c_Status existing \<noteq> c_Status c then c
         else c\<lparr>c_LastTransitionTime := c_LastTransitionTime existing\<rparr>) # cs
      else existing # put_condition c cs)"

definition setCondition :: "('w, 'q) reconciler \<Rightarrow> Condition \<Rightarrow> ('w, 'q, unit) rec" where
  "setCondition r condition = do {
     t \<leftarrow> now r;
     modify_status (\<lambda>st. st\<lparr>st_Conditions :=
       put_condition (condition\<lparr>c_LastTransitionTime := t\<rparr>) (st_Conditions st)\<rparr>)
   }"

definition find_condition :: "Condition list \<Rightarrow> string \<Rightarrow> Condition option" where
  "find_condition cs ty = find (\<lambda>c. c_Type c = ty) cs"

text \<open>The condition literal of the source: the transition time is filled in by \<open>setCondition\<close>.\<close>

definition mk_condition ::
  "'q WorkspaceDeployment \<Rightarrow> string \<Rightarrow> ConditionStatus \<Rightarrow> string \<Rightarrow> string \<Rightarrow> Condition" where
  "mk_condition wsd ty status reason message =
     \<lparr>c_Type = ty, c_Status = status, c_Reason = reason, c_Message = message,
      c_ObservedGeneration = wsd_Generation wsd, c_LastTransitionTime = 0\<rparr>"

definition set_condition ::
  "('w, 'q) reconciler \<Rightarrow> string \<Rightarrow> ConditionStatus \<Rightarrow> string \<Rightarrow> string \<Rightarrow> ('w, 'q, unit) rec" where
  "set_condition r ty status reason message = do {
     w \<leftarrow> get_wsd;
     setCondition r (mk_condition w ty status reason message)
   }"


section \<open>The condition store\<close>

text \<open>What the controllers and their observers rely on: at most one condition per type, a write
  is seen under its type and under no other.\<close>

locale condition_store =
  fixes inv :: "'st \<Rightarrow> bool" and find_cond :: "'st \<Rightarrow> string \<Rightarrow> Condition option"
    and put_cond :: "Condition \<Rightarrow> 'st \<Rightarrow> 'st"
  assumes inv_put: "inv st \<Longrightarrow> inv (put_cond c st)"
    and find_put: "\<exists>t. find_cond (put_cond c st) (c_Type c) = Some (c\<lparr>c_LastTransitionTime := t\<rparr>)"
    and find_other: "ty \<noteq> c_Type c \<Longrightarrow> find_cond (put_cond c st) ty = find_cond st ty"
begin

lemma inv_puts: "inv st \<Longrightarrow> inv (fold put_cond cs st)"
  by (induction cs arbitrary: st) (auto simp: inv_put)

lemma find_puts_other: "\<forall>c \<in> set cs. c_Type c \<noteq> ty \<Longrightarrow> find_cond (fold put_cond cs st) ty = find_cond st ty"
  by (induction cs arbitrary: st) (auto simp: find_other)

text \<open>In a reconcile that sets several conditions, the last one of each type is what is reported.\<close>

lemma find_puts_last:
  assumes "cs = us @ c # vs" and "\<forall>c' \<in> set vs. c_Type c' \<noteq> c_Type c"
  shows "\<exists>t. find_cond (fold put_cond cs st) (c_Type c) = Some (c\<lparr>c_LastTransitionTime := t\<rparr>)"
  using assms find_puts_other [OF assms(2)] find_put by auto

end

definition types_distinct :: "Condition list \<Rightarrow> bool" where
  "types_distinct cs \<longleftrightarrow> distinct (map c_Type cs)"

lemma types_put_condition:
  "map c_Type (put_condition c cs) =
     (if c_Type c \<in> set (map c_Type cs) then map c_Type cs else map c_Type cs @ [c_Type c])"
  by (induction cs) auto

lemma put_condition_distinct: "types_distinct cs \<Longrightarrow> types_distinct (put_condition c cs)"
  by (simp add: types_distinct_def types_put_condition)

lemma find_put_condition:
  "find_condition (put_condition c cs) (c_Type c) =
     Some (case find_condition cs (c_Type c) of
             Some e \<Rightarrow> if c_Status e = c_Status c then c\<lparr>c_LastTransitionTime := c_LastTransitionTime e\<rparr> else c
           | None \<Rightarrow> c)"
  by (induction cs) (auto simp: find_condition_def)

lemma find_put_condition_other:
  "ty \<noteq> c_Type c \<Longrightarrow> find_condition (put_condition c cs) ty = find_condition cs ty"
  by (induction cs) (auto simp: find_condition_def)

interpretation conds: condition_store types_distinct find_condition put_condition
proof
  show "\<exists>t. find_condition (put_condition c cs) (c_Type c) = Some (c\<lparr>c_LastTransitionTime := t\<rparr>)" for c cs
  proof -
    have "\<exists>t. c = c\<lparr>c_LastTransitionTime := t\<rparr>" by (intro exI [of _ "c_LastTransitionTime c"]) simp
    then show ?thesis unfolding find_put_condition by (auto split: option.splits)
  qed
qed (simp_all add: put_condition_distinct find_put_condition_other)

text \<open>Setting a condition emits no write and touches only the conditions.\<close>

lemma safe_set_condition [safe_rules]:
  assumes "\<And>t. P (rs_trace s) (ENow t)"
    and "\<And>t w'. Q () (s\<lparr>rs_world := w', rs_trace := rs_trace s @ [ENow t],
        rs_wsd := (rs_wsd s)\<lparr>wsd_Status := (wsd_Status (rs_wsd s))\<lparr>st_Conditions :=
          put_condition ((mk_condition (rs_wsd s) ty status reason message)\<lparr>c_LastTransitionTime := t\<rparr>)
            (st_Conditions (wsd_Status (rs_wsd s)))\<rparr>\<rparr>\<rparr>)"
  shows "safe P (set_condition r ty status reason message) s Q"
  unfolding set_condition_def setCondition_def now_def
  by (intro safe_rules conjI) (use assms in simp_all)

section \<open>Properties\<close>

text \<open>
  Conditions keep Kubernetes conventions.  \<open>setCondition\<close> keeps at most one condition per
  type, replaces the condition of the given type, leaves the others alone, and moves its
  transition time exactly when the status value changes.
\<close>

theorem setCondition_conventions:
  assumes ok: "types_distinct (st_Conditions (wsd_Status (rs_wsd s)))"
    and run: "run_state (setCondition r c) s = ((), s')"
  defines "old \<equiv> st_Conditions (wsd_Status (rs_wsd s))" and "new \<equiv> st_Conditions (wsd_Status (rs_wsd s'))"
  shows "types_distinct new \<and>
    (\<forall>ty. ty \<noteq> c_Type c \<longrightarrow> find_condition new ty = find_condition old ty) \<and>
    (\<exists>t. t = fst (api_now (r_api r) (rs_world s)) \<and>
       find_condition new (c_Type c) = Some (c\<lparr>c_LastTransitionTime :=
         (case find_condition old (c_Type c) of
            Some e \<Rightarrow> if c_Status e = c_Status c then c_LastTransitionTime e else t
          | None \<Rightarrow> t)\<rparr>))"
proof -
  let ?t = "fst (api_now (r_api r) (rs_world s))"
  have "wp (setCondition r c) (\<lambda>_ s'. st_Conditions (wsd_Status (rs_wsd s')) = put_condition (c\<lparr>c_LastTransitionTime := ?t\<rparr>) old) s"
    by (simp add: setCondition_def now_def wp_invoke modify_status_def modify_wsd_def old_def split: prod.splits)
  from wp_run [OF run this] have new: "new = put_condition (c\<lparr>c_LastTransitionTime := ?t\<rparr>) old" by (simp add: new_def)
  show ?thesis
    using put_condition_distinct [OF ok, of "c\<lparr>c_LastTransitionTime := ?t\<rparr>"]
      find_put_condition [of "c\<lparr>c_LastTransitionTime := ?t\<rparr>" old]
      find_put_condition_other [of _ "c\<lparr>c_LastTransitionTime := ?t\<rparr>" old]
    by (auto simp: new old_def split: option.splits)
qed

theorem setCondition_conventions_witness:
  "\<exists>s'. run_state (setCondition demo_r \<lparr>c_Type = ''Ready'', c_Status = ConditionTrue, c_Reason = ''r'', c_Message = ''m'',
        c_ObservedGeneration = 1, c_LastTransitionTime = 0\<rparr>) (demo_s (demo_wsd ''cd'' ''w'')) = ((), s') \<and>
     types_distinct (st_Conditions (wsd_Status (rs_wsd s')))"
proof -
  let ?m = "setCondition demo_r \<lparr>c_Type = ''Ready'', c_Status = ConditionTrue, c_Reason = ''r'', c_Message = ''m'',
        c_ObservedGeneration = 1, c_LastTransitionTime = 0\<rparr>" and ?s = "demo_s (demo_wsd ''cd'' ''w'')"
  have run: "run_state ?m ?s = ((), snd (run_state ?m ?s))" by (simp add: prod_eq_iff)
  have "types_distinct (st_Conditions (wsd_Status (rs_wsd ?s)))"
    by (simp add: demo_env types_distinct_def)
  from setCondition_conventions [OF this run] run show ?thesis by blast
qed

end
