(* ===== verification/Failure_Context.thy ===== *)
theory Failure_Context
  imports Conditions
begin

text \<open>
  \<open>internal/controller/workspaces/failurecontext.go\<close>: the transition to Failed and the forensics it
  captures.  \<open>sort.Slice\<close> is not stable; the model's order of events with equal time stamps is one
  of the orders it may produce.
\<close>

section \<open>Operations\<close>

definition maxRecentEvents :: nat where "maxRecentEvents = 5"

definition summarize_event :: "Event \<Rightarrow> EventSummary" where
  "summarize_event ev = \<lparr>es_LastSeen = ev_LastTimestamp ev, es_Type = ev_Type ev,
     es_Reason = ev_Reason ev, es_Message = ev_Message ev\<rparr>"

definition recentEvents :: "('w, 'q) reconciler \<Rightarrow> ('w, 'q, EventSummary list) rec" where
  "recentEvents r =
     (if \<not> r_APIReader r then State_Monad.return []
      else do {
        w \<leftarrow> get_wsd;
        er \<leftarrow> invoke EListEvents (api_list_events (r_api r) (wsd_Namespace w) (wsd_Name w));
        (case er of
           Inl _ \<Rightarrow> State_Monad.return []
         | Inr evs \<Rightarrow> State_Monad.return
             (map summarize_event (take maxRecentEvents (sort_key (\<lambda>e. - ev_LastTimestamp e) evs))))
      })"

definition serviceset_summary :: "ServiceSet \<Rightarrow> ServiceSetStatusSummary" where
  "serviceset_summary ss =
     \<lparr>ssss_Name = ss_Name ss, ssss_Deployed = ss_StatusDeployed ss,
      ssss_Services = map (\<lambda>svc. \<lparr>sss_Name = svs_Name svc, sss_State = svs_State svc,
                                   sss_FailureMessage = svs_FailureMessage svc\<rparr>) (ss_StatusServices ss)\<rparr>"

definition buildFailureContext ::
  "('w, 'q) reconciler \<Rightarrow> string \<Rightarrow> string \<Rightarrow> ('w, 'q, FailureContext) rec" where
  "buildFailureContext r reason message = do {
     w \<leftarrow> get_wsd;
     let phase = (if st_Phase (wsd_Status w) = PhaseNone then PhasePending else st_Phase (wsd_Status w));
     sr \<leftarrow> get_ss r (cdr_Namespace (wss_ClusterDeploymentRef (wsd_Spec w))) (serviceSetName (r_sha r) w);
     let summary = (case sr of Inr ss \<Rightarrow> Some (serviceset_summary ss) | Inl _ \<Rightarrow> None);
     t \<leftarrow> now r;
     let current = \<lparr>es_LastSeen = t, es_Type = ''Warning'', es_Reason = reason, es_Message = message\<rparr>;
     recent \<leftarrow> recentEvents r;
     State_Monad.return \<lparr>fc_PhaseWhenFailed = phase, fc_Reason = reason, fc_ServiceSetStatus = summary,
       fc_RecentEvents = take maxRecentEvents (current # recent)\<rparr>
   }"

definition markFailed :: "('w, 'q) reconciler \<Rightarrow> string \<Rightarrow> string \<Rightarrow> ('w, 'q, unit) rec" where
  "markFailed r reason message = do {
     w \<leftarrow> get_wsd;
     (if st_Phase (wsd_Status w) = PhaseFailed \<and> st_FailureContext (wsd_Status w) \<noteq> None then
        modify_status (\<lambda>st. st\<lparr>st_Message := message\<rparr>)
      else do {
        eventf r ''Warning'' reason ''Reconcile'' message;
        fc \<leftarrow> buildFailureContext r reason message;
        modify_status (\<lambda>st. st\<lparr>st_FailureContext := Some fc, st_Phase := PhaseFailed, st_Message := message\<rparr>)
      })
   }"


section \<open>Lemmas\<close>

lemma read_only_recentEvents: "read_only (recentEvents r)"
  unfolding read_only_def recentEvents_def by (intro allI safe_rules conjI) simp_all

lemma safe_eventf [safe_rules]:
  assumes "P (rs_trace s) (EEventf etype reason msg)"
    and "\<And>w'. Q () (s\<lparr>rs_world := w', rs_trace := rs_trace s @ [EEventf etype reason msg]\<rparr>)"
    and "Q () s"
  shows "safe P (eventf r etype reason action msg) s Q"
  unfolding eventf_def by (intro safe_rules conjI) (use assms in simp_all)

text \<open>What a captured context says of the failure.\<close>

definition context_of :: "WorkspaceDeploymentPhase \<Rightarrow> string \<Rightarrow> string \<Rightarrow> FailureContext \<Rightarrow> bool" where
  "context_of phase reason message fc \<longleftrightarrow>
     fc_PhaseWhenFailed fc = (if phase = PhaseNone then PhasePending else phase) \<and>
     fc_Reason fc = reason \<and> length (fc_RecentEvents fc) \<le> 5 \<and>
     (\<exists>t rest. fc_RecentEvents fc =
        \<lparr>es_LastSeen = t, es_Type = ''Warning'', es_Reason = reason, es_Message = message\<rparr> # rest)"

lemma safe_buildFailureContext:
  "safe (\<lambda>_ e. is_read e) (buildFailureContext r reason message) s
     (\<lambda>fc s'. rs_wsd s' = rs_wsd s \<and> context_of (st_Phase (wsd_Status (rs_wsd s))) reason message fc)"
  unfolding buildFailureContext_def get_ss_def now_def
  by (intro safe_rules conjI read_only_safe [OF read_only_recentEvents])
    (auto simp: context_of_def maxRecentEvents_def)

text \<open>The object after \<open>markFailed\<close>: Failed, with a context, everything but phase, message and
  context as before.\<close>

definition failed_from :: "'q WorkspaceDeployment \<Rightarrow> string \<Rightarrow> string \<Rightarrow> 'q WorkspaceDeployment \<Rightarrow> bool" where
  "failed_from w reason message w' \<longleftrightarrow>
     (\<exists>fc. w' = w\<lparr>wsd_Status := (wsd_Status w)\<lparr>st_FailureContext := Some fc, st_Phase := PhaseFailed, st_Message := message\<rparr>\<rparr> \<and>
        (if st_Phase (wsd_Status w) = PhaseFailed \<and> st_FailureContext (wsd_Status w) \<noteq> None
         then st_FailureContext (wsd_Status w) = Some fc
         else context_of (st_Phase (wsd_Status w)) reason message fc))"

lemma failed_from_phase: "failed_from w reason message w' \<Longrightarrow> st_Phase (wsd_Status w') = PhaseFailed"
  by (auto simp: failed_from_def)

lemma safe_markFailed:
  assumes "\<And>h e. is_read e \<Longrightarrow> P h e"
    and "\<And>s'. failed_from (rs_wsd s) reason message (rs_wsd s') \<Longrightarrow> (\<exists>es. rs_trace s' = rs_trace s @ es) \<Longrightarrow> Q () s'"
  shows "safe P (markFailed r reason message) s Q"
proof -
  let ?w = "rs_wsd s"
  have "safe (\<lambda>_ e. is_read e) (markFailed r reason message) s (\<lambda>_ s'. failed_from ?w reason message (rs_wsd s'))"
    unfolding markFailed_def
  proof (intro safe_rules conjI)
    assume "st_Phase (wsd_Status ?w) = PhaseFailed \<and> st_FailureContext (wsd_Status ?w) \<noteq> None"
    then show "failed_from ?w reason message (rs_wsd (s\<lparr>rs_wsd := ?w\<lparr>wsd_Status := (wsd_Status ?w)\<lparr>st_Message := message\<rparr>\<rparr>\<rparr>))"
      by (auto simp: failed_from_def intro!: WorkspaceDeploymentStatus.equality WorkspaceDeployment.equality)
  qed (auto intro!: safe_weaken [OF safe_buildFailureContext] safe_rules simp: failed_from_def)
  then show ?thesis by (rule safe_lift) (use assms in auto)
qed

section \<open>Properties\<close>

text \<open>
  The first failure is the one described.  \<open>markFailed\<close> makes the phase Failed and sets the
  message; it writes nothing to the API server.  If the workspace was already Failed with a
  context, that context is kept; otherwise the new context names the phase the failure happened in
  (Pending for a fresh object), the reason, and at most five events of which the first is this
  failure.
\<close>

theorem markFailed_first_capture_wins:
  assumes "run_state (markFailed r reason message) s = ((), s')"
  shows "failed_from (rs_wsd s) reason message (rs_wsd s') \<and>
    (\<exists>es. rs_trace s' = rs_trace s @ es \<and> list_all is_read es)"
proof -
  have "safe (\<lambda>_ e. is_read e) (markFailed r reason message) s (\<lambda>_ s'. failed_from (rs_wsd s) reason message (rs_wsd s'))"
    by (rule safe_markFailed) simp_all
  then obtain es where "rs_trace s' = rs_trace s @ es" "hist_ok (\<lambda>_ e. is_read e) (rs_trace s) es"
    "failed_from (rs_wsd s) reason message (rs_wsd s')" using safe_run assms by metis
  moreover have "hist_ok (\<lambda>_ e. is_read e) h xs \<Longrightarrow> list_all is_read xs" for h and xs :: "'b ev list"
    by (induction xs arbitrary: h) auto
  ultimately show ?thesis by blast
qed

theorem markFailed_first_capture_wins_witness:
  "\<exists>s'. run_state (markFailed demo_r ''Boom'' ''it broke'') (demo_s (demo_wsd ''cd'' ''w'')) = ((), s') \<and>
     failed_from (demo_wsd ''cd'' ''w'') ''Boom'' ''it broke'' (rs_wsd s')"
proof -
  let ?m = "markFailed demo_r ''Boom'' ''it broke''" and ?s = "demo_s (demo_wsd ''cd'' ''w'')"
  have run: "run_state ?m ?s = ((), snd (run_state ?m ?s))" by (simp add: prod_eq_iff)
  have "rs_wsd ?s = demo_wsd ''cd'' ''w''" by (simp add: demo_s_def)
  with markFailed_first_capture_wins [OF run] run show ?thesis by metis
qed

end
