(* ===== verification/Namespaces.thy ===== *)
theory Namespaces
  imports Failure_Context
begin

text \<open>
  \<open>internal/controller/workspaces/namespace.go\<close>: the per-workspace namespace on the child cluster.
\<close>

section \<open>Operations\<close>

definition getChildClusterClient :: "('w, 'q) reconciler \<Rightarrow> ('w, 'q, goerr + kubeconfig) rec" where
  "getChildClusterClient r = do {
     w \<leftarrow> get_wsd;
     let cdRef = wss_ClusterDeploymentRef (wsd_Spec w);
     GetClusterClientForCD r (cdr_Namespace cdRef) (cdr_Name cdRef)
   }"

definition workspaceNamespaceLabels :: "string \<Rightarrow> labels \<Rightarrow> labels" where
  "workspaceNamespaceLabels workspaceName meshLabels = mput_all meshLabels [(LabelWorkspace, workspaceName)]"

definition apply_label :: "labels \<times> bool \<Rightarrow> string \<times> string \<Rightarrow> labels \<times> bool" where
  "apply_label st kv =
     (if lget (fst st) (fst kv) \<noteq> snd kv then (mput (fst kv) (snd kv) (fst st), True) else st)"

definition applyMissingLabels :: "Namespace \<Rightarrow> labels \<Rightarrow> Namespace \<times> bool" where
  "applyMissingLabels obj desired =
     (let labels0 = (if ns_Labels obj = None \<and> desired \<noteq> [] then Some [] else ns_Labels obj)
      in case labels0 of
           None \<Rightarrow> (obj, False)
         | Some l \<Rightarrow>
             (let (l', changed) = foldl apply_label (l, False) desired
              in (obj\<lparr>ns_Labels := Some l'\<rparr>, changed)))"

definition ensureWorkspaceNamespace ::
  "('w, 'q) reconciler \<Rightarrow> kubeconfig \<Rightarrow> labels \<Rightarrow> ('w, 'q, goerr + bool) rec" where
  "ensureWorkspaceNamespace r child meshLabels = do {
     w \<leftarrow> get_wsd;
     let nsName = workspaceNamespaceName w;
     let desired = workspaceNamespaceLabels (wsd_Name w) meshLabels;
     nr \<leftarrow> invoke (EGetNs child nsName) (api_get_ns (r_api r) child nsName);
     (case nr of
        Inl e \<Rightarrow>
          if IsNotFound e then do {
            let ns = \<lparr>ns_Name = nsName, ns_Labels = Some desired, ns_DeletionTimestamp = 0\<rparr>;
            ce \<leftarrow> invoke (ECreateNs child ns) (api_create_ns (r_api r) child ns);
            (case ce of
               None \<Rightarrow> State_Monad.return (Inr True)
             | Some e \<Rightarrow> if IsAlreadyExists e then State_Monad.return (Inr False)
                         else State_Monad.return (Inl e))
          }
          else State_Monad.return (Inl e)
      | Inr ns \<Rightarrow>
          if ns_DeletionTimestamp ns \<noteq> 0 then State_Monad.return (Inr False)
          else
            (let (ns', changed) = applyMissingLabels ns desired in
             if changed then do {
               ue \<leftarrow> invoke (EUpdateNs child ns') (api_update_ns (r_api r) child ns');
               (case ue of None \<Rightarrow> State_Monad.return (Inr True) | Some e \<Rightarrow> State_Monad.return (Inl e))
             }
             else State_Monad.return (Inr True)))
   }"

definition deleteWorkspaceNamespace ::
  "('w, 'q) reconciler \<Rightarrow> kubeconfig \<Rightarrow> ('w, 'q, goerr + bool) rec" where
  "deleteWorkspaceNamespace r child = do {
     w \<leftarrow> get_wsd;
     let nsName = workspaceNamespaceName w;
     nr \<leftarrow> invoke (EGetNs child nsName) (api_get_ns (r_api r) child nsName);
     (case nr of
        Inl e \<Rightarrow> if IsNotFound e then State_Monad.return (Inr True) else State_Monad.return (Inl e)
      | Inr ns \<Rightarrow>
          if ns_DeletionTimestamp ns \<noteq> 0 then State_Monad.return (Inr True)
          else do {
            de \<leftarrow> invoke (EDeleteNs child ns) (api_delete_ns (r_api r) child ns);
            (case de of
               None \<Rightarrow> State_Monad.return (Inr True)
             | Some e \<Rightarrow> if IsNotFound e then State_Monad.return (Inr True) else State_Monad.return (Inl e))
          })
   }"


section \<open>Lemmas\<close>

lemma read_only_getChildClusterClient: "read_only (getChildClusterClient r)"
  unfolding read_only_def getChildClusterClient_def
  by (intro allI safe_rules read_only_safe [OF read_only_GetClusterClientForCD]) simp_all

lemma lget_apply_label: "lget (fst (apply_label st kv)) k = (if k = fst kv then snd kv else lget (fst st) k)"
  by (auto simp: apply_label_def)

lemma lget_foldl_apply_label:
  assumes "map_ok desired"
  shows "lget (fst (foldl apply_label st desired)) k = (case map_of desired k of Some v \<Rightarrow> v | None \<Rightarrow> lget (fst st) k)"
  using assms
proof (induction desired arbitrary: st)
  case (Cons kv desired)
  then have ok: "map_ok desired" and notin: "fst kv \<notin> fst ` set desired" by (auto simp: map_ok_def)
  have "map_of desired (fst kv) = None" using notin by (simp add: map_of_eq_None_iff)
  then show ?case
    by (cases kv) (simp add: Cons.IH [OF ok] lget_apply_label split: option.split)
qed simp

lemma changed_foldl_apply_label:
  assumes "map_ok desired"
  shows "snd (foldl apply_label st desired) \<longleftrightarrow> snd st \<or> (\<exists>(k, v) \<in> set desired. lget (fst st) k \<noteq> v)"
  using assms
proof (induction desired arbitrary: st)
  case (Cons kv desired)
  then have ok: "map_ok desired" and notin: "fst kv \<notin> fst ` set desired" by (auto simp: map_ok_def)
  have "(\<exists>(k, v) \<in> set desired. lget (fst (apply_label st kv)) k \<noteq> v) \<longleftrightarrow> (\<exists>(k, v) \<in> set desired. lget (fst st) k \<noteq> v)"
  proof (intro bex_cong refl)
    fix x assume "x \<in> set desired"
    with notin have "fst x \<noteq> fst kv" by (metis imageI)
    then show "(case x of (k, v) \<Rightarrow> lget (fst (apply_label st kv)) k \<noteq> v) \<longleftrightarrow> (case x of (k, v) \<Rightarrow> lget (fst st) k \<noteq> v)"
      by (simp add: lget_apply_label split_beta)
  qed
  moreover have "snd (apply_label st kv) \<longleftrightarrow> snd st \<or> lget (fst st) (fst kv) \<noteq> snd kv"
    by (simp add: apply_label_def)
  ultimately show ?case using Cons.IH [OF ok, of "apply_label st kv"] by (auto simp: split_beta)
qed simp

text \<open>Labels of a namespace as Go reads them: a nil map has none.\<close>

definition ns_label :: "Namespace \<Rightarrow> string \<Rightarrow> string" where
  "ns_label ns k = (case ns_Labels ns of None \<Rightarrow> [] | Some l \<Rightarrow> lget l k)"

lemma applyMissingLabels_spec:
  assumes "map_ok desired"
  shows "ns_label (fst (applyMissingLabels obj desired)) k =
      (case map_of desired k of Some v \<Rightarrow> v | None \<Rightarrow> ns_label obj k)"
    and "snd (applyMissingLabels obj desired) \<longleftrightarrow> (\<exists>(k, v) \<in> set desired. ns_label obj k \<noteq> v)"
    and "ns_Name (fst (applyMissingLabels obj desired)) = ns_Name obj"
    and "ns_DeletionTimestamp (fst (applyMissingLabels obj desired)) = ns_DeletionTimestamp obj"
proof -
  have nil: "lget [] x = []" for x by (simp add: lget_def)
  show "ns_label (fst (applyMissingLabels obj desired)) k =
      (case map_of desired k of Some v \<Rightarrow> v | None \<Rightarrow> ns_label obj k)"
    using lget_foldl_apply_label [OF assms] nil
    by (auto simp: applyMissingLabels_def ns_label_def Let_def split_beta split: option.splits)
  show "snd (applyMissingLabels obj desired) \<longleftrightarrow> (\<exists>(k, v) \<in> set desired. ns_label obj k \<noteq> v)"
    using changed_foldl_apply_label [OF assms] nil
    by (cases "ns_Labels obj"; cases "desired = []")
      (simp_all add: applyMissingLabels_def ns_label_def Let_def split_beta)
qed (simp_all add: applyMissingLabels_def Let_def split_beta split: option.splits)

text \<open>A namespace that is there for good, with every desired label.\<close>

definition settled :: "kubeconfig \<Rightarrow> string \<Rightarrow> labels \<Rightarrow> 'q ev list \<Rightarrow> bool" where
  "settled child nsName desired es \<longleftrightarrow>
     (\<exists>ns. ns_DeletionTimestamp ns = 0 \<and> (\<forall>(k, v) \<in> set desired. ns_label ns k = v) \<and>
        (ECreateNs child ns None \<in> set es \<and> ns_Name ns = nsName \<or>
         EUpdateNs child ns None \<in> set es \<or> EGetNs child nsName (Inr ns) \<in> set es))"

lemma map_of_desired: "map_ok d \<Longrightarrow> (k, v) \<in> set d \<Longrightarrow> map_of d k = Some v"
  by (simp add: map_ok_def)

definition ns_write :: "kubeconfig \<Rightarrow> 'q ev \<Rightarrow> bool" where
  "ns_write child e \<longleftrightarrow> (\<exists>ns x. e = ECreateNs child ns x \<or> e = EUpdateNs child ns x)"

lemma settledI:
  "ns_DeletionTimestamp ns = 0 \<Longrightarrow> \<forall>(k, v) \<in> set desired. ns_label ns k = v \<Longrightarrow>
   (ECreateNs child ns None \<in> set es \<and> ns_Name ns = nsName) \<or> EUpdateNs child ns None \<in> set es \<or>
   EGetNs child nsName (Inr ns) \<in> set es \<Longrightarrow> settled child nsName desired es"
  unfolding settled_def by blast

lemma safe_ensureWorkspaceNamespace:
  assumes labels: "map_ok meshLabels"
  shows "safe (\<lambda>_ e. is_read e \<or> ns_write child e) (ensureWorkspaceNamespace r child meshLabels) s
    (\<lambda>a s'. rs_wsd s' = rs_wsd s \<and>
       (a = Inr True \<longrightarrow> settled child (workspaceNamespaceName (rs_wsd s))
          (workspaceNamespaceLabels (wsd_Name (rs_wsd s)) meshLabels) (rs_trace s')))"
proof -
  let ?w = "rs_wsd s"
  let ?d = "workspaceNamespaceLabels (wsd_Name ?w) meshLabels"
  have "map_ok [(LabelWorkspace, wsd_Name ?w)]" by (simp add: map_ok_def)
  then have ok: "map_ok ?d" by (simp add: workspaceNamespaceLabels_def)
  have created: "\<forall>(k, v) \<in> set ?d. ns_label \<lparr>ns_Name = n, ns_Labels = Some ?d, ns_DeletionTimestamp = 0\<rparr> k = v" for n
    using ok by (auto simp: ns_label_def lget_def map_of_desired)
  have healed: "\<forall>(k, v) \<in> set ?d. ns_label ns' k = v" "ns_DeletionTimestamp ns' = ns_DeletionTimestamp ns"
    if "(ns', c) = applyMissingLabels ns ?d" for ns ns' c
    using applyMissingLabels_spec [OF ok, of ns] map_of_desired [OF ok] by (auto simp flip: that)
  have right: "\<forall>(k, v) \<in> set ?d. ns_label ns k = v" if "(ns', False) = applyMissingLabels ns ?d" for ns ns'
    using applyMissingLabels_spec(2) [OF ok, of ns] by (auto simp flip: that)
  have updated: "settled child n ?d (t @ [e, EUpdateNs child ns' None])"
    if "(ns', c) = applyMissingLabels ns ?d" "ns_DeletionTimestamp ns = 0" for ns ns' c n t e
    using healed [OF that(1)] that(2) by (intro settledI [of ns']) auto
  show ?thesis
    unfolding ensureWorkspaceNamespace_def
    by (intro safe_rules conjI)
      (auto simp: ns_write_def intro: settledI [OF _ created] updated settledI [OF _ right])
qed

lemma safe_deleteWorkspaceNamespace:
  "safe (\<lambda>_ e. is_read e \<or> (\<exists>ns x. e = EDeleteNs child ns x)) (deleteWorkspaceNamespace r child) s
     (\<lambda>a s'. rs_wsd s' = rs_wsd s \<and> a \<noteq> Inr False)"
  unfolding deleteWorkspaceNamespace_def by (intro safe_rules conjI) simp_all

section \<open>Properties\<close>

text \<open>
  A ready namespace is labelled and not terminating.  When \<open>ensureWorkspaceNamespace\<close> reports
  ready, the child cluster has accepted, or already held, a namespace of the workspace's name that
  is not being deleted and carries the workspace label and every mesh label; so no Helm release is
  installed into an unlabelled or terminating namespace.
\<close>

theorem ensureWorkspaceNamespace_ready:
  assumes "map_ok meshLabels"
    and "run_state (ensureWorkspaceNamespace r child meshLabels) s = (Inr True, s')"
  shows "settled child (workspaceNamespaceName (rs_wsd s))
    (workspaceNamespaceLabels (wsd_Name (rs_wsd s)) meshLabels) (rs_trace s')"
  using safe_run [OF safe_ensureWorkspaceNamespace [OF assms(1)] assms(2)] by blast

theorem ensureWorkspaceNamespace_ready_witness:
  "\<exists>s'. run_state (ensureWorkspaceNamespace demo_r ''kc'' [(''istio-injection'', ''enabled'')])
       (demo_s (demo_wsd ''cd'' ''w'')) = (Inr True, s') \<and>
     settled ''kc'' ''ws-w'' [(''workspaces.exalsius.ai/workspace'', ''w''), (''istio-injection'', ''enabled'')] (rs_trace s')"
proof -
  let ?m = "ensureWorkspaceNamespace demo_r ''kc'' [(''istio-injection'', ''enabled'')]"
  let ?s = "demo_s (demo_wsd ''cd'' ''w'')"
  have "fst (run_state ?m ?s) = Inr True"
    by (simp add: ensureWorkspaceNamespace_def run_simps demo_env)
  then have run: "run_state ?m ?s = (Inr True, snd (run_state ?m ?s))" by (simp add: prod_eq_iff)
  have "map_ok [(''istio-injection'', ''enabled'')]" by (simp add: map_ok_def)
  from ensureWorkspaceNamespace_ready [OF this run] run show ?thesis
    by (intro exI [of _ "snd (run_state ?m ?s)"])
      (simp add: demo_s_def demo_wsd_def workspaceNamespaceName_def WorkspaceNamespaceName_def
        workspaceNamespaceLabels_def LabelWorkspace_def)
qed

end
