(* ===== verification/Service_Sets.thy ===== *)
theory Service_Sets
  imports Namespaces
begin

text \<open>
  \<open>internal/controller/workspaces/service_apply.go\<close>: the workspace's ServiceSet.  A timeout goes
  through \<open>Duration.String\<close> and \<open>time.ParseDuration\<close>, which are inverse to each other, so only the
  default for zero is left of \<open>parseDuration\<close>.
\<close>

section \<open>Operations\<close>

definition defaultStateManagementProvider :: string where
  "defaultStateManagementProvider = ''ksm-projectsveltos''"

definition default_timeout :: int where "default_timeout = 15 * 60 * 1000000000"

definition parseDuration :: "int \<Rightarrow> int" where
  "parseDuration d = (if d = 0 then default_timeout else d)"

definition deploy_timeout :: "int option \<Rightarrow> int" where
  "deploy_timeout t = (case t of None \<Rightarrow> parseDuration default_timeout | Some d \<Rightarrow> parseDuration d)"

definition workspace_service ::
  "'q WorkspaceDeployment \<Rightarrow> 'q WorkspaceClass \<Rightarrow> string \<Rightarrow> ServiceWithValues" where
  "workspace_service wsd wsc mergedValues =
     \<lparr>svc_Name = serviceEntryName wsd, svc_Namespace = workspaceNamespaceName wsd,
      svc_Template = str_Name (wsc_ServiceTemplate (wsc_Spec wsc)), svc_Values = mergedValues,
      svc_HelmOptions = \<lparr>ho_Wait = True, ho_Timeout = deploy_timeout (wsc_DeployTimeout (wsc_Spec wsc)),
                         ho_CreateNamespace = False\<rparr>\<rparr>"

definition cd_namespace :: "'q WorkspaceDeployment \<Rightarrow> string" where
  "cd_namespace wsd = cdr_Namespace (wss_ClusterDeploymentRef (wsd_Spec wsd))"

definition ensureWorkspaceServiceSet ::
  "('w, 'q) reconciler \<Rightarrow> 'q WorkspaceClass \<Rightarrow> string \<Rightarrow> ('w, 'q, goerr option) rec" where
  "ensureWorkspaceServiceSet r wsc mergedValues = do {
     wsd \<leftarrow> get_wsd;
     let cdRef = wss_ClusterDeploymentRef (wsd_Spec wsd);
     let ssName = serviceSetName (r_sha r) wsd;
     let svc = workspace_service wsd wsc mergedValues;
     er \<leftarrow> get_ss r (cdr_Namespace cdRef) ssName;
     (case er of
        Inr existing \<Rightarrow> do {
          let ss = existing\<lparr>ss_Services := [svc]\<rparr>;
          ue \<leftarrow> invoke (EUpdateSS ss) (api_update_ss (r_api r) ss);
          (case ue of
             Some e \<Rightarrow> State_Monad.return (Some (wrapf ''failed to update ServiceSet'' e))
           | None \<Rightarrow> State_Monad.return None)
        }
      | Inl e \<Rightarrow>
          if \<not> IsNotFound e then State_Monad.return (Some (wrapf ''failed to get ServiceSet'' e))
          else
            (case api_set_owner (r_api r) wsd
                    \<lparr>ss_Name = ssName, ss_Namespace = cdr_Namespace cdRef,
                     ss_Labels = [(''ksm.k0rdent.mirantis.com/adapter'', ''kcm-controller-manager'')],
                     ss_Finalizers = [], ss_DeletionTimestamp = 0, ss_OwnerUIDs = [],
                     ss_Cluster = cdr_Name cdRef, ss_Provider = defaultStateManagementProvider,
                     ss_Services = [svc], ss_StatusDeployed = False, ss_StatusServices = []\<rparr> of
               Inl oe \<Rightarrow> State_Monad.return (Some (wrapf ''failed to set owner reference on ServiceSet'' oe))
             | Inr ss \<Rightarrow> do {
                 ce \<leftarrow> invoke (ECreateSS ss) (api_create_ss (r_api r) ss);
                 (case ce of
                    Some e \<Rightarrow> State_Monad.return (Some (wrapf ''failed to create ServiceSet'' e))
                  | None \<Rightarrow> State_Monad.return None)
               }))
   }"

text \<open>The re-check at the end of \<open>ensureWorkspaceServiceSetDeleted\<close>.\<close>

definition recheck_serviceset :: "('w, 'q) reconciler \<Rightarrow> string \<Rightarrow> string \<Rightarrow> ('w, 'q, goerr + bool) rec" where
  "recheck_serviceset r ns ssName = do {
     er \<leftarrow> get_ss r ns ssName;
     (case er of
        Inl e \<Rightarrow>
          if IsNotFound e then State_Monad.return (Inr True)
          else State_Monad.return (Inl (wrapf ''failed to re-check ServiceSet'' e))
      | Inr _ \<Rightarrow> State_Monad.return (Inr False))
   }"

definition ensureWorkspaceServiceSetDeleted :: "('w, 'q) reconciler \<Rightarrow> ('w, 'q, goerr + bool) rec" where
  "ensureWorkspaceServiceSetDeleted r = do {
     wsd \<leftarrow> get_wsd;
     let ssName = serviceSetName (r_sha r) wsd;
     let ns = cdr_Namespace (wss_ClusterDeploymentRef (wsd_Spec wsd));
     er \<leftarrow> get_ss r ns ssName;
     (case er of
        Inl e \<Rightarrow>
          if IsNotFound e then State_Monad.return (Inr True)
          else State_Monad.return (Inl (wrapf ''failed to get ServiceSet'' e))
      | Inr ss \<Rightarrow> do {
          de \<leftarrow> (if ss_DeletionTimestamp ss = 0
                 then invoke (EDeleteSS ss) (api_delete_ss (r_api r) ss)
                 else State_Monad.return None);
          (case de of
             Some e \<Rightarrow>
               if \<not> IsNotFound e then State_Monad.return (Inl (wrapf ''failed to delete ServiceSet'' e))
               else recheck_serviceset r ns ssName
           | None \<Rightarrow> recheck_serviceset r ns ssName)
        })
   }"

text \<open>The patch at the end of \<open>forceDeleteWorkspaceServiceSet\<close>: drop the finalizers.\<close>

definition clear_finalizers :: "('w, 'q) reconciler \<Rightarrow> ServiceSet \<Rightarrow> ('w, 'q, goerr option) rec" where
  "clear_finalizers r ss =
     (if ss_Finalizers ss \<noteq> [] then do {
        let ss' = ss\<lparr>ss_Finalizers := []\<rparr>;
        pe \<leftarrow> invoke (EPatchSS ss') (api_patch_ss (r_api r) ss');
        (case pe of
           Some e \<Rightarrow>
             if \<not> IsNotFound e then State_Monad.return (Some (wrapf ''failed to clear ServiceSet finalizers'' e))
             else State_Monad.return None
         | None \<Rightarrow> State_Monad.return None)
      }
      else State_Monad.return None)"

definition forceDeleteWorkspaceServiceSet :: "('w, 'q) reconciler \<Rightarrow> ('w, 'q, goerr option) rec" where
  "forceDeleteWorkspaceServiceSet r = do {
     wsd \<leftarrow> get_wsd;
     let ssName = serviceSetName (r_sha r) wsd;
     let ns = cdr_Namespace (wss_ClusterDeploymentRef (wsd_Spec wsd));
     er \<leftarrow> get_ss r ns ssName;
     (case er of
        Inl e \<Rightarrow>
          if IsNotFound e then State_Monad.return None
          else State_Monad.return (Some (wrapf ''failed to get ServiceSet'' e))
      | Inr ss \<Rightarrow> do {
          de \<leftarrow> (if ss_DeletionTimestamp ss = 0
                 then invoke (EDeleteSS ss) (api_delete_ss (r_api r) ss)
                 else State_Monad.return None);
          (case de of
             Some e \<Rightarrow>
               if \<not> IsNotFound e then State_Monad.return (Some (wrapf ''failed to delete ServiceSet'' e))
               else clear_finalizers r ss
           | None \<Rightarrow> clear_finalizers r ss)
        })
   }"


section \<open>Lemmas\<close>

text \<open>What \<open>controllerutil.SetOwnerReference\<close> documents: it only adds an owner reference.\<close>

definition owner_ok :: "('w, 'q) reconciler \<Rightarrow> bool" where
  "owner_ok r \<longleftrightarrow> (\<forall>w ss ss'. api_set_owner (r_api r) w ss = Inr ss' \<longrightarrow> (\<exists>os. ss' = ss\<lparr>ss_OwnerUIDs := os\<rparr>))"

lemma owner_services: "owner_ok r \<Longrightarrow> api_set_owner (r_api r) w ss = Inr ss' \<Longrightarrow> ss_Services ss' = ss_Services ss"
  unfolding owner_ok_def by fastforce

lemma demo_owner_ok: "owner_ok demo_r"
  by (auto simp: owner_ok_def demo_env)

definition ss_write :: "ServiceWithValues \<Rightarrow> 'q ev \<Rightarrow> bool" where
  "ss_write svc e \<longleftrightarrow> (\<exists>ss x. ss_Services ss = [svc] \<and> (e = ECreateSS ss x \<or> e = EUpdateSS ss x))"

definition applied :: "ServiceWithValues \<Rightarrow> 'q ev list \<Rightarrow> bool" where
  "applied svc es \<longleftrightarrow> (\<exists>ss. ss_Services ss = [svc] \<and> (ECreateSS ss None \<in> set es \<or> EUpdateSS ss None \<in> set es))"

lemma appliedI: "ss_Services ss = [svc] \<Longrightarrow> ECreateSS ss None \<in> set es \<or> EUpdateSS ss None \<in> set es \<Longrightarrow> applied svc es"
  unfolding applied_def by blast

lemma applied_update: "applied svc (t @ [e, EUpdateSS (ss\<lparr>ss_Services := [svc]\<rparr>) None])"
  by (rule appliedI [of "ss\<lparr>ss_Services := [svc]\<rparr>"]) simp_all

lemma safe_get_ss [safe_rules]:
  assumes "\<And>a w'. P (rs_trace s) (EGetSS ns name a) \<and>
     Q a (s\<lparr>rs_world := w', rs_trace := rs_trace s @ [EGetSS ns name a]\<rparr>)"
  shows "safe P (get_ss r ns name) s Q"
  unfolding get_ss_def by (intro safe_rules) (rule assms)

lemma safe_ensureWorkspaceServiceSet:
  assumes "owner_ok r"
  shows "safe (\<lambda>_ e. is_read e \<or> ss_write (workspace_service (rs_wsd s) wsc vals) e)
    (ensureWorkspaceServiceSet r wsc vals) s
    (\<lambda>a s'. rs_wsd s' = rs_wsd s \<and> (a = None \<longrightarrow> applied (workspace_service (rs_wsd s) wsc vals) (rs_trace s')))"
  unfolding ensureWorkspaceServiceSet_def
  by (intro safe_rules conjI) (auto simp: ss_write_def dest!: owner_services [OF assms] intro: appliedI applied_update)

text \<open>The ServiceSet is known to be gone: a \<open>Get\<close> answered NotFound.\<close>

definition seen_gone :: "string \<Rightarrow> string \<Rightarrow> 'q ev list \<Rightarrow> bool" where
  "seen_gone ns name es \<longleftrightarrow> (\<exists>e. IsNotFound e \<and> EGetSS ns name (Inl e) \<in> set es)"

definition ss_removal :: "'q ev \<Rightarrow> bool" where
  "ss_removal e \<longleftrightarrow> (\<exists>ss x. e = EDeleteSS ss x \<or> e = EPatchSS ss x)"

lemma safe_ensureWorkspaceServiceSetDeleted:
  "safe (\<lambda>_ e. is_read e \<or> ss_removal e) (ensureWorkspaceServiceSetDeleted r) s
     (\<lambda>a s'. rs_wsd s' = rs_wsd s \<and>
        (a = Inr True \<longrightarrow> seen_gone (cd_namespace (rs_wsd s)) (serviceSetName (r_sha r) (rs_wsd s)) (rs_trace s')))"
  unfolding ensureWorkspaceServiceSetDeleted_def recheck_serviceset_def
  by (intro safe_rules conjI) (auto simp: seen_gone_def cd_namespace_def ss_removal_def)

lemma safe_forceDeleteWorkspaceServiceSet:
  "safe (\<lambda>_ e. is_read e \<or> ss_removal e) (forceDeleteWorkspaceServiceSet r) s (\<lambda>a s'. rs_wsd s' = rs_wsd s)"
  unfolding forceDeleteWorkspaceServiceSet_def clear_finalizers_def
  by (intro safe_rules conjI) (auto simp: ss_removal_def)

end
