(* ===== verification/Merge_Resources.thy ===== *)
theory Merge_Resources
  imports Api_Types
begin

text \<open>
  \<open>internal/controller/workspaces/merge.go\<close>: resolving a deployment's resources and Helm
  values against its class.  A Go map variable that may be nil is an \<open>option\<close>; assigning to an
  entry of a nil map panics.  \<open>encoding/json\<close> is the parameter \<open>decode\<close> (the value of a JSON
  text, or the syntax error) and \<open>marshal\<close>.
\<close>

section \<open>Operations\<close>

text \<open>\<open>if p != nil \{ x = p \}\<close>.\<close>

definition override :: "'a option \<Rightarrow> 'a option \<Rightarrow> 'a option" where
  "override user base = (case user of None \<Rightarrow> base | Some v \<Rightarrow> Some v)"

definition mergeResources ::
  "'q WorkspaceResourceSpec \<Rightarrow> 'q WorkspaceResourceSpec option \<Rightarrow> 'q WorkspaceResourceSpec" where
  "mergeResources classDefaults userOverrides =
     (let result = classDefaults\<lparr>ws_PerReplica :=
            (ws_PerReplica classDefaults)\<lparr>rr_GPUType := None, rr_GPUNodeSelector := None\<rparr>\<rparr>
      in case userOverrides of
           None \<Rightarrow> result
         | Some u \<Rightarrow>
             (let r = ws_PerReplica result; p = ws_PerReplica u in
              result\<lparr>
                ws_Replicas := override (ws_Replicas u) (ws_Replicas result),
                ws_PerReplica := r\<lparr>
                  rr_CPU := override (rr_CPU p) (rr_CPU r),
                  rr_Memory := override (rr_Memory p) (rr_Memory r),
                  rr_Storage := override (rr_Storage p) (rr_Storage r),
                  rr_GPUCount := override (rr_GPUCount p) (rr_GPUCount r),
                  rr_GPUVendor := override (rr_GPUVendor p) (rr_GPUVendor r),
                  rr_GPUType := override (rr_GPUType p) (rr_GPUType r),
                  rr_GPUNodeSelector := override (rr_GPUNodeSelector p) (rr_GPUNodeSelector r)\<rparr>\<rparr>))"

text \<open>\<open>json.Unmarshal(raw, &m)\<close> into a \<open>map[string]any\<close>: an object's members are stored into
  \<open>m\<close> (allocated when nil), \<open>null\<close> sets it to nil, any other value is a type error.\<close>

definition json_kind :: "hval \<Rightarrow> string" where
  "json_kind v = (case v of HBool _ \<Rightarrow> ''bool'' | HNum _ \<Rightarrow> ''number'' | HInt _ \<Rightarrow> ''number''
     | HStr _ \<Rightarrow> ''string'' | HArr _ \<Rightarrow> ''array'' | HNull \<Rightarrow> ''null'' | HMap _ \<Rightarrow> ''object'')"

definition unmarshal_map :: "(string \<Rightarrow> goerr + hval) \<Rightarrow> rawjson \<Rightarrow> hmap option \<Rightarrow> goerr + hmap option" where
  "unmarshal_map decode raw m =
     (case decode raw of
        Inl e \<Rightarrow> Inl e
      | Inr (HMap kvs) \<Rightarrow> Inr (Some (mput_all kvs (case m of Some m' \<Rightarrow> m' | None \<Rightarrow> [])))
      | Inr HNull \<Rightarrow> Inr None
      | Inr v \<Rightarrow> Inl (errorf (''json: cannot unmarshal '' @ json_kind v @
                       '' into Go value of type map[string]interface {}'')))"

definition has_raw :: "rawjson option \<Rightarrow> bool" where
  "has_raw j = (case j of Some raw \<Rightarrow> raw \<noteq> [] | None \<Rightarrow> False)"

definition nil_map_panic :: string where
  "nil_map_panic = ''assignment to entry in nil map''"

definition merge_user :: "hmap option \<Rightarrow> hmap option \<Rightarrow> hmap option outcome" where
  "merge_user merged userMap =
     (case (merged, userMap) of
        (_, None) \<Rightarrow> Ok merged
      | (_, Some []) \<Rightarrow> Ok merged
      | (None, Some _) \<Rightarrow> Panic nil_map_panic
      | (Some m, Some u) \<Rightarrow> Ok (Some (mput_all u m)))"

definition mergeValuesMap ::
  "(string \<Rightarrow> goerr + hval) \<Rightarrow> rawjson option \<Rightarrow> rawjson option \<Rightarrow> hmap option outcome" where
  "mergeValuesMap decode classDefaults userValues =
     (case (if has_raw classDefaults then unmarshal_map decode (the classDefaults) (Some []) else Inr (Some [])) of
        Inl e \<Rightarrow> Err (wrapf ''failed to unmarshal class default values'' e)
      | Inr merged \<Rightarrow>
          if has_raw userValues then
            (case unmarshal_map decode (the userValues) None of
               Inl e \<Rightarrow> Err (wrapf ''failed to unmarshal user values'' e)
             | Inr userMap \<Rightarrow> merge_user merged userMap)
          else Ok merged)"

definition serializeValues :: "(hmap \<Rightarrow> goerr + string) \<Rightarrow> hmap option \<Rightarrow> goerr + string" where
  "serializeValues marshal merged =
     (case merged of
        None \<Rightarrow> Inr []
      | Some [] \<Rightarrow> Inr []
      | Some m \<Rightarrow> (case marshal m of
          Inl e \<Rightarrow> Inl (wrapf ''failed to marshal merged values'' e)
        | Inr s \<Rightarrow> Inr s))"

definition mergeValues ::
  "(string \<Rightarrow> goerr + hval) \<Rightarrow> (hmap \<Rightarrow> goerr + string) \<Rightarrow> rawjson option \<Rightarrow> rawjson option \<Rightarrow> string outcome" where
  "mergeValues decode marshal classDefaults userValues =
     (case mergeValuesMap decode classDefaults userValues of
        Err e \<Rightarrow> Err e
      | Panic m \<Rightarrow> Panic m
      | Ok merged \<Rightarrow> (case serializeValues marshal merged of Inl e \<Rightarrow> Err e | Inr s \<Rightarrow> Ok s))"


section \<open>Lemmas\<close>

lemma override_simps [simp]: "override None b = b" "override (Some v) b = Some v"
  by (simp_all add: override_def)

lemma override_None_right [simp]: "override u None = u"
  by (cases u) simp_all

lemma override_eq_None [simp]: "override u b = None \<longleftrightarrow> u = None \<and> b = None"
  by (cases u) simp_all

text \<open>JSON objects as the decoder yields them have distinct keys at the top level.\<close>

definition decode_ok :: "(string \<Rightarrow> goerr + hval) \<Rightarrow> bool" where
  "decode_ok decode \<longleftrightarrow> (\<forall>raw kvs. decode raw = Inr (HMap kvs) \<longrightarrow> map_ok kvs)"

definition object_of :: "(string \<Rightarrow> goerr + hval) \<Rightarrow> rawjson option \<Rightarrow> hmap option" where
  "object_of decode j =
     (case j of None \<Rightarrow> Some [] | Some [] \<Rightarrow> Some []
      | Some raw \<Rightarrow> (case decode raw of Inr (HMap kvs) \<Rightarrow> Some kvs | _ \<Rightarrow> None))"

lemma has_raw_iff: "has_raw j \<longleftrightarrow> (\<exists>raw. j = Some raw \<and> raw \<noteq> [])"
  by (auto simp: has_raw_def split: option.splits)

lemma object_of_raw:
  "object_of decode j = Some kvs \<longleftrightarrow>
     (if has_raw j then decode (the j) = Inr (HMap kvs) else kvs = [])"
  by (auto simp: object_of_def has_raw_def split: option.splits list.splits sum.splits hval.splits)

lemma mput_all_fresh: "map_ok (m @ src) \<Longrightarrow> mput_all src m = m @ src"
proof (induction src arbitrary: m)
  case (Cons kv src)
  have "fst kv \<notin> fst ` set m" using Cons.prems by (auto simp: map_ok_def)
  then have "mput (fst kv) (snd kv) m = m @ [kv]" by (induction m) auto
  with Cons.IH [of "m @ [kv]"] Cons.prems show ?case by simp
qed simp

lemma mput_all_empty [simp]: "map_ok src \<Longrightarrow> mput_all src [] = src"
  by (simp add: mput_all_fresh)

lemma unmarshal_object: "decode raw = Inr (HMap kvs) \<Longrightarrow>
    unmarshal_map decode raw m = Inr (Some (mput_all kvs (case m of Some m' \<Rightarrow> m' | None \<Rightarrow> [])))"
  by (simp add: unmarshal_map_def)

lemma merge_user_Some [simp]: "merge_user (Some m) (Some u) = Ok (Some (mput_all u m))"
  by (cases u) (simp_all add: merge_user_def)

lemma merge_user_panics: "merge_user merged um = Panic m \<longleftrightarrow>
    merged = None \<and> (\<exists>u. um = Some u \<and> u \<noteq> []) \<and> m = nil_map_panic"
  by (auto simp: merge_user_def split: option.splits list.splits)

lemma mergeValuesMap_objects:
  assumes dec: "decode_ok decode"
    and d: "object_of decode dflt = Some d" and u: "object_of decode user = Some u"
  shows "mergeValuesMap decode dflt user = Ok (Some (mput_all u d))"
    and "map_ok d" and "map_ok u"
proof -
  show ok: "map_ok d" "map_ok u"
    using d u dec by (auto simp: object_of_raw decode_ok_def split: if_splits)
  then show "mergeValuesMap decode dflt user = Ok (Some (mput_all u d))"
    using d u by (auto simp: mergeValuesMap_def object_of_raw unmarshal_object split: if_splits)
qed


section \<open>Properties\<close>

text \<open>
  Resolution never inherits GPU targeting.  The resolved GPU model and node selector are
  exactly the deployment's own (absent when it sets none), whatever the class holds; every other
  field is the deployment's value when it sets one and the class default otherwise.
\<close>

theorem mergeResources_spec:
  fixes d :: "'q WorkspaceResourceSpec" and u :: "'q WorkspaceResourceSpec option"
  defines "r \<equiv> ws_PerReplica (mergeResources d u)" and "c \<equiv> ws_PerReplica d"
  shows "rr_GPUType r = Option.bind u (rr_GPUType \<circ> ws_PerReplica) \<and>
    rr_GPUNodeSelector r = Option.bind u (rr_GPUNodeSelector \<circ> ws_PerReplica) \<and>
    ws_Replicas (mergeResources d u) = override (Option.bind u ws_Replicas) (ws_Replicas d) \<and>
    rr_CPU r = override (Option.bind u (rr_CPU \<circ> ws_PerReplica)) (rr_CPU c) \<and>
    rr_Memory r = override (Option.bind u (rr_Memory \<circ> ws_PerReplica)) (rr_Memory c) \<and>
    rr_Storage r = override (Option.bind u (rr_Storage \<circ> ws_PerReplica)) (rr_Storage c) \<and>
    rr_GPUCount r = override (Option.bind u (rr_GPUCount \<circ> ws_PerReplica)) (rr_GPUCount c) \<and>
    rr_GPUVendor r = override (Option.bind u (rr_GPUVendor \<circ> ws_PerReplica)) (rr_GPUVendor c)"
  unfolding r_def c_def by (cases u) (simp_all add: mergeResources_def Let_def)

text \<open>
  User values win.  When the class defaults and the user's values are JSON objects (or absent),
  the merge succeeds and every top-level key has the user's value where the user sets it and the
  class default otherwise.
\<close>

theorem mergeValuesMap_user_wins:
  assumes "decode_ok decode"
    and "object_of decode dflt = Some d" and "object_of decode user = Some u"
  shows "\<exists>m. mergeValuesMap decode dflt user = Ok (Some m) \<and> map_ok m \<and> map_of m = map_of d ++ map_of u"
  using mergeValuesMap_objects [OF assms] by (auto simp: gomap)

definition demo_decode :: "string \<Rightarrow> goerr + hval" where
  "demo_decode raw =
     (if raw = ''defaults'' then Inr (HMap [(''a'', HStr ''1''), (''b'', HStr ''2'')])
      else if raw = ''user'' then Inr (HMap [(''b'', HStr ''3'')])
      else if raw = ''null'' then Inr HNull
      else Inl (errorf ''invalid JSON''))"

lemma demo_decode_ok: "decode_ok demo_decode"
  by (auto simp: decode_ok_def demo_decode_def map_ok_def split: if_splits)

theorem mergeValuesMap_user_wins_witness:
  "\<exists>m. mergeValuesMap demo_decode (Some ''defaults'') (Some ''user'') = Ok (Some m) \<and>
     map_of m ''a'' = Some (HStr ''1'') \<and> map_of m ''b'' = Some (HStr ''3'')"
proof -
  have "object_of demo_decode (Some ''defaults'') = Some [(''a'', HStr ''1''), (''b'', HStr ''2'')]"
    and "object_of demo_decode (Some ''user'') = Some [(''b'', HStr ''3'')]"
    by (simp_all add: object_of_def demo_decode_def)
  from mergeValuesMap_user_wins [OF demo_decode_ok this] show ?thesis by auto
qed

text \<open>
  Class defaults that are JSON \<open>null\<close>.  They turn the merged map into nil, so the merge panics
  exactly when the defaults decode to \<open>null\<close> and the user supplies at least one value; no other
  input makes it panic.
\<close>

theorem mergeValuesMap_panics_iff:
  "(\<exists>m. mergeValuesMap decode dflt user = Panic m) \<longleftrightarrow>
     has_raw dflt \<and> decode (the dflt) = Inr HNull \<and>
     has_raw user \<and> (\<exists>kvs. kvs \<noteq> [] \<and> decode (the user) = Inr (HMap kvs))"
  by (auto simp: mergeValuesMap_def unmarshal_map_def merge_user_panics mput_all_ne_Nil
      split: sum.splits hval.splits if_splits)

end
