(* ===== verification/Prerequisites.thy ===== *)
theory Prerequisites
  imports Service_Sets Merge_Resources
begin

text \<open>
  \<open>internal/controller/workspaces/prerequisites.go\<close> and \<open>reconcilePrerequisites\<close> of
  \<open>workspacedeployment_controller.go\<close>: detecting, judging and installing the services a class
  depends on.
\<close>

section \<open>Operations\<close>

definition isPrerequisiteServiceSet :: "ServiceSet \<Rightarrow> bool" where
  "isPrerequisiteServiceSet ss \<longleftrightarrow> lget (ss_Labels ss) ''workspaces.exalsius.ai/role'' = ''prerequisite''"

definition prerequisite_timeout :: "'q WorkspaceClassSpec \<Rightarrow> int" where
  "prerequisite_timeout spec =
     (case wsc_PrerequisiteDeployTimeout spec of
        Some d \<Rightarrow> parseDuration d
      | None \<Rightarrow> deploy_timeout (wsc_DeployTimeout spec))"

definition prerequisite_values ::
  "('w, 'q) reconciler \<Rightarrow> string \<Rightarrow> rawjson option \<Rightarrow> goerr + string" where
  "prerequisite_values r templateName values =
     (case values of
        None \<Rightarrow> Inr []
      | Some [] \<Rightarrow> Inr []
      | Some raw \<Rightarrow>
          (case unmarshal_map (r_decode r) raw None of
             Inl e \<Rightarrow> Inl (wrapf (''failed to unmarshal prerequisite values for '' @ templateName) e)
           | Inr None \<Rightarrow> Inr ''null''
           | Inr (Some m) \<Rightarrow>
               (case r_marshal r m of
                  Inl e \<Rightarrow> Inl (wrapf (''failed to marshal prerequisite values for '' @ templateName) e)
                | Inr data \<Rightarrow> Inr data)))"

definition prerequisite_serviceset ::
  "('w, 'q) reconciler \<Rightarrow> ClusterDeploymentRef \<Rightarrow> 'q WorkspaceClass \<Rightarrow> PrerequisiteSpec \<Rightarrow> string \<Rightarrow> ServiceSet" where
  "prerequisite_serviceset r cdRef wsc prereq values =
     (let templateName = str_Name (pq_ServiceTemplate prereq) in
      \<lparr>ss_Name = prerequisiteServiceSetName (r_sha r) (cdr_Name cdRef) templateName,
       ss_Namespace = cdr_Namespace cdRef,
       ss_Labels = [(''ksm.k0rdent.mirantis.com/adapter'', ''kcm-controller-manager''),
                    (''workspaces.exalsius.ai/role'', ''prerequisite''),
                    (''workspaces.exalsius.ai/cluster-deployment'', sanitizeLabelValue (r_sha r) (cdr_Name cdRef)),
                    (''workspaces.exalsius.ai/template'', sanitizeLabelValue (r_sha r) templateName)],
       ss_Finalizers = [], ss_DeletionTimestamp = 0, ss_OwnerUIDs = [],
       ss_Cluster = cdr_Name cdRef, ss_Provider = defaultStateManagementProvider,
       ss_Services = [\<lparr>svc_Name = sanitizeServiceEntryName (r_sha r) templateName,
                       svc_Namespace = effectivePrerequisiteNamespace prereq,
                       svc_Template = templateName, svc_Values = values,
                       svc_HelmOptions = \<lparr>ho_Wait = True, ho_Timeout = prerequisite_timeout (wsc_Spec wsc),
                                          ho_CreateNamespace = True\<rparr>\<rparr>],
       ss_StatusDeployed = False, ss_StatusServices = []\<rparr>)"

definition ensurePrerequisiteServiceSet ::
  "('w, 'q) reconciler \<Rightarrow> 'q WorkspaceClass \<Rightarrow> PrerequisiteSpec \<Rightarrow> ('w, 'q, goerr option) rec" where
  "ensurePrerequisiteServiceSet r wsc prereq = do {
     wsd \<leftarrow> get_wsd;
     let cdRef = wss_ClusterDeploymentRef (wsd_Spec wsd);
     let templateName = str_Name (pq_ServiceTemplate prereq);
     let ssName = prerequisiteServiceSetName (r_sha r) (cdr_Name cdRef) templateName;
     er \<leftarrow> get_ss r (cdr_Namespace cdRef) ssName;
     (case er of
        Inr _ \<Rightarrow> State_Monad.return None
      | Inl e \<Rightarrow>
          if \<not> IsNotFound e then
            State_Monad.return (Some (wrapf (''failed to get prerequisite ServiceSet '' @ ssName) e))
          else
            (case prerequisite_values r templateName (pq_Values prereq) of
               Inl ve \<Rightarrow> State_Monad.return (Some ve)
             | Inr values \<Rightarrow> do {
                 let ss = prerequisite_serviceset r cdRef wsc prereq values;
                 ce \<leftarrow> invoke (ECreateSS ss) (api_create_ss (r_api r) ss);
                 (case ce of
                    None \<Rightarrow> State_Monad.return None
                  | Some e \<Rightarrow>
                      if IsAlreadyExists e then State_Monad.return None
                      else State_Monad.return (Some (wrapf (''failed to create prerequisite ServiceSet '' @ ssName) e)))
               }))
   }"

datatype PrerequisitesVerdict =
    PrerequisitesVerdictSatisfied | PrerequisitesVerdictInstalling | PrerequisitesVerdictMissing
  | PrerequisitesVerdictFailed | PrerequisitesVerdictInvalid | PrerequisitesVerdictConflict

definition readPrerequisiteSSState :: "ServiceSet \<Rightarrow> string \<Rightarrow> string \<times> string" where
  "readPrerequisiteSSState ss templateName =
     (case find (\<lambda>svc. svs_Template svc = templateName) (ss_StatusServices ss) of
        Some svc \<Rightarrow> (svs_State svc, svs_FailureMessage svc)
      | None \<Rightarrow> ([], []))"

definition readPrerequisiteSSNamespace :: "ServiceSet \<Rightarrow> string \<Rightarrow> string" where
  "readPrerequisiteSSNamespace ss templateName =
     (case find (\<lambda>svc. svc_Template svc = templateName) (ss_Services ss) of
        Some svc \<Rightarrow> svc_Namespace svc
      | None \<Rightarrow> [])"

definition prerequisiteNamespaceConflict :: "string \<Rightarrow> string \<Rightarrow> bool" where
  "prerequisiteNamespaceConflict explicitNS incumbentNS \<longleftrightarrow>
     explicitNS \<noteq> [] \<and> incumbentNS \<noteq> [] \<and> incumbentNS \<noteq> explicitNS"

definition prerequisiteConflictMsgFragment :: string where
  "prerequisiteConflictMsgFragment = '' is already installed in namespace ''"

definition prerequisiteConflictMessage :: "string \<Rightarrow> string \<Rightarrow> string \<Rightarrow> string \<Rightarrow> string" where
  "prerequisiteConflictMessage template incumbentNS source requestedNS =
     ''prerequisite '' @ fmt_q template @ prerequisiteConflictMsgFragment @ fmt_q incumbentNS @
     '' (source: '' @ source @ ''); this class requests namespace '' @ fmt_q requestedNS"

definition firstConflictPrerequisite :: "PrerequisiteStatus list \<Rightarrow> PrerequisiteStatus option" where
  "firstConflictPrerequisite statuses =
     find (\<lambda>s. ps_Phase s = PrerequisitePhaseFailed \<and>
               str_contains (ps_Message s) prerequisiteConflictMsgFragment) statuses"

text \<open>The three maps built from the ClusterDeployment, as the lookups they are used for.\<close>

definition colonyDeployed :: "ClusterDeployment \<Rightarrow> string \<Rightarrow> bool" where
  "colonyDeployed cd t =
     list_ex (\<lambda>svc. svs_Template svc = t \<and> svs_State svc = ServiceStateDeployed) (cd_StatusServices cd)"

definition colonyKnown :: "ClusterDeployment \<Rightarrow> string \<Rightarrow> bool" where
  "colonyKnown cd t = (list_ex (\<lambda>svc. svs_Template svc = t) (cd_StatusServices cd) \<or>
     list_ex (\<lambda>svc. fst svc = t) (cd_SpecServices cd))"

definition colonyNamespace :: "ClusterDeployment \<Rightarrow> string \<Rightarrow> string" where
  "colonyNamespace cd t =
     (let m1 = foldl (\<lambda>m svc. mput (svs_Template svc) (svs_Namespace svc) m) [] (cd_StatusServices cd);
          m2 = foldl (\<lambda>m svc. if map_of m (fst svc) = None then mput (fst svc) (snd svc) m else m)
                 m1 (cd_SpecServices cd)
      in lget m2 t)"

text \<open>The two ways the loop lowers the overall verdict.\<close>

definition bump_failed :: "PrerequisitesVerdict \<Rightarrow> PrerequisitesVerdict" where
  "bump_failed overall =
     (if overall \<noteq> PrerequisitesVerdictConflict then PrerequisitesVerdictFailed else overall)"

definition bump_wait :: "PrerequisitesVerdict \<Rightarrow> PrerequisitesVerdict \<Rightarrow> PrerequisitesVerdict" where
  "bump_wait v overall =
     (if overall \<noteq> PrerequisitesVerdictFailed \<and> overall \<noteq> PrerequisitesVerdictConflict then v else overall)"

definition prereq_status ::
  "string \<Rightarrow> PrerequisitePhase \<Rightarrow> PrerequisiteSource \<Rightarrow> string \<Rightarrow> string \<Rightarrow> PrerequisiteStatus" where
  "prereq_status nm phase source ns msg =
     \<lparr>ps_Name = nm, ps_Phase = phase, ps_Source = source, ps_Namespace = ns, ps_Message = msg\<rparr>"

text \<open>The body of the loop for one prerequisite: (1) our ServiceSet exists, (2)/(3) it does not.\<close>

definition eval_own ::
  "PrerequisiteSpec \<Rightarrow> ServiceSet \<Rightarrow> PrerequisitesVerdict \<Rightarrow> PrerequisitesVerdict \<times> PrerequisiteStatus" where
  "eval_own prereq ss overall =
     (let t = str_Name (pq_ServiceTemplate prereq);
          ns = readPrerequisiteSSNamespace ss t;
          mk = (\<lambda>phase msg. prereq_status t phase PrerequisiteSourceWorkspace ns msg) in
      if prerequisiteNamespaceConflict (pq_Namespace prereq) ns then
        (PrerequisitesVerdictConflict,
         mk PrerequisitePhaseFailed (prerequisiteConflictMessage t ns ''workspace'' (pq_Namespace prereq)))
      else
        let (ssState, ssMsg) = readPrerequisiteSSState ss t in
        if ssState = ServiceStateDeployed then (overall, mk PrerequisitePhaseSatisfied [])
        else if ssState = ServiceStateFailed then (bump_failed overall, mk PrerequisitePhaseFailed ssMsg)
        else (bump_wait PrerequisitesVerdictInstalling overall, mk PrerequisitePhaseInstalling []))"

definition eval_colony ::
  "PrerequisiteSpec \<Rightarrow> ClusterDeployment \<Rightarrow> PrerequisitesVerdict \<Rightarrow> PrerequisitesVerdict \<times> PrerequisiteStatus" where
  "eval_colony prereq cd overall =
     (let t = str_Name (pq_ServiceTemplate prereq);
          ns = colonyNamespace cd t;
          mk = (\<lambda>phase msg. prereq_status t phase PrerequisiteSourceColony ns msg);
          conflict = (PrerequisitesVerdictConflict,
            mk PrerequisitePhaseFailed (prerequisiteConflictMessage t ns ''colony'' (pq_Namespace prereq))) in
      if colonyDeployed cd t then
        if prerequisiteNamespaceConflict (pq_Namespace prereq) ns then conflict
        else (overall, mk PrerequisitePhaseSatisfied [])
      else if colonyKnown cd t then
        if prerequisiteNamespaceConflict (pq_Namespace prereq) ns then conflict
        else (bump_wait PrerequisitesVerdictInstalling overall, mk PrerequisitePhaseInstalling [])
      else
        (bump_wait PrerequisitesVerdictMissing overall,
         prereq_status t PrerequisitePhasePending PrerequisiteSourceWorkspace
           (effectivePrerequisiteNamespace prereq) []))"

definition version_constraint_status :: "PrerequisiteSpec \<Rightarrow> PrerequisiteStatus" where
  "version_constraint_status prereq =
     \<lparr>ps_Name = str_Name (pq_ServiceTemplate prereq), ps_Phase = PrerequisitePhaseFailed,
      ps_Source = PrerequisiteSourceNone, ps_Namespace = [],
      ps_Message = ''versionConstraint is not yet implemented; specify the exact ServiceTemplate name in prereq.serviceTemplate.name''\<rparr>"

fun eval_loop ::
  "('w, 'q) reconciler \<Rightarrow> ClusterDeploymentRef \<Rightarrow> ClusterDeployment \<Rightarrow> PrerequisiteSpec list
   \<Rightarrow> PrerequisitesVerdict \<Rightarrow> PrerequisiteStatus list
   \<Rightarrow> ('w, 'q, goerr + PrerequisitesVerdict \<times> PrerequisiteStatus list) rec" where
  "eval_loop r cdRef cd [] overall statuses = State_Monad.return (Inr (overall, statuses))"
| "eval_loop r cdRef cd (prereq # prereqs) overall statuses =
     (if str_VersionConstraint (pq_ServiceTemplate prereq) \<noteq> [] then
        State_Monad.return (Inr (PrerequisitesVerdictInvalid, [version_constraint_status prereq]))
      else do {
        let ssName = prerequisiteServiceSetName (r_sha r) (cdr_Name cdRef) (str_Name (pq_ServiceTemplate prereq));
        er \<leftarrow> get_ss r (cdr_Namespace cdRef) ssName;
        (case er of
           Inr ss \<Rightarrow>
             (let (overall', st) = eval_own prereq ss overall in
              eval_loop r cdRef cd prereqs overall' (statuses @ [st]))
         | Inl e \<Rightarrow>
             if IsNotFound e then
               (let (overall', st) = eval_colony prereq cd overall in
                eval_loop r cdRef cd prereqs overall' (statuses @ [st]))
             else
               State_Monad.return (Inl (wrapf (''failed to get prerequisite ServiceSet '' @ ssName) e)))
      })"

definition evaluatePrerequisites ::
  "('w, 'q) reconciler \<Rightarrow> 'q WorkspaceClass
   \<Rightarrow> ('w, 'q, goerr + PrerequisitesVerdict \<times> PrerequisiteStatus list) rec" where
  "evaluatePrerequisites r wsc = do {
     wsd \<leftarrow> get_wsd;
     let cdRef = wss_ClusterDeploymentRef (wsd_Spec wsd);
     cr \<leftarrow> get_cd r (cdr_Namespace cdRef) (cdr_Name cdRef);
     (case cr of
        Inl e \<Rightarrow>
          if IsNotFound e then
            State_Monad.return (Inl (errorf (''ClusterDeployment '' @ cdr_Namespace cdRef @ ''/'' @ cdr_Name cdRef @ '' not found'')))
          else State_Monad.return (Inl e)
      | Inr cd \<Rightarrow>
          eval_loop r cdRef cd (wsc_Prerequisites (wsc_Spec wsc)) PrerequisitesVerdictSatisfied [])
   }"

definition firstFailedPrerequisite :: "PrerequisiteStatus list \<Rightarrow> PrerequisiteStatus" where
  "firstFailedPrerequisite statuses =
     (case find (\<lambda>s. ps_Phase s = PrerequisitePhaseFailed) statuses of
        Some s \<Rightarrow> s
      | None \<Rightarrow> prereq_status [] PrerequisitePhaseNone PrerequisiteSourceNone [] [])"

definition installingMessage :: "PrerequisiteStatus list \<Rightarrow> string" where
  "installingMessage statuses =
     (let inFlight = map ps_Name (filter (\<lambda>s. ps_Phase s = PrerequisitePhaseInstalling \<or>
                                                ps_Phase s = PrerequisitePhasePending) statuses)
      in ''Installing '' @ fmt_d (int (length inFlight)) @ ''/'' @ fmt_d (int (length statuses)) @
         '' prerequisites: '' @ str_join '', '' inFlight)"

text \<open>The loop of the Missing case.  \<open>wsd.Status.Prerequisites\<close> shares the slice, so each phase
  change shows in the object at once.\<close>

fun install_loop ::
  "('w, 'q) reconciler \<Rightarrow> 'q WorkspaceClass \<Rightarrow> PrerequisiteStatus list
   \<Rightarrow> (PrerequisiteStatus \<times> PrerequisiteSpec) list \<Rightarrow> ('w, 'q, goerr + PrerequisiteStatus list) rec" where
  "install_loop r wsc statuses [] = State_Monad.return (Inr statuses)"
| "install_loop r wsc statuses ((st, prereq) # rest) =
     (if ps_Phase st \<noteq> PrerequisitePhasePending then install_loop r wsc (statuses @ [st]) rest
      else do {
        ee \<leftarrow> ensurePrerequisiteServiceSet r wsc prereq;
        (case ee of
           Some e \<Rightarrow> State_Monad.return (Inl e)
         | None \<Rightarrow> do {
             let st' = st\<lparr>ps_Phase := PrerequisitePhaseInstalling\<rparr>;
             modify_status (\<lambda>x. x\<lparr>st_Prerequisites := statuses @ st' # map fst rest\<rparr>);
             install_loop r wsc (statuses @ [st']) rest
           })
      })"

text \<open>The shared part of the Missing and Installing cases: report InstallingPrerequisites.\<close>

definition report_installing ::
  "('w, 'q) reconciler \<Rightarrow> PrerequisiteStatus list \<Rightarrow> ('w, 'q, Result \<times> bool \<times> goerr option) rec" where
  "report_installing r statuses = do {
     modify_status (\<lambda>x. x\<lparr>st_Phase := PhaseInstallingPrerequisites, st_Message := installingMessage statuses\<rparr>);
     set_condition r ConditionPrerequisitesMet ConditionFalse ReasonInstallingPrerequisites (installingMessage statuses);
     ue \<leftarrow> update_status r;
     (case ue of
        Some e \<Rightarrow> State_Monad.return (no_requeue, True, Some e)
      | None \<Rightarrow> State_Monad.return (requeue, True, None))
   }"

text \<open>The shared part of the Invalid, Conflict and Failed cases.\<close>

definition report_failed ::
  "('w, 'q) reconciler \<Rightarrow> string \<Rightarrow> string \<Rightarrow> ('w, 'q, Result \<times> bool \<times> goerr option) rec" where
  "report_failed r reason msg = do {
     markFailed r reason msg;
     set_condition r ConditionPrerequisitesMet ConditionFalse reason msg;
     _ \<leftarrow> update_status r;
     State_Monad.return (no_requeue, True, None)
   }"

definition reconcilePrerequisites ::
  "('w, 'q) reconciler \<Rightarrow> 'q WorkspaceClass \<Rightarrow> ('w, 'q, Result \<times> bool \<times> goerr option) rec" where
  "reconcilePrerequisites r wsc = do {
     ev \<leftarrow> evaluatePrerequisites r wsc;
     (case ev of
        Inl e \<Rightarrow> State_Monad.return (no_requeue, True, Some e)
      | Inr (verdict, statuses) \<Rightarrow> do {
          modify_status (\<lambda>x. x\<lparr>st_Prerequisites := statuses\<rparr>);
          (case verdict of
             PrerequisitesVerdictInvalid \<Rightarrow>
               report_failed r ReasonInvalidPrerequisite
                 (case statuses of [] \<Rightarrow> [] | st # _ \<Rightarrow> ps_Message st)
           | PrerequisitesVerdictConflict \<Rightarrow>
               report_failed r ReasonPrerequisiteNamespaceConflict
                 (ps_Message (case firstConflictPrerequisite statuses of
                    Some c \<Rightarrow> c | None \<Rightarrow> firstFailedPrerequisite statuses))
           | PrerequisitesVerdictFailed \<Rightarrow>
               (let failed = firstFailedPrerequisite statuses in
                report_failed r ReasonPrerequisitesNotReady
                  (''Prerequisite '' @ fmt_q (ps_Name failed) @ '' failed: '' @ ps_Message failed))
           | PrerequisitesVerdictMissing \<Rightarrow> do {
               ir \<leftarrow> install_loop r wsc [] (zip statuses (wsc_Prerequisites (wsc_Spec wsc)));
               (case ir of
                  Inl e \<Rightarrow> State_Monad.return (no_requeue, True, Some e)
                | Inr statuses' \<Rightarrow> do {
                    modify_status (\<lambda>x. x\<lparr>st_Prerequisites := statuses'\<rparr>);
                    report_installing r statuses'
                  })
             }
           | PrerequisitesVerdictInstalling \<Rightarrow> report_installing r statuses
           | PrerequisitesVerdictSatisfied \<Rightarrow> do {
               set_condition r ConditionPrerequisitesMet ConditionTrue ReasonPrerequisitesMet
                 ''All prerequisites are installed'';
               State_Monad.return (no_requeue, False, None)
             })
        })
   }"



section \<open>Lemmas\<close>

lemma safe_get_cd [safe_rules]:
  assumes "\<And>a w'. P (rs_trace s) (EGetCD ns name a) \<and>
     Q a (s\<lparr>rs_world := w', rs_trace := rs_trace s @ [EGetCD ns name a]\<rparr>)"
  shows "safe P (get_cd r ns name) s Q"
  unfolding get_cd_def by (intro safe_rules) (rule assms)

text \<open>The object is changed in its status only.\<close>

definition same_object :: "'q WorkspaceDeployment \<Rightarrow> 'q WorkspaceDeployment \<Rightarrow> bool" where
  "same_object w w' \<longleftrightarrow> (\<exists>st. w' = w\<lparr>wsd_Status := st\<rparr>)"

lemma same_object_refl [simp, intro]: "same_object w w"
  unfolding same_object_def by (intro exI [of _ "wsd_Status w"]) simp

lemma same_object_status [simp, intro]: "same_object w (w\<lparr>wsd_Status := st\<rparr>)"
  unfolding same_object_def by blast

lemma same_object_trans: "same_object w w' \<Longrightarrow> same_object w' w'' \<Longrightarrow> same_object w w''"
  unfolding same_object_def by force

lemma same_object_status_right [simp]: "same_object w (w'\<lparr>wsd_Status := st\<rparr>) \<longleftrightarrow> same_object w w'"
  unfolding same_object_def
  by (metis WorkspaceDeployment.update_convs(9) WorkspaceDeployment.surjective WorkspaceDeployment.ext_inject)

lemma same_object_status_left [simp]: "same_object (w\<lparr>wsd_Status := st\<rparr>) w' \<longleftrightarrow> same_object w w'"
  by (simp add: same_object_def)

lemma same_object_sel:
  assumes "same_object w w'"
  shows "wsd_Spec w' = wsd_Spec w" "wsd_Name w' = wsd_Name w" "wsd_Namespace w' = wsd_Namespace w"
    "wsd_UID w' = wsd_UID w" "wsd_Generation w' = wsd_Generation w" "wsd_Finalizers w' = wsd_Finalizers w"
    "wsd_DeletionTimestamp w' = wsd_DeletionTimestamp w" "wsd_CreationTimestamp w' = wsd_CreationTimestamp w"
  using assms by (auto simp: same_object_def)

lemma failed_from_same: "failed_from w reason m w' \<Longrightarrow> same_object w w'"
  by (auto simp: failed_from_def)

subsection \<open>The verdict\<close>

text \<open>The last prerequisite that is not satisfied decides between Missing and Installing.\<close>

definition last_open :: "PrerequisiteStatus list \<Rightarrow> PrerequisitePhase option" where
  "last_open sts =
     (let xs = filter (\<lambda>s. ps_Phase s \<noteq> PrerequisitePhaseSatisfied) sts in
      if xs = [] then None else Some (ps_Phase (last xs)))"

lemma conflict_message [simp]:
  "str_contains (prerequisiteConflictMessage t i src n) prerequisiteConflictMsgFragment"
proof -
  have "prerequisiteConflictMessage t i src n =
      (''prerequisite '' @ fmt_q t) @ prerequisiteConflictMsgFragment @
      (fmt_q i @ '' (source: '' @ src @ ''); this class requests namespace '' @ fmt_q n)"
    by (simp add: prerequisiteConflictMessage_def)
  then show ?thesis by (simp only: str_contains_mid)
qed

lemma last_open_snoc: "last_open (sts @ [st]) =
    (if ps_Phase st = PrerequisitePhaseSatisfied then last_open sts else Some (ps_Phase st))"
  by (simp add: last_open_def Let_def)

text \<open>The five ways one prerequisite can turn out.\<close>

definition outcome_step :: "PrerequisitesVerdict \<Rightarrow> PrerequisitesVerdict \<Rightarrow> PrerequisiteStatus \<Rightarrow> bool" where
  "outcome_step v v' st \<longleftrightarrow>
     (ps_Phase st = PrerequisitePhaseFailed \<and> str_contains (ps_Message st) prerequisiteConflictMsgFragment \<and>
        v' = PrerequisitesVerdictConflict) \<or>
     (ps_Phase st = PrerequisitePhaseFailed \<and> v' = bump_failed v) \<or>
     (ps_Phase st = PrerequisitePhaseSatisfied \<and> v' = v) \<or>
     (ps_Phase st = PrerequisitePhaseInstalling \<and> v' = bump_wait PrerequisitesVerdictInstalling v) \<or>
     (ps_Phase st = PrerequisitePhasePending \<and> v' = bump_wait PrerequisitesVerdictMissing v)"

lemma eval_own_step:
  "(v', st) = eval_own prereq ss v \<Longrightarrow> outcome_step v v' st \<and> ps_Name st = str_Name (pq_ServiceTemplate prereq)"
  by (auto simp: eval_own_def prereq_status_def outcome_step_def Let_def split: if_splits prod.splits)

lemma eval_colony_step:
  "(v', st) = eval_colony prereq cd v \<Longrightarrow> outcome_step v v' st \<and> ps_Name st = str_Name (pq_ServiceTemplate prereq)"
  by (auto simp: eval_colony_def prereq_status_def outcome_step_def Let_def split: if_splits)

definition some_failed :: "PrerequisiteStatus list \<Rightarrow> bool" where
  "some_failed sts \<longleftrightarrow> (\<exists>s \<in> set sts. ps_Phase s = PrerequisitePhaseFailed)"

definition some_conflict :: "PrerequisiteStatus list \<Rightarrow> bool" where
  "some_conflict sts \<longleftrightarrow> (\<exists>s \<in> set sts. ps_Phase s = PrerequisitePhaseFailed \<and>
     str_contains (ps_Message s) prerequisiteConflictMsgFragment)"

lemma some_snoc:
  "some_failed (sts @ [st]) \<longleftrightarrow> some_failed sts \<or> ps_Phase st = PrerequisitePhaseFailed"
  "some_conflict (sts @ [st]) \<longleftrightarrow> some_conflict sts \<or>
     (ps_Phase st = PrerequisitePhaseFailed \<and> str_contains (ps_Message st) prerequisiteConflictMsgFragment)"
  by (auto simp: some_failed_def some_conflict_def)

lemma some_conflict_failed: "some_conflict sts \<Longrightarrow> some_failed sts"
  by (auto simp: some_failed_def some_conflict_def)

text \<open>The loop invariant: what the verdict says of the statuses collected so far.\<close>

definition verdict_ok :: "PrerequisitesVerdict \<Rightarrow> PrerequisiteStatus list \<Rightarrow> bool" where
  "verdict_ok v sts \<longleftrightarrow>
     (if some_failed sts then v = PrerequisitesVerdictFailed \<or> (v = PrerequisitesVerdictConflict \<and> some_conflict sts)
      else v = (case last_open sts of
                  None \<Rightarrow> PrerequisitesVerdictSatisfied
                | Some ph \<Rightarrow> if ph = PrerequisitePhasePending then PrerequisitesVerdictMissing
                             else PrerequisitesVerdictInstalling))"

lemma verdict_ok_step:
  assumes "verdict_ok v sts" and "outcome_step v v' st"
  shows "verdict_ok v' (sts @ [st])"
proof -
  have nf: "v \<noteq> PrerequisitesVerdictFailed \<and> v \<noteq> PrerequisitesVerdictConflict" if "\<not> some_failed sts"
    using assms(1) that by (auto simp: verdict_ok_def split: option.splits)
  from assms(2) consider
      (conflict) "ps_Phase st = PrerequisitePhaseFailed" "str_contains (ps_Message st) prerequisiteConflictMsgFragment"
        "v' = PrerequisitesVerdictConflict"
    | (failed) "ps_Phase st = PrerequisitePhaseFailed" "v' = bump_failed v"
    | (sat) "ps_Phase st = PrerequisitePhaseSatisfied" "v' = v"
    | (inst) "ps_Phase st = PrerequisitePhaseInstalling" "v' = bump_wait PrerequisitesVerdictInstalling v"
    | (pend) "ps_Phase st = PrerequisitePhasePending" "v' = bump_wait PrerequisitesVerdictMissing v"
    unfolding outcome_step_def by blast
  then show ?thesis
    using assms(1) nf some_conflict_failed [of sts]
    by cases (auto simp: verdict_ok_def some_snoc last_open_snoc bump_failed_def bump_wait_def split: if_splits)
qed

lemma safe_eval_loop:
  assumes "verdict_ok overall statuses"
  shows "safe (\<lambda>_ e. is_read e) (eval_loop r cdRef cd prereqs overall statuses) s
    (\<lambda>a s'. rs_wsd s' = rs_wsd s \<and>
       (\<forall>v sts. a = Inr (v, sts) \<longrightarrow>
          (v = PrerequisitesVerdictInvalid \<and> (\<exists>p \<in> set prereqs. str_VersionConstraint (pq_ServiceTemplate p) \<noteq> [])) \<or>
          (verdict_ok v sts \<and> map ps_Name sts = map ps_Name statuses @ map (str_Name \<circ> pq_ServiceTemplate) prereqs)))"
  using assms
proof (induction prereqs arbitrary: overall statuses s)
  case Nil
  then show ?case by (auto intro!: safe_rules)
next
  case (Cons prereq prereqs)
  have step: "safe (\<lambda>_ e. is_read e) (eval_loop r cdRef cd prereqs v' (statuses @ [st])) s1
    (\<lambda>a s'. rs_wsd s' = rs_wsd s \<and>
       (\<forall>v sts. a = Inr (v, sts) \<longrightarrow>
          (v = PrerequisitesVerdictInvalid \<and> (\<exists>p \<in> set (prereq # prereqs). str_VersionConstraint (pq_ServiceTemplate p) \<noteq> [])) \<or>
          (verdict_ok v sts \<and> map ps_Name sts = map ps_Name statuses @ map (str_Name \<circ> pq_ServiceTemplate) (prereq # prereqs))))"
    if "outcome_step overall v' st \<and> ps_Name st = str_Name (pq_ServiceTemplate prereq)" "rs_wsd s1 = rs_wsd s" for v' st s1
  proof -
    have "verdict_ok v' (statuses @ [st])" using verdict_ok_step [OF Cons.prems] that(1) by blast
    from Cons.IH [OF this, of s1] show ?thesis
      by (rule safe_weaken) (use that in auto)
  qed
  show ?case
    unfolding eval_loop.simps
    by (intro safe_rules conjI step) (simp_all add: eval_own_step eval_colony_step)
qed

lemma safe_evaluatePrerequisites:
  "safe (\<lambda>_ e. is_read e) (evaluatePrerequisites r wsc) s
    (\<lambda>a s'. rs_wsd s' = rs_wsd s \<and>
       (\<forall>v sts. a = Inr (v, sts) \<longrightarrow>
          (v = PrerequisitesVerdictInvalid \<and>
             (\<exists>p \<in> set (wsc_Prerequisites (wsc_Spec wsc)). str_VersionConstraint (pq_ServiceTemplate p) \<noteq> [])) \<or>
          (verdict_ok v sts \<and> map ps_Name sts = map (str_Name \<circ> pq_ServiceTemplate) (wsc_Prerequisites (wsc_Spec wsc)))))"
proof -
  have "verdict_ok PrerequisitesVerdictSatisfied []" by (simp add: verdict_ok_def some_failed_def last_open_def)
  from safe_eval_loop [OF this] show ?thesis
    unfolding evaluatePrerequisites_def
    by (intro safe_rules conjI) (auto intro!: safe_weaken [OF safe_eval_loop [OF \<open>verdict_ok PrerequisitesVerdictSatisfied []\<close>]])
qed

lemma verdict_satisfied:
  "verdict_ok PrerequisitesVerdictSatisfied sts \<longleftrightarrow> (\<forall>st \<in> set sts. ps_Phase st = PrerequisitePhaseSatisfied)"
proof -
  have "last_open sts = None \<longleftrightarrow> (\<forall>st \<in> set sts. ps_Phase st = PrerequisitePhaseSatisfied)"
    by (simp add: last_open_def Let_def filter_empty_conv)
  then show ?thesis by (auto simp: verdict_ok_def some_failed_def split: option.splits)
qed

subsection \<open>Installing\<close>

text \<open>A prerequisite ServiceSet is only ever created, and only after a \<open>Get\<close> of its name said NotFound.\<close>

definition create_missing :: "'q ev list \<Rightarrow> 'q ev \<Rightarrow> bool" where
  "create_missing h e \<longleftrightarrow> is_read e \<or>
     (\<exists>ss x. e = ECreateSS ss x \<and> isPrerequisiteServiceSet ss \<and> seen_gone (ss_Namespace ss) (ss_Name ss) h)"

lemma is_read_create_missing [simp]: "is_read e \<Longrightarrow> create_missing h e"
  by (simp add: create_missing_def)

lemma prerequisite_serviceset_marked [simp]: "isPrerequisiteServiceSet (prerequisite_serviceset r cdRef wsc prereq vals)"
  by (simp add: isPrerequisiteServiceSet_def prerequisite_serviceset_def Let_def lget_def)

lemma safe_ensurePrerequisiteServiceSet:
  "safe create_missing (ensurePrerequisiteServiceSet r wsc prereq) s (\<lambda>a s'. rs_wsd s' = rs_wsd s)"
  unfolding ensurePrerequisiteServiceSet_def
  by (intro safe_rules conjI)
    (auto simp: create_missing_def seen_gone_def prerequisite_serviceset_def Let_def isPrerequisiteServiceSet_def lget_def)

text \<open>The object keeps its phase and everything outside the status.\<close>

definition same_phase :: "'q WorkspaceDeployment \<Rightarrow> 'q WorkspaceDeployment \<Rightarrow> bool" where
  "same_phase w w' \<longleftrightarrow> same_object w w' \<and> st_Phase (wsd_Status w') = st_Phase (wsd_Status w)"

lemma same_phase_refl [simp, intro]: "same_phase w w"
  by (simp add: same_phase_def)

lemma same_phase_object: "same_phase w w' \<Longrightarrow> same_object w w'"
  by (simp add: same_phase_def)

lemma same_phase_trans: "same_phase w w' \<Longrightarrow> same_phase w' w'' \<Longrightarrow> same_phase w w''"
  by (auto simp: same_phase_def intro: same_object_trans)

lemma safe_install_loop:
  "safe create_missing (install_loop r wsc sts rest) s (\<lambda>a s'. same_phase (rs_wsd s) (rs_wsd s'))"
proof (induction rest arbitrary: sts s)
  case Nil
  then show ?case by (auto intro!: safe_rules)
next
  case (Cons sp rest)
  obtain st prereq where sp: "sp = (st, prereq)" by (cases sp)
  show ?case
    unfolding sp install_loop.simps
    by (intro safe_rules safe_lift [OF safe_ensurePrerequisiteServiceSet] safe_weaken [OF Cons.IH])
      (auto simp: same_phase_def)
qed

definition status_in :: "WorkspaceDeploymentPhase set \<Rightarrow> 'q WorkspaceDeployment \<Rightarrow> 'q ev \<Rightarrow> bool" where
  "status_in phases w0 e \<longleftrightarrow> (\<exists>w x. e = EStatus w x \<and> st_Phase (wsd_Status w) \<in> phases \<and> same_object w0 w)"

lemma safe_report_installing:
  "safe (\<lambda>_ e. is_read e \<or> status_in {PhaseInstallingPrerequisites} (rs_wsd s) e) (report_installing r sts) s
     (\<lambda>(res, done, err) s'. done)"
  unfolding report_installing_def
  by (intro safe_rules conjI) (auto simp: status_in_def)

lemma safe_report_failed:
  "safe (\<lambda>_ e. is_read e \<or> status_in {PhaseFailed} (rs_wsd s) e) (report_failed r reason msg) s
     (\<lambda>(res, done, err) s'. done)"
  unfolding report_failed_def
  by (intro safe_rules conjI safe_markFailed)
    (auto simp: status_in_def failed_from_phase dest: failed_from_same)

text \<open>What \<open>reconcilePrerequisites\<close> may emit, and when it lets the caller proceed.\<close>

definition prereq_event :: "'q WorkspaceDeployment \<Rightarrow> 'q ev list \<Rightarrow> 'q ev \<Rightarrow> bool" where
  "prereq_event w0 h e \<longleftrightarrow> create_missing h e \<or> status_in {PhaseFailed, PhaseInstallingPrerequisites} w0 e"

lemma prereq_eventI:
  "is_read e \<Longrightarrow> prereq_event w h e" "create_missing h e \<Longrightarrow> prereq_event w h e"
  "same_object w w' \<Longrightarrow> status_in {PhaseInstallingPrerequisites} w' e \<Longrightarrow> prereq_event w h e"
  "same_object w w' \<Longrightarrow> status_in {PhaseFailed} w' e \<Longrightarrow> prereq_event w h e"
  by (auto simp: prereq_event_def create_missing_def status_in_def intro: same_object_trans)

definition all_satisfied :: "'q WorkspaceClass \<Rightarrow> PrerequisiteStatus list \<Rightarrow> bool" where
  "all_satisfied wsc sts \<longleftrightarrow>
     map ps_Name sts = map (str_Name \<circ> pq_ServiceTemplate) (wsc_Prerequisites (wsc_Spec wsc)) \<and>
     (\<forall>st \<in> set sts. ps_Phase st = PrerequisitePhaseSatisfied)"

lemma safe_reconcilePrerequisites:
  "safe (prereq_event (rs_wsd s)) (reconcilePrerequisites r wsc) s
    (\<lambda>(res, done, err) s'. \<not> done \<longrightarrow>
       same_phase (rs_wsd s) (rs_wsd s') \<and> all_satisfied wsc (st_Prerequisites (wsd_Status (rs_wsd s'))))"
  unfolding reconcilePrerequisites_def
proof (rule safe_bind, rule safe_lift [OF safe_evaluatePrerequisites], goal_cases)
  case (2 a s1)
  then have w: "rs_wsd s1 = rs_wsd s" by simp
  show ?case
  proof (cases a)
    case (Inl e)
    then show ?thesis by (auto intro!: safe_rules)
  next
    case (Inr vs)
    obtain v sts where vs: "vs = (v, sts)" by (cases vs)
    let ?s2 = "s1\<lparr>rs_wsd := (rs_wsd s)\<lparr>wsd_Status := (wsd_Status (rs_wsd s))\<lparr>st_Prerequisites := sts\<rparr>\<rparr>\<rparr>"
    have ok: "v = PrerequisitesVerdictInvalid \<or> (verdict_ok v sts \<and>
        map ps_Name sts = map (str_Name \<circ> pq_ServiceTemplate) (wsc_Prerequisites (wsc_Spec wsc)))"
      using 2 Inr vs by blast
    have fail: "safe (prereq_event (rs_wsd s)) (report_failed r reason msg) ?s2
      (\<lambda>(res, done, err) s'. \<not> done \<longrightarrow> same_phase (rs_wsd s) (rs_wsd s') \<and>
         all_satisfied wsc (st_Prerequisites (wsd_Status (rs_wsd s'))))" for reason msg
      by (rule safe_weaken [OF safe_report_failed]) (auto intro: prereq_eventI)
    have inst: "safe (prereq_event (rs_wsd s)) (report_installing r sts') s3
      (\<lambda>(res, done, err) s'. \<not> done \<longrightarrow> same_phase (rs_wsd s) (rs_wsd s') \<and>
         all_satisfied wsc (st_Prerequisites (wsd_Status (rs_wsd s'))))"
      if "same_object (rs_wsd s) (rs_wsd s3)" for sts' s3
      by (rule safe_weaken [OF safe_report_installing]) (use that in \<open>auto intro: prereq_eventI\<close>)
    show ?thesis
      unfolding Inr vs sum.case prod.case
    proof (intro safe_bind safe_modify_status, unfold w, cases v, goal_cases)
      case 1
      with ok have "all_satisfied wsc sts" by (simp add: all_satisfied_def verdict_satisfied)
      with 1 show ?case
        by (auto intro!: safe_rules simp: same_phase_def prereq_event_def)
    next
      case 3
      then show ?case
        by (auto intro!: safe_rules safe_lift [OF safe_install_loop] inst prereq_eventI dest!: same_phase_object)
    qed (auto intro!: fail inst simp: Let_def)
  qed
qed (auto intro: prereq_eventI)

section \<open>Properties\<close>


text \<open>The witness also shows a missing prerequisite masked by a later one that is installing.\<close>

definition demo_prereq :: "string \<Rightarrow> PrerequisiteSpec" where
  "demo_prereq t = \<lparr>pq_ServiceTemplate = \<lparr>str_Name = t, str_Namespace = ''kcm'', str_VersionConstraint = []\<rparr>,
     pq_Namespace = [], pq_Values = None\<rparr>"

definition demo_wsc :: "PrerequisiteSpec list \<Rightarrow> int WorkspaceClass" where
  "demo_wsc prereqs = \<lparr>wsc_Name = ''class'', wsc_Generation = 1,
     wsc_Spec = \<lparr>wsc_ServiceTemplate = \<lparr>str_Name = ''chart'', str_Namespace = ''kcm'', str_VersionConstraint = []\<rparr>,
       wsc_DefaultResources = \<lparr>ws_Replicas = Some 1, ws_PerReplica = \<lparr>rr_CPU = None, rr_Memory = None, rr_Storage = None,
          rr_GPUCount = None, rr_GPUVendor = None, rr_GPUType = None, rr_GPUNodeSelector = None\<rparr>\<rparr>,
       wsc_Prerequisites = prereqs, wsc_AccessEndpoints = [], wsc_DeployTimeout = None,
       wsc_PrerequisiteDeployTimeout = None, wsc_DefaultValues = None, wsc_ResourceInjection = None\<rparr>,
     wsc_Status = \<lparr>wcs_ObservedGeneration = 1, wcs_Valid = True, wcs_ValidationError = []\<rparr>\<rparr>"

definition demo_cd :: ClusterDeployment where
  "demo_cd = \<lparr>cd_Name = ''cd'', cd_Namespace = ''org'', cd_Labels = [], cd_DeletionTimestamp = 0,
     cd_SpecServices = [(''b'', ''default'')], cd_StatusServices = []\<rparr>"

definition demo_r_cd :: "(int, int) reconciler" where
  "demo_r_cd = demo_r\<lparr>r_api := demo_api\<lparr>api_get_cd := (\<lambda>_ _ w. (Inr demo_cd, w))\<rparr>\<rparr>"


text \<open>
  C9: prerequisites are installed once and gate the deployment.  \<open>reconcilePrerequisites\<close> never
  updates or deletes a ServiceSet, creates one only after a \<open>Get\<close> of its name answered NotFound and
  marked as a prerequisite, writes no status but Failed or InstallingPrerequisites, and lets the
  caller go on only with the phase unchanged and every declared prerequisite satisfied.
\<close>

theorem reconcilePrerequisites_gate:
  assumes "run_state (reconcilePrerequisites r wsc) s = ((res, done, err), s')"
  shows "\<exists>es. rs_trace s' = rs_trace s @ es \<and> hist_ok (prereq_event (rs_wsd s)) (rs_trace s) es \<and>
    (\<not> done \<longrightarrow> same_phase (rs_wsd s) (rs_wsd s') \<and>
       all_satisfied wsc (st_Prerequisites (wsd_Status (rs_wsd s'))))"
  using safe_run [OF safe_reconcilePrerequisites assms] by auto

theorem reconcilePrerequisites_gate_witness:
  "\<exists>res done err s'. run_state (reconcilePrerequisites demo_r_cd (demo_wsc [demo_prereq ''a'']))
       (demo_s (demo_wsd ''cd'' ''w'')) = ((res, done, err), s') \<and>
     (\<exists>ss. ECreateSS ss None \<in> set (rs_trace s') \<and> isPrerequisiteServiceSet ss) \<and>
     hist_ok (prereq_event (demo_wsd ''cd'' ''w'')) [] (rs_trace s')"
proof -
  let ?m = "reconcilePrerequisites demo_r_cd (demo_wsc [demo_prereq ''a''])"
  let ?s = "demo_s (demo_wsd ''cd'' ''w'')"
  obtain res dn err s' where run: "run_state ?m ?s = ((res, dn, err), s')" by (metis prod.collapse)
  let ?ss = "prerequisite_serviceset demo_r_cd \<lparr>cdr_Name = ''cd'', cdr_Namespace = ''org''\<rparr> (demo_wsc [demo_prereq ''a'']) (demo_prereq ''a'') []"
  have "ECreateSS ?ss None \<in> set (rs_trace (snd (run_state ?m ?s)))"
    by (simp add: reconcilePrerequisites_def evaluatePrerequisites_def run_simps get_cd_def get_ss_def demo_r_cd_def
        demo_env demo_wsc_def demo_prereq_def demo_cd_def eval_colony_def colonyDeployed_def colonyKnown_def
        colonyNamespace_def bump_wait_def effectivePrerequisiteNamespace_def prereq_status_def
        ensurePrerequisiteServiceSet_def prerequisite_values_def report_installing_def set_condition_def
        setCondition_def now_def update_status_def)
  moreover obtain es where "rs_trace s' = rs_trace ?s @ es" "hist_ok (prereq_event (rs_wsd ?s)) (rs_trace ?s) es"
    using reconcilePrerequisites_gate [OF run] by blast
  moreover have "rs_wsd ?s = demo_wsd ''cd'' ''w''" "rs_trace ?s = []" by (simp_all add: demo_s_def)
  ultimately have "ECreateSS ?ss None \<in> set (rs_trace s') \<and> isPrerequisiteServiceSet ?ss"
    "hist_ok (prereq_event (demo_wsd ''cd'' ''w'')) [] (rs_trace s')" using run by simp_all
  with run show ?thesis by blast
qed

end
