(* ===== verification/Gpu_Offering.thy ===== *)
theory Gpu_Offering
  imports Api_Types
begin

text \<open>
  \<open>internal/gpu/offering.go\<close>: deriving the GPU offerings of a cluster from its nodes and
  evaluating a GPU selector against nodes and pods.  The loops over nodes, vendor resources,
  pods and containers are folds in the order of the source; the accumulator of the availability
  loops is a record of the function's local variables.

  GPU counts keep the widths of the source: \<open>Total\<close> and the counters of the availability loops
  are \<open>int64\<close>, \<open>Nodes\<close> is \<open>int32\<close>, and every addition and subtraction on them wraps
  (\<open>i64\<close>, \<open>i32\<close>).  The lemmas compare them with exact sums: equal up to wrap-around always, equal
  outright where the exact value is in range.  The order in which Go iterates over \<open>byKey\<close> is unspecified: it is
  the parameter \<open>iter\<close> of \<open>DeriveOfferings\<close>.
\<close>

section \<open>Constants\<close>

definition DefaultModelLabel :: string where "DefaultModelLabel = ''exalsius.ai/gpu-model''"
definition DefaultVendorLabel :: string where "DefaultVendorLabel = ''exalsius.ai/gpu-vendor''"
definition ResourceNvidiaGPU :: string where "ResourceNvidiaGPU = ''nvidia.com/gpu''"
definition ResourceAMDGPU :: string where "ResourceAMDGPU = ''amd.com/gpu''"

definition defaultProductLabels :: "(GPUVendor \<times> string list) list" where
  "defaultProductLabels =
     [(GPUVendorNVIDIA, [''nvidia.com/gpu.product'']),
      (GPUVendorAMD, [''amd.com/gpu.product-name'', ''amd.com/gpu.device-id''])]"

definition gpuLabelPrefixes :: "string list" where
  "gpuLabelPrefixes = [''nvidia.com/'', ''amd.com/'', ''gpu.hami.io/'', ''exalsius.ai/gpu'']"

definition vendorResources :: "(GPUVendor \<times> string) list" where
  "vendorResources = [(GPUVendorNVIDIA, ResourceNvidiaGPU), (GPUVendorAMD, ResourceAMDGPU)]"

lemmas gpu_consts = DefaultModelLabel_def DefaultVendorLabel_def ResourceNvidiaGPU_def
  ResourceAMDGPU_def defaultProductLabels_def gpuLabelPrefixes_def vendorResources_def
  GPUVendorNVIDIA_def GPUVendorAMD_def

section \<open>Operations\<close>

definition ResourceForVendor :: "GPUVendor \<Rightarrow> string" where
  "ResourceForVendor vendor =
     (case find (\<lambda>vr. fst vr = vendor) vendorResources of Some vr \<Rightarrow> snd vr | None \<Rightarrow> [])"

record Offering =
  o_Vendor :: GPUVendor
  o_Model :: string
  o_Profile :: string
  o_ResourceName :: string
  o_Total :: int
  o_Nodes :: int
  o_Selector :: labels      \<comment> \<open>the nil map is []\<close>
  o_Labels :: labels

record Options =
  opt_ModelLabel :: string
  opt_VendorLabel :: string
  opt_ProductLabels :: "(GPUVendor \<times> string list) list option"

definition no_options :: Options where
  "no_options = \<lparr>opt_ModelLabel = [], opt_VendorLabel = [], opt_ProductLabels = None\<rparr>"

definition modelLabel :: "Options \<Rightarrow> string" where
  "modelLabel opts = (if opt_ModelLabel opts \<noteq> [] then opt_ModelLabel opts else DefaultModelLabel)"

definition vendorLabel :: "Options \<Rightarrow> string" where
  "vendorLabel opts = (if opt_VendorLabel opts \<noteq> [] then opt_VendorLabel opts else DefaultVendorLabel)"

definition productLabels :: "Options \<Rightarrow> GPUVendor \<Rightarrow> string list" where
  "productLabels opts vendor =
     (case opt_ProductLabels opts of
        Some m \<Rightarrow> (case map_of m vendor of Some keys \<Rightarrow> keys | None \<Rightarrow> [])
      | None \<Rightarrow> (case map_of defaultProductLabels vendor of Some keys \<Rightarrow> keys | None \<Rightarrow> []))"

type_synonym offeringKey = "string \<times> string \<times> string \<times> string"

definition resolveModelSelector :: "'q Node \<Rightarrow> string \<Rightarrow> string list \<Rightarrow> string \<times> labels" where
  "resolveModelSelector n ml productKeys =
     (let m = lget (node_Labels n) ml in
      if m \<noteq> [] then (m, [(ml, m)])
      else (case find (\<lambda>k. lget (node_Labels n) k \<noteq> []) productKeys of
              Some k \<Rightarrow> (lget (node_Labels n) k, [(k, lget (node_Labels n) k)])
            | None \<Rightarrow> ([], [])))"

text \<open>The loop shared by \<open>selectorIdentity\<close> and \<open>selectorKey\<close>: \<open>k=v;\<close> over the sorted keys.\<close>

definition render_selector :: "labels \<Rightarrow> string" where
  "render_selector sel = concat (map (\<lambda>k. k @ ''='' @ lget sel k @ '';'') (sort (map fst sel)))"

definition selectorIdentity :: "labels \<Rightarrow> string" where
  "selectorIdentity sel = (if sel = [] then [] else render_selector sel)"

definition nodeIsSchedulable :: "'q Node \<Rightarrow> bool" where
  "nodeIsSchedulable n \<longleftrightarrow> \<not> node_Unschedulable n \<and>
     list_all (\<lambda>c. \<not> (fst c = ''Ready'' \<and> snd c \<noteq> ConditionTrue)) (node_Conditions n)"

definition gpuAllocatable :: "'q qops \<Rightarrow> 'q Node \<Rightarrow> string \<Rightarrow> int" where
  "gpuAllocatable Q n resourceName =
     (case map_of (node_Allocatable n) resourceName of Some q \<Rightarrow> q_value Q q | None \<Rightarrow> 0)"

definition gpuLabels :: "'q Node \<Rightarrow> labels" where
  "gpuLabels n = filter (\<lambda>kv. list_ex (\<lambda>p. prefix p (fst kv)) gpuLabelPrefixes) (node_Labels n)"

text \<open>One \<open>byKey\<close> entry: the body of the inner loop of \<open>DeriveOfferings\<close>.\<close>

definition offeringVendor :: "Options \<Rightarrow> 'q Node \<Rightarrow> GPUVendor \<Rightarrow> GPUVendor" where
  "offeringVendor opts n v =
     (let l = lget (node_Labels n) (vendorLabel opts) in if l \<noteq> [] then l else v)"

definition derive_resource ::
  "'q qops \<Rightarrow> Options \<Rightarrow> 'q Node \<Rightarrow> (offeringKey \<times> Offering) list \<Rightarrow> GPUVendor \<times> string
   \<Rightarrow> (offeringKey \<times> Offering) list" where
  "derive_resource Q opts n byKey vr =
     (let count = gpuAllocatable Q n (snd vr) in
      if count \<le> 0 then byKey
      else
        let vendor = offeringVendor opts n (fst vr);
            (model, selector) = resolveModelSelector n (modelLabel opts) (productLabels opts vendor);
            key = (vendor, [], snd vr, selectorIdentity selector);
            off = (case map_of byKey key of
                     Some x \<Rightarrow> x
                   | None \<Rightarrow> \<lparr>o_Vendor = vendor, o_Model = model, o_Profile = [],
                       o_ResourceName = snd vr, o_Total = 0, o_Nodes = 0,
                       o_Selector = selector, o_Labels = gpuLabels n\<rparr>)
        in AList.update key (off\<lparr>o_Total := i64 (o_Total off + count), o_Nodes := i32 (o_Nodes off + 1)\<rparr>) byKey)"

definition derive_node ::
  "'q qops \<Rightarrow> Options \<Rightarrow> (offeringKey \<times> Offering) list \<Rightarrow> 'q Node \<Rightarrow> (offeringKey \<times> Offering) list" where
  "derive_node Q opts byKey n =
     (if \<not> nodeIsSchedulable n then byKey
      else foldl (derive_resource Q opts n) byKey vendorResources)"

definition DeriveOfferings ::
  "(Offering list \<Rightarrow> Offering list) \<Rightarrow> 'q qops \<Rightarrow> 'q Node list \<Rightarrow> Options \<Rightarrow> Offering list" where
  "DeriveOfferings iter Q nodes opts =
     sort_key (\<lambda>x. (o_Model x, o_ResourceName x))
       (iter (map snd (foldl (derive_node Q opts) [] nodes)))"

definition FindByModel :: "Offering list \<Rightarrow> string \<Rightarrow> Offering option" where
  "FindByModel offerings model = find (\<lambda>x. o_Model x = model) offerings"

definition podConsumes :: "'q Pod \<Rightarrow> bool" where
  "podConsumes p \<longleftrightarrow> pod_NodeName p \<noteq> [] \<and> pod_Phase p \<noteq> PodSucceeded \<and> pod_Phase p \<noteq> PodFailed"

text \<open>The pod loop of \<open>AvailableForModel\<close> and \<open>AvailabilityForSelector\<close>: what the containers
  of the pods on matched nodes request of the resource recorded for their node.\<close>

definition container_request :: "'q qops \<Rightarrow> string \<Rightarrow> 'q ResourceList \<Rightarrow> int" where
  "container_request Q resourceName req =
     (case map_of req resourceName of Some q \<Rightarrow> q_value Q q | None \<Rightarrow> 0)"

definition used_step :: "'q qops \<Rightarrow> labels \<Rightarrow> int \<Rightarrow> 'q Pod \<Rightarrow> int" where
  "used_step Q matched used p =
     (case map_of matched (pod_NodeName p) of
        None \<Rightarrow> used
      | Some resourceName \<Rightarrow>
          if \<not> podConsumes p then used
          else foldl (\<lambda>u req. i64 (u + container_request Q resourceName req)) used (pod_Requests p))"

definition used_gpus :: "'q qops \<Rightarrow> labels \<Rightarrow> 'q Pod list \<Rightarrow> int" where
  "used_gpus Q matched pods = foldl (used_step Q matched) 0 pods"

record model_acc =
  ma_matched :: labels
  ma_total :: int
  ma_found :: bool

definition model_resource :: "'q qops \<Rightarrow> 'q Node \<Rightarrow> model_acc \<Rightarrow> GPUVendor \<times> string \<Rightarrow> model_acc" where
  "model_resource Q n acc vr =
     (let c = gpuAllocatable Q n (snd vr) in
      if c > 0 then \<lparr>ma_matched = mput (node_Name n) (snd vr) (ma_matched acc),
                     ma_total = i64 (ma_total acc + c), ma_found = True\<rparr>
      else acc)"

definition model_node :: "'q qops \<Rightarrow> string \<Rightarrow> Options \<Rightarrow> model_acc \<Rightarrow> 'q Node \<Rightarrow> model_acc" where
  "model_node Q model opts acc n =
     (if \<not> nodeIsSchedulable n \<or> lget (node_Labels n) (modelLabel opts) \<noteq> model then acc
      else foldl (model_resource Q n) acc vendorResources)"

definition AvailableForModel ::
  "'q qops \<Rightarrow> 'q Node list \<Rightarrow> 'q Pod list \<Rightarrow> string \<Rightarrow> Options \<Rightarrow> int \<times> bool" where
  "AvailableForModel Q nodes pods model opts =
     (let acc = foldl (model_node Q model opts) \<lparr>ma_matched = [], ma_total = 0, ma_found = False\<rparr> nodes
      in if \<not> ma_found acc then (0, False)
         else let free = i64 (ma_total acc - used_gpus Q (ma_matched acc) pods) in
              (if free < 0 then 0 else free, True))"

definition NodeSelectorForModel :: "string \<Rightarrow> Options \<Rightarrow> labels" where
  "NodeSelectorForModel model opts = [(modelLabel opts, model)]"

definition BuildSelector :: "string \<Rightarrow> labels \<Rightarrow> Options \<Rightarrow> labels" where
  "BuildSelector model raw opts =
     mput_all raw (if model \<noteq> [] then [(modelLabel opts, model)] else [])"

record SelectorAvailability =
  sa_Found :: bool
  sa_Free :: int
  sa_ResourceName :: string
  sa_Vendor :: GPUVendor

definition nodeMatchesSelector :: "'q Node \<Rightarrow> labels \<Rightarrow> bool" where
  "nodeMatchesSelector n selector = list_all (\<lambda>kv. lget (node_Labels n) (fst kv) = snd kv) selector"

record avail_acc =
  aa_matched :: labels
  aa_total :: int
  aa_sa :: SelectorAvailability

definition zero_availability :: SelectorAvailability where
  "zero_availability = \<lparr>sa_Found = False, sa_Free = 0, sa_ResourceName = [], sa_Vendor = []\<rparr>"

definition avail_resource :: "'q qops \<Rightarrow> 'q Node \<Rightarrow> avail_acc \<Rightarrow> GPUVendor \<times> string \<Rightarrow> avail_acc" where
  "avail_resource Q n acc vr =
     (let c = gpuAllocatable Q n (snd vr) in
      if c > 0 then
        \<lparr>aa_matched = mput (node_Name n) (snd vr) (aa_matched acc),
         aa_total = i64 (aa_total acc + c),
         aa_sa = (let sa = (aa_sa acc)\<lparr>sa_Found := True\<rparr> in
                  if sa_ResourceName sa = [] then sa\<lparr>sa_ResourceName := snd vr, sa_Vendor := fst vr\<rparr> else sa)\<rparr>
      else acc)"

definition avail_node :: "'q qops \<Rightarrow> labels \<Rightarrow> avail_acc \<Rightarrow> 'q Node \<Rightarrow> avail_acc" where
  "avail_node Q selector acc n =
     (if \<not> nodeIsSchedulable n \<or> \<not> nodeMatchesSelector n selector then acc
      else foldl (avail_resource Q n) acc vendorResources)"

definition AvailabilityForSelector ::
  "'q qops \<Rightarrow> 'q Node list \<Rightarrow> 'q Pod list \<Rightarrow> labels \<Rightarrow> SelectorAvailability" where
  "AvailabilityForSelector Q nodes pods selector =
     (if selector = [] then zero_availability
      else
        let acc = foldl (avail_node Q selector) \<lparr>aa_matched = [], aa_total = 0, aa_sa = zero_availability\<rparr> nodes
        in if \<not> sa_Found (aa_sa acc) then aa_sa acc
           else let free = i64 (aa_total acc - used_gpus Q (aa_matched acc) pods)
                in (aa_sa acc)\<lparr>sa_Free := (if free < 0 then 0 else free)\<rparr>)"


section \<open>What the counting loops compute\<close>

text \<open>The GPU resources a node contributes, and the sum of them.\<close>

definition node_gpus :: "'q qops \<Rightarrow> 'q Node \<Rightarrow> (GPUVendor \<times> string) list" where
  "node_gpus Q n = filter (\<lambda>vr. 0 < gpuAllocatable Q n (snd vr)) vendorResources"

definition node_total :: "'q qops \<Rightarrow> 'q Node \<Rightarrow> int" where
  "node_total Q n = sum_list (map (\<lambda>vr. gpuAllocatable Q n (snd vr)) (node_gpus Q n))"

lemma node_total_nonneg: "0 \<le> node_total Q n"
  by (simp add: node_total_def node_gpus_def vendorResources_def)

lemma node_totals_nonneg: "0 \<le> sum_list (map (node_total Q) ns)"
  by (rule sum_list_nonneg) (auto simp: node_total_nonneg)

text \<open>What the pods on matched nodes request of the recorded resources, as an exact sum.\<close>

definition pod_requested :: "'q qops \<Rightarrow> labels \<Rightarrow> 'q Pod \<Rightarrow> int" where
  "pod_requested Q matched p =
     (case map_of matched (pod_NodeName p) of
        Some resourceName \<Rightarrow> if podConsumes p then sum_list (map (container_request Q resourceName) (pod_Requests p)) else 0
      | None \<Rightarrow> 0)"

definition requested :: "'q qops \<Rightarrow> labels \<Rightarrow> 'q Pod list \<Rightarrow> int" where
  "requested Q matched pods = sum_list (map (pod_requested Q matched) pods)"

lemma foldl_i64_sum: "is_i64 u \<Longrightarrow> foldl (\<lambda>u x. i64 (u + f x)) u xs = i64 (u + sum_list (map f xs))"
  by (induction xs arbitrary: u) (simp_all add: add.assoc)

lemma used_step_eq: "is_i64 u \<Longrightarrow> used_step Q m u p = i64 (u + pod_requested Q m p)"
  by (simp add: used_step_def pod_requested_def foldl_i64_sum split: option.splits)

lemma used_gpus_eq: "used_gpus Q m pods = i64 (requested Q m pods)"
proof -
  have "foldl (used_step Q m) u pods = i64 (u + requested Q m pods)" if "is_i64 u" for u
    using that by (induction pods arbitrary: u) (simp_all add: used_step_eq requested_def add.assoc)
  then show ?thesis by (simp add: used_gpus_def)
qed

definition selector_nodes :: "labels \<Rightarrow> 'q Node list \<Rightarrow> 'q Node list" where
  "selector_nodes sel nodes = filter (\<lambda>n. nodeIsSchedulable n \<and> nodeMatchesSelector n sel) nodes"

lemma foldl_if_filter:
  "foldl (\<lambda>a x. if P x then f a x else a) a xs = foldl f a (filter P xs)"
  by (induction xs arbitrary: a) auto

lemma avail_resource_fold:
  "foldl (avail_resource Q n) acc vrs = foldl (avail_resource Q n) acc (filter (\<lambda>vr. 0 < gpuAllocatable Q n (snd vr)) vrs)"
  by (induction vrs arbitrary: acc) (auto simp: avail_resource_def)

lemma avail_node_fold:
  "foldl (avail_node Q sel) acc nodes =
   foldl (\<lambda>acc n. foldl (avail_resource Q n) acc vendorResources) acc (selector_nodes sel nodes)"
  by (induction nodes arbitrary: acc) (auto simp: avail_node_def selector_nodes_def)

lemma aa_total_resources:
  "is_i64 (aa_total acc) \<Longrightarrow>
   aa_total (foldl (avail_resource Q n) acc vendorResources) = i64 (aa_total acc + node_total Q n)"
  by (simp add: vendorResources_def node_total_def node_gpus_def avail_resource_def add.assoc)

lemma aa_total_nodes:
  "is_i64 (aa_total acc) \<Longrightarrow>
   aa_total (foldl (\<lambda>acc n. foldl (avail_resource Q n) acc vendorResources) acc ns) =
   i64 (aa_total acc + sum_list (map (node_total Q) ns))"
  by (induction ns arbitrary: acc) (auto simp: aa_total_resources add.assoc)

lemma aa_found_resources:
  "sa_Found (aa_sa (foldl (avail_resource Q n) acc vendorResources)) \<longleftrightarrow>
   sa_Found (aa_sa acc) \<or> node_gpus Q n \<noteq> []"
  by (simp add: vendorResources_def node_gpus_def avail_resource_def Let_def)

lemma aa_found_nodes:
  "sa_Found (aa_sa (foldl (\<lambda>acc n. foldl (avail_resource Q n) acc vendorResources) acc ns)) \<longleftrightarrow>
   sa_Found (aa_sa acc) \<or> (\<exists>n \<in> set ns. node_gpus Q n \<noteq> [])"
  by (induction ns arbitrary: acc) (auto simp: aa_found_resources)


text \<open>The \<open>matched\<close> map: the resource recorded for each counted node.\<close>

definition matched_resources :: "'q qops \<Rightarrow> labels \<Rightarrow> 'q Node list \<Rightarrow> labels" where
  "matched_resources Q m ns =
     foldl (\<lambda>m n. foldl (\<lambda>m vr. mput (node_Name n) (snd vr) m) m (node_gpus Q n)) m ns"

lemma matched_resources_simps [simp]:
  "matched_resources Q m [] = m"
  "matched_resources Q m (n # ns) =
     matched_resources Q (foldl (\<lambda>m vr. mput (node_Name n) (snd vr) m) m (node_gpus Q n)) ns"
  by (simp_all add: matched_resources_def)

lemma aa_matched_nodes:
  "aa_matched (foldl (\<lambda>acc n. foldl (avail_resource Q n) acc vendorResources) acc ns) =
   matched_resources Q (aa_matched acc) ns"
proof (induction ns arbitrary: acc)
  case Nil
  then show ?case by simp
next
  case (Cons n ns)
  have "aa_matched (foldl (avail_resource Q n) acc vendorResources) =
        foldl (\<lambda>m vr. mput (node_Name n) (snd vr) m) (aa_matched acc) (node_gpus Q n)"
    by (simp add: vendorResources_def node_gpus_def avail_resource_def)
  with Cons.IH show ?case by simp
qed

lemma AvailabilityForSelector_eq:
  "AvailabilityForSelector Q nodes pods sel =
     (if sel = [] then zero_availability
      else let ns = selector_nodes sel nodes;
               acc = foldl (\<lambda>acc n. foldl (avail_resource Q n) acc vendorResources)
                       \<lparr>aa_matched = [], aa_total = 0, aa_sa = zero_availability\<rparr> ns
           in if (\<exists>n \<in> set ns. node_gpus Q n \<noteq> [])
              then (aa_sa acc)\<lparr>sa_Free :=
                     max 0 (i64 (sum_list (map (node_total Q) ns) - requested Q (matched_resources Q [] ns) pods))\<rparr>
              else aa_sa acc)"
  by (auto simp: AvailabilityForSelector_def avail_node_fold aa_found_nodes aa_total_nodes
      aa_matched_nodes zero_availability_def used_gpus_eq Let_def max_def)

section \<open>The capacity probe as an interface\<close>

text \<open>
  \<open>AvailableForModel\<close> and \<open>AvailabilityForSelector\<close> promise their callers the same thing: they
  count the schedulable nodes that a predicate picks out.  The contract and what follows from it.
\<close>

definition probe_result :: "'q qops \<Rightarrow> 'q Node list \<Rightarrow> 'q Pod list \<Rightarrow> int \<times> bool" where
  "probe_result Q ns pods =
     (if \<exists>n \<in> set ns. node_gpus Q n \<noteq> []
      then (max 0 (i64 (sum_list (map (node_total Q) ns) - requested Q (matched_resources Q [] ns) pods)), True)
      else (0, False))"

definition requests_nonneg :: "'q qops \<Rightarrow> 'q Pod \<Rightarrow> bool" where
  "requests_nonneg Q p \<longleftrightarrow> (\<forall>req \<in> set (pod_Requests p). \<forall>r. 0 \<le> container_request Q r req)"

lemma requested_append [simp]: "requested Q m (ps @ ps') = requested Q m ps + requested Q m ps'"
  by (simp add: requested_def)

lemma requested_Nil [simp]: "requested Q m [] = 0"
  by (simp add: requested_def)

lemma requested_nonneg: "\<forall>p \<in> set ps. requests_nonneg Q p \<Longrightarrow> 0 \<le> requested Q m ps"
  unfolding requested_def
  by (rule sum_list_nonneg)
    (fastforce simp: pod_requested_def requests_nonneg_def intro!: sum_list_nonneg split: option.splits)

locale gpu_probe =
  fixes Q :: "'q qops" and counted :: "'q Node \<Rightarrow> bool"
    and probe :: "'q Node list \<Rightarrow> 'q Pod list \<Rightarrow> int \<times> bool"
  assumes probe_counts: "probe nodes pods = probe_result Q (filter counted nodes) pods"
begin

lemma found_iff: "snd (probe nodes pods) \<longleftrightarrow> (\<exists>n \<in> set nodes. counted n \<and> node_gpus Q n \<noteq> [])"
  by (auto simp: probe_counts probe_result_def)

lemma free_nonneg: "0 \<le> fst (probe nodes pods)"
  by (simp add: probe_counts probe_result_def)

text \<open>Within range the free count is exact.\<close>

lemma free_exact: "snd (probe nodes pods) \<Longrightarrow>
  is_i64 (sum_list (map (node_total Q) (filter counted nodes)) -
    requested Q (matched_resources Q [] (filter counted nodes)) pods) \<Longrightarrow>
  fst (probe nodes pods) = max 0 (sum_list (map (node_total Q) (filter counted nodes)) -
    requested Q (matched_resources Q [] (filter counted nodes)) pods)"
  by (auto simp: probe_counts probe_result_def split: if_splits)

text \<open>Pods only take capacity away, as long as the counts stay in range.\<close>

lemma free_antimono:
  assumes "\<forall>p \<in> set ps'. requests_nonneg Q p"
    and "is_i64 (sum_list (map (node_total Q) (filter counted nodes)) -
      requested Q (matched_resources Q [] (filter counted nodes)) ps)"
    and "is_i64 (sum_list (map (node_total Q) (filter counted nodes)) -
      requested Q (matched_resources Q [] (filter counted nodes)) (ps @ ps'))"
  shows "fst (probe nodes (ps @ ps')) \<le> fst (probe nodes ps)"
  using requested_nonneg [OF assms(1), of "matched_resources Q [] (filter counted nodes)"] assms(2,3)
  by (auto simp: probe_counts probe_result_def)

end

definition model_counted :: "string \<Rightarrow> Options \<Rightarrow> 'q Node \<Rightarrow> bool" where
  "model_counted model opts n \<longleftrightarrow> nodeIsSchedulable n \<and> lget (node_Labels n) (modelLabel opts) = model"

definition selector_counted :: "labels \<Rightarrow> 'q Node \<Rightarrow> bool" where
  "selector_counted sel n \<longleftrightarrow> sel \<noteq> [] \<and> nodeIsSchedulable n \<and> nodeMatchesSelector n sel"

lemma selector_nodes_counted: "sel \<noteq> [] \<Longrightarrow> filter (selector_counted sel) nodes = selector_nodes sel nodes"
  unfolding selector_nodes_def by (rule filter_cong) (simp_all add: selector_counted_def)

lemma AvailabilityForSelector_probe:
  "(sa_Free (AvailabilityForSelector Q nodes pods sel), sa_Found (AvailabilityForSelector Q nodes pods sel)) =
   probe_result Q (filter (selector_counted sel) nodes) pods"
proof (cases "sel = []")
  case True
  then show ?thesis
    by (simp add: AvailabilityForSelector_def zero_availability_def probe_result_def selector_counted_def)
next
  case False
  let ?ns = "selector_nodes sel nodes"
  let ?acc = "foldl (\<lambda>acc n. foldl (avail_resource Q n) acc vendorResources)
                \<lparr>aa_matched = [], aa_total = 0, aa_sa = zero_availability\<rparr> ?ns"
  have free0: "sa_Free (aa_sa (foldl (\<lambda>acc n. foldl (avail_resource Q n) acc vendorResources) acc ns)) =
      sa_Free (aa_sa acc)" for acc ns
    by (induction ns arbitrary: acc) (auto simp: vendorResources_def avail_resource_def Let_def)
  have found: "sa_Found (aa_sa ?acc) \<longleftrightarrow> (\<exists>n \<in> set ?ns. node_gpus Q n \<noteq> [])"
    by (simp add: aa_found_nodes zero_availability_def)
  show ?thesis
    using False found
    by (auto simp: AvailabilityForSelector_eq probe_result_def selector_nodes_counted Let_def free0
        zero_availability_def)
qed

lemma model_fold:
  "is_i64 (ma_total acc) \<Longrightarrow>
   foldl (model_node Q model opts) acc nodes =
   (let ns = filter (model_counted model opts) nodes in
    \<lparr>ma_matched = matched_resources Q (ma_matched acc) ns,
     ma_total = i64 (ma_total acc + sum_list (map (node_total Q) ns)),
     ma_found = (ma_found acc \<or> (\<exists>n \<in> set ns. node_gpus Q n \<noteq> []))\<rparr>)"
proof (induction nodes arbitrary: acc)
  case Nil
  then show ?case by simp
next
  case (Cons n nodes)
  then show ?case
    by (simp add: model_node_def model_resource_def model_counted_def vendorResources_def
        node_gpus_def node_total_def Let_def add.assoc)
qed

lemma AvailableForModel_probe:
  "AvailableForModel Q nodes pods model opts = probe_result Q (filter (model_counted model opts) nodes) pods"
  by (simp add: AvailableForModel_def model_fold probe_result_def used_gpus_eq Let_def max_def)

interpretation model_probe: gpu_probe Q "model_counted model opts"
    "\<lambda>nodes pods. AvailableForModel Q nodes pods model opts" for Q model opts
  by unfold_locales (rule AvailableForModel_probe)

interpretation selector_probe: gpu_probe Q "selector_counted sel"
    "\<lambda>nodes pods. (sa_Free (AvailabilityForSelector Q nodes pods sel), sa_Found (AvailabilityForSelector Q nodes pods sel))"
    for Q sel
  by unfold_locales (rule AvailabilityForSelector_probe)


section \<open>The resource and vendor reported for a selector\<close>

lemma aa_res_keep:
  "sa_ResourceName (aa_sa acc) \<noteq> [] \<Longrightarrow>
   sa_ResourceName (aa_sa (foldl (\<lambda>acc n. foldl (avail_resource Q n) acc vendorResources) acc ns)) = sa_ResourceName (aa_sa acc) \<and>
   sa_Vendor (aa_sa (foldl (\<lambda>acc n. foldl (avail_resource Q n) acc vendorResources) acc ns)) = sa_Vendor (aa_sa acc)"
  by (induction ns arbitrary: acc) (simp_all add: vendorResources_def avail_resource_def Let_def)

lemma aa_res_first:
  assumes "sa_ResourceName (aa_sa acc) = []" and "\<exists>n \<in> set ns. node_gpus Q n \<noteq> []"
  shows "\<exists>n \<in> set ns. (sa_Vendor (aa_sa (foldl (\<lambda>acc n. foldl (avail_resource Q n) acc vendorResources) acc ns)),
           sa_ResourceName (aa_sa (foldl (\<lambda>acc n. foldl (avail_resource Q n) acc vendorResources) acc ns)))
         \<in> set (node_gpus Q n)"
  using assms
proof (induction ns arbitrary: acc)
  case Nil
  then show ?case by simp
next
  case (Cons n ns)
  let ?acc = "foldl (avail_resource Q n) acc vendorResources"
  show ?case
  proof (cases "node_gpus Q n = []")
    case True
    then have "?acc = acc"
      by (simp add: node_gpus_def avail_resource_def vendorResources_def split: if_splits)
    with Cons True show ?thesis by simp
  next
    case False
    with Cons.prems(1) have "sa_ResourceName (aa_sa ?acc) \<noteq> []"
      and "(sa_Vendor (aa_sa ?acc), sa_ResourceName (aa_sa ?acc)) \<in> set (node_gpus Q n)"
      by (auto simp: node_gpus_def avail_resource_def vendorResources_def Let_def gpu_consts
          split: if_splits)
    with aa_res_keep [of ?acc Q ns] show ?thesis by auto
  qed
qed

section \<open>Offerings as grouped contributions\<close>

text \<open>Every (node, resource) pair that \<open>DeriveOfferings\<close> counts, with its key and its count.\<close>

definition contributions :: "'q qops \<Rightarrow> 'q Node list \<Rightarrow> ('q Node \<times> GPUVendor \<times> string) list" where
  "contributions Q nodes =
     concat (map (\<lambda>n. map (Pair n) (node_gpus Q n)) (filter nodeIsSchedulable nodes))"

abbreviation contrib_count :: "'q qops \<Rightarrow> 'q Node \<times> GPUVendor \<times> string \<Rightarrow> int" where
  "contrib_count Q c \<equiv> gpuAllocatable Q (fst c) (snd (snd c))"

definition contrib_selector :: "Options \<Rightarrow> 'q Node \<times> GPUVendor \<times> string \<Rightarrow> string \<times> labels" where
  "contrib_selector opts c =
     resolveModelSelector (fst c) (modelLabel opts)
       (productLabels opts (offeringVendor opts (fst c) (fst (snd c))))"

definition contrib_key :: "Options \<Rightarrow> 'q Node \<times> GPUVendor \<times> string \<Rightarrow> offeringKey" where
  "contrib_key opts c =
     (offeringVendor opts (fst c) (fst (snd c)), [], snd (snd c), selectorIdentity (snd (contrib_selector opts c)))"

definition add_contrib ::
  "'q qops \<Rightarrow> Options \<Rightarrow> (offeringKey \<times> Offering) list \<Rightarrow> 'q Node \<times> GPUVendor \<times> string
   \<Rightarrow> (offeringKey \<times> Offering) list" where
  "add_contrib Q opts byKey c = derive_resource Q opts (fst c) byKey (snd c)"

lemma derive_fold:
  "foldl (derive_node Q opts) byKey nodes = foldl (add_contrib Q opts) byKey (contributions Q nodes)"
proof (induction nodes arbitrary: byKey)
  case Nil
  then show ?case by (simp add: contributions_def)
next
  case (Cons n nodes)
  have skip: "foldl (derive_resource Q opts n) byKey vrs =
      foldl (derive_resource Q opts n) byKey (filter (\<lambda>vr. 0 < gpuAllocatable Q n (snd vr)) vrs)" for byKey vrs
    by (induction vrs arbitrary: byKey) (auto simp: derive_resource_def)
  have "foldl (add_contrib Q opts) byKey (map (Pair n) (node_gpus Q n)) =
      foldl (derive_resource Q opts n) byKey vendorResources" for byKey
    by (subst skip) (simp add: foldl_map add_contrib_def node_gpus_def)
  with Cons show ?case
    by (cases "nodeIsSchedulable n") (simp_all add: derive_node_def contributions_def)
qed

lemma contributions_pos: "c \<in> set (contributions Q nodes) \<Longrightarrow>
  0 < contrib_count Q c \<and> nodeIsSchedulable (fst c) \<and> fst c \<in> set nodes"
  by (auto simp: contributions_def node_gpus_def)

lemma sum_list_partition_keys:
  fixes f :: "'a \<Rightarrow> int"
  assumes "distinct ks" and "g ` set cs \<subseteq> set ks"
  shows "sum_list (map (\<lambda>k. sum_list (map f (filter (\<lambda>c. g c = k) cs))) ks) = sum_list (map f cs)"
  using assms
proof (induction cs)
  case Nil
  then show ?case by (induction ks) auto
next
  case (Cons c cs)
  have "sum_list (map (\<lambda>k. sum_list (map f (filter (\<lambda>c'. g c' = k) (c # cs)))) ks) =
      sum_list (map (\<lambda>k. (if g c = k then f c else 0) + sum_list (map f (filter (\<lambda>c'. g c' = k) cs))) ks)"
    by (rule arg_cong [where f = sum_list], rule map_cong) auto
  also have "\<dots> = sum_list (map (\<lambda>k. if g c = k then f c else 0) ks) + sum_list (map f cs)"
    using Cons by (simp add: sum_list_addf)
  also have "sum_list (map (\<lambda>k. if g c = k then f c else 0) ks) = f c"
    using Cons.prems by (simp add: sum_list_map_eq_sum_count2 [of _ "set ks"] sum_list_distinct_conv_sum_set)
  finally show ?case by simp
qed

lemma sum_list_filter_mono:
  fixes f :: "'a \<Rightarrow> int"
  assumes "\<And>d. d \<in> set xs \<Longrightarrow> 0 < f d \<and> (P d \<longrightarrow> R d)"
  shows "sum_list (map f (filter P xs)) \<le> sum_list (map f (filter R xs))"
  using assms
proof (induction xs)
  case (Cons d xs)
  then have "sum_list (map f (filter P xs)) \<le> sum_list (map f (filter R xs))" by simp
  moreover have "0 < f d" "P d \<longrightarrow> R d" using Cons.prems by simp_all
  ultimately show ?case by auto
qed simp

text \<open>Adding up per key at a width: right up to wrap-around, and exact when the grand total is in
  range, because no group exceeds it.\<close>

lemma partition_at_width:
  fixes f :: "'a \<Rightarrow> int"
  assumes ks: "distinct ks" "g ` set cs \<subseteq> set ks" and pos: "\<And>c. c \<in> set cs \<Longrightarrow> 0 < f c"
  defines "S \<equiv> \<lambda>k. sum_list (map f (filter (\<lambda>c. g c = k) cs))"
  shows "i64 (sum_list (map (\<lambda>k. i64 (S k)) ks)) = i64 (sum_list (map f cs))"
    and "i32 (sum_list (map (\<lambda>k. i32 (S k)) ks)) = i32 (sum_list (map f cs))"
    and "is_i64 (sum_list (map f cs)) \<Longrightarrow> sum_list (map (\<lambda>k. i64 (S k)) ks) = sum_list (map f cs)"
    and "is_i32 (sum_list (map f cs)) \<Longrightarrow> sum_list (map (\<lambda>k. i32 (S k)) ks) = sum_list (map f cs)"
proof -
  have total: "sum_list (map S ks) = sum_list (map f cs)"
    unfolding S_def by (rule sum_list_partition_keys [OF ks])
  have "0 \<le> S k" for k
    unfolding S_def using pos by (intro sum_list_nonneg) (auto intro: less_imp_le)
  moreover have "S k \<le> sum_list (map f cs)" for k
    using sum_list_filter_mono [of cs f "\<lambda>c. g c = k" "\<lambda>_. True"] pos by (simp add: S_def)
  ultimately have "is_i64 (sum_list (map f cs)) \<Longrightarrow> i64 (S k) = S k"
    and "is_i32 (sum_list (map f cs)) \<Longrightarrow> i32 (S k) = S k" for k
    by (metis i64_id is_i64_between, metis i32_id is_i32_between)
  with total show "is_i64 (sum_list (map f cs)) \<Longrightarrow> sum_list (map (\<lambda>k. i64 (S k)) ks) = sum_list (map f cs)"
    and "is_i32 (sum_list (map f cs)) \<Longrightarrow> sum_list (map (\<lambda>k. i32 (S k)) ks) = sum_list (map f cs)"
    by (simp_all cong: map_cong)
  show "i64 (sum_list (map (\<lambda>k. i64 (S k)) ks)) = i64 (sum_list (map f cs))"
    and "i32 (sum_list (map (\<lambda>k. i32 (S k)) ks)) = i32 (sum_list (map f cs))"
    by (simp_all add: i64_sum_list i32_sum_list total)
qed

text \<open>What the entry of one key says about the contributions \<open>cs\<close>.\<close>

definition group_entry ::
  "'q qops \<Rightarrow> Options \<Rightarrow> ('q Node \<times> GPUVendor \<times> string) list \<Rightarrow> offeringKey \<Rightarrow> Offering \<Rightarrow> bool" where
  "group_entry Q opts cs k x \<longleftrightarrow>
     o_Total x = i64 (sum_list (map (contrib_count Q) (filter (\<lambda>c. contrib_key opts c = k) cs))) \<and>
     o_Nodes x = i32 (int (length (filter (\<lambda>c. contrib_key opts c = k) cs))) \<and>
     (\<exists>c \<in> set cs. contrib_key opts c = k \<and> o_Model x = fst (contrib_selector opts c) \<and>
        o_Selector x = snd (contrib_selector opts c) \<and> o_Vendor x = fst k \<and>
        o_ResourceName x = snd (snd c))"

text \<open>The grouping invariant after processing the contributions \<open>cs\<close>.\<close>

definition grouped ::
  "'q qops \<Rightarrow> Options \<Rightarrow> ('q Node \<times> GPUVendor \<times> string) list \<Rightarrow> (offeringKey \<times> Offering) list \<Rightarrow> bool" where
  "grouped Q opts cs byKey \<longleftrightarrow>
     distinct (map fst byKey) \<and> fst ` set byKey = contrib_key opts ` set cs \<and>
     (\<forall>(k, x) \<in> set byKey. group_entry Q opts cs k x)"

definition new_offering :: "Options \<Rightarrow> 'q Node \<times> GPUVendor \<times> string \<Rightarrow> Offering" where
  "new_offering opts c =
     \<lparr>o_Vendor = fst (contrib_key opts c), o_Model = fst (contrib_selector opts c), o_Profile = [],
      o_ResourceName = snd (snd c), o_Total = 0, o_Nodes = 0,
      o_Selector = snd (contrib_selector opts c), o_Labels = gpuLabels (fst c)\<rparr>"

definition count_in :: "'q qops \<Rightarrow> 'q Node \<times> GPUVendor \<times> string \<Rightarrow> Offering \<Rightarrow> Offering" where
  "count_in Q c x = x\<lparr>o_Total := i64 (o_Total x + contrib_count Q c), o_Nodes := i32 (o_Nodes x + 1)\<rparr>"

lemma add_contrib_eq: "0 < contrib_count Q c \<Longrightarrow>
  add_contrib Q opts byKey c = AList.update (contrib_key opts c)
    (count_in Q c (case map_of byKey (contrib_key opts c) of Some x \<Rightarrow> x | None \<Rightarrow> new_offering opts c)) byKey"
  by (simp add: add_contrib_def derive_resource_def contrib_key_def contrib_selector_def
      new_offering_def count_in_def Let_def split: prod.splits option.splits)

lemma group_entry_other: "contrib_key opts c \<noteq> k \<Longrightarrow> group_entry Q opts cs k x \<Longrightarrow> group_entry Q opts (cs @ [c]) k x"
  by (auto simp: group_entry_def)

lemma group_entry_count: "group_entry Q opts cs (contrib_key opts c) x \<Longrightarrow>
  group_entry Q opts (cs @ [c]) (contrib_key opts c) (count_in Q c x)"
  by (auto simp: group_entry_def count_in_def add.commute)

lemma group_entry_new: "contrib_key opts c \<notin> contrib_key opts ` set cs \<Longrightarrow>
  group_entry Q opts (cs @ [c]) (contrib_key opts c) (count_in Q c (new_offering opts c))"
proof -
  assume "contrib_key opts c \<notin> contrib_key opts ` set cs"
  then have "\<forall>c' \<in> set cs. contrib_key opts c' \<noteq> contrib_key opts c" by (metis image_eqI)
  then have "filter (\<lambda>c'. contrib_key opts c' = contrib_key opts c) cs = []"
    by (simp add: filter_empty_conv)
  then show ?thesis by (simp add: group_entry_def count_in_def new_offering_def)
qed

lemma grouped_add:
  assumes inv: "grouped Q opts cs byKey" and pos: "0 < contrib_count Q c"
  shows "grouped Q opts (cs @ [c]) (add_contrib Q opts byKey c)"
proof -
  let ?k = "contrib_key opts c"
  define x where "x = (case map_of byKey ?k of Some x \<Rightarrow> x | None \<Rightarrow> new_offering opts c)"
  have eq: "add_contrib Q opts byKey c = AList.update ?k (count_in Q c x) byKey"
    using pos by (simp add: add_contrib_eq x_def)
  have dist: "distinct (map fst (AList.update ?k (count_in Q c x) byKey))"
    using inv by (simp add: grouped_def distinct_update)
  have keys: "fst ` set (AList.update ?k (count_in Q c x) byKey) = contrib_key opts ` set (cs @ [c])"
    using inv by (simp add: grouped_def update_keys dom_update)
  have own: "group_entry Q opts (cs @ [c]) ?k (count_in Q c x)"
  proof (cases "map_of byKey ?k")
    case None
    with inv have "?k \<notin> contrib_key opts ` set cs" by (simp add: grouped_def map_of_eq_None_iff)
    with None show ?thesis by (simp add: x_def group_entry_new)
  next
    case (Some y)
    with inv have "group_entry Q opts cs ?k y" by (auto simp: grouped_def dest: map_of_SomeD)
    with Some show ?thesis by (simp add: x_def group_entry_count)
  qed
  have "group_entry Q opts (cs @ [c]) k y" if "(k, y) \<in> set (AList.update ?k (count_in Q c x) byKey)" for k y
  proof (cases "k = ?k")
    case True
    with that dist own show ?thesis by (metis map_of_is_SomeI update_conv' fun_upd_same option.inject)
  next
    case False
    from that dist have "((map_of byKey)(?k \<mapsto> count_in Q c x)) k = Some y"
      by (metis map_of_is_SomeI update_conv')
    with False have "(k, y) \<in> set byKey" by (auto dest: map_of_SomeD)
    with False inv show ?thesis by (auto simp: grouped_def group_entry_other)
  qed
  with dist keys show ?thesis unfolding eq grouped_def by blast
qed

lemma grouped_contributions:
  assumes "\<forall>c \<in> set cs. 0 < contrib_count Q c"
  shows "grouped Q opts cs (foldl (add_contrib Q opts) [] cs)"
  using assms
proof (induction cs rule: rev_induct)
  case Nil
  then show ?case by (simp add: grouped_def)
next
  case (snoc c cs)
  then show ?case by (simp add: grouped_add)
qed

lemma grouped_derive: "grouped Q opts (contributions Q nodes) (foldl (derive_node Q opts) [] nodes)"
  unfolding derive_fold by (rule grouped_contributions) (simp add: contributions_pos)

lemma sum_contributions:
  "sum_list (map (contrib_count Q) (filter (\<lambda>c. P (fst c)) (contributions Q nodes))) =
   sum_list (map (node_total Q) (filter (\<lambda>n. nodeIsSchedulable n \<and> P n) nodes))"
proof (induction nodes)
  case Nil
  then show ?case by (simp add: contributions_def)
next
  case (Cons n nodes)
  have "filter (\<lambda>c. P (fst c)) (map (Pair n) vrs) = (if P n then map (Pair n) vrs else [])" for vrs
    by (induction vrs) auto
  with Cons show ?case
    by (simp add: contributions_def node_total_def comp_def)
qed

lemma set_DeriveOfferings:
  assumes "\<And>xs. mset (iter xs) = mset xs"
  shows "set (DeriveOfferings iter Q nodes opts) = snd ` set (foldl (derive_node Q opts) [] nodes)"
proof -
  have "set (iter xs) = set xs" for xs using assms by (metis mset_eq_setD)
  then show ?thesis by (simp add: DeriveOfferings_def)
qed

lemma sum_DeriveOfferings:
  fixes f :: "Offering \<Rightarrow> int"
  assumes "\<And>xs. mset (iter xs) = mset xs"
  shows "sum_list (map f (DeriveOfferings iter Q nodes opts)) =
         sum_list (map (f \<circ> snd) (foldl (derive_node Q opts) [] nodes))"
proof -
  have "mset (map f (DeriveOfferings iter Q nodes opts)) =
        mset (map (f \<circ> snd) (foldl (derive_node Q opts) [] nodes))"
    using assms by (simp add: DeriveOfferings_def multiset.map_comp)
  then show ?thesis by (metis sum_mset_sum_list)
qed

subsection \<open>Selector identities\<close>

lemma render_single: "render_selector [(k, v)] = k @ ''='' @ v @ '';''"
  by (simp add: render_selector_def lget_def)

lemma takeWhile_neq_append: "c \<notin> set k \<Longrightarrow> takeWhile (\<lambda>x. x \<noteq> c) (k @ c # r) = k"
  by (induction k) auto

lemma selectorIdentity_single_inj:
  assumes "CHR ''='' \<notin> set k" and "CHR ''='' \<notin> set k'"
    and "k @ ''='' @ v @ '';'' = k' @ ''='' @ v' @ '';''"
  shows "k = k' \<and> v = v'"
proof -
  from assms(3) have "k = k'"
    using takeWhile_neq_append [OF assms(1), of v] takeWhile_neq_append [OF assms(2), of v']
    by simp
  with assms(3) show ?thesis by simp
qed

definition keys_plain :: "Options \<Rightarrow> bool" where
  "keys_plain opts \<longleftrightarrow> CHR ''='' \<notin> set (modelLabel opts) \<and>
     (\<forall>v. \<forall>k \<in> set (productLabels opts v). CHR ''='' \<notin> set k)"

lemma keys_plain_default: "keys_plain no_options"
  by (auto simp: keys_plain_def no_options_def modelLabel_def productLabels_def gpu_consts
      split: option.splits if_splits)

lemma contrib_selector_shape:
  "snd (contrib_selector opts c) = [] \<or>
   (\<exists>k v. snd (contrib_selector opts c) = [(k, v)] \<and> lget (node_Labels (fst c)) k = v \<and>
      (k = modelLabel opts \<or> k \<in> set (productLabels opts (offeringVendor opts (fst c) (fst (snd c))))))"
  by (auto simp: contrib_selector_def resolveModelSelector_def Let_def find_Some_iff in_set_conv_nth
      split: option.splits)

lemma contrib_key_selector:
  assumes plain: "keys_plain opts" and eq: "contrib_key opts c = contrib_key opts c'"
  shows "snd (contrib_selector opts c) = snd (contrib_selector opts c')"
proof -
  let ?s = "snd (contrib_selector opts c)" and ?s' = "snd (contrib_selector opts c')"
  from eq have id: "selectorIdentity ?s = selectorIdentity ?s'" by (simp add: contrib_key_def)
  have plain_key: "CHR ''='' \<notin> set k" if "snd (contrib_selector opts d) = [(k, v)]" for d k v
    using plain contrib_selector_shape [of opts d] that by (auto simp: keys_plain_def)
  show ?thesis
  proof (cases "?s = [] \<or> ?s' = []")
    case True
    with id contrib_selector_shape [of opts c] contrib_selector_shape [of opts c'] show ?thesis
      by (auto simp: selectorIdentity_def render_single)
  next
    case False
    then obtain k v k' v' where s: "?s = [(k, v)]" and s': "?s' = [(k', v')]"
      using contrib_selector_shape [of opts c] contrib_selector_shape [of opts c'] by auto
    with id plain_key [OF s] plain_key [OF s'] show ?thesis
      using selectorIdentity_single_inj [of k k' v v'] by (simp add: selectorIdentity_def render_single)
  qed
qed

lemma contrib_matches_selector: "nodeMatchesSelector (fst c) (snd (contrib_selector opts c))"
  using contrib_selector_shape [of opts c] by (auto simp: nodeMatchesSelector_def)

section \<open>Properties\<close>

text \<open>A concrete cluster for the witnesses: two GPU nodes and the pods on them.\<close>

definition demo_node :: "string \<Rightarrow> labels \<Rightarrow> int gomap \<Rightarrow> int Node" where
  "demo_node nm ls alloc = \<lparr>node_Name = nm, node_Labels = ls, node_Unschedulable = False,
     node_Conditions = [(''Ready'', ConditionTrue)], node_Allocatable = alloc\<rparr>"

definition demo_pod :: "string \<Rightarrow> int gomap \<Rightarrow> int Pod" where
  "demo_pod nm req = \<lparr>pod_NodeName = nm, pod_Phase = PodRunning, pod_Requests = [req]\<rparr>"

definition demo_nodes :: "int Node list" where
  "demo_nodes =
     [demo_node ''n1'' [(''exalsius.ai/gpu-model'', ''H100'')] [(''nvidia.com/gpu'', 4000000000)],
      demo_node ''n2'' [(''nvidia.com/gpu.product'', ''NVIDIA-L40'')] [(''nvidia.com/gpu'', 2000000000)]]"

lemmas demo_defs = demo_node_def demo_pod_def demo_nodes_def int_qops_def

text \<open>
  What the GPU gate reads off \<open>AvailabilityForSelector\<close>.  \<open>Found\<close> holds exactly when some
  schedulable node matches a non-empty selector and advertises a GPU resource; then the reported
  vendor and resource are advertised, in positive number, by such a node, and \<open>Free\<close> is the
  matching nodes' GPUs minus what pods on them request of the resource recorded for the node, at
  64 bits, cut off at zero.
\<close>

theorem AvailabilityForSelector_sound:
  fixes Q :: "'q qops" and nodes pods sel
  defines "sa \<equiv> AvailabilityForSelector Q nodes pods sel"
    and "ns \<equiv> selector_nodes sel nodes"
  shows "(sa_Found sa \<longleftrightarrow> sel \<noteq> [] \<and> (\<exists>n \<in> set ns. node_gpus Q n \<noteq> [])) \<and>
    (sa_Found sa \<longrightarrow>
       (\<exists>n \<in> set nodes. nodeIsSchedulable n \<and> nodeMatchesSelector n sel \<and>
          (sa_Vendor sa, sa_ResourceName sa) \<in> set vendorResources \<and>
          0 < gpuAllocatable Q n (sa_ResourceName sa)) \<and>
       sa_Free sa = max 0 (i64 (sum_list (map (node_total Q) ns) - requested Q (matched_resources Q [] ns) pods)))"
proof -
  have found: "sa_Found sa \<longleftrightarrow> sel \<noteq> [] \<and> (\<exists>n \<in> set ns. node_gpus Q n \<noteq> [])"
    using selector_probe.found_iff [of Q nodes pods sel]
    by (auto simp: sa_def ns_def selector_counted_def selector_nodes_def)
  have "\<exists>n \<in> set ns. (sa_Vendor sa, sa_ResourceName sa) \<in> set (node_gpus Q n)" if "sa_Found sa"
    using that found
      aa_res_first [of "\<lparr>aa_matched = [], aa_total = 0, aa_sa = zero_availability\<rparr>" ns Q]
    by (simp add: sa_def ns_def AvailabilityForSelector_eq Let_def zero_availability_def)
  then have "\<exists>n \<in> set nodes. nodeIsSchedulable n \<and> nodeMatchesSelector n sel \<and>
      (sa_Vendor sa, sa_ResourceName sa) \<in> set vendorResources \<and>
      0 < gpuAllocatable Q n (sa_ResourceName sa)" if "sa_Found sa"
    using that by (fastforce simp: ns_def selector_nodes_def node_gpus_def)
  moreover have "sa_Free sa = max 0 (i64 (sum_list (map (node_total Q) ns) - requested Q (matched_resources Q [] ns) pods))"
    if "sa_Found sa"
    using that found by (simp add: sa_def ns_def AvailabilityForSelector_eq Let_def)
  ultimately show ?thesis using found by blast
qed

theorem AvailabilityForSelector_sound_witness:
  "AvailabilityForSelector int_qops demo_nodes [demo_pod ''n1'' [(''nvidia.com/gpu'', 1000000000)]]
     [(''exalsius.ai/gpu-model'', ''H100'')]
   = \<lparr>sa_Found = True, sa_Free = 3, sa_ResourceName = ''nvidia.com/gpu'', sa_Vendor = ''NVIDIA''\<rparr> \<and>
   (\<exists>n \<in> set demo_nodes. nodeIsSchedulable n \<and> nodeMatchesSelector n [(''exalsius.ai/gpu-model'', ''H100'')] \<and>
      0 < gpuAllocatable int_qops n ''nvidia.com/gpu'')"
proof -
  have eq: "AvailabilityForSelector int_qops demo_nodes [demo_pod ''n1'' [(''nvidia.com/gpu'', 1000000000)]]
     [(''exalsius.ai/gpu-model'', ''H100'')]
     = \<lparr>sa_Found = True, sa_Free = 3, sa_ResourceName = ''nvidia.com/gpu'', sa_Vendor = ''NVIDIA''\<rparr>"
    by code_simp
  show ?thesis
    using AvailabilityForSelector_sound [of int_qops demo_nodes
        "[demo_pod ''n1'' [(''nvidia.com/gpu'', 1000000000)]]" "[(''exalsius.ai/gpu-model'', ''H100'')]"]
    unfolding eq by auto
qed

text \<open>
  What is really free, read off the listings alone.  A Kubernetes nodeSelector is satisfied by a
  node that carries every entry as a label; a node's GPUs are its allocatable GPU units less
  what the consuming pods placed on it request of the resources it advertises.
\<close>

definition carries_labels :: "'q Node \<Rightarrow> labels \<Rightarrow> bool" where
  "carries_labels n sel \<longleftrightarrow> (\<forall>(k, v) \<in> set sel. map_of (node_Labels n) k = Some v)"

definition placeable_nodes :: "labels \<Rightarrow> 'q Node list \<Rightarrow> 'q Node list" where
  "placeable_nodes sel nodes = filter (\<lambda>n. nodeIsSchedulable n \<and> carries_labels n sel) nodes"

definition pod_used :: "'q qops \<Rightarrow> 'q Node \<Rightarrow> 'q Pod \<Rightarrow> int" where
  "pod_used Q n p =
     (if podConsumes p \<and> pod_NodeName p = node_Name n
      then \<Sum>req \<leftarrow> pod_Requests p. \<Sum>vr \<leftarrow> node_gpus Q n. container_request Q (snd vr) req else 0)"

definition free_gpus :: "'q qops \<Rightarrow> 'q Node list \<Rightarrow> 'q Pod list \<Rightarrow> int" where
  "free_gpus Q ns pods = (\<Sum>n \<leftarrow> ns. node_total Q n - (\<Sum>p \<leftarrow> pods. pod_used Q n p))"

text \<open>When the loops count exactly: node names are unique, as the API server guarantees, no
  node advertises GPUs of both vendors, and the number of free GPUs is an \<open>int64\<close>.\<close>

definition exact_counts :: "'q qops \<Rightarrow> 'q Node list \<Rightarrow> 'q Pod list \<Rightarrow> bool" where
  "exact_counts Q ns pods \<longleftrightarrow>
     distinct (map node_Name ns) \<and> list_all (\<lambda>n. length (node_gpus Q n) \<le> 1) ns \<and>
     is_i64 (free_gpus Q ns pods)"

lemma pod_requested_matched:
  assumes "distinct (map node_Name ns)" and "list_all (\<lambda>n. length (node_gpus Q n) \<le> 1) ns"
    and "\<And>n. n \<in> set ns \<Longrightarrow> map_of m (node_Name n) = None"
  shows "pod_requested Q (matched_resources Q m ns) p = pod_requested Q m p + (\<Sum>n \<leftarrow> ns. pod_used Q n p)"
  using assms
proof (induction ns arbitrary: m)
  case Nil
  then show ?case by simp
next
  case (Cons n ns)
  show ?case
  proof (cases "node_gpus Q n = []")
    case True
    with Cons show ?thesis by (simp add: pod_used_def sum_list_triv)
  next
    case False
    with Cons.prems(2) obtain vr where one: "node_gpus Q n = [vr]" by (cases "node_gpus Q n") auto
    let ?m = "mput (node_Name n) (snd vr) m"
    have "map_of ?m (node_Name n') = None" if "n' \<in> set ns" for n'
      using that Cons.prems(1) Cons.prems(3) [of n'] by (auto simp: gomap) (metis image_eqI)
    then have "pod_requested Q (matched_resources Q ?m ns) p = pod_requested Q ?m p + (\<Sum>n \<leftarrow> ns. pod_used Q n p)"
      using Cons.prems by (intro Cons.IH) auto
    moreover have "pod_requested Q ?m p = pod_requested Q m p + pod_used Q n p"
      using Cons.prems(3) [of n] by (auto simp: pod_requested_def pod_used_def one gomap comp_def)
    ultimately show ?thesis by (simp add: one)
  qed
qed

lemma free_gpus_requested:
  assumes "distinct (map node_Name ns)" and "list_all (\<lambda>n. length (node_gpus Q n) \<le> 1) ns"
  shows "free_gpus Q ns pods = sum_list (map (node_total Q) ns) - requested Q (matched_resources Q [] ns) pods"
proof -
  have pod: "pod_requested Q (matched_resources Q [] ns) p = (\<Sum>n \<leftarrow> ns. pod_used Q n p)" for p
    using pod_requested_matched [OF assms, of "[]" p] by (simp add: pod_requested_def)
  show ?thesis
    by (induction pods)
      (simp_all add: free_gpus_def requested_def pod sum_list_subtractf sum_list_addf sum_list_triv)
qed

lemma plain_selector_match:
  assumes "\<And>kv. kv \<in> set sel \<Longrightarrow> snd kv \<noteq> []"
  shows "nodeMatchesSelector n sel \<longleftrightarrow> carries_labels n sel"
proof -
  have "v \<noteq> [] \<Longrightarrow> lget ls k = v \<longleftrightarrow> map_of ls k = Some v" for ls :: labels and k v
    by (auto simp: lget_def split: option.splits)
  with assms show ?thesis by (fastforce simp: nodeMatchesSelector_def carries_labels_def list_all_iff)
qed

text \<open>What \<open>AvailabilityForSelector\<close> says of a selector without empty values.\<close>

lemma availability_placeable:
  fixes Q :: "'q qops" and nodes pods sel
  assumes plain: "\<And>kv. kv \<in> set sel \<Longrightarrow> snd kv \<noteq> []"
    and found: "sa_Found (AvailabilityForSelector Q nodes pods sel)"
  defines "ns \<equiv> placeable_nodes sel nodes"
  shows "\<exists>n \<in> set ns. node_gpus Q n \<noteq> []"
    and "exact_counts Q ns pods \<Longrightarrow> sa_Free (AvailabilityForSelector Q nodes pods sel) = max 0 (free_gpus Q ns pods)"
proof -
  have sel: "sel \<noteq> []" using found by (auto simp: AvailabilityForSelector_def zero_availability_def)
  have ns: "filter (selector_counted sel) nodes = ns"
    unfolding ns_def placeable_nodes_def
    by (rule filter_cong) (simp_all add: selector_counted_def sel plain_selector_match [OF plain])
  show "\<exists>n \<in> set ns. node_gpus Q n \<noteq> []"
    using selector_probe.found_iff [of Q nodes pods sel] found ns by auto
  show "sa_Free (AvailabilityForSelector Q nodes pods sel) = max 0 (free_gpus Q ns pods)" if "exact_counts Q ns pods"
    using selector_probe.free_exact [of Q nodes pods sel] found that free_gpus_requested [of ns Q pods]
    by (simp add: ns exact_counts_def)
qed

text \<open>
  C40: the model-keyed query and the selector query agree.  \<open>AvailableForModel\<close> is
  \<open>AvailabilityForSelector\<close> at the selector \<open>NodeSelectorForModel\<close> returns, on every input.
\<close>

theorem AvailableForModel_is_selector_query:
  fixes Q :: "'q qops"
  shows "AvailableForModel Q nodes pods model opts =
     (let sa = AvailabilityForSelector Q nodes pods (NodeSelectorForModel model opts)
      in (sa_Free sa, sa_Found sa))"
proof -
  have "selector_counted (NodeSelectorForModel model opts) = (model_counted model opts :: 'q Node \<Rightarrow> bool)"
    by (auto simp: fun_eq_iff selector_counted_def model_counted_def NodeSelectorForModel_def nodeMatchesSelector_def)
  then show ?thesis
    using AvailabilityForSelector_probe [of Q nodes pods "NodeSelectorForModel model opts"]
    by (simp add: AvailableForModel_probe Let_def)
qed

text \<open>The two columns of the offerings, by key.\<close>

lemma offering_columns:
  fixes Q :: "'q qops" and nodes opts
  assumes "\<And>xs. mset (iter xs) = mset xs"
  defines "cs \<equiv> contributions Q nodes" and "ks \<equiv> map fst (foldl (derive_node Q opts) [] nodes)"
  shows "sum_list (map o_Total (DeriveOfferings iter Q nodes opts)) =
      sum_list (map (\<lambda>k. i64 (sum_list (map (contrib_count Q) (filter (\<lambda>c. contrib_key opts c = k) cs)))) ks)"
    and "sum_list (map o_Nodes (DeriveOfferings iter Q nodes opts)) =
      sum_list (map (\<lambda>k. i32 (sum_list (map (\<lambda>_. 1) (filter (\<lambda>c. contrib_key opts c = k) cs)))) ks)"
    and "distinct ks" and "contrib_key opts ` set cs \<subseteq> set ks"
proof -
  have inv: "grouped Q opts cs (foldl (derive_node Q opts) [] nodes)"
    unfolding cs_def by (rule grouped_derive)
  then show "distinct ks" and "contrib_key opts ` set cs \<subseteq> set ks"
    by (simp_all add: grouped_def ks_def)
  have "\<forall>kx \<in> set (foldl (derive_node Q opts) [] nodes). group_entry Q opts cs (fst kx) (snd kx)"
    using inv by (auto simp: grouped_def)
  then show "sum_list (map o_Total (DeriveOfferings iter Q nodes opts)) =
      sum_list (map (\<lambda>k. i64 (sum_list (map (contrib_count Q) (filter (\<lambda>c. contrib_key opts c = k) cs)))) ks)"
    and "sum_list (map o_Nodes (DeriveOfferings iter Q nodes opts)) =
      sum_list (map (\<lambda>k. i32 (sum_list (map (\<lambda>_. 1) (filter (\<lambda>c. contrib_key opts c = k) cs)))) ks)"
    unfolding ks_def map_map sum_DeriveOfferings [OF assms(1)]
    by (auto simp: group_entry_def sum_list_triv intro!: arg_cong [where f = sum_list] map_cong)
qed

lemma length_contributions:
  "(\<Sum>c \<leftarrow> contributions Q nodes. 1) = (\<Sum>n \<leftarrow> filter nodeIsSchedulable nodes. int (length (node_gpus Q n)))"
proof -
  have "int (sum_list xs) = sum_list (map int xs)" for xs by (induction xs) simp_all
  then show ?thesis by (simp add: sum_list_triv contributions_def length_concat comp_def)
qed

text \<open>
  C39: nothing is lost or counted twice.  The \<open>int64\<close> totals of the derived offerings add up,
  modulo wrap-around, to the GPUs advertised by the schedulable nodes, and their \<open>int32\<close> node
  counts to the advertised (node, resource) pairs, whatever order Go iterates over the map in.
  When the number of advertised GPUs is an \<open>int64\<close>, no total has wrapped and the sums are equal;
  likewise for the node counts when the number of pairs is an \<open>int32\<close>.
\<close>

theorem DeriveOfferings_conserves:
  fixes Q :: "'q qops" and nodes
  assumes "\<And>xs. mset (iter xs) = mset xs"
  defines "gpus \<equiv> \<Sum>n \<leftarrow> filter nodeIsSchedulable nodes. node_total Q n"
    and "pairs \<equiv> \<Sum>n \<leftarrow> filter nodeIsSchedulable nodes. int (length (node_gpus Q n))"
  shows "i64 (sum_list (map o_Total (DeriveOfferings iter Q nodes opts))) = i64 gpus \<and>
         i32 (sum_list (map o_Nodes (DeriveOfferings iter Q nodes opts))) = i32 pairs \<and>
         (is_i64 gpus \<longrightarrow> sum_list (map o_Total (DeriveOfferings iter Q nodes opts)) = gpus) \<and>
         (is_i32 pairs \<longrightarrow> sum_list (map o_Nodes (DeriveOfferings iter Q nodes opts)) = pairs)"
proof -
  note cols = offering_columns [OF assms(1), where Q = Q and nodes = nodes and opts = opts]
  note width = partition_at_width [OF cols(3,4)]
  have "gpus = sum_list (map (contrib_count Q) (contributions Q nodes))"
    using sum_contributions [of Q "\<lambda>_. True" nodes] by (simp add: gpus_def)
  moreover have "0 < contrib_count Q c" if "c \<in> set (contributions Q nodes)" for c
    using contributions_pos [OF that] by blast
  note width(1,3) [OF this]
  moreover note width(2,4) [of "\<lambda>_. 1"]
  ultimately show ?thesis
    unfolding cols(1,2) pairs_def length_contributions [symmetric] by (intro conjI impI) simp_all
qed

theorem DeriveOfferings_conserves_witness:
  "sum_list (map o_Total (DeriveOfferings rev int_qops demo_nodes no_options)) = 6 \<and>
   sum_list (map o_Nodes (DeriveOfferings rev int_qops demo_nodes no_options)) = 2 \<and>
   length (DeriveOfferings rev int_qops demo_nodes no_options) = 2"
proof -
  have "(\<Sum>n \<leftarrow> filter nodeIsSchedulable demo_nodes. node_total int_qops n) = 6" by code_simp
  moreover have "(\<Sum>n \<leftarrow> filter nodeIsSchedulable demo_nodes. int (length (node_gpus int_qops n))) = 2" by code_simp
  moreover have "length (DeriveOfferings rev int_qops demo_nodes no_options) = 2" by code_simp
  ultimately show ?thesis
    using DeriveOfferings_conserves [of rev int_qops demo_nodes no_options]
    by (simp add: is_i64_def is_i32_def)
qed

lemma selector_total_le:
  "sum_list (map (node_total Q) (selector_nodes sel nodes)) \<le> (\<Sum>n \<leftarrow> filter nodeIsSchedulable nodes. node_total Q n)"
  by (induction nodes) (auto simp: selector_nodes_def node_total_nonneg add_increasing)

text \<open>
  Picking an advertised offering passes the gate.  For the options every caller uses, an
  offering that carries a selector is found when that very selector is evaluated on the same
  nodes, with at least as many GPUs as the offering advertises, provided the GPUs of all
  schedulable nodes together are an \<open>int64\<close>.
\<close>

theorem offering_selector_passes_gate:
  assumes perm: "\<And>xs. mset (iter xs) = mset xs"
    and mem: "x \<in> set (DeriveOfferings iter Q nodes no_options)"
    and sel: "o_Selector x \<noteq> []"
    and range: "is_i64 (\<Sum>n \<leftarrow> filter nodeIsSchedulable nodes. node_total Q n)"
  shows "sa_Found (AvailabilityForSelector Q nodes [] (o_Selector x)) \<and>
         o_Total x \<le> sa_Free (AvailabilityForSelector Q nodes [] (o_Selector x))"
proof -
  let ?cs = "contributions Q nodes" and ?s = "o_Selector x"
  from mem obtain k where "(k, x) \<in> set (foldl (derive_node Q no_options) [] nodes)"
    by (auto simp: set_DeriveOfferings [OF perm])
  with grouped_derive have entry: "group_entry Q no_options ?cs k x" by (fastforce simp: grouped_def)
  then obtain c where c: "c \<in> set ?cs" "contrib_key no_options c = k" "?s = snd (contrib_selector no_options c)"
    by (auto simp: group_entry_def)
  have same: "nodeMatchesSelector (fst d) ?s" if "contrib_key no_options d = k" for d
    using contrib_key_selector [OF keys_plain_default, of d c] contrib_matches_selector [of d no_options] that c
    by metis
  let ?g = "sum_list (map (contrib_count Q) (filter (\<lambda>d. contrib_key no_options d = k) ?cs))"
    and ?t = "sum_list (map (node_total Q) (selector_nodes ?s nodes))"
  have "?g \<le> sum_list (map (contrib_count Q) (filter (\<lambda>d. nodeMatchesSelector (fst d) ?s) ?cs))"
    by (rule sum_list_filter_mono) (use contributions_pos same in blast)
  then have g_le: "?g \<le> ?t"
    using sum_contributions [of Q "\<lambda>n. nodeMatchesSelector n ?s" nodes] by (simp add: selector_nodes_def)
  have g_pos: "0 \<le> ?g" using contributions_pos by (intro sum_list_nonneg) (fastforce intro: less_imp_le)
  have "?t \<le> (\<Sum>n \<leftarrow> filter nodeIsSchedulable nodes. node_total Q n)"
    by (rule selector_total_le)
  with range have t_range: "is_i64 ?t" by (metis is_i64_between node_totals_nonneg)
  have "is_i64 ?g" by (rule is_i64_between [OF g_pos g_le t_range])
  with entry have total: "o_Total x = ?g" by (simp add: group_entry_def)
  have "node_gpus Q (fst c) \<noteq> []"
    using c(1) by (auto simp: contributions_def)
  with contributions_pos [OF c(1)] same [OF c(2)] sel
  have found: "sa_Found (AvailabilityForSelector Q nodes [] ?s)"
    using selector_probe.found_iff [of Q nodes "[]" ?s] by (auto simp: selector_counted_def)
  with selector_probe.free_exact [of Q nodes "[]" ?s] t_range
  have "sa_Free (AvailabilityForSelector Q nodes [] ?s) = max 0 ?t"
    by (simp add: selector_nodes_counted [OF sel])
  with found total g_le show ?thesis by simp
qed

theorem offering_selector_passes_gate_witness:
  "(let x = DeriveOfferings rev int_qops demo_nodes no_options ! 1 in
     o_Selector x = [(''nvidia.com/gpu.product'', ''NVIDIA-L40'')] \<and>
     sa_Found (AvailabilityForSelector int_qops demo_nodes [] (o_Selector x)) \<and>
     o_Total x \<le> sa_Free (AvailabilityForSelector int_qops demo_nodes [] (o_Selector x)))"
proof -
  let ?x = "DeriveOfferings rev int_qops demo_nodes no_options ! 1"
  have sel: "o_Selector ?x = [(''nvidia.com/gpu.product'', ''NVIDIA-L40'')]" by code_simp
  have range: "is_i64 (\<Sum>n \<leftarrow> filter nodeIsSchedulable demo_nodes. node_total int_qops n)" by code_simp
  have "length (DeriveOfferings rev int_qops demo_nodes no_options) = 2" by code_simp
  then have "?x \<in> set (DeriveOfferings rev int_qops demo_nodes no_options)" by (intro nth_mem) simp
  then show ?thesis
    using sel offering_selector_passes_gate [of rev ?x int_qops demo_nodes] range by (simp add: Let_def)
qed

text \<open>
  When a passed gate means placeable.  A node satisfies a selector in the gate exactly when
  each entry is one of its labels, except that an entry with an empty value is also satisfied by a
  node that lacks the label altogether.  A Kubernetes nodeSelector, which the chart applies
  verbatim, never matches such a node.
\<close>

theorem nodeMatchesSelector_placeable:
  "nodeMatchesSelector n sel \<longleftrightarrow>
     (\<forall>(k, v) \<in> set sel. map_of (node_Labels n) k = Some v \<or> (v = [] \<and> map_of (node_Labels n) k = None))"
proof -
  have "lget ls k = v \<longleftrightarrow> map_of ls k = Some v \<or> (v = [] \<and> map_of ls k = None)" for ls :: labels and k v
    by (auto simp: lget_def split: option.splits)
  then show ?thesis by (auto simp: nodeMatchesSelector_def list_all_iff)
qed

theorem nodeMatchesSelector_placeable_witness:
  "nodeMatchesSelector (demo_node ''n1'' [(''a'', ''x'')] []) [(''a'', ''x''), (''b'', [])] \<and>
   map_of (node_Labels (demo_node ''n1'' [(''a'', ''x'')] [])) ''b'' = None"
  using nodeMatchesSelector_placeable [of "demo_node ''n1'' [(''a'', ''x'')] []" "[(''a'', ''x''), (''b'', [])]"]
  by (simp add: demo_node_def)

text \<open>
  A node that advertises GPUs of both vendors.  The per-node \<open>matched\<close> entry keeps only the
  second vendor's resource, so the requests of pods for the first are never subtracted: with every
  NVIDIA GPU of the node requested, \<open>AvailabilityForSelector\<close> still reports them free.
\<close>

theorem mixed_vendor_node_overcounted:
  assumes n: "nodeIsSchedulable n" "nodeMatchesSelector n sel" "sel \<noteq> []"
    and a: "gpuAllocatable Q n ResourceNvidiaGPU = a" "0 < a"
    and b: "gpuAllocatable Q n ResourceAMDGPU = b" "0 < b"
    and p: "pod_NodeName p = node_Name n" "pod_Requests p = [[(ResourceNvidiaGPU, q)]]" "q_value Q q = a"
    and range: "is_i64 (a + b)"
  shows "sa_Free (AvailabilityForSelector Q [n] [p] sel) = a + b"
  using assms
  by (simp add: AvailabilityForSelector_def avail_node_def avail_resource_def vendorResources_def
      zero_availability_def used_gpus_def used_step_def container_request_def Let_def
      ResourceNvidiaGPU_def ResourceAMDGPU_def)

theorem mixed_vendor_node_overcounted_witness:
  "sa_Free (AvailabilityForSelector int_qops
     [demo_node ''n1'' [(''pool'', ''gpu'')] [(''nvidia.com/gpu'', 2000000000), (''amd.com/gpu'', 1000000000)]]
     [demo_pod ''n1'' [(''nvidia.com/gpu'', 2000000000)]] [(''pool'', ''gpu'')]) = 3"
proof -
  let ?n = "demo_node ''n1'' [(''pool'', ''gpu'')] [(''nvidia.com/gpu'', 2000000000), (''amd.com/gpu'', 1000000000)]"
  have "nodeIsSchedulable ?n" by code_simp
  moreover have "nodeMatchesSelector ?n [(''pool'', ''gpu'')]" by code_simp
  moreover have "gpuAllocatable int_qops ?n ResourceNvidiaGPU = 2" by code_simp
  moreover have "gpuAllocatable int_qops ?n ResourceAMDGPU = 1" by code_simp
  moreover have "q_value int_qops 2000000000 = 2" by code_simp
  ultimately have "sa_Free (AvailabilityForSelector int_qops [?n]
      [demo_pod ''n1'' [(''nvidia.com/gpu'', 2000000000)]] [(''pool'', ''gpu'')]) = 2 + 1"
    by (intro mixed_vendor_node_overcounted) (simp_all add: demo_node_def demo_pod_def ResourceNvidiaGPU_def is_i64_def)
  then show ?thesis by simp
qed

end
