(* ===== verification/Gpu_Gate.thy ===== *)
theory Gpu_Gate
  imports Prerequisites Gpu_Offering
begin

text \<open>
  The GPU gate of \<open>workspacedeployment_controller.go\<close>: which node selector a workspace asks for,
  whether the child cluster can serve it now, and who of the waiting workspaces goes first.
\<close>

section \<open>Operations\<close>

definition gpuModelOf :: "'q WorkspaceResourceSpec \<Rightarrow> string" where
  "gpuModelOf rs = (case rr_GPUType (ws_PerReplica rs) of Some t \<Rightarrow> t | None \<Rightarrow> [])"

definition node_selector :: "'q WorkspaceResourceSpec \<Rightarrow> labels" where
  "node_selector rs = (case rr_GPUNodeSelector (ws_PerReplica rs) of Some m \<Rightarrow> m | None \<Rightarrow> [])"

definition gpuSelectorOf :: "'q WorkspaceResourceSpec \<Rightarrow> labels" where
  "gpuSelectorOf rs = BuildSelector (gpuModelOf rs) (node_selector rs) no_options"

text \<open>\<open>%v\<close> of a map prints its entries in key order.\<close>

definition fmt_map :: "labels \<Rightarrow> string" where
  "fmt_map m = ''map['' @ str_join '' '' (map (\<lambda>k. k @ '':'' @ lget m k) (sort (map fst m))) @ '']''"

definition describeGPUSelector :: "'q WorkspaceResourceSpec \<Rightarrow> string" where
  "describeGPUSelector rs =
     (if gpuModelOf rs \<noteq> [] then ''model '' @ fmt_q (gpuModelOf rs)
      else ''selector '' @ fmt_map (node_selector rs))"

definition gpuDemand :: "'q WorkspaceResourceSpec \<Rightarrow> int" where
  "gpuDemand rs =
     (let replicas = (case ws_Replicas rs of Some n \<Rightarrow> n | None \<Rightarrow> 1);
          perReplica = (case rr_GPUCount (ws_PerReplica rs) of Some n \<Rightarrow> n | None \<Rightarrow> 0)
      in i64 (replicas * perReplica))"

definition selectorKey :: "labels \<Rightarrow> string" where
  "selectorKey sel = render_selector sel"

definition effectiveGPUSelector :: "'q WorkspaceDeployment \<Rightarrow> labels" where
  "effectiveGPUSelector wsd =
     (case (case st_ResolvedResources (wsd_Status wsd) of
              Some rs \<Rightarrow> Some rs
            | None \<Rightarrow> wss_Resources (wsd_Spec wsd)) of
        None \<Rightarrow> []
      | Some rs \<Rightarrow> gpuSelectorOf rs)"

definition isOlderWorkspace :: "'q WorkspaceDeployment \<Rightarrow> 'q WorkspaceDeployment \<Rightarrow> bool" where
  "isOlderWorkspace a b \<longleftrightarrow>
     (if wsd_CreationTimestamp a = wsd_CreationTimestamp b then wsd_UID a < wsd_UID b
      else wsd_CreationTimestamp a < wsd_CreationTimestamp b)"

text \<open>The conditions of the loop of \<open>hasOlderWaitingSibling\<close> on one listed workspace.\<close>

definition waiting_for :: "ClusterDeploymentRef \<Rightarrow> string \<Rightarrow> 'q WorkspaceDeployment \<Rightarrow> bool" where
  "waiting_for cdRef wantKey s \<longleftrightarrow>
     st_Phase (wsd_Status s) = PhaseWaiting \<and> wss_ClusterDeploymentRef (wsd_Spec s) = cdRef \<and>
     selectorKey (effectiveGPUSelector s) = wantKey"

definition older_waiting :: "'q WorkspaceDeployment list \<Rightarrow> 'q WorkspaceDeployment \<Rightarrow> string \<Rightarrow> bool" where
  "older_waiting items wsd wantKey =
     list_ex (\<lambda>s. wsd_UID s \<noteq> wsd_UID wsd \<and>
                  waiting_for (wss_ClusterDeploymentRef (wsd_Spec wsd)) wantKey s \<and>
                  isOlderWorkspace s wsd) items"

definition hasOlderWaitingSibling :: "('w, 'q) reconciler \<Rightarrow> labels \<Rightarrow> ('w, 'q, goerr + bool) rec" where
  "hasOlderWaitingSibling r selector = do {
     wsd \<leftarrow> get_wsd;
     lr \<leftarrow> invoke EListWsds (api_list_wsds (r_api r) None);
     (case lr of
        Inl e \<Rightarrow> State_Monad.return (Inl e)
      | Inr items \<Rightarrow> State_Monad.return (Inr (older_waiting items wsd (selectorKey selector))))
   }"

definition enterWaiting ::
  "('w, 'q) reconciler \<Rightarrow> 'q WorkspaceResourceSpec \<Rightarrow> string \<Rightarrow> ('w, 'q, Result) rec" where
  "enterWaiting r resolved msg = do {
     modify_status (\<lambda>st. st\<lparr>st_ResolvedResources := Some resolved, st_Phase := PhaseWaiting, st_Message := msg\<rparr>);
     eventf r ''Normal'' ReasonWaitingForGpuCapacity ''Reconcile'' msg;
     _ \<leftarrow> update_status r;
     State_Monad.return requeue
   }"

text \<open>The three transient exits of the gate: keep Pending with a message and requeue.\<close>

definition keep_pending :: "('w, 'q) reconciler \<Rightarrow> string \<Rightarrow> ('w, 'q, Result) rec" where
  "keep_pending r msg = do {
     modify_status (\<lambda>st. st\<lparr>st_Phase := PhasePending, st_Message := msg\<rparr>);
     _ \<leftarrow> update_status r;
     State_Monad.return requeue
   }"

text \<open>From the availability on: absent selector, capacity, first come first served.\<close>

definition gate_decision ::
  "('w, 'q) reconciler \<Rightarrow> 'q WorkspaceResourceSpec \<Rightarrow> labels \<Rightarrow> SelectorAvailability \<Rightarrow> ('w, 'q, Result \<times> bool) rec" where
  "gate_decision r resolved selector avail = do {
     wsd \<leftarrow> get_wsd;
     let cluster = fmt_q (cdr_Name (wss_ClusterDeploymentRef (wsd_Spec wsd)));
     if \<not> sa_Found avail then do {
       markFailed r ReasonGpuOfferingUnavailable
         (''No GPU matching '' @ describeGPUSelector resolved @ '' is available on cluster '' @ cluster @
          ''; choose a different cluster or GPU'');
       _ \<leftarrow> update_status r;
       State_Monad.return (no_requeue, False)
     }
     else
       let demand = gpuDemand resolved in
       if demand > 0 \<and> sa_Free avail < demand then do {
         res \<leftarrow> enterWaiting r resolved
           (''Waiting for '' @ fmt_d demand @ '' GPU(s) matching '' @ describeGPUSelector resolved @
            '' on cluster '' @ cluster @ ''; '' @ fmt_d (sa_Free avail) @ '' currently free'');
         State_Monad.return (res, False)
       }
       else do {
         older \<leftarrow> hasOlderWaitingSibling r selector;
         (case older of
            Inl _ \<Rightarrow> State_Monad.return (requeue, False)
          | Inr True \<Rightarrow> do {
              res \<leftarrow> enterWaiting r resolved
                (''Waiting behind older workspace(s) requesting '' @ describeGPUSelector resolved @
                 '' on cluster '' @ cluster);
              State_Monad.return (res, False)
            }
          | Inr False \<Rightarrow> State_Monad.return (no_requeue, True))
       }
   }"

definition gateGPUOffering ::
  "('w, 'q) reconciler \<Rightarrow> 'q WorkspaceClass \<Rightarrow> ('w, 'q, Result \<times> bool) rec" where
  "gateGPUOffering r wsc = do {
     wsd \<leftarrow> get_wsd;
     let resolved = mergeResources (wsc_DefaultResources (wsc_Spec wsc)) (wss_Resources (wsd_Spec wsd));
     let selector = gpuSelectorOf resolved;
     if selector = [] then State_Monad.return (no_requeue, True)
     else do {
       cr \<leftarrow> getChildClusterClient r;
       (case cr of
          Inl e \<Rightarrow> do {
            res \<leftarrow> keep_pending r (''Waiting for child cluster access to verify GPU availability: '' @ emsg e);
            State_Monad.return (res, False)
          }
        | Inr child \<Rightarrow> do {
            nr \<leftarrow> invoke (EListNodes child) (api_list_nodes (r_api r) child);
            (case nr of
               Inl e \<Rightarrow> do {
                 res \<leftarrow> keep_pending r (''Could not list nodes to verify GPU availability: '' @ emsg e);
                 State_Monad.return (res, False)
               }
             | Inr nodes \<Rightarrow> do {
                 pr \<leftarrow> invoke (EListPods child) (api_list_pods (r_api r) child);
                 (case pr of
                    Inl e \<Rightarrow> do {
                      res \<leftarrow> keep_pending r (''Could not list pods to check GPU capacity: '' @ emsg e);
                      State_Monad.return (res, False)
                    }
                  | Inr pods \<Rightarrow>
                      gate_decision r resolved selector (AvailabilityForSelector (r_Q r) nodes pods selector))
               })
          })
     }
   }"

text \<open>\<open>resolveGPUResource\<close>: the resource name, and \<open>resolved\<close> with its vendor filled in.\<close>

definition resolveGPUResource ::
  "('w, 'q) reconciler \<Rightarrow> kubeconfig \<Rightarrow> 'q WorkspaceResourceSpec
   \<Rightarrow> ('w, 'q, string \<times> 'q WorkspaceResourceSpec) rec" where
  "resolveGPUResource r child resolved = do {
     let fallback = (case rr_GPUVendor (ws_PerReplica resolved) of
                       Some v \<Rightarrow> (ResourceForVendor v, resolved)
                     | None \<Rightarrow> ([], resolved));
     let selector = gpuSelectorOf resolved;
     if selector = [] then State_Monad.return fallback
     else do {
       nr \<leftarrow> invoke (EListNodes child) (api_list_nodes (r_api r) child);
       (case nr of
          Inl _ \<Rightarrow> State_Monad.return fallback
        | Inr nodes \<Rightarrow>
            (let avail = AvailabilityForSelector (r_Q r) nodes [] selector in
             if sa_Found avail then
               State_Monad.return (sa_ResourceName avail,
                 if rr_GPUVendor (ws_PerReplica resolved) = None
                 then resolved\<lparr>ws_PerReplica := (ws_PerReplica resolved)\<lparr>rr_GPUVendor := Some (sa_Vendor avail)\<rparr>\<rparr>
                 else resolved)
             else State_Monad.return fallback))
     }
   }"


section \<open>First come, first served\<close>

text \<open>The queue discipline a waiting workspace relies on: seniority is a strict order that
  compares any two workspaces of different identity.\<close>

locale seniority =
  fixes older :: "'a \<Rightarrow> 'a \<Rightarrow> bool" and ident :: "'a \<Rightarrow> 'i"
  assumes older_irrefl: "\<not> older a a"
    and older_trans: "older a b \<Longrightarrow> older b c \<Longrightarrow> older a c"
    and older_total: "ident a \<noteq> ident b \<Longrightarrow> older a b \<or> older b a"
begin

lemma older_asym: "older a b \<Longrightarrow> \<not> older b a"
  using older_irrefl older_trans by blast

text \<open>In any finite queue somebody is not held back by anybody else.\<close>

lemma front_exists:
  assumes "finite W" and "W \<noteq> {}"
  shows "\<exists>x \<in> W. \<forall>y \<in> W. \<not> older y x"
  using assms
proof (induction rule: finite_ne_induct)
  case (singleton x)
  then show ?case by (simp add: older_irrefl)
next
  case (insert x W)
  then obtain m where m: "m \<in> W" "\<forall>y \<in> W. \<not> older y m" by blast
  show ?case
  proof (cases "older x m")
    case True
    then have "\<forall>y \<in> insert x W. \<not> older y x" using m older_irrefl older_trans by blast
    then show ?thesis by blast
  next
    case False
    with m show ?thesis by blast
  qed
qed

lemma front_unique:
  assumes "x \<in> W" "\<forall>y \<in> W. \<not> older y x" and "x' \<in> W" "\<forall>y \<in> W. \<not> older y x'"
  shows "ident x = ident x'"
  using assms older_total by blast

end

interpretation fcfs: seniority isOlderWorkspace wsd_UID
proof
  fix a b c :: "'q WorkspaceDeployment"
  show "\<not> isOlderWorkspace a a" by (simp add: isOlderWorkspace_def)
  show "isOlderWorkspace a b \<Longrightarrow> isOlderWorkspace b c \<Longrightarrow> isOlderWorkspace a c"
    by (auto simp: isOlderWorkspace_def split: if_splits)
  show "wsd_UID a \<noteq> wsd_UID b \<Longrightarrow> isOlderWorkspace a b \<or> isOlderWorkspace b a"
    by (auto simp: isOlderWorkspace_def)
qed


section \<open>Lemmas\<close>

lemma safe_case_bool [safe_rules]:
  "(b \<Longrightarrow> safe P f s Q) \<Longrightarrow> (\<not> b \<Longrightarrow> safe P g s Q) \<Longrightarrow> safe P (case b of True \<Rightarrow> f | False \<Rightarrow> g) s Q"
  by (cases b) simp_all

lemma gpuDemand_exact:
  assumes "case ws_Replicas rs of Some n \<Rightarrow> is_i32 n | None \<Rightarrow> True"
    and "case rr_GPUCount (ws_PerReplica rs) of Some n \<Rightarrow> is_i32 n | None \<Rightarrow> True"
  shows "gpuDemand rs = (case ws_Replicas rs of Some n \<Rightarrow> n | None \<Rightarrow> 1) *
    (case rr_GPUCount (ws_PerReplica rs) of Some n \<Rightarrow> n | None \<Rightarrow> 0)"
proof -
  have "is_i32 (case ws_Replicas rs of Some n \<Rightarrow> n | None \<Rightarrow> 1)"
    and "is_i32 (case rr_GPUCount (ws_PerReplica rs) of Some n \<Rightarrow> n | None \<Rightarrow> 0)"
    using assms by (auto simp: is_i32_def split: option.splits)
  from i32_mult_bound [OF this] show ?thesis by (simp add: gpuDemand_def Let_def)
qed

text \<open>The gate is open for a request: what a passed gate has seen.\<close>

definition gate_open ::
  "'q qops \<Rightarrow> 'q WorkspaceResourceSpec \<Rightarrow> 'q WorkspaceDeployment \<Rightarrow> 'q ev list \<Rightarrow> bool" where
  "gate_open Q resolved wsd es \<longleftrightarrow>
     gpuSelectorOf resolved = [] \<or>
     (\<exists>child nodes pods items. EListNodes child (Inr nodes) \<in> set es \<and> EListPods child (Inr pods) \<in> set es \<and>
        EListWsds (Inr items) \<in> set es \<and>
        sa_Found (AvailabilityForSelector Q nodes pods (gpuSelectorOf resolved)) \<and>
        (0 < gpuDemand resolved \<longrightarrow>
           gpuDemand resolved \<le> sa_Free (AvailabilityForSelector Q nodes pods (gpuSelectorOf resolved))) \<and>
        \<not> older_waiting items wsd (selectorKey (gpuSelectorOf resolved)))"

lemma gate_openI:
  "EListNodes child (Inr nodes) \<in> set es \<Longrightarrow> EListPods child (Inr pods) \<in> set es \<Longrightarrow>
   EListWsds (Inr items) \<in> set es \<Longrightarrow> sa_Found (AvailabilityForSelector Q nodes pods (gpuSelectorOf resolved)) \<Longrightarrow>
   (0 < gpuDemand resolved \<longrightarrow>
      gpuDemand resolved \<le> sa_Free (AvailabilityForSelector Q nodes pods (gpuSelectorOf resolved))) \<Longrightarrow>
   \<not> older_waiting items wsd (selectorKey (gpuSelectorOf resolved)) \<Longrightarrow> gate_open Q resolved wsd es"
  unfolding gate_open_def by blast

text \<open>A run that passed the gate: it only read, and the reads it made leave the gate open.\<close>

definition gate_passed ::
  "'q qops \<Rightarrow> 'q WorkspaceResourceSpec \<Rightarrow> 'q WorkspaceDeployment \<Rightarrow> 'q ev list \<Rightarrow> 'q ev list \<Rightarrow> bool" where
  "gate_passed Q resolved wsd t\<^sub>0 t \<longleftrightarrow>
     (\<exists>es. t = t\<^sub>0 @ es \<and> list_all is_read es \<and> gate_open Q resolved wsd es)"

lemma gate_passed_open: "gate_passed Q resolved wsd t\<^sub>0 t \<Longrightarrow> gate_open Q resolved wsd t"
  unfolding gate_passed_def gate_open_def by fastforce

definition gate_event :: "'q WorkspaceDeployment \<Rightarrow> 'q ev \<Rightarrow> bool" where
  "gate_event w0 e \<longleftrightarrow> is_read e \<or> status_in {PhasePending, PhaseWaiting, PhaseFailed} w0 e"

lemma gate_event_read [simp]: "is_read e \<Longrightarrow> gate_event w e"
  by (simp add: gate_event_def)

lemma gate_event_status [simp]:
  "gate_event w (EStatus w' x) \<longleftrightarrow>
     st_Phase (wsd_Status w') \<in> {PhasePending, PhaseWaiting, PhaseFailed} \<and> same_object w w'"
  by (simp add: gate_event_def status_in_def)

lemma safe_keep_pending: "safe (\<lambda>_ e. gate_event (rs_wsd s) e) (keep_pending r msg) s (\<lambda>_ _. True)"
  unfolding keep_pending_def by (intro safe_rules conjI) simp_all

lemma safe_enterWaiting: "safe (\<lambda>_ e. gate_event (rs_wsd s) e) (enterWaiting r resolved msg) s (\<lambda>_ _. True)"
  unfolding enterWaiting_def by (intro safe_rules conjI) simp_all

lemma safe_gate_decision:
  assumes t: "rs_trace s = t\<^sub>0 @ es\<^sub>0" "list_all is_read es\<^sub>0"
    and np: "EListNodes child (Inr nodes) \<in> set es\<^sub>0" "EListPods child (Inr pods) \<in> set es\<^sub>0"
  shows "safe (\<lambda>_ e. gate_event (rs_wsd s) e)
    (gate_decision r resolved (gpuSelectorOf resolved) (AvailabilityForSelector (r_Q r) nodes pods (gpuSelectorOf resolved))) s
    (\<lambda>(res, ok) s'. ok \<longrightarrow> rs_wsd s' = rs_wsd s \<and> gate_passed (r_Q r) resolved (rs_wsd s) t\<^sub>0 (rs_trace s'))"
proof -
  let ?sel = "gpuSelectorOf resolved"
  have hold: "safe (\<lambda>_ e. gate_event (rs_wsd s) e) (enterWaiting r resolved msg) s1
      (\<lambda>res s2. safe (\<lambda>_ e. gate_event (rs_wsd s) e) (State_Monad.return (res, False)) s2 (\<lambda>(res, ok) s'. ok \<longrightarrow> R s'))"
    if "rs_wsd s1 = rs_wsd s" for s1 msg R
    using safe_enterWaiting [of s1 r resolved msg] that by (auto intro!: safe_rules elim!: safe_weaken)
  have pass: "gate_passed (r_Q r) resolved (rs_wsd s) t\<^sub>0 (rs_trace s @ [EListWsds (Inr items)])"
    if "sa_Found (AvailabilityForSelector (r_Q r) nodes pods ?sel)"
      "0 < gpuDemand resolved \<longrightarrow> gpuDemand resolved \<le> sa_Free (AvailabilityForSelector (r_Q r) nodes pods ?sel)"
      "\<not> older_waiting items (rs_wsd s) (selectorKey ?sel)" for items
    unfolding gate_passed_def
    by (rule exI [of _ "es\<^sub>0 @ [EListWsds (Inr items)]"])
      (use t np that in \<open>auto intro!: gate_openI [of child nodes _ pods items]\<close>)
  show ?thesis
    unfolding gate_decision_def hasOlderWaitingSibling_def
    by (intro safe_rules conjI safe_markFailed hold)
      (auto simp: failed_from_phase dest: failed_from_same intro!: pass)
qed

definition resolved_of :: "'q WorkspaceClass \<Rightarrow> 'q WorkspaceDeployment \<Rightarrow> 'q WorkspaceResourceSpec" where
  "resolved_of wsc wsd = mergeResources (wsc_DefaultResources (wsc_Spec wsc)) (wss_Resources (wsd_Spec wsd))"

lemma safe_gateGPUOffering_passed:
  "safe (\<lambda>_ e. gate_event (rs_wsd s) e) (gateGPUOffering r wsc) s
    (\<lambda>(res, ok) s'. ok \<longrightarrow> rs_wsd s' = rs_wsd s \<and>
       gate_passed (r_Q r) (resolved_of wsc (rs_wsd s)) (rs_wsd s) (rs_trace s) (rs_trace s'))"
proof -
  let ?R = "\<lambda>s'. rs_wsd s' = rs_wsd s \<and> gate_passed (r_Q r) (resolved_of wsc (rs_wsd s)) (rs_wsd s) (rs_trace s) (rs_trace s')"
  have pend: "safe (\<lambda>_ e. gate_event (rs_wsd s) e) (keep_pending r msg) s1
      (\<lambda>res s2. safe (\<lambda>_ e. gate_event (rs_wsd s) e) (State_Monad.return (res, False)) s2 (\<lambda>(res, ok) s'. ok \<longrightarrow> ?R s'))"
    if "rs_wsd s1 = rs_wsd s" for s1 msg
    using safe_keep_pending [of s1 r msg] that by (auto intro!: safe_rules elim!: safe_weaken)
  have dec: "safe (\<lambda>_ e. gate_event (rs_wsd s) e)
      (gate_decision r x sel (AvailabilityForSelector (r_Q r) nodes pods sel)) s1 (\<lambda>(res, ok) s'. ok \<longrightarrow> ?R s')"
    if "x = resolved_of wsc (rs_wsd s)" "sel = gpuSelectorOf x" "rs_wsd s1 = rs_wsd s"
      "rs_trace s1 = rs_trace s @ es @ [EListNodes child (Inr nodes), EListPods child (Inr pods)]" "list_all is_read es"
    for x sel nodes pods child s1 es
    using safe_gate_decision [of s1 "rs_trace s" "es @ [EListNodes child (Inr nodes), EListPods child (Inr pods)]" child nodes pods r x] that
    by (auto elim!: safe_weaken)
  have none: "gate_passed (r_Q r) rs w (rs_trace s) (rs_trace s)" if "gpuSelectorOf rs = []" for rs w
    using that by (auto simp: gate_passed_def gate_open_def)
  show ?thesis
    unfolding gateGPUOffering_def resolved_of_def [symmetric]
    apply (intro safe_rules read_only_reads [OF read_only_getChildClusterClient] conjI pend)
                       apply (simp_all add: none)
    subgoal for x xa a s' es child by (rule dec [of _ _ _ es child]) simp_all
    done
qed

lemma safe_gateGPUOffering:
  "safe (\<lambda>_ e. gate_event (rs_wsd s) e) (gateGPUOffering r wsc) s
    (\<lambda>(res, ok) s'. ok \<longrightarrow> rs_wsd s' = rs_wsd s \<and>
       gate_open (r_Q r) (resolved_of wsc (rs_wsd s)) (rs_wsd s) (rs_trace s'))"
  by (rule safe_weaken [OF safe_gateGPUOffering_passed]) (auto dest: gate_passed_open)

text \<open>
  What an open gate is backed by, read off the listings without the code's own evaluation: with a
  selector of non-empty values, some schedulable node carries all its labels and has allocatable
  GPUs, and the free GPUs of such nodes cover replicas times GPUs per replica wherever counting is
  exact; and no listed workspace of another identity that waits for the same cluster and selector
  was created before (at the same instant, with a smaller UID).
\<close>

definition demanded_gpus :: "'q WorkspaceResourceSpec \<Rightarrow> int" where
  "demanded_gpus rs = (case ws_Replicas rs of Some n \<Rightarrow> n | None \<Rightarrow> 1) *
     (case rr_GPUCount (ws_PerReplica rs) of Some n \<Rightarrow> n | None \<Rightarrow> 0)"

definition int32_request :: "'q WorkspaceResourceSpec \<Rightarrow> bool" where
  "int32_request rs \<longleftrightarrow> (case ws_Replicas rs of Some n \<Rightarrow> is_i32 n | None \<Rightarrow> True) \<and>
     (case rr_GPUCount (ws_PerReplica rs) of Some n \<Rightarrow> is_i32 n | None \<Rightarrow> True)"

definition ahead_of :: "'q WorkspaceDeployment \<Rightarrow> labels \<Rightarrow> 'q WorkspaceDeployment \<Rightarrow> bool" where
  "ahead_of wsd sel s \<longleftrightarrow>
     wsd_UID s \<noteq> wsd_UID wsd \<and> st_Phase (wsd_Status s) = PhaseWaiting \<and>
     wss_ClusterDeploymentRef (wsd_Spec s) = wss_ClusterDeploymentRef (wsd_Spec wsd) \<and>
     effectiveGPUSelector s = sel \<and>
     (wsd_CreationTimestamp s < wsd_CreationTimestamp wsd \<or>
      wsd_CreationTimestamp s = wsd_CreationTimestamp wsd \<and> wsd_UID s < wsd_UID wsd)"

definition gate_backed ::
  "'q qops \<Rightarrow> 'q WorkspaceResourceSpec \<Rightarrow> 'q WorkspaceDeployment \<Rightarrow> 'q ev list \<Rightarrow> bool" where
  "gate_backed Q rs wsd es \<longleftrightarrow>
     (let sel = gpuSelectorOf rs in
      sel = [] \<or>
      (\<exists>child nodes pods items. EListNodes child (Inr nodes) \<in> set es \<and> EListPods child (Inr pods) \<in> set es \<and>
         EListWsds (Inr items) \<in> set es \<and> (\<forall>s \<in> set items. \<not> ahead_of wsd sel s) \<and>
         ((\<forall>kv \<in> set sel. snd kv \<noteq> []) \<longrightarrow>
            (\<exists>n \<in> set (placeable_nodes sel nodes). node_gpus Q n \<noteq> []) \<and>
            (exact_counts Q (placeable_nodes sel nodes) pods \<and> int32_request rs \<and> 0 < demanded_gpus rs \<longrightarrow>
               demanded_gpus rs \<le> free_gpus Q (placeable_nodes sel nodes) pods))))"

lemma older_waiting_ahead: "\<not> older_waiting items wsd (selectorKey sel) \<Longrightarrow> s \<in> set items \<Longrightarrow> \<not> ahead_of wsd sel s"
  by (auto simp: older_waiting_def list_ex_iff waiting_for_def isOlderWorkspace_def ahead_of_def)

lemma gate_open_backed:
  assumes "gate_open Q rs wsd es"
  shows "gate_backed Q rs wsd es"
proof (cases "gpuSelectorOf rs = []")
  case False
  let ?sel = "gpuSelectorOf rs"
  from assms False obtain child nodes pods items where ev: "EListNodes child (Inr nodes) \<in> set es"
      "EListPods child (Inr pods) \<in> set es" "EListWsds (Inr items) \<in> set es"
    and found: "sa_Found (AvailabilityForSelector Q nodes pods ?sel)"
    and enough: "0 < gpuDemand rs \<longrightarrow> gpuDemand rs \<le> sa_Free (AvailabilityForSelector Q nodes pods ?sel)"
    and first: "\<not> older_waiting items wsd (selectorKey ?sel)"
    unfolding gate_open_def by blast
  have "\<exists>n \<in> set (placeable_nodes ?sel nodes). node_gpus Q n \<noteq> []" if "\<forall>kv \<in> set ?sel. snd kv \<noteq> []"
    using availability_placeable(1) [OF _ found] that by blast
  moreover have "demanded_gpus rs \<le> free_gpus Q (placeable_nodes ?sel nodes) pods"
    if "\<forall>kv \<in> set ?sel. snd kv \<noteq> []" "exact_counts Q (placeable_nodes ?sel nodes) pods" "int32_request rs"
      "0 < demanded_gpus rs"
  proof -
    have "gpuDemand rs = demanded_gpus rs"
      using gpuDemand_exact [of rs] that(3) by (simp add: int32_request_def demanded_gpus_def)
    with enough availability_placeable(2) [OF _ found] that show ?thesis by fastforce
  qed
  ultimately show ?thesis
    using ev older_waiting_ahead [OF first] unfolding gate_backed_def Let_def by blast
qed (simp add: gate_backed_def)

text \<open>What the vendor inference yields: a resource a matching node really advertises.\<close>

lemma read_only_resolveGPUResource: "read_only (resolveGPUResource r child resolved)"
  unfolding read_only_def resolveGPUResource_def Let_def by (intro allI safe_rules conjI) simp_all

section \<open>Properties\<close>

text \<open>
  C6: what a passed gate guarantees.  \<open>gateGPUOffering\<close> lets a workspace proceed only if it asks for
  no GPU selector, or nodes and pods of the child cluster and the workspaces were listed and these
  listings back it: no workspace ahead of it waits for the same cluster and selector; when no entry
  of the selector has an empty value, a schedulable node carries every entry as a label and has
  allocatable GPUs; and when in addition node names are unique, no such node advertises both vendors
  and the number of free GPUs is an \<open>int64\<close>, replicas times GPUs per replica are free on those nodes
  (allocatable less what their consuming pods request).  The workspace object is then unchanged and
  the run has only read.  Otherwise all it ever writes is a Pending, Waiting or Failed status.
\<close>

theorem gateGPUOffering_open:
  assumes "run_state (gateGPUOffering r wsc) s = ((res, ok), s')"
  shows "\<exists>es. rs_trace s' = rs_trace s @ es \<and> hist_ok (\<lambda>_ e. gate_event (rs_wsd s) e) (rs_trace s) es \<and>
    (ok \<longrightarrow> rs_wsd s' = rs_wsd s \<and> list_all is_read es \<and>
       gate_backed (r_Q r) (resolved_of wsc (rs_wsd s)) (rs_wsd s) es)"
proof -
  obtain es where "rs_trace s' = rs_trace s @ es" and "hist_ok (\<lambda>_ e. gate_event (rs_wsd s) e) (rs_trace s) es"
    and "ok \<longrightarrow> rs_wsd s' = rs_wsd s \<and>
      gate_passed (r_Q r) (resolved_of wsc (rs_wsd s)) (rs_wsd s) (rs_trace s) (rs_trace s')"
    by (rule safe_run [OF safe_gateGPUOffering_passed assms]) simp
  then show ?thesis by (auto simp: gate_passed_def intro: gate_open_backed)
qed

definition demo_gpu_wsd :: "string \<Rightarrow> int \<Rightarrow> int WorkspaceDeployment" where
  "demo_gpu_wsd nm ts = (demo_wsd ''cd'' nm)\<lparr>wsd_CreationTimestamp := ts,
     wsd_Spec := (wsd_Spec (demo_wsd ''cd'' nm))\<lparr>wss_Resources := Some \<lparr>ws_Replicas = Some 1,
       ws_PerReplica = \<lparr>rr_CPU = None, rr_Memory = None, rr_Storage = None, rr_GPUCount = Some 2,
          rr_GPUVendor = None, rr_GPUType = Some ''H100'', rr_GPUNodeSelector = None\<rparr>\<rparr>\<rparr>\<rparr>"

definition demo_r_gpu :: "(int, int) reconciler" where
  "demo_r_gpu = demo_r\<lparr>r_api := demo_api\<lparr>api_list_nodes := (\<lambda>_ w. (Inr demo_nodes, w))\<rparr>\<rparr>"

theorem gateGPUOffering_open_witness:
  "\<exists>res s'. run_state (gateGPUOffering demo_r_gpu (demo_wsc [])) (demo_s (demo_gpu_wsd ''w'' 5)) = ((res, True), s') \<and>
     list_all is_read (rs_trace s') \<and>
     gate_backed int_qops (resolved_of (demo_wsc []) (demo_gpu_wsd ''w'' 5)) (demo_gpu_wsd ''w'' 5) (rs_trace s') \<and>
     gpuSelectorOf (resolved_of (demo_wsc []) (demo_gpu_wsd ''w'' 5)) = [(''exalsius.ai/gpu-model'', ''H100'')] \<and>
     demanded_gpus (resolved_of (demo_wsc []) (demo_gpu_wsd ''w'' 5)) = 2 \<and>
     exact_counts int_qops (placeable_nodes [(''exalsius.ai/gpu-model'', ''H100'')] demo_nodes) [] \<and>
     free_gpus int_qops (placeable_nodes [(''exalsius.ai/gpu-model'', ''H100'')] demo_nodes) [] = 4"
proof -
  let ?m = "gateGPUOffering demo_r_gpu (demo_wsc [])" and ?w = "demo_gpu_wsd ''w'' 5"
  let ?s = "demo_s ?w" and ?ns = "placeable_nodes [(''exalsius.ai/gpu-model'', ''H100'')] demo_nodes"
  have sel: "gpuSelectorOf (resolved_of (demo_wsc []) ?w) = [(''exalsius.ai/gpu-model'', ''H100'')]"
    and dem: "demanded_gpus (resolved_of (demo_wsc []) ?w) = 2"
    and free: "exact_counts int_qops ?ns []" "free_gpus int_qops ?ns [] = 4" by code_simp+
  have "snd (fst (run_state ?m ?s))" by code_simp
  then obtain res s' where run: "run_state ?m ?s = ((res, True), s')"
    by (cases "run_state ?m ?s") (auto simp: prod_eq_iff)
  have "r_Q demo_r_gpu = int_qops" "rs_wsd ?s = ?w" "rs_trace ?s = []"
    by (simp_all add: demo_r_gpu_def demo_r_def demo_s_def)
  then have "list_all is_read (rs_trace s') \<and> gate_backed int_qops (resolved_of (demo_wsc []) ?w) ?w (rs_trace s')"
    using gateGPUOffering_open [OF run] by auto
  with run sel dem free show ?thesis by blast
qed

text \<open>
  Exactly one waiter is at the front.  Among the listed workspaces that wait for one cluster and
  selector (with distinct UIDs), there is exactly one that no other of them holds back, so
  when capacity frees up first come, first served neither deadlocks nor lets two proceed.
\<close>

theorem fcfs_exactly_one_front:
  assumes "distinct (map wsd_UID items)"
    and "W = {s \<in> set items. waiting_for cdRef key s}" and "W \<noteq> {}"
  shows "\<exists>!s. s \<in> W \<and> \<not> older_waiting items s key"
proof -
  have front: "\<not> older_waiting items s key \<longleftrightarrow> (\<forall>y \<in> W. \<not> isOlderWorkspace y s)" if "s \<in> W" for s
  proof -
    have "wsd_UID y \<noteq> wsd_UID s" if "isOlderWorkspace y s" "y \<in> set items" for y
      using that \<open>s \<in> W\<close> assms(1,2) fcfs.older_irrefl by (metis (no_types, lifting) distinct_map inj_onD mem_Collect_eq)
    moreover have "wss_ClusterDeploymentRef (wsd_Spec s) = cdRef" using that assms(2) by (simp add: waiting_for_def)
    ultimately show ?thesis by (auto simp: older_waiting_def list_ex_iff assms(2))
  qed
  have "finite W" by (simp add: assms(2))
  from fcfs.front_exists [OF this assms(3)] obtain x where x: "x \<in> W" "\<forall>y \<in> W. \<not> isOlderWorkspace y x" by blast
  show ?thesis
  proof (rule ex1I [of _ x])
    show "x \<in> W \<and> \<not> older_waiting items x key" using x front by blast
    fix y assume y: "y \<in> W \<and> \<not> older_waiting items y key"
    then have "wsd_UID y = wsd_UID x" using fcfs.front_unique [of y W x] x front by blast
    with x(1) y assms(1,2) show "y = x" by (metis (no_types, lifting) distinct_map inj_onD mem_Collect_eq)
  qed
qed

definition demo_waiter :: "string \<Rightarrow> int \<Rightarrow> int WorkspaceDeployment" where
  "demo_waiter nm ts = (demo_gpu_wsd nm ts)\<lparr>wsd_Status := (wsd_Status (demo_wsd ''cd'' nm))\<lparr>st_Phase := PhaseWaiting\<rparr>\<rparr>"

theorem fcfs_exactly_one_front_witness:
  "\<exists>!s. s \<in> {s \<in> set [demo_waiter ''a'' 7, demo_waiter ''b'' 3].
          waiting_for \<lparr>cdr_Name = ''cd'', cdr_Namespace = ''org''\<rparr> ''exalsius.ai/gpu-model=H100;'' s} \<and>
     \<not> older_waiting [demo_waiter ''a'' 7, demo_waiter ''b'' 3] s ''exalsius.ai/gpu-model=H100;''"
proof (rule fcfs_exactly_one_front [OF _ refl])
  show "distinct (map wsd_UID [demo_waiter ''a'' 7, demo_waiter ''b'' 3])"
    by (simp add: demo_waiter_def demo_gpu_wsd_def demo_wsd_def)
  have "waiting_for \<lparr>cdr_Name = ''cd'', cdr_Namespace = ''org''\<rparr> ''exalsius.ai/gpu-model=H100;'' (demo_waiter ''b'' 3)"
    by code_simp
  then show "{s \<in> set [demo_waiter ''a'' 7, demo_waiter ''b'' 3].
          waiting_for \<lparr>cdr_Name = ''cd'', cdr_Namespace = ''org''\<rparr> ''exalsius.ai/gpu-model=H100;'' s} \<noteq> {}"
    by auto
qed

end
