(* ===== verification/Routes.thy ===== *)
theory Routes
  imports Gpu_Gate
begin

text \<open>
  \<open>internal/controller/workspaces/routes.go\<close> and the grace period of
  \<open>workspacedeployment_controller.go\<close>: access routes of a running workspace, and their removal.
  The provider itself (\<open>routing.RouteProvider\<close>) is a parameter.
\<close>

section \<open>Operations\<close>

text \<open>The readiness loop: the message of the first entry that is not ready, if any.\<close>

definition not_ready_message :: "AccessEntry \<Rightarrow> string" where
  "not_ready_message e =
     (if ae_Message e \<noteq> [] then ''Endpoint '' @ fmt_q (ae_Name e) @ '': '' @ ae_Message e
      else ''Endpoint '' @ fmt_q (ae_Name e) @ '' is not routed yet'')"

definition routes_condition :: "'q WorkspaceDeployment \<Rightarrow> AccessEntry list \<Rightarrow> Condition" where
  "routes_condition wsd entries =
     (case find (\<lambda>e. \<not> ae_Ready e) entries of
        None \<Rightarrow> mk_condition wsd ConditionRoutesReady ConditionTrue ReasonRoutesReady
                  (''All '' @ fmt_d (int (length entries)) @ '' access endpoint(s) are routed'')
      | Some e \<Rightarrow> mk_condition wsd ConditionRoutesReady ConditionFalse ReasonRoutingInProgress
                  (not_ready_message e))"

definition reconcileRoutes ::
  "('w, 'q) reconciler \<Rightarrow> 'q WorkspaceClass \<Rightarrow> ('w, 'q, Result \<times> bool \<times> goerr option) rec" where
  "reconcileRoutes r wsc =
     (case r_RouteProvider r of
        None \<Rightarrow> State_Monad.return (no_requeue, False, None)
      | Some provider \<Rightarrow>
          if wsc_AccessEndpoints (wsc_Spec wsc) = [] then State_Monad.return (no_requeue, False, None)
          else do {
            wsd \<leftarrow> get_wsd;
            er \<leftarrow> invoke EEnsureRoutes (EnsureRoutes provider wsd (wsc_AccessEndpoints (wsc_Spec wsc)));
            (case er of
               Inl e \<Rightarrow> do {
                 set_condition r ConditionRoutesReady ConditionFalse
                   (if ekind e = KInfraNotReady then ReasonRoutingInfraNotReady else ReasonRoutingError)
                   (if ekind e = KInfraNotReady then ''Routing infrastructure is not ready: '' @ emsg e
                    else ''Failed to ensure routes: '' @ emsg e);
                 _ \<leftarrow> update_status r;
                 State_Monad.return (requeue, True, None)
               }
             | Inr entries \<Rightarrow> do {
                 let allReady = list_all ae_Ready entries;
                 let condition = routes_condition wsd entries;
                 let prev = api_find_condition (r_api r) (st_Conditions (wsd_Status wsd)) ConditionRoutesReady;
                 let unchanged = (st_Access (wsd_Status wsd) = entries \<and>
                   (case prev of
                      None \<Rightarrow> False
                    | Some p \<Rightarrow> c_Status p = c_Status condition \<and> c_Reason p = c_Reason condition \<and>
                                c_Message p = c_Message condition));
                 ue \<leftarrow> (if unchanged then State_Monad.return None
                        else do {
                          modify_status (\<lambda>st. st\<lparr>st_Access := entries\<rparr>);
                          setCondition r condition;
                          update_status r
                        });
                 (case ue of
                    Some e \<Rightarrow> State_Monad.return (no_requeue, True, Some e)
                  | None \<Rightarrow>
                      if \<not> allReady then State_Monad.return (requeue, True, None)
                      else State_Monad.return (no_requeue, False, None))
               })
          })"

definition remoteCleanupGracePeriod :: int where "remoteCleanupGracePeriod = 10 * 60 * 1000000000"

definition remoteCleanupGraceExpired :: "('w, 'q) reconciler \<Rightarrow> ('w, 'q, bool) rec" where
  "remoteCleanupGraceExpired r = do {
     wsd \<leftarrow> get_wsd;
     if wsd_DeletionTimestamp wsd = 0 then State_Monad.return False
     else do {
       t \<leftarrow> now r;
       State_Monad.return (t - wsd_DeletionTimestamp wsd > remoteCleanupGracePeriod)
     }
   }"

definition abandonCleanup :: "('w, 'q) reconciler \<Rightarrow> string \<Rightarrow> goerr \<Rightarrow> ('w, 'q, unit) rec" where
  "abandonCleanup r step cause = do {
     wsd \<leftarrow> get_wsd;
     eventf r ''Warning'' ReasonCleanupAbandoned ''Delete''
       (''Abandoned '' @ step @ '' for cluster '' @ fmt_q (cdr_Name (wss_ClusterDeploymentRef (wsd_Spec wsd))) @
        '' after failing for 10m0s; deleting anyway, leftover resources may need manual cleanup: '' @ emsg cause)
   }"

text \<open>The shared tail of the two remote steps: abandon past the grace period, otherwise retry.\<close>

definition retry_or_abandon :: "('w, 'q) reconciler \<Rightarrow> string \<Rightarrow> goerr \<Rightarrow> ('w, 'q, bool) rec" where
  "retry_or_abandon r step cause = do {
     expired \<leftarrow> remoteCleanupGraceExpired r;
     if expired then do {
       abandonCleanup r step cause;
       State_Monad.return True
     }
     else State_Monad.return False
   }"

definition cleanupRoutes :: "('w, 'q) reconciler \<Rightarrow> ('w, 'q, bool) rec" where
  "cleanupRoutes r =
     (case r_RouteProvider r of
        None \<Rightarrow> State_Monad.return True
      | Some provider \<Rightarrow> do {
          wsd \<leftarrow> get_wsd;
          cr \<leftarrow> get_wsc r (wss_WorkspaceClassRef (wsd_Spec wsd));
          let endpoints = (case cr of Inr wsc \<Rightarrow> wsc_AccessEndpoints (wsc_Spec wsc) | Inl _ \<Rightarrow> []);
          ce \<leftarrow> invoke ECleanupRoutes (CleanupRoutes provider wsd endpoints);
          (case ce of
             Some e \<Rightarrow> retry_or_abandon r ''route cleanup'' e
           | None \<Rightarrow> State_Monad.return True)
        })"


section \<open>Lemmas\<close>

lemma safe_get_wsc [safe_rules]:
  assumes "\<And>a w'. P (rs_trace s) (EGetWsc name a) \<and>
     Q a (s\<lparr>rs_world := w', rs_trace := rs_trace s @ [EGetWsc name a]\<rparr>)"
  shows "safe P (get_wsc r name) s Q"
  unfolding get_wsc_def by (intro safe_rules) (rule assms)

lemma safe_now [safe_rules]:
  assumes "\<And>t w'. P (rs_trace s) (ENow t) \<and> Q t (s\<lparr>rs_world := w', rs_trace := rs_trace s @ [ENow t]\<rparr>)"
  shows "safe P (now r) s Q"
  unfolding now_def by (intro safe_rules) (rule assms)

lemma safe_setCondition [safe_rules]:
  assumes "\<And>t. P (rs_trace s) (ENow t)"
    and "\<And>t w'. Q () (s\<lparr>rs_world := w', rs_trace := rs_trace s @ [ENow t],
        rs_wsd := (rs_wsd s)\<lparr>wsd_Status := (wsd_Status (rs_wsd s))\<lparr>st_Conditions :=
          put_condition (c\<lparr>c_LastTransitionTime := t\<rparr>) (st_Conditions (wsd_Status (rs_wsd s)))\<rparr>\<rparr>\<rparr>)"
  shows "safe P (setCondition r c) s Q"
  unfolding setCondition_def by (intro safe_rules conjI) (use assms in simp_all)

lemma status_in_EStatus [simp]:
  "status_in phases w (EStatus w' x) \<longleftrightarrow> st_Phase (wsd_Status w') \<in> phases \<and> same_object w w'"
  by (simp add: status_in_def)

lemma safe_reconcileRoutes:
  "safe (\<lambda>_ e. is_read e \<or> (\<exists>x. e = EEnsureRoutes x) \<or> status_in {st_Phase (wsd_Status (rs_wsd s))} (rs_wsd s) e)
     (reconcileRoutes r wsc) s (\<lambda>_ s'. same_phase (rs_wsd s) (rs_wsd s'))"
  unfolding reconcileRoutes_def
  by (intro safe_rules conjI) (simp_all add: same_phase_def)

subsection \<open>Steps against a remote cluster\<close>

text \<open>
  Past the deadline of the object, in every world.  (The clock does not run backwards, so from
  some point of real time on this holds of every world a reconcile may meet.)
\<close>

definition past_grace :: "('w, 'q) reconciler \<Rightarrow> 'q WorkspaceDeployment \<Rightarrow> bool" where
  "past_grace r wsd \<longleftrightarrow> wsd_DeletionTimestamp wsd \<noteq> 0 \<and>
     (\<forall>w. fst (api_now (r_api r) w) - wsd_DeletionTimestamp wsd > remoteCleanupGracePeriod)"

lemma wp_remoteCleanupGraceExpired:
  "past_grace r (rs_wsd s) \<Longrightarrow> wp (remoteCleanupGraceExpired r) (\<lambda>b s'. b \<and> rs_wsd s' = rs_wsd s) s"
  by (auto simp: remoteCleanupGraceExpired_def past_grace_def now_def wp_invoke get_wsd_def split: prod.splits)
    (metis fst_conv)

lemma wp_eventf: "wp (eventf r ty reason act msg) (\<lambda>_ s'. rs_wsd s' = rs_wsd s) s"
  by (simp add: eventf_def wp_invoke split: prod.splits)

lemma wp_retry_or_abandon:
  assumes "past_grace r (rs_wsd s)"
  shows "wp (retry_or_abandon r step cause) (\<lambda>b s'. b \<and> rs_wsd s' = rs_wsd s) s"
proof -
  have ab: "wp (abandonCleanup r step cause) (\<lambda>_ s''. wp (State_Monad.return True) (\<lambda>b s'. b \<and> rs_wsd s' = rs_wsd s) s'') s'"
    if "rs_wsd s' = rs_wsd s" for s'
    using that wp_eventf [of r "''Warning''" ReasonCleanupAbandoned "''Delete''" _ s']
    by (simp add: abandonCleanup_def get_wsd_def)
  show ?thesis
    unfolding retry_or_abandon_def wp_bind
    by (intro wp_mono [OF wp_remoteCleanupGraceExpired [OF assms]]) (auto intro!: ab)
qed

text \<open>
  A bounded deletion step: it reads and touches the remote side only, leaves the object alone, and
  past the grace period it reports done whatever the remote side answers.
\<close>

locale bounded_step =
  fixes step :: "('w, 'q) reconciler \<Rightarrow> ('w, 'q, bool) rec" and touches :: "'q ev \<Rightarrow> bool"
  assumes step_safe: "safe (\<lambda>_ e. is_read e \<or> touches e) (step r) s (\<lambda>_ s'. rs_wsd s' = rs_wsd s)"
    and step_bounded: "past_grace r (rs_wsd s) \<Longrightarrow> wp (step r) (\<lambda>b _. b) s"
begin

lemma step_done: "past_grace r (rs_wsd s) \<Longrightarrow> wp (step r) (\<lambda>b s'. b \<and> rs_wsd s' = rs_wsd s) s"
  using wp_conj [OF step_bounded step_safe [unfolded safe_def traced_def]] by (rule wp_mono) auto

text \<open>A step in front of a continuation that needs the object as it was.\<close>

lemma step_then:
  assumes "past_grace r (rs_wsd s)" and "\<And>s'. rs_wsd s' = rs_wsd s \<Longrightarrow> wp (k True) Q s'"
  shows "wp (State_Monad.bind (step r) k) Q s"
  unfolding wp_bind by (rule wp_mono [OF step_done [OF assms(1)]]) (use assms(2) in auto)

end

lemma read_only_retry_or_abandon: "read_only (retry_or_abandon r step cause)"
  unfolding read_only_def retry_or_abandon_def remoteCleanupGraceExpired_def abandonCleanup_def
  by (intro allI safe_rules conjI) simp_all

definition is_route_cleanup :: "'q ev \<Rightarrow> bool" where
  "is_route_cleanup e \<longleftrightarrow> (\<exists>x. e = ECleanupRoutes x)"

interpretation routes_step: bounded_step cleanupRoutes is_route_cleanup
proof
  show "safe (\<lambda>_ e. is_read e \<or> is_route_cleanup e) (cleanupRoutes r) s (\<lambda>_ s'. rs_wsd s' = rs_wsd s)"
    for r :: "('w, 'q) reconciler" and s
    unfolding cleanupRoutes_def
    by (intro safe_rules conjI read_only_safe [OF read_only_retry_or_abandon]) (simp_all add: is_route_cleanup_def)
  show "past_grace r (rs_wsd s) \<Longrightarrow> wp (cleanupRoutes r) (\<lambda>b _. b) s" for r :: "('w, 'q) reconciler" and s
    by (auto simp: cleanupRoutes_def get_wsc_def get_wsd_def wp_invoke split: option.splits prod.splits
        intro!: wp_mono [OF wp_retry_or_abandon])
qed

section \<open>Properties\<close>

text \<open>
  Routing trouble degrades but never fails a workspace.  Whatever the provider answers,
  \<open>reconcileRoutes\<close> leaves the phase as it was, and every status it writes carries that phase.
\<close>

theorem reconcileRoutes_keeps_phase:
  assumes "run_state (reconcileRoutes r wsc) s = (a, s')"
  shows "same_phase (rs_wsd s) (rs_wsd s') \<and>
    (\<exists>es. rs_trace s' = rs_trace s @ es \<and>
       (\<forall>w x. EStatus w x \<in> set es \<longrightarrow> st_Phase (wsd_Status w) = st_Phase (wsd_Status (rs_wsd s))))"
proof -
  let ?P = "\<lambda>_ e. is_read e \<or> (\<exists>x. e = EEnsureRoutes x) \<or> status_in {st_Phase (wsd_Status (rs_wsd s))} (rs_wsd s) e"
  obtain es where es: "rs_trace s' = rs_trace s @ es" "hist_ok ?P (rs_trace s) es" "same_phase (rs_wsd s) (rs_wsd s')"
    using safe_run [OF safe_reconcileRoutes assms] by blast
  have "st_Phase (wsd_Status w) = st_Phase (wsd_Status (rs_wsd s))" if "EStatus w x \<in> set es" for w x
  proof -
    from that obtain us vs where "es = us @ EStatus w x # vs" by (meson split_list)
    with es(2) have "?P (rs_trace s @ us) (EStatus w x)" by (simp add: hist_ok_append)
    then show ?thesis by simp
  qed
  with es show ?thesis by blast
qed

definition demo_provider :: "(int, int) route_provider" where
  "demo_provider = \<lparr>EnsureRoutes = (\<lambda>_ _ w. (Inl (errorf ''regional cluster unreachable''), w)),
     CleanupRoutes = (\<lambda>_ _ w. (Some (errorf ''regional cluster unreachable''), w))\<rparr>"

theorem reconcileRoutes_keeps_phase_witness:
  "\<exists>a s'. run_state (reconcileRoutes (demo_r\<lparr>r_RouteProvider := Some demo_provider\<rparr>)
       ((demo_wsc [])\<lparr>wsc_Spec := (wsc_Spec (demo_wsc []))\<lparr>wsc_AccessEndpoints :=
          [\<lparr>ep_Name = ''ui'', ep_Protocol = RouteProtocolHTTP, ep_Port = 80, ep_ServiceName = []\<rparr>]\<rparr>\<rparr>))
       (demo_s (demo_wsd ''cd'' ''w'')) = (a, s') \<and> same_phase (demo_wsd ''cd'' ''w'') (rs_wsd s')"
proof -
  let ?m = "reconcileRoutes (demo_r\<lparr>r_RouteProvider := Some demo_provider\<rparr>)
       ((demo_wsc [])\<lparr>wsc_Spec := (wsc_Spec (demo_wsc []))\<lparr>wsc_AccessEndpoints :=
          [\<lparr>ep_Name = ''ui'', ep_Protocol = RouteProtocolHTTP, ep_Port = 80, ep_ServiceName = []\<rparr>]\<rparr>\<rparr>)"
  obtain a s' where run: "run_state ?m (demo_s (demo_wsd ''cd'' ''w'')) = (a, s')"
    by (metis prod.collapse)
  have "rs_wsd (demo_s (demo_wsd ''cd'' ''w'')) = demo_wsd ''cd'' ''w''" by (simp add: demo_s_def)
  with reconcileRoutes_keeps_phase [OF run] run show ?thesis by metis
qed

end
