(* ===== verification/Deletion.thy ===== *)
theory Deletion
  imports Routes
begin

text \<open>
  Deletion (\<open>reconcileDelete\<close> and its helpers in \<open>workspacedeployment_controller.go\<close>): routes, then
  the ServiceSet, then the namespace on the child cluster, then the finalizer.
\<close>

section \<open>Operations\<close>

definition targetClusterGone :: "('w, 'q) reconciler \<Rightarrow> ('w, 'q, goerr + bool) rec" where
  "targetClusterGone r = do {
     wsd \<leftarrow> get_wsd;
     let cdRef = wss_ClusterDeploymentRef (wsd_Spec wsd);
     cr \<leftarrow> get_cd r (cdr_Namespace cdRef) (cdr_Name cdRef);
     (case cr of
        Inl e \<Rightarrow> if IsNotFound e then State_Monad.return (Inr True) else State_Monad.return (Inl e)
      | Inr cd \<Rightarrow> State_Monad.return (Inr (cd_DeletionTimestamp cd \<noteq> 0)))
   }"

text \<open>\<open>cleanupWorkspaceNamespace\<close>: done, or a requeue.\<close>

definition namespace_step :: "('w, 'q) reconciler \<Rightarrow> ('w, 'q, bool) rec" where
  "namespace_step r = do {
     cr \<leftarrow> getChildClusterClient r;
     (case cr of
        Inl e \<Rightarrow> retry_or_abandon r ''workspace namespace cleanup'' e
      | Inr child \<Rightarrow> do {
          dr \<leftarrow> deleteWorkspaceNamespace r child;
          (case dr of
             Inl e \<Rightarrow> retry_or_abandon r ''workspace namespace cleanup'' e
           | Inr dn \<Rightarrow> State_Monad.return dn)
        })
   }"

definition cleanupWorkspaceNamespace :: "('w, 'q) reconciler \<Rightarrow> ('w, 'q, Result \<times> bool) rec" where
  "cleanupWorkspaceNamespace r = do {
     dn \<leftarrow> namespace_step r;
     State_Monad.return (if dn then no_requeue else requeue, dn)
   }"

text \<open>Step 4 of \<open>reconcileDelete\<close>.\<close>

definition remove_finalizer :: "('w, 'q) reconciler \<Rightarrow> ('w, 'q, reconcile_result) rec" where
  "remove_finalizer r = do {
     modify_wsd (\<lambda>w. api_remove_finalizer (r_api r) w WorkspaceDeploymentFinalizer);
     ue \<leftarrow> update_wsd r;
     State_Monad.return (Return no_requeue ue)
   }"

text \<open>Steps 2 and 3, with and without the target cluster.\<close>

definition delete_backend :: "('w, 'q) reconciler \<Rightarrow> ('w, 'q, reconcile_result) rec" where
  "delete_backend r = do {
     cg \<leftarrow> targetClusterGone r;
     (case cg of
        Inl e \<Rightarrow> State_Monad.return (Return no_requeue (Some e))
      | Inr clusterGone \<Rightarrow>
          if clusterGone then do {
            fe \<leftarrow> forceDeleteWorkspaceServiceSet r;
            (case fe of
               Some e \<Rightarrow> State_Monad.return (Return no_requeue (Some e))
             | None \<Rightarrow> remove_finalizer r)
          }
          else do {
            sg \<leftarrow> ensureWorkspaceServiceSetDeleted r;
            (case sg of
               Inl e \<Rightarrow> State_Monad.return (Return no_requeue (Some e))
             | Inr ssGone \<Rightarrow>
                 if \<not> ssGone then State_Monad.return (Return requeue None)
                 else do {
                   (res, dn) \<leftarrow> cleanupWorkspaceNamespace r;
                   if \<not> dn then State_Monad.return (Return res None)
                   else remove_finalizer r
                 })
          })
   }"

text \<open>The phase is set to Deleting first; an error of that status update is only logged.\<close>

definition mark_deleting :: "('w, 'q) reconciler \<Rightarrow> ('w, 'q, unit) rec" where
  "mark_deleting r = do {
     wsd \<leftarrow> get_wsd;
     if st_Phase (wsd_Status wsd) \<noteq> PhaseDeleting then do {
       modify_status (\<lambda>st. st\<lparr>st_Phase := PhaseDeleting\<rparr>);
       _ \<leftarrow> update_status r;
       State_Monad.return ()
     }
     else State_Monad.return ()
   }"

definition reconcileDelete :: "('w, 'q) reconciler \<Rightarrow> ('w, 'q, reconcile_result) rec" where
  "reconcileDelete r = do {
     wsd \<leftarrow> get_wsd;
     if \<not> api_contains_finalizer (r_api r) wsd WorkspaceDeploymentFinalizer then
       State_Monad.return (Return no_requeue None)
     else do {
       mark_deleting r;
       routesDone \<leftarrow> cleanupRoutes r;
       if \<not> routesDone then State_Monad.return (Return requeue None)
       else delete_backend r
     }
   }"


section \<open>Lemmas\<close>

lemma safe_lift_hist:
  assumes "safe P\<^sub>0 m s R" and "\<And>es e. P\<^sub>0 (rs_trace s @ es) e \<Longrightarrow> P (rs_trace s @ es) e"
    and "\<And>a s'. R a s' \<Longrightarrow> (\<exists>es. rs_trace s' = rs_trace s @ es) \<Longrightarrow> Q a s'"
  shows "safe P m s Q"
proof -
  have mono: "hist_ok P\<^sub>0 (rs_trace s @ us) es \<Longrightarrow> hist_ok P (rs_trace s @ us) es" for us es
    by (induction es arbitrary: us) (use assms(2) in auto)
  have "(\<exists>es. rs_trace s' = rs_trace s @ es \<and> hist_ok P (rs_trace s) es) \<and> Q a s'"
    if "(\<exists>es. rs_trace s' = rs_trace s @ es \<and> hist_ok P\<^sub>0 (rs_trace s) es) \<and> R a s'" for a s'
    using that assms(3) mono [of "[]"] by auto
  with assms(1) show ?thesis unfolding safe_def traced_def by (rule wp_mono)
qed

text \<open>What the history must show before each destructive step.\<close>

definition grace_over :: "'q WorkspaceDeployment \<Rightarrow> 'q ev list \<Rightarrow> bool" where
  "grace_over w h \<longleftrightarrow> (\<exists>t. ENow t \<in> set h \<and> t - wsd_DeletionTimestamp w > remoteCleanupGracePeriod)"

definition routes_settled :: "('w, 'q) reconciler \<Rightarrow> 'q WorkspaceDeployment \<Rightarrow> 'q ev list \<Rightarrow> bool" where
  "routes_settled r w h \<longleftrightarrow> r_RouteProvider r = None \<or> ECleanupRoutes None \<in> set h \<or> grace_over w h"

definition cluster_gone :: "'q WorkspaceDeployment \<Rightarrow> 'q ev list \<Rightarrow> bool" where
  "cluster_gone w h \<longleftrightarrow>
     (let cdRef = wss_ClusterDeploymentRef (wsd_Spec w) in
      (\<exists>e. IsNotFound e \<and> EGetCD (cdr_Namespace cdRef) (cdr_Name cdRef) (Inl e) \<in> set h) \<or>
      (\<exists>cd. cd_DeletionTimestamp cd \<noteq> 0 \<and> EGetCD (cdr_Namespace cdRef) (cdr_Name cdRef) (Inr cd) \<in> set h))"

definition namespace_settled :: "'q WorkspaceDeployment \<Rightarrow> 'q ev list \<Rightarrow> bool" where
  "namespace_settled w h \<longleftrightarrow> grace_over w h \<or>
     (\<exists>child. (\<exists>e. IsNotFound e \<and> EGetNs child (workspaceNamespaceName w) (Inl e) \<in> set h) \<or>
        (\<exists>ns. ns_DeletionTimestamp ns \<noteq> 0 \<and> EGetNs child (workspaceNamespaceName w) (Inr ns) \<in> set h) \<or>
        (\<exists>ns x. EGetNs child (workspaceNamespaceName w) (Inr ns) \<in> set h \<and> EDeleteNs child ns x \<in> set h \<and>
           (\<forall>e. x = Some e \<longrightarrow> IsNotFound e)))"

definition ss_gone :: "('w, 'q) reconciler \<Rightarrow> 'q WorkspaceDeployment \<Rightarrow> 'q ev list \<Rightarrow> bool" where
  "ss_gone r w h \<longleftrightarrow> seen_gone (cd_namespace w) (serviceSetName (r_sha r) w) h"

definition delete_order :: "('w, 'q) reconciler \<Rightarrow> 'q WorkspaceDeployment \<Rightarrow> 'q ev list \<Rightarrow> 'q ev \<Rightarrow> bool" where
  "delete_order r w h e \<longleftrightarrow>
     (case e of
        EStatus w' x \<Rightarrow> st_Phase (wsd_Status w') = PhaseDeleting
      | ECleanupRoutes x \<Rightarrow> True
      | EDeleteSS ss x \<Rightarrow> routes_settled r w h
      | EPatchSS ss x \<Rightarrow> routes_settled r w h \<and> cluster_gone w h
      | EDeleteNs child ns x \<Rightarrow> routes_settled r w h \<and> ss_gone r w h
      | EUpdateWsd w' x \<Rightarrow> routes_settled r w h \<and> (cluster_gone w h \<or> ss_gone r w h \<and> namespace_settled w h)
      | _ \<Rightarrow> is_read e)"

lemma is_read_delete_order [simp]: "is_read e \<Longrightarrow> delete_order r w h e"
  by (cases e) (simp_all add: delete_order_def)

lemma settled_mono:
  "routes_settled r w h \<Longrightarrow> routes_settled r w (h @ es)" "cluster_gone w h \<Longrightarrow> cluster_gone w (h @ es)"
  "ss_gone r w h \<Longrightarrow> ss_gone r w (h @ es)" "namespace_settled w h \<Longrightarrow> namespace_settled w (h @ es)"
  "grace_over w h \<Longrightarrow> grace_over w (h @ es)"
proof -
  show "grace_over w h \<Longrightarrow> grace_over w (h @ es)" unfolding grace_over_def by auto
  then show "routes_settled r w h \<Longrightarrow> routes_settled r w (h @ es)" unfolding routes_settled_def by auto
  show "cluster_gone w h \<Longrightarrow> cluster_gone w (h @ es)" unfolding cluster_gone_def Let_def by auto
  show "ss_gone r w h \<Longrightarrow> ss_gone r w (h @ es)" unfolding ss_gone_def seen_gone_def by auto
  show "namespace_settled w h \<Longrightarrow> namespace_settled w (h @ es)"
    unfolding namespace_settled_def grace_over_def set_append by blast
qed

lemma settled_ext:
  assumes "\<exists>es. rs_trace s' = rs_trace s @ es"
  shows "routes_settled r w (rs_trace s) \<Longrightarrow> routes_settled r w (rs_trace s')"
    "cluster_gone w (rs_trace s) \<Longrightarrow> cluster_gone w (rs_trace s')"
    "ss_gone r w (rs_trace s) \<Longrightarrow> ss_gone r w (rs_trace s')"
  using assms by (auto intro: settled_mono)

lemma safe_retry_or_abandon:
  "safe (\<lambda>_ e. is_read e) (retry_or_abandon r step cause) s
     (\<lambda>b s'. rs_wsd s' = rs_wsd s \<and> (b \<longrightarrow> grace_over (rs_wsd s) (rs_trace s')))"
  unfolding retry_or_abandon_def remoteCleanupGraceExpired_def abandonCleanup_def
  by (intro safe_rules conjI) (auto simp: grace_over_def)

lemma safe_cleanupRoutes:
  "safe (\<lambda>_ e. is_read e \<or> is_route_cleanup e) (cleanupRoutes r) s
     (\<lambda>b s'. rs_wsd s' = rs_wsd s \<and> (b \<longrightarrow> routes_settled r (rs_wsd s) (rs_trace s')))"
  unfolding cleanupRoutes_def
  by (intro safe_rules conjI safe_lift [OF safe_retry_or_abandon])
    (auto simp: is_route_cleanup_def routes_settled_def)

lemma safe_targetClusterGone:
  "safe (\<lambda>_ e. is_read e) (targetClusterGone r) s
     (\<lambda>a s'. rs_wsd s' = rs_wsd s \<and> (a = Inr True \<longrightarrow> cluster_gone (rs_wsd s) (rs_trace s')))"
  unfolding targetClusterGone_def
  by (intro safe_rules conjI) (auto simp: cluster_gone_def Let_def)

definition is_ns_delete :: "'q ev \<Rightarrow> bool" where
  "is_ns_delete e \<longleftrightarrow> (\<exists>child ns x. e = EDeleteNs child ns x)"

lemma safe_deleteWorkspaceNamespace_settled:
  "safe (\<lambda>_ e. is_read e \<or> is_ns_delete e) (deleteWorkspaceNamespace r child) s
     (\<lambda>a s'. rs_wsd s' = rs_wsd s \<and> a \<noteq> Inr False \<and>
        (a = Inr True \<longrightarrow> namespace_settled (rs_wsd s) (rs_trace s')))"
  unfolding deleteWorkspaceNamespace_def
  by (intro safe_rules conjI) (auto simp: is_ns_delete_def namespace_settled_def)

lemma safe_namespace_step:
  "safe (\<lambda>_ e. is_read e \<or> is_ns_delete e) (namespace_step r) s
     (\<lambda>b s'. rs_wsd s' = rs_wsd s \<and> (b \<longrightarrow> namespace_settled (rs_wsd s) (rs_trace s')))"
  unfolding namespace_step_def
  by (intro safe_rules conjI read_only_safe [OF read_only_getChildClusterClient]
      safe_lift [OF safe_retry_or_abandon] safe_lift [OF safe_deleteWorkspaceNamespace_settled])
    (auto simp: namespace_settled_def)

interpretation namespace_cleanup: bounded_step namespace_step is_ns_delete
proof
  fix r :: "('w, 'q) reconciler" and s :: "('w, 'q) rstate"
  show "safe (\<lambda>_ e. is_read e \<or> is_ns_delete e) (namespace_step r) s (\<lambda>_ s'. rs_wsd s' = rs_wsd s)"
    by (rule safe_weaken [OF safe_namespace_step]) auto
  assume past: "past_grace r (rs_wsd s)"
  have ret: "wp (retry_or_abandon r st c) (\<lambda>b _. b) s'" if "rs_wsd s' = rs_wsd s" for s' st c
    by (rule wp_mono [OF wp_retry_or_abandon]) (use past that in auto)
  have del: "wp (deleteWorkspaceNamespace r child) (\<lambda>a s'. rs_wsd s' = rs_wsd s \<and> a \<noteq> Inr False) s1"
    if "rs_wsd s1 = rs_wsd s" for child s1
    using safe_deleteWorkspaceNamespace_settled [of r child s1] that
    unfolding safe_def traced_def by (auto elim!: wp_mono)
  have cl: "wp (getChildClusterClient r) (\<lambda>_ s'. rs_wsd s' = rs_wsd s) s"
    using read_only_getChildClusterClient [of r] unfolding read_only_def safe_def traced_def by (auto elim!: wp_mono dest!: spec [of _ s])
  show "wp (namespace_step r) (\<lambda>b _. b) s"
    unfolding namespace_step_def wp_bind
    by (rule wp_mono [OF cl]) (auto split: sum.splits intro!: ret wp_mono [OF del])
qed


text \<open>The events of deletion respect the order, and a finalizer update names the same workspace.\<close>

lemma delete_order_simps [simp]:
  "delete_order r w h (EStatus w' x) \<longleftrightarrow> st_Phase (wsd_Status w') = PhaseDeleting"
  "delete_order r w h (EUpdateWsd w' x) \<longleftrightarrow>
     routes_settled r w h \<and> (cluster_gone w h \<or> ss_gone r w h \<and> namespace_settled w h)"
  "is_route_cleanup e \<Longrightarrow> delete_order r w h e"
  "is_ns_delete e \<Longrightarrow> delete_order r w h e \<longleftrightarrow> routes_settled r w h \<and> ss_gone r w h"
  by (auto simp: delete_order_def is_route_cleanup_def is_ns_delete_def)

lemma ss_removal_order:
  "ss_removal e \<Longrightarrow> routes_settled r w h \<Longrightarrow> cluster_gone w h \<Longrightarrow> delete_order r w h e"
  by (auto simp: delete_order_def ss_removal_def)

lemma safe_ensureWorkspaceServiceSetDeleted_order:
  assumes "routes_settled r w (rs_trace s)"
  shows "safe (delete_order r w) (ensureWorkspaceServiceSetDeleted r) s
     (\<lambda>a s'. rs_wsd s' = rs_wsd s \<and> (\<exists>es. rs_trace s' = rs_trace s @ es) \<and>
        (a = Inr True \<longrightarrow> ss_gone r (rs_wsd s) (rs_trace s')))"
  unfolding ensureWorkspaceServiceSetDeleted_def recheck_serviceset_def
  by (intro safe_rules conjI)
    (use assms in \<open>auto simp: ss_gone_def seen_gone_def cd_namespace_def delete_order_def intro: settled_mono\<close>)

lemma safe_remove_finalizer:
  assumes "finalizers_ok r" and "routes_settled r w (rs_trace s)"
    and "cluster_gone w (rs_trace s) \<or> ss_gone r w (rs_trace s) \<and> namespace_settled w (rs_trace s)"
  shows "safe (delete_order r w) (remove_finalizer r) s (\<lambda>_ _. True)"
  unfolding remove_finalizer_def
  by (intro safe_rules conjI) (use assms in simp_all)

text \<open>The object in memory during deletion: only its phase has changed.\<close>

definition deleting_view :: "'q WorkspaceDeployment \<Rightarrow> 'q WorkspaceDeployment \<Rightarrow> bool" where
  "deleting_view w w' \<longleftrightarrow> w' = w\<lparr>wsd_Status := (wsd_Status w)\<lparr>st_Phase := PhaseDeleting\<rparr>\<rparr> \<or> w' = w"

lemma safe_delete_backend:
  assumes f: "finalizers_ok r" and rt: "routes_settled r (rs_wsd s) (rs_trace s)"
  shows "safe (delete_order r (rs_wsd s)) (delete_backend r) s (\<lambda>_ _. True)"
proof -
  let ?w = "rs_wsd s"
  have force: "safe (delete_order r ?w) (forceDeleteWorkspaceServiceSet r) s1
      (\<lambda>a s'. rs_wsd s' = ?w \<and> routes_settled r ?w (rs_trace s') \<and> cluster_gone ?w (rs_trace s'))"
    if "rs_wsd s1 = ?w" "routes_settled r ?w (rs_trace s1)" "cluster_gone ?w (rs_trace s1)" for s1
    by (rule safe_lift_hist [OF safe_forceDeleteWorkspaceServiceSet])
      (use that in \<open>auto intro: ss_removal_order settled_mono\<close>)
  have ns: "safe (delete_order r ?w) (namespace_step r) s1
      (\<lambda>b s'. rs_wsd s' = ?w \<and> routes_settled r ?w (rs_trace s') \<and> ss_gone r ?w (rs_trace s') \<and>
         (b \<longrightarrow> namespace_settled ?w (rs_trace s')))"
    if "rs_wsd s1 = ?w" "routes_settled r ?w (rs_trace s1)" "ss_gone r ?w (rs_trace s1)" for s1
    by (rule safe_lift_hist [OF safe_namespace_step]) (use that in \<open>auto intro: settled_mono\<close>)
  have fin: "safe (delete_order r ?w) (remove_finalizer r) s1 (\<lambda>_ _. True)"
    if "routes_settled r ?w (rs_trace s1)"
      "cluster_gone ?w (rs_trace s1) \<or> ss_gone r ?w (rs_trace s1) \<and> namespace_settled ?w (rs_trace s1)" for s1
    by (rule safe_remove_finalizer [OF f that])
  have gone: "safe (delete_order r ?w) (ensureWorkspaceServiceSetDeleted r) s1
      (\<lambda>a s'. rs_wsd s' = ?w \<and> routes_settled r ?w (rs_trace s') \<and> (a = Inr True \<longrightarrow> ss_gone r ?w (rs_trace s')))"
    if "rs_wsd s1 = ?w" "routes_settled r ?w (rs_trace s1)" for s1
    by (rule safe_weaken [OF safe_ensureWorkspaceServiceSetDeleted_order [OF that(2)]])
      (use that in \<open>auto intro: settled_mono\<close>)
  have cg: "safe (delete_order r ?w) (targetClusterGone r) s
      (\<lambda>a s'. rs_wsd s' = ?w \<and> routes_settled r ?w (rs_trace s') \<and> (a = Inr True \<longrightarrow> cluster_gone ?w (rs_trace s')))"
    by (rule safe_lift [OF safe_targetClusterGone]) (use rt in \<open>auto intro: settled_mono\<close>)
  show ?thesis
    unfolding delete_backend_def cleanupWorkspaceNamespace_def
    by (intro safe_bind safe_weaken [OF cg])
      (auto split: sum.splits option.splits prod.splits
        intro!: safe_return safe_bind safe_weaken [OF force] safe_weaken [OF gone] safe_weaken [OF ns] fin)
qed

lemma safe_mark_deleting:
  "safe (delete_order r w) (mark_deleting r) s (\<lambda>_ s'. deleting_view (rs_wsd s) (rs_wsd s'))"
  unfolding mark_deleting_def by (intro safe_rules conjI) (auto simp: deleting_view_def)

lemma deleting_view_order:
  assumes "deleting_view w w'"
  shows "delete_order r w' = delete_order r w" and "routes_settled r w' h = routes_settled r w h"
    and "past_grace r w' = past_grace r w" and "serviceSetName (r_sha r) w' = serviceSetName (r_sha r) w"
    and "cd_namespace w' = cd_namespace w"
proof -
  have e: "workspaceNamespaceName w' = workspaceNamespaceName w" "cd_namespace w' = cd_namespace w"
    "serviceSetName (r_sha r) w' = serviceSetName (r_sha r) w"
    using assms by (auto simp: deleting_view_def workspaceNamespaceName_def WorkspaceNamespaceName_def cd_namespace_def serviceSetName_def)
  have g: "grace_over w' h = grace_over w h" "cluster_gone w' h = cluster_gone w h" for h
    using assms by (auto simp: deleting_view_def grace_over_def cluster_gone_def Let_def)
  then have ns: "namespace_settled w' h = namespace_settled w h" and rt: "routes_settled r w' h = routes_settled r w h"
    and sg: "ss_gone r w' h = ss_gone r w h" for h
    by (simp_all add: namespace_settled_def routes_settled_def ss_gone_def e)
  show "delete_order r w' = delete_order r w"
    by (intro ext) (simp add: delete_order_def g ns rt sg split: ev.splits)
  show "routes_settled r w' h = routes_settled r w h" by (rule rt)
  show "past_grace r w' = past_grace r w" using assms by (auto simp: past_grace_def deleting_view_def)
  show "serviceSetName (r_sha r) w' = serviceSetName (r_sha r) w" "cd_namespace w' = cd_namespace w" by (fact e)+
qed

lemma safe_reconcileDelete:
  assumes f: "finalizers_ok r"
  shows "safe (delete_order r (rs_wsd s)) (reconcileDelete r) s (\<lambda>_ _. True)"
proof -
  let ?P = "delete_order r (rs_wsd s)"
  have rest: "safe ?P (delete_backend r) s2 (\<lambda>_ _. True)"
    if v: "deleting_view (rs_wsd s) (rs_wsd s2)" and "routes_settled r (rs_wsd s2) (rs_trace s2)" for s2
    using safe_delete_backend [OF f that(2)] by (simp add: deleting_view_order(1) [OF v])
  have routes: "safe ?P (cleanupRoutes r) s1 (\<lambda>b s2. deleting_view (rs_wsd s) (rs_wsd s2) \<and>
      (b \<longrightarrow> routes_settled r (rs_wsd s2) (rs_trace s2)))"
    if "deleting_view (rs_wsd s) (rs_wsd s1)" for s1
    by (rule safe_lift [OF safe_cleanupRoutes]) (use that in auto)
  show ?thesis
    unfolding reconcileDelete_def
    by (intro safe_bind [of _ get_wsd] safe_get_wsd safe_if safe_return safe_bind [OF safe_weaken [OF safe_mark_deleting]]
        safe_bind [of _ "cleanupRoutes r"] safe_weaken [OF routes] TrueI)
      (auto intro!: rest)
qed


section \<open>Properties\<close>

text \<open>
  C3: deletion goes in order.  In a run of \<open>reconcileDelete\<close> every status written says Deleting,
  and, whatever the clusters answer: no ServiceSet is deleted before the routes are removed (or
  their grace period is over), ServiceSet finalizers are stripped only when the target cluster was
  seen to be gone, no namespace is deleted before the ServiceSet was seen to be gone, and the
  workspace's finalizer is removed only after the routes are settled and either the cluster is
  gone or both the ServiceSet and the namespace are.
\<close>

theorem reconcileDelete_order:
  assumes "finalizers_ok r" and "run_state (reconcileDelete r) s = (a, s')"
  shows "\<exists>es. rs_trace s' = rs_trace s @ es \<and> hist_ok (delete_order r (rs_wsd s)) (rs_trace s) es"
  using safe_run [OF safe_reconcileDelete [OF assms(1)] assms(2)] by blast

text \<open>A workspace under deletion, and an outside whose clock stands after its grace period.\<close>

definition demo_deleting :: "int WorkspaceDeployment" where
  "demo_deleting = (demo_wsd ''cd'' ''w'')\<lparr>wsd_DeletionTimestamp := 1, wsd_Finalizers := [WorkspaceDeploymentFinalizer]\<rparr>"

definition demo_late_r :: "(int, int) reconciler" where
  "demo_late_r = demo_r\<lparr>r_RouteProvider := Some demo_provider,
     r_api := demo_api\<lparr>api_now := (\<lambda>w. (remoteCleanupGracePeriod + 2, w)), api_get_cd := (\<lambda>ns nm w. (Inr demo_cd, w)),
       api_get_secret := (\<lambda>ns nm w. (Inl (errorf ''no kubeconfig''), w))\<rparr>\<rparr>"

lemma demo_late_finalizers_ok: "finalizers_ok demo_late_r"
  using demo_finalizers_ok by (simp add: finalizers_ok_def demo_late_r_def demo_r_def)

theorem reconcileDelete_order_witness:
  "\<exists>a s' es. run_state (reconcileDelete demo_late_r) (demo_s demo_deleting) = (a, s') \<and>
     rs_trace s' = es \<and> hist_ok (delete_order demo_late_r demo_deleting) [] es"
proof -
  obtain a s' where run: "run_state (reconcileDelete demo_late_r) (demo_s demo_deleting) = (a, s')"
    by (metis prod.collapse)
  have "rs_trace (demo_s demo_deleting) = []" "rs_wsd (demo_s demo_deleting) = demo_deleting" by (simp_all add: demo_s_def)
  with reconcileDelete_order [OF demo_late_finalizers_ok run] run show ?thesis by auto
qed

lemma wp_get_wsd: "wp get_wsd Q s = Q (rs_wsd s) s"
  by (simp add: get_wsd_def)

text \<open>A run that ends by submitting the object without its finalizer.\<close>

definition submitted :: "reconcile_result \<Rightarrow> ('w, 'q) rstate \<Rightarrow> bool" where
  "submitted a s' \<longleftrightarrow> (\<exists>w' x es. a = Return no_requeue x \<and> rs_trace s' = es @ [EUpdateWsd w' x] \<and>
     WorkspaceDeploymentFinalizer \<notin> set (wsd_Finalizers w'))"

lemma past_grace_delete_backend:
  assumes f: "finalizers_ok r" and past: "past_grace r (rs_wsd s)"
    and cd: "\<And>ns nm w e w'. api_get_cd (r_api r) ns nm w = (Inl e, w') \<Longrightarrow> IsNotFound e"
    and ss: "\<And>w. \<exists>e w'. api_get_ss (r_api r) (cd_namespace (rs_wsd s)) (serviceSetName (r_sha r) (rs_wsd s)) w = (Inl e, w') \<and> IsNotFound e"
  shows "wp (delete_backend r) submitted s"
proof -
  let ?Q = submitted
  have fin: "wp (remove_finalizer r) ?Q s1" for s1 :: "('a, 'b) rstate"
  proof -
    obtain fs where "api_remove_finalizer (r_api r) (rs_wsd s1) WorkspaceDeploymentFinalizer = (rs_wsd s1)\<lparr>wsd_Finalizers := fs\<rparr>"
      "WorkspaceDeploymentFinalizer \<notin> set fs"
      using f unfolding finalizers_ok_def by blast
    then show ?thesis
      by (simp add: submitted_def remove_finalizer_def modify_wsd_def update_wsd_def get_wsd_def wp_invoke split: prod.splits)
  qed
  have cg: "wp (targetClusterGone r) (\<lambda>a s'. (\<exists>b. a = Inr b) \<and> rs_wsd s' = rs_wsd s) s"
    by (auto simp: targetClusterGone_def get_wsd_def get_cd_def wp_invoke Let_def dest: cd split: prod.splits sum.splits)
  have force: "wp (forceDeleteWorkspaceServiceSet r) (\<lambda>a _. a = None) s1" if "rs_wsd s1 = rs_wsd s" for s1
    using ss [of "rs_world s1"] that
    by (auto simp: forceDeleteWorkspaceServiceSet_def get_wsd_def get_ss_def wp_invoke Let_def cd_namespace_def)
  have gone: "wp (ensureWorkspaceServiceSetDeleted r) (\<lambda>a s'. a = Inr True \<and> rs_wsd s' = rs_wsd s) s1"
    if "rs_wsd s1 = rs_wsd s" for s1
    using ss [of "rs_world s1"] that
    by (auto simp: ensureWorkspaceServiceSetDeleted_def get_wsd_def get_ss_def wp_invoke Let_def cd_namespace_def)
  have ns: "wp (State_Monad.bind (namespace_step r) k) ?Q s1"
    if "rs_wsd s1 = rs_wsd s" "\<And>s'. wp (k True) ?Q s'" for s1 k
    by (rule namespace_cleanup.step_then) (use past that in auto)
  have gone_path: "wp (State_Monad.bind (ensureWorkspaceServiceSetDeleted r) k) ?Q s1"
    if "rs_wsd s1 = rs_wsd s" "\<And>s'. rs_wsd s' = rs_wsd s \<Longrightarrow> wp (k (Inr True)) ?Q s'" for s1 k
    unfolding wp_bind by (rule wp_mono [OF gone]) (use that in auto)
  have force_path: "wp (State_Monad.bind (forceDeleteWorkspaceServiceSet r) k) ?Q s1"
    if "rs_wsd s1 = rs_wsd s" "\<And>s'. wp (k None) ?Q s'" for s1 k
    unfolding wp_bind by (rule wp_mono [OF force]) (use that in auto)
  show ?thesis
    unfolding delete_backend_def cleanupWorkspaceNamespace_def
    by (subst wp_bind, rule wp_mono [OF cg])
      (auto simp del: wp_bind intro!: force_path gone_path ns fin)
qed

text \<open>
  C7: a dead cluster cannot hold a workspace.  Once the grace period is over, and when the
  management cluster answers reads of the ClusterDeployment and no longer has the ServiceSet, one
  run of \<open>reconcileDelete\<close> ends by submitting the object without its finalizer, whatever the
  route provider and the child cluster answer.
\<close>

theorem reconcileDelete_terminates:
  assumes "finalizers_ok r" and "past_grace r (rs_wsd s)"
    and "WorkspaceDeploymentFinalizer \<in> set (wsd_Finalizers (rs_wsd s))"
    and "\<And>ns nm w e w'. api_get_cd (r_api r) ns nm w = (Inl e, w') \<Longrightarrow> IsNotFound e"
    and "\<And>w. \<exists>e w'. api_get_ss (r_api r) (cd_namespace (rs_wsd s)) (serviceSetName (r_sha r) (rs_wsd s)) w = (Inl e, w') \<and>
           IsNotFound e"
  shows "\<exists>s' w' x es. run_state (reconcileDelete r) s = (Return no_requeue x, s') \<and>
      rs_trace s' = es @ [EUpdateWsd w' x] \<and> WorkspaceDeploymentFinalizer \<notin> set (wsd_Finalizers w')"
proof -
  let ?Q = submitted
  have backend: "wp (delete_backend r) ?Q s2" if v: "deleting_view (rs_wsd s) (rs_wsd s2)" for s2
    by (rule past_grace_delete_backend) (use assms(1,2,4,5) in \<open>simp_all add: deleting_view_order [OF v]\<close>)
  have routes: "wp (State_Monad.bind (cleanupRoutes r) k) ?Q s1"
    if v: "deleting_view (rs_wsd s) (rs_wsd s1)" and "\<And>s'. rs_wsd s' = rs_wsd s1 \<Longrightarrow> wp (k True) ?Q s'" for s1 k
    by (rule routes_step.step_then) (use assms(2) that in \<open>simp_all add: deleting_view_order [OF v]\<close>)
  have present: "api_contains_finalizer (r_api r) (rs_wsd s) WorkspaceDeploymentFinalizer"
    using assms(1,3) by (simp add: finalizers_ok_def)
  have mark: "wp (State_Monad.bind (mark_deleting r) k) ?Q s"
    if "\<And>s'. deleting_view (rs_wsd s) (rs_wsd s') \<Longrightarrow> wp (k ()) ?Q s'" for k
    unfolding wp_bind by (rule wp_mono [OF safe_mark_deleting [unfolded safe_def traced_def]]) (use that in auto)
  have "wp (reconcileDelete r) ?Q s"
    unfolding reconcileDelete_def
    by (subst wp_bind) (auto simp: present wp_get_wsd simp del: wp_bind intro!: mark routes backend)
  then show ?thesis by (auto simp: submitted_def wp_def split: prod.splits)
qed

theorem reconcileDelete_terminates_witness:
  "\<exists>s' w' x es. run_state (reconcileDelete demo_late_r) (demo_s demo_deleting) = (Return no_requeue x, s') \<and>
      rs_trace s' = es @ [EUpdateWsd w' x] \<and> WorkspaceDeploymentFinalizer \<notin> set (wsd_Finalizers w')"
proof (rule reconcileDelete_terminates [OF demo_late_finalizers_ok])
  show "past_grace demo_late_r (rs_wsd (demo_s demo_deleting))"
    by (simp add: past_grace_def demo_late_r_def demo_s_def demo_deleting_def)
qed (simp_all add: demo_late_r_def demo_env demo_deleting_def)

end
