(* ===== verification/Feasibility.thy ===== *)
theory Feasibility
  imports Gpu_Offering
begin

text \<open>
  \<open>internal/controller/workspaces/feasibility.go\<close>: the cluster-total capacity estimate of a
  deployment's demand.  The two loops are folds over the working \<open>aggregate\<close>; \<open>resource.Quantity\<close>
  is the parameter \<open>Q\<close>.  The \<open>int32\<close> products and conversions wrap (\<open>i32\<close>) and the scaled
  milli-value and the GPU counts and sums wrap at 64 bits (\<open>i64\<close>).
\<close>

section \<open>Helpers\<close>

definition quantityFor :: "'q qops \<Rightarrow> 'q ResourceList \<Rightarrow> string \<Rightarrow> 'q" where
  "quantityFor Q l name = (case map_of l name of Some q \<Rightarrow> q | None \<Rightarrow> q_zero Q)"

definition quantityValue :: "'q qops \<Rightarrow> 'q option \<Rightarrow> 'q" where
  "quantityValue Q q = (case q of None \<Rightarrow> q_zero Q | Some q' \<Rightarrow> q')"

definition quantityValueInt :: "'q qops \<Rightarrow> 'q ResourceList \<Rightarrow> string \<Rightarrow> int" where
  "quantityValueInt Q l name = q_value Q (quantityFor Q l name)"

definition int32Value :: "int option \<Rightarrow> int" where
  "int32Value p = (case p of None \<Rightarrow> 0 | Some v \<Rightarrow> v)"

definition subtract :: "'q qops \<Rightarrow> 'q \<Rightarrow> 'q \<Rightarrow> 'q" where
  "subtract Q dst src = (if q_is_zero Q src then dst else q_sub Q dst src)"

definition multiplyQuantity :: "'q qops \<Rightarrow> 'q \<Rightarrow> int \<Rightarrow> 'q" where
  "multiplyQuantity Q q factor =
     (if factor = 1 then q
      else if factor = 0 then q_zero Q
      else q_new_milli Q (i64 (q_milli Q q * factor)) q)"

definition totalsFromPerReplica :: "'q qops \<Rightarrow> 'q ResourceRequirements \<Rightarrow> int \<Rightarrow> 'q ResourceTotals" where
  "totalsFromPerReplica Q per replicas =
     \<lparr>rt_CPU = map_option (\<lambda>q. multiplyQuantity Q q replicas) (rr_CPU per),
      rt_Memory = map_option (\<lambda>q. multiplyQuantity Q q replicas) (rr_Memory per),
      rt_Storage = map_option (\<lambda>q. multiplyQuantity Q q replicas) (rr_Storage per),
      rt_GPUCount = map_option (\<lambda>c. i32 (c * replicas)) (rr_GPUCount per),
      rt_GPUVendor = rr_GPUVendor per, rt_GPUType = rr_GPUType per\<rparr>"

record 'q aggregate =
  ag_cpu :: 'q
  ag_memory :: 'q
  ag_storage :: 'q
  ag_gpu :: int

text \<open>\<open>any\<close> of the source is "some field of \<open>missing\<close> was set".\<close>

definition shortfall :: "'q qops \<Rightarrow> 'q \<Rightarrow> 'q \<Rightarrow> 'q option" where
  "shortfall Q demand available =
     (if q_cmp Q demand available > 0 then Some (q_sub Q demand available) else None)"

definition computeMissing :: "'q qops \<Rightarrow> 'q aggregate \<Rightarrow> 'q aggregate \<Rightarrow> 'q ResourceTotals option" where
  "computeMissing Q demand available =
     (let cpu = shortfall Q (ag_cpu demand) (ag_cpu available);
          memory = shortfall Q (ag_memory demand) (ag_memory available);
          storage = shortfall Q (ag_storage demand) (ag_storage available);
          gpu = (if ag_gpu demand > ag_gpu available
                 then Some (i32 (ag_gpu demand - ag_gpu available)) else None)
      in if cpu = None \<and> memory = None \<and> storage = None \<and> gpu = None then None
         else Some \<lparr>rt_CPU = cpu, rt_Memory = memory, rt_Storage = storage, rt_GPUCount = gpu,
                rt_GPUVendor = None, rt_GPUType = None\<rparr>)"

definition aggregateToTotals ::
  "'q aggregate \<Rightarrow> GPUVendor option \<Rightarrow> string option \<Rightarrow> 'q ResourceTotals" where
  "aggregateToTotals a vendor gpuType =
     \<lparr>rt_CPU = Some (ag_cpu a), rt_Memory = Some (ag_memory a), rt_Storage = Some (ag_storage a),
      rt_GPUCount = Some (i32 (ag_gpu a)), rt_GPUVendor = vendor, rt_GPUType = gpuType\<rparr>"

text \<open>The package has its own copy of \<open>gpu.nodeIsSchedulable\<close>.\<close>

definition ws_nodeIsSchedulable :: "'q Node \<Rightarrow> bool" where
  "ws_nodeIsSchedulable n \<longleftrightarrow> \<not> node_Unschedulable n \<and>
     list_all (\<lambda>c. \<not> (fst c = ''Ready'' \<and> snd c \<noteq> ConditionTrue)) (node_Conditions n)"

definition gpu_type_matches :: "'q Node \<Rightarrow> string option \<Rightarrow> bool" where
  "gpu_type_matches n gpuType =
     (case gpuType of
        None \<Rightarrow> True
      | Some t \<Rightarrow> t = [] \<or>
          (let product = to_lower (lget (node_Labels n) ''nvidia.com/gpu.product'');
               model = to_lower (lget (node_Labels n) ''nvidia.com/gpu.model'');
               needle = to_lower t
           in str_contains product needle \<or> str_contains model needle))"

definition nodeGPUMatches ::
  "'q qops \<Rightarrow> 'q Node \<Rightarrow> GPUVendor option \<Rightarrow> string option \<Rightarrow> int \<times> bool" where
  "nodeGPUMatches Q n vendor gpuType =
     (if \<not> gpu_type_matches n gpuType then (0, False)
      else
        let count =
          i64 ((if vendor = None \<or> vendor = Some GPUVendorNVIDIA
                then quantityValueInt Q (node_Allocatable n) ''nvidia.com/gpu'' else 0) +
               (if vendor = None \<or> vendor = Some GPUVendorAMD
                then quantityValueInt Q (node_Allocatable n) ''amd.com/gpu'' else 0))
        in (count, count > 0 \<or> (vendor = None \<and> gpuType = None)))"

definition podConsumesResources :: "'q Pod \<Rightarrow> bool" where
  "podConsumesResources p \<longleftrightarrow>
     pod_NodeName p \<noteq> [] \<and> pod_Phase p \<noteq> PodSucceeded \<and> pod_Phase p \<noteq> PodFailed"

definition podContainerGPUCount :: "'q qops \<Rightarrow> 'q ResourceList \<Rightarrow> int" where
  "podContainerGPUCount Q req =
     i64 ((case map_of req ''nvidia.com/gpu'' of Some v \<Rightarrow> q_value Q v | None \<Rightarrow> 0) +
          (case map_of req ''amd.com/gpu'' of Some v \<Rightarrow> q_value Q v | None \<Rightarrow> 0))"

definition podGPUMatchesNode ::
  "'q qops \<Rightarrow> 'q Pod \<Rightarrow> 'q Node list \<Rightarrow> GPUVendor option \<Rightarrow> string option \<Rightarrow> bool" where
  "podGPUMatchesNode Q p nodes vendor gpuType =
     (case find (\<lambda>n. node_Name n = pod_NodeName p) nodes of
        Some n \<Rightarrow> snd (nodeGPUMatches Q n vendor gpuType)
      | None \<Rightarrow> False)"

definition replicas_of :: "'q WorkspaceResourceSpec \<Rightarrow> int" where
  "replicas_of demanded = (case ws_Replicas demanded of None \<Rightarrow> 1 | Some r \<Rightarrow> r)"

definition gpu_label :: "'q ResourceRequirements \<Rightarrow> string" where
  "gpu_label per =
     (case rr_GPUType per of
        Some (c # cs) \<Rightarrow> (c # cs) @ '' GPU''
      | _ \<Rightarrow> (case rr_GPUVendor per of Some v \<Rightarrow> v @ '' GPU'' | None \<Rightarrow> ''GPU''))"

text \<open>Called with \<open>missing\<close> nil only when it fits.\<close>

definition formatFeasibilityMessage ::
  "'q qops \<Rightarrow> bool \<Rightarrow> 'q WorkspaceResourceSpec \<Rightarrow> 'q ResourceTotals option \<Rightarrow> string" where
  "formatFeasibilityMessage Q fits demanded missing =
     (if fits then ''Cluster has capacity for '' @ fmt_d (replicas_of demanded) @ '' replica(s)''
      else
        (let parts =
               (case Option.bind missing rt_CPU of Some q \<Rightarrow> [q_string Q q @ '' CPU''] | None \<Rightarrow> []) @
               (case Option.bind missing rt_Memory of Some q \<Rightarrow> [q_string Q q @ '' memory''] | None \<Rightarrow> []) @
               (case Option.bind missing rt_Storage of Some q \<Rightarrow> [q_string Q q @ '' storage''] | None \<Rightarrow> []) @
               (case Option.bind missing rt_GPUCount of
                  Some c \<Rightarrow> [fmt_d c @ '' '' @ gpu_label (ws_PerReplica demanded)] | None \<Rightarrow> [])
         in ''Insufficient capacity for '' @ fmt_d (replicas_of demanded) @
            '' replica(s); missing '' @ str_join '', '' parts))"

section \<open>The evaluation\<close>

definition add_node :: "'q qops \<Rightarrow> 'q ResourceRequirements \<Rightarrow> 'q aggregate \<Rightarrow> 'q Node \<Rightarrow> 'q aggregate" where
  "add_node Q per available n =
     (if \<not> ws_nodeIsSchedulable n then available
      else
        let alloc = node_Allocatable n;
            (gpuCount, gpuOk) = nodeGPUMatches Q n (rr_GPUVendor per) (rr_GPUType per)
        in \<lparr>ag_cpu = q_add Q (ag_cpu available) (quantityFor Q alloc ''cpu''),
            ag_memory = q_add Q (ag_memory available) (quantityFor Q alloc ''memory''),
            ag_storage = q_add Q (ag_storage available) (quantityFor Q alloc ''ephemeral-storage''),
            ag_gpu = (if gpuOk then i64 (ag_gpu available + gpuCount) else ag_gpu available)\<rparr>)"

definition sub_container ::
  "'q qops \<Rightarrow> 'q ResourceRequirements \<Rightarrow> 'q Node list \<Rightarrow> 'q Pod \<Rightarrow> 'q aggregate \<Rightarrow> 'q ResourceList \<Rightarrow> 'q aggregate" where
  "sub_container Q per nodes p available req =
     \<lparr>ag_cpu = subtract Q (ag_cpu available) (quantityFor Q req ''cpu''),
      ag_memory = subtract Q (ag_memory available) (quantityFor Q req ''memory''),
      ag_storage = subtract Q (ag_storage available) (quantityFor Q req ''ephemeral-storage''),
      ag_gpu = (let gpu = podContainerGPUCount Q req in
                if gpu > 0 \<and> podGPUMatchesNode Q p nodes (rr_GPUVendor per) (rr_GPUType per)
                then i64 (ag_gpu available - gpu) else ag_gpu available)\<rparr>"

definition sub_pod ::
  "'q qops \<Rightarrow> 'q ResourceRequirements \<Rightarrow> 'q Node list \<Rightarrow> 'q aggregate \<Rightarrow> 'q Pod \<Rightarrow> 'q aggregate" where
  "sub_pod Q per nodes available p =
     (if \<not> podConsumesResources p then available
      else foldl (sub_container Q per nodes p) available (pod_Requests p))"

definition available_capacity ::
  "'q qops \<Rightarrow> 'q ResourceRequirements \<Rightarrow> 'q Node list \<Rightarrow> 'q Pod list \<Rightarrow> 'q aggregate" where
  "available_capacity Q per nodes pods =
     (let available = foldl (add_node Q per)
            \<lparr>ag_cpu = q_zero Q, ag_memory = q_zero Q, ag_storage = q_zero Q, ag_gpu = 0\<rparr> nodes;
          available = foldl (sub_pod Q per nodes) available pods
      in if ag_gpu available < 0 then available\<lparr>ag_gpu := 0\<rparr> else available)"

definition demand_of :: "'q qops \<Rightarrow> 'q ResourceTotals \<Rightarrow> 'q aggregate" where
  "demand_of Q t =
     \<lparr>ag_cpu = quantityValue Q (rt_CPU t), ag_memory = quantityValue Q (rt_Memory t),
      ag_storage = quantityValue Q (rt_Storage t), ag_gpu = int32Value (rt_GPUCount t)\<rparr>"

definition feasibility_status ::
  "'q qops \<Rightarrow> int \<Rightarrow> 'q WorkspaceResourceSpec \<Rightarrow> 'q Node list \<Rightarrow> 'q Pod list \<Rightarrow> 'q FeasibilityStatus" where
  "feasibility_status Q now demanded nodes pods =
     (let per = ws_PerReplica demanded;
          totalDemand = totalsFromPerReplica Q per (replicas_of demanded);
          available = available_capacity Q per nodes pods;
          missing = computeMissing Q (demand_of Q totalDemand) available;
          fits = (missing = None)
      in \<lparr>fs_Fits = fits, fs_EvaluatedAt = now, fs_Demanded = totalDemand,
          fs_Available = aggregateToTotals available (rr_GPUVendor per) (rr_GPUType per),
          fs_Missing = missing,
          fs_Message = formatFeasibilityMessage Q fits demanded missing\<rparr>)"

text \<open>The two \<open>List\<close> calls of the client and the clock are the actions \<open>listNodes\<close>, \<open>listPods\<close>
  and \<open>now\<close>.\<close>

definition computeFeasibility ::
  "'q qops \<Rightarrow> ('s, int) state \<Rightarrow> ('s, goerr + 'q Node list) state \<Rightarrow> ('s, goerr + 'q Pod list) state
   \<Rightarrow> 'q WorkspaceResourceSpec \<Rightarrow> ('s, goerr + 'q FeasibilityStatus) state" where
  "computeFeasibility Q now listNodes listPods demanded = do {
     ns \<leftarrow> listNodes;
     (case ns of
        Inl e \<Rightarrow> State_Monad.return (Inl (wrapf ''failed to list nodes'' e))
      | Inr nodes \<Rightarrow> do {
          ps \<leftarrow> listPods;
          (case ps of
             Inl e \<Rightarrow> State_Monad.return (Inl (wrapf ''failed to list pods'' e))
           | Inr pods \<Rightarrow> do {
               t \<leftarrow> now;
               State_Monad.return (Inr (feasibility_status Q t demanded nodes pods))
             })
        })
   }"


section \<open>What the loops compute\<close>

lemma ws_nodeIsSchedulable_agrees: "ws_nodeIsSchedulable = nodeIsSchedulable"
  by (simp add: fun_eq_iff ws_nodeIsSchedulable_def nodeIsSchedulable_def)

definition alloc_total :: "'q qops \<Rightarrow> ('q \<Rightarrow> int) \<Rightarrow> string \<Rightarrow> 'q Node list \<Rightarrow> int" where
  "alloc_total Q val name nodes =
     (\<Sum>n \<leftarrow> filter ws_nodeIsSchedulable nodes. val (quantityFor Q (node_Allocatable n) name))"

definition request_total :: "'q qops \<Rightarrow> ('q \<Rightarrow> int) \<Rightarrow> string \<Rightarrow> 'q Pod list \<Rightarrow> int" where
  "request_total Q val name pods =
     (\<Sum>p \<leftarrow> filter podConsumesResources pods. \<Sum>req \<leftarrow> pod_Requests p. val (quantityFor Q req name))"

text \<open>The GPUs of a node that the demand may use and those a container requests, as exact numbers;
  a node serves the demand's GPUs if its type matches and it has some (any node does when neither
  vendor nor type is asked for).\<close>

definition gpu_units :: "'q qops \<Rightarrow> 'q ResourceRequirements \<Rightarrow> 'q Node \<Rightarrow> int" where
  "gpu_units Q per n =
     (if rr_GPUVendor per \<in> {None, Some GPUVendorNVIDIA} then gpuAllocatable Q n ResourceNvidiaGPU else 0) +
     (if rr_GPUVendor per \<in> {None, Some GPUVendorAMD} then gpuAllocatable Q n ResourceAMDGPU else 0)"

definition gpu_node :: "'q qops \<Rightarrow> 'q ResourceRequirements \<Rightarrow> 'q Node \<Rightarrow> bool" where
  "gpu_node Q per n \<longleftrightarrow> gpu_type_matches n (rr_GPUType per) \<and>
     (0 < gpu_units Q per n \<or> (rr_GPUVendor per = None \<and> rr_GPUType per = None))"

definition container_gpus :: "'q qops \<Rightarrow> 'q ResourceList \<Rightarrow> int" where
  "container_gpus Q req = container_request Q ResourceNvidiaGPU req + container_request Q ResourceAMDGPU req"

definition gpu_alloc_total :: "'q qops \<Rightarrow> 'q ResourceRequirements \<Rightarrow> 'q Node list \<Rightarrow> int" where
  "gpu_alloc_total Q per nodes =
     (\<Sum>n \<leftarrow> filter (\<lambda>n. ws_nodeIsSchedulable n \<and> gpu_node Q per n) nodes. gpu_units Q per n)"

definition on_gpu_node :: "'q qops \<Rightarrow> 'q ResourceRequirements \<Rightarrow> 'q Node list \<Rightarrow> 'q Pod \<Rightarrow> bool" where
  "on_gpu_node Q per nodes p =
     (case find (\<lambda>n. node_Name n = pod_NodeName p) nodes of Some n \<Rightarrow> gpu_node Q per n | None \<Rightarrow> False)"

definition gpu_request_total :: "'q qops \<Rightarrow> 'q ResourceRequirements \<Rightarrow> 'q Node list \<Rightarrow> 'q Pod list \<Rightarrow> int" where
  "gpu_request_total Q per nodes pods =
     (\<Sum>p \<leftarrow> filter (\<lambda>p. podConsumesResources p \<and> on_gpu_node Q per nodes p) pods.
        \<Sum>req \<leftarrow> pod_Requests p. max 0 (container_gpus Q req))"

text \<open>The counts of single nodes and containers are \<open>int64\<close> numbers, and so is the difference of
  the two sums; the sums themselves may wrap on the way.\<close>

definition gpu_counts_in_range :: "'q qops \<Rightarrow> 'q ResourceRequirements \<Rightarrow> 'q Node list \<Rightarrow> 'q Pod list \<Rightarrow> bool" where
  "gpu_counts_in_range Q per nodes pods \<longleftrightarrow>
     (\<forall>n \<in> set nodes. is_i64 (gpu_units Q per n)) \<and>
     (\<forall>p \<in> set pods. \<forall>req \<in> set (pod_Requests p). is_i64 (container_gpus Q req)) \<and>
     is_i64 (gpu_alloc_total Q per nodes - gpu_request_total Q per nodes pods)"

lemmas total_defs = alloc_total_def request_total_def gpu_alloc_total_def gpu_request_total_def

lemma fold_add_node:
  fixes per
  assumes "quantity_exact Q val"
  defines "r \<equiv> foldl (add_node Q per)"
  shows "val (ag_cpu (r a nodes)) = val (ag_cpu a) + alloc_total Q val ''cpu'' nodes"
    and "val (ag_memory (r a nodes)) = val (ag_memory a) + alloc_total Q val ''memory'' nodes"
    and "val (ag_storage (r a nodes)) = val (ag_storage a) + alloc_total Q val ''ephemeral-storage'' nodes"
  using assms(1) unfolding r_def
  by (induction nodes arbitrary: a)
    (simp_all add: total_defs add_node_def quantity_exactD Let_def split: prod.splits)

lemma nodeGPUMatches_exact:
  assumes Q: "quantity_exact Q val" and range: "is_i64 (gpu_units Q per n)"
  shows "nodeGPUMatches Q n (rr_GPUVendor per) (rr_GPUType per) =
    (if gpu_type_matches n (rr_GPUType per) then gpu_units Q per n else 0, gpu_node Q per n)"
proof -
  have "q_value Q (q_zero Q) = 0" by (simp add: quantity_exactD [OF Q])
  then have "quantityValueInt Q (node_Allocatable n) r = gpuAllocatable Q n r" for r
    by (simp add: quantityValueInt_def quantityFor_def gpuAllocatable_def split: option.splits)
  with range show ?thesis
    by (auto simp: nodeGPUMatches_def gpu_node_def gpu_units_def ResourceNvidiaGPU_def ResourceAMDGPU_def Let_def)
qed

lemma podContainerGPUCount_exact: "is_i64 (container_gpus Q req) \<Longrightarrow> podContainerGPUCount Q req = container_gpus Q req"
  by (simp add: podContainerGPUCount_def container_gpus_def container_request_def
      ResourceNvidiaGPU_def ResourceAMDGPU_def)

lemma podGPUMatchesNode_exact:
  assumes "quantity_exact Q val" and "\<And>n. n \<in> set nodes \<Longrightarrow> is_i64 (gpu_units Q per n)"
  shows "podGPUMatchesNode Q p nodes (rr_GPUVendor per) (rr_GPUType per) = on_gpu_node Q per nodes p"
proof (cases "find (\<lambda>n. node_Name n = pod_NodeName p) nodes")
  case (Some n)
  then have "n \<in> set nodes" by (auto simp: find_Some_iff)
  with assms Some show ?thesis by (simp add: podGPUMatchesNode_def on_gpu_node_def nodeGPUMatches_exact)
qed (simp add: podGPUMatchesNode_def on_gpu_node_def)

lemma gpu_fold_add_node:
  assumes "quantity_exact Q val" and "\<And>n. n \<in> set nodes \<Longrightarrow> is_i64 (gpu_units Q per n)" and "is_i64 (ag_gpu a)"
  shows "ag_gpu (foldl (add_node Q per) a nodes) = i64 (ag_gpu a + gpu_alloc_total Q per nodes)"
  using assms(2,3)
proof (induction nodes arbitrary: a)
  case (Cons n nodes)
  have "ag_gpu (add_node Q per a n) =
      (if ws_nodeIsSchedulable n \<and> gpu_node Q per n then i64 (ag_gpu a + gpu_units Q per n) else ag_gpu a)"
    using Cons.prems nodeGPUMatches_exact [OF assms(1), of per n]
    by (auto simp: add_node_def Let_def gpu_node_def)
  with Cons show ?case by (simp add: gpu_alloc_total_def add.assoc)
qed (simp add: gpu_alloc_total_def)

lemma gpu_fold_sub_container:
  assumes "\<And>req. req \<in> set reqs \<Longrightarrow> is_i64 (container_gpus Q req)" and "is_i64 (ag_gpu a)"
  shows "ag_gpu (foldl (sub_container Q per nodes p) a reqs) = i64 (ag_gpu a -
    (if podGPUMatchesNode Q p nodes (rr_GPUVendor per) (rr_GPUType per)
     then \<Sum>req \<leftarrow> reqs. max 0 (container_gpus Q req) else 0))"
  using assms
proof (induction reqs arbitrary: a)
  case (Cons req reqs)
  have "ag_gpu (sub_container Q per nodes p a req) =
      i64 (ag_gpu a - (if podGPUMatchesNode Q p nodes (rr_GPUVendor per) (rr_GPUType per)
        then max 0 (container_gpus Q req) else 0))"
    using Cons.prems by (auto simp: sub_container_def Let_def podContainerGPUCount_exact)
  with Cons show ?case by (simp add: diff_diff_eq)
qed simp

lemma gpu_fold_sub_pod:
  assumes "quantity_exact Q val" and "\<And>n. n \<in> set nodes \<Longrightarrow> is_i64 (gpu_units Q per n)"
    and "\<And>p req. p \<in> set pods \<Longrightarrow> req \<in> set (pod_Requests p) \<Longrightarrow> is_i64 (container_gpus Q req)"
    and "is_i64 (ag_gpu a)"
  shows "ag_gpu (foldl (sub_pod Q per nodes) a pods) = i64 (ag_gpu a - gpu_request_total Q per nodes pods)"
  using assms(3,4)
proof (induction pods arbitrary: a)
  case (Cons p pods)
  have "is_i64 (container_gpus Q req)" if "req \<in> set (pod_Requests p)" for req
    using Cons.prems(1) [of p] that by simp
  then have step: "ag_gpu (sub_pod Q per nodes a p) =
      i64 (ag_gpu a - (if podConsumesResources p \<and> on_gpu_node Q per nodes p
        then \<Sum>req \<leftarrow> pod_Requests p. max 0 (container_gpus Q req) else 0))"
    using Cons.prems(2) gpu_fold_sub_container [of "pod_Requests p" Q a per nodes p]
      podGPUMatchesNode_exact [OF assms(1,2), of nodes p]
    by (auto simp: sub_pod_def)
  have "ag_gpu (foldl (sub_pod Q per nodes) (sub_pod Q per nodes a p) pods) =
      i64 (ag_gpu (sub_pod Q per nodes a p) - gpu_request_total Q per nodes pods)"
  proof (rule Cons.IH)
    show "is_i64 (container_gpus Q req)" if "p' \<in> set pods" "req \<in> set (pod_Requests p')" for p' req
      using Cons.prems(1) [of p'] that by simp
  qed (simp add: step)
  then show ?case by (simp add: step gpu_request_total_def diff_diff_eq)
qed (simp add: gpu_request_total_def)

lemma val_subtract: "quantity_exact Q val \<Longrightarrow> val (subtract Q a b) = val a - val b"
  by (simp add: subtract_def quantity_exactD)

lemma fold_sub_container:
  fixes per nodes p
  assumes "quantity_exact Q val"
  defines "r \<equiv> foldl (sub_container Q per nodes p)"
  shows "val (ag_cpu (r a reqs)) = val (ag_cpu a) - (\<Sum>q \<leftarrow> reqs. val (quantityFor Q q ''cpu''))"
    and "val (ag_memory (r a reqs)) = val (ag_memory a) - (\<Sum>q \<leftarrow> reqs. val (quantityFor Q q ''memory''))"
    and "val (ag_storage (r a reqs)) = val (ag_storage a) - (\<Sum>q \<leftarrow> reqs. val (quantityFor Q q ''ephemeral-storage''))"
  using assms(1) unfolding r_def
  by (induction reqs arbitrary: a) (auto simp: sub_container_def val_subtract Let_def)

lemma fold_sub_pod:
  fixes per nodes
  assumes "quantity_exact Q val"
  defines "r \<equiv> foldl (sub_pod Q per nodes)"
  shows "val (ag_cpu (r a pods)) = val (ag_cpu a) - request_total Q val ''cpu'' pods"
    and "val (ag_memory (r a pods)) = val (ag_memory a) - request_total Q val ''memory'' pods"
    and "val (ag_storage (r a pods)) = val (ag_storage a) - request_total Q val ''ephemeral-storage'' pods"
  using assms(1) unfolding r_def
  by (induction pods arbitrary: a) (simp_all add: total_defs sub_pod_def fold_sub_container)

lemma available_capacity_exact:
  fixes per nodes pods
  assumes "quantity_exact Q val"
  defines "a \<equiv> available_capacity Q per nodes pods"
  shows "val (ag_cpu a) = alloc_total Q val ''cpu'' nodes - request_total Q val ''cpu'' pods"
    and "val (ag_memory a) = alloc_total Q val ''memory'' nodes - request_total Q val ''memory'' pods"
    and "val (ag_storage a) = alloc_total Q val ''ephemeral-storage'' nodes - request_total Q val ''ephemeral-storage'' pods"
  using fold_add_node [OF assms(1)] fold_sub_pod [OF assms(1)] assms(1) unfolding a_def
  by (simp_all add: available_capacity_def Let_def quantity_exactD(1))

lemma available_gpus_exact:
  assumes "quantity_exact Q val" and "gpu_counts_in_range Q per nodes pods"
  shows "ag_gpu (available_capacity Q per nodes pods) =
    max 0 (gpu_alloc_total Q per nodes - gpu_request_total Q per nodes pods)"
  using assms gpu_fold_add_node [OF assms(1)] gpu_fold_sub_pod [OF assms(1)]
  by (simp add: available_capacity_def gpu_counts_in_range_def Let_def)

text \<open>When a per-replica quantity scales without rounding or overflow.\<close>

definition opt_val :: "('q \<Rightarrow> int) \<Rightarrow> 'q option \<Rightarrow> int" where
  "opt_val val q = (case q of None \<Rightarrow> 0 | Some q' \<Rightarrow> val q')"

definition scales_exactly :: "('q \<Rightarrow> int) \<Rightarrow> int \<Rightarrow> 'q option \<Rightarrow> bool" where
  "scales_exactly val r q \<longleftrightarrow> opt_val val q mod 1000000 = 0 \<and>
     is_i64 (opt_val val q div 1000000) \<and> is_i64 (opt_val val q div 1000000 * r)"

definition demand_scales :: "('q \<Rightarrow> int) \<Rightarrow> 'q WorkspaceResourceSpec \<Rightarrow> bool" where
  "demand_scales val w \<longleftrightarrow>
     (let p = ws_PerReplica w; r = replicas_of w in
      scales_exactly val r (rr_CPU p) \<and> scales_exactly val r (rr_Memory p) \<and>
      scales_exactly val r (rr_Storage p) \<and> is_i32 (int32Value (rr_GPUCount p) * r))"

lemma val_multiplyQuantity:
  assumes Q: "quantity_exact Q val" and s: "scales_exactly val r q"
  shows "val (quantityValue Q (map_option (\<lambda>x. multiplyQuantity Q x r) q)) = opt_val val q * r"
proof (cases q)
  case (Some x)
  with s obtain m where m: "val x = 1000000 * m" "is_i64 m" "is_i64 (m * r)"
    by (auto simp: scales_exactly_def opt_val_def mod_0_imp_dvd dvd_def)
  have "- ((- (1000000 * m)) div 1000000) = m" by (simp flip: mult_minus_right)
  with Some m show ?thesis
    by (simp add: multiplyQuantity_def quantityValue_def opt_val_def quantity_exactD [OF Q] split: if_splits)
qed (simp add: quantityValue_def opt_val_def quantity_exactD [OF Q])

lemma demand_exact:
  assumes Q: "quantity_exact Q val" and d: "demand_scales val w"
  defines "a \<equiv> demand_of Q (totalsFromPerReplica Q (ws_PerReplica w) (replicas_of w))"
  shows "val (ag_cpu a) = opt_val val (rr_CPU (ws_PerReplica w)) * replicas_of w"
    and "val (ag_memory a) = opt_val val (rr_Memory (ws_PerReplica w)) * replicas_of w"
    and "val (ag_storage a) = opt_val val (rr_Storage (ws_PerReplica w)) * replicas_of w"
    and "ag_gpu a = int32Value (rr_GPUCount (ws_PerReplica w)) * replicas_of w"
  using d val_multiplyQuantity [OF Q] unfolding a_def
  by (simp_all add: demand_of_def totalsFromPerReplica_def demand_scales_def Let_def int32Value_def
      split: option.splits)

lemma shortfall_exact:
  assumes "quantity_exact Q val"
  shows "shortfall Q d a = None \<longleftrightarrow> val d \<le> val a"
    and "shortfall Q d a = Some q \<Longrightarrow> val q = val d - val a \<and> 0 < val q"
  using quantity_exactD [OF assms] by (auto simp: shortfall_def sgn_if split: if_splits)

lemma computeMissing_None:
  assumes "quantity_exact Q val"
  shows "computeMissing Q d a = None \<longleftrightarrow>
    val (ag_cpu d) \<le> val (ag_cpu a) \<and> val (ag_memory d) \<le> val (ag_memory a) \<and>
    val (ag_storage d) \<le> val (ag_storage a) \<and> ag_gpu d \<le> ag_gpu a"
  using shortfall_exact(1) [OF assms] by (auto simp: computeMissing_def Let_def)

lemma fits_iff:
  assumes Q: "quantity_exact Q val" and d: "demand_scales val w"
    and g: "gpu_counts_in_range Q (ws_PerReplica w) nodes pods"
  shows "fs_Fits (feasibility_status Q now w nodes pods) \<longleftrightarrow>
    (let p = ws_PerReplica w; r = replicas_of w in
     opt_val val (rr_CPU p) * r + request_total Q val ''cpu'' pods \<le> alloc_total Q val ''cpu'' nodes \<and>
     opt_val val (rr_Memory p) * r + request_total Q val ''memory'' pods \<le> alloc_total Q val ''memory'' nodes \<and>
     opt_val val (rr_Storage p) * r + request_total Q val ''ephemeral-storage'' pods
       \<le> alloc_total Q val ''ephemeral-storage'' nodes \<and>
     int32Value (rr_GPUCount p) * r \<le> max 0 (gpu_alloc_total Q p nodes - gpu_request_total Q p nodes pods))"
  using demand_exact [OF Q d] available_capacity_exact [OF Q] available_gpus_exact [OF Q g]
  by (simp add: feasibility_status_def Let_def computeMissing_None [OF Q] le_diff_eq)

section \<open>Properties\<close>

text \<open>
  C38: what the verdict means.  For per-replica quantities that are whole thousandths and scale
  within range, and GPU counts in \<open>int64\<close> range (each node's, each container's and the number
  left over), \<open>Fits\<close> holds exactly when, for CPU, memory and storage, replicas times the
  per-replica amount plus everything pods request is at most what schedulable nodes allocate, and
  replicas times the GPU count is at most the matching GPUs that are left (at least zero).
\<close>

theorem feasibility_fits_iff:
  assumes Q: "quantity_exact Q val" and d: "demand_scales val w"
    and g: "gpu_counts_in_range Q (ws_PerReplica w) nodes pods"
  shows "fs_Fits (feasibility_status Q now w nodes pods) \<longleftrightarrow>
    (let p = ws_PerReplica w; r = replicas_of w in
     opt_val val (rr_CPU p) * r + request_total Q val ''cpu'' pods \<le> alloc_total Q val ''cpu'' nodes \<and>
     opt_val val (rr_Memory p) * r + request_total Q val ''memory'' pods \<le> alloc_total Q val ''memory'' nodes \<and>
     opt_val val (rr_Storage p) * r + request_total Q val ''ephemeral-storage'' pods
       \<le> alloc_total Q val ''ephemeral-storage'' nodes \<and>
     int32Value (rr_GPUCount p) * r \<le> max 0 (gpu_alloc_total Q p nodes - gpu_request_total Q p nodes pods))"
  using Q d g by (rule fits_iff)

definition demo_need :: "int option \<Rightarrow> int option \<Rightarrow> int option \<Rightarrow> int WorkspaceResourceSpec" where
  "demo_need r cpu gpus = \<lparr>ws_Replicas = r, ws_PerReplica = \<lparr>rr_CPU = cpu, rr_Memory = None, rr_Storage = None,
     rr_GPUCount = gpus, rr_GPUVendor = None, rr_GPUType = None, rr_GPUNodeSelector = None\<rparr>\<rparr>"

lemmas demo_need_simps = demo_need_def replicas_of_def int32Value_def opt_val_def

theorem feasibility_fits_iff_witness:
  "fs_Fits (feasibility_status int_qops 0 (demo_need (Some 3) (Some 500000000) (Some 2))
     [demo_node ''n1'' [] [(''cpu'', 2000000000), (''nvidia.com/gpu'', 8000000000)]]
     [demo_pod ''n1'' [(''cpu'', 500000000), (''nvidia.com/gpu'', 2000000000)]])"
proof -
  have d: "demand_scales id (demo_need (Some 3) (Some 500000000) (Some 2))" by code_simp
  have g: "gpu_counts_in_range int_qops (ws_PerReplica (demo_need (Some 3) (Some 500000000) (Some 2)))
       [demo_node ''n1'' [] [(''cpu'', 2000000000), (''nvidia.com/gpu'', 8000000000)]]
       [demo_pod ''n1'' [(''cpu'', 500000000), (''nvidia.com/gpu'', 2000000000)]]"
    by code_simp
  have t: "request_total int_qops id ''cpu'' [demo_pod ''n1'' [(''cpu'', 500000000), (''nvidia.com/gpu'', 2000000000)]] = 500000000"
    "alloc_total int_qops id ''cpu'' [demo_node ''n1'' [] [(''cpu'', 2000000000), (''nvidia.com/gpu'', 8000000000)]] = 2000000000"
    "request_total int_qops id ''memory'' [demo_pod ''n1'' [(''cpu'', 500000000), (''nvidia.com/gpu'', 2000000000)]] = 0"
    "alloc_total int_qops id ''memory'' [demo_node ''n1'' [] [(''cpu'', 2000000000), (''nvidia.com/gpu'', 8000000000)]] = 0"
    "request_total int_qops id ''ephemeral-storage'' [demo_pod ''n1'' [(''cpu'', 500000000), (''nvidia.com/gpu'', 2000000000)]] = 0"
    "alloc_total int_qops id ''ephemeral-storage'' [demo_node ''n1'' [] [(''cpu'', 2000000000), (''nvidia.com/gpu'', 8000000000)]] = 0"
    "gpu_alloc_total int_qops (ws_PerReplica (demo_need (Some 3) (Some 500000000) (Some 2)))
       [demo_node ''n1'' [] [(''cpu'', 2000000000), (''nvidia.com/gpu'', 8000000000)]] = 8"
    "gpu_request_total int_qops (ws_PerReplica (demo_need (Some 3) (Some 500000000) (Some 2)))
       [demo_node ''n1'' [] [(''cpu'', 2000000000), (''nvidia.com/gpu'', 8000000000)]]
       [demo_pod ''n1'' [(''cpu'', 500000000), (''nvidia.com/gpu'', 2000000000)]] = 2"
    by code_simp+
  show ?thesis
    unfolding feasibility_fits_iff [OF quantity_exact_int d g] Let_def t by (simp add: demo_need_simps)
qed

text \<open>
  The reported shortfall is exact.  When the demand does not fit, each resource is listed as
  missing exactly when its demand exceeds what is available, with the difference as its amount
  (the GPU gap when it fits 32 bits).
\<close>

theorem feasibility_missing_exact:
  assumes Q: "quantity_exact Q val"
    and a: "a = available_capacity Q (ws_PerReplica w) nodes pods"
    and d: "d = demand_of Q (totalsFromPerReplica Q (ws_PerReplica w) (replicas_of w))"
    and gap: "is_i32 (ag_gpu d - ag_gpu a)"
    and miss: "fs_Missing (feasibility_status Q now w nodes pods) = Some ms"
  shows "map_option val (rt_CPU ms) =
      (if val (ag_cpu a) < val (ag_cpu d) then Some (val (ag_cpu d) - val (ag_cpu a)) else None) \<and>
    map_option val (rt_Memory ms) =
      (if val (ag_memory a) < val (ag_memory d) then Some (val (ag_memory d) - val (ag_memory a)) else None) \<and>
    map_option val (rt_Storage ms) =
      (if val (ag_storage a) < val (ag_storage d) then Some (val (ag_storage d) - val (ag_storage a)) else None) \<and>
    rt_GPUCount ms = (if ag_gpu a < ag_gpu d then Some (ag_gpu d - ag_gpu a) else None)"
proof -
  have s: "map_option val (shortfall Q x y) = (if val y < val x then Some (val x - val y) else None)" for x y
    using shortfall_exact [OF Q, of x y] by (cases "shortfall Q x y") auto
  have "computeMissing Q d a = Some ms"
    using miss unfolding a d by (simp add: feasibility_status_def Let_def)
  then have "rt_CPU ms = shortfall Q (ag_cpu d) (ag_cpu a)" "rt_Memory ms = shortfall Q (ag_memory d) (ag_memory a)"
    "rt_Storage ms = shortfall Q (ag_storage d) (ag_storage a)"
    "rt_GPUCount ms = (if ag_gpu a < ag_gpu d then Some (i32 (ag_gpu d - ag_gpu a)) else None)"
    unfolding computeMissing_def Let_def by (auto split: if_split_asm)
  with gap show ?thesis by (simp add: s)
qed

theorem feasibility_missing_exact_witness:
  "\<exists>ms. fs_Missing (feasibility_status int_qops 0 (demo_need (Some 2) (Some 1000000000) (Some 1)) [] []) = Some ms \<and>
     rt_CPU ms = Some 2000000000 \<and> rt_Memory ms = None \<and> rt_GPUCount ms = Some 2"
proof -
  let ?w = "demo_need (Some 2) (Some 1000000000) (Some 1)"
  let ?a = "available_capacity int_qops (ws_PerReplica ?w) [] []"
  let ?d = "demand_of int_qops (totalsFromPerReplica int_qops (ws_PerReplica ?w) (replicas_of ?w))"
  have v: "ag_gpu ?d = 2" "ag_gpu ?a = 0" "ag_cpu ?d = 2000000000" "ag_cpu ?a = 0" "ag_memory ?d = 0" "ag_memory ?a = 0"
    by (simp_all add: demand_of_def totalsFromPerReplica_def available_capacity_def multiplyQuantity_def
        quantityValue_def int_qops_def demo_need_simps i32_def i64_def)
  have "computeMissing int_qops ?d ?a \<noteq> None"
    by (simp add: computeMissing_None [OF quantity_exact_int] v)
  then have "fs_Missing (feasibility_status int_qops 0 ?w [] []) \<noteq> None"
    by (simp add: feasibility_status_def Let_def)
  then obtain ms where ms: "fs_Missing (feasibility_status int_qops 0 ?w [] []) = Some ms" by auto
  have "is_i32 (ag_gpu ?d - ag_gpu ?a)" by (simp add: v is_i32_def)
  from feasibility_missing_exact [OF quantity_exact_int refl refl this ms] ms show ?thesis
    by (simp add: v option.map_id)
qed

text \<open>
  The GPU product wraps.  A class may ask for 65536 GPUs per replica on 65536 replicas; the
  \<open>int32\<close> product is zero and a cluster without a single node is reported to fit.
\<close>

theorem feasibility_gpu_overflow:
  assumes Q: "quantity_exact Q val"
    and w: "ws_Replicas w = Some 65536" "rr_GPUCount (ws_PerReplica w) = Some 65536"
    and n: "rr_CPU (ws_PerReplica w) = None" "rr_Memory (ws_PerReplica w) = None" "rr_Storage (ws_PerReplica w) = None"
  shows "fs_Fits (feasibility_status Q now w [] [])"
  using available_capacity_exact [OF Q, of "ws_PerReplica w" "[]" "[]"]
    available_gpus_exact [OF Q, of "ws_PerReplica w" "[]" "[]"] w n
  by (simp add: gpu_counts_in_range_def feasibility_status_def Let_def computeMissing_None [OF Q] demand_of_def
      totalsFromPerReplica_def quantityValue_def int32Value_def replicas_of_def quantity_exactD(1) [OF Q]
      total_defs i32_def)

theorem feasibility_gpu_overflow_witness:
  "fs_Fits (feasibility_status int_qops 0 (demo_need (Some 65536) None (Some 65536)) [] [])"
  by (rule feasibility_gpu_overflow [OF quantity_exact_int]) (simp_all add: demo_need_def)

text \<open>
  Pods on cordoned nodes.  The allocatable CPU of an unschedulable node is not counted but the
  requests of its pods are subtracted, so one busy cordoned node makes a cluster with no free CPU
  margin unfit even for a workspace that asks for nothing.
\<close>

theorem cordoned_pods_subtracted:
  assumes Q: "quantity_exact Q val"
    and n: "\<not> ws_nodeIsSchedulable n" and p: "podConsumesResources p" "pod_Requests p = [[(''cpu'', c)]]" "0 < val c"
    and w: "ws_PerReplica w = \<lparr>rr_CPU = None, rr_Memory = None, rr_Storage = None, rr_GPUCount = None,
              rr_GPUVendor = None, rr_GPUType = None, rr_GPUNodeSelector = None\<rparr>"
  shows "\<not> fs_Fits (feasibility_status Q now w [n] [p])"
proof -
  have "demand_scales val w" by (simp add: demand_scales_def scales_exactly_def w opt_val_def int32Value_def is_i64_def is_i32_def)
  from demand_exact(1) [OF Q this] available_capacity_exact(1) [OF Q, of "ws_PerReplica w" "[n]" "[p]"] n p
  have "val (ag_cpu (available_capacity Q (ws_PerReplica w) [n] [p])) <
      val (ag_cpu (demand_of Q (totalsFromPerReplica Q (ws_PerReplica w) (replicas_of w))))"
    by (simp add: w opt_val_def alloc_total_def request_total_def quantityFor_def)
  then show ?thesis by (simp add: feasibility_status_def Let_def computeMissing_None [OF Q])
qed

theorem cordoned_pods_subtracted_witness:
  "\<not> fs_Fits (feasibility_status int_qops 0 (demo_need None None None)
     [(demo_node ''n1'' [] [(''cpu'', 4000000000)])\<lparr>node_Unschedulable := True\<rparr>]
     [demo_pod ''n1'' [(''cpu'', 1000000000)]])"
  by (rule cordoned_pods_subtracted [OF quantity_exact_int, where c = 1000000000])
    (simp_all add: demo_need_def demo_node_def demo_pod_def ws_nodeIsSchedulable_def podConsumesResources_def)

end
