(* ===== verification/Value_Injection.thy ===== *)
theory Value_Injection
  imports Api_Types
begin

text \<open>
  \<open>internal/controller/workspaces/inject.go\<close>: the JSONPath-lite parser, nested writes into a
  Helm values tree, and the injection of resolved resources.

  The values map is a tree without sharing (it comes from \<open>json.Unmarshal\<close> and every inserted
  map is fresh), so the in-place updates of the source are functional updates along the path; the
  source's nil \<open>any\<close> is \<open>HNull\<close> and a Go map that may be nil is an \<open>option\<close>.
\<close>

section \<open>Paths\<close>

definition path_err :: "string \<Rightarrow> string \<Rightarrow> string \<Rightarrow> goerr" where
  "path_err s before after = errorf (before @ fmt_q s @ after)"

definition flushBare :: "string list \<Rightarrow> string \<Rightarrow> bool \<Rightarrow> string list \<times> bool" where
  "flushBare out buf emittedSinceDot =
     (if buf = [] then (out, emittedSinceDot) else (out @ [buf], True))"

lemma tl_dropWhile_shorter: "tl (dropWhile P xs) = c # ys \<Longrightarrow> length ys < length xs"
proof -
  assume a: "tl (dropWhile P xs) = c # ys"
  have "length (tl (dropWhile P xs)) \<le> length (dropWhile P xs)" by simp
  also have "\<dots> \<le> length xs" by (rule length_dropWhile_le)
  finally show ?thesis using a by simp
qed

text \<open>The loop of \<open>parsePath\<close>: \<open>rest\<close> is \<open>s[i:]\<close>.\<close>

function parse_loop :: "string \<Rightarrow> string \<Rightarrow> string list \<Rightarrow> string \<Rightarrow> bool \<Rightarrow> goerr + string list" where
  "parse_loop s [] out buf emitted =
     (let (out, emitted) = flushBare out buf emitted in
      if \<not> emitted then Inl (path_err s ''path '' '' ends with a trailing dot'')
      else if out = [] then Inl (path_err s ''path '' '' yielded no segments'')
      else Inr out)"
| "parse_loop s (c # rest) out buf emitted =
     (if c = CHR ''.'' then
        (let (out, emitted) = flushBare out buf emitted in
         if \<not> emitted then Inl (path_err s ''empty segment in path '' '''')
         else if rest = [] then Inl (path_err s ''path '' '' ends with a trailing dot'')
         else parse_loop s rest out [] False)
      else if c = CHR ''['' then
        (let (out, emitted) = flushBare out buf emitted in
         case rest of
           [] \<Rightarrow> Inl (path_err s ''path '' '' has unclosed bracket'')
         | quote # rest1 \<Rightarrow>
             if quote \<noteq> CHR 0x22 \<and> quote \<noteq> CHR 0x27 then
               Inl (path_err s ''bracket segment in path '' '' must use single or double quotes'')
             else
               let key = takeWhile (\<lambda>x. x \<noteq> quote) rest1; rest2 = dropWhile (\<lambda>x. x \<noteq> quote) rest1 in
               if rest2 = [] then Inl (path_err s ''path '' '' has unterminated bracket-quoted segment'')
               else if key = [] then Inl (path_err s ''path '' '' has empty bracket-quoted segment'')
               else
                 (case tl rest2 of
                    [] \<Rightarrow> Inl (path_err s ''path '' '' is missing closing bracket'')
                  | c2 # rest3 \<Rightarrow>
                      if c2 \<noteq> CHR '']'' then Inl (path_err s ''path '' '' is missing closing bracket'')
                      else if rest3 \<noteq> [] \<and> hd rest3 \<noteq> CHR ''.'' \<and> hd rest3 \<noteq> CHR ''['' then
                        Inl (errorf (''path '' @ fmt_q s @ '' has unexpected char '' @ fmt_qc (hd rest3) @
                               '' after bracket segment''))
                      else parse_loop s rest3 (out @ [key]) [] True))
      else parse_loop s rest out (buf @ [c]) emitted)"
  by pat_completeness auto

termination
  by (relation "measure (\<lambda>(s, rest, out, buf, em). length rest)") (auto dest!: tl_dropWhile_shorter)

declare parse_loop.simps [simp del]

definition parsePath :: "string \<Rightarrow> goerr + string list" where
  "parsePath s = (if s = [] then Inl (errorf ''path is empty'') else parse_loop s s [] [] False)"


section \<open>Nested writes\<close>

text \<open>
  The walk of \<open>setNestedValue\<close>; \<open>ow\<close> is the named result \<open>overwritten\<close>, which only the
  unreachable final return delivers.  The result is the updated map with (previous, overwritten).
\<close>

definition submap :: "hmap \<Rightarrow> string \<Rightarrow> hmap option" where
  "submap m k = (case map_of m k of Some (HMap n) \<Rightarrow> Some n | _ \<Rightarrow> None)"

fun set_walk :: "bool \<Rightarrow> hmap \<Rightarrow> string list \<Rightarrow> hval \<Rightarrow> hmap \<times> hval \<times> bool" where
  "set_walk ow m [] value = (m, HNull, ow)"
| "set_walk ow m [seg] value =
     (mput seg value m,
      case map_of m seg of Some prev \<Rightarrow> prev | None \<Rightarrow> HNull,
      case map_of m seg of Some prev \<Rightarrow> prev \<noteq> HNull | None \<Rightarrow> False)"
| "set_walk ow m (seg # seg2 # path) value =
     (let (ow', next) =
            (case submap m seg of
               Some n \<Rightarrow> (ow, n)
             | None \<Rightarrow> ((case map_of m seg of Some existing \<Rightarrow> if existing \<noteq> HNull then True else ow | None \<Rightarrow> ow), []));
          (next', res) = set_walk ow' next (seg2 # path) value
      in (mput seg (HMap next') m, res))"

definition setNestedValue :: "hmap \<Rightarrow> string list \<Rightarrow> hval \<Rightarrow> hmap \<times> hval \<times> bool" where
  "setNestedValue m path value = set_walk False m path value"

section \<open>Injection\<close>

definition exalsiusValuesKey :: string where "exalsiusValuesKey = ''_exalsius''"

definition injectNodeSelector :: "hmap option \<Rightarrow> labels \<Rightarrow> hmap option" where
  "injectNodeSelector values selector =
     (case values of
        None \<Rightarrow> None
      | Some m \<Rightarrow>
          if selector = [] then Some m
          else Some (fst (setNestedValue m [exalsiusValuesKey, ''scheduling'', ''nodeSelector'']
                 (HMap (map (map_prod id HStr) selector)))))"

definition injectGPUResourceName :: "hmap option \<Rightarrow> string \<Rightarrow> hmap option" where
  "injectGPUResourceName values resourceName =
     (case values of
        None \<Rightarrow> None
      | Some m \<Rightarrow>
          if resourceName = [] then Some m
          else Some (fst (setNestedValue m [exalsiusValuesKey, ''resources'', ''perReplica'', ''gpuResourceName'']
                 (HStr resourceName))))"

record resourceInjectionWarning =
  riw_Path :: string
  riw_Field :: string
  riw_Previous :: hval

text \<open>The dash of the message is U+2014, three bytes of UTF-8.\<close>

definition warning_String :: "resourceInjectionWarning \<Rightarrow> string" where
  "warning_String w =
     ''operator overwrote spec.values.'' @ riw_Path w @ '' ('' @ riw_Field w @ '') '' @
     [CHR 0xE2, CHR 0x80, CHR 0x94] @ '' use spec.resources.perReplica.'' @ riw_Field w @ '' instead''"

definition injectionFieldPaths :: "ResourceInjectionMap option \<Rightarrow> InjectionPath list gomap" where
  "injectionFieldPaths im =
     (case im of
        None \<Rightarrow> []
      | Some m \<Rightarrow> [(''replicas'', im_Replicas m), (''cpu'', im_CPU m), (''memory'', im_Memory m),
                   (''storage'', im_Storage m), (''gpuCount'', im_GPUCount m),
                   (''gpuVendor'', im_GPUVendor m), (''gpuType'', im_GPUType m)])"

text \<open>\<open>iter\<close> is the order in which Go ranges over the field map.\<close>

fun first_bad_path :: "(string \<times> InjectionPath) list \<Rightarrow> goerr option" where
  "first_bad_path [] = None"
| "first_bad_path ((field, p) # fps) =
     (case parsePath p of
        Inl e \<Rightarrow> Some (wrapf (''resourceInjection.'' @ field @ '' path '' @ fmt_q p) e)
      | Inr _ \<Rightarrow> first_bad_path fps)"

definition validateInjectionPaths ::
  "(InjectionPath list gomap \<Rightarrow> InjectionPath list gomap) \<Rightarrow> ResourceInjectionMap option \<Rightarrow> goerr option" where
  "validateInjectionPaths iter im =
     (case im of
        None \<Rightarrow> None
      | Some _ \<Rightarrow> first_bad_path
          (concat (map (\<lambda>(field, paths). map (Pair field) paths) (iter (injectionFieldPaths im)))))"

definition field_entries :: "'q qops \<Rightarrow> 'q WorkspaceResourceSpec \<Rightarrow> (string \<times> hval) list" where
  "field_entries Q resolved =
     (let p = ws_PerReplica resolved in
      (case ws_Replicas resolved of Some r \<Rightarrow> [(''replicas'', HInt r)] | None \<Rightarrow> []) @
      (case rr_CPU p of Some q \<Rightarrow> [(''cpu'', HStr (q_string Q q))] | None \<Rightarrow> []) @
      (case rr_Memory p of Some q \<Rightarrow> [(''memory'', HStr (q_string Q q))] | None \<Rightarrow> []) @
      (case rr_Storage p of Some q \<Rightarrow> [(''storage'', HStr (q_string Q q))] | None \<Rightarrow> []) @
      (case rr_GPUCount p of Some c \<Rightarrow> [(''gpuCount'', HInt c)] | None \<Rightarrow> []) @
      (case rr_GPUVendor p of Some v \<Rightarrow> [(''gpuVendor'', HStr v)] | None \<Rightarrow> []) @
      (case rr_GPUType p of Some t \<Rightarrow> [(''gpuType'', HStr t)] | None \<Rightarrow> []))"

definition ensure_map :: "hmap \<Rightarrow> string \<Rightarrow> hmap" where
  "ensure_map m k = (case submap m k of Some n \<Rightarrow> n | None \<Rightarrow> [])"

text \<open>Step (1): the three nodes of the well-known path are created or kept, then filled.\<close>

definition inject_standard :: "hmap \<Rightarrow> (string \<times> hval) list \<Rightarrow> hmap" where
  "inject_standard values entries =
     (let exalsius = ensure_map values exalsiusValuesKey;
          resourcesNode = ensure_map exalsius ''resources'';
          perReplica = ensure_map resourcesNode ''perReplica'';
          perReplica' = foldl (\<lambda>m e. if fst e = ''replicas'' then m else mput (fst e) (snd e) m) perReplica entries;
          resourcesNode' = foldl (\<lambda>m e. if fst e = ''replicas'' then mput (fst e) (snd e) m else m)
                             (mput ''perReplica'' (HMap perReplica') resourcesNode) entries
      in mput exalsiusValuesKey (HMap (mput ''resources'' (HMap resourcesNode') exalsius)) values)"

text \<open>Step (2): one write per (entry, class path), in the order of the two nested loops.\<close>

definition inject_path ::
  "string \<times> hval \<Rightarrow> hmap \<times> resourceInjectionWarning list \<Rightarrow> InjectionPath
   \<Rightarrow> hmap \<times> resourceInjectionWarning list" where
  "inject_path e st p =
     (let (values, warnings) = st in
      case parsePath p of
        Inl err \<Rightarrow> (values, warnings @ [\<lparr>riw_Path = p, riw_Field = fst e,
                      riw_Previous = HStr (''PARSE ERROR: '' @ emsg err)\<rparr>])
      | Inr segs \<Rightarrow>
          (let (values', prev, overwrote) = setNestedValue values segs (snd e) in
           (values', if overwrote then warnings @ [\<lparr>riw_Path = p, riw_Field = fst e, riw_Previous = prev\<rparr>]
                     else warnings)))"

definition paths_for :: "ResourceInjectionMap \<Rightarrow> string \<Rightarrow> InjectionPath list" where
  "paths_for im field =
     (if field = ''replicas'' then im_Replicas im
      else if field = ''cpu'' then im_CPU im
      else if field = ''memory'' then im_Memory im
      else if field = ''storage'' then im_Storage im
      else if field = ''gpuCount'' then im_GPUCount im
      else if field = ''gpuVendor'' then im_GPUVendor im
      else if field = ''gpuType'' then im_GPUType im
      else [])"

definition injectResources ::
  "'q qops \<Rightarrow> hmap option \<Rightarrow> 'q WorkspaceResourceSpec \<Rightarrow> ResourceInjectionMap option
   \<Rightarrow> hmap option \<times> resourceInjectionWarning list" where
  "injectResources Q values resolved im =
     (case values of
        None \<Rightarrow> (None, [])
      | Some m \<Rightarrow>
          (let entries = field_entries Q resolved; m1 = inject_standard m entries in
           case im of
             None \<Rightarrow> (Some m1, [])
           | Some im' \<Rightarrow>
               (let (m2, ws) = foldl (\<lambda>st e. foldl (inject_path e) st (paths_for im' (fst e))) (m1, []) entries
                in (Some m2, ws))))"


section \<open>The path grammar\<close>

text \<open>A bare segment, and a bracketed key with its text.\<close>

definition bare_seg :: "string \<Rightarrow> bool" where
  "bare_seg k \<longleftrightarrow> k \<noteq> [] \<and> CHR ''.'' \<notin> set k \<and> CHR ''['' \<notin> set k"

definition bracket_text :: "string \<Rightarrow> string \<Rightarrow> bool" where
  "bracket_text k t \<longleftrightarrow> k \<noteq> [] \<and>
     (\<exists>q. (q = CHR 0x22 \<or> q = CHR 0x27) \<and> q \<notin> set k \<and> t = CHR ''['' # q # k @ [q, CHR '']''])"

inductive path_syntax :: "string \<Rightarrow> string list \<Rightarrow> bool"
  and path_tail :: "string \<Rightarrow> string list \<Rightarrow> bool" where
  bare: "bare_seg k \<Longrightarrow> path_tail t ks \<Longrightarrow> path_syntax (k @ t) (k # ks)"
| bracket: "bracket_text k b \<Longrightarrow> path_tail t ks \<Longrightarrow> path_syntax (b @ t) (k # ks)"
| stop: "path_tail [] []"
| dot: "path_syntax t ks \<Longrightarrow> path_tail (CHR ''.'' # t) ks"
| more: "bracket_text k b \<Longrightarrow> path_tail t ks \<Longrightarrow> path_tail (b @ t) (k # ks)"

lemma bracket_text_start: "bracket_text k b \<Longrightarrow> \<exists>r. b = CHR ''['' # r"
  by (auto simp: bracket_text_def)

inductive_cases path_tail_NilE: "path_tail [] ks"
inductive_cases path_tail_ConsE: "path_tail (c # t) ks"
inductive_cases path_syntax_ConsE: "path_syntax (c # t) ks"

lemma path_tail_start: "path_tail t ks \<Longrightarrow> t = [] \<or> hd t = CHR ''.'' \<or> hd t = CHR ''[''"
  by (erule path_tail.cases) (auto dest: bracket_text_start)

lemma path_tail_Nil [simp]: "path_tail [] ks \<longleftrightarrow> ks = []"
  by (auto elim: path_tail_NilE dest: bracket_text_start intro: stop)

lemma path_syntax_Nil [simp]: "\<not> path_syntax [] ks"
  by (auto elim: path_syntax.cases dest: bracket_text_start simp: bare_seg_def)

lemma path_tail_dot [simp]: "path_tail (CHR ''.'' # t) ks \<longleftrightarrow> path_syntax t ks"
  by (auto elim!: path_tail_ConsE dest: bracket_text_start intro: dot)

text \<open>A run of plain characters, with what follows it in a path.\<close>

definition plain :: "string \<Rightarrow> bool" where
  "plain k \<longleftrightarrow> CHR ''.'' \<notin> set k \<and> CHR ''['' \<notin> set k"

lemma plain_split:
  assumes "k @ t = k' @ t'" and "plain k" and "plain k'"
    and "t = [] \<or> hd t = CHR ''.'' \<or> hd t = CHR ''[''" and "t' = [] \<or> hd t' = CHR ''.'' \<or> hd t' = CHR ''[''"
  shows "k = k'" and "t = t'"
proof -
  let ?P = "\<lambda>c. c \<noteq> CHR ''.'' \<and> c \<noteq> CHR ''[''"
  have "takeWhile ?P (k @ t) = k" if "plain k" "t = [] \<or> hd t = CHR ''.'' \<or> hd t = CHR ''[''" for k t
  proof -
    have "takeWhile ?P t = []" using that(2) by (cases t) auto
    moreover have "\<forall>c \<in> set k. ?P c" using that(1) by (auto simp: plain_def)
    ultimately show ?thesis by (simp add: takeWhile_append)
  qed
  from this [OF assms(2,4)] this [OF assms(3,5)] assms(1) show "k = k'" by simp
  with assms(1) show "t = t'" by simp
qed

lemma path_syntax_bare:
  assumes buf: "plain buf" "buf \<noteq> []" and t: "t = [] \<or> hd t = CHR ''.'' \<or> hd t = CHR ''[''"
  shows "path_syntax (buf @ t) ks \<longleftrightarrow> (\<exists>ks'. ks = buf # ks' \<and> path_tail t ks')"
proof
  assume "path_syntax (buf @ t) ks"
  then show "\<exists>ks'. ks = buf # ks' \<and> path_tail t ks'"
  proof (cases rule: path_syntax.cases)
    case (bare k t' ks')
    with plain_split [of buf t k t'] buf t path_tail_start [of t' ks'] show ?thesis
      by (auto simp: bare_seg_def plain_def)
  next
    case (bracket k b t' ks')
    with buf show ?thesis by (cases buf) (auto simp: bracket_text_def plain_def)
  qed
next
  assume "\<exists>ks'. ks = buf # ks' \<and> path_tail t ks'"
  with buf show "path_syntax (buf @ t) ks" by (auto intro: path_syntax_path_tail.bare simp: bare_seg_def plain_def)
qed

text \<open>What a bracket at the head of the remaining input means in the grammar.\<close>

lemma bracket_split:
  assumes "bracket_text k b" and "b @ t = CHR ''['' # q # r"
  shows "q = CHR 0x22 \<or> q = CHR 0x27" and "k = takeWhile (\<lambda>x. x \<noteq> q) r"
    and "dropWhile (\<lambda>x. x \<noteq> q) r = q # CHR '']'' # t" and "k \<noteq> []"
proof -
  from assms have q: "q \<notin> set k" "k \<noteq> []" "q = CHR 0x22 \<or> q = CHR 0x27" and r: "r = k @ q # CHR '']'' # t"
    by (auto simp: bracket_text_def)
  then show "q = CHR 0x22 \<or> q = CHR 0x27" "k \<noteq> []" by simp_all
  have "\<forall>x \<in> set k. x \<noteq> q" using q by blast
  then show "k = takeWhile (\<lambda>x. x \<noteq> q) r" and "dropWhile (\<lambda>x. x \<noteq> q) r = q # CHR '']'' # t"
    by (simp_all add: r takeWhile_append dropWhile_append)
qed

lemma bracket_join:
  assumes "q = CHR 0x22 \<or> q = CHR 0x27" and "takeWhile (\<lambda>x. x \<noteq> q) r \<noteq> []"
    and "dropWhile (\<lambda>x. x \<noteq> q) r = d" and "d \<noteq> []" and "tl d = CHR '']'' # t"
  shows "\<exists>b. bracket_text (takeWhile (\<lambda>x. x \<noteq> q) r) b \<and> CHR ''['' # q # r = b @ t"
proof -
  have "hd d = q" using assms(3,4) hd_dropWhile [of "\<lambda>x. x \<noteq> q" r] by auto
  with assms(4,5) have d: "d = q # CHR '']'' # t" by (cases d) auto
  have r: "r = takeWhile (\<lambda>x. x \<noteq> q) r @ q # CHR '']'' # t"
    using assms(3) takeWhile_dropWhile_id [of "\<lambda>x. x \<noteq> q" r] unfolding d by simp
  have "q \<notin> set (takeWhile (\<lambda>x. x \<noteq> q) r)" by (auto dest: set_takeWhileD)
  moreover have "CHR ''['' # q # r = (CHR ''['' # q # takeWhile (\<lambda>x. x \<noteq> q) r @ [q, CHR '']'']) @ t"
    by (subst (1) r) simp
  ultimately show ?thesis using assms(1,2) unfolding bracket_text_def by blast
qed

definition bracket_rest :: "string \<Rightarrow> string \<Rightarrow> string \<Rightarrow> bool" where
  "bracket_rest r k t \<longleftrightarrow> (\<exists>b. bracket_text k b \<and> CHR ''['' # r = b @ t)"

lemma path_tail_bracket: "path_tail (CHR ''['' # r) ks \<longleftrightarrow>
    (\<exists>k t ks'. bracket_rest r k t \<and> ks = k # ks' \<and> path_tail t ks')"
  by (auto simp: bracket_rest_def intro: more elim!: path_tail_ConsE)

lemma path_syntax_bracket: "path_syntax (CHR ''['' # r) ks \<longleftrightarrow> path_tail (CHR ''['' # r) ks"
proof
  assume "path_syntax (CHR ''['' # r) ks"
  then obtain k t ks' where "ks = k # ks'" "path_tail t ks'"
    and "bare_seg k \<and> CHR ''['' # r = k @ t \<or> bracket_rest r k t"
    by (cases rule: path_syntax.cases) (auto simp: bracket_rest_def)
  then show "path_tail (CHR ''['' # r) ks"
    by (auto simp: path_tail_bracket bare_seg_def Cons_eq_append_conv)
next
  assume "path_tail (CHR ''['' # r) ks"
  then show "path_syntax (CHR ''['' # r) ks"
    unfolding path_tail_bracket bracket_rest_def by (metis path_syntax_path_tail.bracket)
qed

text \<open>One step of the loop at a bracket, against the grammar.\<close>

lemma bracket_rest_unfold:
  "bracket_rest r k t \<longleftrightarrow>
     (\<exists>q r1. r = q # r1 \<and> (q = CHR 0x22 \<or> q = CHR 0x27) \<and> k = takeWhile (\<lambda>x. x \<noteq> q) r1 \<and> k \<noteq> [] \<and>
        dropWhile (\<lambda>x. x \<noteq> q) r1 \<noteq> [] \<and> tl (dropWhile (\<lambda>x. x \<noteq> q) r1) = CHR '']'' # t)"
  (is "_ \<longleftrightarrow> ?R")
proof
  assume "bracket_rest r k t"
  then obtain b where b: "bracket_text k b" "CHR ''['' # r = b @ t" by (auto simp: bracket_rest_def)
  then obtain q r1 where r: "r = q # r1" by (auto simp: bracket_text_def)
  with bracket_split [OF b(1), of t q r1] b(2) show ?R by (metis list.distinct(1) list.sel(3))
next
  assume ?R
  then show "bracket_rest r k t" unfolding bracket_rest_def using bracket_join by blast
qed

lemma parse_loop_bracket:
  "parse_loop s (CHR ''['' # rest) out buf emitted = Inr segs \<longleftrightarrow>
     (\<exists>k t. bracket_rest rest k t \<and> (t = [] \<or> hd t = CHR ''.'' \<or> hd t = CHR ''['') \<and>
        parse_loop s t (fst (flushBare out buf emitted) @ [k]) [] True = Inr segs)"
proof (cases rest)
  case Nil
  then show ?thesis by (simp add: bracket_rest_unfold parse_loop.simps split: prod.splits)
next
  case (Cons q r1)
  define K D where "K = takeWhile (\<lambda>x. x \<noteq> q) r1" and "D = dropWhile (\<lambda>x. x \<noteq> q) r1"
  obtain out' em' where fl: "flushBare out buf emitted = (out', em')" by (cases "flushBare out buf emitted")
  have "bracket_rest rest k t \<longleftrightarrow> (q = CHR 0x22 \<or> q = CHR 0x27) \<and> k = K \<and> K \<noteq> [] \<and> D \<noteq> [] \<and> tl D = CHR '']'' # t" for k t
    unfolding Cons bracket_rest_unfold K_def D_def by blast
  moreover have "parse_loop s (CHR ''['' # rest) out buf emitted = Inr segs \<longleftrightarrow>
      (q = CHR 0x22 \<or> q = CHR 0x27) \<and> D \<noteq> [] \<and> K \<noteq> [] \<and>
      (\<exists>t. tl D = CHR '']'' # t \<and> (t = [] \<or> hd t = CHR ''.'' \<or> hd t = CHR ''['') \<and>
         parse_loop s t (out' @ [K]) [] True = Inr segs)"
    unfolding Cons
    by (subst parse_loop.simps(2), unfold fl Let_def prod.case list.case,
        unfold K_def [symmetric] D_def [symmetric], cases "tl D") auto
  ultimately show ?thesis by (auto simp: fl)
qed

lemma bracket_rest_shorter: "bracket_rest rest k t \<Longrightarrow> length t < length rest"
  by (auto simp: bracket_rest_unfold dest!: tl_dropWhile_shorter)

lemma path_syntax_dot [simp]: "\<not> path_syntax (CHR ''.'' # t) ks"
  by (auto elim!: path_syntax_ConsE dest: bracket_text_start simp: bare_seg_def Cons_eq_append_conv)

text \<open>The loop invariant: after a segment (\<open>emitted\<close>) the rest is a tail of the grammar,
  otherwise the collected characters and the rest form a path.\<close>

lemma parse_loop_grammar:
  assumes "emitted \<longrightarrow> buf = [] \<and> out \<noteq> [] \<and> (rest = [] \<or> hd rest = CHR ''.'' \<or> hd rest = CHR ''['')"
    and "plain buf"
  shows "parse_loop s rest out buf emitted = Inr segs \<longleftrightarrow>
    (\<exists>ks. segs = out @ ks \<and> (if emitted then path_tail rest ks else path_syntax (buf @ rest) ks))"
  using assms
proof (induction "length rest" arbitrary: rest out buf emitted rule: less_induct)
  case less
  show ?case
  proof (cases rest)
    case Nil
    with less.prems show ?thesis
      using path_syntax_bare [of buf "[]"] by (cases "buf = []") (auto simp: flushBare_def parse_loop.simps)
  next
    case (Cons c rest')
    let ?out = "fst (flushBare out buf emitted)"
    consider (dot) "c = CHR ''.''" | (br) "c = CHR ''[''" | (plain) "c \<noteq> CHR ''.''" "c \<noteq> CHR ''[''" by blast
    then show ?thesis
    proof cases
      case dot
      have IH: "parse_loop s rest' o1 [] False = Inr segs \<longleftrightarrow> (\<exists>ks. segs = o1 @ ks \<and> path_syntax rest' ks)" for o1
        using less.hyps [of rest' False "[]" o1] Cons by (simp add: plain_def)
      show ?thesis
        using path_syntax_bare [of buf "CHR ''.'' # rest'"] less.prems dot
        by (auto simp: Cons IH flushBare_def parse_loop.simps(2))
    next
      case br
      have "parse_loop s rest out buf emitted = Inr segs \<longleftrightarrow>
          (\<exists>k t. bracket_rest rest' k t \<and> (\<exists>ks. segs = ?out @ k # ks \<and> path_tail t ks))"
      proof -
        have "parse_loop s t (?out @ [k]) [] True = Inr segs \<longleftrightarrow> (\<exists>ks. segs = ?out @ k # ks \<and> path_tail t ks)"
          if "bracket_rest rest' k t" "t = [] \<or> hd t = CHR ''.'' \<or> hd t = CHR ''[''" for k t
          using less.hyps [of t True "[]" "?out @ [k]"] bracket_rest_shorter [OF that(1)] that(2)
          by (simp add: Cons plain_def)
        then show ?thesis
          unfolding Cons br parse_loop_bracket using path_tail_start by blast
      qed
      also have "\<dots> \<longleftrightarrow> (\<exists>ks. segs = ?out @ ks \<and> path_tail rest ks)"
        unfolding Cons br path_tail_bracket by blast
      also have "\<dots> \<longleftrightarrow> (\<exists>ks. segs = out @ ks \<and> (if emitted then path_tail rest ks else path_syntax (buf @ rest) ks))"
        using path_syntax_bare [of buf rest] less.prems by (auto simp: Cons br flushBare_def path_syntax_bracket)
      finally show ?thesis .
    next
      case plain
      then have ne: "\<not> emitted" using less.prems Cons by auto
      then show ?thesis
        using less.hyps [of rest' False "buf @ [c]" out] less.prems plain by (simp add: Cons plain_def parse_loop.simps(2))
    qed
  qed
qed

lemma parsePath_iff: "parsePath s = Inr segs \<longleftrightarrow> path_syntax s segs"
  by (cases "s = []") (simp_all add: parsePath_def parse_loop_grammar plain_def)


section \<open>Values trees as a path-indexed store\<close>

fun look :: "hval \<Rightarrow> string list \<Rightarrow> hval option" where
  "look v [] = Some v"
| "look (HMap m) (k # ks) = (case map_of m k of Some v \<Rightarrow> look v ks | None \<Rightarrow> None)"
| "look _ (k # ks) = None"

abbreviation value_at :: "hmap \<Rightarrow> string list \<Rightarrow> hval option" where
  "value_at m \<equiv> look (HMap m)"

definition put_at :: "hmap \<Rightarrow> string list \<Rightarrow> hval \<Rightarrow> hmap" where
  "put_at m path v = fst (setNestedValue m path v)"

text \<open>Two paths are apart when neither is a prefix of the other.\<close>

abbreviation apart :: "string list \<Rightarrow> string list \<Rightarrow> bool" where
  "apart p q \<equiv> \<not> prefix p q \<and> \<not> prefix q p"

locale path_store =
  fixes get :: "'m \<Rightarrow> string list \<Rightarrow> 'v option" and put :: "'m \<Rightarrow> string list \<Rightarrow> 'v \<Rightarrow> 'm"
  assumes get_put: "p \<noteq> [] \<Longrightarrow> get (put m p v) p = Some v"
    and get_put_apart: "apart p q \<Longrightarrow> get (put m p v) q = get m q"
begin

text \<open>A sequence of writes: the last write to a path survives the writes apart from it.\<close>

definition put_list :: "'m \<Rightarrow> (string list \<times> 'v) list \<Rightarrow> 'm" where
  "put_list m ws = foldl (\<lambda>m w. put m (fst w) (snd w)) m ws"

lemma put_list_frame:
  "\<forall>w \<in> set ws. apart (fst w) q \<Longrightarrow> get (put_list m ws) q = get m q"
  unfolding put_list_def by (induction ws arbitrary: m) (auto simp: get_put_apart)

lemma put_list_last:
  assumes "ws = us @ (p, v) # vs" and "p \<noteq> []" and "\<forall>w \<in> set vs. apart (fst w) p"
  shows "get (put_list m ws) p = Some v"
proof -
  have "put_list m ws = put_list (put (put_list m us) p v) vs"
    by (simp add: assms(1) put_list_def)
  then show ?thesis using put_list_frame [OF assms(3)] get_put [OF assms(2)] by simp
qed

lemma put_list_agree:
  assumes "(p, v) \<in> set ws" and "p \<noteq> []" and "\<forall>w \<in> set ws. fst w \<noteq> p \<longrightarrow> apart (fst w) p"
    and "\<forall>w \<in> set ws. fst w = p \<longrightarrow> snd w = v"
  shows "get (put_list m ws) p = Some v"
proof -
  from assms(1) have "\<exists>w \<in> set ws. fst w = p" by force
  from split_list_last_prop [OF this] obtain us w vs
    where ws: "ws = us @ w # vs" "fst w = p" "\<forall>x \<in> set vs. fst x \<noteq> p" by blast
  moreover have "\<forall>x \<in> set vs. apart (fst x) p" using ws assms(3) by auto
  moreover have "w = (p, v)" using ws assms(4) by (cases w) auto
  ultimately show ?thesis using put_list_last [of ws us p v vs] assms(2) by blast
qed

end

lemma look_Cons: "look v (k # ks) = (case v of HMap m \<Rightarrow> (case map_of m k of Some x \<Rightarrow> look x ks | None \<Rightarrow> None) | _ \<Rightarrow> None)"
  by (cases v) auto

lemma look_submap: "ks \<noteq> [] \<Longrightarrow>
    (case map_of m k of Some x \<Rightarrow> look x ks | None \<Rightarrow> None) = value_at (ensure_map m k) ks"
  by (cases ks) (auto simp: ensure_map_def submap_def look_Cons split: option.splits hval.splits)

lemma set_walk_step:
  "path \<noteq> [] \<Longrightarrow> \<exists>ow'. set_walk ow m (k # path) v =
     (mput k (HMap (fst (set_walk ow' (ensure_map m k) path v))) m, snd (set_walk ow' (ensure_map m k) path v))"
proof (cases path)
  case (Cons k2 path2)
  show ?thesis
  proof (cases "submap m k")
    case None
    then show ?thesis
      by (intro exI [of _ "case map_of m k of Some existing \<Rightarrow> if existing \<noteq> HNull then True else ow | None \<Rightarrow> ow"])
        (simp add: Cons ensure_map_def Let_def split_beta)
  next
    case (Some n)
    then show ?thesis
      by (intro exI [of _ ow]) (simp add: Cons ensure_map_def Let_def split_beta)
  qed
qed simp

lemma set_walk_ow: "path \<noteq> [] \<Longrightarrow> set_walk ow m path v = set_walk ow' m path v"
proof (induction path arbitrary: m ow ow')
  case (Cons k path)
  show ?case
  proof (cases path)
    case (Cons k2 path2)
    then obtain ow1 ow2 where
      "set_walk ow m (k # path) v = (mput k (HMap (fst (set_walk ow1 (ensure_map m k) path v))) m, snd (set_walk ow1 (ensure_map m k) path v))"
      "set_walk ow' m (k # path) v = (mput k (HMap (fst (set_walk ow2 (ensure_map m k) path v))) m, snd (set_walk ow2 (ensure_map m k) path v))"
      using set_walk_step [of path ow m k v] set_walk_step [of path ow' m k v] by blast
    with Cons.IH [of ow1 "ensure_map m k" ow2] Cons show ?thesis by simp
  qed simp
qed simp

lemma setNestedValue_Cons:
  assumes "path \<noteq> []"
  shows "setNestedValue m (k # path) v =
    (mput k (HMap (put_at (ensure_map m k) path v)) m, snd (setNestedValue (ensure_map m k) path v))"
  using set_walk_step [OF assms, of False m k v] set_walk_ow [OF assms]
  unfolding setNestedValue_def put_at_def by metis

lemma put_at_simps [simp]:
  "put_at m [] v = m"
  "put_at m [k] v = mput k v m"
  "path \<noteq> [] \<Longrightarrow> put_at m (k # path) v = mput k (HMap (put_at (ensure_map m k) path v)) m"
  by (simp_all add: setNestedValue_Cons put_at_def) (simp_all add: setNestedValue_def)

lemma value_at_put_at: "p \<noteq> [] \<Longrightarrow> value_at (put_at m p v) p = Some v"
proof (induction p arbitrary: m)
  case (Cons k p)
  then show ?case by (cases "p = []") simp_all
qed simp

lemma value_at_put_at_apart: "apart p q \<Longrightarrow> value_at (put_at m p v) q = value_at m q"
proof (induction p arbitrary: m q)
  case (Cons k p)
  then obtain k' q' where q: "q = k' # q'" by (cases q) auto
  show ?case
  proof (cases "k' = k")
    case True
    with Cons.prems q have a: "apart p q'" by auto
    then have ne: "p \<noteq> []" "q' \<noteq> []" by auto
    with True q show ?thesis using Cons.IH [OF a] by (simp add: look_submap)
  next
    case False
    with q show ?thesis by (cases "p = []") simp_all
  qed
qed simp

interpretation vals: path_store value_at put_at
  by unfold_locales (simp_all add: value_at_put_at value_at_put_at_apart)


lemma setNestedValue_result:
  assumes "p \<noteq> []"
  shows "snd (setNestedValue m p v) =
    (case value_at m p of Some x \<Rightarrow> (x, x \<noteq> HNull) | None \<Rightarrow> (HNull, False))"
  using assms
proof (induction p arbitrary: m)
  case (Cons k p)
  show ?case
  proof (cases "p = []")
    case True
    then show ?thesis by (simp add: setNestedValue_def split: option.splits)
  next
    case False
    with Cons.IH [of "ensure_map m k"] show ?thesis
      by (simp add: setNestedValue_Cons look_submap)
  qed
qed simp

lemma value_at_put_at_above:
  "strict_prefix q p \<Longrightarrow> q \<noteq> [] \<Longrightarrow> \<exists>n. value_at (put_at m p v) q = Some (HMap n)"
proof (induction q arbitrary: m p)
  case (Cons k q)
  then obtain p' where p: "p = k # p'" "strict_prefix q p'" by (cases p) auto
  then have "p' \<noteq> []" by auto
  with p show ?case using Cons.IH [OF p(2)] by (cases "q = []") simp_all
qed simp

section \<open>The injection as a sequence of writes\<close>

definition std_path :: "string \<Rightarrow> string list" where
  "std_path field =
     (if field = ''replicas'' then [exalsiusValuesKey, ''resources'', ''replicas'']
      else [exalsiusValuesKey, ''resources'', ''perReplica'', field])"

definition class_writes :: "ResourceInjectionMap option \<Rightarrow> (string \<times> hval) list \<Rightarrow> (string list \<times> hval) list" where
  "class_writes im entries =
     (case im of
        None \<Rightarrow> []
      | Some im' \<Rightarrow> concat (map (\<lambda>e. List.map_filter
          (\<lambda>p. case parsePath p of Inr segs \<Rightarrow> Some (segs, snd e) | Inl _ \<Rightarrow> None) (paths_for im' (fst e))) entries))"

lemma put_list_append: "vals.put_list m (xs @ ys) = vals.put_list (vals.put_list m xs) ys"
  by (simp add: vals.put_list_def)

lemma put_list_Cons [simp]: "vals.put_list m ((p, v) # ws) = vals.put_list (put_at m p v) ws"
  by (simp add: vals.put_list_def)

lemma put_list_Nil [simp]: "vals.put_list m [] = m"
  by (simp add: vals.put_list_def)

lemma fst_inject_path: "fst (inject_path e st p) =
    (case parsePath p of Inr segs \<Rightarrow> put_at (fst st) segs (snd e) | Inl _ \<Rightarrow> fst st)"
  by (simp add: inject_path_def put_at_def split: prod.splits sum.splits)

lemma fst_inject_paths: "fst (foldl (inject_path e) st ps) =
    vals.put_list (fst st) (List.map_filter
      (\<lambda>p. case parsePath p of Inr segs \<Rightarrow> Some (segs, snd e) | Inl _ \<Rightarrow> None) ps)"
  by (induction ps arbitrary: st) (simp_all add: fst_inject_path List.map_filter_simps split: sum.splits)

lemma fst_inject_entries: "fst (foldl (\<lambda>st e. foldl (inject_path e) st (paths_for im (fst e))) st entries) =
    vals.put_list (fst st) (class_writes (Some im) entries)"
  by (induction entries arbitrary: st) (simp_all add: fst_inject_paths class_writes_def put_list_append)

lemma injectResources_writes:
  "fst (injectResources Q (Some m) w im) =
     Some (vals.put_list (inject_standard m (field_entries Q w)) (class_writes im (field_entries Q w)))"
  by (cases im) (simp_all add: injectResources_def class_writes_def Let_def split_beta fst_inject_entries)

lemma injectResources_Some: "\<exists>m' ws. injectResources Q (Some m) w im = (Some m', ws)"
  using injectResources_writes [of Q m w im] by (metis prod.collapse)

lemma distinct_field_entries: "distinct (map fst (field_entries Q w))"
  by (simp add: field_entries_def Let_def split: option.splits)

lemma foldl_mput_lookup:
  assumes "distinct (map fst entries)" and "(k, v) \<in> set entries" and "P k"
  shows "map_of (foldl (\<lambda>m e. if P (fst e) then mput (fst e) (snd e) m else m) m0 entries) k = Some v"
  using assms
proof (induction entries arbitrary: m0 rule: rev_induct)
  case (snoc e es)
  then show ?case by (cases e) (force split: if_splits)
qed simp

lemma foldl_mput_other:
  assumes "\<forall>e \<in> set entries. P (fst e) \<longrightarrow> fst e \<noteq> k"
  shows "map_of (foldl (\<lambda>m e. if P (fst e) then mput (fst e) (snd e) m else m) m0 entries) k = map_of m0 k"
  using assms by (induction entries arbitrary: m0) auto

lemma inject_standard_put: "\<exists>r. inject_standard m es = put_at m [exalsiusValuesKey, ''resources''] (HMap r)"
  by (auto simp: inject_standard_def Let_def)

lemma inject_standard_frame:
  "apart [exalsiusValuesKey, ''resources''] q \<Longrightarrow> value_at (inject_standard m es) q = value_at m q"
  using inject_standard_put [of m es] vals.get_put_apart by metis

lemma inject_standard_at:
  assumes "distinct (map fst es)" and "(k, v) \<in> set es"
  shows "value_at (inject_standard m es) (std_path k) = Some v"
proof (cases "k = ''replicas''")
  case True
  with foldl_mput_lookup [OF assms, of "\<lambda>x. x = ''replicas''"] show ?thesis
    by (simp add: inject_standard_def std_path_def Let_def)
next
  case False
  have "foldl (\<lambda>m e. if fst e = ''replicas'' then m else mput (fst e) (snd e) m) m0 es =
      foldl (\<lambda>m e. if fst e \<noteq> ''replicas'' then mput (fst e) (snd e) m else m) m0 es" for m0
    by (rule foldl_cong) simp_all
  with False foldl_mput_lookup [OF assms, of "\<lambda>x. x \<noteq> ''replicas''"]
    foldl_mput_other [of es "\<lambda>x. x = ''replicas''" "''perReplica''"]
  show ?thesis by (simp add: inject_standard_def std_path_def Let_def)
qed

section \<open>Rendering paths\<close>

definition renderable :: "string \<Rightarrow> bool" where
  "renderable k \<longleftrightarrow> bare_seg k \<or> (k \<noteq> [] \<and> (CHR 0x22 \<notin> set k \<or> CHR 0x27 \<notin> set k))"

definition bracketed :: "string \<Rightarrow> string" where
  "bracketed k = (let q = (if CHR 0x22 \<notin> set k then CHR 0x22 else CHR 0x27) in CHR ''['' # q # k @ [q, CHR '']''])"

definition render_tail :: "string list \<Rightarrow> string" where
  "render_tail ks = concat (map (\<lambda>k. if bare_seg k then CHR ''.'' # k else bracketed k) ks)"

fun render_path :: "string list \<Rightarrow> string" where
  "render_path [] = []"
| "render_path (k # ks) = (if bare_seg k then k else bracketed k) @ render_tail ks"

lemma bracketed_text: "renderable k \<Longrightarrow> \<not> bare_seg k \<Longrightarrow> bracket_text k (bracketed k)"
  by (auto simp: bracketed_def bracket_text_def renderable_def Let_def)

lemma path_tail_render: "\<forall>k \<in> set ks. renderable k \<Longrightarrow> path_tail (render_tail ks) ks"
  by (induction ks) (auto simp: render_tail_def intro: path_syntax_path_tail.bare more bracketed_text)

lemma path_syntax_render: "ks \<noteq> [] \<Longrightarrow> \<forall>k \<in> set ks. renderable k \<Longrightarrow> path_syntax (render_path ks) ks"
  by (cases ks) (auto intro: path_syntax_path_tail.bare path_syntax_path_tail.bracket bracketed_text path_tail_render)

lemma path_syntax_renderable:
  "path_syntax s ks \<Longrightarrow> ks \<noteq> [] \<and> (\<forall>k \<in> set ks. renderable k)"
  "path_tail s ks \<Longrightarrow> \<forall>k \<in> set ks. renderable k"
  by (induction rule: path_syntax_path_tail.inducts) (auto simp: renderable_def bracket_text_def)

section \<open>Properties\<close>

text \<open>
  C36: the parser accepts exactly the grammar of its documentation.  \<open>parsePath\<close> returns segments
  for a string exactly when the string is a bare or bracket-quoted segment followed by any number
  of \<open>.segment\<close>, \<open>.["key"]\<close> or \<open>["key"]\<close> parts, and it returns the keys of those parts in order; on
  every other string (empty path, empty segment, dangling dot, unclosed or unquoted bracket, text
  after a bracket) it returns an error.
\<close>

theorem parsePath_grammar:
  "parsePath s = Inr segs \<longleftrightarrow> path_syntax s segs"
  by (rule parsePath_iff)

text \<open>
  Round trip.  The lists \<open>parsePath\<close> can return are the non-empty lists of renderable keys
  (non-empty, and without dot and opening bracket or without one of the two quotes), and each of
  them is the parse of its rendering.
\<close>

theorem parsePath_render_roundtrip:
  "(segs \<noteq> [] \<and> (\<forall>k \<in> set segs. renderable k) \<longleftrightarrow> parsePath (render_path segs) = Inr segs) \<and>
   ((\<exists>s. parsePath s = Inr segs) \<longleftrightarrow> parsePath (render_path segs) = Inr segs)"
  using path_syntax_render path_syntax_renderable(1) unfolding parsePath_iff by blast

theorem parsePath_render_roundtrip_witness:
  "render_path [''a'', ''nvidia.com/gpu'', ''b''] = ''a['' @ [CHR 0x22] @ ''nvidia.com/gpu'' @ [CHR 0x22] @ ''].b'' \<and>
   parsePath (render_path [''a'', ''nvidia.com/gpu'', ''b'']) = Inr [''a'', ''nvidia.com/gpu'', ''b'']"
proof
  show "render_path [''a'', ''nvidia.com/gpu'', ''b''] = ''a['' @ [CHR 0x22] @ ''nvidia.com/gpu'' @ [CHR 0x22] @ ''].b''"
    by (simp add: bare_seg_def render_tail_def bracketed_def Let_def)
  have "\<forall>k \<in> set [''a'', ''nvidia.com/gpu'', ''b'']. renderable k" by (simp add: renderable_def)
  then show "parsePath (render_path [''a'', ''nvidia.com/gpu'', ''b'']) = Inr [''a'', ''nvidia.com/gpu'', ''b'']"
    using parsePath_render_roundtrip [of "[''a'', ''nvidia.com/gpu'', ''b'']"] by blast
qed

text \<open>Nothing above the end of the path is a value other than a map or null.\<close>

definition maps_along :: "hmap \<Rightarrow> string list \<Rightarrow> bool" where
  "maps_along m p \<longleftrightarrow>
     (\<forall>q \<in> set (prefixes p). q \<noteq> [] \<and> q \<noteq> p \<longrightarrow>
        (case value_at m q of Some (HMap _) \<Rightarrow> True | Some HNull \<Rightarrow> True | None \<Rightarrow> True | _ \<Rightarrow> False))"

text \<open>
  C35: a nested write.  After \<open>setNestedValue\<close> the path holds the value and every path that is
  neither above nor below it is as before; the returned previous value is what the leaf held; and,
  as long as every value the walk meets on its way is a map (or null), the overwrite flag says
  whether the leaf held one.  A path that runs into another value is the next theorem.
\<close>

theorem setNestedValue_spec:
  assumes "p \<noteq> []" and "setNestedValue m p v = (m', prev, overwritten)"
  shows "value_at m' p = Some v \<and>
    (\<forall>q. apart p q \<longrightarrow> value_at m' q = value_at m q) \<and>
    prev = (case value_at m p of Some x \<Rightarrow> x | None \<Rightarrow> HNull) \<and>
    (maps_along m p \<longrightarrow> (overwritten \<longleftrightarrow> (\<exists>x. value_at m p = Some x \<and> x \<noteq> HNull)))"
proof -
  have m': "m' = put_at m p v" using assms(2) by (simp add: put_at_def)
  have "(prev, overwritten) = (case value_at m p of Some x \<Rightarrow> (x, x \<noteq> HNull) | None \<Rightarrow> (HNull, False))"
    using setNestedValue_result [OF assms(1), of m v] assms(2) by simp
  then show ?thesis
    unfolding m' using vals.get_put [OF assms(1)] vals.get_put_apart by (auto split: option.splits)
qed

theorem setNestedValue_spec_witness:
  "setNestedValue [(''a'', HMap [(''x'', HInt 1), (''y'', HInt 2)])] [''a'', ''x''] (HInt 5) =
     ([(''a'', HMap [(''x'', HInt 5), (''y'', HInt 2)])], HInt 1, True) \<and>
   value_at [(''a'', HMap [(''x'', HInt 5), (''y'', HInt 2)])] [''a'', ''x''] = Some (HInt 5) \<and>
   (\<exists>x. value_at [(''a'', HMap [(''x'', HInt 1), (''y'', HInt 2)])] [''a'', ''x''] = Some x \<and> x \<noteq> HNull)"
proof -
  have "setNestedValue [(''a'', HMap [(''x'', HInt 1), (''y'', HInt 2)])] [''a'', ''x''] (HInt 5) =
     ([(''a'', HMap [(''x'', HInt 5), (''y'', HInt 2)])], HInt 1, True)"
    by (simp add: setNestedValue_def submap_def)
  moreover have "maps_along [(''a'', HMap [(''x'', HInt 1), (''y'', HInt 2)])] [''a'', ''x'']" by code_simp
  ultimately show ?thesis using setNestedValue_spec by blast
qed

text \<open>
  Replaced intermediate values go unreported.  The comment promises that a non-map value on the
  way is "counted as overwritten so callers can warn"; the flag is False whenever that happens,
  although the value is gone.
\<close>

theorem setNestedValue_clobbers_silently:
  assumes "value_at m q = Some x" and "\<forall>n. x \<noteq> HMap n" and "strict_prefix q p" and "q \<noteq> []"
    and "setNestedValue m p v = (m', prev, overwritten)"
  shows "\<not> overwritten \<and> value_at m' q \<noteq> Some x"
proof -
  from assms(3) obtain k r where p: "p = q @ k # r" by (metis strict_prefixE')
  have "look u (q @ k # r) = None" if "look u q = Some x" for u
    using that
  proof (induction q arbitrary: u)
    case Nil
    then show ?case using assms(2) by (simp add: look_Cons split: hval.splits)
  next
    case (Cons k' q')
    then show ?case by (auto simp: look_Cons split: hval.splits option.splits)
  qed
  then have "value_at m p = None" using assms(1) by (simp add: p)
  moreover have "p \<noteq> []" using p by simp
  ultimately have "\<not> overwritten" using setNestedValue_result [of p m v] assms(5) by simp
  moreover have "value_at m' q \<noteq> Some x"
    using value_at_put_at_above [OF assms(3,4), of m v] assms(2,5) by (auto simp: put_at_def)
  ultimately show ?thesis by simp
qed

theorem setNestedValue_clobbers_silently_witness:
  "setNestedValue [(''a'', HStr ''precious'')] [''a'', ''x''] (HInt 5) =
     ([(''a'', HMap [(''x'', HInt 5)])], HNull, False) \<and>
   value_at [(''a'', HMap [(''x'', HInt 5)])] [''a''] \<noteq> Some (HStr ''precious'')"
proof -
  have "setNestedValue [(''a'', HStr ''precious'')] [''a'', ''x''] (HInt 5) =
     ([(''a'', HMap [(''x'', HInt 5)])], HNull, False)"
    by (simp add: setNestedValue_def submap_def)
  with setNestedValue_clobbers_silently [of "[(''a'', HStr ''precious'')]" "[''a'']" "HStr ''precious''" "[''a'', ''x'']", OF _ _ _ _ this]
  show ?thesis by simp
qed

text \<open>
  What charts find at the well-known path.  After \<open>injectResources\<close> every resolved field is at
  \<open>_exalsius.resources\<close> (replicas) or \<open>_exalsius.resources.perReplica\<close> (the rest) with the
  operator's value, whatever the user put there, unless a class path reaches into it; and a path
  outside \<open>_exalsius.resources\<close> and off every class path keeps the user's value.
\<close>

theorem injectResources_standard_path:
  assumes inj: "injectResources Q (Some m) w im = (Some m', warnings)"
  shows "(\<forall>field v. (field, v) \<in> set (field_entries Q w) \<longrightarrow>
           (\<forall>wr \<in> set (class_writes im (field_entries Q w)). apart (fst wr) (std_path field)) \<longrightarrow>
           value_at m' (std_path field) = Some v) \<and>
         (\<forall>q. apart [exalsiusValuesKey, ''resources''] q \<longrightarrow>
           (\<forall>wr \<in> set (class_writes im (field_entries Q w)). apart (fst wr) q) \<longrightarrow>
           value_at m' q = value_at m q)"
proof -
  have m': "m' = vals.put_list (inject_standard m (field_entries Q w)) (class_writes im (field_entries Q w))"
    using injectResources_writes [of Q m w im] inj by simp
  have frame: "value_at m' q = value_at (inject_standard m (field_entries Q w)) q"
    if "\<forall>wr \<in> set (class_writes im (field_entries Q w)). apart (fst wr) q" for q
    unfolding m' using that by (rule vals.put_list_frame)
  then show ?thesis
    by (simp add: inject_standard_at [OF distinct_field_entries] inject_standard_frame)
qed

theorem injectResources_standard_path_witness:
  "\<exists>m' ws. injectResources int_qops (Some [(''_exalsius'', HStr ''user''), (''keep'', HInt 1)])
       \<lparr>ws_Replicas = Some 2, ws_PerReplica = \<lparr>rr_CPU = None, rr_Memory = None, rr_Storage = None,
          rr_GPUCount = Some 1, rr_GPUVendor = None, rr_GPUType = None, rr_GPUNodeSelector = None\<rparr>\<rparr> None = (Some m', ws) \<and>
     value_at m' [''_exalsius'', ''resources'', ''perReplica'', ''gpuCount''] = Some (HInt 1) \<and>
     value_at m' [''keep''] = Some (HInt 1)"
proof -
  let ?w = "\<lparr>ws_Replicas = Some 2, ws_PerReplica = \<lparr>rr_CPU = None, rr_Memory = None, rr_Storage = None,
          rr_GPUCount = Some 1, rr_GPUVendor = None, rr_GPUType = None, rr_GPUNodeSelector = None\<rparr>\<rparr> :: int WorkspaceResourceSpec"
  let ?m = "[(''_exalsius'', HStr ''user''), (''keep'', HInt 1)]"
  obtain m' ws where inj: "injectResources int_qops (Some ?m) ?w None = (Some m', ws)"
    using injectResources_Some by blast
  have "(''gpuCount'', HInt 1) \<in> set (field_entries int_qops ?w)" by (simp add: field_entries_def)
  then have "value_at m' (std_path ''gpuCount'') = Some (HInt 1)"
    using injectResources_standard_path [OF inj] by (simp add: class_writes_def)
  moreover have "value_at m' [''keep''] = Some (HInt 1)"
    using injectResources_standard_path [OF inj, THEN conjunct2, rule_format, of "[''keep'']"]
    by (simp add: class_writes_def exalsiusValuesKey_def)
  ultimately show ?thesis using inj by (simp add: std_path_def exalsiusValuesKey_def)
qed

text \<open>
  Class paths receive the operator's value.  A path a class declares for a resolved field, when
  it parses, holds the field's value afterwards, provided every other declared path is the same
  with the same value, or neither above nor below it.
\<close>

theorem injectResources_class_path:
  assumes inj: "injectResources Q (Some m) w (Some im) = (Some m', warnings)"
    and e: "(field, v) \<in> set (field_entries Q w)" and p: "p \<in> set (paths_for im field)" "parsePath p = Inr segs"
    and other: "\<forall>wr \<in> set (class_writes (Some im) (field_entries Q w)).
                  (fst wr = segs \<longrightarrow> snd wr = v) \<and> (fst wr \<noteq> segs \<longrightarrow> apart (fst wr) segs)"
  shows "value_at m' segs = Some v"
proof -
  have m': "m' = vals.put_list (inject_standard m (field_entries Q w)) (class_writes (Some im) (field_entries Q w))"
    using injectResources_writes [of Q m w "Some im"] inj by simp
  have "segs \<noteq> []" using p(2) path_syntax_renderable(1) by (auto simp: parsePath_iff)
  moreover have "(segs, v) \<in> set (class_writes (Some im) (field_entries Q w))"
    using e p by (force simp: class_writes_def List.map_filter_def)
  ultimately show ?thesis
    unfolding m' using other by (intro vals.put_list_agree) auto
qed

theorem injectResources_class_path_witness:
  "\<exists>m' ws. injectResources int_qops (Some [(''cpu'', HMap [(''x'', HInt 7)])])
       \<lparr>ws_Replicas = Some 2, ws_PerReplica = \<lparr>rr_CPU = None, rr_Memory = None, rr_Storage = None,
          rr_GPUCount = None, rr_GPUVendor = None, rr_GPUType = None, rr_GPUNodeSelector = None\<rparr>\<rparr>
       (Some \<lparr>im_Replicas = [''cpu.x''], im_CPU = [], im_Memory = [], im_Storage = [], im_GPUCount = [],
          im_GPUVendor = [], im_GPUType = []\<rparr>) = (Some m', ws) \<and>
     value_at m' [''cpu'', ''x''] = Some (HInt 2)"
proof -
  let ?w = "\<lparr>ws_Replicas = Some 2, ws_PerReplica = \<lparr>rr_CPU = None, rr_Memory = None, rr_Storage = None,
          rr_GPUCount = None, rr_GPUVendor = None, rr_GPUType = None, rr_GPUNodeSelector = None\<rparr>\<rparr> :: int WorkspaceResourceSpec"
  let ?im = "\<lparr>im_Replicas = [''cpu.x''], im_CPU = [], im_Memory = [], im_Storage = [], im_GPUCount = [],
          im_GPUVendor = [], im_GPUType = []\<rparr>"
  let ?m = "[(''cpu'', HMap [(''x'', HInt 7)])]"
  have pp: "parsePath ''cpu.x'' = Inr [''cpu'', ''x'']" by code_simp
  have fe: "field_entries int_qops ?w = [(''replicas'', HInt 2)]" by (simp add: field_entries_def)
  have cw: "class_writes (Some ?im) [(''replicas'', HInt 2)] = [([''cpu'', ''x''], HInt 2)]"
    by (simp add: class_writes_def paths_for_def pp List.map_filter_simps)
  obtain m' ws where inj: "injectResources int_qops (Some ?m) ?w (Some ?im) = (Some m', ws)"
    using injectResources_Some by blast
  have "value_at m' [''cpu'', ''x''] = Some (HInt 2)"
    by (rule injectResources_class_path [OF inj _ _ pp, of "''replicas''"]) (simp_all add: fe cw paths_for_def)
  with inj show ?thesis by blast
qed

end
