(* ===== verification/Deployment_Reconciler.thy ===== *)
theory Deployment_Reconciler
  imports Deletion Feasibility Value_Injection
begin

text \<open>
  \<open>Reconcile\<close> of \<open>workspacedeployment_controller.go\<close>, the steps that only it uses
  (\<open>resolveWorkspaceClass\<close>, \<open>resolveClusterDeployment\<close>, \<open>refreshFeasibility\<close>, \<open>startDeployment\<close>,
  \<open>checkServiceReadiness\<close>) and the watch mapper \<open>workspaceDeploymentForServiceSet\<close>.
\<close>

section \<open>Operations\<close>

definition resolveWorkspaceClass :: "('w, 'q) reconciler \<Rightarrow> ('w, 'q, goerr + 'q WorkspaceClass option) rec" where
  "resolveWorkspaceClass r = do {
     wsd \<leftarrow> get_wsd;
     let ref = wss_WorkspaceClassRef (wsd_Spec wsd);
     cr \<leftarrow> get_wsc r ref;
     (case cr of
        Inl e \<Rightarrow>
          if IsNotFound e then do {
            markFailed r ReasonClassNotFound (''WorkspaceClass '' @ fmt_q ref @ '' not found'');
            w \<leftarrow> get_wsd;
            set_condition r ConditionClassResolved ConditionFalse ReasonClassNotFound (st_Message (wsd_Status w));
            ue \<leftarrow> update_status r;
            (case ue of
               Some u \<Rightarrow> State_Monad.return (Inl u)
             | None \<Rightarrow> State_Monad.return (Inr None))
          }
          else State_Monad.return (Inl e)
      | Inr wsc \<Rightarrow> State_Monad.return (Inr (Some wsc)))
   }"

definition resolveClusterDeployment ::
  "('w, 'q) reconciler \<Rightarrow> ('w, 'q, Result \<times> bool \<times> goerr option) rec" where
  "resolveClusterDeployment r = do {
     wsd \<leftarrow> get_wsd;
     let cdRef = wss_ClusterDeploymentRef (wsd_Spec wsd);
     cr \<leftarrow> get_cd r (cdr_Namespace cdRef) (cdr_Name cdRef);
     (case cr of
        Inl e \<Rightarrow>
          if IsNotFound e then do {
            let msg = ''ClusterDeployment '' @ fmt_q (cdr_Name cdRef) @ '' not found in namespace '' @ fmt_q (cdr_Namespace cdRef);
            modify_status (\<lambda>st. st\<lparr>st_Phase := PhasePending, st_Message := msg\<rparr>);
            set_condition r ConditionClusterDeploymentResolved ConditionFalse ReasonClusterDeploymentNotFound msg;
            ue \<leftarrow> update_status r;
            (case ue of
               Some u \<Rightarrow> State_Monad.return (no_requeue, False, Some u)
             | None \<Rightarrow> State_Monad.return (requeue, False, None))
          }
          else State_Monad.return (no_requeue, False, Some e)
      | Inr _ \<Rightarrow> do {
          set_condition r ConditionClusterDeploymentResolved ConditionTrue ReasonClusterDeploymentResolved
            (''ClusterDeployment '' @ fmt_q (cdr_Name cdRef) @ '' resolved'');
          State_Monad.return (no_requeue, True, None)
        })
   }"

text \<open>The two failure branches of \<open>refreshFeasibility\<close>: the verdict is Unknown, and a requeue.\<close>

definition feasibility_unknown :: "('w, 'q) reconciler \<Rightarrow> string \<Rightarrow> ('w, 'q, Result \<times> goerr option) rec" where
  "feasibility_unknown r msg = do {
     set_condition r ConditionFeasible ConditionUnknown ReasonFeasibilityUnknown msg;
     _ \<leftarrow> update_status r;
     State_Monad.return (requeue, None)
   }"

definition refreshFeasibility ::
  "('w, 'q) reconciler \<Rightarrow> 'q WorkspaceClass \<Rightarrow> ('w, 'q, Result \<times> goerr option) rec" where
  "refreshFeasibility r wsc = do {
     wsd \<leftarrow> get_wsd;
     let demanded = mergeResources (wsc_DefaultResources (wsc_Spec wsc)) (wss_Resources (wsd_Spec wsd));
     let cdRef = wss_ClusterDeploymentRef (wsd_Spec wsd);
     cr \<leftarrow> GetClusterClientForCD r (cdr_Namespace cdRef) (cdr_Name cdRef);
     (case cr of
        Inl e \<Rightarrow> feasibility_unknown r (''Could not reach regional cluster: '' @ emsg e)
      | Inr regional \<Rightarrow> do {
          fr \<leftarrow> computeFeasibility (r_Q r) (now r)
                  (invoke (EListNodes regional) (api_list_nodes (r_api r) regional))
                  (invoke (EListPods regional) (api_list_pods (r_api r) regional)) demanded;
          (case fr of
             Inl e \<Rightarrow> feasibility_unknown r (''Failed to compute feasibility: '' @ emsg e)
           | Inr feas \<Rightarrow> do {
               modify_status (\<lambda>st. st\<lparr>st_Feasibility := Some feas\<rparr>);
               (if fs_Fits feas then
                  set_condition r ConditionFeasible ConditionTrue ReasonResourcesAvailable (fs_Message feas)
                else
                  set_condition r ConditionFeasible ConditionFalse ReasonInsufficientResources (fs_Message feas));
               ue \<leftarrow> update_status r;
               State_Monad.return (no_requeue, ue)
             })
        })
   }"

definition setResourcesInjectedCondition ::
  "('w, 'q) reconciler \<Rightarrow> resourceInjectionWarning list \<Rightarrow> ('w, 'q, unit) rec" where
  "setResourcesInjectedCondition r warnings =
     (if warnings = [] then
        set_condition r ConditionResourcesInjected ConditionTrue ReasonResourcesInjected
          ''Resolved resources injected into Helm values''
      else
        set_condition r ConditionResourcesInjected ConditionFalse ReasonUserPathsOverwritten
          (str_join ''; '' (map warning_String warnings)))"

text \<open>\<open>startDeployment\<close>.  Its error returns share a shape: mark Failed, write the status, return the
  error; and so do its waits: Pending with a message, write the status, requeue.\<close>

definition fail_with :: "('w, 'q) reconciler \<Rightarrow> string \<Rightarrow> goerr \<Rightarrow> ('w, 'q, reconcile_result) rec" where
  "fail_with r msg e = do {
     markFailed r ReasonInternalError (msg @ emsg e);
     _ \<leftarrow> update_status r;
     State_Monad.return (Return no_requeue (Some e))
   }"

definition wait_with :: "('w, 'q) reconciler \<Rightarrow> string \<Rightarrow> ('w, 'q, reconcile_result) rec" where
  "wait_with r msg = do {
     modify_status (\<lambda>st. st\<lparr>st_Phase := PhasePending, st_Message := msg\<rparr>);
     _ \<leftarrow> update_status r;
     State_Monad.return (Return requeue None)
   }"

text \<open>From the serialized values on: namespace, ServiceSet, phase Deploying.\<close>

definition apply_workspace ::
  "('w, 'q) reconciler \<Rightarrow> 'q WorkspaceClass \<Rightarrow> kubeconfig \<Rightarrow> string \<Rightarrow> ('w, 'q, reconcile_result) rec" where
  "apply_workspace r wsc child mergedValues = do {
     wsd \<leftarrow> get_wsd;
     nr \<leftarrow> ensureWorkspaceNamespace r child
             (NamespaceLabels (r_sha r) (r_Mesh r) (cdr_Name (wss_ClusterDeploymentRef (wsd_Spec wsd))));
     (case nr of
        Inl e \<Rightarrow> State_Monad.return (Return no_requeue (Some e))
      | Inr nsReady \<Rightarrow>
          if \<not> nsReady then
            wait_with r (''Waiting for workspace namespace '' @ fmt_q (workspaceNamespaceName wsd) @ '' on the child cluster'')
          else do {
            se \<leftarrow> ensureWorkspaceServiceSet r wsc mergedValues;
            (case se of
               Some e \<Rightarrow> fail_with r ''Failed to create ServiceSet: '' e
             | None \<Rightarrow> do {
                 modify_wsd (\<lambda>w. w\<lparr>wsd_Status := (wsd_Status w)\<lparr>st_Phase := PhaseDeploying,
                   st_FailureContext := None, st_ObservedGeneration := wsd_Generation w\<rparr>\<rparr>);
                 ue \<leftarrow> update_status r;
                 (case ue of
                    Some e \<Rightarrow> State_Monad.return (Return no_requeue (Some e))
                  | None \<Rightarrow> State_Monad.return (Return requeue None))
               })
          })
   }"

definition startDeployment :: "('w, 'q) reconciler \<Rightarrow> 'q WorkspaceClass \<Rightarrow> ('w, 'q, reconcile_result) rec" where
  "startDeployment r wsc = do {
     wsd \<leftarrow> get_wsd;
     let merged = mergeResources (wsc_DefaultResources (wsc_Spec wsc)) (wss_Resources (wsd_Spec wsd));
     modify_status (\<lambda>st. st\<lparr>st_ResolvedResources := Some merged, st_ServiceEntryName := serviceEntryName wsd\<rparr>);
     cr \<leftarrow> getChildClusterClient r;
     (case cr of
        Inl e \<Rightarrow> wait_with r (''Waiting for child cluster access: '' @ emsg e)
      | Inr child \<Rightarrow> do {
          (gpuResourceName, resolved) \<leftarrow> resolveGPUResource r child merged;
          modify_status (\<lambda>st. st\<lparr>st_ResolvedResources := Some resolved\<rparr>);
          (case mergeValuesMap (r_decode r) (wsc_DefaultValues (wsc_Spec wsc)) (wss_Values (wsd_Spec wsd)) of
             Panic m \<Rightarrow> State_Monad.return (Panicked m)
           | Err e \<Rightarrow> fail_with r ''Failed to merge values: '' e
           | Ok mergedMap \<Rightarrow> do {
               let (injected, warnings) = injectResources (r_Q r) mergedMap resolved (wsc_ResourceInjection (wsc_Spec wsc));
               setResourcesInjectedCondition r warnings;
               let pinned = (if gpuSelectorOf resolved \<noteq> [] then injectNodeSelector injected (gpuSelectorOf resolved)
                             else injected);
               let final = injectGPUResourceName pinned gpuResourceName;
               (case serializeValues (r_marshal r) final of
                  Inl e \<Rightarrow> fail_with r ''Failed to serialize values: '' e
                | Inr mergedValues \<Rightarrow> apply_workspace r wsc child mergedValues)
             })
        })
   }"

text \<open>\<open>checkServiceReadiness\<close>: the branch of a Deployed and of a Failed entry, and the loop over the
  entries of the ServiceSet's status.\<close>

definition service_deployed :: "('w, 'q) reconciler \<Rightarrow> ('w, 'q, reconcile_result) rec" where
  "service_deployed r = do {
     modify_status (\<lambda>st. st\<lparr>st_Phase := PhaseRunning, st_FailureContext := None\<rparr>);
     set_condition r ConditionHelmReleaseReady ConditionTrue ReasonHelmReleaseDeployed ''Helm release deployed successfully'';
     set_condition r ConditionReady ConditionTrue ReasonDeploymentReady ''Workspace is running'';
     ue \<leftarrow> update_status r;
     (case ue of
        Some e \<Rightarrow> State_Monad.return (Return no_requeue (Some e))
      | None \<Rightarrow> State_Monad.return (Return \<lparr>RequeueAfter = 60000000000\<rparr> None))
   }"

definition service_failed :: "('w, 'q) reconciler \<Rightarrow> ServiceState \<Rightarrow> ('w, 'q, reconcile_result) rec" where
  "service_failed r svc = do {
     markFailed r ReasonHelmReleaseFailed (''Helm release failed: '' @ svs_FailureMessage svc);
     set_condition r ConditionHelmReleaseReady ConditionFalse ReasonHelmReleaseFailed (svs_FailureMessage svc);
     ue \<leftarrow> update_status r;
     State_Monad.return (Return no_requeue ue)
   }"

fun readiness_loop ::
  "('w, 'q) reconciler \<Rightarrow> string \<Rightarrow> ServiceState list \<Rightarrow> ('w, 'q, reconcile_result) rec" where
  "readiness_loop r entryName [] = State_Monad.return (Return requeue None)"
| "readiness_loop r entryName (svc # svcs) =
     (if svs_Name svc \<noteq> entryName then readiness_loop r entryName svcs
      else do {
        wsd \<leftarrow> get_wsd;
        wr \<leftarrow> invoke EGetWsd (api_get_wsd (r_api r) (wsd_Namespace wsd) (wsd_Name wsd));
        (case wr of
           Inl e \<Rightarrow> State_Monad.return (Return no_requeue (Some (wrapf ''failed to re-fetch WorkspaceDeployment'' e)))
         | Inr fresh \<Rightarrow> do {
             put_wsd fresh;
             if svs_State svc = ServiceStateDeployed then service_deployed r
             else if svs_State svc = ServiceStateFailed then service_failed r svc
             else readiness_loop r entryName svcs
           })
      })"

definition checkServiceReadiness :: "('w, 'q) reconciler \<Rightarrow> ('w, 'q, reconcile_result) rec" where
  "checkServiceReadiness r = do {
     wsd \<leftarrow> get_wsd;
     let cdRef = wss_ClusterDeploymentRef (wsd_Spec wsd);
     let ssName = serviceSetName (r_sha r) wsd;
     let entryName = serviceEntryName wsd;
     sr \<leftarrow> get_ss r (cdr_Namespace cdRef) ssName;
     (case sr of
        Inl e \<Rightarrow>
          if IsNotFound e then State_Monad.return (Return requeue None)
          else State_Monad.return (Return no_requeue (Some (wrapf ''failed to get ServiceSet'' e)))
      | Inr ss \<Rightarrow> readiness_loop r entryName (ss_StatusServices ss))
   }"

text \<open>\<open>Reconcile\<close>, in three parts: once the gates are passed; once the class is resolved; and from the
  fetched object.\<close>

definition reconcile_phase :: "('w, 'q) reconciler \<Rightarrow> 'q WorkspaceClass \<Rightarrow> ('w, 'q, reconcile_result) rec" where
  "reconcile_phase r wsc = do {
     wsd \<leftarrow> get_wsd;
     if st_Phase (wsd_Status wsd) = PhaseDeploying then checkServiceReadiness r
     else if st_Phase (wsd_Status wsd) = PhaseRunning then do {
       (res, retry, err) \<leftarrow> reconcileRoutes r wsc;
       if err \<noteq> None \<or> retry then State_Monad.return (Return res err)
       else State_Monad.return (Return \<lparr>RequeueAfter = 60000000000\<rparr> None)
     }
     else if st_Phase (wsd_Status wsd) = PhaseFailed then State_Monad.return (Return no_requeue None)
     else startDeployment r wsc
   }"

definition prerequisites_gate :: "('w, 'q) reconciler \<Rightarrow> 'q WorkspaceClass \<Rightarrow> ('w, 'q, reconcile_result) rec" where
  "prerequisites_gate r wsc =
     (if wsc_Prerequisites (wsc_Spec wsc) \<noteq> [] then do {
        (res, dn, err) \<leftarrow> reconcilePrerequisites r wsc;
        if err \<noteq> None \<or> dn then State_Monad.return (Return res err) else reconcile_phase r wsc
      }
      else reconcile_phase r wsc)"

definition capacity_gate :: "('w, 'q) reconciler \<Rightarrow> 'q WorkspaceClass \<Rightarrow> ('w, 'q, reconcile_result) rec" where
  "capacity_gate r wsc = do {
     wsd \<leftarrow> get_wsd;
     if st_Phase (wsd_Status wsd) \<in> {PhaseDeploying, PhaseRunning, PhaseFailed} then prerequisites_gate r wsc
     else do {
       (res, ok) \<leftarrow> gateGPUOffering r wsc;
       if \<not> ok then State_Monad.return (Return res None) else prerequisites_gate r wsc
     }
   }"

definition feasibility_refresh :: "('w, 'q) reconciler \<Rightarrow> 'q WorkspaceClass \<Rightarrow> ('w, 'q, reconcile_result) rec" where
  "feasibility_refresh r wsc = do {
     wsd \<leftarrow> get_wsd;
     if st_Phase (wsd_Status wsd) \<in> {PhaseRunning, PhaseFailed, PhaseWaiting} then capacity_gate r wsc
     else do {
       (res, err) \<leftarrow> refreshFeasibility r wsc;
       if err \<noteq> None then State_Monad.return (Return res err) else capacity_gate r wsc
     }
   }"

definition reconcile_resolved :: "('w, 'q) reconciler \<Rightarrow> 'q WorkspaceClass \<Rightarrow> ('w, 'q, reconcile_result) rec" where
  "reconcile_resolved r wsc = do {
     wsd \<leftarrow> get_wsd;
     set_condition r ConditionClassResolved ConditionTrue ReasonClassResolved
       (''WorkspaceClass '' @ fmt_q (wss_WorkspaceClassRef (wsd_Spec wsd)) @ '' resolved'');
     if st_Phase (wsd_Status wsd) \<noteq> PhaseRunning then do {
       (res, ok, err) \<leftarrow> resolveClusterDeployment r;
       if err \<noteq> None \<or> \<not> ok then State_Monad.return (Return res err) else feasibility_refresh r wsc
     }
     else feasibility_refresh r wsc
   }"

definition ensure_finalizer :: "('w, 'q) reconciler \<Rightarrow> ('w, 'q, goerr option) rec" where
  "ensure_finalizer r = do {
     wsd \<leftarrow> get_wsd;
     if \<not> api_contains_finalizer (r_api r) wsd WorkspaceDeploymentFinalizer then do {
       modify_wsd (\<lambda>w. api_add_finalizer (r_api r) w WorkspaceDeploymentFinalizer);
       update_wsd r
     }
     else State_Monad.return None
   }"

definition reconcile_live :: "('w, 'q) reconciler \<Rightarrow> ('w, 'q, reconcile_result) rec" where
  "reconcile_live r = do {
     fe \<leftarrow> ensure_finalizer r;
     (case fe of
        Some e \<Rightarrow> State_Monad.return (Return no_requeue (Some e))
      | None \<Rightarrow> do {
          cr \<leftarrow> resolveWorkspaceClass r;
          (case cr of
             Inl e \<Rightarrow> State_Monad.return (Return no_requeue (Some e))
           | Inr None \<Rightarrow> State_Monad.return (Return no_requeue None)
           | Inr (Some wsc) \<Rightarrow> reconcile_resolved r wsc)
        })
   }"

definition reconcile_fetched :: "('w, 'q) reconciler \<Rightarrow> ('w, 'q, reconcile_result) rec" where
  "reconcile_fetched r = do {
     wsd \<leftarrow> get_wsd;
     if wss_Suspend (wsd_Spec wsd) then State_Monad.return (Return no_requeue None)
     else if wsd_DeletionTimestamp wsd \<noteq> 0 then reconcileDelete r
     else reconcile_live r
   }"

definition Reconcile :: "('w, 'q) reconciler \<Rightarrow> string \<Rightarrow> string \<Rightarrow> ('w, 'q, reconcile_result) rec" where
  "Reconcile r namespace name = do {
     wr \<leftarrow> invoke EGetWsd (api_get_wsd (r_api r) namespace name);
     (case wr of
        Inl e \<Rightarrow>
          if IsNotFound e then State_Monad.return (Return no_requeue None)
          else State_Monad.return (Return no_requeue (Some e))
      | Inr wsd \<Rightarrow> do {
          put_wsd wsd;
          reconcile_fetched r
        })
   }"

text \<open>
  \<open>workspaceDeploymentForServiceSet\<close>: the requests (namespace, name) a ServiceSet event triggers.
  The dedupe by \<open>seen\<close> is by name, within the one namespace listed.
\<close>

abbreviation "labelPrerequisiteCluster \<equiv> ''workspaces.exalsius.ai/cluster-deployment''"
abbreviation "labelPrerequisiteTemplate \<equiv> ''workspaces.exalsius.ai/template''"

definition declares_template :: "('w, 'q) reconciler \<Rightarrow> 'q WorkspaceClass \<Rightarrow> string \<Rightarrow> bool" where
  "declares_template r wsc templateName \<longleftrightarrow>
     list_ex (\<lambda>p. sanitizeLabelValue (r_sha r) (str_Name (pq_ServiceTemplate p)) = templateName) (wsc_Prerequisites (wsc_Spec wsc))"

fun prerequisite_requests ::
  "('w, 'q) reconciler \<Rightarrow> string \<Rightarrow> string \<Rightarrow> 'q WorkspaceDeployment list \<Rightarrow> string list \<Rightarrow> (string \<times> string) list
   \<Rightarrow> ('w, 'q, (string \<times> string) list) rec" where
  "prerequisite_requests r cdName templateName [] seen requests = State_Monad.return requests"
| "prerequisite_requests r cdName templateName (wsd # wsds) seen requests =
     (if cdr_Name (wss_ClusterDeploymentRef (wsd_Spec wsd)) \<noteq> cdName then
        prerequisite_requests r cdName templateName wsds seen requests
      else do {
        cr \<leftarrow> get_wsc r (wss_WorkspaceClassRef (wsd_Spec wsd));
        (case cr of
           Inl _ \<Rightarrow> prerequisite_requests r cdName templateName wsds seen requests
         | Inr wsc \<Rightarrow>
             if declares_template r wsc templateName \<and> wsd_Name wsd \<notin> set seen then
               prerequisite_requests r cdName templateName wsds (wsd_Name wsd # seen)
                 (requests @ [(wsd_Namespace wsd, wsd_Name wsd)])
             else prerequisite_requests r cdName templateName wsds seen requests)
      })"

definition workspaceDeploymentForServiceSet ::
  "('w, 'q) reconciler \<Rightarrow> ServiceSet \<Rightarrow> ('w, 'q, (string \<times> string) list) rec" where
  "workspaceDeploymentForServiceSet r ss = do {
     lr \<leftarrow> invoke EListWsds (api_list_wsds (r_api r) (Some (ss_Namespace ss)));
     (case lr of
        Inl _ \<Rightarrow> State_Monad.return []
      | Inr items \<Rightarrow>
          if isPrerequisiteServiceSet ss then do {
            let cdName = lget (ss_Labels ss) labelPrerequisiteCluster;
            let templateName = lget (ss_Labels ss) labelPrerequisiteTemplate;
            if cdName = [] \<or> templateName = [] then State_Monad.return []
            else prerequisite_requests r cdName templateName items [] []
          }
          else (case find (\<lambda>w. serviceSetName (r_sha r) w = ss_Name ss) items of
                  Some w \<Rightarrow> State_Monad.return [(wsd_Namespace w, wsd_Name w)]
                | None \<Rightarrow> State_Monad.return []))
   }"

end
