(* ===== verification/Reconcile_Events.thy ===== *)
theory Reconcile_Events
  imports Deployment_Reconciler
begin

text \<open>
  The phase machine of a workspace and what one reconcile may emit: every step of \<open>Reconcile\<close> is
  proved to respect \<open>live_event\<close>, which says for each kind of write what the run must have seen
  before it.
\<close>

section \<open>The phase machine\<close>

text \<open>The phase of a workspace as read by a reconcile, and a phase it may then write.\<close>

inductive phase_step :: "WorkspaceDeploymentPhase \<Rightarrow> WorkspaceDeploymentPhase \<Rightarrow> bool" where
  stay: "phase_step p p"
| fail: "phase_step p PhaseFailed"
| unresolved: "p \<noteq> PhaseRunning \<Longrightarrow> phase_step p PhasePending"
| wait: "p \<notin> {PhaseDeploying, PhaseRunning, PhaseFailed} \<Longrightarrow> phase_step p PhaseWaiting"
| install: "phase_step p PhaseInstallingPrerequisites"
| deploy: "p \<notin> {PhaseDeploying, PhaseRunning, PhaseFailed} \<Longrightarrow> phase_step p PhaseDeploying"
| run: "phase_step PhaseDeploying PhaseRunning"
| delete: "phase_step p PhaseDeleting"

code_pred phase_step .

inductive_simps phase_step_to [simp]:
  "phase_step p PhaseFailed" "phase_step p PhasePending" "phase_step p PhaseWaiting"
  "phase_step p PhaseInstallingPrerequisites" "phase_step p PhaseDeploying" "phase_step p PhaseRunning"
  "phase_step p PhaseDeleting" "phase_step p PhaseNone" "phase_step p p"

lemma running_via_deploying:
  "phase_step\<^sup>*\<^sup>* p q \<Longrightarrow> q = PhaseRunning \<Longrightarrow> p = PhaseRunning \<or> phase_step\<^sup>*\<^sup>* p PhaseDeploying"
  by (induction rule: rtranclp_induct) auto

section \<open>What a reconcile of a live workspace may emit\<close>

text \<open>The object in memory: status and finalizers aside, the one that was fetched.\<close>

definition same_key :: "'q WorkspaceDeployment \<Rightarrow> 'q WorkspaceDeployment \<Rightarrow> bool" where
  "same_key w w' \<longleftrightarrow> (\<exists>st fs. w' = w\<lparr>wsd_Status := st, wsd_Finalizers := fs\<rparr>)"

lemma same_key_cong:
  assumes "same_key w w'"
  shows "wsd_Name w' = wsd_Name w" "wsd_Spec w' = wsd_Spec w" "wsd_UID w' = wsd_UID w"
    "wsd_CreationTimestamp w' = wsd_CreationTimestamp w"
    "workspaceNamespaceName w' = workspaceNamespaceName w" "serviceSetName sha w' = serviceSetName sha w"
    "serviceEntryName w' = serviceEntryName w" "cd_namespace w' = cd_namespace w"
    "workspace_service w' wsc vals = workspace_service w wsc vals" "resolved_of wsc w' = resolved_of wsc w"
    "gate_open Q rs w' h = gate_open Q rs w h"
proof -
  obtain st fs where "w' = w\<lparr>wsd_Status := st, wsd_Finalizers := fs\<rparr>"
    using assms unfolding same_key_def by blast
  then show "wsd_Name w' = wsd_Name w" "wsd_Spec w' = wsd_Spec w" "wsd_UID w' = wsd_UID w"
    "wsd_CreationTimestamp w' = wsd_CreationTimestamp w"
    "workspaceNamespaceName w' = workspaceNamespaceName w" "serviceSetName sha w' = serviceSetName sha w"
    "serviceEntryName w' = serviceEntryName w" "cd_namespace w' = cd_namespace w"
    "workspace_service w' wsc vals = workspace_service w wsc vals" "resolved_of wsc w' = resolved_of wsc w"
    "gate_open Q rs w' h = gate_open Q rs w h"
    by (simp_all add: workspaceNamespaceName_def WorkspaceNamespaceName_def serviceSetName_def
      serviceEntryName_def HelmReleaseName_def cd_namespace_def workspace_service_def resolved_of_def
        gate_open_def older_waiting_def isOlderWorkspace_def)
qed

lemma same_key_refl [simp, intro]: "same_key w w"
  unfolding same_key_def by (intro exI [of _ "wsd_Status w"] exI [of _ "wsd_Finalizers w"]) simp

lemma same_key_object: "same_object w w' \<Longrightarrow> same_key w w'"
  unfolding same_object_def same_key_def by (metis WorkspaceDeployment.surjective WorkspaceDeployment.update_convs(7,9))

lemma same_key_trans [trans]: "same_key w w' \<Longrightarrow> same_key w' w'' \<Longrightarrow> same_key w w''"
  unfolding same_key_def by (elim exE) (simp, blast)

lemma same_key_status [simp]: "same_key w w' \<Longrightarrow> same_key w (w'\<lparr>wsd_Status := st\<rparr>)"
  using same_key_trans same_key_object by blast

definition class_fetched :: "'q WorkspaceDeployment \<Rightarrow> 'q WorkspaceClass \<Rightarrow> 'q ev list \<Rightarrow> bool" where
  "class_fetched w wsc h \<longleftrightarrow> EGetWsc (wss_WorkspaceClassRef (wsd_Spec w)) (Inr wsc) \<in> set h"

text \<open>The gates in front of a deployment: the class was read, the GPU gate was open, and every
  prerequisite of the class is recorded as satisfied.\<close>

definition cleared :: "('w, 'q) reconciler \<Rightarrow> 'q WorkspaceClass \<Rightarrow> 'q WorkspaceDeployment \<Rightarrow> 'q ev list \<Rightarrow> bool" where
  "cleared r wsc w h \<longleftrightarrow> class_fetched w wsc h \<and> gate_open (r_Q r) (resolved_of wsc w) w h \<and>
     (wsc_Prerequisites (wsc_Spec wsc) \<noteq> [] \<longrightarrow> all_satisfied wsc (st_Prerequisites (wsd_Status w)))"

definition mesh_ready :: "('w, 'q) reconciler \<Rightarrow> 'q WorkspaceDeployment \<Rightarrow> 'q ev list \<Rightarrow> bool" where
  "mesh_ready r w h \<longleftrightarrow> (\<exists>child. settled child (workspaceNamespaceName w)
     (workspaceNamespaceLabels (wsd_Name w)
        (NamespaceLabels (r_sha r) (r_Mesh r) (cdr_Name (wss_ClusterDeploymentRef (wsd_Spec w))))) h)"

definition backed :: "('w, 'q) reconciler \<Rightarrow> 'q WorkspaceDeployment \<Rightarrow> 'q ev list \<Rightarrow> bool" where
  "backed r w h \<longleftrightarrow> (\<exists>wsc vals. cleared r wsc w h \<and> applied (workspace_service w wsc vals) h \<and> mesh_ready r w h)"

definition reported :: "('w, 'q) reconciler \<Rightarrow> 'q WorkspaceDeployment \<Rightarrow> 'q ev list \<Rightarrow> bool" where
  "reported r w h \<longleftrightarrow> (\<exists>ss svc. EGetSS (cd_namespace w) (serviceSetName (r_sha r) w) (Inr ss) \<in> set h \<and>
     svc \<in> set (ss_StatusServices ss) \<and> svs_Name svc = serviceEntryName w \<and> svs_State svc = ServiceStateDeployed)"

definition live_status ::
  "('w, 'q) reconciler \<Rightarrow> 'q WorkspaceDeployment \<Rightarrow> 'q ev list \<Rightarrow> 'q WorkspaceDeployment \<Rightarrow> bool" where
  "live_status r w0 h w \<longleftrightarrow>
     (let p0 = st_Phase (wsd_Status w0); p = st_Phase (wsd_Status w) in
      phase_step p0 p \<and> (p = PhaseDeleting \<longrightarrow> p0 = PhaseDeleting) \<and>
      (p = PhaseDeploying \<and> p0 \<noteq> PhaseDeploying \<longrightarrow> same_key w0 w \<and> backed r w h) \<and>
      (p = PhaseRunning \<and> p0 \<noteq> PhaseRunning \<longrightarrow> reported r w0 h))"

definition live_event :: "('w, 'q) reconciler \<Rightarrow> 'q WorkspaceDeployment \<Rightarrow> 'q ev list \<Rightarrow> 'q ev \<Rightarrow> bool" where
  "live_event r w0 h e \<longleftrightarrow>
     (case e of
        EStatus w x \<Rightarrow> live_status r w0 h w
      | EUpdateWsd w x \<Rightarrow> WorkspaceDeploymentFinalizer \<in> set (wsd_Finalizers w)
      | ECreateSS ss x \<Rightarrow> isPrerequisiteServiceSet ss \<and> seen_gone (ss_Namespace ss) (ss_Name ss) h \<or> mesh_ready r w0 h
      | EUpdateSS ss x \<Rightarrow> mesh_ready r w0 h
      | ECreateNs child ns x \<Rightarrow> True
      | EUpdateNs child ns x \<Rightarrow> True
      | EEnsureRoutes x \<Rightarrow> st_Phase (wsd_Status w0) = PhaseRunning
      | _ \<Rightarrow> is_read e)"

lemma live_event_read [simp]: "is_read e \<Longrightarrow> live_event r w h e"
  by (cases e) (simp_all add: live_event_def)

lemma live_event_simps [simp]:
  "live_event r w0 h (EStatus w x) \<longleftrightarrow> live_status r w0 h w"
  "live_event r w0 h (EUpdateWsd w x) \<longleftrightarrow> WorkspaceDeploymentFinalizer \<in> set (wsd_Finalizers w)"
  "live_event r w0 h (EEnsureRoutes y) \<longleftrightarrow> st_Phase (wsd_Status w0) = PhaseRunning"
  by (simp_all add: live_event_def)

lemma live_ns_write: "ns_write child e \<Longrightarrow> live_event r w0 h e"
  by (auto simp: ns_write_def live_event_def)

lemma live_ss_write: "ss_write svc e \<Longrightarrow> mesh_ready r w0 h \<Longrightarrow> live_event r w0 h e"
  by (auto simp: ss_write_def live_event_def)

lemma live_create_missing: "create_missing h e \<Longrightarrow> live_event r w0 h e"
  by (cases e) (auto simp: create_missing_def live_event_def)

lemma live_status_easy:
  "st_Phase (wsd_Status w) = PhaseFailed \<Longrightarrow> live_status r w0 h w"
  "st_Phase (wsd_Status w) = PhaseInstallingPrerequisites \<Longrightarrow> live_status r w0 h w"
  "st_Phase (wsd_Status w) = PhasePending \<Longrightarrow> st_Phase (wsd_Status w0) \<noteq> PhaseRunning \<Longrightarrow> live_status r w0 h w"
  "st_Phase (wsd_Status w) = PhaseWaiting \<Longrightarrow>
     st_Phase (wsd_Status w0) \<notin> {PhaseDeploying, PhaseRunning, PhaseFailed} \<Longrightarrow> live_status r w0 h w"
  "st_Phase (wsd_Status w) = st_Phase (wsd_Status w0) \<Longrightarrow> live_status r w0 h w"
  by (auto simp: live_status_def Let_def)

lemma mesh_ready_mono: "mesh_ready r w h \<Longrightarrow> mesh_ready r w (h @ es)"
  unfolding mesh_ready_def settled_def set_append by blast

lemma cleared_mono: "cleared r wsc w h \<Longrightarrow> cleared r wsc w (h @ es)"
  unfolding cleared_def class_fetched_def gate_open_def set_append by blast

lemma mesh_ready_key: "same_key w w' \<Longrightarrow> mesh_ready r w' h = mesh_ready r w h"
  by (simp add: mesh_ready_def same_key_cong)

lemma cleared_key:
  "same_key w w' \<Longrightarrow> st_Prerequisites (wsd_Status w') = st_Prerequisites (wsd_Status w) \<Longrightarrow>
   cleared r wsc w' h = cleared r wsc w h"
  by (simp add: cleared_def class_fetched_def same_key_cong)

section \<open>The steps of a reconcile\<close>

lemma safe_then:
  "safe P m s R \<Longrightarrow> (\<And>a s'. R a s' \<Longrightarrow> safe P (f a) s' Q) \<Longrightarrow> safe P (State_Monad.bind m f) s Q"
  by (rule safe_bind) (rule safe_weaken)

lemma safe_fail_with: "safe (live_event r w0) (fail_with r msg e) s (\<lambda>_ _. True)"
  unfolding fail_with_def
  by (intro safe_rules conjI safe_markFailed) (auto simp: failed_from_phase intro: live_status_easy)

lemma safe_wait_with:
  "st_Phase (wsd_Status w0) \<noteq> PhaseRunning \<Longrightarrow> safe (live_event r w0) (wait_with r msg) s (\<lambda>_ _. True)"
  unfolding wait_with_def by (intro safe_rules conjI) (auto intro: live_status_easy)

lemma map_ok_NamespaceLabels: "map_ok (NamespaceLabels sha c cd)"
  by (cases "mesh_Mode c")
    (simp_all add: NamespaceLabels_def MeshNamespaceLabels_def Let_def map_ok_def Collect_disj_eq)

lemma backedI:
  "cleared r wsc w h \<Longrightarrow> applied (workspace_service w wsc vals) h \<Longrightarrow> mesh_ready r w h \<Longrightarrow> backed r w h"
  unfolding backed_def by blast

lemma backed_key:
  "same_key w w' \<Longrightarrow> st_Prerequisites (wsd_Status w') = st_Prerequisites (wsd_Status w) \<Longrightarrow> backed r w' h = backed r w h"
  unfolding backed_def by (simp add: mesh_ready_key [of w w'] cleared_key [of w w'] same_key_cong(9) [of w w'])

lemma safe_apply_workspace:
  assumes o: "owner_ok r" and k: "same_key w0 (rs_wsd s)" and c: "cleared r wsc (rs_wsd s) (rs_trace s)"
    and p: "st_Phase (wsd_Status w0) \<notin> {PhaseDeploying, PhaseRunning, PhaseFailed}"
  shows "safe (live_event r w0) (apply_workspace r wsc child vals) s (\<lambda>_ _. True)"
proof -
  let ?w = "rs_wsd s"
  let ?labels = "NamespaceLabels (r_sha r) (r_Mesh r) (cdr_Name (wss_ClusterDeploymentRef (wsd_Spec ?w)))"
  have ns: "safe (live_event r w0) (ensureWorkspaceNamespace r child ?labels) s
      (\<lambda>a s'. rs_wsd s' = ?w \<and> cleared r wsc ?w (rs_trace s') \<and> (a = Inr True \<longrightarrow> mesh_ready r ?w (rs_trace s')))"
    by (rule safe_lift [OF safe_ensureWorkspaceNamespace [OF map_ok_NamespaceLabels]])
      (use c in \<open>auto intro: live_ns_write cleared_mono simp: mesh_ready_def\<close>)
  have mr: "mesh_ready r ?w h \<Longrightarrow> mesh_ready r w0 h" for h by (simp add: mesh_ready_key [OF k])
  have ss: "safe (live_event r w0) (ensureWorkspaceServiceSet r wsc vals) s1
      (\<lambda>a s'. rs_wsd s' = ?w \<and> (a = None \<longrightarrow> backed r ?w (rs_trace s')))"
    if "rs_wsd s1 = ?w" "cleared r wsc ?w (rs_trace s1)" "mesh_ready r ?w (rs_trace s1)" for s1
  proof (rule safe_lift_hist [OF safe_ensureWorkspaceServiceSet [OF o]], goal_cases)
    case (1 es e)
    then show ?case using that by (auto intro: live_ss_write mesh_ready_mono mr)
  next
    case (2 a s')
    then show ?case
      using that by (auto intro!: backedI [where wsc = wsc and vals = vals] intro: cleared_mono mesh_ready_mono)
  qed
  have deploying: "live_status r w0 h (?w\<lparr>wsd_Status := (wsd_Status ?w)\<lparr>st_Phase := PhaseDeploying,
      st_FailureContext := None, st_ObservedGeneration := g\<rparr>\<rparr>)" if "backed r ?w h" for h g
    using p k that backed_key [of ?w "?w\<lparr>wsd_Status := (wsd_Status ?w)\<lparr>st_Phase := PhaseDeploying,
      st_FailureContext := None, st_ObservedGeneration := g\<rparr>\<rparr>" r h]
    by (simp add: live_status_def Let_def)
  show ?thesis
    unfolding apply_workspace_def
    by (intro safe_bind [of _ get_wsd] safe_get_wsd safe_then [OF ns])
      (use p in \<open>auto split: sum.splits option.splits intro!: safe_rules safe_fail_with safe_wait_with
         safe_weaken [OF ss] deploying\<close>)
qed

lemma safe_case_outcome:
  assumes "\<And>a. v = Ok a \<Longrightarrow> safe P (f a) s Q" "\<And>e. v = Err e \<Longrightarrow> safe P (g e) s Q" "\<And>m. v = Panic m \<Longrightarrow> safe P (h m) s Q"
  shows "safe P (case v of Ok a \<Rightarrow> f a | Err e \<Rightarrow> g e | Panic m \<Rightarrow> h m) s Q"
  using assms by (cases v) simp_all

lemma safe_setResourcesInjectedCondition:
  "safe (\<lambda>_ e. is_read e) (setResourcesInjectedCondition r ws) s
     (\<lambda>_ s'. \<exists>cs. rs_wsd s' = (rs_wsd s)\<lparr>wsd_Status := (wsd_Status (rs_wsd s))\<lparr>st_Conditions := cs\<rparr>\<rparr>)"
  unfolding setResourcesInjectedCondition_def by (intro safe_rules) auto

lemma safe_startDeployment:
  assumes o: "owner_ok r" and k: "same_key w0 (rs_wsd s)" and c: "cleared r wsc (rs_wsd s) (rs_trace s)"
    and p: "st_Phase (wsd_Status w0) \<notin> {PhaseDeploying, PhaseRunning, PhaseFailed}"
  shows "safe (live_event r w0) (startDeployment r wsc) s (\<lambda>_ _. True)"
proof -
  let ?P = "live_event r w0"
  let ?I = "\<lambda>s'. same_key w0 (rs_wsd s') \<and> cleared r wsc (rs_wsd s') (rs_trace s')"
  have upd: "?I (s1\<lparr>rs_wsd := (rs_wsd s1)\<lparr>wsd_Status := st\<rparr>\<rparr>)"
    if "?I s1" "st_Prerequisites st = st_Prerequisites (wsd_Status (rs_wsd s1))" for s1 st
    using that cleared_key [of "rs_wsd s1" "(rs_wsd s1)\<lparr>wsd_Status := st\<rparr>" r wsc "rs_trace s1"] by (simp add: same_key_object)
  have cl: "cleared r wsc (w\<lparr>wsd_Status := st\<rparr>) h = cleared r wsc w h"
    if "st_Prerequisites st = st_Prerequisites (wsd_Status w)" for w st h
    using that cleared_key [of w "w\<lparr>wsd_Status := st\<rparr>"] by (simp add: same_key_object)
  have ro: "safe ?P m s1 (\<lambda>_. ?I)" if "read_only m" "?I s1" for m s1
    by (rule read_only_safe [OF that(1)]) (use that(2) in \<open>auto intro: cleared_mono\<close>)
  have ext: "?I s'" if "?I s1" "rs_wsd s' = (rs_wsd s1)\<lparr>wsd_Status := (wsd_Status (rs_wsd s1))\<lparr>st_Conditions := cs\<rparr>\<rparr>"
    "rs_trace s' = rs_trace s1 @ es" for s1 s' cs es
    using upd [OF that(1), of "(wsd_Status (rs_wsd s1))\<lparr>st_Conditions := cs\<rparr>"] that(2,3) by (auto intro: cleared_mono)
  have cond: "safe ?P (setResourcesInjectedCondition r ws) s1 (\<lambda>_. ?I)" if "?I s1" for ws s1
    by (rule safe_lift [OF safe_setResourcesInjectedCondition]) (use ext [OF that] in auto)
  have app: "safe ?P (apply_workspace r wsc child vals) s1 (\<lambda>_ _. True)" if "?I s1" for child vals s1
    using that by (intro safe_apply_workspace [OF o _ _ p]) auto
  show ?thesis
    unfolding startDeployment_def
    by (intro safe_bind [of _ get_wsd] safe_get_wsd safe_let safe_bind [of _ "modify_status _"] safe_modify_status
        safe_then [OF ro [OF read_only_getChildClusterClient]] safe_then [OF ro [OF read_only_resolveGPUResource]]
        safe_then [OF cond] safe_case_sum safe_case_prod safe_case_outcome safe_return safe_fail_with safe_wait_with app)
      (use k c p in \<open>auto simp: cl\<close>)
qed

lemma safe_service_failed: "safe (live_event r w0) (service_failed r svc) s (\<lambda>_ _. True)"
  unfolding service_failed_def
  by (intro safe_rules conjI safe_markFailed) (auto simp: failed_from_phase intro: live_status_easy)

lemma safe_service_deployed:
  assumes "st_Phase (wsd_Status w0) = PhaseDeploying" and "\<And>es. reported r w0 (rs_trace s @ es)"
  shows "safe (live_event r w0) (service_deployed r) s (\<lambda>_ _. True)"
  unfolding service_deployed_def
  by (intro safe_rules conjI) (use assms in \<open>simp_all add: live_status_def\<close>)

lemma reported_mono: "reported r w h \<Longrightarrow> reported r w (h @ es)"
  unfolding reported_def set_append by blast

lemma safe_readiness_loop:
  assumes "st_Phase (wsd_Status w0) = PhaseDeploying"
    and "EGetSS (cd_namespace w0) (serviceSetName (r_sha r) w0) (Inr ss) \<in> set (rs_trace s)"
    and "set svcs \<subseteq> set (ss_StatusServices ss)"
  shows "safe (live_event r w0) (readiness_loop r (serviceEntryName w0) svcs) s (\<lambda>_ _. True)"
  using assms(2,3)
proof (induction svcs arbitrary: s)
  case (Cons svc svcs)
  have rep: "reported r w0 h" if "set (rs_trace s) \<subseteq> set h" "svs_Name svc = serviceEntryName w0"
    "svs_State svc = ServiceStateDeployed" for h
    using Cons.prems that unfolding reported_def by (metis insert_subset list.simps(15) subsetD)
  show ?case
    unfolding readiness_loop.simps
    by (intro safe_rules conjI Cons.IH safe_service_deployed [OF assms(1)] safe_service_failed rep)
      (use Cons.prems in auto)
qed (auto intro: safe_rules)

lemma safe_checkServiceReadiness:
  assumes "st_Phase (wsd_Status w0) = PhaseDeploying" and k: "same_key w0 (rs_wsd s)"
  shows "safe (live_event r w0) (checkServiceReadiness r) s (\<lambda>_ _. True)"
  unfolding checkServiceReadiness_def
  by (intro safe_rules conjI)
    (auto simp: same_key_cong [OF k] cd_namespace_def intro!: safe_readiness_loop [OF assms(1)])

lemma read_only_GetCluster_feasibility:
  "read_only (computeFeasibility Q (now r) (invoke (EListNodes c) f) (invoke (EListPods c) g) d)"
  unfolding read_only_def computeFeasibility_def by (intro allI safe_rules conjI) simp_all

lemma safe_refreshFeasibility:
  assumes k: "same_key w0 (rs_wsd s)" and p: "st_Phase (wsd_Status (rs_wsd s)) = st_Phase (wsd_Status w0)"
  shows "safe (live_event r w0) (refreshFeasibility r wsc) s
    (\<lambda>_ s'. same_key w0 (rs_wsd s') \<and> st_Phase (wsd_Status (rs_wsd s')) = st_Phase (wsd_Status w0) \<and>
       (\<exists>es. rs_trace s' = rs_trace s @ es))"
  unfolding refreshFeasibility_def feasibility_unknown_def
  by (intro safe_rules conjI read_only_safe [OF read_only_GetClusterClientForCD]
      read_only_safe [OF read_only_GetCluster_feasibility])
    (use k p in \<open>auto intro: live_status_easy\<close>)

lemma safe_resolveClusterDeployment:
  assumes k: "same_key w0 (rs_wsd s)" and p: "st_Phase (wsd_Status (rs_wsd s)) = st_Phase (wsd_Status w0)"
    and nr: "st_Phase (wsd_Status w0) \<noteq> PhaseRunning"
  shows "safe (live_event r w0) (resolveClusterDeployment r) s
    (\<lambda>(res, ok, err) s'. (ok \<longrightarrow> same_key w0 (rs_wsd s') \<and> st_Phase (wsd_Status (rs_wsd s')) = st_Phase (wsd_Status w0)) \<and>
       (\<exists>es. rs_trace s' = rs_trace s @ es))"
  unfolding resolveClusterDeployment_def
  by (intro safe_rules conjI) (use k p nr in \<open>auto intro: live_status_easy\<close>)

lemma safe_resolveWorkspaceClass:
  "safe (live_event r w0) (resolveWorkspaceClass r) s
    (\<lambda>a s'. \<forall>wsc. a = Inr (Some wsc) \<longrightarrow> rs_wsd s' = rs_wsd s \<and> class_fetched (rs_wsd s) wsc (rs_trace s'))"
  unfolding resolveWorkspaceClass_def
  by (intro safe_rules conjI safe_markFailed)
    (auto simp: failed_from_phase class_fetched_def intro: live_status_easy)

lemma live_gate_event:
  "gate_event w e \<Longrightarrow> st_Phase (wsd_Status w0) \<notin> {PhaseDeploying, PhaseRunning, PhaseFailed} \<Longrightarrow> live_event r w0 h e"
  by (auto simp: gate_event_def status_in_def intro: live_status_easy)

lemma live_prereq_event: "prereq_event w h e \<Longrightarrow> live_event r w0 h e"
  by (auto simp: prereq_event_def status_in_def intro: live_create_missing live_status_easy)

text \<open>The object a step of the chain sees: the fetched one, in its phase.\<close>

definition at_phase :: "'q WorkspaceDeployment \<Rightarrow> ('w, 'q) rstate \<Rightarrow> bool" where
  "at_phase w0 s \<longleftrightarrow> same_key w0 (rs_wsd s) \<and> st_Phase (wsd_Status (rs_wsd s)) = st_Phase (wsd_Status w0)"

lemma at_phase_same: "at_phase w0 s \<Longrightarrow> same_phase (rs_wsd s) (rs_wsd s') \<Longrightarrow> at_phase w0 s'"
  by (auto simp: at_phase_def same_phase_def dest: same_key_object intro: same_key_trans)

lemma safe_reconcile_phase:
  assumes o: "owner_ok r" and a: "at_phase w0 s"
    and c: "st_Phase (wsd_Status w0) \<notin> {PhaseDeploying, PhaseRunning, PhaseFailed} \<Longrightarrow> cleared r wsc (rs_wsd s) (rs_trace s)"
  shows "safe (live_event r w0) (reconcile_phase r wsc) s (\<lambda>_ _. True)"
proof -
  have routes: "safe (live_event r w0) (reconcileRoutes r wsc) s (\<lambda>_ _. True)"
    if "st_Phase (wsd_Status w0) = PhaseRunning"
    by (rule safe_weaken [OF safe_reconcileRoutes])
      (use that a in \<open>auto simp: at_phase_def status_in_def live_status_def Let_def\<close>)
  show ?thesis
    unfolding reconcile_phase_def
    by (intro safe_rules safe_then [OF routes] safe_checkServiceReadiness safe_startDeployment [OF o])
      (use a c in \<open>auto simp: at_phase_def\<close>)
qed

lemma gate_open_mono: "gate_open Q rs w h \<Longrightarrow> gate_open Q rs w (h @ es)"
  unfolding gate_open_def set_append by blast

lemma safe_prerequisites_gate:
  assumes o: "owner_ok r" and a: "at_phase w0 s"
    and c: "st_Phase (wsd_Status w0) \<notin> {PhaseDeploying, PhaseRunning, PhaseFailed} \<Longrightarrow>
      class_fetched (rs_wsd s) wsc (rs_trace s) \<and> gate_open (r_Q r) (resolved_of wsc (rs_wsd s)) (rs_wsd s) (rs_trace s)"
  shows "safe (live_event r w0) (prerequisites_gate r wsc) s (\<lambda>_ _. True)"
proof -
  have pre: "safe (live_event r w0) (reconcilePrerequisites r wsc) s
      (\<lambda>(res, dn, err) s'. (\<not> dn \<longrightarrow> same_phase (rs_wsd s) (rs_wsd s') \<and>
         all_satisfied wsc (st_Prerequisites (wsd_Status (rs_wsd s')))) \<and> (\<exists>es. rs_trace s' = rs_trace s @ es))"
    by (rule safe_lift [OF safe_reconcilePrerequisites]) (auto intro: live_prereq_event)
  have go: "safe (live_event r w0) (reconcile_phase r wsc) s' (\<lambda>_ _. True)"
    if "same_phase (rs_wsd s) (rs_wsd s')" "all_satisfied wsc (st_Prerequisites (wsd_Status (rs_wsd s')))"
      "rs_trace s' = rs_trace s @ es" for s' es
  proof (rule safe_reconcile_phase [OF o at_phase_same [OF a that(1)]])
    have k: "same_key (rs_wsd s) (rs_wsd s')" by (rule same_key_object [OF same_phase_object [OF that(1)]])
    assume "st_Phase (wsd_Status w0) \<notin> {PhaseDeploying, PhaseRunning, PhaseFailed}"
    from c [OF this] show "cleared r wsc (rs_wsd s') (rs_trace s')"
      using that by (auto simp: cleared_def class_fetched_def same_key_cong [OF k] intro: gate_open_mono)
  qed
  show ?thesis
    unfolding prerequisites_gate_def
    by (intro safe_if safe_then [OF pre] safe_case_prod safe_return safe_reconcile_phase [OF o a])
      (auto intro: go simp: cleared_def c)
qed

lemma safe_capacity_gate:
  assumes o: "owner_ok r" and a: "at_phase w0 s" and c: "class_fetched (rs_wsd s) wsc (rs_trace s)"
  shows "safe (live_event r w0) (capacity_gate r wsc) s (\<lambda>_ _. True)"
proof -
  have gate: "safe (live_event r w0) (gateGPUOffering r wsc) s
      (\<lambda>(res, ok) s'. (ok \<longrightarrow> rs_wsd s' = rs_wsd s \<and> gate_open (r_Q r) (resolved_of wsc (rs_wsd s)) (rs_wsd s) (rs_trace s')) \<and>
         (\<exists>es. rs_trace s' = rs_trace s @ es))"
    if "st_Phase (wsd_Status w0) \<notin> {PhaseDeploying, PhaseRunning, PhaseFailed}"
    by (rule safe_lift [OF safe_gateGPUOffering]) (use that in \<open>auto intro: live_gate_event\<close>)
  show ?thesis
    unfolding capacity_gate_def
    by (intro safe_rules safe_then [OF gate] safe_prerequisites_gate [OF o])
      (use a c in \<open>auto simp: at_phase_def class_fetched_def\<close>)
qed

lemma safe_feasibility_refresh:
  assumes o: "owner_ok r" and a: "at_phase w0 s" and c: "class_fetched w0 wsc (rs_trace s)"
  shows "safe (live_event r w0) (feasibility_refresh r wsc) s (\<lambda>_ _. True)"
proof -
  have cap: "safe (live_event r w0) (capacity_gate r wsc) s' (\<lambda>_ _. True)"
    if "at_phase w0 s'" "class_fetched w0 wsc (rs_trace s')" for s'
    using that by (intro safe_capacity_gate [OF o]) (auto simp: at_phase_def class_fetched_def same_key_cong)
  show ?thesis
    unfolding feasibility_refresh_def
    by (intro safe_rules safe_then [OF safe_refreshFeasibility] cap)
      (use a c in \<open>auto simp: at_phase_def class_fetched_def\<close>)
qed

lemma safe_reconcile_resolved:
  assumes o: "owner_ok r" and a: "at_phase w0 s" and c: "class_fetched w0 wsc (rs_trace s)"
  shows "safe (live_event r w0) (reconcile_resolved r wsc) s (\<lambda>_ _. True)"
  unfolding reconcile_resolved_def
  by (intro safe_rules safe_then [OF safe_resolveClusterDeployment] safe_feasibility_refresh [OF o])
    (use a c in \<open>auto simp: at_phase_def class_fetched_def\<close>)

lemma safe_reconcile_live:
  assumes o: "owner_ok r" and f: "finalizers_ok r" and w: "rs_wsd s = w0"
  shows "safe (live_event r w0) (reconcile_live r) s (\<lambda>_ _. True)"
proof -
  have add: "\<exists>fs. api_add_finalizer (r_api r) w0 WorkspaceDeploymentFinalizer = w0\<lparr>wsd_Finalizers := fs\<rparr> \<and>
      WorkspaceDeploymentFinalizer \<in> set fs"
    using f unfolding finalizers_ok_def by (metis insertI1)
  have key: "same_key w0 (w0\<lparr>wsd_Finalizers := fs\<rparr>)" for fs
    unfolding same_key_def by (intro exI [of _ "wsd_Status w0"] exI [of _ fs]) simp
  have fin: "safe (live_event r w0) (ensure_finalizer r) s (\<lambda>_ s'. at_phase w0 s')"
    unfolding ensure_finalizer_def
    by (intro safe_rules conjI) (use w add key in \<open>auto simp: at_phase_def\<close>)
  have cls: "safe (live_event r w0) (resolveWorkspaceClass r) s'
      (\<lambda>a s''. \<forall>wsc. a = Inr (Some wsc) \<longrightarrow> at_phase w0 s'' \<and> class_fetched w0 wsc (rs_trace s''))"
    if "at_phase w0 s'" for s'
    by (rule safe_weaken [OF safe_resolveWorkspaceClass])
      (use that in \<open>auto simp: at_phase_def class_fetched_def same_key_cong\<close>)
  show ?thesis
    unfolding reconcile_live_def
    by (intro safe_then [OF fin] safe_case_option safe_case_sum safe_return safe_then [OF cls] safe_reconcile_resolved [OF o])
      auto
qed

text \<open>The events of a whole reconcile of the fetched object \<open>w0\<close>.\<close>

definition reconcile_event :: "('w, 'q) reconciler \<Rightarrow> 'q WorkspaceDeployment \<Rightarrow> 'q ev list \<Rightarrow> 'q ev \<Rightarrow> bool" where
  "reconcile_event r w0 h e \<longleftrightarrow>
     (if wss_Suspend (wsd_Spec w0) then is_read e
      else if wsd_DeletionTimestamp w0 \<noteq> 0 then delete_order r w0 h e
      else live_event r w0 h e)"

lemma safe_reconcile_fetched:
  assumes o: "owner_ok r" and f: "finalizers_ok r" and w: "rs_wsd s = w0"
  shows "safe (reconcile_event r w0) (reconcile_fetched r) s (\<lambda>_ _. True)"
  unfolding reconcile_fetched_def
  by (intro safe_bind [of _ get_wsd] safe_get_wsd safe_if safe_return
      safe_weaken [OF safe_reconcileDelete [OF f]] safe_weaken [OF safe_reconcile_live [OF o f w]])
    (simp_all add: w reconcile_event_def)

lemma Reconcile_trace:
  assumes "owner_ok r" and "finalizers_ok r" and "run_state (Reconcile r ns nm) s = (a, s')" and "rs_trace s = []"
    and get: "api_get_wsd (r_api r) ns nm (rs_world s) = (Inr w0, v)"
  shows "\<exists>es. rs_trace s' = EGetWsd (Inr w0) # es \<and> hist_ok (reconcile_event r w0) [EGetWsd (Inr w0)] es"
proof -
  let ?s1 = "s\<lparr>rs_world := v, rs_trace := [EGetWsd (Inr w0)], rs_wsd := w0\<rparr>"
  have "run_state (reconcile_fetched r) ?s1 = (a, s')"
    using assms(3,4) get
    by (simp add: Reconcile_def invoke_def put_wsd_def State_Monad.bind_def State_Monad.get_def State_Monad.set_def
        State_Monad.update_def State_Monad.return_def)
  from safe_run [OF safe_reconcile_fetched [OF assms(1,2), of ?s1 w0] this] show ?thesis by auto
qed

lemma Reconcile_event:
  assumes "owner_ok r" and "finalizers_ok r" and "run_state (Reconcile r ns nm) s = (a, s')" and "rs_trace s = []"
    and "api_get_wsd (r_api r) ns nm (rs_world s) = (Inr w0, v)" and tr: "rs_trace s' = us @ e # vs"
  shows "is_read e \<or> reconcile_event r w0 us e"
proof -
  obtain es where es: "rs_trace s' = EGetWsd (Inr w0) # es" "hist_ok (reconcile_event r w0) [EGetWsd (Inr w0)] es"
    using Reconcile_trace [OF assms(1-5)] by blast
  show ?thesis
  proof (cases us)
    case (Cons u us')
    with es tr have "es = us' @ e # vs" "us = EGetWsd (Inr w0) # us'" by auto
    with es(2) show ?thesis by (simp add: hist_ok_append)
  qed (use es tr in auto)
qed

end
