(* ===== verification/Reconcile_Properties.thy ===== *)
theory Reconcile_Properties
  imports Reconcile_Events
begin

text \<open>
  The properties of \<open>Reconcile\<close>, \<open>startDeployment\<close> and the watch mapper, with rules that execute a run
  on concrete outsides.
\<close>

section \<open>Execution\<close>

text \<open>Rules that evaluate a run front to back: a continuation is left alone until its turn.\<close>

lemma wp_cong: "m = m' \<Longrightarrow> s = s' \<Longrightarrow> wp m Q s = wp m' Q s'"
  by simp

lemma bind_weak_cong: "m = m' \<Longrightarrow> State_Monad.bind m f = State_Monad.bind m' f"
  by simp

lemma wp_exec:
  "wp get_wsd Q1 s = Q1 (rs_wsd s) s"
  "wp (put_wsd w) Q s = Q () (s\<lparr>rs_wsd := w\<rparr>)"
  "wp (modify_wsd f) Q s = Q () (s\<lparr>rs_wsd := f (rs_wsd s)\<rparr>)"
  "wp (modify_status g) Q s = Q () (s\<lparr>rs_wsd := (rs_wsd s)\<lparr>wsd_Status := g (wsd_Status (rs_wsd s))\<rparr>\<rparr>)"
  "wp (invoke mk f') Q' s = Q' (fst (f' (rs_world s)))
     (s\<lparr>rs_world := snd (f' (rs_world s)), rs_trace := rs_trace s @ [mk (fst (f' (rs_world s)))]\<rparr>)"
  by (simp_all add: get_wsd_def put_wsd_def modify_wsd_def modify_status_def wp_invoke split_beta)

lemma wp_read_only:
  "read_only m \<Longrightarrow> (\<And>a s'. rs_wsd s' = rs_wsd s \<Longrightarrow> Q a s') \<Longrightarrow> wp m Q s"
  unfolding read_only_def safe_def traced_def by (auto elim!: allE [of _ s] wp_mono)

definition answers_child :: "('w, 'q) reconciler \<Rightarrow> 'q WorkspaceDeployment \<Rightarrow> kubeconfig \<Rightarrow> bool" where
  "answers_child r w kc \<longleftrightarrow>
     (\<exists>sec. map_of (sec_Data sec) ''value'' = Some kc \<and>
        (\<forall>v. fst (api_get_secret (r_api r) (cd_namespace w) (cdr_Name (wss_ClusterDeploymentRef (wsd_Spec w)) @ ''-kubeconfig'') v) = Inr sec)) \<and>
     api_rest_config (r_api r) kc = None \<and> (\<forall>v. fst (api_new_client (r_api r) kc v) = None)"

lemma wp_child:
  "answers_child r (rs_wsd s) kc \<Longrightarrow> wp (getChildClusterClient r) (\<lambda>a s'. a = Inr kc \<and> rs_wsd s' = rs_wsd s) s"
  by (auto simp: getChildClusterClient_def GetClusterClientForCD_def cluster_client_for_cd_def answers_child_def cd_namespace_def Let_def wp_exec)

text \<open>A run that ends by submitting the workspace as Deploying.\<close>

definition deploying_submitted :: "'q WorkspaceDeployment \<Rightarrow> reconcile_result \<Rightarrow> ('w, 'q) rstate \<Rightarrow> bool" where
  "deploying_submitted w a s' \<longleftrightarrow> a = Return requeue None \<and>
     (\<exists>w' es. rs_trace s' = es @ [EStatus w' None] \<and> st_Phase (wsd_Status w') = PhaseDeploying \<and> same_object w w')"

text \<open>A cluster without a trace of the workspace, where creations and status updates succeed.\<close>

definition fresh_cluster :: "('w, 'q) reconciler \<Rightarrow> kubeconfig \<Rightarrow> bool" where
  "fresh_cluster r kc \<longleftrightarrow>
     (\<exists>e. IsNotFound e \<and> (\<forall>n v. fst (api_get_ns (r_api r) kc n v) = Inl e)) \<and>
     (\<forall>n v. fst (api_create_ns (r_api r) kc n v) = None) \<and>
     (\<exists>e. IsNotFound e \<and> (\<forall>n m v. fst (api_get_ss (r_api r) n m v) = Inl e)) \<and>
     (\<forall>x v. fst (api_create_ss (r_api r) x v) = None) \<and>
     (\<forall>w x. \<exists>y. api_set_owner (r_api r) w x = Inr y) \<and>
     (\<forall>w v. fst (api_update_status (r_api r) w v) = None)"

lemma wp_apply_workspace:
  assumes f: "fresh_cluster r kc" and o: "same_object w (rs_wsd s)"
  shows "wp (apply_workspace r wsc kc vals) (deploying_submitted w) s"
proof -
  obtain e1 e2 where ns: "IsNotFound e1" "\<And>n v. fst (api_get_ns (r_api r) kc n v) = Inl e1"
    and ss: "IsNotFound e2" "\<And>n m v. fst (api_get_ss (r_api r) n m v) = Inl e2"
    using f unfolding fresh_cluster_def by metis
  have ok: "\<And>n v. fst (api_create_ns (r_api r) kc n v) = None" "\<And>x v. fst (api_create_ss (r_api r) x v) = None"
    "\<And>w v. fst (api_update_status (r_api r) w v) = None"
    using f unfolding fresh_cluster_def by blast+
  obtain y where y: "api_set_owner (r_api r) w x = Inr (y w x)" for w x
    using f unfolding fresh_cluster_def by metis
  show ?thesis
    using o by (simp add: deploying_submitted_def same_object_trans apply_workspace_def ensureWorkspaceNamespace_def
        ensureWorkspaceServiceSet_def get_ss_def update_status_def ns ss ok y Let_def wp_exec
        cong: wp_cong bind_weak_cong)
qed

lemma wp_startDeployment:
  assumes child: "answers_child r (rs_wsd s) kc" and fresh: "fresh_cluster r kc"
    and vals: "mergeValuesMap (r_decode r) (wsc_DefaultValues (wsc_Spec wsc)) (wss_Values (wsd_Spec (rs_wsd s))) = Ok m"
      "\<And>m. \<exists>v. serializeValues (r_marshal r) m = Inr v"
  shows "wp (startDeployment r wsc) (deploying_submitted (rs_wsd s)) s" (is "wp _ ?Q _")
proof -
  have inj: "wp (State_Monad.bind (setResourcesInjectedCondition r ws) k) ?Q s1"
    if "\<And>s'. same_object (rs_wsd s) (rs_wsd s') \<Longrightarrow> wp (k ()) ?Q s'" "same_object (rs_wsd s) (rs_wsd s1)" for ws k s1
    using that by (auto simp: setResourcesInjectedCondition_def set_condition_def setCondition_def now_def wp_exec
        intro: same_object_trans)
  obtain sv where sv: "serializeValues (r_marshal r) m = Inr (sv m)" for m using vals(2) by metis
  have gpu: "wp (State_Monad.bind (resolveGPUResource r kc rs) k) ?Q s1"
    if "\<And>a s'. same_object (rs_wsd s) (rs_wsd s') \<Longrightarrow> wp (k a) ?Q s'" "same_object (rs_wsd s) (rs_wsd s1)" for rs k s1
    unfolding wp_bind by (rule wp_read_only [OF read_only_resolveGPUResource]) (use that in simp)
  have upd: "wp (State_Monad.bind (modify_status f) k) ?Q s1"
    if "\<And>s'. same_object (rs_wsd s) (rs_wsd s') \<Longrightarrow> wp (k ()) ?Q s'" "same_object (rs_wsd s) (rs_wsd s1)" for f k s1
    using that by (auto simp: wp_exec intro: same_object_trans)
  show ?thesis
    unfolding startDeployment_def wp_bind wp_exec Let_def
  proof (rule wp_mono [OF wp_child [where kc = kc]], goal_cases)
    case 1
    show ?case using child by (simp add: answers_child_def cd_namespace_def)
  qed (auto simp: sv vals(1) simp del: wp_bind intro!: gpu inj upd wp_apply_workspace [OF fresh] split: prod.splits)
qed

section \<open>Properties\<close>

text \<open>
  C1: the phase machine.  Whatever the API server answers, every status that a reconcile submits for
  a workspace fetched in phase \<open>p\<close> carries a phase reachable from \<open>p\<close> by one step: Running is only
  ever entered from Deploying; Waiting and Deploying never from Deploying, Running or Failed; Pending
  never from Running; and Deleting only when the object is being deleted.  A suspended workspace is
  never written.
\<close>

theorem Reconcile_phase_machine:
  assumes "owner_ok r" and "finalizers_ok r" and "run_state (Reconcile r ns nm) s = (a, s')" and "rs_trace s = []"
    and "api_get_wsd (r_api r) ns nm (rs_world s) = (Inr w0, v)" and "EStatus w x \<in> set (rs_trace s')"
  shows "phase_step (st_Phase (wsd_Status w0)) (st_Phase (wsd_Status w)) \<and> \<not> wss_Suspend (wsd_Spec w0) \<and>
    (st_Phase (wsd_Status w) = PhaseDeleting \<and> st_Phase (wsd_Status w0) \<noteq> PhaseDeleting \<longrightarrow> wsd_DeletionTimestamp w0 \<noteq> 0)"
proof -
  obtain us vs where "rs_trace s' = us @ EStatus w x # vs" using assms(6) by (meson split_list)
  from Reconcile_event [OF assms(1-5) this] show ?thesis
    by (auto simp: reconcile_event_def live_status_def Let_def split: if_splits)
qed

text \<open>An outside with a class, a ClusterDeployment and the workspace to reconcile.\<close>

definition demo_world :: "int WorkspaceDeployment \<Rightarrow> int WorkspaceClass \<Rightarrow> (int, int) reconciler" where
  "demo_world w wsc = demo_r\<lparr>r_api := demo_api\<lparr>api_get_wsd := (\<lambda>_ _ v. (Inr w, v)),
     api_get_wsc := (\<lambda>_ v. (Inr wsc, v)), api_get_cd := (\<lambda>_ _ v. (Inr demo_cd, v))\<rparr>\<rparr>"

definition demo_start :: "(int, int) rstate" where
  "demo_start = \<lparr>rs_world = 100, rs_wsd = demo_wsd [] [], rs_trace = []\<rparr>"

definition demo_new :: "int WorkspaceDeployment" where
  "demo_new = (demo_wsd ''cd'' ''w'')\<lparr>wsd_Finalizers := [WorkspaceDeploymentFinalizer]\<rparr>"

lemma demo_world_laws: "owner_ok (demo_world w wsc)" "finalizers_ok (demo_world w wsc)"
  using demo_owner_ok demo_finalizers_ok
  by (simp_all add: owner_ok_def finalizers_ok_def demo_world_def demo_r_def demo_api_def)

lemma demo_world_sel:
  "api_get_wsd (r_api (demo_world w c)) x1 x2 v = (Inr w, v)"
  "api_get_wsc (r_api (demo_world w c)) x1 v = (Inr c, v)"
  "api_get_cd (r_api (demo_world w c)) x1 x2 v = (Inr demo_cd, v)"
  "api_update_status (r_api (demo_world w c)) w' v = (None, v)"
  "api_now (r_api (demo_world w c)) v = (v, v + 1)"
  "api_list_nodes (r_api (demo_world w c)) x1 v = (Inr [], v)"
  "api_list_pods (r_api (demo_world w c)) x1 v = (Inr [], v)"
  "api_get_secret (r_api (demo_world w c)) x1 x2 v = (Inr \<lparr>sec_Name = x2, sec_Namespace = x1, sec_Data = [(''value'', x2)]\<rparr>, v)"
  "api_rest_config (r_api (demo_world w c)) x1 = None"
  "api_new_client (r_api (demo_world w c)) x1 v = (None, v)"
  "api_contains_finalizer (r_api (demo_world w c)) w' f = (f \<in> set (wsd_Finalizers w'))"
  by (simp_all add: demo_world_def demo_r_def demo_api_def)

lemma demo_new_sel:
  "wsd_Finalizers demo_new = [WorkspaceDeploymentFinalizer]" "wsd_DeletionTimestamp demo_new = 0"
  "wss_Suspend (wsd_Spec demo_new) = False" "st_Phase (wsd_Status demo_new) = PhaseNone"
  "wss_Resources (wsd_Spec demo_new) = None" "wss_Values (wsd_Spec demo_new) = None"
  by (simp_all add: demo_new_def demo_wsd_def)

lemma demo_wsc_sel:
  "wsc_Prerequisites (wsc_Spec (demo_wsc ps)) = ps" "wsc_DefaultValues (wsc_Spec (demo_wsc ps)) = None"
  "gpuSelectorOf (mergeResources (wsc_DefaultResources (wsc_Spec (demo_wsc ps))) None) = []"
  by (simp_all add: demo_wsc_def mergeResources_def Let_def gpuSelectorOf_def gpuModelOf_def node_selector_def
      BuildSelector_def no_options_def)

lemma demo_fresh_cluster: "fresh_cluster (demo_world w c) kc"
  by (simp add: fresh_cluster_def demo_world_def demo_r_def demo_api_def not_found_def)

lemma demo_answers_child: "\<exists>kc. answers_child (demo_world w c) w' kc"
  unfolding answers_child_def demo_world_sel by auto

lemma demo_serializes: "\<exists>v. serializeValues (r_marshal (demo_world w c)) m = Inr v"
  by (simp add: serializeValues_def demo_world_def demo_r_def split: option.splits list.splits)

lemma demo_merges: "mergeValuesMap d None None = Ok (Some [])"
  by (simp add: mergeValuesMap_def has_raw_def)

text \<open>The definitions a run of \<open>Reconcile\<close> passes through on its way to \<open>startDeployment\<close>.\<close>

lemmas run_to_start = Reconcile_def reconcile_fetched_def reconcile_live_def ensure_finalizer_def
  resolveWorkspaceClass_def reconcile_resolved_def resolveClusterDeployment_def feasibility_refresh_def
  refreshFeasibility_def capacity_gate_def prerequisites_gate_def reconcile_phase_def get_wsc_def get_cd_def
  get_ss_def update_status_def set_condition_def setCondition_def now_def GetClusterClientForCD_def cluster_client_for_cd_def
  computeFeasibility_def gateGPUOffering_def Let_def

text \<open>The last call of a run writes this phase.\<close>

definition ends_in :: "WorkspaceDeploymentPhase \<Rightarrow> ('w, 'q) rstate \<Rightarrow> bool" where
  "ends_in p s \<longleftrightarrow> (\<exists>w es. rs_trace s = es @ [EStatus w None] \<and> st_Phase (wsd_Status w) = p)"

lemma demo_startDeployment:
  assumes "wsd_Spec (rs_wsd s) = wsd_Spec demo_new"
  shows "wp (startDeployment (demo_world demo_new (demo_wsc [])) (demo_wsc []))
    (\<lambda>_. ends_in PhaseDeploying) s"
proof -
  obtain kc where "answers_child (demo_world demo_new (demo_wsc [])) (rs_wsd s) kc" using demo_answers_child by blast
  from wp_startDeployment [OF this demo_fresh_cluster _ demo_serializes, of "demo_wsc []" "Some []"] show ?thesis
    by (auto simp: assms demo_new_sel demo_wsc_sel demo_merges deploying_submitted_def ends_in_def elim!: wp_mono)
qed

lemma demo_deploying:
  obtains a s' w es where "run_state (Reconcile (demo_world demo_new (demo_wsc [])) ''org'' ''w'') demo_start = (a, s')"
    "rs_trace s' = es @ [EStatus w None]" "st_Phase (wsd_Status w) = PhaseDeploying"
proof -
  have "wp (Reconcile (demo_world demo_new (demo_wsc [])) ''org'' ''w'')
    (\<lambda>_. ends_in PhaseDeploying) demo_start"
    by (simp add: run_to_start demo_world_sel demo_new_sel demo_wsc_sel demo_start_def demo_startDeployment wp_exec
        del: put_condition.simps cong: wp_cong bind_weak_cong)
  then show ?thesis using that by (auto simp: wp_def ends_in_def split: prod.splits)
qed

lemma demo_start_trace: "rs_trace demo_start = []"
  by (simp add: demo_start_def)

theorem Reconcile_phase_machine_witness:
  "\<exists>a s' w. run_state (Reconcile (demo_world demo_new (demo_wsc [])) ''org'' ''w'') demo_start = (a, s') \<and>
     EStatus w None \<in> set (rs_trace s') \<and> phase_step (st_Phase (wsd_Status demo_new)) (st_Phase (wsd_Status w)) \<and>
     st_Phase (wsd_Status w) = PhaseDeploying"
proof (rule demo_deploying)
  fix a s' w es
  assume run: "run_state (Reconcile (demo_world demo_new (demo_wsc [])) ''org'' ''w'') demo_start = (a, s')"
    and tr: "rs_trace s' = es @ [EStatus w None]" and ph: "st_Phase (wsd_Status w) = PhaseDeploying"
  have mem: "EStatus w None \<in> set (rs_trace s')" using tr by simp
  from Reconcile_phase_machine [OF demo_world_laws run demo_start_trace demo_world_sel(1) mem] run mem ph
  show ?thesis by metis
qed

text \<open>
  C2: nothing is deployed unprepared.  A reconcile that moves a workspace to Deploying has before
  that, in the same run, read the class, found the GPU gate open for the resolved resources with no
  older workspace waiting, recorded every prerequisite as satisfied, seen the workspace namespace
  live with all mesh labels, and had a ServiceSet with exactly this workspace's service accepted.
  And no ServiceSet other than a missing prerequisite's is written before the namespace has its
  labels.
\<close>

theorem Reconcile_deploying_backed:
  assumes "owner_ok r" and "finalizers_ok r" and "run_state (Reconcile r ns nm) s = (a, s')" and "rs_trace s = []"
    and "api_get_wsd (r_api r) ns nm (rs_world s) = (Inr w0, v)" and "rs_trace s' = us @ e # vs"
  shows "(e = EStatus w x \<and> st_Phase (wsd_Status w) = PhaseDeploying \<and> st_Phase (wsd_Status w0) \<noteq> PhaseDeploying
            \<longrightarrow> same_key w0 w \<and> backed r w us) \<and>
    (e = ECreateSS ss y \<and> \<not> isPrerequisiteServiceSet ss \<longrightarrow> mesh_ready r w0 us) \<and>
    (e = EUpdateSS ss y \<longrightarrow> mesh_ready r w0 us)"
  using Reconcile_event [OF assms]
  by (auto simp: reconcile_event_def live_status_def Let_def live_event_def delete_order_def split: if_splits)

theorem Reconcile_deploying_backed_witness:
  "\<exists>a s' w us. run_state (Reconcile (demo_world demo_new (demo_wsc [])) ''org'' ''w'') demo_start = (a, s') \<and>
     rs_trace s' = us @ [EStatus w None] \<and> st_Phase (wsd_Status w) = PhaseDeploying \<and>
     backed (demo_world demo_new (demo_wsc [])) w us"
proof (rule demo_deploying)
  fix a s' w es
  assume run: "run_state (Reconcile (demo_world demo_new (demo_wsc [])) ''org'' ''w'') demo_start = (a, s')"
    and tr: "rs_trace s' = es @ [EStatus w None]" and ph: "st_Phase (wsd_Status w) = PhaseDeploying"
  have tr': "rs_trace s' = es @ EStatus w None # []" using tr by simp
  from Reconcile_deploying_backed [OF demo_world_laws run demo_start_trace demo_world_sel(1) tr', of w None] run tr ph
  show ?thesis by (auto simp: demo_new_sel)
qed

text \<open>
  C4: Running means reported.  A reconcile writes Running over another phase only if that phase was
  Deploying and, earlier in the same run, the workspace's own ServiceSet was read and reported the
  workspace's service entry as Deployed.
\<close>

theorem Reconcile_running_reported:
  assumes "owner_ok r" and "finalizers_ok r" and "run_state (Reconcile r ns nm) s = (a, s')" and "rs_trace s = []"
    and "api_get_wsd (r_api r) ns nm (rs_world s) = (Inr w0, v)" and "rs_trace s' = us @ EStatus w x # vs"
    and "st_Phase (wsd_Status w) = PhaseRunning" and "st_Phase (wsd_Status w0) \<noteq> PhaseRunning"
  shows "st_Phase (wsd_Status w0) = PhaseDeploying \<and>
    (\<exists>ss svc. EGetSS (cd_namespace w0) (serviceSetName (r_sha r) w0) (Inr ss) \<in> set us \<and>
       svc \<in> set (ss_StatusServices ss) \<and> svs_Name svc = serviceEntryName w0 \<and> svs_State svc = ServiceStateDeployed)"
  using Reconcile_event [OF assms(1-6)] assms(7,8)
  by (auto simp: reconcile_event_def live_status_def Let_def reported_def split: if_splits)

text \<open>A workspace in Deploying whose ServiceSet reports its entry.\<close>

definition demo_deploying_wsd :: "int WorkspaceDeployment" where
  "demo_deploying_wsd = demo_new\<lparr>wsd_Status := (wsd_Status demo_new)\<lparr>st_Phase := PhaseDeploying\<rparr>\<rparr>"

definition demo_reported :: ServiceSet where
  "demo_reported = \<lparr>ss_Name = ''wsd-cd-w'', ss_Namespace = ''org'', ss_Labels = [], ss_Finalizers = [],
     ss_DeletionTimestamp = 0, ss_OwnerUIDs = [], ss_Cluster = ''cd'', ss_Provider = [], ss_Services = [],
     ss_StatusDeployed = True,
     ss_StatusServices = [\<lparr>svs_Name = ''wsd-cd-w'', svs_Template = ''chart'', svs_Namespace = ''ws-w'',
                            svs_State = ServiceStateDeployed, svs_FailureMessage = []\<rparr>]\<rparr>"

definition demo_reporting :: "(int, int) reconciler" where
  "demo_reporting = demo_world demo_deploying_wsd (demo_wsc [])\<lparr>r_api :=
     (r_api (demo_world demo_deploying_wsd (demo_wsc [])))\<lparr>api_get_ss := (\<lambda>_ _ v. (Inr demo_reported, v))\<rparr>\<rparr>"

lemma demo_reporting_laws: "owner_ok demo_reporting" "finalizers_ok demo_reporting"
  using demo_world_laws by (simp_all add: owner_ok_def finalizers_ok_def demo_reporting_def)

lemma demo_deploying_sel:
  "wsd_Finalizers demo_deploying_wsd = [WorkspaceDeploymentFinalizer]" "wsd_DeletionTimestamp demo_deploying_wsd = 0"
  "wss_Suspend (wsd_Spec demo_deploying_wsd) = False" "st_Phase (wsd_Status demo_deploying_wsd) = PhaseDeploying"
  "wss_Resources (wsd_Spec demo_deploying_wsd) = None" "wsd_Spec demo_deploying_wsd = wsd_Spec demo_new"
  "serviceEntryName demo_deploying_wsd = ''wsd-cd-w''"
  by (simp_all add: demo_deploying_wsd_def demo_new_def demo_wsd_def serviceEntryName_def HelmReleaseName_def)

lemma demo_checkServiceReadiness:
  assumes "serviceEntryName (rs_wsd s) = ''wsd-cd-w''"
  shows "wp (checkServiceReadiness demo_reporting) (\<lambda>_. ends_in PhaseRunning) s"
  using assms
  by (simp add: checkServiceReadiness_def get_ss_def demo_reporting_def demo_reported_def demo_world_sel service_deployed_def
      set_condition_def setCondition_def now_def update_status_def ends_in_def wp_exec Let_def
      del: put_condition.simps cong: wp_cong bind_weak_cong)

theorem Reconcile_running_reported_witness:
  "\<exists>a s' w us. run_state (Reconcile demo_reporting ''org'' ''w'') demo_start = (a, s') \<and>
     rs_trace s' = us @ [EStatus w None] \<and> st_Phase (wsd_Status w) = PhaseRunning \<and>
     (\<exists>ss. EGetSS (cd_namespace demo_deploying_wsd) (serviceSetName (r_sha demo_reporting) demo_deploying_wsd) (Inr ss) \<in> set us)"
proof -
  have get: "api_get_wsd (r_api demo_reporting) ns nm v = (Inr demo_deploying_wsd, v)" for ns nm v
    by (simp add: demo_reporting_def demo_world_sel)
  have entry: "serviceEntryName (demo_deploying_wsd\<lparr>wsd_Status := st\<rparr>) = ''wsd-cd-w''" for st
    using demo_deploying_sel(7) by (simp add: serviceEntryName_def HelmReleaseName_def)
  have "wp (Reconcile demo_reporting ''org'' ''w'') (\<lambda>_. ends_in PhaseRunning) demo_start"
    using demo_checkServiceReadiness entry
    by (simp add: run_to_start get demo_reporting_def demo_world_sel demo_deploying_sel demo_new_sel demo_wsc_sel demo_start_def wp_exec
        del: put_condition.simps cong: wp_cong bind_weak_cong)
  then obtain a s' w us where run: "run_state (Reconcile demo_reporting ''org'' ''w'') demo_start = (a, s')"
    and tr: "rs_trace s' = us @ EStatus w None # []" and ph: "st_Phase (wsd_Status w) = PhaseRunning"
    by (auto simp: wp_def ends_in_def split: prod.splits)
  from Reconcile_running_reported [OF demo_reporting_laws run demo_start_trace get tr ph] run tr ph
  show ?thesis by (auto simp: demo_deploying_sel)
qed

text \<open>
  C5: a live workspace is never torn down.  A reconcile of a workspace that is not being deleted
  deletes no ServiceSet and no namespace, strips no ServiceSet finalizers, cleans up no routes, and
  submits the object only with its finalizer on; a suspended workspace is not touched at all, even
  when it is being deleted.
\<close>

theorem Reconcile_spares_live:
  assumes "owner_ok r" and "finalizers_ok r" and "run_state (Reconcile r ns nm) s = (a, s')" and "rs_trace s = []"
    and "api_get_wsd (r_api r) ns nm (rs_world s) = (Inr w0, v)" and "e \<in> set (rs_trace s')"
  shows "(wss_Suspend (wsd_Spec w0) \<longrightarrow> is_read e) \<and>
    (wsd_DeletionTimestamp w0 = 0 \<longrightarrow> \<not> ss_removal e \<and> \<not> is_ns_delete e \<and> \<not> is_route_cleanup e \<and>
       (\<forall>w x. e = EUpdateWsd w x \<longrightarrow> WorkspaceDeploymentFinalizer \<in> set (wsd_Finalizers w)))"
proof -
  obtain us vs where "rs_trace s' = us @ e # vs" using assms(6) by (meson split_list)
  from Reconcile_event [OF assms(1-5) this] show ?thesis
    by (auto simp: reconcile_event_def ss_removal_def is_ns_delete_def is_route_cleanup_def live_event_def split: if_splits)
qed

theorem Reconcile_spares_live_witness:
  "\<exists>a s'. run_state (Reconcile (demo_world demo_new (demo_wsc [])) ''org'' ''w'') demo_start = (a, s') \<and>
     rs_trace s' \<noteq> [] \<and> \<not> is_ns_delete (last (rs_trace s'))"
proof (rule demo_deploying)
  fix a s' w es
  assume run: "run_state (Reconcile (demo_world demo_new (demo_wsc [])) ''org'' ''w'') demo_start = (a, s')"
    and tr: "rs_trace s' = es @ [EStatus w None]"
  have mem: "EStatus w None \<in> set (rs_trace s')" using tr by simp
  from Reconcile_spares_live [OF demo_world_laws run demo_start_trace demo_world_sel(1) mem] run tr
  show ?thesis by (auto simp: demo_new_sel)
qed

text \<open>
  C8: a workspace that can be deployed is.  When the child cluster is reachable, holds nothing of
  the workspace yet and accepts creations, and the values merge and serialize, one run of
  \<open>startDeployment\<close> ends by submitting the workspace as Deploying with a requeue.
\<close>

theorem startDeployment_deploys:
  assumes "answers_child r (rs_wsd s) kc" and "fresh_cluster r kc"
    and "mergeValuesMap (r_decode r) (wsc_DefaultValues (wsc_Spec wsc)) (wss_Values (wsd_Spec (rs_wsd s))) = Ok m"
    and "\<And>m. \<exists>v. serializeValues (r_marshal r) m = Inr v"
  shows "\<exists>s' w' es. run_state (startDeployment r wsc) s = (Return requeue None, s') \<and>
    rs_trace s' = es @ [EStatus w' None] \<and> st_Phase (wsd_Status w') = PhaseDeploying \<and> same_object (rs_wsd s) w'"
  using wp_startDeployment [OF assms] by (auto simp: wp_def deploying_submitted_def split: prod.splits)

theorem startDeployment_deploys_witness:
  "\<exists>s' w' es. run_state (startDeployment (demo_world demo_new (demo_wsc [])) (demo_wsc [])) (demo_s demo_new) =
       (Return requeue None, s') \<and>
     rs_trace s' = es @ [EStatus w' None] \<and> st_Phase (wsd_Status w') = PhaseDeploying"
proof -
  obtain kc where kc: "answers_child (demo_world demo_new (demo_wsc [])) (rs_wsd (demo_s demo_new)) kc"
    using demo_answers_child by blast
  have vals: "mergeValuesMap (r_decode (demo_world demo_new (demo_wsc []))) (wsc_DefaultValues (wsc_Spec (demo_wsc [])))
      (wss_Values (wsd_Spec (rs_wsd (demo_s demo_new)))) = Ok (Some [])"
    by (simp add: demo_s_def demo_new_sel demo_wsc_sel demo_merges)
  from startDeployment_deploys [OF kc demo_fresh_cluster vals demo_serializes] show ?thesis by blast
qed

text \<open>
  Failed is final, but for its cluster.  A Failed workspace whose class declares no
  prerequisites and whose ClusterDeployment exists is only read, without a requeue.  When the
  ClusterDeployment is gone, the same reconcile moves it back to Pending and requeues, and a later
  one deploys it again.
\<close>

theorem Failed_final_but_for_cluster:
  assumes "wss_Suspend (wsd_Spec w0) = False" and "wsd_DeletionTimestamp w0 = 0"
    and "api_contains_finalizer (r_api r) w0 WorkspaceDeploymentFinalizer" and "st_Phase (wsd_Status w0) = PhaseFailed"
    and "\<And>v. fst (api_get_wsd (r_api r) ns nm v) = Inr w0"
    and "\<And>v. fst (api_get_wsc (r_api r) (wss_WorkspaceClassRef (wsd_Spec w0)) v) = Inr wsc"
    and "wsc_Prerequisites (wsc_Spec wsc) = []" and "\<And>w v. fst (api_update_status (r_api r) w v) = None"
    and "\<And>v. fst (api_get_cd (r_api r) (cd_namespace w0) (cdr_Name (wss_ClusterDeploymentRef (wsd_Spec w0))) v) = cr"
    and "rs_trace s = []"
  shows "\<exists>a s'. run_state (Reconcile r ns nm) s = (a, s') \<and>
    (case cr of
       Inr cd \<Rightarrow> a = Return no_requeue None \<and> list_all is_read (rs_trace s')
     | Inl e \<Rightarrow> IsNotFound e \<longrightarrow> a = Return requeue None \<and>
         (\<exists>w es. rs_trace s' = es @ [EStatus w None] \<and> st_Phase (wsd_Status w) = PhasePending))"
proof -
  have "wp (Reconcile r ns nm) (\<lambda>a s'. case cr of
       Inr cd \<Rightarrow> a = Return no_requeue None \<and> list_all is_read (rs_trace s')
     | Inl e \<Rightarrow> IsNotFound e \<longrightarrow> a = Return requeue None \<and> ends_in PhasePending s') s"
    using assms
    by (cases cr) (simp_all add: run_to_start cd_namespace_def ends_in_def wp_exec cong: wp_cong bind_weak_cong del: put_condition.simps)
  then show ?thesis by (auto simp: wp_def ends_in_def split: prod.splits sum.splits)
qed

definition demo_failed :: "int WorkspaceDeployment" where
  "demo_failed = demo_new\<lparr>wsd_Status := (wsd_Status demo_new)\<lparr>st_Phase := PhaseFailed\<rparr>\<rparr>"

definition demo_no_cd :: "(int, int) reconciler" where
  "demo_no_cd = demo_world demo_failed (demo_wsc [])\<lparr>r_api :=
     (r_api (demo_world demo_failed (demo_wsc [])))\<lparr>api_get_cd := (\<lambda>_ _ v. (Inl not_found, v))\<rparr>\<rparr>"

theorem Failed_final_but_for_cluster_witness:
  "\<exists>a s' w es. run_state (Reconcile demo_no_cd ''org'' ''w'') demo_start = (a, s') \<and> a = Return requeue None \<and>
     rs_trace s' = es @ [EStatus w None] \<and> st_Phase (wsd_Status w) = PhasePending"
proof -
  have "\<exists>a s'. run_state (Reconcile demo_no_cd ''org'' ''w'') demo_start = (a, s') \<and>
    (case Inl not_found of
       Inr (cd :: ClusterDeployment) \<Rightarrow> a = Return no_requeue None \<and> list_all is_read (rs_trace s')
     | Inl e \<Rightarrow> IsNotFound e \<longrightarrow> a = Return requeue None \<and>
         (\<exists>w es. rs_trace s' = es @ [EStatus w None] \<and> st_Phase (wsd_Status w) = PhasePending))"
    by (rule Failed_final_but_for_cluster [of demo_failed demo_no_cd "''org''" "''w''" "demo_wsc []"])
      (simp_all add: demo_no_cd_def demo_failed_def demo_new_sel demo_world_sel demo_wsc_sel demo_start_def)
  then show ?thesis by (auto simp: not_found_def)
qed

lemma prerequisite_requests_keep:
  "wp (prerequisite_requests r cd t items seen reqs) (\<lambda>out _. set reqs \<subseteq> set out) s"
proof (induction items arbitrary: seen reqs s)
  case (Cons w items)
  have "wp (prerequisite_requests r cd t items seen' (reqs @ xs)) (\<lambda>out _. set reqs \<subseteq> set out) s'" for seen' xs s'
    by (rule wp_mono [OF Cons.IH]) auto
  from this [of _ "[]"] this show ?case
    by (auto simp: get_wsc_def wp_exec split: sum.splits)
qed simp

lemma prerequisite_requests_mem:
  "p \<in> set reqs \<Longrightarrow> wp (prerequisite_requests r cd t items seen reqs) (\<lambda>out _. p \<in> set out) s"
  by (rule wp_mono [OF prerequisite_requests_keep]) auto

lemma prerequisite_requests_hit:
  assumes "w \<in> set items" and "cdr_Name (wss_ClusterDeploymentRef (wsd_Spec w)) = cd"
    and "\<And>v. \<exists>wsc. fst (api_get_wsc (r_api r) (wss_WorkspaceClassRef (wsd_Spec w)) v) = Inr wsc \<and> declares_template r wsc t"
    and "\<forall>x \<in> set items. wsd_Namespace x = n" and "\<And>m. m \<in> set seen \<Longrightarrow> (n, m) \<in> set reqs"
  shows "wp (prerequisite_requests r cd t items seen reqs) (\<lambda>out _. (n, wsd_Name w) \<in> set out) s"
  using assms(1,4,5)
proof (induction items arbitrary: seen reqs s)
  case (Cons y items seen reqs s)
  show ?case
  proof (cases "y = w")
    case True
    obtain wsc where "fst (api_get_wsc (r_api r) (wss_WorkspaceClassRef (wsd_Spec w)) (rs_world s)) = Inr wsc"
      "declares_template r wsc t"
      using assms(3) by blast
    with True assms(2) Cons.prems show ?thesis by (auto simp: get_wsc_def wp_exec intro!: prerequisite_requests_mem)
  next
    case False
    with Cons.prems have w: "w \<in> set items" by auto
    have ih: "wp (prerequisite_requests r cd t items seen' reqs') (\<lambda>out _. (n, wsd_Name w) \<in> set out) s'"
      if "\<forall>m \<in> set seen'. (n, m) \<in> set reqs'" for seen' reqs' s'
      by (rule Cons.IH [OF w]) (use Cons.prems that in auto)
    have ns: "wsd_Namespace y = n" using Cons.prems by simp
    show ?thesis
      by (cases "fst (api_get_wsc (r_api r) (wss_WorkspaceClassRef (wsd_Spec y)) (rs_world s))")
        (use Cons.prems(3) in \<open>simp_all add: get_wsc_def wp_exec ns ih\<close>)
  qed
qed simp

lemma prerequisite_requests_miss:
  "\<forall>x \<in> set items. cdr_Name (wss_ClusterDeploymentRef (wsd_Spec x)) \<noteq> cd \<Longrightarrow>
   wp (prerequisite_requests r cd t items seen reqs) (\<lambda>out _. out = reqs) s"
  by (induction items) auto

text \<open>
  Events of prerequisites reach their workspaces.  Take a prerequisite ServiceSet built for a
  cluster by \<open>prerequisite_serviceset\<close>, and a listed workspace on that cluster whose class
  declares the prerequisite.  If the cluster's name is its own label value, the watch mapper
  requests the workspace.  If the name is not a valid label value (it is longer than 63 characters,
  say), the label holds a hashed name, the mapper compares it with the raw name, and no workspace
  of the cluster is requested.
\<close>

theorem watch_wakes_prerequisite_users:
  assumes "fst (api_list_wsds (r_api r) (Some (cdr_Namespace cdRef)) (rs_world s)) = Inr items" and "w \<in> set items"
    and "\<forall>x \<in> set items. wsd_Namespace x = cdr_Namespace cdRef"
    and "cdr_Name (wss_ClusterDeploymentRef (wsd_Spec w)) = cdr_Name cdRef"
    and "\<And>v. \<exists>c. fst (api_get_wsc (r_api r) (wss_WorkspaceClassRef (wsd_Spec w)) v) = Inr c \<and>
           prereq \<in> set (wsc_Prerequisites (wsc_Spec c))"
    and "cdr_Name cdRef \<noteq> []" and "sanitizeLabelValue (r_sha r) (str_Name (pq_ServiceTemplate prereq)) \<noteq> []"
  shows "\<exists>out s'. run_state (workspaceDeploymentForServiceSet r (prerequisite_serviceset r cdRef wsc prereq vals)) s = (out, s') \<and>
    (sanitizeLabelValue (r_sha r) (cdr_Name cdRef) = cdr_Name cdRef \<longrightarrow> (wsd_Namespace w, wsd_Name w) \<in> set out) \<and>
    (sanitizeLabelValue (r_sha r) (cdr_Name cdRef) \<noteq> cdr_Name cdRef \<and>
       (\<forall>x \<in> set items. cdr_Name (wss_ClusterDeploymentRef (wsd_Spec x)) = cdr_Name cdRef) \<longrightarrow> out = [])"
proof -
  let ?ss = "prerequisite_serviceset r cdRef wsc prereq vals"
  let ?t = "sanitizeLabelValue (r_sha r) (str_Name (pq_ServiceTemplate prereq))"
  have labels: "isPrerequisiteServiceSet ?ss" "ss_Namespace ?ss = cdr_Namespace cdRef"
    "lget (ss_Labels ?ss) labelPrerequisiteCluster = sanitizeLabelValue (r_sha r) (cdr_Name cdRef)"
    "lget (ss_Labels ?ss) labelPrerequisiteTemplate = ?t"
    by (simp_all add: prerequisite_serviceset_def Let_def lget_def isPrerequisiteServiceSet_def)
  have cls: "\<exists>c. fst (api_get_wsc (r_api r) (wss_WorkspaceClassRef (wsd_Spec w)) v) = Inr c \<and> declares_template r c ?t" for v
    using assms(5) [of v] by (auto simp: declares_template_def list_ex_iff)
  have hit: "wp (prerequisite_requests r (cdr_Name cdRef) ?t items [] []) (\<lambda>out _. (wsd_Namespace w, wsd_Name w) \<in> set out) s'" for s'
    using prerequisite_requests_hit [OF assms(2,4) cls assms(3), of "[]" "[]" s'] assms(2,3) by simp
  have run: "wp (workspaceDeploymentForServiceSet r ?ss) Q s"
    if "\<And>s'. wp (prerequisite_requests r (sanitizeLabelValue (r_sha r) (cdr_Name cdRef)) ?t items [] []) Q s'"
      "\<And>s'. sanitizeLabelValue (r_sha r) (cdr_Name cdRef) = [] \<Longrightarrow> Q [] s'" for Q
    using assms(1,7) that by (simp add: workspaceDeploymentForServiceSet_def labels wp_exec Let_def)
  have "wp (workspaceDeploymentForServiceSet r ?ss) (\<lambda>out _.
      (sanitizeLabelValue (r_sha r) (cdr_Name cdRef) = cdr_Name cdRef \<longrightarrow> (wsd_Namespace w, wsd_Name w) \<in> set out) \<and>
      (sanitizeLabelValue (r_sha r) (cdr_Name cdRef) \<noteq> cdr_Name cdRef \<and>
         (\<forall>x \<in> set items. cdr_Name (wss_ClusterDeploymentRef (wsd_Spec x)) = cdr_Name cdRef) \<longrightarrow> out = [])) s"
  proof (rule run, goal_cases)
    case (1 s')
    have "wp (prerequisite_requests r (sanitizeLabelValue (r_sha r) (cdr_Name cdRef)) ?t items [] []) (\<lambda>out _. out = []) s'"
      if "sanitizeLabelValue (r_sha r) (cdr_Name cdRef) \<noteq> cdr_Name cdRef"
        "\<forall>x \<in> set items. cdr_Name (wss_ClusterDeploymentRef (wsd_Spec x)) = cdr_Name cdRef"
      by (rule prerequisite_requests_miss) (use that in auto)
    with hit [of s'] show ?case by (auto simp: wp_def split: prod.splits)
  qed (use assms(6) in auto)
  then show ?thesis by (auto simp: wp_def split: prod.splits)
qed

definition demo_listing :: "(int, int) reconciler" where
  "demo_listing = demo_r\<lparr>r_api := demo_api\<lparr>api_list_wsds := (\<lambda>_ v. (Inr [demo_wsd ''cd'' ''w''], v)),
     api_get_wsc := (\<lambda>_ v. (Inr (demo_wsc [demo_prereq ''tpl'']), v))\<rparr>\<rparr>"

lemma demo_labels: "sanitizeLabelValue sha ''cd'' = ''cd''" "sanitizeLabelValue sha ''tpl'' = ''tpl''"
  by (simp_all add: sanitizeLabelValue_def labelValueRE_def is_label_char_def is_alnum_def)

theorem watch_wakes_prerequisite_users_witness:
  "\<exists>out s'. run_state (workspaceDeploymentForServiceSet demo_listing
       (prerequisite_serviceset demo_listing \<lparr>cdr_Name = ''cd'', cdr_Namespace = ''org''\<rparr> (demo_wsc []) (demo_prereq ''tpl'') []))
       (demo_s (demo_wsd [] [])) = (out, s') \<and> (''org'', ''w'') \<in> set out"
  using watch_wakes_prerequisite_users [of demo_listing "\<lparr>cdr_Name = ''cd'', cdr_Namespace = ''org''\<rparr>"
      "demo_s (demo_wsd [] [])" "[demo_wsd ''cd'' ''w'']" "demo_wsd ''cd'' ''w''" "demo_prereq ''tpl''" "demo_wsc []" "[]"]
  by (simp add: demo_listing_def demo_wsd_def demo_wsc_def demo_prereq_def demo_labels)

end
