(* ===== verification/Gateway_Api.thy ===== *)
theory Gateway_Api
  imports Namespaces
begin

text \<open>
  What the Gateway API route provider reads and writes: the objects of \<open>gateway-api\<close> and
  \<open>core/v1\<close> with the fields the provider touches, the clusters it calls as a record of functions
  over a world of any type, and the trace of those calls.

  The API machinery (\<open>apimeta.IsStatusConditionTrue\<close>, \<open>apiequality.Semantic\<close>) is not in the
  repository: it appears as the functions \<open>ga_cond_true\<close>, \<open>ga_spec_equal\<close> and
  \<open>ga_ports_derivative\<close>.  A remote client is identified with the kubeconfig it was built from.
\<close>

section \<open>Objects\<close>

text \<open>\<open>ProtocolType\<close> is a string in the Gateway API.\<close>

abbreviation HTTPProtocolType :: string where "HTTPProtocolType \<equiv> ''HTTP''"
abbreviation HTTPSProtocolType :: string where "HTTPSProtocolType \<equiv> ''HTTPS''"
abbreviation TCPProtocolType :: string where "TCPProtocolType \<equiv> ''TCP''"

record Listener =
  l_Name :: string
  l_Hostname :: "string option"
  l_Port :: int
  l_Protocol :: string

record Gateway =
  gw_Listeners :: "Listener list"
  gw_Conditions :: "Condition list"

text \<open>
  References.  Group, kind and weight are never set by the provider; the API server fills them
  with defaults, so they take part in comparisons.
\<close>

record ParentReference =
  pr_Group :: "string option"
  pr_Kind :: "string option"
  pr_Namespace :: "string option"
  pr_Name :: string
  pr_SectionName :: "string option"

record BackendRef =
  br_Group :: "string option"
  br_Kind :: "string option"
  br_Name :: string
  br_Port :: "int option"
  br_Weight :: "int option"

record RouteParentStatus =
  rps_ParentRef :: ParentReference
  rps_Conditions :: "Condition list"

text \<open>A TCP rule is its backends.\<close>

record TCPRoute =
  tr_Name :: string
  tr_Namespace :: string
  tr_Labels :: labels
  tr_ParentRefs :: "ParentReference list"
  tr_Rules :: "BackendRef list list"
  tr_Parents :: "RouteParentStatus list"

text \<open>\<open>hrr_Matches\<close> stands for the match conditions of a rule, left empty by the provider.\<close>

record HTTPRouteRule =
  hrr_Matches :: "string list"
  hrr_BackendRefs :: "BackendRef list"

record HTTPRouteSpec =
  hrs_ParentRefs :: "ParentReference list"
  hrs_Hostnames :: "string list"
  hrs_Rules :: "HTTPRouteRule list"

record HTTPRoute =
  hr_Name :: string
  hr_Namespace :: string
  hr_Labels :: labels
  hr_Spec :: HTTPRouteSpec
  hr_Parents :: "RouteParentStatus list"

record ServicePort =
  sp_Name :: string
  sp_Port :: int
  sp_Protocol :: string
  sp_TargetPort :: int

record Service =
  svc_Name :: string
  svc_Namespace :: string
  svc_Labels :: "labels option"
  svc_Ports :: "ServicePort list"

text \<open>\<open>metav1.PartialObjectMetadata\<close>.\<close>

record ObjectMeta =
  om_Name :: string
  om_Namespace :: string
  om_Labels :: labels

section \<open>The outside\<close>

text \<open>
  \<open>ga_list_wsd_names\<close> is \<open>List\<close> of the WorkspaceDeployments of all namespaces, of which the sweeper
  reads the names.
\<close>

record 'w gateway_api =
  \<comment> \<open>management cluster\<close>
  ga_get_cd :: "string \<Rightarrow> string \<Rightarrow> 'w \<Rightarrow> (goerr + ObjectMeta) \<times> 'w"
  ga_list_cds :: "string \<Rightarrow> string \<Rightarrow> string \<Rightarrow> 'w \<Rightarrow> (goerr + ClusterDeployment list) \<times> 'w"
  ga_list_wsd_names :: "'w \<Rightarrow> (goerr + string list) \<times> 'w"
  ga_list_cd_metas :: "string \<Rightarrow> string \<Rightarrow> 'w \<Rightarrow> (goerr + ObjectMeta list) \<times> 'w"
  ga_get_secret :: "string \<Rightarrow> string \<Rightarrow> 'w \<Rightarrow> (goerr + Secret) \<times> 'w"
  ga_rest_config :: "kubeconfig \<Rightarrow> goerr option"
  ga_new_client :: "kubeconfig \<Rightarrow> 'w \<Rightarrow> goerr option \<times> 'w"
  \<comment> \<open>remote clusters\<close>
  ga_get_gateway :: "kubeconfig \<Rightarrow> string \<Rightarrow> string \<Rightarrow> 'w \<Rightarrow> (goerr + Gateway) \<times> 'w"
  ga_get_ns :: "kubeconfig \<Rightarrow> string \<Rightarrow> 'w \<Rightarrow> (goerr + Namespace) \<times> 'w"
  ga_list_ns :: "kubeconfig \<Rightarrow> string \<Rightarrow> 'w \<Rightarrow> (goerr + Namespace list) \<times> 'w"
  ga_create_ns :: "kubeconfig \<Rightarrow> Namespace \<Rightarrow> 'w \<Rightarrow> goerr option \<times> 'w"
  ga_update_ns :: "kubeconfig \<Rightarrow> Namespace \<Rightarrow> 'w \<Rightarrow> goerr option \<times> 'w"
  ga_delete_ns :: "kubeconfig \<Rightarrow> string \<Rightarrow> 'w \<Rightarrow> goerr option \<times> 'w"
  ga_get_svc :: "kubeconfig \<Rightarrow> string \<Rightarrow> string \<Rightarrow> 'w \<Rightarrow> (goerr + Service) \<times> 'w"
  ga_create_svc :: "kubeconfig \<Rightarrow> Service \<Rightarrow> 'w \<Rightarrow> goerr option \<times> 'w"
  ga_update_svc :: "kubeconfig \<Rightarrow> Service \<Rightarrow> 'w \<Rightarrow> goerr option \<times> 'w"
  ga_get_http :: "kubeconfig \<Rightarrow> string \<Rightarrow> string \<Rightarrow> 'w \<Rightarrow> (goerr + HTTPRoute) \<times> 'w"
  ga_create_http :: "kubeconfig \<Rightarrow> HTTPRoute \<Rightarrow> 'w \<Rightarrow> goerr option \<times> 'w"
  ga_update_http :: "kubeconfig \<Rightarrow> HTTPRoute \<Rightarrow> 'w \<Rightarrow> (goerr + HTTPRoute) \<times> 'w"
  ga_get_tcp :: "kubeconfig \<Rightarrow> string \<Rightarrow> string \<Rightarrow> 'w \<Rightarrow> (goerr + TCPRoute) \<times> 'w"
  ga_list_tcp :: "kubeconfig \<Rightarrow> 'w \<Rightarrow> (goerr + TCPRoute list) \<times> 'w"
  ga_create_tcp :: "kubeconfig \<Rightarrow> TCPRoute \<Rightarrow> 'w \<Rightarrow> goerr option \<times> 'w"
  ga_update_tcp :: "kubeconfig \<Rightarrow> TCPRoute \<Rightarrow> 'w \<Rightarrow> (goerr + TCPRoute) \<times> 'w"
  ga_delete_tcps :: "kubeconfig \<Rightarrow> string \<Rightarrow> labels \<Rightarrow> 'w \<Rightarrow> goerr option \<times> 'w"
  \<comment> \<open>API machinery\<close>
  ga_cond_true :: "Condition list \<Rightarrow> string \<Rightarrow> bool"
  ga_spec_equal :: "HTTPRouteSpec \<Rightarrow> HTTPRouteSpec \<Rightarrow> bool"
  ga_ports_derivative :: "ServicePort list \<Rightarrow> ServicePort list \<Rightarrow> bool"

text \<open>
  \<open>Update\<close> decodes the server's answer into the object it was given, and the provider reads the
  status of that object afterwards: the two route updates therefore return the object.
\<close>

datatype gev =
    GGetCD string string "goerr + ObjectMeta"
  | GListCDs string string string "goerr + ClusterDeployment list"
  | GListWsds "goerr + string list"
  | GListCDMetas string string "goerr + ObjectMeta list"
  | GGetSecret string string "goerr + Secret"
  | GNewClient kubeconfig "goerr option"
  | GGetGateway kubeconfig string string "goerr + Gateway"
  | GGetNs kubeconfig string "goerr + Namespace"
  | GListNs kubeconfig string "goerr + Namespace list"
  | GCreateNs kubeconfig Namespace "goerr option"
  | GUpdateNs kubeconfig Namespace "goerr option"
  | GDeleteNs kubeconfig string "goerr option"
  | GGetSvc kubeconfig string string "goerr + Service"
  | GCreateSvc kubeconfig Service "goerr option"
  | GUpdateSvc kubeconfig Service "goerr option"
  | GGetHTTP kubeconfig string string "goerr + HTTPRoute"
  | GCreateHTTP kubeconfig HTTPRoute "goerr option"
  | GUpdateHTTP kubeconfig HTTPRoute "goerr + HTTPRoute"
  | GGetTCP kubeconfig string string "goerr + TCPRoute"
  | GListTCP kubeconfig "goerr + TCPRoute list"
  | GCreateTCP kubeconfig TCPRoute "goerr option"
  | GUpdateTCP kubeconfig TCPRoute "goerr + TCPRoute"
  | GDeleteTCPs kubeconfig string labels "goerr option"

type_synonym ('w, 'a) gwm = "('w, gev, 'a) calls"

fun gev_read :: "gev \<Rightarrow> bool" where
  "gev_read (GCreateNs _ _ _) = False"
| "gev_read (GUpdateNs _ _ _) = False"
| "gev_read (GDeleteNs _ _ _) = False"
| "gev_read (GCreateSvc _ _ _) = False"
| "gev_read (GUpdateSvc _ _ _) = False"
| "gev_read (GCreateHTTP _ _ _) = False"
| "gev_read (GUpdateHTTP _ _ _) = False"
| "gev_read (GCreateTCP _ _ _) = False"
| "gev_read (GUpdateTCP _ _ _) = False"
| "gev_read (GDeleteTCPs _ _ _ _) = False"
| "gev_read _ = True"

section \<open>Configuration and errors\<close>

record Config =
  cfg_GatewayName :: string
  cfg_GatewayNamespace :: string
  cfg_Mesh :: MeshConfig

text \<open>A provider with the outside it runs in.\<close>

record 'w provider =
  p_cfg :: Config
  p_api :: "'w gateway_api"
  p_sha :: "string \<Rightarrow> nat list"

definition DefaultGatewayName :: string where "DefaultGatewayName = ''istio-ingressgateway''"

definition DefaultGatewayNamespace :: string where "DefaultGatewayNamespace = ''istio-system''"

definition maxHostnameLabel :: nat where "maxHostnameLabel = 63"

definition labelIstioGlobal :: string where "labelIstioGlobal = ''istio.io/global''"

definition labelIstioGlobalValue :: string where "labelIstioGlobalValue = ''true''"

definition msgAwaitingAcceptance :: string where
  "msgAwaitingAcceptance = ''waiting for the gateway to accept the route''"

definition InfraNotReadyError :: "string \<Rightarrow> goerr" where
  "InfraNotReadyError reason = \<lparr>ekind = KInfraNotReady, emsg = reason\<rparr>"

definition IsInfraNotReady :: "goerr \<Rightarrow> bool" where
  "IsInfraNotReady e \<longleftrightarrow> ekind e = KInfraNotReady"

lemma IsInfraNotReady_simps [simp]:
  "IsInfraNotReady (InfraNotReadyError m)"
  "IsInfraNotReady (wrapf c e) = IsInfraNotReady e"
  "\<not> IsInfraNotReady (errorf m)"
  by (simp_all add: IsInfraNotReady_def InfraNotReadyError_def errorf_def)

abbreviation IsNoMatchError :: "goerr \<Rightarrow> bool" where
  "IsNoMatchError e \<equiv> ekind e = KNoMatch"

text \<open>The em dash of the messages, in UTF-8.\<close>

definition em_dash :: string where "em_dash = map char_of [226, 128, 148 :: nat]"

text \<open>\<open>string(protocol)\<close>.\<close>

fun protocol_string :: "RouteProtocol \<Rightarrow> string" where
  "protocol_string RouteProtocolHTTP = ''HTTP''"
| "protocol_string RouteProtocolTCP = ''TCP''"
| "protocol_string RouteProtocolSSH = ''SSH''"

section \<open>Routes attached to a gateway\<close>

definition parent_is :: "string \<Rightarrow> string \<Rightarrow> ParentReference \<Rightarrow> bool" where
  "parent_is gwName gwNamespace ref \<longleftrightarrow>
     pr_Name ref = gwName \<and> (pr_Namespace ref = None \<or> pr_Namespace ref = Some gwNamespace)"

fun parentsProgrammed ::
  "'w gateway_api \<Rightarrow> RouteParentStatus list \<Rightarrow> string \<Rightarrow> string \<Rightarrow> bool" where
  "parentsProgrammed api [] gwName gwNamespace = False"
| "parentsProgrammed api (parent # parents) gwName gwNamespace =
     (let ref = rps_ParentRef parent in
      if pr_Name ref \<noteq> gwName then parentsProgrammed api parents gwName gwNamespace
      else if (case pr_Namespace ref of None \<Rightarrow> False | Some ns \<Rightarrow> ns \<noteq> gwNamespace)
      then parentsProgrammed api parents gwName gwNamespace
      else ga_cond_true api (rps_Conditions parent) ''Accepted'' \<and>
           ga_cond_true api (rps_Conditions parent) ''ResolvedRefs'')"

text \<open>The first status of our gateway decides.\<close>

lemma parentsProgrammed_find:
  "parentsProgrammed api parents gwName gwNs =
     (case find (\<lambda>p. parent_is gwName gwNs (rps_ParentRef p)) parents of
        None \<Rightarrow> False
      | Some p \<Rightarrow> ga_cond_true api (rps_Conditions p) ''Accepted'' \<and>
                  ga_cond_true api (rps_Conditions p) ''ResolvedRefs'')"
  by (induction parents) (auto simp: parent_is_def Let_def split: option.splits)

lemma parentsProgrammed_Nil: "parentsProgrammed api parents gwName gwNs \<Longrightarrow> parents \<noteq> []"
  by auto

end
