(* ===== verification/Port_Pool.thy ===== *)
theory Port_Pool
  imports Gateway_Api
begin

text \<open>
  \<open>internal/controller/workspaces/routing/gatewayapi/portpool.go\<close>: SSH and TCP endpoints get a
  port of the tenant Gateway's pool of TCP listeners.  There is no allocation store: the TCPRoutes
  attached to the gateway are the table.

  \<open>sort.Slice\<close> is not stable; listeners of one Gateway have distinct ports (the Gateway API
  rejects two TCP listeners on one port), and then any sort gives the same pool.
\<close>

section \<open>Operations\<close>

record poolListener =
  pl_section :: string
  pl_port :: int

definition tcpListeners :: "Gateway \<Rightarrow> poolListener list" where
  "tcpListeners gw =
     sort_key pl_port
       (map (\<lambda>l. \<lparr>pl_section = l_Name l, pl_port = l_Port l\<rparr>)
         (filter (\<lambda>l. l_Protocol l = TCPProtocolType) (gw_Listeners gw)))"

fun poolPort :: "poolListener list \<Rightarrow> string \<Rightarrow> int option" where
  "poolPort [] section = None"
| "poolPort (l # pool) section = (if pl_section l = section then Some (pl_port l) else poolPort pool section)"

definition poolURL :: "RouteProtocol \<Rightarrow> string \<Rightarrow> int \<Rightarrow> string" where
  "poolURL protocol domain port =
     to_lower (protocol_string protocol) @ ''://'' @ domain @ '':'' @ fmt_d port"

definition equalPortPtr :: "int option \<Rightarrow> int option \<Rightarrow> bool" where
  "equalPortPtr a b = (case (a, b) of (Some x, Some y) \<Rightarrow> x = y | _ \<Rightarrow> a = None \<and> b = None)"

definition routeRulesEqual :: "BackendRef list list \<Rightarrow> BackendRef list \<Rightarrow> bool" where
  "routeRulesEqual rules desired =
     (case rules of
        [refs] \<Rightarrow>
          length refs = length desired \<and>
          list_all2 (\<lambda>got want. br_Name got = br_Name want \<and> equalPortPtr (br_Port got) (br_Port want)) refs desired
      | _ \<Rightarrow> False)"

fun section_of_refs :: "string \<Rightarrow> string \<Rightarrow> string \<Rightarrow> ParentReference list \<Rightarrow> string" where
  "section_of_refs gwName gwNamespace routeNs [] = []"
| "section_of_refs gwName gwNamespace routeNs (ref # refs) =
     (case pr_SectionName ref of
        None \<Rightarrow> section_of_refs gwName gwNamespace routeNs refs
      | Some sec \<Rightarrow>
          if pr_Name ref \<noteq> gwName then section_of_refs gwName gwNamespace routeNs refs
          else
            let ns = (case pr_Namespace ref of None \<Rightarrow> routeNs | Some ns \<Rightarrow> ns) in
            if ns = gwNamespace then sec else section_of_refs gwName gwNamespace routeNs refs)"

definition allocatedSection :: "TCPRoute \<Rightarrow> string \<Rightarrow> string \<Rightarrow> string" where
  "allocatedSection route gwName gwNamespace =
     section_of_refs gwName gwNamespace (tr_Namespace route) (tr_ParentRefs route)"

abbreviation section_held :: "'w provider \<Rightarrow> TCPRoute \<Rightarrow> string" where
  "section_held p route \<equiv> allocatedSection route (cfg_GatewayName (p_cfg p)) (cfg_GatewayNamespace (p_cfg p))"

text \<open>The sections held by the routes of a list: the keys of the map \<open>allocated\<close>.\<close>

definition held_sections :: "'w provider \<Rightarrow> TCPRoute list \<Rightarrow> string list" where
  "held_sections p routes = filter (\<lambda>s. s \<noteq> []) (map (section_held p) routes)"

definition allocatedSections :: "'w provider \<Rightarrow> kubeconfig \<Rightarrow> ('w, goerr + string list) gwm" where
  "allocatedSections p c = do {
     lr \<leftarrow> call (GListTCP c) (ga_list_tcp (p_api p) c);
     (case lr of
        Inl e \<Rightarrow> State_Monad.return (Inl (wrapf ''failed to list TCPRoutes for port allocation'' e))
      | Inr routes \<Rightarrow> State_Monad.return (Inr (held_sections p routes)))
   }"

text \<open>The loop over the pool: the first listener that is not allocated.\<close>

fun choose_listener :: "string list \<Rightarrow> poolListener list \<Rightarrow> poolListener option" where
  "choose_listener allocated [] = None"
| "choose_listener allocated (l # pool) =
     (if pl_section l \<notin> set allocated then Some l else choose_listener allocated pool)"

record gatewayContext =
  gc_regionalClient :: kubeconfig
  gc_domain :: string
  gc_scheme :: string
  gc_gateway :: Gateway

definition desired_backends :: "string \<Rightarrow> AccessEndpoint \<Rightarrow> BackendRef list" where
  "desired_backends svcName ep =
     [\<lparr>br_Group = None, br_Kind = None, br_Name = svcName, br_Port = Some (ep_Port ep), br_Weight = None\<rparr>]"

definition new_tcp_route ::
  "'w provider \<Rightarrow> string \<Rightarrow> string \<Rightarrow> string \<Rightarrow> AccessEndpoint \<Rightarrow> string \<Rightarrow> TCPRoute" where
  "new_tcp_route p nsName svcName workspaceName ep section =
     \<lparr>tr_Name = ep_Name ep, tr_Namespace = nsName, tr_Labels = [(LabelWorkspace, workspaceName)],
      tr_ParentRefs = [\<lparr>pr_Group = None, pr_Kind = None, pr_Namespace = Some (cfg_GatewayNamespace (p_cfg p)),
                        pr_Name = cfg_GatewayName (p_cfg p), pr_SectionName = Some section\<rparr>],
      tr_Rules = [desired_backends svcName ep], tr_Parents = []\<rparr>"

definition ensureTCPRoute ::
  "'w provider \<Rightarrow> gatewayContext \<Rightarrow> string \<Rightarrow> string \<Rightarrow> string \<Rightarrow> AccessEndpoint
   \<Rightarrow> ('w, goerr + AccessEntry) gwm" where
  "ensureTCPRoute p gwCtx nsName svcName workspaceName ep = do {
     let entry = \<lparr>ae_Name = ep_Name ep, ae_Protocol = ep_Protocol ep, ae_URL = [], ae_Ready = False, ae_Message = []\<rparr>;
     let pool = tcpListeners (gc_gateway gwCtx);
     let gwName = cfg_GatewayName (p_cfg p);
     let gwNs = cfg_GatewayNamespace (p_cfg p);
     let c = gc_regionalClient gwCtx;
     if pool = [] then
       State_Monad.return (Inr (entry\<lparr>ae_Message := ''tenant Gateway '' @ gwNs @ ''/'' @ gwName @
         '' has no TCP listeners (port pool) '' @ em_dash @ '' ask an administrator to provision one''\<rparr>))
     else do {
       let desiredBackends = desired_backends svcName ep;
       rr \<leftarrow> call (GGetTCP c nsName (ep_Name ep)) (ga_get_tcp (p_api p) c nsName (ep_Name ep));
       (case rr of
          Inl err \<Rightarrow>
            if IsNoMatchError err then
              State_Monad.return (Inr (entry\<lparr>ae_Message :=
                ''TCPRoute support (Gateway API experimental channel) is not installed on the regional cluster''\<rparr>))
            else if IsNotFound err then do {
              ar \<leftarrow> allocatedSections p c;
              (case ar of
                 Inl listErr \<Rightarrow> State_Monad.return (Inl listErr)
               | Inr allocated \<Rightarrow>
                   (case choose_listener allocated pool of
                      None \<Rightarrow> State_Monad.return (Inr (entry\<lparr>ae_Message := ''port pool exhausted: all '' @
                        fmt_d (int (length pool)) @ '' TCP listeners on the tenant Gateway are in use '' @ em_dash @
                        '' ask an administrator to widen the pool''\<rparr>))
                    | Some chosen \<Rightarrow> do {
                        let route = new_tcp_route p nsName svcName workspaceName ep (pl_section chosen);
                        ce \<leftarrow> call (GCreateTCP c route) (ga_create_tcp (p_api p) c route);
                        let created = entry\<lparr>ae_URL := poolURL (ep_Protocol ep) (gc_domain gwCtx) (pl_port chosen),
                                            ae_Message := msgAwaitingAcceptance\<rparr>;
                        (case ce of
                           None \<Rightarrow> State_Monad.return (Inr created)
                         | Some e \<Rightarrow>
                             if IsAlreadyExists e then State_Monad.return (Inr created)
                             else State_Monad.return (Inl (wrapf (''failed to create TCPRoute '' @ fmt_q (ep_Name ep)) e)))
                      }))
            }
            else State_Monad.return (Inl (wrapf (''failed to get TCPRoute '' @ fmt_q (ep_Name ep)) err))
        | Inr route \<Rightarrow>
            let section = allocatedSection route gwName gwNs in
            if section = [] then
              State_Monad.return (Inr (entry\<lparr>ae_Message := ''TCPRoute exists but is not attached to the tenant Gateway '' @
                em_dash @ '' delete and recreate the workspace''\<rparr>))
            else
              (case poolPort pool section of
                 None \<Rightarrow> State_Monad.return (Inr (entry\<lparr>ae_Message := ''allocated listener '' @ fmt_q section @
                   '' no longer exists on the tenant Gateway '' @ em_dash @ '' the pool shrank under a live workspace''\<rparr>))
               | Some port \<Rightarrow> do {
                   ur \<leftarrow> (if routeRulesEqual (tr_Rules route) desiredBackends then State_Monad.return (Inr route)
                          else
                            let route' = route\<lparr>tr_Rules := [desiredBackends]\<rparr> in
                            call (GUpdateTCP c route') (ga_update_tcp (p_api p) c route'));
                   (case ur of
                      Inl e \<Rightarrow> State_Monad.return (Inl (wrapf (''failed to update TCPRoute '' @ fmt_q (ep_Name ep)) e))
                    | Inr route \<Rightarrow>
                        let ready = parentsProgrammed (p_api p) (tr_Parents route) gwName gwNs in
                        State_Monad.return (Inr (entry\<lparr>ae_URL := poolURL (ep_Protocol ep) (gc_domain gwCtx) port,
                          ae_Ready := ready, ae_Message := (if ready then [] else msgAwaitingAcceptance)\<rparr>)))
                 }))
     }
   }"

section \<open>The pool\<close>

lemma sorted_tcpListeners: "sorted (map pl_port (tcpListeners gw))"
  by (simp add: tcpListeners_def)

lemma set_tcpListeners:
  "l \<in> set (tcpListeners gw) \<longleftrightarrow>
     (\<exists>x \<in> set (gw_Listeners gw). l_Protocol x = TCPProtocolType \<and> l = \<lparr>pl_section = l_Name x, pl_port = l_Port x\<rparr>)"
  by (auto simp: tcpListeners_def)

lemma sections_tcpListeners:
  "pl_section ` set (tcpListeners gw) = l_Name ` {x \<in> set (gw_Listeners gw). l_Protocol x = TCPProtocolType}"
  by (force simp: tcpListeners_def image_iff)

lemma choose_listener_None: "choose_listener allocated pool = None \<longleftrightarrow> pl_section ` set pool \<subseteq> set allocated"
  by (induction pool) auto

lemma choose_listener_Some:
  "choose_listener allocated pool = Some l \<Longrightarrow> l \<in> set pool \<and> pl_section l \<notin> set allocated"
  by (induction pool) (auto split: if_splits)

lemma choose_listener_least:
  assumes "sorted (map pl_port pool)" and "choose_listener allocated pool = Some l"
    and "x \<in> set pool" and "pl_section x \<notin> set allocated"
  shows "pl_port l \<le> pl_port x"
  using assms by (induction pool) (auto split: if_splits)

lemma poolPort_None: "poolPort pool section = None \<longleftrightarrow> section \<notin> pl_section ` set pool"
  by (induction pool) auto

lemma poolPort_Some: "poolPort pool section = Some port \<Longrightarrow> \<lparr>pl_section = section, pl_port = port\<rparr> \<in> set pool"
  by (induction pool) (auto split: if_splits)

lemma poolPort_chosen:
  assumes "inj_on pl_section (set pool)" and "l \<in> set pool"
  shows "poolPort pool (pl_section l) = Some (pl_port l)"
  using assms by (induction pool) (auto simp: inj_on_def)

lemma equalPortPtr_eq [simp]: "equalPortPtr a b \<longleftrightarrow> a = b"
  by (cases a; cases b) (simp_all add: equalPortPtr_def)

lemma routeRulesEqual_desired [simp]: "routeRulesEqual [desired] desired"
  by (simp add: routeRulesEqual_def list_all2_same)

lemma allocatedSection_new [simp]:
  "section_held p (new_tcp_route p ns svc wsn ep section) = section"
  by (simp add: allocatedSection_def new_tcp_route_def)

lemma set_held_sections: "set (held_sections p routes) = section_held p ` set routes - {[]}"
  by (auto simp: held_sections_def)

section \<open>First fit\<close>

text \<open>
  The contract of the allocation loop: whatever is chosen is free and of least rank among the free
  ones, and nothing is chosen only if nothing is free.
\<close>

locale first_fit =
  fixes pick :: "'k list \<Rightarrow> 'l list \<Rightarrow> 'l option"
    and key :: "'l \<Rightarrow> 'k" and rank :: "'l \<Rightarrow> int" and ordered :: "'l list \<Rightarrow> bool"
  assumes pick_none: "pick taken pool = None \<longleftrightarrow> key ` set pool \<subseteq> set taken"
    and pick_some: "pick taken pool = Some l \<Longrightarrow> l \<in> set pool \<and> key l \<notin> set taken"
    and pick_min: "ordered pool \<Longrightarrow> pick taken pool = Some l \<Longrightarrow> x \<in> set pool \<Longrightarrow> key x \<notin> set taken \<Longrightarrow> rank l \<le> rank x"
begin

lemma room_left:
  assumes "inj_on key (set pool)" and "card (set taken) < card (set pool)"
  shows "\<exists>l. pick taken pool = Some l"
proof (rule ccontr)
  assume "\<not> ?thesis"
  then have "key ` set pool \<subseteq> set taken" using pick_none by (metis not_None_eq)
  then have "card (set pool) \<le> card (set taken)"
    using card_mono [of "set taken" "key ` set pool"] card_image [OF assms(1)] by simp
  with assms(2) show False by simp
qed

lemma monotone:
  assumes "ordered pool" and "set taken \<subseteq> set taken'" and "pick taken' pool = Some l'"
  shows "\<exists>l. pick taken pool = Some l \<and> rank l \<le> rank l'"
proof -
  have l': "l' \<in> set pool" "key l' \<notin> set taken" using pick_some [OF assms(3)] assms(2) by auto
  then have "pick taken pool \<noteq> None" using pick_none by auto
  then obtain l where "pick taken pool = Some l" by auto
  with pick_min [OF assms(1) this l'] show ?thesis by auto
qed

end

interpretation pool_fit: first_fit choose_listener pl_section pl_port "\<lambda>pool. sorted (map pl_port pool)"
  by unfold_locales (auto simp: choose_listener_None dest: choose_listener_Some intro: choose_listener_least)

section \<open>The allocation table\<close>

text \<open>
  The TCPRoutes of the regional cluster as a table, and what the API server documents of it, with
  no other client writing TCPRoutes meanwhile: reads do not change the table and return what it
  holds, a write stores the object up to defaults it fills in, a failed write may or may not have
  been applied, except that \<open>AlreadyExists\<close> means that the key was taken and nothing changed.
  Calls may fail at any time.
\<close>

type_synonym tcp_table = "(string \<times> string) \<Rightarrow> TCPRoute option"

definition tcp_key :: "TCPRoute \<Rightarrow> string \<times> string" where
  "tcp_key r = (tr_Namespace r, tr_Name r)"

definition same_attachment :: "TCPRoute \<Rightarrow> TCPRoute \<Rightarrow> bool" where
  "same_attachment r r' \<longleftrightarrow> tcp_key r' = tcp_key r \<and>
     map (\<lambda>x. (pr_Namespace x, pr_Name x, pr_SectionName x)) (tr_ParentRefs r') =
     map (\<lambda>x. (pr_Namespace x, pr_Name x, pr_SectionName x)) (tr_ParentRefs r)"

definition stores :: "TCPRoute \<Rightarrow> tcp_table \<Rightarrow> tcp_table \<Rightarrow> bool" where
  "stores r T T' \<longleftrightarrow> (\<exists>r'. same_attachment r r' \<and> T' = T(tcp_key r \<mapsto> r'))"

definition tcp_server :: "'w provider \<Rightarrow> kubeconfig \<Rightarrow> ('w \<Rightarrow> tcp_table) \<Rightarrow> bool" where
  "tcp_server p c tab \<longleftrightarrow>
     (\<forall>ns name w. (case ga_get_tcp (p_api p) c ns name w of (res, w') \<Rightarrow>
        tab w' = tab w \<and>
        (case res of Inr r \<Rightarrow> tab w (ns, name) = Some r | Inl e \<Rightarrow> IsNotFound e \<longrightarrow> tab w (ns, name) = None))) \<and>
     (\<forall>w. (case ga_list_tcp (p_api p) c w of (res, w') \<Rightarrow>
        tab w' = tab w \<and> (case res of Inr rs \<Rightarrow> set rs = ran (tab w) | Inl _ \<Rightarrow> True))) \<and>
     (\<forall>r w. (case ga_create_tcp (p_api p) c r w of (res, w') \<Rightarrow>
        (case res of
           None \<Rightarrow> tab w (tcp_key r) = None \<and> stores r (tab w) (tab w')
         | Some e \<Rightarrow>
             if IsAlreadyExists e then tab w (tcp_key r) \<noteq> None \<and> tab w' = tab w
             else tab w' = tab w \<or> tab w (tcp_key r) = None \<and> stores r (tab w) (tab w')))) \<and>
     (\<forall>r w. (case ga_update_tcp (p_api p) c r w of (res, w') \<Rightarrow>
        (case res of
           Inr r' \<Rightarrow> same_attachment r r' \<and> tab w' = (tab w)(tcp_key r \<mapsto> r')
         | Inl e \<Rightarrow> tab w' = tab w \<or> stores r (tab w) (tab w'))))"

definition keyed :: "tcp_table \<Rightarrow> bool" where
  "keyed T \<longleftrightarrow> (\<forall>k r. T k = Some r \<longrightarrow> tcp_key r = k)"

lemma section_of_refs_cong:
  assumes "map (\<lambda>x. (pr_Namespace x, pr_Name x, pr_SectionName x)) refs' =
    map (\<lambda>x. (pr_Namespace x, pr_Name x, pr_SectionName x)) refs"
  shows "section_of_refs gwName gwNs ns refs' = section_of_refs gwName gwNs ns refs"
  using assms
proof (induction refs arbitrary: refs')
  case (Cons x refs)
  then obtain y ys where ys: "refs' = y # ys" by (cases refs') auto
  with Cons.prems have "pr_Namespace y = pr_Namespace x" "pr_Name y = pr_Name x" "pr_SectionName y = pr_SectionName x"
    and tl: "map (\<lambda>x. (pr_Namespace x, pr_Name x, pr_SectionName x)) ys =
      map (\<lambda>x. (pr_Namespace x, pr_Name x, pr_SectionName x)) refs"
    by simp_all
  with Cons.IH [OF tl] ys show ?case by (simp split: option.split)
qed simp

lemma same_attachment_section:
  "same_attachment r r' \<Longrightarrow> allocatedSection r' gwName gwNs = allocatedSection r gwName gwNs"
  unfolding same_attachment_def allocatedSection_def tcp_key_def
  by (auto intro: section_of_refs_cong)

lemma stores_keyed: "stores r T T' \<Longrightarrow> keyed T \<Longrightarrow> keyed T'"
  unfolding stores_def keyed_def same_attachment_def by (metis fun_upd_apply option.inject)

section \<open>The abstract allocator\<close>

text \<open>
  What the pool promises: each owner (namespace and endpoint) holds at most one section, an owner
  keeps the section it has, a new owner gets the least free port, and is refused only when none is
  free.  The empty section is that of an owner whose route is attached to another gateway.
  \<open>Unsupported\<close> is a cluster without TCPRoutes.
\<close>

type_synonym allocation = "(string \<times> string) \<Rightarrow> string option"

datatype grant = Granted int | Exhausted | NoPool | Detached | Withdrawn | Unsupported

abbreviation taken :: "allocation \<Rightarrow> string set" where
  "taken A \<equiv> ran A - {[]}"

inductive alloc_step :: "poolListener set \<Rightarrow> string \<times> string \<Rightarrow> allocation \<Rightarrow> grant \<Rightarrow> allocation \<Rightarrow> bool"
  for pool :: "poolListener set" and k :: "string \<times> string" where
  keep: "A k = Some sec \<Longrightarrow> sec \<noteq> [] \<Longrightarrow> \<lparr>pl_section = sec, pl_port = port\<rparr> \<in> pool \<Longrightarrow>
    alloc_step pool k A (Granted port) A"
| fresh: "A k = None \<Longrightarrow> l \<in> pool \<Longrightarrow> pl_section l \<notin> taken A \<Longrightarrow>
    \<forall>x \<in> pool. pl_section x \<notin> taken A \<longrightarrow> pl_port l \<le> pl_port x \<Longrightarrow>
    alloc_step pool k A (Granted (pl_port l)) (A(k \<mapsto> pl_section l))"
| exhausted: "A k = None \<Longrightarrow> pl_section ` pool \<subseteq> taken A \<Longrightarrow> alloc_step pool k A Exhausted A"
| detached: "A k = Some [] \<Longrightarrow> alloc_step pool k A Detached A"
| withdrawn: "A k = Some sec \<Longrightarrow> sec \<notin> pl_section ` pool \<Longrightarrow> alloc_step pool k A Withdrawn A"
| empty: "pool = {} \<Longrightarrow> alloc_step pool k A NoPool A"
| unsupported: "alloc_step pool k A Unsupported A"

inductive_cases alloc_stepE: "alloc_step pool k A g A'"

definition exclusive :: "allocation \<Rightarrow> bool" where
  "exclusive A \<longleftrightarrow> (\<forall>k k' sec. A k = Some sec \<and> A k' = Some sec \<and> sec \<noteq> [] \<longrightarrow> k = k')"

lemma alloc_step_exclusive:
  assumes "alloc_step pool k A g A'" and "exclusive A"
  shows "exclusive A'"
  using assms(1)
proof cases
  case (fresh l)
  have "pl_section l = [] \<or> (\<forall>k'. A k' \<noteq> Some (pl_section l))"
    using fresh(5) by (auto simp: ran_def)
  with fresh(2) assms(2) show ?thesis
    unfolding exclusive_def by (metis fun_upd_apply option.inject)
qed (use assms(2) in simp_all)

lemma alloc_step_others: "alloc_step pool k A g A' \<Longrightarrow> k' \<noteq> k \<Longrightarrow> A' k' = A k'"
  by (auto elim!: alloc_stepE)

lemma alloc_step_sticky: "alloc_step pool k A g A' \<Longrightarrow> A k' = Some sec \<Longrightarrow> A' k' = Some sec"
  by (auto elim!: alloc_stepE)

definition alloc_of :: "'w provider \<Rightarrow> tcp_table \<Rightarrow> allocation" where
  "alloc_of p T k = map_option (section_held p) (T k)"

lemma alloc_of_stores:
  assumes "stores r T T'"
  shows "alloc_of p T' = (alloc_of p T)(tcp_key r \<mapsto> section_held p r)"
proof -
  obtain r' where "same_attachment r r'" "T' = T(tcp_key r \<mapsto> r')"
    using assms by (auto simp: stores_def)
  then show ?thesis by (simp add: alloc_of_def fun_eq_iff same_attachment_section)
qed

lemma ran_alloc_of: "ran (alloc_of p T) = section_held p ` ran T"
  by (auto simp: ran_def alloc_of_def)

end
