(* ===== verification/Port_Allocation.thy ===== *)
theory Port_Allocation
  imports Port_Pool
begin

text \<open>
  The port pool is an allocator: \<open>ensureTCPRoute\<close> against a server that keeps its TCPRoutes refines
  the abstract allocator of \<open>Port_Pool\<close>, and so no two endpoints ever share a port.
\<close>

section \<open>Refinement\<close>

text \<open>How an entry reports the decision of the allocator.\<close>

definition shows_grant :: "RouteProtocol \<Rightarrow> string \<Rightarrow> grant \<Rightarrow> AccessEntry \<Rightarrow> bool" where
  "shows_grant protocol domain g entry \<longleftrightarrow>
     (case g of
        Granted port \<Rightarrow> ae_URL entry = poolURL protocol domain port \<and>
          (ae_Ready entry \<or> ae_Message entry = msgAwaitingAcceptance)
      | _ \<Rightarrow> ae_URL entry = [] \<and> \<not> ae_Ready entry \<and>
          prefix (case g of
                    Exhausted \<Rightarrow> ''port pool exhausted''
                  | NoPool \<Rightarrow> ''tenant Gateway''
                  | Detached \<Rightarrow> ''TCPRoute exists but is not attached''
                  | Withdrawn \<Rightarrow> ''allocated listener''
                  | _ \<Rightarrow> ''TCPRoute support'') (ae_Message entry))"

text \<open>
  One call: a step of the allocator that the entry reports, \<open>Unsupported\<close> only when the cluster says
  that it has no such kind; or an error, and then nothing was allocated, or the write whose answer
  was lost allocated.
\<close>

definition refines ::
  "'w provider \<Rightarrow> ('w \<Rightarrow> tcp_table) \<Rightarrow> gatewayContext \<Rightarrow> string \<times> string \<Rightarrow> RouteProtocol
   \<Rightarrow> ('w, gev) cstate \<Rightarrow> goerr + AccessEntry \<Rightarrow> ('w, gev) cstate \<Rightarrow> bool" where
  "refines p tab g k protocol s res s' \<longleftrightarrow> keyed (tab (cs_world s')) \<and>
     (let A = alloc_of p (tab (cs_world s)); A' = alloc_of p (tab (cs_world s'));
          pool = set (tcpListeners (gc_gateway g))
      in case res of
           Inr entry \<Rightarrow>
             (\<exists>gr. alloc_step pool k A gr A' \<and> shows_grant protocol (gc_domain g) gr entry \<and>
                (gr = Unsupported \<longrightarrow>
                   (\<exists>e. IsNoMatchError e \<and> last (cs_trace s') = GGetTCP (gc_regionalClient g) (fst k) (snd k) (Inl e))))
         | Inl e \<Rightarrow> A' = A \<or> A k = None \<and> (\<exists>port. alloc_step pool k A (Granted port) A'))"

lemma refines_entry:
  assumes "keyed (tab (cs_world s'))"
    and "alloc_step (set (tcpListeners (gc_gateway g))) k (alloc_of p (tab (cs_world s))) gr (alloc_of p (tab (cs_world s')))"
    and "shows_grant protocol (gc_domain g) gr entry" and "gr \<noteq> Unsupported"
  shows "refines p tab g k protocol s (Inr entry) s'"
  using assms by (auto simp: refines_def)

lemma refines_unsupported:
  assumes "keyed (tab (cs_world s'))" and "tab (cs_world s') = tab (cs_world s)"
    and "last (cs_trace s') = GGetTCP (gc_regionalClient g) (fst k) (snd k) (Inl e)" and "IsNoMatchError e"
    and "shows_grant protocol (gc_domain g) Unsupported entry"
  shows "refines p tab g k protocol s (Inr entry) s'"
  using assms unfolding refines_def by (auto simp: Let_def intro!: exI [of _ Unsupported] alloc_step.unsupported)

lemma refines_error:
  "keyed (tab (cs_world s')) \<Longrightarrow> alloc_of p (tab (cs_world s')) = alloc_of p (tab (cs_world s)) \<Longrightarrow>
    refines p tab g k protocol s (Inl e) s'"
  by (simp add: refines_def)

lemma tcp_server_get:
  "tcp_server p c tab \<Longrightarrow> ga_get_tcp (p_api p) c ns name w = (res, w') \<Longrightarrow>
    tab w' = tab w \<and> (case res of Inr r \<Rightarrow> tab w (ns, name) = Some r | Inl e \<Rightarrow> IsNotFound e \<longrightarrow> tab w (ns, name) = None)"
  unfolding tcp_server_def by (elim conjE) (drule_tac x = ns in spec, drule_tac x = name in spec, drule_tac x = w in spec, simp)

lemma tcp_server_list:
  "tcp_server p c tab \<Longrightarrow> ga_list_tcp (p_api p) c w = (res, w') \<Longrightarrow>
    tab w' = tab w \<and> (case res of Inr rs \<Rightarrow> set rs = ran (tab w) | Inl _ \<Rightarrow> True)"
  unfolding tcp_server_def by (elim conjE) (drule_tac x = w in spec, simp)

lemma tcp_server_create:
  "tcp_server p c tab \<Longrightarrow> ga_create_tcp (p_api p) c r w = (res, w') \<Longrightarrow>
    (case res of
       None \<Rightarrow> tab w (tcp_key r) = None \<and> stores r (tab w) (tab w')
     | Some e \<Rightarrow>
         if IsAlreadyExists e then tab w (tcp_key r) \<noteq> None \<and> tab w' = tab w
         else tab w' = tab w \<or> tab w (tcp_key r) = None \<and> stores r (tab w) (tab w'))"
  unfolding tcp_server_def by (elim conjE) (drule_tac x = r in spec, drule_tac x = w in spec, simp)

lemma tcp_server_update:
  "tcp_server p c tab \<Longrightarrow> ga_update_tcp (p_api p) c r w = (res, w') \<Longrightarrow>
    (case res of
       Inr r' \<Rightarrow> same_attachment r r' \<and> tab w' = (tab w)(tcp_key r \<mapsto> r')
     | Inl e \<Rightarrow> tab w' = tab w \<or> stores r (tab w) (tab w'))"
  unfolding tcp_server_def by (elim conjE) (drule_tac x = r in spec, drule_tac x = w in spec, simp)

text \<open>Rewriting the rules of a route leaves the allocation as it is.\<close>

lemma alloc_of_rewritten:
  assumes "T (tcp_key r) = Some r" and "stores (r\<lparr>tr_Rules := rules\<rparr>) T T'"
  shows "alloc_of p T' = alloc_of p T"
proof -
  have key: "tcp_key (r\<lparr>tr_Rules := rules\<rparr>) = tcp_key r" by (simp add: tcp_key_def)
  have "section_held p (r\<lparr>tr_Rules := rules\<rparr>) = section_held p r" by (simp add: allocatedSection_def)
  then have "alloc_of p T' = (alloc_of p T)(tcp_key r \<mapsto> section_held p r)"
    using alloc_of_stores [OF assms(2), of p] key by simp
  also have "\<dots> = alloc_of p T" using assms(1) by (auto simp: alloc_of_def fun_eq_iff)
  finally show ?thesis .
qed

text \<open>Creating the route of a free listener is the step that allocates it.\<close>

lemma alloc_step_create:
  assumes "T (ns, ep_Name ep) = None" and "set routes = ran T"
    and "choose_listener (held_sections p routes) (tcpListeners gw) = Some l"
    and "stores (new_tcp_route p ns svc wsn ep (pl_section l)) T T'"
  shows "alloc_step (set (tcpListeners gw)) (ns, ep_Name ep) (alloc_of p T) (Granted (pl_port l)) (alloc_of p T')"
proof -
  have held: "set (held_sections p routes) = taken (alloc_of p T)"
    by (simp add: set_held_sections assms(2) ran_alloc_of)
  have "alloc_of p T' = (alloc_of p T)((ns, ep_Name ep) \<mapsto> pl_section l)"
    using alloc_of_stores [OF assms(4), of p] by (simp add: tcp_key_def) (simp add: new_tcp_route_def)
  then show ?thesis
    using assms(1) pool_fit.pick_some [OF assms(3)] pool_fit.pick_min [OF sorted_tcpListeners assms(3)] held
    by (auto simp: alloc_of_def intro!: alloc_step.fresh)
qed

lemma alloc_step_full:
  assumes "T (ns, name) = None" and "set routes = ran T"
    and "choose_listener (held_sections p routes) (tcpListeners gw) = None"
  shows "alloc_step (set (tcpListeners gw)) (ns, name) (alloc_of p T) Exhausted (alloc_of p T)"
  using assms by (intro alloc_step.exhausted)
    (simp_all add: alloc_of_def pool_fit.pick_none set_held_sections ran_alloc_of)

text \<open>The outcomes of the branch that allocates, once the route is known to be absent.\<close>

lemma refines_full:
  assumes "keyed (tab (cs_world s))" and "tab (cs_world s') = tab (cs_world s)"
    and "tab (cs_world s) k = None" and "set routes = ran (tab (cs_world s))"
    and "choose_listener (held_sections p routes) (tcpListeners (gc_gateway g)) = None"
    and "shows_grant protocol (gc_domain g) Exhausted entry"
  shows "refines p tab g k protocol s (Inr entry) s'"
  using assms by (cases k) (auto intro!: refines_entry [where gr = Exhausted] alloc_step_full)

lemma refines_created:
  assumes "keyed (tab (cs_world s))" and "stores (new_tcp_route p ns svc wsn ep (pl_section l)) (tab (cs_world s)) (tab (cs_world s'))"
    and "tab (cs_world s) (ns, ep_Name ep) = None" and "set routes = ran (tab (cs_world s))"
    and "choose_listener (held_sections p routes) (tcpListeners (gc_gateway g)) = Some l"
  shows "shows_grant protocol (gc_domain g) (Granted (pl_port l)) entry \<Longrightarrow>
      refines p tab g (ns, ep_Name ep) protocol s (Inr entry) s'"
    and "refines p tab g (ns, ep_Name ep) protocol s (Inl e) s'"
proof -
  note step = alloc_step_create [OF assms(3-5,2)] and keyed = stores_keyed [OF assms(2,1)]
  show "shows_grant protocol (gc_domain g) (Granted (pl_port l)) entry \<Longrightarrow>
      refines p tab g (ns, ep_Name ep) protocol s (Inr entry) s'"
    using step keyed by (auto intro: refines_entry)
  show "refines p tab g (ns, ep_Name ep) protocol s (Inl e) s'"
    using step keyed assms(3) by (auto simp: refines_def alloc_of_def Let_def)
qed

lemma refines_lost:
  assumes "tab (cs_world s') = tab (cs_world s) \<or>
      stores (new_tcp_route p ns svc wsn ep (pl_section l)) (tab (cs_world s)) (tab (cs_world s'))"
    and "keyed (tab (cs_world s))" and "tab (cs_world s) (ns, ep_Name ep) = None" and "set routes = ran (tab (cs_world s))"
    and "choose_listener (held_sections p routes) (tcpListeners (gc_gateway g)) = Some l"
  shows "refines p tab g (ns, ep_Name ep) protocol s (Inl e) s'"
  using assms(1)
proof
  assume "tab (cs_world s') = tab (cs_world s)"
  with assms(2) show ?thesis by (simp add: refines_error)
next
  assume "stores (new_tcp_route p ns svc wsn ep (pl_section l)) (tab (cs_world s)) (tab (cs_world s'))"
  with assms(2-5) show ?thesis by (intro refines_created(2))
qed

text \<open>The outcomes of the branch that finds the route.\<close>

lemma refines_kept:
  assumes "keyed (tab (cs_world s'))" and "alloc_of p (tab (cs_world s')) = alloc_of p (tab (cs_world s))"
    and "tab (cs_world s) k = Some r" and "section_held p r \<noteq> []"
    and "poolPort (tcpListeners (gc_gateway g)) (section_held p r) = Some port"
    and "shows_grant protocol (gc_domain g) (Granted port) entry"
  shows "refines p tab g k protocol s (Inr entry) s'"
  using assms poolPort_Some [OF assms(5)]
  by (auto intro!: refines_entry [where gr = "Granted port"] alloc_step.keep simp: alloc_of_def)

lemma refines_detached:
  assumes "keyed (tab (cs_world s))" and "tab (cs_world s') = tab (cs_world s)"
    and "tab (cs_world s) k = Some r" and "section_held p r = []"
    and "shows_grant protocol (gc_domain g) Detached entry"
  shows "refines p tab g k protocol s (Inr entry) s'"
  using assms by (auto intro!: refines_entry [where gr = Detached] alloc_step.detached simp: alloc_of_def)

lemma refines_withdrawn:
  assumes "keyed (tab (cs_world s))" and "tab (cs_world s') = tab (cs_world s)"
    and "tab (cs_world s) k = Some r" and "poolPort (tcpListeners (gc_gateway g)) (section_held p r) = None"
    and "shows_grant protocol (gc_domain g) Withdrawn entry"
  shows "refines p tab g k protocol s (Inr entry) s'"
  using assms
  by (auto intro!: refines_entry [where gr = Withdrawn] alloc_step.withdrawn [where sec = "section_held p r"]
    simp: alloc_of_def poolPort_None)

lemma stores_update:
  assumes "same_attachment r r'" and "T' = T(tcp_key r \<mapsto> r')"
  shows "stores r T T'"
  using assms by (auto simp: stores_def)

lemma rewritten_table:
  assumes "keyed T" and "T k = Some r" and "stores (r\<lparr>tr_Rules := rules\<rparr>) T T'"
  shows "keyed T'" and "alloc_of p T' = alloc_of p T"
  using assms stores_keyed alloc_of_rewritten unfolding keyed_def by blast+

lemma refines_rewritten:
  assumes "keyed (tab (cs_world s))" and "tab (cs_world s) k = Some r" and "section_held p r \<noteq> []"
    and "poolPort (tcpListeners (gc_gateway g)) (section_held p r) = Some port"
    and "same_attachment (r\<lparr>tr_Rules := rules\<rparr>) r'"
    and "tab (cs_world s') = (tab (cs_world s))(tcp_key (r\<lparr>tr_Rules := rules\<rparr>) \<mapsto> r')"
    and "shows_grant protocol (gc_domain g) (Granted port) entry"
  shows "refines p tab g k protocol s (Inr entry) s'"
  by (rule refines_kept [OF rewritten_table [OF assms(1,2) stores_update [OF assms(5,6)]] assms(2-4,7)])

lemma ensureTCPRoute_wp:
  assumes server: "tcp_server p (gc_regionalClient g) tab" and keyed: "keyed (tab (cs_world s))"
  shows "wp (ensureTCPRoute p g ns svc wsn ep)
    (\<lambda>res s'. refines p tab g (ns, ep_Name ep) (ep_Protocol ep) s res s') s"
  unfolding ensureTCPRoute_def allocatedSections_def Let_def
  apply (intro wp_intros)
  apply (simp_all)
  subgoal using keyed by (intro refines_entry [where gr = NoPool] alloc_step.empty) (simp_all add: shows_grant_def)
  subgoal for rr w' err using keyed
    by (auto intro!: refines_unsupported [where e = err] dest!: tcp_server_get [OF server] simp: shows_grant_def)
  subgoal using keyed by (auto intro!: refines_error dest!: tcp_server_get [OF server] tcp_server_list [OF server])
  subgoal for rr w\<^sub>1 err lr w\<^sub>2 routes using keyed
    by (auto intro!: refines_full [where routes = routes] dest!: tcp_server_get [OF server] tcp_server_list [OF server]
      simp: shows_grant_def)
  subgoal for rr w\<^sub>1 err lr w\<^sub>2 routes allocated l using keyed
    by (auto intro!: refines_created [where routes = routes and l = l]
      dest!: tcp_server_get [OF server] tcp_server_list [OF server] tcp_server_create [OF server] simp: shows_grant_def)
  subgoal by (auto dest!: tcp_server_get [OF server] tcp_server_list [OF server] tcp_server_create [OF server]
      simp: tcp_key_def new_tcp_route_def)
  subgoal for rr w\<^sub>1 err lr w\<^sub>2 routes allocated l using keyed
    by (auto intro!: refines_lost [where routes = routes and l = l and svc = svc and wsn = wsn]
      dest!: tcp_server_get [OF server] tcp_server_list [OF server] tcp_server_create [OF server])
  subgoal using keyed by (auto intro!: refines_error dest!: tcp_server_get [OF server])
  subgoal using keyed
    by (auto intro!: refines_detached dest!: tcp_server_get [OF server] simp: shows_grant_def)
  subgoal using keyed
    by (auto intro!: refines_withdrawn dest!: tcp_server_get [OF server] simp: shows_grant_def)
  subgoal using keyed
    by (auto dest!: tcp_server_get [OF server] elim!: refines_kept [rotated 2] simp: shows_grant_def)
  subgoal using keyed
    by (auto intro!: refines_error intro: rewritten_table dest!: tcp_server_get [OF server] tcp_server_update [OF server])
  subgoal for rr w\<^sub>1 r port ur w\<^sub>2 r' using keyed
    by (auto dest!: tcp_server_get [OF server] tcp_server_update [OF server]
        intro!: refines_rewritten [where r = r and r' = r' and port = port] simp: shows_grant_def)
  done

section \<open>Reachable tables\<close>

text \<open>
  The life of the pool: endpoints are materialised one after the other, each against whatever
  listeners the gateway has at that time, and routes disappear (cleanup, sweep, namespace deletion).
\<close>

inductive pool_reach :: "'w provider \<Rightarrow> kubeconfig \<Rightarrow> ('w \<Rightarrow> tcp_table) \<Rightarrow> 'w \<Rightarrow> 'w \<Rightarrow> bool"
  for p :: "'w provider" and c :: kubeconfig and tab :: "'w \<Rightarrow> tcp_table" and w\<^sub>0 :: 'w where
  start: "pool_reach p c tab w\<^sub>0 w\<^sub>0"
| ensure: "pool_reach p c tab w\<^sub>0 w \<Longrightarrow> gc_regionalClient g = c \<Longrightarrow>
    run_calls (ensureTCPRoute p g ns svc wsn ep) w = (res, w') \<Longrightarrow> pool_reach p c tab w\<^sub>0 w'"
| release: "pool_reach p c tab w\<^sub>0 w \<Longrightarrow> \<forall>k. tab w' k = tab w k \<or> tab w' k = None \<Longrightarrow> pool_reach p c tab w\<^sub>0 w'"

lemma ensureTCPRoute_run:
  assumes "tcp_server p (gc_regionalClient g) tab" and "keyed (tab w)"
    and "run_calls (ensureTCPRoute p g ns svc wsn ep) w = (res, w')"
  obtains s' where "cs_world s' = w'"
    and "refines p tab g (ns, ep_Name ep) (ep_Protocol ep) \<lparr>cs_world = w, cs_trace = []\<rparr> res s'"
  using run_calls_wp [OF ensureTCPRoute_wp [OF assms(1), where s = "\<lparr>cs_world = w, cs_trace = []\<rparr>" and ns = ns and ep = ep and svc = svc and wsn = wsn]] assms(2,3)
  by auto

lemma refines_preserves:
  assumes "refines p tab g k protocol s res s'" and "exclusive (alloc_of p (tab (cs_world s)))"
  shows "keyed (tab (cs_world s')) \<and> exclusive (alloc_of p (tab (cs_world s')))"
  using assms by (auto simp: refines_def Let_def split: sum.splits intro: alloc_step_exclusive)

lemma exclusive_release:
  "exclusive (alloc_of p T) \<Longrightarrow> \<forall>k. T' k = T k \<or> T' k = None \<Longrightarrow> exclusive (alloc_of p T')"
  unfolding exclusive_def alloc_of_def by (metis option.map_disc_iff option.distinct(1))

lemma keyed_release: "keyed T \<Longrightarrow> \<forall>k. T' k = T k \<or> T' k = None \<Longrightarrow> keyed T'"
  unfolding keyed_def by (metis option.distinct(1))

lemma pool_reach_invariant:
  assumes "pool_reach p c tab w\<^sub>0 w" and "tcp_server p c tab"
    and "keyed (tab w\<^sub>0)" and "exclusive (alloc_of p (tab w\<^sub>0))"
  shows "keyed (tab w) \<and> exclusive (alloc_of p (tab w))"
  using assms(1)
proof induction
  case (ensure w g ns svc wsn ep res w')
  then obtain s' where "cs_world s' = w'"
    and "refines p tab g (ns, ep_Name ep) (ep_Protocol ep) \<lparr>cs_world = w, cs_trace = []\<rparr> res s'"
    using ensureTCPRoute_run assms(2) by metis
  with refines_preserves ensure.IH show ?case by fastforce
qed (use assms in \<open>blast intro: exclusive_release keyed_release\<close>)+

section \<open>A concrete server\<close>

text \<open>
  For the witnesses: the world is the list of TCPRoutes of the regional cluster; nothing fails.
  The other calls answer that there is nothing.
\<close>

definition store_tab :: "TCPRoute list \<Rightarrow> tcp_table" where
  "store_tab w k = find (\<lambda>r. tcp_key r = k) w"

definition ok_conds :: "Condition list \<Rightarrow> string \<Rightarrow> bool" where
  "ok_conds cs ty \<longleftrightarrow> (case find (\<lambda>c. c_Type c = ty) cs of None \<Rightarrow> False | Some c \<Rightarrow> c_Status c = ConditionTrue)"

definition already_exists :: goerr where
  "already_exists = \<lparr>ekind = KAlreadyExists, emsg = ''already exists''\<rparr>"

definition store_api :: "TCPRoute list gateway_api" where
  "store_api =
     \<lparr>ga_get_cd = (\<lambda>_ _ w. (Inl not_found, w)), ga_list_cds = (\<lambda>_ _ _ w. (Inr [], w)),
      ga_list_wsd_names = (\<lambda>w. (Inr [], w)), ga_list_cd_metas = (\<lambda>_ _ w. (Inr [], w)), ga_get_secret = (\<lambda>_ _ w. (Inl not_found, w)),
      ga_rest_config = (\<lambda>_. None), ga_new_client = (\<lambda>_ w. (None, w)),
      ga_get_gateway = (\<lambda>_ _ _ w. (Inl not_found, w)), ga_get_ns = (\<lambda>_ _ w. (Inl not_found, w)),
      ga_list_ns = (\<lambda>_ _ w. (Inr [], w)), ga_create_ns = (\<lambda>_ _ w. (None, w)),
      ga_update_ns = (\<lambda>_ _ w. (None, w)), ga_delete_ns = (\<lambda>_ _ w. (None, w)),
      ga_get_svc = (\<lambda>_ _ _ w. (Inl not_found, w)), ga_create_svc = (\<lambda>_ _ w. (None, w)),
      ga_update_svc = (\<lambda>_ _ w. (None, w)), ga_get_http = (\<lambda>_ _ _ w. (Inl not_found, w)),
      ga_create_http = (\<lambda>_ _ w. (None, w)), ga_update_http = (\<lambda>_ r w. (Inr r, w)),
      ga_get_tcp = (\<lambda>_ ns name w. (case store_tab w (ns, name) of None \<Rightarrow> (Inl not_found, w) | Some r \<Rightarrow> (Inr r, w))),
      ga_list_tcp = (\<lambda>_ w. (Inr (filter (\<lambda>r. store_tab w (tcp_key r) = Some r) w), w)),
      ga_create_tcp = (\<lambda>_ r w. (if store_tab w (tcp_key r) = None then (None, r # w) else (Some already_exists, w))),
      ga_update_tcp = (\<lambda>_ r w. (Inr r, r # w)),
      ga_delete_tcps = (\<lambda>_ ns _ w. (None, filter (\<lambda>r. tr_Namespace r \<noteq> ns) w)),
      ga_cond_true = ok_conds, ga_spec_equal = (=), ga_ports_derivative = (=)\<rparr>"

definition store_provider :: "TCPRoute list provider" where
  "store_provider =
     \<lparr>p_cfg = \<lparr>cfg_GatewayName = DefaultGatewayName, cfg_GatewayNamespace = DefaultGatewayNamespace,
               cfg_Mesh = \<lparr>mesh_Mode = MeshModeNone, mesh_WaypointEnabled = False, mesh_WaypointNamespace = []\<rparr>\<rparr>,
      p_api = store_api, p_sha = demo_sha\<rparr>"

lemma store_tab_Cons [simp]: "store_tab (r # w) = (store_tab w)(tcp_key r \<mapsto> r)"
  by (auto simp: store_tab_def fun_eq_iff)

lemma store_tab_key: "store_tab w k = Some r \<Longrightarrow> tcp_key r = k \<and> r \<in> set w"
  by (auto simp: store_tab_def find_Some_iff)

lemma same_attachment_refl [simp]: "same_attachment r r"
  by (simp add: same_attachment_def)

lemma stores_self [simp]: "stores r T (T(tcp_key r \<mapsto> r))"
  by (simp add: stores_def) (metis same_attachment_refl)

lemma store_server: "tcp_server store_provider c store_tab"
proof -
  have "set (filter (\<lambda>r. store_tab w (tcp_key r) = Some r) w) = ran (store_tab w)" for w
    unfolding ran_def set_filter using store_tab_key by blast
  then show ?thesis
    by (auto simp: tcp_server_def store_provider_def store_api_def not_found_def already_exists_def
        split: option.splits)
qed

lemma store_keyed: "keyed (store_tab w)"
  by (auto simp: keyed_def dest: store_tab_key)

text \<open>A gateway with two pool ports, and two workspaces with an SSH endpoint each.\<close>

definition pool_gateway :: Gateway where
  "pool_gateway =
     \<lparr>gw_Listeners = [\<lparr>l_Name = ''tcp-b'', l_Hostname = None, l_Port = 30002, l_Protocol = TCPProtocolType\<rparr>,
                      \<lparr>l_Name = ''web'', l_Hostname = Some ''*.t.example'', l_Port = 443, l_Protocol = HTTPSProtocolType\<rparr>,
                      \<lparr>l_Name = ''tcp-a'', l_Hostname = None, l_Port = 30001, l_Protocol = TCPProtocolType\<rparr>],
      gw_Conditions = []\<rparr>"

definition pool_ctx :: gatewayContext where
  "pool_ctx = \<lparr>gc_regionalClient = ''regional'', gc_domain = ''t.example'', gc_scheme = ''https'', gc_gateway = pool_gateway\<rparr>"

definition ssh_endpoint :: AccessEndpoint where
  "ssh_endpoint = \<lparr>ep_Name = ''ssh'', ep_Protocol = RouteProtocolSSH, ep_Port = 22, ep_ServiceName = []\<rparr>"

definition tcp_run :: "string \<Rightarrow> TCPRoute list \<Rightarrow> (goerr + AccessEntry) \<times> TCPRoute list" where
  "tcp_run wsn w = run_calls (ensureTCPRoute store_provider pool_ctx (''ws-'' @ wsn) (''svc-'' @ wsn) wsn ssh_endpoint) w"

lemma tcpListeners_pool:
  "tcpListeners pool_gateway = [\<lparr>pl_section = ''tcp-a'', pl_port = 30001\<rparr>, \<lparr>pl_section = ''tcp-b'', pl_port = 30002\<rparr>]"
  by (simp add: tcpListeners_def pool_gateway_def)



lemmas store_eval = tcp_run_def run_calls_def ensureTCPRoute_def allocatedSections_def held_sections_def
  allocatedSection_def store_provider_def store_api_def pool_ctx_def ssh_endpoint_def
  tcpListeners_pool new_tcp_route_def desired_backends_def not_found_def tcp_key_def store_tab_def
  DefaultGatewayName_def DefaultGatewayNamespace_def call_simps

definition ssh_route :: "string \<Rightarrow> string \<Rightarrow> TCPRoute" where
  "ssh_route wsn section = new_tcp_route store_provider (''ws-'' @ wsn) (''svc-'' @ wsn) wsn ssh_endpoint section"

definition ssh_entry :: "int \<Rightarrow> AccessEntry" where
  "ssh_entry port = \<lparr>ae_Name = ''ssh'', ae_Protocol = RouteProtocolSSH, ae_URL = poolURL RouteProtocolSSH ''t.example'' port,
     ae_Ready = False, ae_Message = msgAwaitingAcceptance\<rparr>"

lemma tcp_run_first: "tcp_run ''a'' [] = (Inr (ssh_entry 30001), [ssh_route ''a'' ''tcp-a''])"
  by (simp add: store_eval ssh_route_def ssh_entry_def del: set_filter)

lemma tcp_run_second:
  "tcp_run ''b'' [ssh_route ''a'' ''tcp-a''] = (Inr (ssh_entry 30002), [ssh_route ''b'' ''tcp-b'', ssh_route ''a'' ''tcp-a''])"
  by (simp add: store_eval ssh_route_def ssh_entry_def del: set_filter)

section \<open>Properties\<close>

text \<open>
  C15: the port pool refines its specification.  Against a server that keeps its TCPRoutes, a call
  of \<open>ensureTCPRoute\<close> is one step of the abstract allocator and the entry reports it: an endpoint
  that has a listener keeps it, a new one gets the free listener with the least port, and it is
  refused (with the message that says why) exactly when every listener is taken, the gateway has no
  pool, its route is attached elsewhere, its listener is gone, or the cluster has no TCPRoutes.  On
  an error nothing was allocated, or a write whose answer was lost made that step.
\<close>

theorem ensureTCPRoute_refines:
  assumes "tcp_server p (gc_regionalClient g) tab" and "keyed (tab (cs_world s))"
    and "run_state (ensureTCPRoute p g ns svc wsn ep) s = (res, s')"
  shows "refines p tab g (ns, ep_Name ep) (ep_Protocol ep) s res s'"
  by (rule wp_run [OF assms(3) ensureTCPRoute_wp [OF assms(1,2)]])

theorem ensureTCPRoute_refines_witness:
  "let run = run_state (ensureTCPRoute store_provider pool_ctx ''ws-b'' ''svc-b'' ''b'' ssh_endpoint)
       \<lparr>cs_world = [ssh_route ''a'' ''tcp-a''], cs_trace = []\<rparr>
   in refines store_provider store_tab pool_ctx (''ws-b'', ''ssh'') RouteProtocolSSH
        \<lparr>cs_world = [ssh_route ''a'' ''tcp-a''], cs_trace = []\<rparr> (fst run) (snd run) \<and>
      fst run = Inr (ssh_entry 30002)"
proof -
  have "ep_Name ssh_endpoint = ''ssh''" "ep_Protocol ssh_endpoint = RouteProtocolSSH"
    by (simp_all add: ssh_endpoint_def)
  then show ?thesis
    using ensureTCPRoute_refines [OF store_server [of "gc_regionalClient pool_ctx"] store_keyed prod.collapse [symmetric],
        where ns = "''ws-b''" and svc = "''svc-b''" and wsn = "''b''" and ep = ssh_endpoint
          and s = "\<lparr>cs_world = [ssh_route ''a'' ''tcp-a''], cs_trace = []\<rparr>"]
      tcp_run_second
    by (simp add: Let_def tcp_run_def run_calls_def split_beta)
qed

text \<open>
  C16: no port is given away twice.  From an exclusive table, whatever sequence of calls
  materialises endpoints (with any gateway, in success and failure) and releases routes, two routes
  attached to the same listener of the tenant Gateway are one route.
\<close>

theorem port_pool_exclusive:
  assumes "pool_reach p c tab w\<^sub>0 w" and "tcp_server p c tab"
    and "keyed (tab w\<^sub>0)" and "exclusive (alloc_of p (tab w\<^sub>0))"
    and "tab w k = Some r" and "tab w k' = Some r'"
    and "allocatedSection r (cfg_GatewayName (p_cfg p)) (cfg_GatewayNamespace (p_cfg p)) = sec"
    and "allocatedSection r' (cfg_GatewayName (p_cfg p)) (cfg_GatewayNamespace (p_cfg p)) = sec"
    and "sec \<noteq> []"
  shows "k = k'"
proof -
  have "alloc_of p (tab w) k = Some sec" "alloc_of p (tab w) k' = Some sec" using assms(5-8) by (simp_all add: alloc_of_def)
  with pool_reach_invariant [OF assms(1-4)] assms(9) show ?thesis unfolding exclusive_def by blast
qed

lemma exclusive_empty: "exclusive (alloc_of p (store_tab []))"
  by (simp add: exclusive_def alloc_of_def store_tab_def)

lemma pool_reach_two:
  "pool_reach store_provider ''regional'' store_tab [] [ssh_route ''b'' ''tcp-b'', ssh_route ''a'' ''tcp-a'']"
proof -
  have c: "gc_regionalClient pool_ctx = ''regional''" by (simp add: pool_ctx_def)
  have step: "pool_reach store_provider ''regional'' store_tab [] w \<Longrightarrow>
      pool_reach store_provider ''regional'' store_tab [] (snd (tcp_run wsn w))" for w wsn
    unfolding tcp_run_def by (rule pool_reach.ensure [OF _ c prod.collapse [symmetric]])
  from step [OF step [OF pool_reach.start], of "''b''" "''a''"] show ?thesis
    by (simp add: tcp_run_first tcp_run_second)
qed

theorem port_pool_exclusive_witness:
  "\<exists>r r'. store_tab [ssh_route ''b'' ''tcp-b'', ssh_route ''a'' ''tcp-a''] (''ws-a'', ''ssh'') = Some r \<and>
    store_tab [ssh_route ''b'' ''tcp-b'', ssh_route ''a'' ''tcp-a''] (''ws-b'', ''ssh'') = Some r' \<and>
    section_held store_provider r \<noteq> section_held store_provider r'"
proof -
  let ?w = "[ssh_route ''b'' ''tcp-b'', ssh_route ''a'' ''tcp-a'']"
  have a: "store_tab ?w (''ws-a'', ''ssh'') = Some (ssh_route ''a'' ''tcp-a'')"
    and b: "store_tab ?w (''ws-b'', ''ssh'') = Some (ssh_route ''b'' ''tcp-b'')"
    by (simp_all add: store_tab_def ssh_route_def new_tcp_route_def tcp_key_def ssh_endpoint_def)
  have "section_held store_provider (ssh_route ''b'' ''tcp-b'') = ''tcp-b''" by (simp add: ssh_route_def)
  then have "(''ws-a'', ''ssh'') = (''ws-b'', ''ssh'')"
    if "section_held store_provider (ssh_route ''a'' ''tcp-a'') = section_held store_provider (ssh_route ''b'' ''tcp-b'')"
    using port_pool_exclusive [OF pool_reach_two store_server store_keyed exclusive_empty a b that refl] by simp
  then have "section_held store_provider (ssh_route ''a'' ''tcp-a'') \<noteq> section_held store_provider (ssh_route ''b'' ''tcp-b'')"
    by auto
  with a b show ?thesis by blast
qed

text \<open>
  The Gateway API requires of a gateway's listeners: names are not empty, and no two TCP listeners
  have one name or one port.
\<close>

definition pool_ok :: "Gateway \<Rightarrow> bool" where
  "pool_ok gw \<longleftrightarrow>
     inj_on pl_section (set (tcpListeners gw)) \<and> inj_on pl_port (set (tcpListeners gw)) \<and>
     (\<forall>l \<in> set (tcpListeners gw). pl_section l \<noteq> [])"

lemma poolURL_inject: "poolURL q d x = poolURL q' d y \<Longrightarrow> x = y"
  by (cases q; cases q') (simp_all add: poolURL_def to_lower_def char_lower_def)

lemma granted_held:
  assumes "refines p tab g k protocol s (Inr entry) s'" and "ae_URL entry \<noteq> []" and "pool_ok (gc_gateway g)"
  obtains l where "l \<in> set (tcpListeners (gc_gateway g))"
    and "alloc_of p (tab (cs_world s')) k = Some (pl_section l)" and "ae_URL entry = poolURL protocol (gc_domain g) (pl_port l)"
proof -
  obtain gr where step: "alloc_step (set (tcpListeners (gc_gateway g))) k (alloc_of p (tab (cs_world s))) gr (alloc_of p (tab (cs_world s')))"
    and shown: "shows_grant protocol (gc_domain g) gr entry"
    using assms(1) by (auto simp: refines_def Let_def)
  from shown assms(2) obtain port where port: "gr = Granted port" "ae_URL entry = poolURL protocol (gc_domain g) port"
    by (cases gr) (auto simp: shows_grant_def)
  from step [unfolded port] show ?thesis by cases (use port that in fastforce)+
qed

text \<open>
  Two endpoints never show the same address.  If the pool is materialised for two different
  endpoints, one after the other against the same gateway, and both get a URL, the URLs differ.
\<close>

theorem pool_urls_differ:
  assumes "tcp_server p (gc_regionalClient g) tab" and "keyed (tab w)" and "exclusive (alloc_of p (tab w))"
    and "pool_ok (gc_gateway g)" and "(ns, ep_Name ep) \<noteq> (ns', ep_Name ep')"
    and "run_calls (ensureTCPRoute p g ns svc wsn ep) w = (Inr e, w\<^sub>1)" and "ae_URL e \<noteq> []"
    and "run_calls (ensureTCPRoute p g ns' svc' wsn' ep') w\<^sub>1 = (Inr e', w\<^sub>2)" and "ae_URL e' \<noteq> []"
  shows "ae_URL e \<noteq> ae_URL e'"
proof
  assume same: "ae_URL e = ae_URL e'"
  obtain s\<^sub>1 where s1: "cs_world s\<^sub>1 = w\<^sub>1"
    and r1: "refines p tab g (ns, ep_Name ep) (ep_Protocol ep) \<lparr>cs_world = w, cs_trace = []\<rparr> (Inr e) s\<^sub>1"
    using ensureTCPRoute_run [OF assms(1,2,6)] by blast
  have inv: "keyed (tab w\<^sub>1)" "exclusive (alloc_of p (tab w\<^sub>1))"
    using refines_preserves [OF r1] assms(3) s1 by simp_all
  obtain s\<^sub>2 where s2: "cs_world s\<^sub>2 = w\<^sub>2"
    and r2: "refines p tab g (ns', ep_Name ep') (ep_Protocol ep') \<lparr>cs_world = w\<^sub>1, cs_trace = []\<rparr> (Inr e') s\<^sub>2"
    using ensureTCPRoute_run [OF assms(1) inv(1) assms(8)] by blast
  obtain l where l: "l \<in> set (tcpListeners (gc_gateway g))" "alloc_of p (tab w\<^sub>1) (ns, ep_Name ep) = Some (pl_section l)"
    "ae_URL e = poolURL (ep_Protocol ep) (gc_domain g) (pl_port l)"
    using granted_held [OF r1 assms(7,4)] s1 by auto
  obtain l' where l': "l' \<in> set (tcpListeners (gc_gateway g))" "alloc_of p (tab w\<^sub>2) (ns', ep_Name ep') = Some (pl_section l')"
    "ae_URL e' = poolURL (ep_Protocol ep') (gc_domain g) (pl_port l')"
    using granted_held [OF r2 assms(9,4)] s2 by auto
  have "alloc_of p (tab w\<^sub>2) (ns, ep_Name ep) = Some (pl_section l)"
    using r2 s2 l(2) by (auto simp: refines_def Let_def intro: alloc_step_sticky)
  moreover have "exclusive (alloc_of p (tab w\<^sub>2))" using refines_preserves [OF r2] inv(2) s2 by simp
  moreover have "pl_port l = pl_port l'" using same l(3) l'(3) by (metis poolURL_inject)
  then have "l = l'" using assms(4) l(1) l'(1) by (auto simp: pool_ok_def dest: inj_onD)
  moreover have "pl_section l \<noteq> []" using assms(4) l(1) by (simp add: pool_ok_def)
  ultimately have "(ns, ep_Name ep) = (ns', ep_Name ep')" using l'(2) unfolding exclusive_def by blast
  with assms(5) show False by simp
qed

theorem pool_urls_differ_witness:
  "\<exists>e w\<^sub>1 e' w\<^sub>2. tcp_run ''a'' [] = (Inr e, w\<^sub>1) \<and> tcp_run ''b'' w\<^sub>1 = (Inr e', w\<^sub>2) \<and> ae_URL e \<noteq> ae_URL e'"
proof -
  have url: "ae_URL (ssh_entry x) \<noteq> []" for x by (simp add: ssh_entry_def poolURL_def to_lower_def)
  have ok: "pool_ok (gc_gateway pool_ctx)"
    by (simp add: pool_ok_def pool_ctx_def tcpListeners_pool)
  have "ae_URL (ssh_entry 30001) \<noteq> ae_URL (ssh_entry 30002)"
    using pool_urls_differ [OF store_server [of "gc_regionalClient pool_ctx"] store_keyed exclusive_empty ok _
        tcp_run_first [unfolded tcp_run_def] url tcp_run_second [unfolded tcp_run_def] url] by simp
  with tcp_run_first tcp_run_second show ?thesis by blast
qed

text \<open>A server that answers: the calls of an allocation succeed.\<close>

definition tcp_healthy :: "'w provider \<Rightarrow> kubeconfig \<Rightarrow> ('w \<Rightarrow> tcp_table) \<Rightarrow> bool" where
  "tcp_healthy p c tab \<longleftrightarrow> tcp_server p c tab \<and>
     (\<forall>ns name w. tab w (ns, name) = None \<longrightarrow> (\<exists>e. IsNotFound e \<and> fst (ga_get_tcp (p_api p) c ns name w) = Inl e)) \<and>
     (\<forall>w. \<exists>rs. fst (ga_list_tcp (p_api p) c w) = Inr rs) \<and>
     (\<forall>r w. tab w (tcp_key r) = None \<longrightarrow> fst (ga_create_tcp (p_api p) c r w) = None)"

text \<open>
  A free port is given.  Against a server that answers, a new endpoint of a gateway with more
  TCP listeners than are taken gets a URL on one of them.
\<close>

theorem pool_grants_while_room:
  assumes "tcp_healthy p (gc_regionalClient g) tab" and "pool_ok (gc_gateway g)"
    and "tab w (ns, ep_Name ep) = None"
    and "card (taken (alloc_of p (tab w))) < card (set (tcpListeners (gc_gateway g)))"
  shows "\<exists>e w' l. run_calls (ensureTCPRoute p g ns svc wsn ep) w = (Inr e, w') \<and>
    l \<in> set (tcpListeners (gc_gateway g)) \<and> ae_URL e = poolURL (ep_Protocol ep) (gc_domain g) (pl_port l)"
proof -
  let ?c = "gc_regionalClient g" and ?pool = "tcpListeners (gc_gateway g)"
  have server: "tcp_server p ?c tab" using assms(1) by (simp add: tcp_healthy_def)
  obtain err w\<^sub>1 where get: "ga_get_tcp (p_api p) ?c ns (ep_Name ep) w = (Inl err, w\<^sub>1)" "IsNotFound err"
    using assms(1,3) unfolding tcp_healthy_def by (metis prod.collapse)
  have t1: "tab w\<^sub>1 = tab w" using tcp_server_get [OF server get(1)] by simp
  obtain rs w\<^sub>2 where lst: "ga_list_tcp (p_api p) ?c w\<^sub>1 = (Inr rs, w\<^sub>2)"
    using assms(1) unfolding tcp_healthy_def by (metis prod.collapse)
  have t2: "tab w\<^sub>2 = tab w" "set rs = ran (tab w)" using tcp_server_list [OF server lst] t1 by simp_all
  have "set (held_sections p rs) = taken (alloc_of p (tab w))"
    by (simp add: set_held_sections t2(2) ran_alloc_of)
  then obtain l where l: "choose_listener (held_sections p rs) ?pool = Some l"
    using pool_fit.room_left [of ?pool "held_sections p rs"] assms(2,4) by (auto simp: pool_ok_def)
  let ?r = "new_tcp_route p ns svc wsn ep (pl_section l)"
  have "tab w\<^sub>2 (tcp_key ?r) = None" using assms(3) t2(1) by (simp add: tcp_key_def new_tcp_route_def)
  then obtain w\<^sub>3 where create: "ga_create_tcp (p_api p) ?c ?r w\<^sub>2 = (None, w\<^sub>3)"
    using assms(1) unfolding tcp_healthy_def by (metis prod.collapse)
  have "?pool \<noteq> []" using assms(4) by auto
  with get lst l create choose_listener_Some [OF l] show ?thesis
    by (auto simp: run_calls_def ensureTCPRoute_def allocatedSections_def call_simps)
qed

theorem pool_grants_while_room_witness:
  "\<exists>e w' l. run_calls (ensureTCPRoute store_provider pool_ctx ''ws-a'' ''svc-a'' ''a'' ssh_endpoint) [] = (Inr e, w') \<and>
    l \<in> set (tcpListeners (gc_gateway pool_ctx)) \<and>
    ae_URL e = poolURL (ep_Protocol ssh_endpoint) (gc_domain pool_ctx) (pl_port l)"
proof (rule pool_grants_while_room)
  show "tcp_healthy store_provider (gc_regionalClient pool_ctx) store_tab"
    using store_server [of "gc_regionalClient pool_ctx"]
    by (simp add: tcp_healthy_def) (simp add: store_provider_def store_api_def not_found_def)
  show "pool_ok (gc_gateway pool_ctx)" by (simp add: pool_ok_def pool_ctx_def tcpListeners_pool)
  have "taken (alloc_of store_provider (store_tab [])) = {}" by (auto simp: alloc_of_def store_tab_def ran_def)
  moreover have "card (set (tcpListeners (gc_gateway pool_ctx))) = 2" by (simp add: pool_ctx_def tcpListeners_pool)
  ultimately show "card (taken (alloc_of store_provider (store_tab []))) < card (set (tcpListeners (gc_gateway pool_ctx)))"
    by (metis card.empty zero_less_numeral)
qed (simp add: store_tab_def)

text \<open>
  Exclusivity rests on there being one writer.  Allocation lists the routes and then creates one;
  if another client attaches a route to the chosen listener in between, both hold it and the call
  reports success.
\<close>

definition raced_provider :: "TCPRoute list provider" where
  "raced_provider = store_provider\<lparr>p_api := store_api\<lparr>ga_list_tcp := \<lambda>_ w. (Inr w, ssh_route ''x'' ''tcp-a'' # w)\<rparr>\<rparr>"

lemma raced_run:
  "run_calls (ensureTCPRoute raced_provider pool_ctx ''ws-a'' ''svc-a'' ''a'' ssh_endpoint) [] =
     (Inr (ssh_entry 30001), [ssh_route ''a'' ''tcp-a'', ssh_route ''x'' ''tcp-a''])"
  by (simp add: raced_provider_def store_eval ssh_route_def ssh_entry_def del: set_filter)

theorem allocation_races:
  "case run_calls (ensureTCPRoute raced_provider pool_ctx ''ws-a'' ''svc-a'' ''a'' ssh_endpoint) [] of
     (res, w') \<Rightarrow> res = Inr (ssh_entry 30001) \<and> \<not> exclusive (alloc_of raced_provider (store_tab w'))"
proof -
  have "alloc_of raced_provider (store_tab [ssh_route ''a'' ''tcp-a'', ssh_route ''x'' ''tcp-a'']) (''ws-a'', ''ssh'') = Some ''tcp-a''"
    "alloc_of raced_provider (store_tab [ssh_route ''a'' ''tcp-a'', ssh_route ''x'' ''tcp-a'']) (''ws-x'', ''ssh'') = Some ''tcp-a''"
    by (simp_all add: alloc_of_def raced_provider_def ssh_route_def tcp_key_def)
      (simp_all add: store_eval)
  then have "\<not> exclusive (alloc_of raced_provider (store_tab [ssh_route ''a'' ''tcp-a'', ssh_route ''x'' ''tcp-a'']))"
    unfolding exclusive_def by (intro notI) (drule spec [of _ "(''ws-a'', ''ssh'')"], drule spec [of _ "(''ws-x'', ''ssh'')"], simp)
  then show ?thesis by (simp add: raced_run)
qed

end
