(* ===== verification/Cluster_Topology.thy ===== *)
theory Cluster_Topology
  imports Reconciler_Env
begin

text \<open>
  \<open>infra/common/regional.go\<close>, the part that the workspace side and the Colony controller share: the
  labels that tie a child cluster to its regional cluster, and the lookup of the regional
  ClusterDeployment.  The lookup is written over the monad of whichever component calls it.
\<close>

definition LabelKOFRegionalClusterName :: string where
  "LabelKOFRegionalClusterName = ''k0rdent.mirantis.com/kof-regional-cluster-name''"

definition LabelKOFClusterName :: string where
  "LabelKOFClusterName = ''k0rdent.mirantis.com/kof-cluster-name''"

definition LabelKOFClusterRole :: string where
  "LabelKOFClusterRole = ''k0rdent.mirantis.com/kof-cluster-role''"

text \<open>\<open>listCDs ns key value\<close> lists the ClusterDeployments of a namespace that carry a label.\<close>

definition find_regional_cd ::
  "(string \<Rightarrow> string \<Rightarrow> string \<Rightarrow> ('s, goerr + 'c list) state) \<Rightarrow> string \<Rightarrow> string \<Rightarrow> ('s, goerr + 'c) state" where
  "find_regional_cd listCDs namespace regionalClusterName = do {
     lr \<leftarrow> listCDs namespace LabelKOFClusterName regionalClusterName;
     (case lr of
        Inl e \<Rightarrow> State_Monad.return
          (Inl (wrapf (''failed to list ClusterDeployments for regional cluster '' @ fmt_q regionalClusterName) e))
      | Inr items \<Rightarrow>
          (case items of
             [] \<Rightarrow> State_Monad.return (Inl (errorf (''no ClusterDeployment found with label '' @ LabelKOFClusterName @
                     ''='' @ regionalClusterName @ '' in namespace '' @ namespace)))
           | cd # _ \<Rightarrow> State_Monad.return (Inr cd)))
   }"

end
