(* ===== verification/Gateway_Provider.thy ===== *)
theory Gateway_Provider
  imports Port_Allocation Cluster_Topology
begin

text \<open>
  \<open>internal/controller/workspaces/routing/gatewayapi/provider.go\<close>: the route provider that puts
  workspace access on the tenant's regional cluster.
\<close>

section \<open>Cluster topology\<close>

text \<open>\<open>common.FindRegionalClusterDeployment\<close> and \<open>common.GetClusterClientForCD\<close> on the management client
  of the request.\<close>

definition FindRegionalClusterDeployment ::
  "'w provider \<Rightarrow> string \<Rightarrow> string \<Rightarrow> ('w, goerr + ClusterDeployment) gwm" where
  "FindRegionalClusterDeployment p =
     find_regional_cd (\<lambda>ns key value. call (GListCDs ns key value) (ga_list_cds (p_api p) ns key value))"

definition cluster_client :: "'w provider \<Rightarrow> string \<Rightarrow> string \<Rightarrow> ('w, goerr + kubeconfig) gwm" where
  "cluster_client p =
     cluster_client_for_cd (\<lambda>ns name. call (GGetSecret ns name) (ga_get_secret (p_api p) ns name))
       (ga_rest_config (p_api p)) (\<lambda>kc. call (GNewClient kc) (ga_new_client (p_api p) kc))"

section \<open>Construction and context\<close>

definition New :: "'w gateway_api \<Rightarrow> (string \<Rightarrow> nat list) \<Rightarrow> Config \<Rightarrow> 'w provider" where
  "New api sha cfg =
     (let cfg = (if cfg_GatewayName cfg = [] then cfg\<lparr>cfg_GatewayName := DefaultGatewayName\<rparr> else cfg);
          cfg = (if cfg_GatewayNamespace cfg = [] then cfg\<lparr>cfg_GatewayNamespace := DefaultGatewayNamespace\<rparr> else cfg)
      in \<lparr>p_cfg = cfg, p_api = api, p_sha = sha\<rparr>)"

definition getClusterDeployment :: "'w provider \<Rightarrow> 'q WorkspaceDeployment \<Rightarrow> ('w, goerr + ObjectMeta) gwm" where
  "getClusterDeployment p workspace =
     (let cdRef = wss_ClusterDeploymentRef (wsd_Spec workspace) in
      call (GGetCD (cdr_Namespace cdRef) (cdr_Name cdRef)) (ga_get_cd (p_api p) (cdr_Namespace cdRef) (cdr_Name cdRef)))"

text \<open>The loop over the listeners, with the first HTTP domain seen so far.\<close>

fun tenant_domain :: "string \<Rightarrow> Listener list \<Rightarrow> string \<times> string" where
  "tenant_domain httpDomain [] = (if httpDomain \<noteq> [] then (httpDomain, ''http'') else ([], []))"
| "tenant_domain httpDomain (l # ls) =
     (case l_Hostname l of
        None \<Rightarrow> tenant_domain httpDomain ls
      | Some host \<Rightarrow>
          if \<not> prefix ''*.'' host then tenant_domain httpDomain ls
          else if l_Protocol l = HTTPSProtocolType then (drop 2 host, ''https'')
          else if l_Protocol l = HTTPProtocolType then
            tenant_domain (if httpDomain = [] then drop 2 host else httpDomain) ls
          else tenant_domain httpDomain ls)"

definition tenantDomainFromGateway :: "Gateway \<Rightarrow> string \<times> string" where
  "tenantDomainFromGateway gw = tenant_domain [] (gw_Listeners gw)"

definition ensureWaypointReady :: "'w provider \<Rightarrow> kubeconfig \<Rightarrow> string \<Rightarrow> string \<Rightarrow> ('w, goerr option) gwm" where
  "ensureWaypointReady p c cdName side =
     (if \<not> mesh_WaypointEnabled (cfg_Mesh (p_cfg p)) then State_Monad.return None
      else do {
        let name = WaypointNameForClusterDeployment (p_sha p) cdName;
        let ns = mesh_WaypointNamespace (cfg_Mesh (p_cfg p));
        gr \<leftarrow> call (GGetGateway c ns name) (ga_get_gateway (p_api p) c ns name);
        (case gr of
           Inl e \<Rightarrow>
             if IsNotFound e \<or> IsNoMatchError e then
               State_Monad.return (Some (InfraNotReadyError (''per-child waypoint '' @ ns @ ''/'' @ name @
                 '' not found on the '' @ side @ '' cluster '' @ em_dash @
                 '' provision the per-child waypoint pair (ADR-0005)'')))
             else State_Monad.return (Some (wrapf (''failed to get per-child waypoint '' @ ns @ ''/'' @ name @
                    '' on the '' @ side @ '' cluster'') e))
         | Inr gw \<Rightarrow>
             if \<not> ga_cond_true (p_api p) (gw_Conditions gw) ''Programmed'' then
               State_Monad.return (Some (InfraNotReadyError (''per-child waypoint '' @ ns @ ''/'' @ name @
                 '' on the '' @ side @ '' cluster is not programmed yet'')))
             else State_Monad.return None)
      })"

definition resolveGatewayContext ::
  "'w provider \<Rightarrow> 'q WorkspaceDeployment \<Rightarrow> ('w, goerr + gatewayContext) gwm" where
  "resolveGatewayContext p workspace = do {
     let cdRef = wss_ClusterDeploymentRef (wsd_Spec workspace);
     let gwName = cfg_GatewayName (p_cfg p);
     let gwNs = cfg_GatewayNamespace (p_cfg p);
     cr \<leftarrow> getClusterDeployment p workspace;
     (case cr of
        Inl e \<Rightarrow> State_Monad.return (Inl (wrapf (''failed to get ClusterDeployment '' @ cdr_Namespace cdRef @ ''/'' @
                   cdr_Name cdRef) e))
      | Inr cd \<Rightarrow> do {
          let regionalName = lget (om_Labels cd) LabelKOFRegionalClusterName;
          if regionalName = [] then
            State_Monad.return (Inl (InfraNotReadyError (''cluster '' @ fmt_q (cdr_Name cdRef) @
              '' has no regional parent (label '' @ LabelKOFRegionalClusterName @ '' missing) '' @ em_dash @
              '' workspace routing requires a regional cluster'')))
          else do {
            rr \<leftarrow> FindRegionalClusterDeployment p (cdr_Namespace cdRef) regionalName;
            (case rr of
               Inl e \<Rightarrow> State_Monad.return (Inl (InfraNotReadyError (''regional cluster '' @ fmt_q regionalName @
                 '' for cluster '' @ fmt_q (cdr_Name cdRef) @ '' is not resolvable: '' @ emsg e)))
             | Inr regionalCD \<Rightarrow> do {
                 kr \<leftarrow> cluster_client p (cdr_Namespace cdRef) (cd_Name regionalCD);
                 (case kr of
                    Inl e \<Rightarrow> State_Monad.return (Inl (wrapf ''failed to build regional cluster client'' e))
                  | Inr regionalClient \<Rightarrow> do {
                      gr \<leftarrow> call (GGetGateway regionalClient gwNs gwName) (ga_get_gateway (p_api p) regionalClient gwNs gwName);
                      (case gr of
                         Inl e \<Rightarrow>
                           if IsNotFound e \<or> IsNoMatchError e then
                             State_Monad.return (Inl (InfraNotReadyError (''tenant Gateway '' @ gwNs @ ''/'' @ gwName @
                               '' not found on regional cluster '' @ fmt_q regionalName @ '' '' @ em_dash @
                               '' install the tenant routing stack'')))
                           else State_Monad.return (Inl (wrapf ''failed to get tenant Gateway'' e))
                       | Inr gw \<Rightarrow>
                           if \<not> ga_cond_true (p_api p) (gw_Conditions gw) ''Programmed'' then
                             State_Monad.return (Inl (InfraNotReadyError (''tenant Gateway '' @ gwNs @ ''/'' @ gwName @
                               '' is not programmed yet'')))
                           else
                             (let (domain, scheme) = tenantDomainFromGateway gw in
                              if domain = [] then
                                State_Monad.return (Inl (InfraNotReadyError (''tenant Gateway '' @ gwNs @ ''/'' @ gwName @
                                  '' has no HTTP(S) listener with a wildcard hostname (*.<tenant-domain>)'')))
                              else do {
                                we \<leftarrow> ensureWaypointReady p regionalClient (cdr_Name cdRef) ''regional'';
                                (case we of
                                   Some e \<Rightarrow> State_Monad.return (Inl e)
                                 | None \<Rightarrow> State_Monad.return (Inr \<lparr>gc_regionalClient = regionalClient,
                                     gc_domain = domain, gc_scheme = scheme, gc_gateway = gw\<rparr>))
                              }))
                    })
               })
          }
        })
   }"

section \<open>Mirror objects\<close>

text \<open>\<open>for k, v := range desired\<close> on the labels of an object whose map may be nil.\<close>

definition heal_labels :: "labels option \<Rightarrow> labels \<Rightarrow> labels \<times> bool" where
  "heal_labels labels desired = foldl apply_label (case labels of None \<Rightarrow> [] | Some l \<Rightarrow> l, False) desired"

definition ensureMirrorNamespace ::
  "'w provider \<Rightarrow> kubeconfig \<Rightarrow> string \<Rightarrow> string \<Rightarrow> labels \<Rightarrow> ('w, goerr option) gwm" where
  "ensureMirrorNamespace p c nsName workspaceName meshLabels = do {
     let desired = mput_all meshLabels [(LabelWorkspace, workspaceName)];
     nr \<leftarrow> call (GGetNs c nsName) (ga_get_ns (p_api p) c nsName);
     (case nr of
        Inl e \<Rightarrow>
          if IsNotFound e then do {
            let ns = \<lparr>ns_Name = nsName, ns_Labels = Some desired, ns_DeletionTimestamp = 0\<rparr>;
            ce \<leftarrow> call (GCreateNs c ns) (ga_create_ns (p_api p) c ns);
            (case ce of
               None \<Rightarrow> State_Monad.return None
             | Some e \<Rightarrow> if IsAlreadyExists e then State_Monad.return None
                         else State_Monad.return (Some (wrapf ''failed to create mirror namespace'' e)))
          }
          else State_Monad.return (Some (wrapf ''failed to get mirror namespace'' e))
      | Inr ns \<Rightarrow>
          if ns_DeletionTimestamp ns \<noteq> 0 then
            State_Monad.return (Some (errorf (''mirror namespace '' @ fmt_q nsName @ '' is terminating'')))
          else
            (let (labels, changed) = heal_labels (ns_Labels ns) desired in
             if changed then do {
               let ns' = ns\<lparr>ns_Labels := Some labels\<rparr>;
               ue \<leftarrow> call (GUpdateNs c ns') (ga_update_ns (p_api p) c ns');
               State_Monad.return (map_option (wrapf ''failed to label mirror namespace'') ue)
             }
             else State_Monad.return None))
   }"

definition ensureMirrorService ::
  "'w provider \<Rightarrow> kubeconfig \<Rightarrow> string \<Rightarrow> string \<Rightarrow> string \<Rightarrow> AccessEndpoint \<Rightarrow> ('w, goerr option) gwm" where
  "ensureMirrorService p c nsName svcName workspaceName ep = do {
     let desiredPorts = [\<lparr>sp_Name = ep_Name ep, sp_Port = ep_Port ep, sp_Protocol = ''TCP'', sp_TargetPort = 0\<rparr>];
     let desiredLabels = [(LabelWorkspace, workspaceName), (labelIstioGlobal, labelIstioGlobalValue)];
     sr \<leftarrow> call (GGetSvc c nsName svcName) (ga_get_svc (p_api p) c nsName svcName);
     (case sr of
        Inl e \<Rightarrow>
          if IsNotFound e then do {
            let svc = \<lparr>svc_Name = svcName, svc_Namespace = nsName, svc_Labels = Some desiredLabels, svc_Ports = desiredPorts\<rparr>;
            ce \<leftarrow> call (GCreateSvc c svc) (ga_create_svc (p_api p) c svc);
            (case ce of
               None \<Rightarrow> State_Monad.return None
             | Some e \<Rightarrow> if IsAlreadyExists e then State_Monad.return None
                         else State_Monad.return (Some (wrapf (''failed to create mirror Service '' @ fmt_q svcName) e)))
          }
          else State_Monad.return (Some (wrapf (''failed to get mirror Service '' @ fmt_q svcName) e))
      | Inr svc \<Rightarrow>
          (let (labels, relabelled) = heal_labels (svc_Labels svc) desiredLabels;
               reported = \<not> ga_ports_derivative (p_api p) desiredPorts (svc_Ports svc);
               svc' = svc\<lparr>svc_Labels := Some labels, svc_Ports := (if reported then desiredPorts else svc_Ports svc)\<rparr>
           in if relabelled \<or> reported then do {
                ue \<leftarrow> call (GUpdateSvc c svc') (ga_update_svc (p_api p) c svc');
                State_Monad.return (map_option (wrapf (''failed to update mirror Service '' @ fmt_q svcName)) ue)
              }
              else State_Monad.return None))
   }"

definition markServiceGlobal :: "'w provider \<Rightarrow> kubeconfig \<Rightarrow> string \<Rightarrow> string \<Rightarrow> ('w, goerr option) gwm" where
  "markServiceGlobal p childClient nsName svcName = do {
     sr \<leftarrow> call (GGetSvc childClient nsName svcName) (ga_get_svc (p_api p) childClient nsName svcName);
     (case sr of
        Inl e \<Rightarrow>
          if IsNotFound e then State_Monad.return None
          else State_Monad.return (Some (wrapf (''failed to get child Service '' @ fmt_q svcName) e))
      | Inr svc \<Rightarrow>
          (let labels = (case svc_Labels svc of None \<Rightarrow> [] | Some l \<Rightarrow> l) in
           if lget labels labelIstioGlobal = labelIstioGlobalValue then State_Monad.return None
           else do {
             let svc' = svc\<lparr>svc_Labels := Some (mput labelIstioGlobal labelIstioGlobalValue labels)\<rparr>;
             ue \<leftarrow> call (GUpdateSvc childClient svc') (ga_update_svc (p_api p) childClient svc');
             State_Monad.return (map_option (wrapf (''failed to label child Service '' @ fmt_q svcName @ '' global'')) ue)
           }))
   }"

definition desired_http_spec :: "'w provider \<Rightarrow> string \<Rightarrow> string \<Rightarrow> AccessEndpoint \<Rightarrow> HTTPRouteSpec" where
  "desired_http_spec p hostname svcName ep =
     \<lparr>hrs_ParentRefs = [\<lparr>pr_Group = None, pr_Kind = None, pr_Namespace = Some (cfg_GatewayNamespace (p_cfg p)),
                         pr_Name = cfg_GatewayName (p_cfg p), pr_SectionName = None\<rparr>],
      hrs_Hostnames = [hostname],
      hrs_Rules = [\<lparr>hrr_Matches = [], hrr_BackendRefs = desired_backends svcName ep\<rparr>]\<rparr>"

definition ensureHTTPRoute ::
  "'w provider \<Rightarrow> kubeconfig \<Rightarrow> string \<Rightarrow> string \<Rightarrow> string \<Rightarrow> string \<Rightarrow> AccessEndpoint \<Rightarrow> ('w, goerr + bool) gwm" where
  "ensureHTTPRoute p c nsName hostname svcName workspaceName ep = do {
     let desiredSpec = desired_http_spec p hostname svcName ep;
     rr \<leftarrow> call (GGetHTTP c nsName (ep_Name ep)) (ga_get_http (p_api p) c nsName (ep_Name ep));
     (case rr of
        Inl e \<Rightarrow>
          if IsNotFound e then do {
            let route = \<lparr>hr_Name = ep_Name ep, hr_Namespace = nsName, hr_Labels = [(LabelWorkspace, workspaceName)],
                         hr_Spec = desiredSpec, hr_Parents = []\<rparr>;
            ce \<leftarrow> call (GCreateHTTP c route) (ga_create_http (p_api p) c route);
            (case ce of
               None \<Rightarrow> State_Monad.return (Inr False)
             | Some e \<Rightarrow> if IsAlreadyExists e then State_Monad.return (Inr False)
                         else State_Monad.return (Inl (wrapf (''failed to create HTTPRoute '' @ fmt_q (ep_Name ep)) e)))
          }
          else State_Monad.return (Inl (wrapf (''failed to get HTTPRoute '' @ fmt_q (ep_Name ep)) e))
      | Inr route \<Rightarrow> do {
          ur \<leftarrow> (if ga_spec_equal (p_api p) (hr_Spec route) desiredSpec then State_Monad.return (Inr route)
                 else
                   let route' = route\<lparr>hr_Spec := desiredSpec\<rparr> in
                   call (GUpdateHTTP c route') (ga_update_http (p_api p) c route'));
          (case ur of
             Inl e \<Rightarrow> State_Monad.return (Inl (wrapf (''failed to update HTTPRoute '' @ fmt_q (ep_Name ep)) e))
           | Inr route \<Rightarrow> State_Monad.return (Inr (parentsProgrammed (p_api p) (hr_Parents route)
               (cfg_GatewayName (p_cfg p)) (cfg_GatewayNamespace (p_cfg p)))))
        })
   }"

section \<open>EnsureRoutes and CleanupRoutes\<close>

text \<open>The body of the loop over the endpoints: the entry of one endpoint, and whether the primary is assigned.\<close>

definition endpoint_entry :: "AccessEndpoint \<Rightarrow> AccessEntry" where
  "endpoint_entry ep = \<lparr>ae_Name = ep_Name ep, ae_Protocol = ep_Protocol ep, ae_URL = [], ae_Ready = False, ae_Message = []\<rparr>"

definition ensure_endpoint ::
  "'w provider \<Rightarrow> gatewayContext \<Rightarrow> kubeconfig \<Rightarrow> 'q WorkspaceDeployment \<Rightarrow> bool \<Rightarrow> AccessEndpoint
   \<Rightarrow> ('w, goerr + AccessEntry \<times> bool) gwm" where
  "ensure_endpoint p gwCtx childClient workspace primaryAssigned ep = do {
     let nsName = WorkspaceNamespaceName workspace;
     let wsName = wsd_Name workspace;
     let c = gc_regionalClient gwCtx;
     let svcName = EndpointServiceName workspace ep;
     if maxHostnameLabel < length svcName then
       State_Monad.return (Inr ((endpoint_entry ep)\<lparr>ae_Message := ''conventional Service name '' @ fmt_q svcName @
         '' exceeds '' @ fmt_d (int maxHostnameLabel) @ '' characters; shorten the workspace or endpoint name''\<rparr>,
         primaryAssigned))
     else if ep_Protocol ep \<noteq> RouteProtocolHTTP then do {
       me \<leftarrow> ensureMirrorService p c nsName svcName wsName ep;
       (case me of
          Some e \<Rightarrow> State_Monad.return (Inl e)
        | None \<Rightarrow> do {
            ge \<leftarrow> markServiceGlobal p childClient nsName svcName;
            (case ge of
               Some e \<Rightarrow> State_Monad.return (Inl e)
             | None \<Rightarrow> do {
                 te \<leftarrow> ensureTCPRoute p gwCtx nsName svcName wsName ep;
                 (case te of
                    Inl e \<Rightarrow> State_Monad.return (Inl e)
                  | Inr entry \<Rightarrow> State_Monad.return (Inr (entry, primaryAssigned)))
               })
          })
     }
     else do {
       let label = (if primaryAssigned then wsName @ ''-'' @ ep_Name ep else wsName);
       if maxHostnameLabel < length label then
         State_Monad.return (Inr ((endpoint_entry ep)\<lparr>ae_Message := ''hostname label '' @ fmt_q label @
           '' exceeds '' @ fmt_d (int maxHostnameLabel) @ '' characters; shorten the workspace or endpoint name''\<rparr>,
           True))
       else do {
         let hostname = label @ ''.'' @ gc_domain gwCtx;
         me \<leftarrow> ensureMirrorService p c nsName svcName wsName ep;
         (case me of
            Some e \<Rightarrow> State_Monad.return (Inl e)
          | None \<Rightarrow> do {
              ge \<leftarrow> markServiceGlobal p childClient nsName svcName;
              (case ge of
                 Some e \<Rightarrow> State_Monad.return (Inl e)
               | None \<Rightarrow> do {
                   hr \<leftarrow> ensureHTTPRoute p c nsName hostname svcName wsName ep;
                   (case hr of
                      Inl e \<Rightarrow> State_Monad.return (Inl e)
                    | Inr ready \<Rightarrow> State_Monad.return (Inr ((endpoint_entry ep)\<lparr>
                        ae_URL := gc_scheme gwCtx @ ''://'' @ hostname, ae_Ready := ready,
                        ae_Message := (if ready then [] else msgAwaitingAcceptance)\<rparr>, True)))
                 })
            })
       }
     }
   }"

fun ensure_endpoints ::
  "'w provider \<Rightarrow> gatewayContext \<Rightarrow> kubeconfig \<Rightarrow> 'q WorkspaceDeployment \<Rightarrow> bool \<Rightarrow> AccessEndpoint list
   \<Rightarrow> ('w, goerr + AccessEntry list) gwm" where
  "ensure_endpoints p gwCtx childClient workspace primaryAssigned [] = State_Monad.return (Inr [])"
| "ensure_endpoints p gwCtx childClient workspace primaryAssigned (ep # eps) = do {
     er \<leftarrow> ensure_endpoint p gwCtx childClient workspace primaryAssigned ep;
     (case er of
        Inl e \<Rightarrow> State_Monad.return (Inl e)
      | Inr (entry, primaryAssigned) \<Rightarrow> do {
          rest \<leftarrow> ensure_endpoints p gwCtx childClient workspace primaryAssigned eps;
          State_Monad.return (map_sum id (\<lambda>entries. entry # entries) rest)
        })
   }"

definition ensure_routes ::
  "'w provider \<Rightarrow> 'q WorkspaceDeployment \<Rightarrow> AccessEndpoint list \<Rightarrow> ('w, goerr + AccessEntry list) gwm" where
  "ensure_routes p workspace endpoints = do {
     gr \<leftarrow> resolveGatewayContext p workspace;
     (case gr of
        Inl e \<Rightarrow> State_Monad.return (Inl e)
      | Inr gwCtx \<Rightarrow> do {
          let cdRef = wss_ClusterDeploymentRef (wsd_Spec workspace);
          let nsName = WorkspaceNamespaceName workspace;
          me \<leftarrow> ensureMirrorNamespace p (gc_regionalClient gwCtx) nsName (wsd_Name workspace)
                  (MirrorNamespaceLabels (cfg_Mesh (p_cfg p)));
          (case me of
             Some e \<Rightarrow> State_Monad.return (Inl e)
           | None \<Rightarrow> do {
               kr \<leftarrow> cluster_client p (cdr_Namespace cdRef) (cdr_Name cdRef);
               (case kr of
                  Inl e \<Rightarrow> State_Monad.return (Inl (wrapf ''failed to reach child cluster to mark services global'' e))
                | Inr childClient \<Rightarrow> do {
                    we \<leftarrow> ensureWaypointReady p childClient (cdr_Name cdRef) ''child'';
                    (case we of
                       Some e \<Rightarrow> State_Monad.return (Inl e)
                     | None \<Rightarrow> ensure_endpoints p gwCtx childClient workspace False endpoints)
                  })
             })
        })
   }"

text \<open>The last step of \<open>CleanupRoutes\<close>.\<close>

definition delete_mirror :: "'w provider \<Rightarrow> kubeconfig \<Rightarrow> string \<Rightarrow> ('w, goerr option) gwm" where
  "delete_mirror p c nsName = do {
     de \<leftarrow> call (GDeleteNs c nsName) (ga_delete_ns (p_api p) c nsName);
     (case de of
        None \<Rightarrow> State_Monad.return None
      | Some e \<Rightarrow> if IsNotFound e then State_Monad.return None
                  else State_Monad.return (Some (wrapf ''failed to delete mirror namespace on regional cluster'' e)))
   }"

definition cleanup_routes :: "'w provider \<Rightarrow> 'q WorkspaceDeployment \<Rightarrow> ('w, goerr option) gwm" where
  "cleanup_routes p workspace = do {
     let cdRef = wss_ClusterDeploymentRef (wsd_Spec workspace);
     cr \<leftarrow> getClusterDeployment p workspace;
     (case cr of
        Inl e \<Rightarrow> if IsNotFound e then State_Monad.return None else State_Monad.return (Some e)
      | Inr cd \<Rightarrow> do {
          let regionalName = lget (om_Labels cd) LabelKOFRegionalClusterName;
          if regionalName = [] then State_Monad.return None
          else do {
            rr \<leftarrow> FindRegionalClusterDeployment p (cdr_Namespace cdRef) regionalName;
            (case rr of
               Inl e \<Rightarrow> State_Monad.return None
             | Inr regionalCD \<Rightarrow> do {
                 kr \<leftarrow> cluster_client p (cdr_Namespace cdRef) (cd_Name regionalCD);
                 (case kr of
                    Inl e \<Rightarrow> State_Monad.return (Some (wrapf ''failed to reach regional cluster for route cleanup'' e))
                  | Inr regionalClient \<Rightarrow> do {
                      let nsName = WorkspaceNamespaceName workspace;
                      let selector = [(LabelWorkspace, wsd_Name workspace)];
                      te \<leftarrow> call (GDeleteTCPs regionalClient nsName selector)
                              (ga_delete_tcps (p_api p) regionalClient nsName selector);
                      (case te of
                         Some e \<Rightarrow>
                           if \<not> IsNotFound e \<and> \<not> IsNoMatchError e then
                             State_Monad.return (Some (wrapf ''failed to delete TCPRoutes on regional cluster'' e))
                           else delete_mirror p regionalClient nsName
                       | None \<Rightarrow> delete_mirror p regionalClient nsName)
                    })
               })
          }
        })
   }"

text \<open>The provider as the workspace reconciler calls it (\<open>routing.RouteProvider\<close>).\<close>

definition gateway_route_provider :: "'w provider \<Rightarrow> ('w, 'q) route_provider" where
  "gateway_route_provider p =
     \<lparr>EnsureRoutes = (\<lambda>workspace endpoints. run_calls (ensure_routes p workspace endpoints)),
      CleanupRoutes = (\<lambda>workspace endpoints. run_calls (cleanup_routes p workspace))\<rparr>"

end
