(* ===== verification/Gateway_Properties.thy ===== *)
theory Gateway_Properties
  imports Gateway_Provider
begin

text \<open>
  What the Gateway API route provider guarantees: where it writes, when it attaches routes, what
  its entries mean, and what cleanup deletes.
\<close>

section \<open>Reads\<close>

definition gw_reads :: "('w, 'a) gwm \<Rightarrow> bool" where
  "gw_reads m \<longleftrightarrow> (\<forall>s. tsafe (\<lambda>_ e. gev_read e) m s (\<lambda>_ _. True))"

lemma gw_readsD: "gw_reads m \<Longrightarrow> tsafe (\<lambda>_ e. gev_read e) m s (\<lambda>_ _. True)"
  by (simp add: gw_reads_def)

lemma gw_reads_cluster_client: "gw_reads (cluster_client p ns cd)"
  unfolding gw_reads_def cluster_client_def cluster_client_for_cd_def
  by (intro allI traced_rules conjI) simp_all

section \<open>Which cluster a client talks to\<close>

abbreviation ws_cluster :: "'q WorkspaceDeployment \<Rightarrow> string" where
  "ws_cluster ws \<equiv> cdr_Name (wss_ClusterDeploymentRef (wsd_Spec ws))"

abbreviation ws_cluster_ns :: "'q WorkspaceDeployment \<Rightarrow> string" where
  "ws_cluster_ns ws \<equiv> cdr_Namespace (wss_ClusterDeploymentRef (wsd_Spec ws))"

text \<open>A client of a cluster: built in this run from the kubeconfig read under the name of its
  ClusterDeployment.\<close>

definition client_of :: "gev list \<Rightarrow> string \<Rightarrow> string \<Rightarrow> kubeconfig \<Rightarrow> bool" where
  "client_of h ns cdName c \<longleftrightarrow>
     GNewClient c None \<in> set h \<and>
     (\<exists>sec. GGetSecret ns (cdName @ ''-kubeconfig'') (Inr sec) \<in> set h \<and> map_of (sec_Data sec) ''value'' = Some c)"

text \<open>The child cluster of a workspace, and the regional cluster the labels of the child name.\<close>

definition child_client :: "gev list \<Rightarrow> 'q WorkspaceDeployment \<Rightarrow> kubeconfig \<Rightarrow> bool" where
  "child_client h ws c \<longleftrightarrow> client_of h (ws_cluster_ns ws) (ws_cluster ws) c"

definition regional_client :: "gev list \<Rightarrow> 'q WorkspaceDeployment \<Rightarrow> kubeconfig \<Rightarrow> bool" where
  "regional_client h ws c \<longleftrightarrow>
     (\<exists>cd rn rcd items. GGetCD (ws_cluster_ns ws) (ws_cluster ws) (Inr cd) \<in> set h \<and>
        lget (om_Labels cd) LabelKOFRegionalClusterName = rn \<and> rn \<noteq> [] \<and>
        GListCDs (ws_cluster_ns ws) LabelKOFClusterName rn (Inr (rcd # items)) \<in> set h \<and>
        client_of h (ws_cluster_ns ws) (cd_Name rcd) c)"

lemma client_of_mono: "client_of h ns cd c \<Longrightarrow> set h \<subseteq> set h' \<Longrightarrow> client_of h' ns cd c"
  unfolding client_of_def by blast

lemma child_client_mono: "child_client h ws c \<Longrightarrow> set h \<subseteq> set h' \<Longrightarrow> child_client h' ws c"
  unfolding child_client_def by (rule client_of_mono)

lemma regional_client_mono: "regional_client h ws c \<Longrightarrow> set h \<subseteq> set h' \<Longrightarrow> regional_client h' ws c"
  unfolding regional_client_def by (blast intro: client_of_mono)

lemma tsafe_cluster_client:
  "tsafe (\<lambda>_ e. gev_read e) (cluster_client p ns cd) s (\<lambda>res s'. \<forall>c. res = Inr c \<longrightarrow> client_of (cs_trace s') ns cd c)"
  unfolding cluster_client_def cluster_client_for_cd_def
  by (intro traced_rules conjI) (auto simp: client_of_def)

lemma tsafe_getCD:
  "tsafe (\<lambda>_ e. gev_read e) (getClusterDeployment p ws) s
     (\<lambda>res s'. GGetCD (ws_cluster_ns ws) (ws_cluster ws) res \<in> set (cs_trace s'))"
  unfolding getClusterDeployment_def Let_def by (intro traced_rules conjI) simp_all

definition lookup_failed :: "gev list \<Rightarrow> bool" where
  "lookup_failed h \<longleftrightarrow> (\<exists>ns k v e. GListCDs ns k v (Inl e) \<in> set h)"

lemma tsafe_FindRegional:
  "tsafe (\<lambda>_ e. gev_read e) (FindRegionalClusterDeployment p ns rn) s
     (\<lambda>res s'. case res of
        Inl e \<Rightarrow> GListCDs ns LabelKOFClusterName rn (Inr []) \<in> set (cs_trace s') \<or> lookup_failed (cs_trace s')
      | Inr cd \<Rightarrow> \<exists>items. GListCDs ns LabelKOFClusterName rn (Inr (cd # items)) \<in> set (cs_trace s'))"
  unfolding FindRegionalClusterDeployment_def find_regional_cd_def
  by (intro traced_rules conjI) (auto simp: lookup_failed_def)

section \<open>Gateways that must be programmed\<close>

definition programmed :: "'w provider \<Rightarrow> gev list \<Rightarrow> kubeconfig \<Rightarrow> string \<Rightarrow> string \<Rightarrow> bool" where
  "programmed p h c ns name \<longleftrightarrow>
     (\<exists>gw. GGetGateway c ns name (Inr gw) \<in> set h \<and> ga_cond_true (p_api p) (gw_Conditions gw) ''Programmed'')"

definition waypoint_ready :: "'w provider \<Rightarrow> gev list \<Rightarrow> kubeconfig \<Rightarrow> string \<Rightarrow> bool" where
  "waypoint_ready p h c cdName \<longleftrightarrow> mesh_WaypointEnabled (cfg_Mesh (p_cfg p)) \<longrightarrow>
     programmed p h c (mesh_WaypointNamespace (cfg_Mesh (p_cfg p))) (WaypointNameForClusterDeployment (p_sha p) cdName)"

text \<open>The tenant's side is up: \<open>c\<close> is the regional cluster of the workspace, and the tenant Gateway and
  the waypoint of the child were read as programmed there.\<close>

definition tenant_ready :: "'w provider \<Rightarrow> gev list \<Rightarrow> kubeconfig \<Rightarrow> 'q WorkspaceDeployment \<Rightarrow> bool" where
  "tenant_ready p h c ws \<longleftrightarrow>
     regional_client h ws c \<and> programmed p h c (cfg_GatewayNamespace (p_cfg p)) (cfg_GatewayName (p_cfg p)) \<and>
     waypoint_ready p h c (ws_cluster ws)"

lemma programmed_mono: "programmed p h c ns name \<Longrightarrow> set h \<subseteq> set h' \<Longrightarrow> programmed p h' c ns name"
  by (auto simp: programmed_def)

lemma waypoint_ready_mono: "waypoint_ready p h c cd \<Longrightarrow> set h \<subseteq> set h' \<Longrightarrow> waypoint_ready p h' c cd"
  by (auto simp: waypoint_ready_def intro: programmed_mono)

lemma tenant_ready_mono: "tenant_ready p h c ws \<Longrightarrow> set h \<subseteq> set h' \<Longrightarrow> tenant_ready p h' c ws"
  unfolding tenant_ready_def by (blast intro: regional_client_mono programmed_mono waypoint_ready_mono)

lemma tsafe_waypoint:
  "tsafe (\<lambda>_ e. gev_read e) (ensureWaypointReady p c cd side) s
     (\<lambda>res s'. res = None \<longrightarrow> waypoint_ready p (cs_trace s') c cd)"
  unfolding ensureWaypointReady_def Let_def
  by (intro traced_rules conjI) (auto simp: waypoint_ready_def programmed_def)

text \<open>The tenant domain: the first HTTPS wildcard decides, else the first HTTP wildcard with a domain.\<close>

definition wildcard :: "string \<Rightarrow> Listener \<Rightarrow> bool" where
  "wildcard protocol l \<longleftrightarrow> l_Protocol l = protocol \<and> (case l_Hostname l of None \<Rightarrow> False | Some host \<Rightarrow> prefix ''*.'' host)"

definition wildcard_domain :: "Listener \<Rightarrow> string" where
  "wildcard_domain l = (case l_Hostname l of None \<Rightarrow> [] | Some host \<Rightarrow> drop 2 host)"

lemma tenant_domain_find:
  "tenant_domain d ls =
     (case find (wildcard HTTPSProtocolType) ls of
        Some l \<Rightarrow> (wildcard_domain l, ''https'')
      | None \<Rightarrow>
          if d \<noteq> [] then (d, ''http'')
          else (case find (\<lambda>l. wildcard HTTPProtocolType l \<and> wildcard_domain l \<noteq> []) ls of
                  Some l \<Rightarrow> (wildcard_domain l, ''http'')
                | None \<Rightarrow> ([], [])))"
  by (induction ls arbitrary: d) (auto simp: wildcard_def wildcard_domain_def split: option.splits)

text \<open>
  The tenant domain, by the book: \<open>tenantDomainFromGateway\<close> is one pass over the listeners with an
  early return.  It computes the domain of the first HTTPS listener with a wildcard hostname, with scheme
  \<open>https\<close>; without one, that of the first HTTP listener with a wildcard over a domain, with scheme
  \<open>http\<close>; and otherwise two empty strings.
\<close>

theorem tenantDomain_reference:
  "tenantDomainFromGateway gw =
     (case find (wildcard HTTPSProtocolType) (gw_Listeners gw) of
        Some l \<Rightarrow> (wildcard_domain l, ''https'')
      | None \<Rightarrow> (case find (\<lambda>l. wildcard HTTPProtocolType l \<and> wildcard_domain l \<noteq> []) (gw_Listeners gw) of
                   Some l \<Rightarrow> (wildcard_domain l, ''http'')
                 | None \<Rightarrow> ([], [])))"
  by (simp add: tenantDomainFromGateway_def tenant_domain_find cong: option.case_cong)

lemma tenant_scheme: "tenantDomainFromGateway gw = (domain, scheme) \<Longrightarrow> domain \<noteq> [] \<Longrightarrow> scheme \<in> {''https'', ''http''}"
  by (auto simp: tenantDomainFromGateway_def tenant_domain_find split: option.splits if_splits)

text \<open>The tenant Gateway, as read on that cluster, has a listener for the wildcard of the domain.\<close>

definition serves_domain :: "'w provider \<Rightarrow> gev list \<Rightarrow> kubeconfig \<Rightarrow> string \<Rightarrow> bool" where
  "serves_domain p h c domain \<longleftrightarrow> domain \<noteq> [] \<and>
     (\<exists>gw. GGetGateway c (cfg_GatewayNamespace (p_cfg p)) (cfg_GatewayName (p_cfg p)) (Inr gw) \<in> set h \<and>
        (\<exists>l \<in> set (gw_Listeners gw). l_Protocol l \<in> {HTTPProtocolType, HTTPSProtocolType} \<and> l_Hostname l = Some (''*.'' @ domain)))"

lemma serves_domain_mono: "serves_domain p h c d \<Longrightarrow> set h \<subseteq> set h' \<Longrightarrow> serves_domain p h' c d"
  unfolding serves_domain_def by blast

lemma wildcard_hostname: "wildcard protocol l \<Longrightarrow> l_Protocol l = protocol \<and> l_Hostname l = Some (''*.'' @ wildcard_domain l)"
  by (auto simp: wildcard_def wildcard_domain_def prefix_def split: option.splits)

lemma tenantDomain_listener:
  assumes "tenantDomainFromGateway gw = (d, scheme)" and "d \<noteq> []"
  shows "\<exists>l \<in> set (gw_Listeners gw). l_Protocol l \<in> {HTTPProtocolType, HTTPSProtocolType} \<and> l_Hostname l = Some (''*.'' @ d)"
proof -
  have found: "l \<in> set xs \<and> P l" if "find P xs = Some l" for P xs and l :: Listener
    using that by (auto simp: find_Some_iff)
  obtain pr l where "l \<in> set (gw_Listeners gw)" "wildcard pr l" "pr \<in> {HTTPProtocolType, HTTPSProtocolType}" "d = wildcard_domain l"
    using assms by (auto simp: tenantDomainFromGateway_def tenant_domain_find split: option.splits if_splits dest!: found)
  then show ?thesis using wildcard_hostname by blast
qed

lemma tenant_resolved:
  assumes "lget (om_Labels cd) LabelKOFRegionalClusterName \<noteq> []"
    and "client_of h0 (ws_cluster_ns ws) (cd_Name rcd) c" and "waypoint_ready p h c (ws_cluster ws)"
    and "ga_cond_true (p_api p) (gw_Conditions gw) ''Programmed''" and "tenantDomainFromGateway gw = (d, scheme)" and "d \<noteq> []"
    and "set h0 \<subseteq> set h" and "GGetCD (ws_cluster_ns ws) (ws_cluster ws) (Inr cd) \<in> set h"
    and "GListCDs (ws_cluster_ns ws) LabelKOFClusterName (lget (om_Labels cd) LabelKOFRegionalClusterName) (Inr (rcd # items)) \<in> set h"
    and "GGetGateway c (cfg_GatewayNamespace (p_cfg p)) (cfg_GatewayName (p_cfg p)) (Inr gw) \<in> set h"
  shows "tenant_ready p h c ws \<and> serves_domain p h c d"
  using assms client_of_mono [OF assms(2,7)] tenantDomain_listener [OF assms(5,6)]
  unfolding tenant_ready_def regional_client_def programmed_def serves_domain_def by blast

lemma tsafe_resolve:
  "tsafe (\<lambda>_ e. gev_read e) (resolveGatewayContext p ws) s
     (\<lambda>res s'. case res of
        Inr g \<Rightarrow> tenant_ready p (cs_trace s') (gc_regionalClient g) ws \<and>
          serves_domain p (cs_trace s') (gc_regionalClient g) (gc_domain g)
      | Inl _ \<Rightarrow> True)"
  unfolding resolveGatewayContext_def Let_def
  by (intro traced_rules traced_lift [OF tsafe_getCD] traced_lift [OF tsafe_FindRegional] traced_lift [OF tsafe_cluster_client]
      traced_lift [OF tsafe_waypoint] conjI; clarsimp) (rule tenant_resolved, assumption+; auto)

section \<open>Writes\<close>

text \<open>
  What an API server documents of \<open>Get\<close>: the object it returns has the namespace and name asked for.
\<close>

definition keyed_gets :: "'w provider \<Rightarrow> bool" where
  "keyed_gets p \<longleftrightarrow>
     (\<forall>c name w r. fst (ga_get_ns (p_api p) c name w) = Inr r \<longrightarrow> ns_Name r = name) \<and>
     (\<forall>c ns name w r. fst (ga_get_svc (p_api p) c ns name w) = Inr r \<longrightarrow> svc_Namespace r = ns \<and> svc_Name r = name) \<and>
     (\<forall>c ns name w r. fst (ga_get_http (p_api p) c ns name w) = Inr r \<longrightarrow> hr_Namespace r = ns \<and> hr_Name r = name) \<and>
     (\<forall>c ns name w r. fst (ga_get_tcp (p_api p) c ns name w) = Inr r \<longrightarrow> tr_Namespace r = ns \<and> tr_Name r = name)"

lemma keyed_getsD:
  assumes "keyed_gets p"
  shows "ga_get_ns (p_api p) c name w = (Inr n, w') \<Longrightarrow> ns_Name n = name"
    and "ga_get_svc (p_api p) c ns name w = (Inr v, w') \<Longrightarrow> svc_Namespace v = ns \<and> svc_Name v = name"
    and "ga_get_http (p_api p) c ns name w = (Inr r, w') \<Longrightarrow> hr_Namespace r = ns \<and> hr_Name r = name"
    and "ga_get_tcp (p_api p) c ns name w = (Inr t, w') \<Longrightarrow> tr_Namespace t = ns \<and> tr_Name t = name"
  using assms unfolding keyed_gets_def by (metis fst_conv)+

text \<open>A hostname of the workspace: a label of at most 63 characters, its name or its name and that of the
  endpoint, directly below the wildcard of the tenant Gateway that was read on the cluster.\<close>

definition hostname_ok :: "'w provider \<Rightarrow> gev list \<Rightarrow> kubeconfig \<Rightarrow> 'q WorkspaceDeployment \<Rightarrow> string \<Rightarrow> string \<Rightarrow> bool" where
  "hostname_ok p h c ws epName host \<longleftrightarrow>
     (\<exists>label domain. host = label @ ''.'' @ domain \<and> serves_domain p h c domain \<and> length label \<le> 63 \<and>
        (label = wsd_Name ws \<or> label = wsd_Name ws @ ''-'' @ epName))"

text \<open>
  The mesh path is there: the tenant's side is up on the regional cluster \<open>c\<close>, and the waypoint was seen
  programmed on the child as well.
\<close>

definition path_ready :: "'w provider \<Rightarrow> gev list \<Rightarrow> kubeconfig \<Rightarrow> 'q WorkspaceDeployment \<Rightarrow> bool" where
  "path_ready p h c ws \<longleftrightarrow> tenant_ready p h c ws \<and>
     (\<exists>child. child_client h ws child \<and> waypoint_ready p h child (ws_cluster ws))"

definition one_hostname :: "'w provider \<Rightarrow> gev list \<Rightarrow> kubeconfig \<Rightarrow> 'q WorkspaceDeployment \<Rightarrow> HTTPRoute \<Rightarrow> bool" where
  "one_hostname p h c ws r \<longleftrightarrow> (\<exists>host. hrs_Hostnames (hr_Spec r) = [host] \<and> hostname_ok p h c ws (hr_Name r) host)"

text \<open>The one write to a child: a Service as it was read there, with the label that makes it global.\<close>

definition marked_global :: "gev list \<Rightarrow> kubeconfig \<Rightarrow> Service \<Rightarrow> bool" where
  "marked_global h c v \<longleftrightarrow>
     (\<exists>v0. GGetSvc c (svc_Namespace v) (svc_Name v) (Inr v0) \<in> set h \<and>
        v = v0\<lparr>svc_Labels := Some (mput labelIstioGlobal labelIstioGlobalValue (case svc_Labels v0 of None \<Rightarrow> [] | Some l \<Rightarrow> l))\<rparr>)"

definition child_write :: "'w provider \<Rightarrow> 'q WorkspaceDeployment \<Rightarrow> gev list \<Rightarrow> kubeconfig \<Rightarrow> Service \<Rightarrow> bool" where
  "child_write p ws h c v \<longleftrightarrow>
     child_client h ws c \<and> waypoint_ready p h c (ws_cluster ws) \<and> (\<exists>regional. path_ready p h regional ws) \<and> marked_global h c v"

fun write_ok :: "'w provider \<Rightarrow> 'q WorkspaceDeployment \<Rightarrow> gev list \<Rightarrow> gev \<Rightarrow> bool" where
  "write_ok p ws h (GCreateNs c n _) = (ns_Name n = WorkspaceNamespaceName ws \<and> tenant_ready p h c ws)"
| "write_ok p ws h (GUpdateNs c n _) = (ns_Name n = WorkspaceNamespaceName ws \<and> tenant_ready p h c ws)"
| "write_ok p ws h (GCreateSvc c v _) =
     (svc_Namespace v = WorkspaceNamespaceName ws \<and> length (svc_Name v) \<le> 63 \<and> path_ready p h c ws)"
| "write_ok p ws h (GUpdateSvc c v _) =
     (svc_Namespace v = WorkspaceNamespaceName ws \<and> (path_ready p h c ws \<or> child_write p ws h c v))"
| "write_ok p ws h (GCreateHTTP c r _) =
     (hr_Namespace r = WorkspaceNamespaceName ws \<and> path_ready p h c ws \<and> one_hostname p h c ws r)"
| "write_ok p ws h (GUpdateHTTP c r _) =
     (hr_Namespace r = WorkspaceNamespaceName ws \<and> path_ready p h c ws \<and> one_hostname p h c ws r)"
| "write_ok p ws h (GCreateTCP c r _) = (tr_Namespace r = WorkspaceNamespaceName ws \<and> path_ready p h c ws)"
| "write_ok p ws h (GUpdateTCP c r _) = (tr_Namespace r = WorkspaceNamespaceName ws \<and> path_ready p h c ws)"
| "write_ok p ws h (GDeleteNs _ _ _) = False"
| "write_ok p ws h (GDeleteTCPs _ _ _ _) = False"
| "write_ok p ws h _ = True"

lemma write_ok_read [simp]: "gev_read e \<Longrightarrow> write_ok p ws h e"
  by (cases e) auto

lemma tenant_ready_append: "tenant_ready p h c ws \<Longrightarrow> tenant_ready p (h @ es) c ws"
  by (rule tenant_ready_mono) auto

lemma readings_append:
  "child_client h ws c \<Longrightarrow> child_client (h @ es) ws c" "waypoint_ready p h c cd \<Longrightarrow> waypoint_ready p (h @ es) c cd"
  "serves_domain p h c d \<Longrightarrow> serves_domain p (h @ es) c d"
  using child_client_mono [of h ws c "h @ es"] waypoint_ready_mono [of p h c cd "h @ es"] serves_domain_mono [of p h c d "h @ es"]
  by simp_all

lemma path_ready_append: "path_ready p h c ws \<Longrightarrow> path_ready p (h @ es) c ws"
  unfolding path_ready_def using tenant_ready_append readings_append by blast

lemma hostname_ok_append: "hostname_ok p h c ws e host \<Longrightarrow> hostname_ok p (h @ es) c ws e host"
  unfolding hostname_ok_def using readings_append(3) by blast

lemma tsafe_mirror_ns:
  assumes "keyed_gets p" and "tenant_ready p (cs_trace s) c ws"
  shows "tsafe (write_ok p ws) (ensureMirrorNamespace p c (WorkspaceNamespaceName ws) wsn mesh) s (\<lambda>_ _. True)"
  unfolding ensureMirrorNamespace_def Let_def
  by (intro traced_rules conjI) (auto simp: keyed_getsD(1) [OF assms(1)] tenant_ready_append [OF assms(2)])

lemma tsafe_mirror_svc:
  assumes "keyed_gets p" and "path_ready p (cs_trace s) c ws" and "length svc \<le> 63"
  shows "tsafe (write_ok p ws) (ensureMirrorService p c (WorkspaceNamespaceName ws) svc wsn ep) s (\<lambda>_ _. True)"
  unfolding ensureMirrorService_def Let_def
  by (intro traced_rules conjI)
    (auto simp: keyed_getsD(2) [OF assms(1)] path_ready_append [OF assms(2)] assms(3))

text \<open>Where the services of the child are marked: its client, its waypoint and the regional path are known.\<close>

definition child_ready :: "'w provider \<Rightarrow> gev list \<Rightarrow> kubeconfig \<Rightarrow> 'q WorkspaceDeployment \<Rightarrow> bool" where
  "child_ready p h child ws \<longleftrightarrow> child_client h ws child \<and> waypoint_ready p h child (ws_cluster ws)"

lemma child_ready_append: "child_ready p h c ws \<Longrightarrow> child_ready p (h @ es) c ws"
  unfolding child_ready_def using readings_append by blast

lemma child_writeI:
  assumes "child_ready p h child ws" and "path_ready p h c ws" and "marked_global (h @ es) child v"
  shows "child_write p ws (h @ es) child v"
  using child_ready_append [OF assms(1)] path_ready_append [OF assms(2)] assms(3)
  by (auto simp: child_write_def child_ready_def)

lemma tsafe_mark_global:
  assumes "keyed_gets p" and "path_ready p (cs_trace s) c ws" and "child_ready p (cs_trace s) child ws"
  shows "tsafe (write_ok p ws) (markServiceGlobal p child (WorkspaceNamespaceName ws) svc) s (\<lambda>_ _. True)"
  unfolding markServiceGlobal_def Let_def
  by (intro traced_rules conjI)
    (auto simp: keyed_getsD(2) [OF assms(1)] marked_global_def intro!: child_writeI [OF assms(3,2)])

lemma tsafe_http:
  assumes "keyed_gets p" and "path_ready p (cs_trace s) c ws" and "hostname_ok p (cs_trace s) c ws (ep_Name ep) host"
  shows "tsafe (write_ok p ws) (ensureHTTPRoute p c (WorkspaceNamespaceName ws) host svc wsn ep) s (\<lambda>_ _. True)"
  unfolding ensureHTTPRoute_def Let_def
  by (intro traced_rules conjI)
    (auto simp: one_hostname_def desired_http_spec_def keyed_getsD(3) [OF assms(1)] path_ready_append [OF assms(2)]
      hostname_ok_append [OF assms(3)])

lemma tsafe_tcp:
  assumes "keyed_gets p" and "path_ready p (cs_trace s) (gc_regionalClient g) ws"
  shows "tsafe (write_ok p ws) (ensureTCPRoute p g (WorkspaceNamespaceName ws) svc wsn ep) s (\<lambda>_ _. True)"
  unfolding ensureTCPRoute_def allocatedSections_def Let_def
  by (intro traced_rules conjI)
    (auto simp: new_tcp_route_def keyed_getsD(4) [OF assms(1)] path_ready_append [OF assms(2)])

text \<open>What holds when the endpoints are visited.\<close>

definition endpoints_ready :: "'w provider \<Rightarrow> gev list \<Rightarrow> gatewayContext \<Rightarrow> kubeconfig \<Rightarrow> 'q WorkspaceDeployment \<Rightarrow> bool" where
  "endpoints_ready p h g child ws \<longleftrightarrow>
     path_ready p h (gc_regionalClient g) ws \<and> child_ready p h child ws \<and> serves_domain p h (gc_regionalClient g) (gc_domain g)"

lemma endpoints_ready_append: "endpoints_ready p h g child ws \<Longrightarrow> endpoints_ready p (h @ es) g child ws"
  unfolding endpoints_ready_def using path_ready_append child_ready_append readings_append(3) by blast

lemma tsafe_endpoint:
  assumes "keyed_gets p" and "endpoints_ready p (cs_trace s) g child ws"
  shows "tsafe (write_ok p ws) (ensure_endpoint p g child ws assigned ep) s (\<lambda>_ _. True)"
proof -
  have ready: "path_ready p (cs_trace s) (gc_regionalClient g) ws" "child_ready p (cs_trace s) child ws"
    "path_ready p (cs_trace s @ es) (gc_regionalClient g) ws" "child_ready p (cs_trace s @ es) child ws" for es
    using assms(2) endpoints_ready_append [OF assms(2), of es] by (simp_all add: endpoints_ready_def)
  have host: "length (wsd_Name ws) + length (ep_Name ep) \<le> 62 \<Longrightarrow>
      hostname_ok p (cs_trace s @ es) (gc_regionalClient g) ws (ep_Name ep) (wsd_Name ws @ CHR ''-'' # ep_Name ep @ CHR ''.'' # gc_domain g)"
    "length (wsd_Name ws) \<le> 63 \<Longrightarrow>
      hostname_ok p (cs_trace s @ es) (gc_regionalClient g) ws (ep_Name ep) (wsd_Name ws @ CHR ''.'' # gc_domain g)" for es
    using endpoints_ready_append [OF assms(2), of es] unfolding hostname_ok_def endpoints_ready_def
    by (intro exI [of _ "wsd_Name ws @ ''-'' @ ep_Name ep"] exI [of _ "gc_domain g"]; simp)
       (use endpoints_ready_append [OF assms(2), of es] in \<open>intro exI [of _ "wsd_Name ws"] exI [of _ "gc_domain g"]; simp add: endpoints_ready_def\<close>)
  show ?thesis
    unfolding ensure_endpoint_def Let_def
    by (intro traced_rules refl traced_lift [OF tsafe_mirror_svc [OF assms(1)]]
        traced_lift [OF tsafe_mark_global [OF assms(1), where c = "gc_regionalClient g"]]
        traced_lift [OF tsafe_http [OF assms(1)]] traced_lift [OF tsafe_tcp [OF assms(1)]])
      (auto simp: ready maxHostnameLabel_def intro!: host)
qed

lemma tsafe_endpoints:
  assumes "keyed_gets p" and "endpoints_ready p (cs_trace s) g child ws"
  shows "tsafe (write_ok p ws) (ensure_endpoints p g child ws assigned eps) s (\<lambda>_ _. True)"
  using assms(2)
proof (induction eps arbitrary: assigned s)
  case (Cons ep eps)
  show ?case
    unfolding ensure_endpoints.simps
    by (intro traced_rules traced_lift [OF tsafe_endpoint [OF assms(1) Cons.prems]] traced_lift [OF Cons.IH])
      (auto intro: endpoints_ready_append [OF Cons.prems])
qed (auto intro: traced_rules)

lemma endpoints_readyI:
  assumes "tenant_ready p h (gc_regionalClient g) ws" and "serves_domain p h (gc_regionalClient g) (gc_domain g)"
    and "client_of h' (ws_cluster_ns ws) (ws_cluster ws) child" and "waypoint_ready p h'' child (ws_cluster ws)"
    and "set h \<subseteq> set h'" and "set h' \<subseteq> set h''"
  shows "endpoints_ready p h'' g child ws"
proof -
  have sub: "set h \<subseteq> set h''" using assms(5,6) by blast
  have "child_ready p h'' child ws"
    using client_of_mono [OF assms(3,6)] assms(4) by (simp add: child_ready_def child_client_def)
  then show ?thesis
    using tenant_ready_mono [OF assms(1) sub] serves_domain_mono [OF assms(2) sub]
    by (auto simp: endpoints_ready_def path_ready_def child_ready_def)
qed

lemma tsafe_ensure_routes:
  assumes "keyed_gets p"
  shows "tsafe (write_ok p ws) (ensure_routes p ws eps) s (\<lambda>_ _. True)"
  unfolding ensure_routes_def Let_def
  by (intro traced_rules traced_lift [OF tsafe_resolve] traced_lift [OF tsafe_mirror_ns [OF assms]]
      traced_lift [OF tsafe_cluster_client] traced_lift [OF tsafe_waypoint] tsafe_endpoints [OF assms])
    (auto elim!: endpoints_readyI)

section \<open>Entries\<close>

text \<open>
  The gateway accepted the route of an endpoint: the provider read it, or got it back from an
  update, with a status in which the tenant Gateway reports it accepted and its references resolved.
\<close>

definition accepted :: "'w provider \<Rightarrow> kubeconfig \<Rightarrow> string \<Rightarrow> AccessEndpoint \<Rightarrow> gev list \<Rightarrow> bool" where
  "accepted p c ns ep h \<longleftrightarrow>
     (if ep_Protocol ep = RouteProtocolHTTP then
        (\<exists>r. (GGetHTTP c ns (ep_Name ep) (Inr r) \<in> set h \<or>
               (\<exists>r\<^sub>0. hr_Namespace r\<^sub>0 = ns \<and> hr_Name r\<^sub>0 = ep_Name ep \<and> GUpdateHTTP c r\<^sub>0 (Inr r) \<in> set h)) \<and>
           parentsProgrammed (p_api p) (hr_Parents r) (cfg_GatewayName (p_cfg p)) (cfg_GatewayNamespace (p_cfg p)))
      else
        (\<exists>r. (GGetTCP c ns (ep_Name ep) (Inr r) \<in> set h \<or>
               (\<exists>r\<^sub>0. tr_Namespace r\<^sub>0 = ns \<and> tr_Name r\<^sub>0 = ep_Name ep \<and> GUpdateTCP c r\<^sub>0 (Inr r) \<in> set h)) \<and>
           parentsProgrammed (p_api p) (tr_Parents r) (cfg_GatewayName (p_cfg p)) (cfg_GatewayNamespace (p_cfg p))))"

definition entry_ok :: "'w provider \<Rightarrow> kubeconfig \<Rightarrow> string \<Rightarrow> gev list \<Rightarrow> AccessEndpoint \<Rightarrow> AccessEntry \<Rightarrow> bool" where
  "entry_ok p c ns h ep entry \<longleftrightarrow>
     ae_Name entry = ep_Name ep \<and> ae_Protocol entry = ep_Protocol ep \<and>
     (if ae_Ready entry then ae_URL entry \<noteq> [] \<and> ae_Message entry = [] \<and> accepted p c ns ep h
      else ae_Message entry \<noteq> [])"

lemma accepted_mono: "accepted p c ns ep h \<Longrightarrow> set h \<subseteq> set h' \<Longrightarrow> accepted p c ns ep h'"
  unfolding accepted_def by (auto split: if_splits)

lemma entry_ok_mono: "entry_ok p c ns h ep entry \<Longrightarrow> set h \<subseteq> set h' \<Longrightarrow> entry_ok p c ns h' ep entry"
  by (auto simp: entry_ok_def elim: accepted_mono)

lemma accepted_http:
  assumes "ep_Protocol ep = RouteProtocolHTTP"
    and "parentsProgrammed (p_api p) (hr_Parents r) (cfg_GatewayName (p_cfg p)) (cfg_GatewayNamespace (p_cfg p))"
  shows "accepted p c ns ep (h @ [GGetHTTP c ns (ep_Name ep) (Inr r)])"
    and "hr_Namespace r\<^sub>0 = ns \<Longrightarrow> hr_Name r\<^sub>0 = ep_Name ep \<Longrightarrow> accepted p c ns ep (h @ [e, GUpdateHTTP c r\<^sub>0 (Inr r)])"
  using assms unfolding accepted_def by auto

lemma accepted_tcp:
  assumes "ep_Protocol ep \<noteq> RouteProtocolHTTP"
    and "parentsProgrammed (p_api p) (tr_Parents r) (cfg_GatewayName (p_cfg p)) (cfg_GatewayNamespace (p_cfg p))"
  shows "accepted p c ns ep (h @ [GGetTCP c ns (ep_Name ep) (Inr r)])"
    and "tr_Namespace r\<^sub>0 = ns \<Longrightarrow> tr_Name r\<^sub>0 = ep_Name ep \<Longrightarrow> accepted p c ns ep (h @ [e, GUpdateTCP c r\<^sub>0 (Inr r)])"
  using assms unfolding accepted_def by auto

lemma poolURL_ne [simp]: "poolURL q d x \<noteq> []"
  by (simp add: poolURL_def)

lemma msgAwaitingAcceptance_ne [simp]: "msgAwaitingAcceptance \<noteq> []"
  by (simp add: msgAwaitingAcceptance_def)

lemma tsafe_tcp_entry:
  assumes "keyed_gets p" and "ep_Protocol ep \<noteq> RouteProtocolHTTP"
  shows "tsafe (\<lambda>_ _. True) (ensureTCPRoute p g ns svc wsn ep) s
    (\<lambda>res s'. case res of Inr entry \<Rightarrow> entry_ok p (gc_regionalClient g) ns (cs_trace s') ep entry | Inl _ \<Rightarrow> True)"
  unfolding ensureTCPRoute_def allocatedSections_def Let_def
  by (intro traced_rules conjI)
    (auto simp: entry_ok_def intro!: accepted_tcp [OF assms(2)] dest!: keyed_getsD(4) [OF assms(1)])

lemma tsafe_http_ready:
  assumes "keyed_gets p" and "ep_Protocol ep = RouteProtocolHTTP"
  shows "tsafe (\<lambda>_ _. True) (ensureHTTPRoute p c ns host svc wsn ep) s
    (\<lambda>res s'. case res of Inr ready \<Rightarrow> ready \<longrightarrow> accepted p c ns ep (cs_trace s') | Inl _ \<Rightarrow> True)"
  unfolding ensureHTTPRoute_def Let_def
  by (intro traced_rules conjI)
    (auto intro!: accepted_http [OF assms(2)] dest!: keyed_getsD(3) [OF assms(1)])

lemma tsafe_trivial: "tsafe P m s R \<Longrightarrow> tsafe (\<lambda>_ _. True) m s (\<lambda>_ _. True)"
  by (erule traced_weaken) simp_all

lemma tsafe_any: "tsafe (\<lambda>_ _. True) (ensureMirrorService p c ns svc wsn ep) s (\<lambda>_ _. True)"
    "tsafe (\<lambda>_ _. True) (markServiceGlobal p c ns svc) s (\<lambda>_ _. True)"
    "tsafe (\<lambda>_ _. True) (ensureMirrorNamespace p c ns wsn mesh) s (\<lambda>_ _. True)"
  unfolding ensureMirrorService_def markServiceGlobal_def ensureMirrorNamespace_def Let_def
  by (intro traced_rules conjI; simp)+

lemma tsafe_endpoint_entry:
  assumes "keyed_gets p"
  shows "tsafe (\<lambda>_ _. True) (ensure_endpoint p g child ws assigned ep) s
    (\<lambda>res s'. case res of
       Inr (entry, _) \<Rightarrow> entry_ok p (gc_regionalClient g) (WorkspaceNamespaceName ws) (cs_trace s') ep entry
     | Inl _ \<Rightarrow> True)"
  unfolding ensure_endpoint_def Let_def
  by (intro traced_rules traced_lift [OF tsafe_any(1)] traced_lift [OF tsafe_any(2)]
      traced_lift [OF tsafe_tcp_entry [OF assms]] traced_lift [OF tsafe_http_ready [OF assms]])
    (auto simp: entry_ok_def endpoint_entry_def)

lemma tsafe_endpoints_entries:
  assumes "keyed_gets p"
  shows "tsafe (\<lambda>_ _. True) (ensure_endpoints p g child ws assigned eps) s
    (\<lambda>res s'. case res of
       Inr entries \<Rightarrow> list_all2 (entry_ok p (gc_regionalClient g) (WorkspaceNamespaceName ws) (cs_trace s')) eps entries
     | Inl _ \<Rightarrow> True)"
proof (induction eps arbitrary: assigned s)
  case (Cons ep eps)
  show ?case
    unfolding ensure_endpoints.simps
    by (intro traced_rules traced_lift [OF tsafe_endpoint_entry [OF assms]] traced_lift [OF Cons.IH])
      (auto split: sum.splits elim: entry_ok_mono)
qed (auto intro: traced_rules)

lemma tsafe_routes_entries:
  assumes "keyed_gets p"
  shows "tsafe (\<lambda>_ _. True) (ensure_routes p ws eps) s
    (\<lambda>res s'. case res of
       Inr entries \<Rightarrow> (\<exists>c. regional_client (cs_trace s') ws c \<and> list_all2 (entry_ok p c (WorkspaceNamespaceName ws) (cs_trace s')) eps entries)
     | Inl _ \<Rightarrow> True)"
  unfolding ensure_routes_def Let_def
  by (intro traced_rules traced_lift [OF tsafe_resolve] traced_lift [OF tsafe_any(3)]
      traced_lift [OF gw_readsD [OF gw_reads_cluster_client]] traced_lift [OF tsafe_waypoint]
      traced_lift [OF tsafe_endpoints_entries [OF assms]])
    (auto split: sum.splits simp: tenant_ready_def intro!: exI elim!: regional_client_mono)

section \<open>Cleanup\<close>

abbreviation ws_selector :: "'q WorkspaceDeployment \<Rightarrow> labels" where
  "ws_selector ws \<equiv> [(LabelWorkspace, wsd_Name ws)]"

definition tolerated :: "goerr option \<Rightarrow> bool" where
  "tolerated res \<longleftrightarrow> (case res of None \<Rightarrow> True | Some e \<Rightarrow> IsNotFound e \<or> IsNoMatchError e)"

text \<open>The ports of the workspace are released: its TCPRoutes are deleted on the cluster.\<close>

definition ports_released :: "'q WorkspaceDeployment \<Rightarrow> kubeconfig \<Rightarrow> gev list \<Rightarrow> bool" where
  "ports_released ws c h \<longleftrightarrow>
     (\<exists>res. tolerated res \<and> GDeleteTCPs c (WorkspaceNamespaceName ws) (ws_selector ws) res \<in> set h)"

lemma ports_released_last:
  "tolerated res \<Longrightarrow> ports_released ws c (h @ [GDeleteTCPs c (WorkspaceNamespaceName ws) (ws_selector ws) res])"
  by (auto simp: ports_released_def)

fun cleanup_ok :: "'q WorkspaceDeployment \<Rightarrow> gev list \<Rightarrow> gev \<Rightarrow> bool" where
  "cleanup_ok ws h (GDeleteTCPs c ns sel _) = (ns = WorkspaceNamespaceName ws \<and> sel = ws_selector ws)"
| "cleanup_ok ws h (GDeleteNs c ns _) = (ns = WorkspaceNamespaceName ws \<and> ports_released ws c h)"
| "cleanup_ok ws h e = gev_read e"

lemma cleanup_ok_read [simp]: "gev_read e \<Longrightarrow> cleanup_ok ws h e"
  by (cases e) auto

text \<open>Why a successful cleanup left nothing behind, or did nothing.\<close>

definition mirror_deleted :: "'q WorkspaceDeployment \<Rightarrow> gev list \<Rightarrow> bool" where
  "mirror_deleted ws h \<longleftrightarrow>
     (\<exists>c res. (res = None \<or> (\<exists>e. res = Some e \<and> IsNotFound e)) \<and>
        GDeleteNs c (WorkspaceNamespaceName ws) res \<in> set h \<and> ports_released ws c h)"

definition nothing_to_clean :: "'q WorkspaceDeployment \<Rightarrow> gev list \<Rightarrow> bool" where
  "nothing_to_clean ws h \<longleftrightarrow>
     (let cdRef = wss_ClusterDeploymentRef (wsd_Spec ws) in
      (\<exists>e. IsNotFound e \<and> GGetCD (cdr_Namespace cdRef) (cdr_Name cdRef) (Inl e) \<in> set h) \<or>
      (\<exists>cd. GGetCD (cdr_Namespace cdRef) (cdr_Name cdRef) (Inr cd) \<in> set h \<and>
         (lget (om_Labels cd) LabelKOFRegionalClusterName = [] \<or>
          GListCDs (cdr_Namespace cdRef) LabelKOFClusterName (lget (om_Labels cd) LabelKOFRegionalClusterName) (Inr []) \<in> set h)))"

lemma tsafe_delete_mirror:
  assumes "ports_released ws c (cs_trace s)"
  shows "tsafe (cleanup_ok ws) (delete_mirror p c (WorkspaceNamespaceName ws)) s
    (\<lambda>res s'. res = None \<longrightarrow> mirror_deleted ws (cs_trace s'))"
proof -
  have "ports_released ws c (cs_trace s @ [e])" for e using assms by (auto simp: ports_released_def)
  then have "mirror_deleted ws (cs_trace s @ [GDeleteNs c (WorkspaceNamespaceName ws) res])"
    if "res = None \<or> (\<exists>e. res = Some e \<and> IsNotFound e)" for res
    using that unfolding mirror_deleted_def by (intro exI [of _ c] exI [of _ res]) simp
  then show ?thesis
    unfolding delete_mirror_def using assms by (intro traced_rules conjI) auto
qed

lemma tsafe_cleanup_routes:
  "tsafe (cleanup_ok ws) (cleanup_routes p ws) s
     (\<lambda>res s'. res = None \<longrightarrow>
        mirror_deleted ws (cs_trace s') \<or> nothing_to_clean ws (cs_trace s') \<or> lookup_failed (cs_trace s'))"
  unfolding cleanup_routes_def Let_def
  by (intro traced_rules traced_lift [OF tsafe_getCD [where ws = ws]] traced_lift [OF tsafe_FindRegional]
      traced_lift [OF gw_readsD [OF gw_reads_cluster_client]] traced_lift [OF tsafe_delete_mirror [where ws = ws]] conjI)
    (auto simp: nothing_to_clean_def ports_released_last tolerated_def Let_def)

section \<open>A concrete tenant\<close>

text \<open>
  For the witnesses: the server of \<open>Port_Allocation\<close> with a child cluster that has a regional
  parent, and a programmed gateway under every name.
\<close>

definition up :: Condition where
  "up = \<lparr>c_Type = ''Programmed'', c_Status = ConditionTrue, c_Reason = [], c_Message = [], c_ObservedGeneration = 0, c_LastTransitionTime = 0\<rparr>"

definition live_api :: "TCPRoute list gateway_api" where
  "live_api = store_api\<lparr>
     ga_get_cd := (\<lambda>ns name w. (Inr \<lparr>om_Name = name, om_Namespace = ns, om_Labels = [(LabelKOFRegionalClusterName, ''region'')]\<rparr>, w)),
     ga_list_cds := (\<lambda>ns _ v w. (Inr [\<lparr>cd_Name = v, cd_Namespace = ns, cd_Labels = [], cd_DeletionTimestamp = 0,
       cd_SpecServices = [], cd_StatusServices = []\<rparr>], w)),
     ga_get_secret := (\<lambda>ns name w. (Inr \<lparr>sec_Name = name, sec_Namespace = ns, sec_Data = [(''value'', name)]\<rparr>, w)),
     ga_get_gateway := (\<lambda>_ _ _ w. (Inr (pool_gateway\<lparr>gw_Conditions := [up]\<rparr>), w))\<rparr>"

definition live_provider :: "TCPRoute list provider" where
  "live_provider = New live_api demo_sha \<lparr>cfg_GatewayName = [], cfg_GatewayNamespace = [],
     cfg_Mesh = \<lparr>mesh_Mode = MeshModeAmbient, mesh_WaypointEnabled = True, mesh_WaypointNamespace = ''istio-system''\<rparr>\<rparr>"

definition web_endpoint :: AccessEndpoint where
  "web_endpoint = \<lparr>ep_Name = ''web'', ep_Protocol = RouteProtocolHTTP, ep_Port = 80, ep_ServiceName = []\<rparr>"

lemma live_keyed: "keyed_gets live_provider"
  by (auto simp: keyed_gets_def live_provider_def New_def live_api_def store_api_def Let_def tcp_key_def
      split: option.splits dest!: store_tab_key)

section \<open>Properties\<close>

text \<open>
  C27: where routes are written.  Whatever the clusters answer, every write of \<open>EnsureRoutes\<close> is to the
  namespace of the workspace.  Namespaces, mirror Services and routes go to the regional cluster that
  the labels of the workspace's ClusterDeployment name, with a client built from its kubeconfig, after
  the tenant Gateway and, where waypoint routing is on, the waypoint of the child were read there as
  programmed; Services and routes only after the waypoint was read as programmed on the child as well.
  The only write to the child is the label that makes a Service of the workspace global.  An
  HTTPRoute has one hostname: a label of at most 63 characters, the name of the workspace, or it
  and that of the endpoint, directly below a wildcard \<open>*.domain\<close> of the tenant Gateway that was read.
  Nothing is deleted.
\<close>

theorem ensure_routes_gated:
  assumes "keyed_gets p" and "run_state (ensure_routes p ws eps) (idle w) = (res, s')" and "i < length (cs_trace s')"
  shows "write_ok p ws (take i (cs_trace s')) (cs_trace s' ! i)"
proof -
  obtain es where "cs_trace s' = es" "hist_ok (write_ok p ws) [] es"
    using traced_run [OF tsafe_ensure_routes [OF assms(1)] assms(2)] by auto
  with hist_ok_nth [of "write_ok p ws" "[]" es i] assms(3) show ?thesis by simp
qed

text \<open>
  What the entries mean.  On success there is one entry per endpoint, in order, with its name
  and protocol.  A ready entry has a URL, and the provider saw the route of that endpoint with the
  tenant Gateway reporting it accepted and its references resolved; an entry that is not ready says
  why.
\<close>

theorem ensure_routes_entries:
  assumes "keyed_gets p" and "run_state (ensure_routes p ws eps) (idle w) = (Inr entries, s')"
  shows "\<exists>c. regional_client (cs_trace s') ws c \<and> list_all2 (entry_ok p c (WorkspaceNamespaceName ws) (cs_trace s')) eps entries"
  using traced_run [OF tsafe_routes_entries [OF assms(1)] assms(2)] by auto

text \<open>
  Cleanup gives the ports back first.  \<open>CleanupRoutes\<close> deletes nothing but the TCPRoutes of the
  workspace and its mirror namespace, and the namespace only after the deletion of the TCPRoutes
  succeeded or found none.  If it reports success, the namespace was deleted or was gone, or the
  cluster had no regional parent, or the parent could not be found or looked up.
\<close>

theorem cleanup_routes_order:
  assumes "run_state (cleanup_routes p ws) (idle w) = (res, s')"
  shows "(\<forall>i < length (cs_trace s'). cleanup_ok ws (take i (cs_trace s')) (cs_trace s' ! i)) \<and>
    (res = None \<longrightarrow> mirror_deleted ws (cs_trace s') \<or> nothing_to_clean ws (cs_trace s') \<or> lookup_failed (cs_trace s'))"
proof -
  obtain es where "cs_trace s' = es" "hist_ok (cleanup_ok ws) [] es"
    "res = None \<longrightarrow> mirror_deleted ws (cs_trace s') \<or> nothing_to_clean ws (cs_trace s') \<or> lookup_failed (cs_trace s')"
    using traced_run [OF tsafe_cleanup_routes [of ws p "idle w"] assms] by auto
  with hist_ok_nth [of "cleanup_ok ws" "[]" es] show ?thesis by simp
qed

text \<open>
  A failed lookup ends cleanup with success.  If the regional ClusterDeployment cannot be
  listed, for whatever reason, \<open>CleanupRoutes\<close> reports success and has deleted nothing.
\<close>

theorem cleanup_succeeds_on_failed_lookup:
  assumes "ga_get_cd (p_api p) (cdr_Namespace (wss_ClusterDeploymentRef (wsd_Spec ws))) (ws_cluster ws) w = (Inr cd, w\<^sub>1)"
    and "lget (om_Labels cd) LabelKOFRegionalClusterName = rn" and "rn \<noteq> []"
    and "ga_list_cds (p_api p) (cdr_Namespace (wss_ClusterDeploymentRef (wsd_Spec ws))) LabelKOFClusterName rn w\<^sub>1 = (Inl e, w\<^sub>2)"
  shows "\<exists>s'. run_state (cleanup_routes p ws) (idle w) = (None, s') \<and> list_all gev_read (cs_trace s')"
  using assms
  by (simp add: cleanup_routes_def getClusterDeployment_def FindRegionalClusterDeployment_def find_regional_cd_def call_simps)


text \<open>
  A lookup that fails is reported as missing infrastructure.  If the regional ClusterDeployment
  cannot be listed, \<open>EnsureRoutes\<close> returns an \<open>InfraNotReadyError\<close>, whatever the reason, and has
  written nothing.
\<close>

theorem failed_lookup_is_infra_not_ready:
  assumes "ga_get_cd (p_api p) (cdr_Namespace (wss_ClusterDeploymentRef (wsd_Spec ws))) (ws_cluster ws) w = (Inr cd, w\<^sub>1)"
    and "lget (om_Labels cd) LabelKOFRegionalClusterName = rn" and "rn \<noteq> []"
    and "ga_list_cds (p_api p) (cdr_Namespace (wss_ClusterDeploymentRef (wsd_Spec ws))) LabelKOFClusterName rn w\<^sub>1 = (Inl e, w\<^sub>2)"
  shows "\<exists>e' s'. run_state (ensure_routes p ws eps) (idle w) = (Inl e', s') \<and> IsInfraNotReady e' \<and> list_all gev_read (cs_trace s')"
  using assms
  by (simp add: ensure_routes_def resolveGatewayContext_def getClusterDeployment_def FindRegionalClusterDeployment_def find_regional_cd_def call_simps)

text \<open>The hostname of an HTTP endpoint.\<close>

lemma tsafe_endpoint_url:
  assumes "ep_Protocol ep = RouteProtocolHTTP"
  shows "tsafe (\<lambda>_ _. True) (ensure_endpoint p g child ws assigned ep) s
    (\<lambda>res s'. case res of
       Inr (entry, _) \<Rightarrow> ae_URL entry \<noteq> [] \<longrightarrow> ae_URL entry =
         gc_scheme g @ ''://'' @ (if assigned then wsd_Name ws @ ''-'' @ ep_Name ep else wsd_Name ws) @ ''.'' @ gc_domain g
     | Inl _ \<Rightarrow> True)"
proof -
  have http: "tsafe (\<lambda>_ _. True) (ensureHTTPRoute p c ns host svc wsn ep) t (\<lambda>_ _. True)" for c ns host svc wsn t
    unfolding ensureHTTPRoute_def Let_def by (intro traced_rules conjI) simp_all
  show ?thesis
    unfolding ensure_endpoint_def Let_def
    by (intro traced_rules traced_lift [OF tsafe_any(1)] traced_lift [OF tsafe_any(2)] traced_lift [OF http])
      (auto simp: endpoint_entry_def assms)
qed

text \<open>
  Two workspaces can be given one hostname.  The second HTTP endpoint \<open>b\<close> of a workspace
  \<open>a\<close> and the first HTTP endpoint of a workspace \<open>a-b\<close> of the same tenant get the same URL.
\<close>

theorem hostnames_collide:
  assumes "wsd_Name ws' = wsd_Name ws @ ''-'' @ ep_Name ep"
    and "ep_Protocol ep = RouteProtocolHTTP" and "ep_Protocol ep' = RouteProtocolHTTP"
    and "run_state (ensure_endpoint p g child ws True ep) s = (Inr (entry, b), s\<^sub>1)" and "ae_URL entry \<noteq> []"
    and "run_state (ensure_endpoint p g child' ws' False ep') s' = (Inr (entry', b'), s\<^sub>2)" and "ae_URL entry' \<noteq> []"
  shows "ae_URL entry = ae_URL entry'"
proof -
  have "ae_URL entry = gc_scheme g @ ''://'' @ (wsd_Name ws @ ''-'' @ ep_Name ep) @ ''.'' @ gc_domain g"
    by (rule traced_run [OF tsafe_endpoint_url [OF assms(2)] assms(4)]) (use assms(5) in simp)
  moreover have "ae_URL entry' = gc_scheme g @ ''://'' @ wsd_Name ws' @ ''.'' @ gc_domain g"
    by (rule traced_run [OF tsafe_endpoint_url [OF assms(3)] assms(6)]) (use assms(7) in simp)
  ultimately show ?thesis by (simp add: assms(1))
qed

text \<open>
  An HTTPRoute that the API server completes is rewritten by every call.  The comparison is of
  the whole specification, and the provider leaves the group of the parent reference open; if the
  server fills it in, the comparison fails and the route is updated, whatever it holds.
\<close>

theorem http_route_always_rewritten:
  assumes "ga_get_http (p_api p) c ns (ep_Name ep) w = (Inr route, w\<^sub>1)"
    and "hrs_ParentRefs (hr_Spec route) = ref # refs" and "pr_Group ref = Some grp"
    and "\<forall>a b. ga_spec_equal (p_api p) a b \<longrightarrow> map pr_Group (hrs_ParentRefs a) = map pr_Group (hrs_ParentRefs b)"
  shows "\<exists>route' res. GUpdateHTTP c route' res \<in> set (cs_trace (snd (run_state (ensureHTTPRoute p c ns host svc wsn ep) (idle w))))"
proof -
  let ?spec = "desired_http_spec p host svc ep"
  have "map pr_Group (hrs_ParentRefs (hr_Spec route)) \<noteq> map pr_Group (hrs_ParentRefs ?spec)"
    using assms(2,3) by (simp add: desired_http_spec_def)
  with assms(4) have "\<not> ga_spec_equal (p_api p) (hr_Spec route) ?spec" by blast
  with assms(1) show ?thesis
    by (cases "ga_update_http (p_api p) c (route\<lparr>hr_Spec := ?spec\<rparr>) w\<^sub>1")
      (auto simp: ensureHTTPRoute_def call_simps split: sum.split)
qed

section \<open>Witnesses\<close>

lemma live_cfg [simp]:
  "cfg_GatewayName (p_cfg live_provider) = DefaultGatewayName"
  "cfg_GatewayNamespace (p_cfg live_provider) = DefaultGatewayNamespace"
  "mesh_WaypointEnabled (cfg_Mesh (p_cfg live_provider))"
  "p_api live_provider = live_api"
  by (simp_all add: live_provider_def New_def Let_def)

lemma live_calls [simp]:
  "ga_get_cd live_api ns name w = (Inr \<lparr>om_Name = name, om_Namespace = ns, om_Labels = [(LabelKOFRegionalClusterName, ''region'')]\<rparr>, w)"
  "ga_list_cds live_api ns k v w = (Inr [\<lparr>cd_Name = v, cd_Namespace = ns, cd_Labels = [], cd_DeletionTimestamp = 0,
       cd_SpecServices = [], cd_StatusServices = []\<rparr>], w)"
  "ga_get_secret live_api ns name w = (Inr \<lparr>sec_Name = name, sec_Namespace = ns, sec_Data = [(''value'', name)]\<rparr>, w)"
  "ga_rest_config live_api kc = None" "ga_new_client live_api kc w = (None, w)"
  "ga_get_gateway live_api c ns name w = (Inr (pool_gateway\<lparr>gw_Conditions := [up]\<rparr>), w)"
  "ga_get_ns live_api c name w = (Inl not_found, w)" "ga_create_ns live_api c n w = (None, w)"
  "ga_get_svc live_api c ns name w = (Inl not_found, w)" "ga_create_svc live_api c svc w = (None, w)"
  "ga_get_http live_api c ns name w = (Inl not_found, w)" "ga_create_http live_api c hroute w = (None, w)"
  "ga_delete_ns live_api c name w = (None, w)"
  "ga_delete_tcps live_api c ns sel w = (None, filter (\<lambda>r. tr_Namespace r \<noteq> ns) w)"
  "ga_get_tcp live_api c ns name [] = (Inl not_found, [])" "ga_list_tcp live_api c [] = (Inr [], [])"
  "ga_create_tcp live_api c r [] = (None, [r])"
  "ga_cond_true live_api [up] ''Programmed''"
  by (simp_all add: live_api_def store_api_def store_tab_def ok_conds_def up_def)

lemma IsNotFound_not_found [simp]: "IsNotFound not_found"
  by (simp add: not_found_def)

lemma live_gateway [simp]:
  "tenantDomainFromGateway (pool_gateway\<lparr>gw_Conditions := cs\<rparr>) = (''t.example'', ''https'')"
  "tcpListeners (pool_gateway\<lparr>gw_Conditions := cs\<rparr>) =
     [\<lparr>pl_section = ''tcp-a'', pl_port = 30001\<rparr>, \<lparr>pl_section = ''tcp-b'', pl_port = 30002\<rparr>]"
  by (simp_all add: tenantDomainFromGateway_def pool_gateway_def tcpListeners_def)

lemma live_names [simp]:
  "WorkspaceNamespaceName (demo_wsd c n) = ''ws-'' @ n" "wsd_Name (demo_wsd c n) = n"
  "wss_ClusterDeploymentRef (wsd_Spec (demo_wsd c n)) = \<lparr>cdr_Name = c, cdr_Namespace = ''org''\<rparr>"
  by (simp_all add: WorkspaceNamespaceName_def demo_wsd_def)

definition live_run :: "(goerr + AccessEntry list) \<times> (TCPRoute list, gev) cstate" where
  "live_run = run_state (ensure_routes live_provider (demo_wsd ''c1'' ''a'') [web_endpoint, ssh_endpoint]) (idle [])"

lemmas provider_defs = ensure_routes_def resolveGatewayContext_def getClusterDeployment_def
  FindRegionalClusterDeployment_def find_regional_cd_def cluster_client_def cluster_client_for_cd_def ensureWaypointReady_def
  ensureMirrorNamespace_def ensureMirrorService_def markServiceGlobal_def ensureHTTPRoute_def ensure_endpoint_def
  ensureTCPRoute_def allocatedSections_def held_sections_def cleanup_routes_def delete_mirror_def lget_def

definition live_route :: HTTPRoute where
  "live_route = \<lparr>hr_Name = ''web'', hr_Namespace = ''ws-a'', hr_Labels = [(LabelWorkspace, ''a'')],
     hr_Spec = desired_http_spec live_provider ''a.t.example'' ''wsd-c1-a-web'' web_endpoint, hr_Parents = []\<rparr>"

lemmas live_eval = provider_defs call_simps EndpointServiceName_def HelmReleaseName_def maxHostnameLabel_def
    endpoint_entry_def web_endpoint_def ssh_endpoint_def

lemma live_run:
  "fst live_run = Inr [(endpoint_entry web_endpoint)\<lparr>ae_URL := ''https://a.t.example'', ae_Message := msgAwaitingAcceptance\<rparr>, ssh_entry 30001]"
  "length (cs_trace (snd live_run)) = 22"
  "cs_trace (snd live_run) ! 15 = GCreateHTTP ''region-kubeconfig'' live_route None"
  by (simp_all add: live_run_def live_eval ssh_entry_def live_route_def)

theorem ensure_routes_gated_witness:
  "path_ready live_provider (take 15 (cs_trace (snd live_run))) ''region-kubeconfig'' (demo_wsd ''c1'' ''a'') \<and>
   one_hostname live_provider (take 15 (cs_trace (snd live_run))) ''region-kubeconfig'' (demo_wsd ''c1'' ''a'') live_route"
proof -
  have "run_state (ensure_routes live_provider (demo_wsd ''c1'' ''a'') [web_endpoint, ssh_endpoint]) (idle []) =
      (fst live_run, snd live_run)" by (simp add: live_run_def)
  from ensure_routes_gated [OF live_keyed this, of 15] show ?thesis by (simp add: live_run)
qed

theorem ensure_routes_entries_witness:
  "\<exists>c. list_all2 (entry_ok live_provider c ''ws-a'' (cs_trace (snd live_run))) [web_endpoint, ssh_endpoint]
     [(endpoint_entry web_endpoint)\<lparr>ae_URL := ''https://a.t.example'', ae_Message := msgAwaitingAcceptance\<rparr>, ssh_entry 30001]"
proof -
  have "run_state (ensure_routes live_provider (demo_wsd ''c1'' ''a'') [web_endpoint, ssh_endpoint]) (idle []) =
      (Inr [(endpoint_entry web_endpoint)\<lparr>ae_URL := ''https://a.t.example'', ae_Message := msgAwaitingAcceptance\<rparr>, ssh_entry 30001],
       snd live_run)" using live_run(1) by (metis live_run_def prod.collapse)
  from ensure_routes_entries [OF live_keyed this] show ?thesis by auto
qed

definition live_cleanup :: "goerr option \<times> (TCPRoute list, gev) cstate" where
  "live_cleanup = run_state (cleanup_routes live_provider (demo_wsd ''c1'' ''a'')) (idle [])"

lemma live_cleanup:
  "fst live_cleanup = None" "length (cs_trace (snd live_cleanup)) = 6"
  "cs_trace (snd live_cleanup) ! 5 = GDeleteNs ''region-kubeconfig'' ''ws-a'' None"
  by (simp_all add: live_cleanup_def live_eval)

theorem cleanup_routes_order_witness:
  "ports_released (demo_wsd ''c1'' ''a'') ''region-kubeconfig'' (take 5 (cs_trace (snd live_cleanup)))"
proof -
  have "run_state (cleanup_routes live_provider (demo_wsd ''c1'' ''a'')) (idle []) = (fst live_cleanup, snd live_cleanup)"
    by (simp add: live_cleanup_def)
  from cleanup_routes_order [OF this, THEN conjunct1, rule_format, of 5] have "cleanup_ok (demo_wsd ''c1'' ''a'') (take 5 (cs_trace (snd live_cleanup)))
      (cs_trace (snd live_cleanup) ! 5)" by (simp add: live_cleanup)
  then show ?thesis by (simp add: live_cleanup)
qed

text \<open>The management cluster answers that it timed out.\<close>

definition cut_off :: "TCPRoute list provider" where
  "cut_off = live_provider\<lparr>p_api := live_api\<lparr>ga_list_cds := \<lambda>_ _ _ w. (Inl (errorf ''timeout''), w)\<rparr>\<rparr>"

theorem cleanup_succeeds_on_failed_lookup_witness:
  "\<exists>s'. run_state (cleanup_routes cut_off (demo_wsd ''c1'' ''a'')) (idle []) = (None, s') \<and> list_all gev_read (cs_trace s')"
  by (rule cleanup_succeeds_on_failed_lookup [where rn = "''region''"]) (simp add: cut_off_def live_api_def lget_def)+

theorem failed_lookup_is_infra_not_ready_witness:
  "\<exists>e' s'. run_state (ensure_routes cut_off (demo_wsd ''c1'' ''a'') [web_endpoint]) (idle []) = (Inl e', s') \<and>
     IsInfraNotReady e' \<and> list_all gev_read (cs_trace s')"
  by (rule failed_lookup_is_infra_not_ready [where rn = "''region''"]) (simp add: cut_off_def live_api_def lget_def)+

definition live_ctx :: gatewayContext where
  "live_ctx = \<lparr>gc_regionalClient = ''region-kubeconfig'', gc_domain = ''t.example'', gc_scheme = ''https'', gc_gateway = pool_gateway\<rparr>"

definition api_endpoint :: AccessEndpoint where
  "api_endpoint = \<lparr>ep_Name = ''api'', ep_Protocol = RouteProtocolHTTP, ep_Port = 81, ep_ServiceName = []\<rparr>"

theorem hostnames_collide_witness:
  "\<exists>e s\<^sub>1 e' s\<^sub>2. run_state (ensure_endpoint live_provider live_ctx ''c1-kubeconfig'' (demo_wsd ''c1'' ''lab'') True api_endpoint) (idle []) = (Inr e, s\<^sub>1) \<and>
     run_state (ensure_endpoint live_provider live_ctx ''c2-kubeconfig'' (demo_wsd ''c2'' ''lab-api'') False web_endpoint) s\<^sub>1 = (Inr e', s\<^sub>2) \<and>
     ae_URL (fst e) = ae_URL (fst e') \<and> ae_URL (fst e) \<noteq> []"
proof -
  let ?m = "ensure_endpoint live_provider live_ctx ''c1-kubeconfig'' (demo_wsd ''c1'' ''lab'') True api_endpoint"
  let ?m' = "ensure_endpoint live_provider live_ctx ''c2-kubeconfig'' (demo_wsd ''c2'' ''lab-api'') False web_endpoint"
  obtain e s\<^sub>1 where r: "run_state ?m (idle []) = (Inr (e, True), s\<^sub>1)" "ae_URL e \<noteq> []" "cs_world s\<^sub>1 = []"
    by (simp add: live_eval live_ctx_def api_endpoint_def)
  obtain e' s\<^sub>2 where r': "run_state ?m' s\<^sub>1 = (Inr (e', True), s\<^sub>2)" "ae_URL e' \<noteq> []"
    using r(3) by (simp add: live_eval live_ctx_def)
  have "ae_URL e = ae_URL e'"
    by (rule hostnames_collide [OF _ _ _ r(1,2) r']) (simp_all add: api_endpoint_def web_endpoint_def)
  with r r' show ?thesis by fastforce
qed

text \<open>A server that completes what it stores.\<close>

definition completed_ref :: ParentReference where
  "completed_ref = \<lparr>pr_Group = Some ''gateway.networking.k8s.io'', pr_Kind = Some ''Gateway'',
     pr_Namespace = Some DefaultGatewayNamespace, pr_Name = DefaultGatewayName, pr_SectionName = None\<rparr>"

definition completing :: "TCPRoute list provider" where
  "completing = live_provider\<lparr>p_api := live_api\<lparr>
     ga_get_http := \<lambda>_ _ _ w. (Inr (live_route\<lparr>hr_Spec := (hr_Spec live_route)\<lparr>hrs_ParentRefs := [completed_ref]\<rparr>\<rparr>), w),
     ga_spec_equal := (=)\<rparr>\<rparr>"

theorem http_route_always_rewritten_witness:
  "\<exists>route' res. GUpdateHTTP ''region-kubeconfig'' route' res \<in>
     set (cs_trace (snd (run_state (ensureHTTPRoute completing ''region-kubeconfig'' ''ws-a'' ''a.t.example'' ''wsd-c1-a-web'' ''a'' web_endpoint) (idle []))))"
proof (rule http_route_always_rewritten)
  show "ga_get_http (p_api completing) ''region-kubeconfig'' ''ws-a'' (ep_Name web_endpoint) [] =
      (Inr (live_route\<lparr>hr_Spec := (hr_Spec live_route)\<lparr>hrs_ParentRefs := [completed_ref]\<rparr>\<rparr>), [])"
    by (simp add: completing_def)
  show "hrs_ParentRefs (hr_Spec (live_route\<lparr>hr_Spec := (hr_Spec live_route)\<lparr>hrs_ParentRefs := [completed_ref]\<rparr>\<rparr>)) = [completed_ref]"
    by simp
  show "pr_Group completed_ref = Some ''gateway.networking.k8s.io''" by (simp add: completed_ref_def)
qed (simp add: completing_def)

end
