(* ===== verification/Route_Sweeper.thy ===== *)
theory Route_Sweeper
  imports Gateway_Properties
begin

text \<open>
  \<open>routing/gatewayapi/sweep.go\<close> and \<open>workspaces/routes_sweeper.go\<close>: the periodic sweep that
  reclaims the route objects of workspaces that no longer exist.
\<close>

section \<open>Operations\<close>

definition listRegionalClusterDeployments :: "'w provider \<Rightarrow> ('w, goerr + ObjectMeta list) gwm" where
  "listRegionalClusterDeployments p = do {
     lr \<leftarrow> call (GListCDMetas LabelKOFClusterRole ''regional'') (ga_list_cd_metas (p_api p) LabelKOFClusterRole ''regional'');
     (case lr of
        Inl e \<Rightarrow> State_Monad.return (Inl (wrapf ''failed to list regional ClusterDeployments'' e))
      | Inr items \<Rightarrow> State_Monad.return (Inr items))
   }"

text \<open>The body of the loop over the namespaces of a regional cluster.\<close>

definition ns_workspace :: "Namespace \<Rightarrow> string" where
  "ns_workspace ns = ns_label ns LabelWorkspace"

definition is_orphan :: "(string \<Rightarrow> bool) \<Rightarrow> Namespace \<Rightarrow> bool" where
  "is_orphan isActive ns \<longleftrightarrow>
     \<not> ns_DeletionTimestamp ns \<noteq> 0 \<and> \<not> (ns_workspace ns = [] \<or> isActive (ns_workspace ns))"

definition sweep_namespace :: "'w provider \<Rightarrow> kubeconfig \<Rightarrow> (string \<Rightarrow> bool) \<Rightarrow> Namespace \<Rightarrow> ('w, unit) gwm" where
  "sweep_namespace p c isActive ns =
     (if \<not> is_orphan isActive ns then State_Monad.return ()
      else do {
        te \<leftarrow> call (GDeleteTCPs c (ns_Name ns) []) (ga_delete_tcps (p_api p) c (ns_Name ns) []);
        (if (case te of None \<Rightarrow> False | Some e \<Rightarrow> \<not> IsNotFound e \<and> \<not> IsNoMatchError e) then State_Monad.return ()
         else do {
           _ \<leftarrow> call (GDeleteNs c (ns_Name ns)) (ga_delete_ns (p_api p) c (ns_Name ns));
           State_Monad.return ()
         })
      })"

fun sweep_namespaces :: "'w provider \<Rightarrow> kubeconfig \<Rightarrow> (string \<Rightarrow> bool) \<Rightarrow> Namespace list \<Rightarrow> ('w, unit) gwm" where
  "sweep_namespaces p c isActive [] = State_Monad.return ()"
| "sweep_namespaces p c isActive (ns # nss) = do {
     sweep_namespace p c isActive ns;
     sweep_namespaces p c isActive nss
   }"

text \<open>The body of the loop over the regional clusters.\<close>

definition sweep_regional :: "'w provider \<Rightarrow> (string \<Rightarrow> bool) \<Rightarrow> ObjectMeta \<Rightarrow> ('w, unit) gwm" where
  "sweep_regional p isActive regionalCD = do {
     kr \<leftarrow> cluster_client p (om_Namespace regionalCD) (om_Name regionalCD);
     (case kr of
        Inl e \<Rightarrow> State_Monad.return ()
      | Inr c \<Rightarrow> do {
          nr \<leftarrow> call (GListNs c LabelWorkspace) (ga_list_ns (p_api p) c LabelWorkspace);
          (case nr of
             Inl e \<Rightarrow> State_Monad.return ()
           | Inr nss \<Rightarrow> sweep_namespaces p c isActive nss)
        })
   }"

fun sweep_regionals :: "'w provider \<Rightarrow> (string \<Rightarrow> bool) \<Rightarrow> ObjectMeta list \<Rightarrow> ('w, unit) gwm" where
  "sweep_regionals p isActive [] = State_Monad.return ()"
| "sweep_regionals p isActive (cd # cds) = do {
     sweep_regional p isActive cd;
     sweep_regionals p isActive cds
   }"

definition SweepOrphans :: "'w provider \<Rightarrow> (string \<Rightarrow> bool) \<Rightarrow> ('w, goerr option) gwm" where
  "SweepOrphans p isActive = do {
     rr \<leftarrow> listRegionalClusterDeployments p;
     (case rr of
        Inl e \<Rightarrow> State_Monad.return (Some e)
      | Inr regionals \<Rightarrow> do {
          sweep_regionals p isActive regionals;
          State_Monad.return None
        })
   }"

text \<open>\<open>active[name]\<close> of the map built from the list.\<close>

definition active_map :: "string list \<Rightarrow> bool gomap" where
  "active_map names = foldl (\<lambda>m n. mput n True m) [] names"

definition is_active :: "bool gomap \<Rightarrow> string \<Rightarrow> bool" where
  "is_active active name = (case map_of active name of None \<Rightarrow> False | Some b \<Rightarrow> b)"

definition sweepOnce :: "'w provider \<Rightarrow> ('w, unit) gwm" where
  "sweepOnce p = do {
     lr \<leftarrow> call GListWsds (ga_list_wsd_names (p_api p));
     (case lr of
        Inl e \<Rightarrow> State_Monad.return ()
      | Inr names \<Rightarrow> do {
          _ \<leftarrow> SweepOrphans p (is_active (active_map names));
          State_Monad.return ()
        })
   }"

definition defaultSweepInterval :: int where "defaultSweepInterval = 10 * 60 * 1000000000"

definition sweep_interval :: "int \<Rightarrow> int" where
  "sweep_interval interval = (if interval \<le> 0 then defaultSweepInterval else interval)"

text \<open>
  \<open>Start\<close>: one sweep, then one per tick until the context is done; \<open>ticks\<close> is the number of ticks
  that fire before that.
\<close>

fun start_sweeper :: "'w provider \<Rightarrow> nat \<Rightarrow> ('w, unit) gwm" where
  "start_sweeper p 0 = sweepOnce p"
| "start_sweeper p (Suc ticks) = do { start_sweeper p ticks; sweepOnce p }"

definition NeedLeaderElection :: bool where "NeedLeaderElection = True"

section \<open>Safety\<close>

lemma is_active_foldl:
  "is_active (foldl (\<lambda>m n. mput n True m) m names) name \<longleftrightarrow> is_active m name \<or> name \<in> set names"
  by (induction names arbitrary: m) (auto simp: is_active_def split: option.splits)

lemma is_active_map [simp]: "is_active (active_map names) name \<longleftrightarrow> name \<in> set names"
  unfolding active_map_def is_active_foldl by (simp add: is_active_def)

text \<open>
  A swept namespace: it was listed on that cluster, it is not being deleted, and its label names a
  workspace that was not among the WorkspaceDeployments listed before.
\<close>

definition orphaned :: "gev list \<Rightarrow> kubeconfig \<Rightarrow> string \<Rightarrow> bool" where
  "orphaned h c nsName \<longleftrightarrow>
     (\<exists>nss ns names. GListNs c LabelWorkspace (Inr nss) \<in> set h \<and> ns \<in> set nss \<and> ns_Name ns = nsName \<and>
        GListWsds (Inr names) \<in> set h \<and> ns_DeletionTimestamp ns = 0 \<and> ns_workspace ns \<noteq> [] \<and>
        ns_workspace ns \<notin> set names)"

fun sweep_ok :: "gev list \<Rightarrow> gev \<Rightarrow> bool" where
  "sweep_ok h (GDeleteTCPs c ns sel _) = (sel = [] \<and> orphaned h c ns)"
| "sweep_ok h (GDeleteNs c ns _) =
     (orphaned h c ns \<and> (\<exists>res. tolerated res \<and> h \<noteq> [] \<and> last h = GDeleteTCPs c ns [] res))"
| "sweep_ok h e = gev_read e"

lemma sweep_ok_read [simp]: "gev_read e \<Longrightarrow> sweep_ok h e"
  by (cases e) auto

lemma orphaned_mono: "orphaned h c n \<Longrightarrow> set h \<subseteq> set h' \<Longrightarrow> orphaned h' c n"
  unfolding orphaned_def by blast

lemma orphaned_append: "orphaned h c n \<Longrightarrow> orphaned (h @ es) c n"
  by (erule orphaned_mono) auto

lemma tsafe_sweep_namespace:
  assumes "GListWsds (Inr names) \<in> set (cs_trace s)" and "GListNs c LabelWorkspace (Inr nss) \<in> set (cs_trace s)" and "ns \<in> set nss"
  shows "tsafe sweep_ok (sweep_namespace p c (is_active (active_map names)) ns) s (\<lambda>_ _. True)"
proof -
  have "orphaned (cs_trace s) c (ns_Name ns)" if "is_orphan (is_active (active_map names)) ns"
    using that assms unfolding orphaned_def is_orphan_def by auto
  then show ?thesis
    unfolding sweep_namespace_def
    by (intro traced_rules conjI) (auto simp: orphaned_append tolerated_def split: option.splits)
qed

lemma tsafe_sweep_namespaces:
  assumes "GListWsds (Inr names) \<in> set (cs_trace s)" and "GListNs c LabelWorkspace (Inr nss) \<in> set (cs_trace s)"
    and "set todo \<subseteq> set nss"
  shows "tsafe sweep_ok (sweep_namespaces p c (is_active (active_map names)) todo) s (\<lambda>_ _. True)"
  using assms
proof (induction todo arbitrary: s)
  case (Cons ns todo)
  then have "ns \<in> set nss" by simp
  show ?case
    unfolding sweep_namespaces.simps
    by (intro traced_rules traced_lift [OF tsafe_sweep_namespace [OF Cons.prems(1,2) \<open>ns \<in> set nss\<close>]] traced_lift [OF Cons.IH])
      (use Cons.prems in auto)
qed (auto intro: traced_rules)

lemma tsafe_sweep_regional:
  assumes "GListWsds (Inr names) \<in> set (cs_trace s)"
  shows "tsafe sweep_ok (sweep_regional p (is_active (active_map names)) cd) s (\<lambda>_ _. True)"
  unfolding sweep_regional_def
  by (intro traced_rules traced_lift [OF gw_readsD [OF gw_reads_cluster_client]] traced_lift [OF tsafe_sweep_namespaces] conjI)
    (use assms in auto)

lemma tsafe_sweep_regionals:
  assumes "GListWsds (Inr names) \<in> set (cs_trace s)"
  shows "tsafe sweep_ok (sweep_regionals p (is_active (active_map names)) cds) s (\<lambda>_ _. True)"
  using assms
proof (induction cds arbitrary: s)
  case (Cons cd cds)
  show ?case
    unfolding sweep_regionals.simps
    by (intro traced_rules traced_lift [OF tsafe_sweep_regional [OF Cons.prems]] traced_lift [OF Cons.IH])
      (use Cons.prems in auto)
qed (auto intro: traced_rules)

lemma tsafe_sweepOnce: "tsafe sweep_ok (sweepOnce p) s (\<lambda>_ _. True)"
  unfolding sweepOnce_def SweepOrphans_def listRegionalClusterDeployments_def
  by (intro traced_rules traced_lift [OF tsafe_sweep_regionals] conjI) auto

lemma tsafe_start: "tsafe sweep_ok (start_sweeper p ticks) s (\<lambda>_ _. True)"
proof (induction ticks)
  case (Suc ticks)
  show ?case unfolding start_sweeper.simps
    by (intro traced_rules traced_lift [OF Suc.IH] traced_lift [OF tsafe_sweepOnce]) auto
qed (simp add: tsafe_sweepOnce)

section \<open>Completeness\<close>

text \<open>A namespace was dealt with: its TCPRoutes were deleted, and then, unless that failed, the namespace.\<close>

definition dealt_with :: "gev list \<Rightarrow> kubeconfig \<Rightarrow> string \<Rightarrow> bool" where
  "dealt_with h c ns \<longleftrightarrow>
     (\<exists>res. GDeleteTCPs c ns [] res \<in> set h \<and> (tolerated res \<longrightarrow> (\<exists>res'. GDeleteNs c ns res' \<in> set h)))"

text \<open>An orphan among the namespaces of a cluster: it is labelled with a workspace that is not listed, and
  it is not being deleted.\<close>

definition orphan_among :: "string list \<Rightarrow> Namespace \<Rightarrow> bool" where
  "orphan_among names ns \<longleftrightarrow>
     ns_DeletionTimestamp ns = 0 \<and> ns_label ns LabelWorkspace \<noteq> [] \<and> ns_label ns LabelWorkspace \<notin> set names"

text \<open>
  The visit of one regional cluster, by the calls \<open>es\<close> it consists of.  Either no client could be built
  from its kubeconfig Secret, or its namespaces could not be listed, or every orphan among them was
  dealt with, whatever became of the others.
\<close>

definition unreachable :: "'w provider \<Rightarrow> ObjectMeta \<Rightarrow> gev list \<Rightarrow> bool" where
  "unreachable p cd es \<longleftrightarrow>
     (\<exists>x. es = [GGetSecret (om_Namespace cd) (om_Name cd @ ''-kubeconfig'') x] \<and>
        (case x of
           Inl e \<Rightarrow> True
         | Inr sec \<Rightarrow> (case map_of (sec_Data sec) ''value'' of None \<Rightarrow> True | Some kc \<Rightarrow> ga_rest_config (p_api p) kc \<noteq> None))) \<or>
     (\<exists>sec kc e. es = [GGetSecret (om_Namespace cd) (om_Name cd @ ''-kubeconfig'') (Inr sec), GNewClient kc (Some e)] \<and>
        map_of (sec_Data sec) ''value'' = Some kc)"

definition visited :: "'w provider \<Rightarrow> string list \<Rightarrow> ObjectMeta \<Rightarrow> gev list \<Rightarrow> bool" where
  "visited p names cd es \<longleftrightarrow>
     unreachable p cd es \<or>
     (\<exists>sec kc x deletions.
        es = [GGetSecret (om_Namespace cd) (om_Name cd @ ''-kubeconfig'') (Inr sec), GNewClient kc None, GListNs kc LabelWorkspace x] @ deletions \<and>
        map_of (sec_Data sec) ''value'' = Some kc \<and>
        (case x of Inl e \<Rightarrow> deletions = [] | Inr nss \<Rightarrow> \<forall>ns \<in> set nss. orphan_among names ns \<longrightarrow> dealt_with deletions kc (ns_Name ns)))"

lemma dealt_with_append: "dealt_with h c ns \<Longrightarrow> dealt_with (h' @ h) c ns" "dealt_with h c ns \<Longrightarrow> dealt_with (h @ h') c ns"
  unfolding dealt_with_def by auto

lemma is_orphan_among: "is_orphan (is_active (active_map names)) ns \<longleftrightarrow> orphan_among names ns"
  by (auto simp: is_orphan_def orphan_among_def ns_workspace_def)

lemma wp_sweep_namespace:
  "wp (sweep_namespace p c (is_active (active_map names)) ns)
     (\<lambda>_ s'. \<exists>es. cs_trace s' = cs_trace s @ es \<and> (orphan_among names ns \<longrightarrow> dealt_with es c (ns_Name ns))) s"
proof -
  have failed: "dealt_with [GDeleteTCPs c (ns_Name ns) [] te] c (ns_Name ns)"
    if "case te of None \<Rightarrow> False | Some e \<Rightarrow> \<not> IsNotFound e \<and> \<not> IsNoMatchError e" for te
    using that unfolding dealt_with_def by (intro exI [of _ te]) (auto simp: tolerated_def split: option.splits)
  have deleted: "dealt_with [GDeleteTCPs c (ns_Name ns) [] te, GDeleteNs c (ns_Name ns) de] c (ns_Name ns)" for te de
    unfolding dealt_with_def by auto
  show ?thesis
    unfolding sweep_namespace_def is_orphan_among by (intro wp_intros) (simp_all add: failed deleted)
qed

lemma wp_sweep_namespaces:
  "wp (sweep_namespaces p c (is_active (active_map names)) nss)
     (\<lambda>_ s'. \<exists>es. cs_trace s' = cs_trace s @ es \<and> (\<forall>ns \<in> set nss. orphan_among names ns \<longrightarrow> dealt_with es c (ns_Name ns))) s"
proof (induction nss arbitrary: s)
  case (Cons ns nss)
  show ?case
    unfolding sweep_namespaces.simps
    by (intro wp_intros wp_mono [OF wp_sweep_namespace] wp_mono [OF Cons.IH]) (auto simp: dealt_with_append)
qed simp

lemma wp_sweep_regional:
  "wp (sweep_regional p (is_active (active_map names)) cd) (\<lambda>_ s'. \<exists>es. cs_trace s' = cs_trace s @ es \<and> visited p names cd es) s"
  unfolding sweep_regional_def cluster_client_def cluster_client_for_cd_def Let_def
  by (intro wp_intros wp_mono [OF wp_sweep_namespaces]) (auto simp: visited_def unreachable_def)

lemma wp_sweep_regionals:
  "wp (sweep_regionals p (is_active (active_map names)) cds)
     (\<lambda>_ s'. \<exists>visits. cs_trace s' = cs_trace s @ concat visits \<and> list_all2 (visited p names) cds visits) s"
proof (induction cds arbitrary: s)
  case (Cons cd cds)
  show ?case
    unfolding sweep_regionals.simps
  proof (intro wp_intros wp_mono [OF wp_sweep_regional] wp_mono [OF Cons.IH], elim exE conjE)
    fix a s1 b s2 es visits
    assume "cs_trace s1 = cs_trace s @ es" "visited p names cd es" "cs_trace s2 = cs_trace s1 @ concat visits" "list_all2 (visited p names) cds visits"
    then show "\<exists>visits. cs_trace s2 = cs_trace s @ concat visits \<and> list_all2 (visited p names) (cd # cds) visits"
      by (intro exI [of _ "es # visits"]) simp
  qed
qed simp

section \<open>Properties\<close>

text \<open>
  C28: the sweep deletes orphans only, ports first.  Whatever the clusters answer, a sweep deletes
  the TCPRoutes and the namespace of a namespace only if it was listed on that cluster with a
  workspace label, is not being deleted, and the workspace it names was not among the
  WorkspaceDeployments listed at the start, in any namespace; and the namespace right after the
  deletion of its TCPRoutes succeeded or found none.  Nothing else is written.
\<close>

theorem sweep_only_orphans:
  assumes "run_state (sweepOnce p) (idle w) = (u, s')" and "i < length (cs_trace s')"
  shows "sweep_ok (take i (cs_trace s')) (cs_trace s' ! i)"
proof -
  obtain es where "cs_trace s' = es" "hist_ok sweep_ok [] es"
    using traced_run [OF tsafe_sweepOnce assms(1)] by auto
  with hist_ok_nth [of sweep_ok "[]" es i] assms(2) show ?thesis by simp
qed

text \<open>
  C29: the sweep misses no regional cluster and no orphan.  Whatever the clusters answer, one sweep
  lists the WorkspaceDeployments, then the ClusterDeployments with the role \<open>regional\<close>, and then visits
  every one of them, in order: a sweep ends earlier only when one of these two lists fails.  A visit reads the
  kubeconfig of that cluster and lists its workspace namespaces, and for each of them that is
  labelled with a workspace that is not listed and is not being deleted, it deletes the
  TCPRoutes, and then the namespace unless that deletion failed.  A cluster that cannot be reached
  or listed ends its own visit and no other.
\<close>

theorem sweep_complete:
  assumes "run_state (sweepOnce p) (idle w) = (u, s')"
  shows "(\<exists>e. cs_trace s' = [GListWsds (Inl e)]) \<or>
    (\<exists>names e. cs_trace s' = [GListWsds (Inr names), GListCDMetas LabelKOFClusterRole ''regional'' (Inl e)]) \<or>
    (\<exists>names cds visits.
       cs_trace s' = GListWsds (Inr names) # GListCDMetas LabelKOFClusterRole ''regional'' (Inr cds) # concat visits \<and>
       list_all2 (visited p names) cds visits)"
proof -
  let ?done = "\<lambda>t. (\<exists>e. t = [GListWsds (Inl e)]) \<or>
    (\<exists>names e. t = [GListWsds (Inr names), GListCDMetas LabelKOFClusterRole ''regional'' (Inl e)]) \<or>
    (\<exists>names cds visits. t = GListWsds (Inr names) # GListCDMetas LabelKOFClusterRole ''regional'' (Inr cds) # concat visits \<and>
       list_all2 (visited p names) cds visits)"
  have "wp (sweepOnce p) (\<lambda>_ s'. ?done (cs_trace s')) (idle w)"
    unfolding sweepOnce_def SweepOrphans_def listRegionalClusterDeployments_def
    by (intro wp_intros wp_mono [OF wp_sweep_regionals]) auto
  from wp_run [OF assms this] show ?thesis .
qed

section \<open>Witnesses\<close>

definition mirror_of :: "string \<Rightarrow> Namespace" where
  "mirror_of n = \<lparr>ns_Name = ''ws-'' @ n, ns_Labels = Some [(LabelWorkspace, n)], ns_DeletionTimestamp = 0\<rparr>"

definition sweep_provider :: "TCPRoute list provider" where
  "sweep_provider = live_provider\<lparr>p_api := live_api\<lparr>
     ga_list_wsd_names := \<lambda>w. (Inr [''a''], w),
     ga_list_cd_metas := \<lambda>_ _ w. (Inr [\<lparr>om_Name = ''region'', om_Namespace = ''org'', om_Labels = []\<rparr>], w),
     ga_list_ns := \<lambda>_ _ w. (Inr [mirror_of ''a'', mirror_of ''b''], w)\<rparr>\<rparr>"

lemmas sweep_eval = sweepOnce_def SweepOrphans_def listRegionalClusterDeployments_def sweep_regional_def sweep_namespace_def
  is_orphan_def ns_workspace_def ns_label_def mirror_of_def cluster_client_def cluster_client_for_cd_def lget_def call_simps

definition sweep_run :: "unit \<times> (TCPRoute list, gev) cstate" where
  "sweep_run = run_state (sweepOnce sweep_provider) (idle [])"

lemma sweep_run:
  "cs_trace (snd sweep_run) =
     [GListWsds (Inr [''a'']), GListCDMetas LabelKOFClusterRole ''regional'' (Inr [\<lparr>om_Name = ''region'', om_Namespace = ''org'', om_Labels = []\<rparr>]),
      GGetSecret ''org'' ''region-kubeconfig'' (Inr \<lparr>sec_Name = ''region-kubeconfig'', sec_Namespace = ''org'', sec_Data = [(''value'', ''region-kubeconfig'')]\<rparr>),
      GNewClient ''region-kubeconfig'' None, GListNs ''region-kubeconfig'' LabelWorkspace (Inr [mirror_of ''a'', mirror_of ''b'']),
      GDeleteTCPs ''region-kubeconfig'' ''ws-b'' [] None, GDeleteNs ''region-kubeconfig'' ''ws-b'' None]"
  by (simp add: sweep_run_def sweep_provider_def sweep_eval)

theorem sweep_only_orphans_witness:
  "orphaned (take 6 (cs_trace (snd sweep_run))) ''region-kubeconfig'' ''ws-b''"
proof -
  have run: "run_state (sweepOnce sweep_provider) (idle []) = (fst sweep_run, snd sweep_run)"
    unfolding sweep_run_def by (rule prod.collapse [symmetric])
  have "cs_trace (snd sweep_run) ! 6 = GDeleteNs ''region-kubeconfig'' ''ws-b'' None" "6 < length (cs_trace (snd sweep_run))"
    by (simp_all add: sweep_run)
  with sweep_only_orphans [OF run, of 6] show ?thesis by simp
qed

theorem sweep_complete_witness:
  "\<exists>visits. list_all2 (visited sweep_provider [''a'']) [\<lparr>om_Name = ''region'', om_Namespace = ''org'', om_Labels = []\<rparr>] visits \<and>
     dealt_with (concat visits) ''region-kubeconfig'' ''ws-b''"
proof -
  have run: "run_state (sweepOnce sweep_provider) (idle []) = (fst sweep_run, snd sweep_run)"
    unfolding sweep_run_def by (rule prod.collapse [symmetric])
  from sweep_complete [OF run] sweep_run obtain visits
    where "list_all2 (visited sweep_provider [''a'']) [\<lparr>om_Name = ''region'', om_Namespace = ''org'', om_Labels = []\<rparr>] visits"
      and trace: "concat visits = drop 2 (cs_trace (snd sweep_run))" by auto
  moreover have "dealt_with (concat visits) ''region-kubeconfig'' ''ws-b''"
    unfolding trace sweep_run by (simp add: dealt_with_def)
  ultimately show ?thesis by blast
qed

text \<open>
  A workspace created during a sweep can lose its routes.  The active set is read before the
  namespaces: if a workspace appears in between, its mirror namespace is deleted although its
  WorkspaceDeployment exists.  In the world below the workspace is created right after the list.
\<close>

definition racing_provider :: "TCPRoute list provider" where
  "racing_provider = live_provider\<lparr>p_api := live_api\<lparr>
     ga_list_wsd_names := \<lambda>w. (Inr (map tr_Name w), [ssh_route ''b'' ''tcp-a''\<lparr>tr_Name := ''b''\<rparr>]),
     ga_list_cd_metas := \<lambda>_ _ w. (Inr [\<lparr>om_Name = ''region'', om_Namespace = ''org'', om_Labels = []\<rparr>], w),
     ga_list_ns := \<lambda>_ _ w. (Inr (map (\<lambda>r. mirror_of (tr_Name r)) w), w),
     ga_delete_tcps := \<lambda>_ _ _ w. (None, w)\<rparr>\<rparr>"

theorem sweep_races_creation:
  "case run_state (sweepOnce racing_provider) (idle []) of (u, s') \<Rightarrow>
     GDeleteNs ''region-kubeconfig'' ''ws-b'' None \<in> set (cs_trace s') \<and>
     fst (ga_list_wsd_names (p_api racing_provider) (cs_world s')) = Inr [''b'']"
  by (simp add: racing_provider_def sweep_eval is_active_def active_map_def)

end
