(* ===== verification/Workspace_Class.thy ===== *)
theory Workspace_Class
  imports Call_Trace Value_Injection
begin

text \<open>
  \<open>internal/controller/workspaces/workspaceclass_controller.go\<close>: the controller that reflects the
  availability of a class's ServiceTemplate into \<open>status.valid\<close>.  The API server is the record
  \<open>class_api\<close>; of k0rdent's ServiceTemplate the controller reads the name and the validity.
\<close>

section \<open>The outside\<close>

record ServiceTemplate =
  svt_Name :: string
  svt_Namespace :: string
  svt_Valid :: bool
  svt_ValidationError :: string

record ('w, 'q) class_api =
  ka_get_class :: "string \<Rightarrow> 'w \<Rightarrow> (goerr + 'q WorkspaceClass) \<times> 'w"
  ka_list_classes :: "'w \<Rightarrow> (goerr + 'q WorkspaceClass list) \<times> 'w"
  ka_update_status :: "'q WorkspaceClass \<Rightarrow> 'w \<Rightarrow> goerr option \<times> 'w"
  ka_get_template :: "string \<Rightarrow> string \<Rightarrow> 'w \<Rightarrow> (goerr + ServiceTemplate) \<times> 'w"

datatype 'q kev =
    KGetClass string "goerr + 'q WorkspaceClass"
  | KListClasses "goerr + 'q WorkspaceClass list"
  | KStatus "'q WorkspaceClass" "goerr option"
  | KGetTemplate string string "goerr + ServiceTemplate"

type_synonym ('w, 'q, 'a) classm = "('w, 'q kev, 'a) calls"

section \<open>Operations\<close>

definition systemNamespace :: string where "systemNamespace = ''kcm-system''"

definition sourceNotValidMessage :: string where "sourceNotValidMessage = ''ServiceTemplate is not valid''"

definition template_namespace :: "'q WorkspaceClass \<Rightarrow> string" where
  "template_namespace wsc =
     (let ns = str_Namespace (wsc_ServiceTemplate (wsc_Spec wsc)) in if ns = [] then systemNamespace else ns)"

text \<open>\<open>iter\<close> is the order in which Go ranges over the map of injection fields during the call.\<close>

definition evaluate ::
  "('w, 'q) class_api \<Rightarrow> (InjectionPath list gomap \<Rightarrow> InjectionPath list gomap) \<Rightarrow> 'q WorkspaceClass
   \<Rightarrow> ('w, 'q, bool \<times> string) classm" where
  "evaluate r iter wsc = do {
     let stName = str_Name (wsc_ServiceTemplate (wsc_Spec wsc));
     let stNs = template_namespace wsc;
     tr \<leftarrow> call (KGetTemplate stNs stName) (ka_get_template r stNs stName);
     (case tr of
        Inl e \<Rightarrow>
          if IsNotFound e then
            State_Monad.return (False, ''ServiceTemplate '' @ stNs @ ''/'' @ stName @ '' not found'')
          else State_Monad.return (False, ''failed to get ServiceTemplate '' @ stNs @ ''/'' @ stName @ '': '' @ emsg e)
      | Inr st \<Rightarrow>
          if \<not> svt_Valid st then
            State_Monad.return (False, if svt_ValidationError st = [] then sourceNotValidMessage else svt_ValidationError st)
          else
            (case validateInjectionPaths iter (wsc_ResourceInjection (wsc_Spec wsc)) of
               Some e \<Rightarrow> State_Monad.return (False, emsg e)
             | None \<Rightarrow> State_Monad.return (True, [])))
   }"

definition class_status :: "'q WorkspaceClass \<Rightarrow> bool \<Rightarrow> string \<Rightarrow> 'q WorkspaceClass" where
  "class_status wsc valid msg =
     wsc\<lparr>wsc_Status := (wsc_Status wsc)\<lparr>wcs_Valid := valid, wcs_ValidationError := msg, wcs_ObservedGeneration := wsc_Generation wsc\<rparr>\<rparr>"

text \<open>\<open>ctrl.Result\{\}\<close> with an optional error.\<close>

definition reconcile_class ::
  "('w, 'q) class_api \<Rightarrow> (InjectionPath list gomap \<Rightarrow> InjectionPath list gomap) \<Rightarrow> string
   \<Rightarrow> ('w, 'q, goerr option) classm" where
  "reconcile_class r iter name = do {
     gr \<leftarrow> call (KGetClass name) (ka_get_class r name);
     (case gr of
        Inl e \<Rightarrow> if IsNotFound e then State_Monad.return None else State_Monad.return (Some e)
      | Inr wsc \<Rightarrow> do {
          (valid, validationError) \<leftarrow> evaluate r iter wsc;
          let st = wsc_Status wsc;
          if wcs_Valid st = valid \<and> wcs_ValidationError st = validationError \<and>
             wcs_ObservedGeneration st = wsc_Generation wsc
          then State_Monad.return None
          else do {
            let wsc' = class_status wsc valid validationError;
            ue \<leftarrow> call (KStatus wsc') (ka_update_status r wsc');
            State_Monad.return (map_option (wrapf ''failed to update WorkspaceClass status'') ue)
          }
        })
   }"

text \<open>The watch: an object that is not a ServiceTemplate is None.\<close>

definition refers_to :: "ServiceTemplate \<Rightarrow> 'q WorkspaceClass \<Rightarrow> bool" where
  "refers_to st wc \<longleftrightarrow>
     str_Name (wsc_ServiceTemplate (wsc_Spec wc)) = svt_Name st \<and> template_namespace wc = svt_Namespace st"

definition workspaceClassesForServiceTemplate ::
  "('w, 'q) class_api \<Rightarrow> ServiceTemplate option \<Rightarrow> ('w, 'q, string list) classm" where
  "workspaceClassesForServiceTemplate r obj =
     (case obj of
        None \<Rightarrow> State_Monad.return []
      | Some st \<Rightarrow> do {
          lr \<leftarrow> call KListClasses (ka_list_classes r);
          (case lr of
             Inl e \<Rightarrow> State_Monad.return []
           | Inr classes \<Rightarrow> State_Monad.return (map wsc_Name (filter (refers_to st) classes)))
        })"

section \<open>Lemmas\<close>

text \<open>An iteration order: the entries of the map, each once.\<close>

definition iterates :: "(InjectionPath list gomap \<Rightarrow> InjectionPath list gomap) \<Rightarrow> bool" where
  "iterates iter \<longleftrightarrow> (\<forall>m. mset (iter m) = mset m)"

definition paths_ok :: "ResourceInjectionMap option \<Rightarrow> bool" where
  "paths_ok im \<longleftrightarrow> (\<forall>(field, paths) \<in> set (injectionFieldPaths im). \<forall>path \<in> set paths. \<exists>segs. path_syntax path segs)"

lemma first_bad_path_None: "first_bad_path fps = None \<longleftrightarrow> (\<forall>(field, p) \<in> set fps. \<exists>segs. parsePath p = Inr segs)"
  by (induction fps rule: first_bad_path.induct) (auto split: sum.splits)

lemma first_bad_path_msg: "first_bad_path fps = Some e \<Longrightarrow> emsg e \<noteq> []"
  by (induction fps rule: first_bad_path.induct) (auto simp: wrapf_def split: sum.splits)

lemma validateInjectionPaths_None:
  assumes "iterates iter"
  shows "validateInjectionPaths iter im = None \<longleftrightarrow> paths_ok im"
proof -
  have same: "set (iter m) = set m" for m using assms by (metis iterates_def set_mset_mset)
  show ?thesis
  proof (cases im)
    case (Some m)
    have "set (concat (map (\<lambda>(f, ps). map (Pair f) ps) (iter fps))) = {(f, p). \<exists>ps. (f, ps) \<in> set fps \<and> p \<in> set ps}"
      for fps :: "InjectionPath list gomap"
      by (auto simp: same)
    then have "validateInjectionPaths iter im = None \<longleftrightarrow>
        (\<forall>(f, p) \<in> {(f, p). \<exists>ps. (f, ps) \<in> set (injectionFieldPaths im) \<and> p \<in> set ps}. \<exists>segs. path_syntax p segs)"
      by (simp only: validateInjectionPaths_def Some option.case first_bad_path_None parsePath_iff)
    then show ?thesis by (auto simp: paths_ok_def) blast
  qed (simp add: validateInjectionPaths_def paths_ok_def injectionFieldPaths_def)
qed

lemma validateInjectionPaths_msg: "validateInjectionPaths iter im = Some e \<Longrightarrow> emsg e \<noteq> []"
  by (cases im) (auto simp: validateInjectionPaths_def dest: first_bad_path_msg)

lemma validateInjectionPaths_indep:
  assumes "iterates iter" and "iterates iter'"
  shows "validateInjectionPaths iter im = None \<longleftrightarrow> validateInjectionPaths iter' im = None"
  by (simp add: validateInjectionPaths_None [OF assms(1)] validateInjectionPaths_None [OF assms(2)])

text \<open>The outcome of \<open>evaluate\<close> as a function of the answer about the template.\<close>

definition judge ::
  "(InjectionPath list gomap \<Rightarrow> InjectionPath list gomap) \<Rightarrow> goerr + ServiceTemplate \<Rightarrow> 'q WorkspaceClass \<Rightarrow> bool \<times> string" where
  "judge iter answer wsc =
     (let stName = str_Name (wsc_ServiceTemplate (wsc_Spec wsc)); stNs = template_namespace wsc in
      case answer of
        Inl e \<Rightarrow> (False, if IsNotFound e then ''ServiceTemplate '' @ stNs @ ''/'' @ stName @ '' not found''
                         else ''failed to get ServiceTemplate '' @ stNs @ ''/'' @ stName @ '': '' @ emsg e)
      | Inr st \<Rightarrow>
          if \<not> svt_Valid st then (False, if svt_ValidationError st = [] then sourceNotValidMessage else svt_ValidationError st)
          else (case validateInjectionPaths iter (wsc_ResourceInjection (wsc_Spec wsc)) of
                  Some e \<Rightarrow> (False, emsg e) | None \<Rightarrow> (True, [])))"

definition verdict :: "goerr + ServiceTemplate \<Rightarrow> 'q WorkspaceClass \<Rightarrow> bool" where
  "verdict answer wsc \<longleftrightarrow> (\<exists>st. answer = Inr st \<and> svt_Valid st) \<and> paths_ok (wsc_ResourceInjection (wsc_Spec wsc))"

lemma judge_verdict:
  assumes "iterates iter"
  shows "fst (judge iter answer wsc) = verdict answer wsc" and "snd (judge iter answer wsc) = [] \<longleftrightarrow> verdict answer wsc"
  by (auto simp: judge_def verdict_def Let_def sourceNotValidMessage_def validateInjectionPaths_None [OF assms, symmetric]
      dest: validateInjectionPaths_msg split: sum.splits option.splits)

lemma judge_spec: "wsc_Spec wsc' = wsc_Spec wsc \<Longrightarrow> judge iter answer wsc' = judge iter answer wsc"
  unfolding judge_def template_namespace_def by (simp only:)

lemma wp_evaluate:
  "wp (evaluate r iter wsc) Q s =
     (case ka_get_template r (template_namespace wsc) (str_Name (wsc_ServiceTemplate (wsc_Spec wsc))) (cs_world s) of
        (answer, w') \<Rightarrow> Q (judge iter answer wsc) (s\<lparr>cs_world := w', cs_trace := cs_trace s @
          [KGetTemplate (template_namespace wsc) (str_Name (wsc_ServiceTemplate (wsc_Spec wsc))) answer]\<rparr>))"
  unfolding evaluate_def Let_def
  by (auto simp: judge_def Let_def wp_call split: prod.splits sum.splits option.splits)

lemma class_status_id:
  "class_status wsc valid msg = wsc \<longleftrightarrow>
     wcs_Valid (wsc_Status wsc) = valid \<and> wcs_ValidationError (wsc_Status wsc) = msg \<and>
     wcs_ObservedGeneration (wsc_Status wsc) = wsc_Generation wsc"
  unfolding class_status_def by (cases wsc; cases "wsc_Status wsc") auto

text \<open>A run on a class that exists: one answer, and a status write unless the status already says so.\<close>

definition class_trace :: "(InjectionPath list gomap \<Rightarrow> InjectionPath list gomap) \<Rightarrow> string \<Rightarrow> 'q WorkspaceClass
   \<Rightarrow> goerr + ServiceTemplate \<Rightarrow> goerr option \<Rightarrow> 'q kev list" where
  "class_trace iter name wsc answer e =
     (let wsc' = (case judge iter answer wsc of (valid, msg) \<Rightarrow> class_status wsc valid msg) in
      [KGetClass name (Inr wsc), KGetTemplate (template_namespace wsc) (str_Name (wsc_ServiceTemplate (wsc_Spec wsc))) answer] @
      (if wsc' = wsc then [] else [KStatus wsc' e]))"

lemma reconcile_class_trace:
  assumes "ka_get_class r name w = (Inr wsc, w\<^sub>1)"
    and "ka_get_template r (template_namespace wsc) (str_Name (wsc_ServiceTemplate (wsc_Spec wsc))) w\<^sub>1 = (answer, w\<^sub>2)"
    and "run_state (reconcile_class r iter name) \<lparr>cs_world = w, cs_trace = []\<rparr> = (res, s')"
  shows "\<exists>e. cs_trace s' = class_trace iter name wsc answer e"
proof -
  have "wp (reconcile_class r iter name) (\<lambda>_ s'. \<exists>e. cs_trace s' = class_trace iter name wsc answer e) \<lparr>cs_world = w, cs_trace = []\<rparr>"
    using assms(1,2)
    by (auto simp: reconcile_class_def wp_call wp_evaluate class_trace_def Let_def class_status_id split: prod.split)
  from wp_run [OF assms(3) this] show ?thesis .
qed

section \<open>Properties\<close>

text \<open>
  C30: a class is valid iff it can be deployed.  Reconciling a class that exists records as valid
  exactly that the ServiceTemplate it refers to (in \<open>kcm-system\<close> unless it says otherwise) was read
  and reports itself valid and every injection path is well formed, and a validation error exactly
  when not; the one status it may write is for the generation that was read, and it writes none when
  the recorded status already says so.
\<close>

theorem reconcile_class_status:
  assumes "iterates iter" and "ka_get_class r name w = (Inr wsc, w\<^sub>1)"
    and "run_state (reconcile_class r iter name) \<lparr>cs_world = w, cs_trace = []\<rparr> = (res, s')"
  shows "\<exists>answer msg e. (msg = [] \<longleftrightarrow> verdict answer wsc) \<and>
    cs_trace s' = [KGetClass name (Inr wsc),
        KGetTemplate (template_namespace wsc) (str_Name (wsc_ServiceTemplate (wsc_Spec wsc))) answer] @
      (let wsc' = class_status wsc (verdict answer wsc) msg in if wsc' = wsc then [] else [KStatus wsc' e])"
proof -
  obtain answer w\<^sub>2 where a: "ka_get_template r (template_namespace wsc) (str_Name (wsc_ServiceTemplate (wsc_Spec wsc))) w\<^sub>1 = (answer, w\<^sub>2)"
    by (cases "ka_get_template r (template_namespace wsc) (str_Name (wsc_ServiceTemplate (wsc_Spec wsc))) w\<^sub>1")
  obtain valid msg where j: "judge iter answer wsc = (valid, msg)" by (cases "judge iter answer wsc")
  with judge_verdict [OF assms(1), of answer wsc] have "valid = verdict answer wsc" "msg = [] \<longleftrightarrow> verdict answer wsc" by simp_all
  with reconcile_class_trace [OF assms(2) a assms(3)] j show ?thesis
    by (intro exI [of _ answer] exI [of _ msg]) (auto simp: class_trace_def Let_def)
qed

text \<open>
  The class controller converges.  Once the status it computed is stored, reconciling again
  with the same answer about the template, and the injection fields visited in the same order,
  only reads.
\<close>

theorem reconcile_class_converges:
  assumes "judge iter answer wsc = (valid, msg)" and "ka_get_class r name w = (Inr (class_status wsc valid msg), w\<^sub>1)"
    and "ka_get_template r (template_namespace wsc) (str_Name (wsc_ServiceTemplate (wsc_Spec wsc))) w\<^sub>1 = (answer, w\<^sub>2)"
    and "run_state (reconcile_class r iter name) \<lparr>cs_world = w, cs_trace = []\<rparr> = (res, s')"
  shows "KStatus wsc' e \<notin> set (cs_trace s')"
proof -
  let ?c = "class_status wsc valid msg"
  have same: "wsc_Spec ?c = wsc_Spec wsc" "template_namespace ?c = template_namespace wsc" "class_status ?c valid msg = ?c"
    by (simp_all add: class_status_def template_namespace_def)
  then have "judge iter answer ?c = (valid, msg)" using assms(1) judge_spec [OF same(1)] by metis
  then show ?thesis
    using reconcile_class_trace [of r name w ?c w\<^sub>1 answer w\<^sub>2 iter] assms(2-4) same by (auto simp: class_trace_def)
qed

text \<open>
  No change of a template is missed.  The template a class reads when it is evaluated is one
  whose watch event enqueues the class: for every class in the list, the requests of the event name
  it iff that is the template it refers to.
\<close>

theorem template_watch_exact:
  assumes "ka_list_classes r w = (Inr classes, w')"
    and "run_state (workspaceClassesForServiceTemplate r (Some st)) \<lparr>cs_world = w, cs_trace = []\<rparr> = (requests, s')"
  shows "requests = map wsc_Name (filter (refers_to st) classes) \<and>
    (\<forall>wsc \<in> set classes. \<forall>iter s.
       (\<exists>answer. KGetTemplate (svt_Namespace st) (svt_Name st) answer \<in>
          set (drop (length (cs_trace s)) (cs_trace (snd (run_state (evaluate r iter wsc) s))))) \<longrightarrow>
       wsc_Name wsc \<in> set requests)"
proof -
  have req: "requests = map wsc_Name (filter (refers_to st) classes)"
    using assms by (simp add: workspaceClassesForServiceTemplate_def call_simps)
  have "refers_to st wsc"
    if "KGetTemplate (svt_Namespace st) (svt_Name st) answer \<in>
      set (drop (length (cs_trace s)) (cs_trace (snd (run_state (evaluate r iter wsc) s))))" for wsc iter s answer
  proof -
    have "wp (evaluate r iter wsc) (\<lambda>_ s'. \<exists>answer'. drop (length (cs_trace s)) (cs_trace s') =
        [KGetTemplate (template_namespace wsc) (str_Name (wsc_ServiceTemplate (wsc_Spec wsc))) answer']) s"
      by (simp add: wp_evaluate split: prod.split)
    from wp_run [OF prod.collapse [symmetric] this] that show ?thesis by (auto simp: refers_to_def)
  qed
  with req show ?thesis by auto
qed

section \<open>Witnesses\<close>

text \<open>The world is the class stored on the server; its template is there and valid.\<close>

definition stored_api :: "(int WorkspaceClass, int) class_api" where
  "stored_api =
     \<lparr>ka_get_class = (\<lambda>_ w. (Inr w, w)), ka_list_classes = (\<lambda>w. (Inr [w], w)), ka_update_status = (\<lambda>c w. (None, c)),
      ka_get_template = (\<lambda>ns name w. (Inr \<lparr>svt_Name = name, svt_Namespace = ns, svt_Valid = True, svt_ValidationError = []\<rparr>, w))\<rparr>"

definition bad_paths :: ResourceInjectionMap where
  "bad_paths = \<lparr>im_Replicas = [], im_CPU = [''.''], im_Memory = [''.''], im_Storage = [], im_GPUCount = [], im_GPUVendor = [], im_GPUType = []\<rparr>"

definition new_class :: "ResourceInjectionMap option \<Rightarrow> int WorkspaceClass" where
  "new_class im =
     \<lparr>wsc_Name = ''jupyter'', wsc_Generation = 1,
      wsc_Spec = \<lparr>wsc_ServiceTemplate = \<lparr>str_Name = ''jupyter-1'', str_Namespace = [], str_VersionConstraint = []\<rparr>,
        wsc_DefaultResources = \<lparr>ws_Replicas = None, ws_PerReplica = \<lparr>rr_CPU = None, rr_Memory = None, rr_Storage = None, rr_GPUCount = None, rr_GPUVendor = None, rr_GPUType = None, rr_GPUNodeSelector = None\<rparr>\<rparr>,
        wsc_Prerequisites = [], wsc_AccessEndpoints = [], wsc_DeployTimeout = None, wsc_PrerequisiteDeployTimeout = None,
        wsc_DefaultValues = None, wsc_ResourceInjection = im\<rparr>,
      wsc_Status = \<lparr>wcs_ObservedGeneration = 0, wcs_Valid = False, wcs_ValidationError = []\<rparr>\<rparr>"

definition class_run :: "(InjectionPath list gomap \<Rightarrow> InjectionPath list gomap) \<Rightarrow> int WorkspaceClass
   \<Rightarrow> goerr option \<times> (int WorkspaceClass, int kev) cstate" where
  "class_run iter c = run_state (reconcile_class stored_api iter ''jupyter'') \<lparr>cs_world = c, cs_trace = []\<rparr>"

lemma iterates_id: "iterates (\<lambda>m. m)" and iterates_rev: "iterates rev"
  by (simp_all add: iterates_def)

lemma stored_template:
  "ka_get_class stored_api n c = (Inr c, c)" "ka_list_classes stored_api c = (Inr [c], c)" "ka_update_status stored_api c' c = (None, c')"
  "ka_get_template stored_api ns name c = (Inr \<lparr>svt_Name = name, svt_Namespace = ns, svt_Valid = True, svt_ValidationError = []\<rparr>, c)"
  by (simp_all add: stored_api_def)

theorem reconcile_class_status_witness:
  "\<exists>answer msg e. (msg = [] \<longleftrightarrow> verdict answer (new_class None)) \<and>
    cs_trace (snd (class_run (\<lambda>m. m) (new_class None))) = [KGetClass ''jupyter'' (Inr (new_class None)),
        KGetTemplate ''kcm-system'' ''jupyter-1'' answer] @
      (let wsc' = class_status (new_class None) (verdict answer (new_class None)) msg in if wsc' = new_class None then [] else [KStatus wsc' e])"
proof -
  have run: "run_state (reconcile_class stored_api (\<lambda>m. m) ''jupyter'') \<lparr>cs_world = new_class None, cs_trace = []\<rparr> =
      (fst (class_run (\<lambda>m. m) (new_class None)), snd (class_run (\<lambda>m. m) (new_class None)))"
    by (simp add: class_run_def)
  have "template_namespace (new_class None) = ''kcm-system''" "str_Name (wsc_ServiceTemplate (wsc_Spec (new_class None))) = ''jupyter-1''"
    by (simp_all add: template_namespace_def new_class_def systemNamespace_def)
  with reconcile_class_status [OF iterates_id stored_template(1) run] show ?thesis by simp
qed

text \<open>The answer about the template of a class, and what a run leaves on the server.\<close>

definition found :: "int WorkspaceClass \<Rightarrow> goerr + ServiceTemplate" where
  "found c = Inr \<lparr>svt_Name = str_Name (wsc_ServiceTemplate (wsc_Spec c)), svt_Namespace = template_namespace c,
     svt_Valid = True, svt_ValidationError = []\<rparr>"

definition judged :: "(InjectionPath list gomap \<Rightarrow> InjectionPath list gomap) \<Rightarrow> int WorkspaceClass \<Rightarrow> int WorkspaceClass" where
  "judged iter c = (case judge iter (found c) c of (valid, msg) \<Rightarrow> class_status c valid msg)"

lemma class_run_eval:
  "class_run iter c = (None, \<lparr>cs_world = judged iter c, cs_trace = class_trace iter ''jupyter'' c (found c) None\<rparr>)"
proof -
  have "wp (reconcile_class stored_api iter ''jupyter'')
      (\<lambda>res s'. (res, s') = (None, \<lparr>cs_world = judged iter c, cs_trace = class_trace iter ''jupyter'' c (found c) None\<rparr>))
      \<lparr>cs_world = c, cs_trace = []\<rparr>"
    by (auto simp: reconcile_class_def wp_call wp_evaluate class_trace_def Let_def class_status_id stored_template found_def judged_def split: prod.split)
  from wp_run [OF prod.collapse [symmetric] this] show ?thesis by (simp add: class_run_def)
qed

lemma new_class_simps [simp]:
  "wsc_ResourceInjection (wsc_Spec (new_class im)) = im" "wsc_Status (new_class im) = \<lparr>wcs_ObservedGeneration = 0, wcs_Valid = False, wcs_ValidationError = []\<rparr>"
  "wsc_Generation (new_class im) = 1"
  by (simp_all add: new_class_def)

lemma judge_found:
  "judge iter (found c) c' = (case validateInjectionPaths iter (wsc_ResourceInjection (wsc_Spec c')) of Some e \<Rightarrow> (False, emsg e) | None \<Rightarrow> (True, []))"
  by (simp add: judge_def found_def Let_def)

theorem reconcile_class_converges_witness:
  "\<forall>wsc' e. KStatus wsc' e \<notin> set (cs_trace (snd (class_run (\<lambda>m. m) (class_status (new_class None) True []))))"
proof (intro allI)
  fix wsc' e
  let ?c = "class_status (new_class None) True []"
  have "judge (\<lambda>m. m) (found (new_class None)) (new_class None) = (True, [])"
    by (simp add: judge_found validateInjectionPaths_def)
  moreover have "run_state (reconcile_class stored_api (\<lambda>m. m) ''jupyter'') \<lparr>cs_world = ?c, cs_trace = []\<rparr> =
      (fst (class_run (\<lambda>m. m) ?c), snd (class_run (\<lambda>m. m) ?c))" by (simp add: class_run_def)
  moreover have "ka_get_template stored_api (template_namespace (new_class None)) (str_Name (wsc_ServiceTemplate (wsc_Spec (new_class None)))) ?c =
      (found (new_class None), ?c)" by (simp add: stored_template found_def)
  ultimately show "KStatus wsc' e \<notin> set (cs_trace (snd (class_run (\<lambda>m. m) ?c)))"
    using reconcile_class_converges [OF _ stored_template(1)] by blast
qed

theorem template_watch_exact_witness:
  "fst (run_state (workspaceClassesForServiceTemplate stored_api
      (Some \<lparr>svt_Name = ''jupyter-1'', svt_Namespace = ''kcm-system'', svt_Valid = False, svt_ValidationError = []\<rparr>))
      \<lparr>cs_world = new_class None, cs_trace = []\<rparr>) = [''jupyter'']"
proof -
  let ?run = "run_state (workspaceClassesForServiceTemplate stored_api
      (Some \<lparr>svt_Name = ''jupyter-1'', svt_Namespace = ''kcm-system'', svt_Valid = False, svt_ValidationError = []\<rparr>))
      \<lparr>cs_world = new_class None, cs_trace = []\<rparr>"
  have "?run = (fst ?run, snd ?run)" by simp
  from template_watch_exact [OF stored_template(2) this, THEN conjunct1] show ?thesis
    by (simp add: refers_to_def template_namespace_def systemNamespace_def new_class_def)
qed

section \<open>A class with two bad paths\<close>

text \<open>
  The validation error of a class with bad paths under two fields is not determined.  Go
  ranges over the fields in any order, and the first bad path found is reported; a reconcile that
  visits them in another order writes the status again, and the next may write the first one back.
\<close>

theorem class_status_flaps:
  "let c = new_class (Some bad_paths); c\<^sub>1 = cs_world (snd (class_run (\<lambda>m. m) c)); c\<^sub>2 = cs_world (snd (class_run rev c\<^sub>1)) in
     KStatus c\<^sub>2 None \<in> set (cs_trace (snd (class_run rev c\<^sub>1))) \<and>
     KStatus c\<^sub>1 None \<in> set (cs_trace (snd (class_run (\<lambda>m. m) c\<^sub>2))) \<and>
     iterates (\<lambda>m. m) \<and> iterates rev"
proof -
  let ?c = "new_class (Some bad_paths)"
  have "\<exists>a. validateInjectionPaths (\<lambda>m. m) (Some bad_paths) = Some a \<and> prefix ''resourceInjection.cpu'' (emsg a)"
    by (simp add: validateInjectionPaths_def injectionFieldPaths_def bad_paths_def wrapf_def parsePath_def parse_loop.simps flushBare_def)
  then obtain a where a: "validateInjectionPaths (\<lambda>m. m) (Some bad_paths) = Some a" "prefix ''resourceInjection.cpu'' (emsg a)"
    by blast
  have "\<exists>b. validateInjectionPaths rev (Some bad_paths) = Some b \<and> prefix ''resourceInjection.memory'' (emsg b)"
    by (simp add: validateInjectionPaths_def injectionFieldPaths_def bad_paths_def wrapf_def parsePath_def parse_loop.simps flushBare_def)
  then obtain b where b: "validateInjectionPaths rev (Some bad_paths) = Some b" "prefix ''resourceInjection.memory'' (emsg b)"
    by blast
  have ne: "emsg a \<noteq> emsg b" using a(2) b(2) by (auto simp: prefix_def)
  let ?c1 = "class_status ?c False (emsg a)" and ?c2 = "class_status ?c False (emsg b)"
  have spec: "wsc_ResourceInjection (wsc_Spec (class_status ?c v m)) = Some bad_paths" for v m
    by (simp add: class_status_def)
  have "judged (\<lambda>m. m) ?c = ?c1" "judged rev ?c1 = ?c2" "judged (\<lambda>m. m) ?c2 = ?c1"
    by (simp_all add: judged_def judge_found spec a b) (simp_all add: class_status_def)
  moreover have "wcs_ValidationError (wsc_Status ?c2) = emsg b" "wcs_ValidationError (wsc_Status ?c1) = emsg a"
    by (simp_all add: class_status_def)
  then have "?c2 \<noteq> ?c1" using ne by metis
  ultimately show ?thesis
    by (auto simp: class_run_eval Let_def class_trace_def judged_def iterates_id iterates_rev)
qed

end
