(* ===== verification/Route_Composition.thy ===== *)
theory Route_Composition
  imports Reconcile_Properties Route_Sweeper Workspace_Class
begin

text \<open>
  The workspace reconciler with the Gateway API provider in place of the parameter
  \<open>r_RouteProvider\<close>: what the two guarantee together.
\<close>

section \<open>Ready routes\<close>

definition reports_ready :: "'q WorkspaceDeployment \<Rightarrow> bool" where
  "reports_ready wsd \<longleftrightarrow>
     (\<exists>c. find_condition (st_Conditions (wsd_Status wsd)) ConditionRoutesReady = Some c \<and> c_Status c = ConditionTrue)"

text \<open>
  The provider call made in the world \<open>w\<close> returned these entries, and in its course the route of every
  endpoint was read on the regional cluster of the workspace with the tenant Gateway reporting it
  accepted.
\<close>

definition all_accepted :: "'w provider \<Rightarrow> 'w \<Rightarrow> 'q WorkspaceDeployment \<Rightarrow> AccessEndpoint list \<Rightarrow> AccessEntry list \<Rightarrow> bool" where
  "all_accepted p w wsd eps entries \<longleftrightarrow>
     (case run_state (ensure_routes p wsd eps) (idle w) of (res, t) \<Rightarrow> res = Inr entries \<and>
        (\<exists>c. regional_client (cs_trace t) wsd c \<and> (\<forall>ep \<in> set eps. accepted p c (WorkspaceNamespaceName wsd) ep (cs_trace t))))"

lemma run_calls_state: "run_calls m w = (a, w') \<Longrightarrow> \<exists>s'. run_state m (idle w) = (a, s')"
  by (auto simp: run_calls_def split: prod.splits)

lemma ready_entries_accepted:
  assumes "keyed_gets p" and "run_calls (ensure_routes p wsd eps) w = (Inr entries, w')"
    and "find (\<lambda>e. \<not> ae_Ready e) entries = None"
  shows "all_accepted p w wsd eps entries"
proof -
  obtain s' where run: "run_state (ensure_routes p wsd eps) (idle w) = (Inr entries, s')"
    using run_calls_state [OF assms(2)] by blast
  obtain c where c: "regional_client (cs_trace s') wsd c"
    and ok: "list_all2 (entry_ok p c (WorkspaceNamespaceName wsd) (cs_trace s')) eps entries"
    using traced_run [OF tsafe_routes_entries [OF assms(1)] run] by auto
  have ready: "ae_Ready e" if "e \<in> set entries" for e using assms(3) that by (simp add: find_None_iff)
  have "\<forall>ep \<in> set eps. accepted p c (WorkspaceNamespaceName wsd) ep (cs_trace s')"
  proof
    fix ep assume "ep \<in> set eps"
    then obtain e where "e \<in> set entries" "entry_ok p c (WorkspaceNamespaceName wsd) (cs_trace s') ep e"
      using ok by (metis in_set_conv_nth list_all2_conv_all_nth)
    with ready show "accepted p c (WorkspaceNamespaceName wsd) ep (cs_trace s')" by (simp add: entry_ok_def)
  qed
  with run c show ?thesis unfolding all_accepted_def by auto
qed

lemma reports_put:
  "reports_ready (w\<lparr>wsd_Status := st\<lparr>st_Conditions := put_condition (c\<lparr>c_LastTransitionTime := t\<rparr>) cs\<rparr>\<rparr>) \<longleftrightarrow> c_Status c = ConditionTrue"
  if "c_Type c = ConditionRoutesReady"
  using conds.find_put [of "c\<lparr>c_LastTransitionTime := t\<rparr>" cs] that by (auto simp: reports_ready_def)

text \<open>The events of the route step that starts in the world \<open>w\<close>: it begins with the provider call.\<close>

definition routes_honest :: "'w provider \<Rightarrow> 'w \<Rightarrow> 'q WorkspaceClass \<Rightarrow> 'q WorkspaceDeployment \<Rightarrow> 'q ev list \<Rightarrow> bool" where
  "routes_honest p w wsc wsd es \<longleftrightarrow>
     (\<forall>wsd' e. EStatus wsd' e \<in> set es \<longrightarrow> reports_ready wsd' \<longrightarrow>
        hd es = EEnsureRoutes (Inr (st_Access (wsd_Status wsd'))) \<and>
        all_accepted p w wsd (wsc_AccessEndpoints (wsc_Spec wsc)) (st_Access (wsd_Status wsd')))"

lemma wp_invokeI [wp_intros]:
  assumes "\<And>a w'. f (rs_world s) = (a, w') \<Longrightarrow> Q a (s\<lparr>rs_world := w', rs_trace := rs_trace s @ [mk a]\<rparr>)"
  shows "wp (invoke mk f) Q s"
  using assms by (simp add: wp_invoke split: prod.split)

lemma wp_rec_intros [wp_intros]:
  "Q (rs_wsd s) s \<Longrightarrow> wp get_wsd Q s"
  "Q' () (s\<lparr>rs_wsd := (rs_wsd s)\<lparr>wsd_Status := f (wsd_Status (rs_wsd s))\<rparr>\<rparr>) \<Longrightarrow> wp (modify_status f) Q' s"
  by (simp_all add: get_wsd_def modify_status_def modify_wsd_def)

lemma routes_condition_status:
  "c_Type (routes_condition wsd entries) = ConditionRoutesReady"
  "c_Status (routes_condition wsd entries) = ConditionTrue \<longleftrightarrow> find (\<lambda>e. \<not> ae_Ready e) entries = None"
  by (auto simp: routes_condition_def mk_condition_def split: option.splits)

lemma honest_quiet [simp]: "routes_honest p w wsc wsd []" "routes_honest p w wsc wsd [EEnsureRoutes x]"
  by (simp_all add: routes_honest_def)

lemma mk_condition_fields [simp]:
  "c_Type (mk_condition wsd ty status reason msg) = ty" "c_Status (mk_condition wsd ty status reason msg) = status"
  by (simp_all add: mk_condition_def)

lemma honest_failed:
  "routes_honest p w0 wsc wsd [EEnsureRoutes x, ENow t,
     EStatus (w\<lparr>wsd_Status := st\<lparr>st_Conditions := put_condition ((mk_condition wsd ConditionRoutesReady ConditionFalse reason msg)\<lparr>c_LastTransitionTime := t'\<rparr>) cs\<rparr>\<rparr>) e]"
  by (simp add: routes_honest_def reports_put)

lemma honest_written:
  assumes "keyed_gets p" and "run_calls (ensure_routes p wsd (wsc_AccessEndpoints (wsc_Spec wsc))) w = (Inr entries, w')"
  shows "routes_honest p w wsc wsd [EEnsureRoutes (Inr entries), ENow t,
     EStatus (wsd\<lparr>wsd_Status := (wsd_Status wsd)\<lparr>st_Access := entries, st_Conditions :=
       put_condition ((routes_condition wsd entries)\<lparr>c_LastTransitionTime := t'\<rparr>) cs\<rparr>\<rparr>) e]"
  using ready_entries_accepted [OF assms]
  by (auto simp: routes_honest_def reports_put [OF routes_condition_status(1)] routes_condition_status(2))

lemma wp_reconcileRoutes_honest:
  assumes "r_RouteProvider r = Some (gateway_route_provider p)" and "keyed_gets p"
  shows "wp (reconcileRoutes r wsc) (\<lambda>_ s'. \<exists>es. rs_trace s' = rs_trace s @ es \<and> routes_honest p (rs_world s) wsc (rs_wsd s) es) s"
  unfolding reconcileRoutes_def assms(1) option.case set_condition_def setCondition_def now_def update_status_def Let_def gateway_route_provider_def
    route_provider.simps
  by (intro wp_intros) (simp_all add: honest_failed honest_written [OF assms(2)])

section \<open>Properties\<close>

text \<open>
  C11: the route step reports a workspace reachable only if the gateway said so.  With the Gateway API
  provider, whenever \<open>reconcileRoutes\<close> submits a status whose \<open>RoutesReady\<close> condition is true, then its
  first call was the provider's, in the world the step started in; the access entries it submits are
  those that call returned; and in the course of that very call the route of every endpoint of the
  class was seen on the regional cluster of the workspace with the tenant Gateway reporting it accepted
  and its references resolved.
\<close>

theorem routes_ready_means_accepted:
  assumes "r_RouteProvider r = Some (gateway_route_provider p)" and "keyed_gets p"
    and "run_state (reconcileRoutes r wsc) s = (res, s')" and "rs_trace s' = rs_trace s @ es"
    and "EStatus wsd' e \<in> set es" and "reports_ready wsd'"
  shows "hd es = EEnsureRoutes (Inr (st_Access (wsd_Status wsd'))) \<and>
    all_accepted p (rs_world s) (rs_wsd s) (wsc_AccessEndpoints (wsc_Spec wsc)) (st_Access (wsd_Status wsd'))"
proof -
  from wp_run [OF assms(3) wp_reconcileRoutes_honest [OF assms(1,2)]] assms(4)
  have "routes_honest p (rs_world s) wsc (rs_wsd s) es" by auto
  with assms(5,6) show ?thesis unfolding routes_honest_def by blast
qed

section \<open>A tenant with an accepted route\<close>

definition still_api :: "('w, int) api" where
  "still_api =
     \<lparr>api_get_wsd = (\<lambda>_ _ w. (Inl not_found, w)), api_list_wsds = (\<lambda>_ w. (Inr [], w)),
      api_update_wsd = (\<lambda>_ w. (None, w)), api_update_status = (\<lambda>_ w. (None, w)),
      api_get_wsc = (\<lambda>_ w. (Inl not_found, w)), api_get_cd = (\<lambda>_ _ w. (Inl not_found, w)),
      api_get_ss = (\<lambda>_ _ w. (Inl not_found, w)), api_create_ss = (\<lambda>_ w. (None, w)),
      api_update_ss = (\<lambda>_ w. (None, w)), api_delete_ss = (\<lambda>_ w. (None, w)), api_patch_ss = (\<lambda>_ w. (None, w)),
      api_set_owner = (\<lambda>_ ss. Inr ss), api_contains_finalizer = (\<lambda>w f. f \<in> set (wsd_Finalizers w)),
      api_add_finalizer = (\<lambda>w f. w\<lparr>wsd_Finalizers := f # wsd_Finalizers w\<rparr>),
      api_remove_finalizer = (\<lambda>w f. w\<lparr>wsd_Finalizers := removeAll f (wsd_Finalizers w)\<rparr>),
      api_find_condition = find_condition, api_get_secret = (\<lambda>_ _ w. (Inl not_found, w)),
      api_list_events = (\<lambda>_ _ w. (Inr [], w)), api_rest_config = (\<lambda>_. None), api_new_client = (\<lambda>_ w. (None, w)),
      api_list_nodes = (\<lambda>_ w. (Inr [], w)), api_list_pods = (\<lambda>_ w. (Inr [], w)),
      api_get_ns = (\<lambda>_ _ w. (Inl not_found, w)), api_create_ns = (\<lambda>_ _ w. (None, w)),
      api_update_ns = (\<lambda>_ _ w. (None, w)), api_delete_ns = (\<lambda>_ _ w. (None, w)),
      api_eventf = (\<lambda>_ _ _ _ w. ((), w)), api_now = (\<lambda>w. (0, w))\<rparr>"

definition accepted_route :: HTTPRoute where
  "accepted_route = live_route\<lparr>hr_Parents := [\<lparr>rps_ParentRef = \<lparr>pr_Group = None, pr_Kind = None,
     pr_Namespace = Some DefaultGatewayNamespace, pr_Name = DefaultGatewayName, pr_SectionName = None\<rparr>,
     rps_Conditions = [up\<lparr>c_Type := ''Accepted''\<rparr>, up\<lparr>c_Type := ''ResolvedRefs''\<rparr>]\<rparr>]\<rparr>"

definition tenant_provider :: "TCPRoute list provider" where
  "tenant_provider = live_provider\<lparr>p_api := live_api\<lparr>ga_get_http :=
     \<lambda>_ ns name w. (if ns = ''ws-a'' \<and> name = ''web'' then Inr accepted_route else Inl not_found, w)\<rparr>\<rparr>"

definition tenant_r :: "(TCPRoute list, int) reconciler" where
  "tenant_r = \<lparr>r_api = still_api, r_RouteProvider = Some (gateway_route_provider tenant_provider), r_Recorder = False,
     r_APIReader = False, r_Mesh = cfg_Mesh (p_cfg tenant_provider), r_Q = int_qops, r_sha = demo_sha,
     r_decode = (\<lambda>_. Inr (HMap [])), r_marshal = (\<lambda>_. Inr [])\<rparr>"

definition web_class :: "int WorkspaceClass" where
  "web_class = (new_class None)\<lparr>wsc_Spec := (wsc_Spec (new_class None))\<lparr>wsc_AccessEndpoints := [web_endpoint]\<rparr>\<rparr>"

lemma tenant_keyed: "keyed_gets tenant_provider"
  using live_keyed by (auto simp: keyed_gets_def tenant_provider_def accepted_route_def live_route_def)

definition ready_entry :: AccessEntry where
  "ready_entry = (endpoint_entry web_endpoint)\<lparr>ae_URL := ''https://a.t.example'', ae_Ready := True\<rparr>"

lemma tenant_calls [simp]:
  "p_cfg tenant_provider = p_cfg live_provider"
  "p_api tenant_provider = live_api\<lparr>ga_get_http :=
     \<lambda>_ ns name w. (if ns = ''ws-a'' \<and> name = ''web'' then Inr accepted_route else Inl not_found, w)\<rparr>"
  by (simp_all add: tenant_provider_def)

lemma accepted_programmed:
  "parentsProgrammed (live_api\<lparr>ga_get_http := f\<rparr>) (hr_Parents accepted_route) DefaultGatewayName DefaultGatewayNamespace"
  by (simp add: accepted_route_def live_api_def store_api_def ok_conds_def up_def)

lemma accepted_spec: "ga_spec_equal live_api (hr_Spec accepted_route) (desired_http_spec tenant_provider ''a.t.example'' ''wsd-c1-a-web'' ep) \<longleftrightarrow>
    ep_Port ep = 80"
  by (simp add: accepted_route_def live_route_def live_api_def store_api_def desired_http_spec_def desired_backends_def web_endpoint_def)

lemma tenant_ensure:
  "run_calls (ensure_routes tenant_provider (demo_wsd ''c1'' ''a'') [web_endpoint]) w = (Inr [ready_entry], w)"
  by (simp add: run_calls_def live_eval accepted_programmed accepted_spec ready_entry_def)

definition tenant_run :: "(Result \<times> bool \<times> goerr option) \<times> (TCPRoute list, int) rstate" where
  "tenant_run = run_state (reconcileRoutes tenant_r web_class) \<lparr>rs_world = [], rs_wsd = demo_wsd ''c1'' ''a'', rs_trace = []\<rparr>"

definition tenant_status :: "int WorkspaceDeployment" where
  "tenant_status = (demo_wsd ''c1'' ''a'')\<lparr>wsd_Status := (wsd_Status (demo_wsd ''c1'' ''a''))\<lparr>st_Access := [ready_entry],
     st_Conditions := [routes_condition (demo_wsd ''c1'' ''a'') [ready_entry]]\<rparr>\<rparr>"

lemma tenant_run: "rs_trace (snd tenant_run) = [EEnsureRoutes (Inr [ready_entry]), ENow 0, EStatus tenant_status None]"
proof -
  have eps: "wsc_AccessEndpoints (wsc_Spec web_class) = [web_endpoint]" by (simp add: web_class_def)
  have conds: "st_Conditions (wsd_Status (demo_wsd ''c1'' ''a'')) = []" by (simp add: demo_wsd_def)
  have time: "c\<lparr>c_LastTransitionTime := 0\<rparr> = c" if "c = routes_condition w es" for c w es
    using that by (simp add: routes_condition_def mk_condition_def split: option.split)
  show ?thesis
    by (simp add: tenant_run_def reconcileRoutes_def tenant_r_def gateway_route_provider_def eps run_simps tenant_ensure
        setCondition_def now_def update_status_def still_api_def find_condition_def conds tenant_status_def time)
qed

theorem routes_ready_means_accepted_witness:
  "reports_ready tenant_status \<and> all_accepted tenant_provider [] (demo_wsd ''c1'' ''a'') [web_endpoint] [ready_entry]"
proof -
  have run: "run_state (reconcileRoutes tenant_r web_class) \<lparr>rs_world = [], rs_wsd = demo_wsd ''c1'' ''a'', rs_trace = []\<rparr> =
      (fst tenant_run, snd tenant_run)" by (simp add: tenant_run_def)
  have ready: "reports_ready tenant_status"
    by (simp add: reports_ready_def tenant_status_def find_condition_def routes_condition_status(1))
      (simp add: routes_condition_status(2) ready_entry_def)
  have "r_RouteProvider tenant_r = Some (gateway_route_provider tenant_provider)" by (simp add: tenant_r_def)
  from routes_ready_means_accepted [OF this tenant_keyed run _ _ ready] tenant_run ready show ?thesis
    by (simp add: web_class_def tenant_status_def)
qed

end
