(* ===== verification/Colony_Api.thy ===== *)
theory Colony_Api
  imports Cluster_Topology Gpu_Offering Conditions
begin

text \<open>
  The infra side: the types of \<open>api/infra/v1/colony_types.go\<close>, the Kubernetes objects the Colony
  controller touches, the API servers it talks to, and the rest of \<open>infra/common/regional.go\<close>.

  A client is the management cluster's or one built from a kubeconfig.  Calls that decode the server's
  answer into the object they were given (\<open>Create\<close>, \<open>Update\<close>, \<open>Patch\<close>) return the object.  A nil map is
  \<open>None\<close> where the code can tell it from an empty one.  The entries of \<open>ClusterDeploymentRefs\<close> are
  pointers, never nil: the loops dereference them.
\<close>

section \<open>Kubernetes objects\<close>

datatype kclient = Management | Remote kubeconfig

record ObjectReference =
  or_APIVersion :: string
  or_Kind :: string
  or_Namespace :: string
  or_Name :: string

text \<open>
  k0rdent's \<open>ClusterDeploymentSpec\<close>: the fields the operator manages, and the others (\<open>ipamClaim\<close>,
  \<open>dryRun\<close> and so on) as one.  \<open>'x\<close> stands for k0rdent's own types, up to \<open>reflect.DeepEqual\<close>.
\<close>

record 'x ClusterDeploymentSpec =
  cds_Config :: "rawjson option"
  cds_Credential :: string
  cds_Template :: string
  cds_ServiceSpec :: 'x
  cds_PropagateCredentials :: bool
  cds_Unmanaged :: 'x

record 'x KClusterDeployment =
  kcd_APIVersion :: string
  kcd_Kind :: string
  kcd_Name :: string
  kcd_Namespace :: string
  kcd_Labels :: "labels option"
  kcd_Annotations :: "labels option"
  kcd_Owners :: "string list"
  kcd_DeletionTimestamp :: int
  kcd_Spec :: "'x ClusterDeploymentSpec"
  kcd_Conditions :: "Condition list"

text \<open>A Secret with the metadata the controller writes.\<close>

record KSecret = Secret +
  sec_Labels :: labels
  sec_Owners :: "string list"

record KServicePort =
  ksp_Name :: string
  ksp_Port :: int

record LoadBalancerIngress =
  lbi_Hostname :: string
  lbi_IP :: string

record KService =
  ksv_Name :: string
  ksv_Type :: string
  ksv_ClusterIP :: string
  ksv_Ports :: "KServicePort list"
  ksv_Ingress :: "LoadBalancerIngress list"

text \<open>The \<open>controlPlaneEndpoint\<close> of a Cluster API Cluster.\<close>

record CAPICluster =
  ce_Host :: string
  ce_Port :: int

record ConfigMap =
  cm_Name :: string
  cm_Namespace :: string
  cm_Labels :: labels
  cm_Data :: "labels option"

section \<open>Colony\<close>

record ColonyCluster =
  cc_ClusterName :: string
  cc_ClusterDeploymentSpec :: "rawjson option"
  cc_ClusterLabels :: "labels option"
  cc_ClusterAnnotations :: "labels option"

record GPUOffering =
  go_Model :: string
  go_Selector :: labels
  go_Vendor :: string
  go_ResourceName :: string
  go_Total :: int
  go_Nodes :: int
  go_Labels :: labels

record ClusterGPUInventory =
  gi_LastUpdated :: int
  gi_Offerings :: "GPUOffering list"

record ColonyStatus =
  cst_Phase :: string
  cst_Conditions :: "Condition list"
  cst_ClusterDeploymentRefs :: "ObjectReference list"
  cst_TotalClusters :: int
  cst_ReadyClusters :: int
  cst_GPUInventory :: "ClusterGPUInventory gomap"

record Colony =
  col_Name :: string
  col_Namespace :: string
  col_DeletionTimestamp :: "int option"
  col_Finalizers :: "string list"
  col_ColonyClusters :: "ColonyCluster list"
  col_Status :: ColonyStatus

section \<open>The outside\<close>

record ('w, 'x, 'q) infra_api =
  ia_get_colony :: "string \<Rightarrow> string \<Rightarrow> 'w \<Rightarrow> (goerr + Colony) \<times> 'w"
  ia_update_colony :: "Colony \<Rightarrow> 'w \<Rightarrow> goerr option \<times> 'w"
  ia_update_colony_status :: "Colony \<Rightarrow> 'w \<Rightarrow> (goerr + Colony) \<times> 'w"
  ia_patch_colony_status :: "Colony \<Rightarrow> Colony \<Rightarrow> 'w \<Rightarrow> (goerr + Colony) \<times> 'w"
  ia_get_cd :: "string \<Rightarrow> string \<Rightarrow> 'w \<Rightarrow> (goerr + 'x KClusterDeployment) \<times> 'w"
  ia_list_cds :: "string \<Rightarrow> string \<Rightarrow> string \<Rightarrow> 'w \<Rightarrow> (goerr + 'x KClusterDeployment list) \<times> 'w"
  ia_create_cd :: "'x KClusterDeployment \<Rightarrow> 'w \<Rightarrow> (goerr + 'x KClusterDeployment) \<times> 'w"
  ia_update_cd :: "'x KClusterDeployment \<Rightarrow> 'w \<Rightarrow> (goerr + 'x KClusterDeployment) \<times> 'w"
  ia_delete_cd :: "'x KClusterDeployment \<Rightarrow> 'w \<Rightarrow> goerr option \<times> 'w"
  ia_delete_pvc :: "kclient \<Rightarrow> string \<Rightarrow> string \<Rightarrow> 'w \<Rightarrow> goerr option \<times> 'w"
  ia_get_secret :: "kclient \<Rightarrow> string \<Rightarrow> string \<Rightarrow> 'w \<Rightarrow> (goerr + KSecret) \<times> 'w"
  ia_create_secret :: "KSecret \<Rightarrow> 'w \<Rightarrow> goerr option \<times> 'w"
  ia_update_secret :: "KSecret \<Rightarrow> 'w \<Rightarrow> (goerr + KSecret) \<times> 'w"
  ia_list_services :: "kclient \<Rightarrow> string \<Rightarrow> labels \<Rightarrow> 'w \<Rightarrow> (goerr + KService list) \<times> 'w"
  ia_get_capi_cluster :: "kclient \<Rightarrow> string \<Rightarrow> string \<Rightarrow> 'w \<Rightarrow> (goerr + CAPICluster) \<times> 'w"
  ia_get_cm :: "kubeconfig \<Rightarrow> string \<Rightarrow> string \<Rightarrow> 'w \<Rightarrow> (goerr + ConfigMap) \<times> 'w"
  ia_create_cm :: "kubeconfig \<Rightarrow> ConfigMap \<Rightarrow> 'w \<Rightarrow> goerr option \<times> 'w"
  ia_update_cm :: "kubeconfig \<Rightarrow> ConfigMap \<Rightarrow> 'w \<Rightarrow> goerr option \<times> 'w"
  ia_list_nodes :: "kubeconfig \<Rightarrow> 'w \<Rightarrow> (goerr + 'q Node list) \<times> 'w"
  ia_rest_config :: "kubeconfig \<Rightarrow> goerr option"
  ia_new_client :: "kubeconfig \<Rightarrow> 'w \<Rightarrow> goerr option \<times> 'w"
  ia_sleep :: "int \<Rightarrow> 'w \<Rightarrow> unit \<times> 'w"
  ia_now :: "'w \<Rightarrow> int \<times> 'w"
  \<comment> \<open>API machinery\<close>
  ia_contains_finalizer :: "Colony \<Rightarrow> string \<Rightarrow> bool"
  ia_add_finalizer :: "Colony \<Rightarrow> string \<Rightarrow> Colony"
  ia_remove_finalizer :: "Colony \<Rightarrow> string \<Rightarrow> Colony"
  ia_set_controller :: "Colony \<Rightarrow> string list \<Rightarrow> goerr + string list"
  ia_set_condition :: "Condition list \<Rightarrow> Condition \<Rightarrow> 'w \<Rightarrow> Condition list \<times> 'w"
  ia_decode_spec :: "rawjson \<Rightarrow> goerr + 'x ClusterDeploymentSpec"
  ia_marshal_spec :: "'x ClusterDeploymentSpec \<Rightarrow> goerr + rawjson"
  ia_decode :: "rawjson \<Rightarrow> goerr + hval"
  ia_marshal_ref :: "ObjectReference \<Rightarrow> goerr + string"

datatype ('x, 'q) iev =
    IGetColony string string "goerr + Colony"
  | IUpdateColony Colony "goerr option"
  | IUpdateStatus Colony "goerr + Colony"
  | IPatchStatus Colony Colony "goerr + Colony"
  | IGetCD string string "goerr + 'x KClusterDeployment"
  | IListCDs string string string "goerr + 'x KClusterDeployment list"
  | ICreateCD "'x KClusterDeployment" "goerr + 'x KClusterDeployment"
  | IUpdateCD "'x KClusterDeployment" "goerr + 'x KClusterDeployment"
  | IDeleteCD "'x KClusterDeployment" "goerr option"
  | IDeletePVC kclient string string "goerr option"
  | IGetSecret kclient string string "goerr + KSecret"
  | ICreateSecret KSecret "goerr option"
  | IUpdateSecret KSecret "goerr + KSecret"
  | IListServices kclient string labels "goerr + KService list"
  | IGetCAPI kclient string string "goerr + CAPICluster"
  | IGetCM kubeconfig string string "goerr + ConfigMap"
  | ICreateCM kubeconfig ConfigMap "goerr option"
  | IUpdateCM kubeconfig ConfigMap "goerr option"
  | IListNodes kubeconfig "goerr + 'q Node list"
  | INewClient kubeconfig "goerr option"
  | ISleep int
  | INow int
  | ISetCondition Condition

type_synonym ('w, 'x, 'q, 'a) inm = "('w, ('x, 'q) iev, 'a) calls"

text \<open>
  \<open>ColonyReconciler\<close> with its outside.  \<open>cr_childClientForCD\<close> is the test hook of the struct, and
  \<open>cr_iter\<close> the iteration order of the map in \<open>gpu.DeriveOfferings\<close>.
\<close>

record ('w, 'x, 'q) colony_reconciler =
  cr_api :: "('w, 'x, 'q) infra_api"
  cr_childClientForCD :: "(string \<Rightarrow> string \<Rightarrow> ('w, 'x, 'q, goerr + kubeconfig) inm) option"
  cr_Q :: "'q qops"
  cr_iter :: "Offering list \<Rightarrow> Offering list"

text \<open>Calls that change nothing on any cluster.\<close>

fun iev_read :: "('x, 'q) iev \<Rightarrow> bool" where
  "iev_read (IUpdateColony _ _) = False"
| "iev_read (IUpdateStatus _ _) = False"
| "iev_read (IPatchStatus _ _ _) = False"
| "iev_read (ICreateCD _ _) = False"
| "iev_read (IUpdateCD _ _) = False"
| "iev_read (IDeleteCD _ _) = False"
| "iev_read (IDeletePVC _ _ _ _) = False"
| "iev_read (ICreateSecret _ _) = False"
| "iev_read (IUpdateSecret _ _) = False"
| "iev_read (ICreateCM _ _ _) = False"
| "iev_read (IUpdateCM _ _ _) = False"
| "iev_read _ = True"

section \<open>The specification of a cluster (colony_types.go)\<close>

definition GetClusterDeploymentSpec ::
  "('w, 'x, 'q) infra_api \<Rightarrow> ColonyCluster \<Rightarrow> goerr + 'x ClusterDeploymentSpec option" where
  "GetClusterDeploymentSpec api cc =
     (case cc_ClusterDeploymentSpec cc of
        None \<Rightarrow> Inr None
      | Some raw \<Rightarrow>
          (case ia_decode_spec api raw of
             Inl e \<Rightarrow> Inl (wrapf ''failed to unmarshal ClusterDeploymentSpec'' e)
           | Inr spec \<Rightarrow> Inr (Some spec)))"

definition SetClusterDeploymentSpec ::
  "('w, 'x, 'q) infra_api \<Rightarrow> ColonyCluster \<Rightarrow> 'x ClusterDeploymentSpec option \<Rightarrow> goerr option \<times> ColonyCluster" where
  "SetClusterDeploymentSpec api cc spec =
     (case spec of
        None \<Rightarrow> (None, cc\<lparr>cc_ClusterDeploymentSpec := None\<rparr>)
      | Some sp \<Rightarrow>
          (case ia_marshal_spec api sp of
             Inl e \<Rightarrow> (Some (wrapf ''failed to marshal ClusterDeploymentSpec'' e), cc)
           | Inr raw \<Rightarrow> (None, cc\<lparr>cc_ClusterDeploymentSpec := Some raw\<rparr>)))"

text \<open>What is stored is read back, whatever the codec, as far as the codec round-trips.\<close>

lemma Set_Get_ClusterDeploymentSpec:
  assumes "\<And>sp raw. ia_marshal_spec api sp = Inr raw \<Longrightarrow> ia_decode_spec api raw = Inr sp"
    and "SetClusterDeploymentSpec api cc spec = (None, cc')"
  shows "GetClusterDeploymentSpec api cc' = Inr spec"
  using assms by (auto simp: SetClusterDeploymentSpec_def GetClusterDeploymentSpec_def split: option.splits sum.splits)

section \<open>Regional clusters (regional.go)\<close>

definition IsRegionalChild :: "ColonyCluster \<Rightarrow> bool \<times> string" where
  "IsRegionalChild colonyCluster =
     (case cc_ClusterLabels colonyCluster of
        None \<Rightarrow> (False, [])
      | Some ls \<Rightarrow>
          (case map_of ls LabelKOFRegionalClusterName of
             None \<Rightarrow> (False, [])
           | Some regionalName \<Rightarrow> if regionalName = [] then (False, []) else (True, regionalName)))"

definition FindRegionalClusterDeploymentsByRole ::
  "('w, 'x, 'q) infra_api \<Rightarrow> string \<Rightarrow> ('w, 'x, 'q, goerr + 'x KClusterDeployment list) inm" where
  "FindRegionalClusterDeploymentsByRole api namespace = do {
     lr \<leftarrow> call (IListCDs namespace LabelKOFClusterRole ''regional'') (ia_list_cds api namespace LabelKOFClusterRole ''regional'');
     State_Monad.return
       (case lr of
          Inl e \<Rightarrow> Inl (wrapf (''failed to list regional ClusterDeployments in namespace '' @ namespace) e)
        | Inr items \<Rightarrow> Inr items)
   }"

text \<open>\<open>Get\<close> of a Secret, as \<open>GetClusterClientForCD\<close> reads it.\<close>

definition get_secret :: "('w, 'x, 'q) infra_api \<Rightarrow> kclient \<Rightarrow> string \<Rightarrow> string \<Rightarrow> ('w, 'x, 'q, goerr + KSecret) inm" where
  "get_secret api c ns name = call (IGetSecret c ns name) (ia_get_secret api c ns name)"

definition new_client :: "('w, 'x, 'q) infra_api \<Rightarrow> kubeconfig \<Rightarrow> ('w, 'x, 'q, goerr option) inm" where
  "new_client api kc = call (INewClient kc) (ia_new_client api kc)"

definition infra_cluster_client ::
  "('w, 'x, 'q) infra_api \<Rightarrow> string \<Rightarrow> string \<Rightarrow> ('w, 'x, 'q, goerr + kubeconfig) inm" where
  "infra_cluster_client api =
     cluster_client_for_cd
       (\<lambda>ns name. do { sr \<leftarrow> get_secret api Management ns name; State_Monad.return (map_sum id Secret.truncate sr) })
       (ia_rest_config api) (new_client api)"

definition infra_find_regional ::
  "('w, 'x, 'q) infra_api \<Rightarrow> string \<Rightarrow> string \<Rightarrow> ('w, 'x, 'q, goerr + 'x KClusterDeployment) inm" where
  "infra_find_regional api =
     find_regional_cd (\<lambda>ns key value. call (IListCDs ns key value) (ia_list_cds api ns key value))"

fun GetColonyClusterByName :: "ColonyCluster list \<Rightarrow> string \<Rightarrow> ColonyCluster option" where
  "GetColonyClusterByName [] clusterName = None"
| "GetColonyClusterByName (cc # ccs) clusterName =
     (if cc_ClusterName cc = clusterName then Some cc else GetColonyClusterByName ccs clusterName)"

text \<open>The client (nil is \<open>None\<close>), whether the cluster is a regional child, and the error.\<close>

definition ResolveRegionalClient ::
  "('w, 'x, 'q) infra_api \<Rightarrow> Colony \<Rightarrow> string \<Rightarrow> ('w, 'x, 'q, kubeconfig option \<times> bool \<times> goerr option) inm" where
  "ResolveRegionalClient api colony clusterName =
     (case GetColonyClusterByName (col_ColonyClusters colony) clusterName of
        None \<Rightarrow> State_Monad.return (None, False, None)
      | Some colonyCluster \<Rightarrow>
          (case IsRegionalChild colonyCluster of (isRegional, regionalName) \<Rightarrow>
             if \<not> isRegional then State_Monad.return (None, False, None)
             else do {
               rr \<leftarrow> infra_find_regional api (col_Namespace colony) regionalName;
               (case rr of
                  Inl e \<Rightarrow> State_Monad.return (None, True,
                    Some (wrapf (''failed to find regional ClusterDeployment for '' @ fmt_q regionalName) e))
                | Inr regionalCD \<Rightarrow> do {
                    cr \<leftarrow> infra_cluster_client api (col_Namespace colony) (kcd_Name regionalCD);
                    (case cr of
                       Inl e \<Rightarrow> State_Monad.return (None, True,
                         Some (wrapf (''failed to get regional cluster client for '' @ fmt_q regionalName) e))
                     | Inr kc \<Rightarrow> State_Monad.return (Some kc, True, None))
                  })
             }))"

section \<open>What these functions do\<close>

definition in_reads :: "('w, 'x, 'q, 'a) inm \<Rightarrow> bool" where
  "in_reads m \<longleftrightarrow> (\<forall>s. tsafe (\<lambda>_ e. iev_read e) m s (\<lambda>_ _. True))"

lemma in_readsD: "in_reads m \<Longrightarrow> tsafe (\<lambda>_ e. iev_read e) m s (\<lambda>_ _. True)"
  by (simp add: in_reads_def)

lemma in_reads_client: "in_reads (infra_cluster_client api ns name)"
  unfolding in_reads_def infra_cluster_client_def cluster_client_for_cd_def get_secret_def new_client_def
  by (intro allI traced_rules conjI) simp_all

lemma in_reads_find: "in_reads (infra_find_regional api ns name)"
  unfolding in_reads_def infra_find_regional_def find_regional_cd_def
  by (intro allI traced_rules conjI) simp_all

text \<open>A regional client comes with \<open>isRegional\<close> and without an error.\<close>

lemma tsafe_ResolveRegional:
  "tsafe (\<lambda>_ e. iev_read e) (ResolveRegionalClient api colony clusterName) s
     (\<lambda>(kc, isRegional, err) _. (kc \<noteq> None \<longleftrightarrow> isRegional \<and> err = None) \<and> (err \<noteq> None \<longrightarrow> isRegional))"
  unfolding ResolveRegionalClient_def
  by (intro traced_rules traced_lift [OF in_readsD [OF in_reads_find]] traced_lift [OF in_readsD [OF in_reads_client]])
    simp_all

lemma GetColonyClusterByName_find: "GetColonyClusterByName ccs n = find (\<lambda>cc. cc_ClusterName cc = n) ccs"
  by (induction ccs) auto

lemma IsRegionalChild_iff: "IsRegionalChild cc = (True, n) \<longleftrightarrow>
    n \<noteq> [] \<and> (\<exists>ls. cc_ClusterLabels cc = Some ls \<and> map_of ls LabelKOFRegionalClusterName = Some n)"
  by (auto simp: IsRegionalChild_def split: option.splits)


section \<open>An API server for examples\<close>

text \<open>It finds nothing and accepts everything; the examples override single answers.\<close>

definition nothing_found :: goerr where
  "nothing_found = \<lparr>ekind = KNotFound, emsg = ''not found''\<rparr>"

definition empty_infra :: "('w, int, int) infra_api" where
  "empty_infra =
     \<lparr>ia_get_colony = (\<lambda>_ _ w. (Inl nothing_found, w)), ia_update_colony = (\<lambda>_ w. (None, w)),
      ia_update_colony_status = (\<lambda>c w. (Inr c, w)), ia_patch_colony_status = (\<lambda>_ c w. (Inr c, w)),
      ia_get_cd = (\<lambda>_ _ w. (Inl nothing_found, w)), ia_list_cds = (\<lambda>_ _ _ w. (Inr [], w)),
      ia_create_cd = (\<lambda>cd w. (Inr cd, w)), ia_update_cd = (\<lambda>cd w. (Inr cd, w)), ia_delete_cd = (\<lambda>_ w. (None, w)),
      ia_delete_pvc = (\<lambda>_ _ _ w. (None, w)), ia_get_secret = (\<lambda>_ _ _ w. (Inl nothing_found, w)),
      ia_create_secret = (\<lambda>_ w. (None, w)), ia_update_secret = (\<lambda>s w. (Inr s, w)),
      ia_list_services = (\<lambda>_ _ _ w. (Inr [], w)), ia_get_capi_cluster = (\<lambda>_ _ _ w. (Inl nothing_found, w)),
      ia_get_cm = (\<lambda>_ _ _ w. (Inl nothing_found, w)), ia_create_cm = (\<lambda>_ _ w. (None, w)), ia_update_cm = (\<lambda>_ _ w. (None, w)),
      ia_list_nodes = (\<lambda>_ w. (Inr [], w)), ia_rest_config = (\<lambda>_. None), ia_new_client = (\<lambda>_ w. (None, w)),
      ia_sleep = (\<lambda>_ w. ((), w)), ia_now = (\<lambda>w. (1, w)),
      ia_contains_finalizer = (\<lambda>c f. f \<in> set (col_Finalizers c)),
      ia_add_finalizer = (\<lambda>c f. c\<lparr>col_Finalizers := f # col_Finalizers c\<rparr>),
      ia_remove_finalizer = (\<lambda>c f. c\<lparr>col_Finalizers := removeAll f (col_Finalizers c)\<rparr>),
      ia_set_controller = (\<lambda>c os. Inr (col_Name c # os)), ia_set_condition = (\<lambda>cs c w. (put_condition c cs, w)),
      ia_decode_spec = (\<lambda>raw. Inr \<lparr>cds_Config = None, cds_Credential = raw, cds_Template = [], cds_ServiceSpec = 0,
         cds_PropagateCredentials = True, cds_Unmanaged = 0\<rparr>),
      ia_marshal_spec = (\<lambda>sp. Inr (cds_Credential sp)), ia_decode = (\<lambda>_. Inr HNull), ia_marshal_ref = (\<lambda>ref. Inr (or_Name ref))\<rparr>"

definition colony_at :: "string list \<Rightarrow> ColonyCluster list \<Rightarrow> string list \<Rightarrow> Colony" where
  "colony_at finalizers ccs refs =
     \<lparr>col_Name = ''c'', col_Namespace = ''n'', col_DeletionTimestamp = None, col_Finalizers = finalizers, col_ColonyClusters = ccs,
      col_Status = \<lparr>cst_Phase = [], cst_Conditions = [],
        cst_ClusterDeploymentRefs = map (\<lambda>name. \<lparr>or_APIVersion = [], or_Kind = [], or_Namespace = ''n'', or_Name = name\<rparr>) refs,
        cst_TotalClusters = 0, cst_ReadyClusters = 0, cst_GPUInventory = []\<rparr>\<rparr>"

definition example_cluster :: ColonyCluster where
  "example_cluster = \<lparr>cc_ClusterName = ''a'', cc_ClusterDeploymentSpec = Some ''cred'', cc_ClusterLabels = None, cc_ClusterAnnotations = None\<rparr>"

end
