(* ===== verification/Service_Discovery.thy ===== *)
theory Service_Discovery
  imports Colony_Api
begin

text \<open>
  \<open>infra/common/service_discovery.go\<close> and \<open>infra/cilium/api_endpoint_configmap.go\<close>: finding the API
  server endpoint of a hosted control plane, and publishing it in a ConfigMap of the child cluster.
\<close>

section \<open>Endpoints (service_discovery.go)\<close>

abbreviation ServiceTypeLoadBalancer :: string where "ServiceTypeLoadBalancer \<equiv> ''LoadBalancer''"
abbreviation ServiceTypeNodePort :: string where "ServiceTypeNodePort \<equiv> ''NodePort''"

text \<open>The error is found by identity through the wrapping; its text identifies it.\<close>

definition ErrControlPlaneEndpointNotReady :: goerr where
  "ErrControlPlaneEndpointNotReady = errorf ''control plane endpoint not published yet''"

definition is_api_port :: "KServicePort \<Rightarrow> bool" where
  "is_api_port port \<longleftrightarrow> ksp_Name port = ''api'' \<or> ksp_Name port = ''kube-apiserver''"

definition is_api_number :: "KServicePort \<Rightarrow> bool" where
  "is_api_number port \<longleftrightarrow> ksp_Port port = 30443 \<or> ksp_Port port = 6443"

text \<open>One round of the loop over the ports: the two flags.\<close>

definition note_port :: "bool \<times> bool \<Rightarrow> KServicePort \<Rightarrow> bool \<times> bool" where
  "note_port flags port =
     (case flags of (hasAPIPort, hasKonnectivityPort) \<Rightarrow>
        (hasAPIPort \<or> is_api_port port \<or> is_api_number port,
         hasKonnectivityPort \<or> ksp_Name port = ''konnectivity'' \<or> ksp_Port port = 30132 \<or> ksp_Port port = 8132))"

definition ValidateControlPlanePorts :: "KService \<Rightarrow> goerr option" where
  "ValidateControlPlanePorts service =
     (case foldl note_port (False, False) (ksv_Ports service) of (hasAPIPort, hasKonnectivityPort) \<Rightarrow>
        if \<not> hasAPIPort then
          Some (errorf (''API server port not found (expected port named '' @ [CHR 0x27] @ ''api'' @ [CHR 0x27] @ '' or ports 30443/6443)''))
        else if \<not> hasKonnectivityPort then
          Some (errorf (''konnectivity port not found (expected port named '' @ [CHR 0x27] @ ''konnectivity'' @ [CHR 0x27] @ '' or ports 30132/8132)''))
        else None)"

definition no_cluster_ip :: "KService \<Rightarrow> bool" where
  "no_cluster_ip service \<longleftrightarrow> ksv_ClusterIP service = [] \<or> ksv_ClusterIP service = ''None''"

definition DiscoverControlPlaneService ::
  "('w, 'x, 'q) infra_api \<Rightarrow> kclient \<Rightarrow> string \<Rightarrow> string \<Rightarrow> string \<Rightarrow> ('w, 'x, 'q, goerr + KService) inm" where
  "DiscoverControlPlaneService api c namespace colonyName clusterName = do {
     let ls = [(''app'', ''k0smotron''), (''component'', ''cluster''), (''cluster'', colonyName @ ''-'' @ clusterName)];
     lr \<leftarrow> call (IListServices c namespace ls) (ia_list_services api c namespace ls);
     (case lr of
        Inl e \<Rightarrow> State_Monad.return (Inl (wrapf ''failed to list control plane services'' e))
      | Inr items \<Rightarrow>
          (case items of
             [] \<Rightarrow> State_Monad.return (Inl (errorf ''control plane service not found yet (cluster still provisioning)''))
           | service # _ \<Rightarrow>
               if no_cluster_ip service then
                 State_Monad.return (Inl (errorf (''control plane service '' @ ksv_Name service @
                   '' has no ClusterIP (type: '' @ ksv_Type service @ '')'')))
               else
                 (case ValidateControlPlanePorts service of
                    Some e \<Rightarrow> State_Monad.return
                      (Inl (wrapf (''control plane service '' @ ksv_Name service @ '' port validation failed'') e))
                  | None \<Rightarrow> State_Monad.return (Inr service))))
   }"

definition GetAPIServerPort :: "KService \<Rightarrow> int" where
  "GetAPIServerPort service =
     (case find is_api_port (ksv_Ports service) of
        Some port \<Rightarrow> ksp_Port port
      | None \<Rightarrow>
          (case find is_api_number (ksv_Ports service) of
             Some port \<Rightarrow> ksp_Port port
           | None \<Rightarrow> 30443))"

definition GetServiceExternalAddress :: "KService \<Rightarrow> string \<times> bool" where
  "GetServiceExternalAddress service =
     (if ksv_Type service \<noteq> ServiceTypeLoadBalancer then ([], False)
      else case ksv_Ingress service of
             [] \<Rightarrow> ([], False)
           | ingress # _ \<Rightarrow>
               if lbi_Hostname ingress \<noteq> [] then (lbi_Hostname ingress, True)
               else if lbi_IP ingress \<noteq> [] then (lbi_IP ingress, True)
               else ([], False))"

definition ExtractClusterNameFromDeploymentName :: "string \<Rightarrow> string \<Rightarrow> string" where
  "ExtractClusterNameFromDeploymentName deploymentName colonyName =
     (let pre = colonyName @ ''-'' in
      if length deploymentName \<le> length pre then []
      else if take (length pre) deploymentName \<noteq> pre then []
      else drop (length pre) deploymentName)"

definition GetCAPICluster ::
  "('w, 'x, 'q) infra_api \<Rightarrow> kclient \<Rightarrow> string \<Rightarrow> string \<Rightarrow> ('w, 'x, 'q, goerr + CAPICluster option) inm" where
  "GetCAPICluster api c namespace name = do {
     gr \<leftarrow> call (IGetCAPI c namespace name) (ia_get_capi_cluster api c namespace name);
     State_Monad.return
       (case gr of
          Inl e \<Rightarrow> if IsNotFound e then Inr None
                   else Inl (wrapf (''failed to get CAPI Cluster '' @ namespace @ ''/'' @ name) e)
        | Inr cluster \<Rightarrow> Inr (Some cluster))
   }"

text \<open>\<open>net.JoinHostPort(host, strconv.Itoa(port))\<close>: a host with a colon is bracketed.\<close>

definition joinHostPort :: "string \<Rightarrow> int \<Rightarrow> string" where
  "joinHostPort host port =
     (if CHR '':'' \<in> set host then ''['' @ host @ '']:'' @ fmt_d port else host @ '':'' @ fmt_d port)"

definition DetermineAPIEndpoint :: "KService \<Rightarrow> CAPICluster option \<Rightarrow> goerr + string" where
  "DetermineAPIEndpoint service capiCluster =
     (if no_cluster_ip service then
        Inl (errorf (''service '' @ ksv_Name service @ '' has no valid ClusterIP''))
      else
        let apiPort = GetAPIServerPort service in
        case GetServiceExternalAddress service of (externalAddress, hasExternalAddress) \<Rightarrow>
          if hasExternalAddress then Inr (joinHostPort externalAddress apiPort)
          else if ksv_Type service = ServiceTypeNodePort then
            (let notReady = Inl (wrapf (''service '' @ ksv_Name service @ '' is NodePort but CAPI Cluster has no controlPlaneEndpoint'')
                     ErrControlPlaneEndpointNotReady) in
             case capiCluster of
               None \<Rightarrow> notReady
             | Some cluster \<Rightarrow>
                 if ce_Host cluster = [] then notReady
                 else Inr (joinHostPort (ce_Host cluster) (if ce_Port cluster = 0 then apiPort else ce_Port cluster)))
          else Inr (joinHostPort (ksv_ClusterIP service) apiPort))"

section \<open>The ConfigMap (api_endpoint_configmap.go)\<close>

definition ConfigMapName :: string where "ConfigMapName = ''cp-api-endpoint''"

definition ConfigMapNamespace :: string where "ConfigMapNamespace = ''kube-system''"

text \<open>\<open>strings.Split(s, ":")\<close>.\<close>

fun split_colon :: "string \<Rightarrow> string \<Rightarrow> string list" where
  "split_colon acc [] = [rev acc]"
| "split_colon acc (c # s) = (if c = CHR '':'' then rev acc # split_colon [] s else split_colon (c # acc) s)"

text \<open>
  \<open>strings.Index(endpoint, "]")\<close> as the text before and after the first bracket, if there is one.
\<close>

definition cut_bracket :: "string \<Rightarrow> (string \<times> string) option" where
  "cut_bracket s =
     (let before = takeWhile (\<lambda>c. c \<noteq> CHR '']'') s in
      if length before = length s then None else Some (before, drop (Suc (length before)) s))"

definition parseEndpoint :: "string \<Rightarrow> goerr + (string \<times> string)" where
  "parseEndpoint endpoint =
     (if prefix ''['' endpoint then
        (case cut_bracket endpoint of
           None \<Rightarrow> Inl (errorf (''invalid IPv6 endpoint format: '' @ endpoint))
         | Some (before, rest) \<Rightarrow>
             (case rest of
                c # port \<Rightarrow> if c = CHR '':'' then Inr (tl before, port)
                             else Inl (errorf (''missing port in IPv6 endpoint: '' @ endpoint))
              | [] \<Rightarrow> Inl (errorf (''missing port in IPv6 endpoint: '' @ endpoint))))
      else
        (case split_colon [] endpoint of
           [host, port] \<Rightarrow>
             if host = [] \<or> port = [] then Inl (errorf (''host or port is empty in endpoint: '' @ endpoint))
             else Inr (host, port)
         | _ \<Rightarrow> Inl (errorf (''invalid endpoint format, expected host:port, got: '' @ endpoint))))"

definition getClientForChildCluster ::
  "('w, 'x, 'q) infra_api \<Rightarrow> kclient \<Rightarrow> Colony \<Rightarrow> string \<Rightarrow> ('w, 'x, 'q, goerr + kubeconfig) inm" where
  "getClientForChildCluster api c colony clusterName = do {
     let kubeconfigSecretName = col_Name colony @ ''-'' @ clusterName @ ''-kubeconfig'';
     sr \<leftarrow> get_secret api c (col_Namespace colony) kubeconfigSecretName;
     (case sr of
        Inl e \<Rightarrow> State_Monad.return (Inl (wrapf (''failed to get kubeconfig secret '' @ fmt_q kubeconfigSecretName) e))
      | Inr secret \<Rightarrow>
          (case map_of (sec_Data secret) ''value'' of
             None \<Rightarrow> State_Monad.return (Inl (errorf (''kubeconfig secret '' @ fmt_q kubeconfigSecretName @
                       '' does not contain key '' @ [CHR 0x27] @ ''value'' @ [CHR 0x27])))
           | Some kc \<Rightarrow>
               (case ia_rest_config api kc of
                  Some e \<Rightarrow> State_Monad.return (Inl (wrapf (''failed to create REST config for cluster '' @ fmt_q clusterName) e))
                | None \<Rightarrow> do {
                    ne \<leftarrow> new_client api kc;
                    (case ne of
                       Some e \<Rightarrow> State_Monad.return (Inl (wrapf (''failed to create client for cluster '' @ fmt_q clusterName) e))
                     | None \<Rightarrow> State_Monad.return (Inr kc))
                  })))
   }"

definition new_configmap :: "Colony \<Rightarrow> string \<Rightarrow> string \<Rightarrow> string \<Rightarrow> ConfigMap" where
  "new_configmap colony clusterName host port =
     \<lparr>cm_Name = ConfigMapName, cm_Namespace = ConfigMapNamespace,
      cm_Labels = [(''app.kubernetes.io/managed-by'', ''exalsius-operator''), (''exalsius.ai/colony'', col_Name colony),
                   (''exalsius.ai/cluster'', clusterName)],
      cm_Data = Some [(''host'', host), (''port'', port)]\<rparr>"

text \<open>Writing into the nil map of a ConfigMap without data panics.\<close>

definition EnsureAPIEndpointConfigMap ::
  "('w, 'x, 'q) infra_api \<Rightarrow> Colony \<Rightarrow> string \<Rightarrow> string \<Rightarrow> kubeconfig option \<Rightarrow> ('w, 'x, 'q, unit outcome) inm" where
  "EnsureAPIEndpointConfigMap api colony clusterName exposedEndpoint regionalClient =
     (case parseEndpoint exposedEndpoint of
        Inl e \<Rightarrow> State_Monad.return (Err (wrapf (''failed to parse endpoint '' @ fmt_q exposedEndpoint) e))
      | Inr (host, port) \<Rightarrow> do {
          let kubeconfigClient = (case regionalClient of Some kc \<Rightarrow> Remote kc | None \<Rightarrow> Management);
          cr \<leftarrow> getClientForChildCluster api kubeconfigClient colony clusterName;
          (case cr of
             Inl e \<Rightarrow> State_Monad.return (Err (wrapf ''failed to get client for child cluster'' e))
           | Inr childClient \<Rightarrow> do {
               gr \<leftarrow> call (IGetCM childClient ConfigMapNamespace ConfigMapName)
                      (ia_get_cm api childClient ConfigMapNamespace ConfigMapName);
               (case gr of
                  Inr existingCM \<Rightarrow>
                    (let data = (case cm_Data existingCM of Some d \<Rightarrow> d | None \<Rightarrow> []) in
                     if lget data ''host'' = host \<and> lget data ''port'' = port then State_Monad.return (Ok ())
                     else
                       (case cm_Data existingCM of
                          None \<Rightarrow> State_Monad.return (Panic ''assignment to entry in nil map'')
                        | Some d \<Rightarrow> do {
                            let cm = existingCM\<lparr>cm_Data := Some (mput ''port'' port (mput ''host'' host d))\<rparr>;
                            ur \<leftarrow> call (IUpdateCM childClient cm) (ia_update_cm api childClient cm);
                            (case ur of
                               Some e \<Rightarrow> State_Monad.return (Err (wrapf ''failed to update ConfigMap'' e))
                             | None \<Rightarrow> State_Monad.return (Ok ()))
                          }))
                | Inl e \<Rightarrow>
                    if \<not> IsNotFound e then State_Monad.return (Err (wrapf ''failed to get ConfigMap'' e))
                    else do {
                      let cm = new_configmap colony clusterName host port;
                      ar \<leftarrow> call (ICreateCM childClient cm) (ia_create_cm api childClient cm);
                      (case ar of
                         Some e \<Rightarrow> State_Monad.return (Err (wrapf ''failed to create ConfigMap'' e))
                       | None \<Rightarrow> State_Monad.return (Ok ()))
                    })
             })
        })"

end
