(* ===== verification/Cluster_Deployments.thy ===== *)
theory Cluster_Deployments
  imports Colony_Api
begin

text \<open>
  \<open>infra/clusterdeployment/clusterdeployment.go\<close>: creating, updating and deleting the
  ClusterDeployments of a Colony.  The Colony in memory, which the source mutates through a pointer,
  is passed in and returned.
\<close>

section \<open>Configurations\<close>

lemma size_in_map: "kv \<in> set xs \<Longrightarrow> size (snd kv) < Suc (size_list (size_prod (\<lambda>_. 0) size) xs)"
proof -
  assume "kv \<in> set xs"
  then have "size_prod (\<lambda>_. 0) size kv \<le> size_list (size_prod (\<lambda>_. 0) size) xs"
    by (intro size_list_estimation') auto
  then show ?thesis by (cases kv) auto
qed

lemma size_in_arr: "p \<in> set (zip xs ys) \<Longrightarrow> size (fst p) < Suc (size_list size xs)"
proof -
  assume "p \<in> set (zip xs ys)"
  then have "fst p \<in> set xs" by (metis in_set_zipE prod.collapse)
  then have "size (fst p) \<le> size_list size xs" by (intro size_list_estimation') auto
  then show ?thesis by simp
qed

text \<open>\<open>reflect.DeepEqual\<close> of two decoded JSON values: the order of the keys of an object does not count.\<close>

function json_equal :: "hval \<Rightarrow> hval \<Rightarrow> bool" where
  "json_equal (HMap xs) (HMap ys) =
     (length xs = length ys \<and>
      (\<forall>kv \<in> set xs. case map_of ys (fst kv) of None \<Rightarrow> False | Some v \<Rightarrow> json_equal (snd kv) v))"
| "json_equal (HArr xs) (HArr ys) = (length xs = length ys \<and> (\<forall>p \<in> set (zip xs ys). json_equal (fst p) (snd p)))"
| "json_equal (HMap xs) (HArr ys) = False"
| "json_equal (HMap xs) HNull = False"
| "json_equal (HMap xs) (HBool b) = False"
| "json_equal (HMap xs) (HNum n) = False"
| "json_equal (HMap xs) (HInt i) = False"
| "json_equal (HMap xs) (HStr s) = False"
| "json_equal (HArr xs) (HMap ys) = False"
| "json_equal (HArr xs) HNull = False"
| "json_equal (HArr xs) (HBool b) = False"
| "json_equal (HArr xs) (HNum n) = False"
| "json_equal (HArr xs) (HInt i) = False"
| "json_equal (HArr xs) (HStr s) = False"
| "json_equal HNull v = (v = HNull)"
| "json_equal (HBool b) v = (v = HBool b)"
| "json_equal (HNum n) v = (v = HNum n)"
| "json_equal (HInt i) v = (v = HInt i)"
| "json_equal (HStr s) v = (v = HStr s)"
  by pat_completeness auto

termination
  by (relation "measure (\<lambda>p. size (fst p))") (auto dest: size_in_map size_in_arr)

definition jsonConfigsEqual :: "(rawjson \<Rightarrow> goerr + hval) \<Rightarrow> rawjson option \<Rightarrow> rawjson option \<Rightarrow> bool" where
  "jsonConfigsEqual decode a b =
     (case (a, b) of
        (None, None) \<Rightarrow> True
      | (Some x, Some y) \<Rightarrow>
          (case decode x of
             Inl _ \<Rightarrow> False
           | Inr aVal \<Rightarrow> (case decode y of Inl _ \<Rightarrow> False | Inr bVal \<Rightarrow> json_equal aVal bVal))
      | _ \<Rightarrow> False)"

section \<open>Labels and annotations\<close>

definition map_val :: "'v gomap option \<Rightarrow> 'v gomap" where
  "map_val m = (case m of Some x \<Rightarrow> x | None \<Rightarrow> [])"

definition mergeLabels :: "labels option \<Rightarrow> labels option \<Rightarrow> labels option" where
  "mergeLabels existingLabels newLabels = Some (mput_all (map_val newLabels) (mput_all (map_val existingLabels) []))"

definition mergeAnnotations :: "labels option \<Rightarrow> labels option \<Rightarrow> labels option" where
  "mergeAnnotations existingAnnotations newAnnotations =
     Some (mput_all (map_val newAnnotations) (mput_all (map_val existingAnnotations) []))"

text \<open>\<open>reflect.DeepEqual\<close> of two maps: nil is only equal to nil.\<close>

definition deep_equal :: "labels option \<Rightarrow> labels option \<Rightarrow> bool" where
  "deep_equal a b = (case (a, b) of (None, None) \<Rightarrow> True | (Some x, Some y) \<Rightarrow> set x = set y | _ \<Rightarrow> False)"

section \<open>Update of the managed fields\<close>

text \<open>
  The body of the loop up to the update: the new object and \<open>changed\<close>.  The managed fields are those
  of \<open>spec\<close>.
\<close>

definition managed_update ::
  "(rawjson \<Rightarrow> goerr + hval) \<Rightarrow> 'x ClusterDeploymentSpec \<Rightarrow> labels option \<Rightarrow> labels option
   \<Rightarrow> 'x KClusterDeployment \<Rightarrow> 'x KClusterDeployment \<times> bool" where
  "managed_update decode spec colonyLabels colonyAnnotations latest =
     (let sp = kcd_Spec latest;
          c1 = \<not> jsonConfigsEqual decode (cds_Config sp) (cds_Config spec);
          sp = (if c1 then sp\<lparr>cds_Config := cds_Config spec\<rparr> else sp);
          c2 = (cds_Credential sp \<noteq> cds_Credential spec);
          sp = (if c2 then sp\<lparr>cds_Credential := cds_Credential spec\<rparr> else sp);
          c3 = (cds_Template sp \<noteq> cds_Template spec);
          sp = (if c3 then sp\<lparr>cds_Template := cds_Template spec\<rparr> else sp);
          c4 = (cds_ServiceSpec sp \<noteq> cds_ServiceSpec spec);
          sp = (if c4 then sp\<lparr>cds_ServiceSpec := cds_ServiceSpec spec\<rparr> else sp);
          c5 = (cds_PropagateCredentials sp \<noteq> cds_PropagateCredentials spec);
          sp = (if c5 then sp\<lparr>cds_PropagateCredentials := cds_PropagateCredentials spec\<rparr> else sp);
          mergedLabels = mergeLabels (kcd_Labels latest) colonyLabels;
          c6 = (\<not> deep_equal (kcd_Labels latest) mergedLabels);
          latest = (if c6 then latest\<lparr>kcd_Labels := mergedLabels\<rparr> else latest);
          mergedAnnotations = mergeAnnotations (kcd_Annotations latest) colonyAnnotations;
          c7 = (\<not> deep_equal (kcd_Annotations latest) mergedAnnotations);
          latest = (if c7 then latest\<lparr>kcd_Annotations := mergedAnnotations\<rparr> else latest)
      in (latest\<lparr>kcd_Spec := sp\<rparr>, c1 \<or> c2 \<or> c3 \<or> c4 \<or> c5 \<or> c6 \<or> c7))"

abbreviation IsConflict :: "goerr \<Rightarrow> bool" where
  "IsConflict e \<equiv> ekind e = KConflict"

definition get_kcd :: "('w, 'x, 'q) infra_api \<Rightarrow> string \<Rightarrow> string \<Rightarrow> ('w, 'x, 'q, goerr + 'x KClusterDeployment) inm" where
  "get_kcd api ns name = call (IGetCD ns name) (ia_get_cd api ns name)"

definition sleep :: "('w, 'x, 'q) infra_api \<Rightarrow> int \<Rightarrow> ('w, 'x, 'q, unit) inm" where
  "sleep api d = call (\<lambda>_. ISleep d) (ia_sleep api d)"

text \<open>\<open>maxRetries\<close> and the first \<open>backoff\<close>, in nanoseconds, of the two retry loops.\<close>

definition maxRetries :: nat where "maxRetries = 5"

definition firstBackoff :: int where "firstBackoff = 100000000"

text \<open>The retry loop, with the attempts left.\<close>

fun update_attempts ::
  "('w, 'x, 'q) infra_api \<Rightarrow> ('x KClusterDeployment \<Rightarrow> 'x KClusterDeployment \<times> bool) \<Rightarrow> 'x KClusterDeployment
   \<Rightarrow> nat \<Rightarrow> int \<Rightarrow> ('w, 'x, 'q, goerr + 'x KClusterDeployment option) inm" where
  "update_attempts api change existing 0 backoff =
     State_Monad.return (Inl (errorf (''failed to update ClusterDeployment after '' @ fmt_d (int maxRetries) @ '' attempts'')))"
| "update_attempts api change existing (Suc left) backoff = do {
     gr \<leftarrow> get_kcd api (kcd_Namespace existing) (kcd_Name existing);
     (case gr of
        Inl e \<Rightarrow> State_Monad.return (Inl (wrapf ''failed to get latest ClusterDeployment'' e))
      | Inr latest \<Rightarrow>
          (case change latest of (latest, changed) \<Rightarrow>
             if \<not> changed then State_Monad.return (Inr None)
             else do {
               ur \<leftarrow> call (IUpdateCD latest) (ia_update_cd api latest);
               (case ur of
                  Inl e \<Rightarrow>
                    if IsConflict e then do {
                      sleep api backoff;
                      update_attempts api change existing left (backoff * 2)
                    }
                    else State_Monad.return (Inl (wrapf ''failed to update ClusterDeployment'' e))
                | Inr updated \<Rightarrow> State_Monad.return (Inr (Some updated)))
             }))
   }"

definition updateManagedFields ::
  "('w, 'x, 'q) infra_api \<Rightarrow> 'x KClusterDeployment \<Rightarrow> 'x ClusterDeploymentSpec \<Rightarrow> labels option \<Rightarrow> labels option
   \<Rightarrow> ('w, 'x, 'q, goerr + 'x KClusterDeployment option) inm" where
  "updateManagedFields api existing spec colonyLabels colonyAnnotations =
     update_attempts api (managed_update (ia_decode api) spec colonyLabels colonyAnnotations) existing maxRetries firstBackoff"

section \<open>Ensuring a ClusterDeployment\<close>

definition cd_name :: "Colony \<Rightarrow> ColonyCluster \<Rightarrow> string" where
  "cd_name colony cc = col_Name colony @ ''-'' @ cc_ClusterName cc"

definition new_cd :: "Colony \<Rightarrow> ColonyCluster \<Rightarrow> 'x ClusterDeploymentSpec \<Rightarrow> 'x KClusterDeployment" where
  "new_cd colony cc spec =
     \<lparr>kcd_APIVersion = [], kcd_Kind = [], kcd_Name = cd_name colony cc, kcd_Namespace = col_Namespace colony,
      kcd_Labels = cc_ClusterLabels cc, kcd_Annotations = cc_ClusterAnnotations cc, kcd_Owners = [],
      kcd_DeletionTimestamp = 0, kcd_Spec = spec, kcd_Conditions = []\<rparr>"

definition same_ref :: "ObjectReference \<Rightarrow> ObjectReference \<Rightarrow> bool" where
  "same_ref a b \<longleftrightarrow> or_Name a = or_Name b \<and> or_Namespace a = or_Namespace b"

definition add_ref :: "Colony \<Rightarrow> 'x KClusterDeployment \<Rightarrow> Colony" where
  "add_ref colony actual =
     (let ref = \<lparr>or_APIVersion = kcd_APIVersion actual, or_Kind = kcd_Kind actual,
                 or_Namespace = kcd_Namespace actual, or_Name = kcd_Name actual\<rparr>;
          refs = cst_ClusterDeploymentRefs (col_Status colony) in
      if list_ex (\<lambda>r. same_ref r ref) refs then colony
      else colony\<lparr>col_Status := (col_Status colony)\<lparr>cst_ClusterDeploymentRefs := refs @ [ref]\<rparr>\<rparr>)"

definition EnsureClusterDeployment ::
  "('w, 'x, 'q) infra_api \<Rightarrow> Colony \<Rightarrow> ColonyCluster \<Rightarrow> ('w, 'x, 'q, goerr option \<times> Colony) inm" where
  "EnsureClusterDeployment api colony colonyCluster =
     (case GetClusterDeploymentSpec api colonyCluster of
        Inl e \<Rightarrow> State_Monad.return (Some e, colony)
      | Inr None \<Rightarrow> State_Monad.return (None, colony)
      | Inr (Some spec) \<Rightarrow>
          (let clusterDeployment = new_cd colony colonyCluster spec in
           case ia_set_controller api colony (kcd_Owners clusterDeployment) of
             Inl e \<Rightarrow> State_Monad.return (Some (wrapf ''failed to set owner reference on ClusterDeployment'' e), colony)
           | Inr owners \<Rightarrow> do {
               let clusterDeployment = clusterDeployment\<lparr>kcd_Owners := owners\<rparr>;
               gr \<leftarrow> get_kcd api (kcd_Namespace clusterDeployment) (kcd_Name clusterDeployment);
               (case gr of
                  Inl e \<Rightarrow>
                    if IsNotFound e then do {
                      ar \<leftarrow> call (ICreateCD clusterDeployment) (ia_create_cd api clusterDeployment);
                      (case ar of
                         Inl e \<Rightarrow> State_Monad.return (Some e, colony)
                       | Inr actual \<Rightarrow> State_Monad.return (None, add_ref colony actual))
                    }
                    else State_Monad.return (Some e, colony)
                | Inr existing \<Rightarrow> do {
                    ur \<leftarrow> updateManagedFields api existing spec (cc_ClusterLabels colonyCluster) (cc_ClusterAnnotations colonyCluster);
                    (case ur of
                       Inl e \<Rightarrow> State_Monad.return (Some e, colony)
                     | Inr (Some updated) \<Rightarrow> State_Monad.return (None, add_ref colony updated)
                     | Inr None \<Rightarrow> State_Monad.return (None, add_ref colony existing))
                  })
             }))"

section \<open>Volume claims\<close>

definition pvc_name :: "string \<Rightarrow> string" where
  "pvc_name cdName = ''etcd-data-kmc-'' @ cdName @ ''-etcd-0''"

fun delete_pvc_regional ::
  "('w, 'x, 'q) infra_api \<Rightarrow> string \<Rightarrow> string \<Rightarrow> 'x KClusterDeployment list \<Rightarrow> ('w, 'x, 'q, goerr option) inm" where
  "delete_pvc_regional api namespace pvcName [] = State_Monad.return None"
| "delete_pvc_regional api namespace pvcName (rcd # rcds) = do {
     cr \<leftarrow> infra_cluster_client api namespace (kcd_Name rcd);
     (case cr of
        Inl e \<Rightarrow> delete_pvc_regional api namespace pvcName rcds
      | Inr kc \<Rightarrow> do {
          dr \<leftarrow> call (IDeletePVC (Remote kc) namespace pvcName) (ia_delete_pvc api (Remote kc) namespace pvcName);
          (case dr of
             None \<Rightarrow> State_Monad.return None
           | Some e \<Rightarrow> if IsNotFound e then delete_pvc_regional api namespace pvcName rcds
                       else State_Monad.return (Some e))
        })
   }"

definition DeletePVCForClusterDeployment ::
  "('w, 'x, 'q) infra_api \<Rightarrow> string \<Rightarrow> string \<Rightarrow> ('w, 'x, 'q, goerr option) inm" where
  "DeletePVCForClusterDeployment api namespace cdName = do {
     let pvcName = pvc_name cdName;
     dr \<leftarrow> call (IDeletePVC Management namespace pvcName) (ia_delete_pvc api Management namespace pvcName);
     (case dr of
        None \<Rightarrow> State_Monad.return None
      | Some e \<Rightarrow>
          if \<not> IsNotFound e then State_Monad.return (Some e)
          else do {
            lr \<leftarrow> FindRegionalClusterDeploymentsByRole api namespace;
            (case lr of
               Inl e \<Rightarrow> State_Monad.return None
             | Inr regionalCDs \<Rightarrow> delete_pvc_regional api namespace pvcName regionalCDs)
          })
   }"

section \<open>Orphans\<close>

text \<open>The loop over the references: the deleted and the pending ones so far, in order.\<close>

fun cleanup_refs ::
  "('w, 'x, 'q) infra_api \<Rightarrow> string list \<Rightarrow> ObjectReference list \<Rightarrow> ObjectReference list \<Rightarrow> ObjectReference list
   \<Rightarrow> ('w, 'x, 'q, goerr + ObjectReference list \<times> ObjectReference list) inm" where
  "cleanup_refs api expected [] deleted pending = State_Monad.return (Inr (deleted, pending))"
| "cleanup_refs api expected (ref # refs) deleted pending =
     (if or_Name ref \<in> set expected then cleanup_refs api expected refs deleted pending
      else do {
        gr \<leftarrow> get_kcd api (or_Namespace ref) (or_Name ref);
        (case gr of
           Inl e \<Rightarrow>
             if IsNotFound e then do {
               _ \<leftarrow> DeletePVCForClusterDeployment api (or_Namespace ref) (or_Name ref);
               cleanup_refs api expected refs (deleted @ [ref]) pending
             }
             else State_Monad.return (Inl e)
         | Inr cd \<Rightarrow>
             if kcd_DeletionTimestamp cd = 0 then do {
               dr \<leftarrow> call (IDeleteCD cd) (ia_delete_cd api cd);
               (case dr of
                  Some e \<Rightarrow> if IsNotFound e then cleanup_refs api expected refs deleted (pending @ [ref])
                              else State_Monad.return (Inl e)
                | None \<Rightarrow> cleanup_refs api expected refs deleted (pending @ [ref]))
             }
             else cleanup_refs api expected refs deleted (pending @ [ref]))
      })"

definition set_refs :: "ObjectReference list \<Rightarrow> Colony \<Rightarrow> Colony" where
  "set_refs refs colony = colony\<lparr>col_Status := (col_Status colony)\<lparr>cst_ClusterDeploymentRefs := refs\<rparr>\<rparr>"

definition CleanupOrphanedClusterDeployments ::
  "('w, 'x, 'q) infra_api \<Rightarrow> Colony \<Rightarrow> ('w, 'x, 'q, (goerr + bool) \<times> Colony) inm" where
  "CleanupOrphanedClusterDeployments api colony = do {
     let expected = map (cd_name colony) (col_ColonyClusters colony);
     let refs = cst_ClusterDeploymentRefs (col_Status colony);
     lr \<leftarrow> cleanup_refs api expected refs [] [];
     (case lr of
        Inl e \<Rightarrow> State_Monad.return (Inl e, colony)
      | Inr (deletedRefs, pendingDeletions) \<Rightarrow>
          if deletedRefs = [] then State_Monad.return (Inr (pendingDeletions \<noteq> []), colony)
          else do {
            let orig = colony;
            let colony = set_refs (filter (\<lambda>ref. \<not> list_ex (same_ref ref) deletedRefs) refs) colony;
            pr \<leftarrow> call (IPatchStatus orig colony) (ia_patch_colony_status api orig colony);
            (case pr of
               Inl e \<Rightarrow> State_Monad.return (Inl (wrapf ''failed to update Colony status after cleanup'' e), colony)
             | Inr colony \<Rightarrow> State_Monad.return (Inr (pendingDeletions \<noteq> []), colony))
          })
   }"

section \<open>Waiting\<close>

text \<open>
  \<open>WaitForClusterDeletion\<close> selects between its timeout and its ticker; the choices the runtime makes
  are an argument, and running out of them is \<open>None\<close>, not having returned yet.
\<close>

datatype select = Timeout | Tick

fun WaitForClusterDeletion ::
  "('w, 'x, 'q) infra_api \<Rightarrow> string \<Rightarrow> string \<Rightarrow> select list \<Rightarrow> ('w, 'x, 'q, goerr option option) inm" where
  "WaitForClusterDeletion api namespace name [] = State_Monad.return None"
| "WaitForClusterDeletion api namespace name (Timeout # _) =
     State_Monad.return (Some (Some (errorf (''timeout waiting for cluster '' @ name @ '' deletion''))))"
| "WaitForClusterDeletion api namespace name (Tick # choices) = do {
     gr \<leftarrow> get_kcd api namespace name;
     (case gr of
        Inl e \<Rightarrow>
          if IsNotFound e then do {
            _ \<leftarrow> DeletePVCForClusterDeployment api namespace name;
            State_Monad.return (Some None)
          }
          else WaitForClusterDeletion api namespace name choices
      | Inr _ \<Rightarrow> WaitForClusterDeletion api namespace name choices)
   }"

end
