(* ===== verification/Colony_Controller.thy ===== *)
theory Colony_Controller
  imports Service_Discovery Cluster_Deployments
begin

text \<open>
  \<open>infra/colony_controller.go\<close>: the reconcile of a Colony.  The Colony in memory is passed along and
  returned where the source mutates it through its pointer.
\<close>

section \<open>Constants\<close>

definition colonyFinalizer :: string where "colonyFinalizer = ''colony.infra.exalsius.ai/finalizer''"

definition conditionTypeClustersReady :: string where "conditionTypeClustersReady = ''ClustersReady''"

abbreviation after_seconds :: "int \<Rightarrow> Result" where
  "after_seconds n \<equiv> \<lparr>RequeueAfter = n * 1000000000\<rparr>"

text \<open>\<open>%v\<close> of a \<open>[]string\<close>.\<close>

definition fmt_strs :: "string list \<Rightarrow> string" where
  "fmt_strs xs = ''['' @ str_join '' '' xs @ '']''"

text \<open>\<open>errors.Join\<close>: the messages, one per line; \<open>errors.As\<close> finds the first kind.\<close>

definition join_errors :: "goerr list \<Rightarrow> goerr" where
  "join_errors es =
     \<lparr>ekind = (case find (\<lambda>e. ekind e \<noteq> KOther) es of Some e \<Rightarrow> ekind e | None \<Rightarrow> KOther),
      emsg = str_join [CHR 0x0A] (map emsg es)\<rparr>"

section \<open>Status\<close>

definition set_phase :: "string \<Rightarrow> Colony \<Rightarrow> Colony" where
  "set_phase phase colony = colony\<lparr>col_Status := (col_Status colony)\<lparr>cst_Phase := phase\<rparr>\<rparr>"

definition count_specified :: "ColonyCluster list \<Rightarrow> nat" where
  "count_specified ccs = length (filter (\<lambda>cc. cc_ClusterDeploymentSpec cc \<noteq> None) ccs)"

text \<open>The loop over the conditions of a ClusterDeployment.\<close>

definition cd_ready :: "'x KClusterDeployment \<Rightarrow> bool" where
  "cd_ready cd = foldl (\<lambda>ready c. if c_Type c = ''Ready'' \<and> c_Status c = ConditionFalse then False else ready) True (kcd_Conditions cd)"

definition ref_key :: "ObjectReference \<Rightarrow> string" where
  "ref_key ref = or_Namespace ref @ ''/'' @ or_Name ref"

text \<open>The loop over the references: how many are ready, and the names of the others.\<close>

fun count_ready ::
  "('w, 'x, 'q) infra_api \<Rightarrow> ObjectReference list \<Rightarrow> nat \<Rightarrow> string list \<Rightarrow> ('w, 'x, 'q, goerr + nat \<times> string list) inm" where
  "count_ready api [] ready notReady = State_Monad.return (Inr (ready, notReady))"
| "count_ready api (ref # refs) ready notReady = do {
     gr \<leftarrow> get_kcd api (or_Namespace ref) (or_Name ref);
     (case gr of
        Inl e \<Rightarrow> if IsNotFound e then count_ready api refs ready (notReady @ [ref_key ref @ '' (not found)''])
                 else State_Monad.return (Inl e)
      | Inr cd \<Rightarrow> if cd_ready cd then count_ready api refs (Suc ready) notReady
                  else count_ready api refs ready (notReady @ [ref_key ref]))
   }"

definition clusters_condition :: "ConditionStatus \<Rightarrow> string \<Rightarrow> string \<Rightarrow> Condition" where
  "clusters_condition status reason message =
     \<lparr>c_Type = conditionTypeClustersReady, c_Status = status, c_Reason = reason, c_Message = message,
      c_ObservedGeneration = 0, c_LastTransitionTime = 0\<rparr>"

text \<open>The switch: the phase and the condition.\<close>

definition colony_verdict :: "goerr list \<Rightarrow> nat \<Rightarrow> nat \<Rightarrow> string list \<Rightarrow> string \<times> Condition" where
  "colony_verdict clusterErrs readyClusters totalClusters notReady =
     (if clusterErrs \<noteq> [] then
        (''Degraded'', clusters_condition ConditionFalse ''ClusterEnsureFailed''
           (fmt_d (int readyClusters) @ ''/'' @ fmt_d (int totalClusters) @ '' clusters ready. Failed to ensure: '' @
            fmt_strs (map emsg clusterErrs) @ (if notReady \<noteq> [] then ''. Not ready: '' @ fmt_strs notReady else [])))
      else if readyClusters \<noteq> totalClusters \<or> notReady \<noteq> [] then
        (''Provisioning'', clusters_condition ConditionFalse ''NotAllClustersReady''
           (fmt_d (int readyClusters) @ '' out of '' @ fmt_d (int totalClusters) @ '' clusters are ready. Not ready clusters: '' @
            fmt_strs notReady))
      else
        (''Ready'', clusters_condition ConditionTrue ''AllClustersReady''
           (''All '' @ fmt_d (int totalClusters) @ '' clusters of the colony are ready'')))"

definition updateColonyStatusFromClusters ::
  "('w, 'x, 'q) infra_api \<Rightarrow> Colony \<Rightarrow> goerr list \<Rightarrow> ('w, 'x, 'q, goerr option \<times> Colony) inm" where
  "updateColonyStatusFromClusters api colony clusterErrs = do {
     let totalClusters = count_specified (col_ColonyClusters colony);
     lr \<leftarrow> count_ready api (cst_ClusterDeploymentRefs (col_Status colony)) 0 [];
     (case lr of
        Inl e \<Rightarrow> State_Monad.return (Some e, colony)
      | Inr (readyClusters, notReady) \<Rightarrow>
          (case colony_verdict clusterErrs readyClusters totalClusters notReady of (phase, condition) \<Rightarrow> do {
             conds \<leftarrow> call (\<lambda>_. ISetCondition condition)
               (ia_set_condition api (cst_Conditions (col_Status colony)) condition);
             State_Monad.return (None, colony\<lparr>col_Status := (col_Status colony)\<lparr>
               cst_TotalClusters := i32 (int totalClusters), cst_ReadyClusters := i32 (int readyClusters),
               cst_Phase := phase, cst_Conditions := conds\<rparr>\<rparr>)
           }))
   }"

text \<open>The retry loop of the status update on deletion, with the attempts left.\<close>

fun status_attempts ::
  "('w, 'x, 'q) infra_api \<Rightarrow> Colony \<Rightarrow> string \<Rightarrow> nat \<Rightarrow> int \<Rightarrow> ('w, 'x, 'q, goerr option \<times> Colony) inm" where
  "status_attempts api colony phase 0 backoff =
     State_Monad.return (Some (errorf (''failed to update Colony status after '' @ fmt_d (int maxRetries) @
       '' attempts due to conflicts'')), colony)"
| "status_attempts api colony phase (Suc left) backoff = do {
     gr \<leftarrow> call (IGetColony (col_Namespace colony) (col_Name colony))
       (ia_get_colony api (col_Namespace colony) (col_Name colony));
     (case gr of
        Inl e \<Rightarrow> if IsNotFound e then State_Monad.return (None, colony)
                 else State_Monad.return (Some (wrapf ''failed to get latest version of Colony'' e), colony)
      | Inr latest \<Rightarrow> do {
          let latest = set_phase phase latest;
          ur \<leftarrow> call (IUpdateStatus latest) (ia_update_colony_status api latest);
          (case ur of
             Inl e \<Rightarrow>
               if IsConflict e then do {
                 sleep api backoff;
                 status_attempts api colony phase left (backoff * 2)
               }
               else State_Monad.return (Some (wrapf ''failed to update Colony status'' e), colony)
           | Inr latest \<Rightarrow> State_Monad.return (None, latest))
        })
   }"

definition updateColonyStatusWithRetry ::
  "('w, 'x, 'q) infra_api \<Rightarrow> Colony \<Rightarrow> string \<Rightarrow> ('w, 'x, 'q, goerr option \<times> Colony) inm" where
  "updateColonyStatusWithRetry api colony phase = status_attempts api colony phase maxRetries firstBackoff"

section \<open>GPU inventory\<close>

definition published_offering :: "Offering \<Rightarrow> GPUOffering" where
  "published_offering o' =
     \<lparr>go_Model = o_Model o', go_Selector = o_Selector o', go_Vendor = o_Vendor o', go_ResourceName = o_ResourceName o',
      go_Total = o_Total o', go_Nodes = o_Nodes o', go_Labels = o_Labels o'\<rparr>"

definition scanClusterGPUOfferings ::
  "('w, 'x, 'q) colony_reconciler \<Rightarrow> kubeconfig \<Rightarrow> ('w, 'x, 'q, goerr + GPUOffering list) inm" where
  "scanClusterGPUOfferings r childClient = do {
     nr \<leftarrow> call (IListNodes childClient) (ia_list_nodes (cr_api r) childClient);
     State_Monad.return
       (case nr of
          Inl e \<Rightarrow> Inl e
        | Inr nodes \<Rightarrow> Inr (map published_offering (DeriveOfferings (cr_iter r) (cr_Q r) nodes no_options)))
   }"

definition client_for :: "('w, 'x, 'q) colony_reconciler \<Rightarrow> string \<Rightarrow> string \<Rightarrow> ('w, 'x, 'q, goerr + kubeconfig) inm" where
  "client_for r = (case cr_childClientForCD r of Some f \<Rightarrow> f | None \<Rightarrow> infra_cluster_client (cr_api r))"

definition keepPrevious ::
  "ClusterGPUInventory gomap \<Rightarrow> string \<Rightarrow> ClusterGPUInventory gomap \<Rightarrow> ClusterGPUInventory gomap" where
  "keepPrevious previous name inventory =
     (case map_of previous name of Some prev \<Rightarrow> mput name prev inventory | None \<Rightarrow> inventory)"

fun scan_refs ::
  "('w, 'x, 'q) colony_reconciler \<Rightarrow> ClusterGPUInventory gomap \<Rightarrow> ObjectReference list \<Rightarrow> ClusterGPUInventory gomap
   \<Rightarrow> ('w, 'x, 'q, ClusterGPUInventory gomap) inm" where
  "scan_refs r previous [] inventory = State_Monad.return inventory"
| "scan_refs r previous (ref # refs) inventory = do {
     cr \<leftarrow> client_for r (or_Namespace ref) (or_Name ref);
     (case cr of
        Inl e \<Rightarrow> scan_refs r previous refs (keepPrevious previous (or_Name ref) inventory)
      | Inr childClient \<Rightarrow> do {
          sr \<leftarrow> scanClusterGPUOfferings r childClient;
          (case sr of
             Inl e \<Rightarrow> scan_refs r previous refs (keepPrevious previous (or_Name ref) inventory)
           | Inr offerings \<Rightarrow> do {
               t \<leftarrow> call INow (ia_now (cr_api r));
               scan_refs r previous refs (mput (or_Name ref) \<lparr>gi_LastUpdated = t, gi_Offerings = offerings\<rparr> inventory)
             })
        })
   }"

definition refreshGPUInventory :: "('w, 'x, 'q) colony_reconciler \<Rightarrow> Colony \<Rightarrow> ('w, 'x, 'q, Colony) inm" where
  "refreshGPUInventory r colony = do {
     let st = col_Status colony;
     inventory \<leftarrow> scan_refs r (cst_GPUInventory st) (cst_ClusterDeploymentRefs st) [];
     State_Monad.return (colony\<lparr>col_Status := st\<lparr>cst_GPUInventory := inventory\<rparr>\<rparr>)
   }"

section \<open>Kubeconfig secrets\<close>

definition mirror_labels :: "Colony \<Rightarrow> labels" where
  "mirror_labels colony =
     [(''app.kubernetes.io/managed-by'', ''exalsius-operator''), (''exalsius.ai/mirrored-kubeconfig'', ''true''),
      (''exalsius.ai/colony'', col_Name colony)]"

definition mirrorKubeconfigSecret ::
  "('w, 'x, 'q) infra_api \<Rightarrow> Colony \<Rightarrow> KSecret \<Rightarrow> ('w, 'x, 'q, goerr option) inm" where
  "mirrorKubeconfigSecret api colony sourceSecret = do {
     gr \<leftarrow> get_secret api Management (col_Namespace colony) (sec_Name sourceSecret);
     (case gr of
        Inl e \<Rightarrow>
          if IsNotFound e then do {
            let mirrorSecret = \<lparr>sec_Name = sec_Name sourceSecret, sec_Namespace = col_Namespace colony,
              sec_Data = sec_Data sourceSecret, sec_Labels = mirror_labels colony, sec_Owners = []\<rparr>;
            ar \<leftarrow> call (ICreateSecret mirrorSecret) (ia_create_secret api mirrorSecret);
            State_Monad.return
              (map_option (wrapf (''failed to create mirrored kubeconfig secret '' @ fmt_q (sec_Name sourceSecret))) ar)
          }
          else State_Monad.return
            (Some (wrapf (''failed to get mirrored kubeconfig secret '' @ fmt_q (sec_Name sourceSecret)) e))
      | Inr mirrorSecret \<Rightarrow>
          if lget (sec_Data mirrorSecret) ''value'' \<noteq> lget (sec_Data sourceSecret) ''value'' then do {
            let mirrorSecret = mirrorSecret\<lparr>sec_Data := sec_Data sourceSecret\<rparr>;
            ur \<leftarrow> call (IUpdateSecret mirrorSecret) (ia_update_secret api mirrorSecret);
            (case ur of
               Inl e \<Rightarrow> State_Monad.return
                 (Some (wrapf (''failed to update mirrored kubeconfig secret '' @ fmt_q (sec_Name sourceSecret)) e))
             | Inr _ \<Rightarrow> State_Monad.return None)
          }
          else State_Monad.return None)
   }"

text \<open>
  One round of the loop: the reference's secret is read where it lives, mirrored if that is a regional
  cluster, and its reference encoded.  \<open>Inl\<close> is the return of the enclosing function.
\<close>

definition kubeconfig_reference ::
  "('w, 'x, 'q) infra_api \<Rightarrow> Colony \<Rightarrow> ObjectReference \<Rightarrow> ('w, 'x, 'q, (Result \<times> goerr option) + string) inm" where
  "kubeconfig_reference api colony ref = do {
     let secretName = or_Name ref @ ''-kubeconfig'';
     let clusterName = ExtractClusterNameFromDeploymentName (or_Name ref) (col_Name colony);
     rc \<leftarrow> ResolveRegionalClient api colony clusterName;
     (case rc of (regionalClient, isRegional, err) \<Rightarrow> do {
        stop \<leftarrow> (case (isRegional, regionalClient) of
          (True, Some kc) \<Rightarrow> do {
            gr \<leftarrow> get_secret api (Remote kc) (or_Namespace ref) secretName;
            (case gr of
               Inl e \<Rightarrow> State_Monad.return (Some (if IsNotFound e then (after_seconds 10, None) else (no_requeue, Some e)))
             | Inr kubeconfigSecret \<Rightarrow> do {
                 mr \<leftarrow> mirrorKubeconfigSecret api colony kubeconfigSecret;
                 State_Monad.return (map_option (\<lambda>e. (no_requeue, Some e)) mr)
               })
          }
        | _ \<Rightarrow> do {
            gr \<leftarrow> get_secret api Management (or_Namespace ref) secretName;
            (case gr of
               Inl e \<Rightarrow> State_Monad.return (Some (if IsNotFound e then (after_seconds 10, None) else (no_requeue, Some e)))
             | Inr _ \<Rightarrow> State_Monad.return None)
          });
        (case stop of
           Some res \<Rightarrow> State_Monad.return (Inl res)
         | None \<Rightarrow>
             (case ia_marshal_ref api \<lparr>or_APIVersion = ''v1'', or_Kind = ''Secret'', or_Namespace = or_Namespace ref, or_Name = secretName\<rparr> of
                Inl e \<Rightarrow> State_Monad.return (Inl (no_requeue, Some e))
              | Inr refBytes \<Rightarrow> State_Monad.return (Inr refBytes)))
      })
   }"

fun collect_references ::
  "('w, 'x, 'q) infra_api \<Rightarrow> Colony \<Rightarrow> ObjectReference list \<Rightarrow> labels \<Rightarrow> ('w, 'x, 'q, (Result \<times> goerr option) + labels) inm" where
  "collect_references api colony [] references = State_Monad.return (Inr references)"
| "collect_references api colony (ref # refs) references = do {
     kr \<leftarrow> kubeconfig_reference api colony ref;
     (case kr of
        Inl res \<Rightarrow> State_Monad.return (Inl res)
      | Inr refBytes \<Rightarrow> collect_references api colony refs (mput (or_Name ref) refBytes references))
   }"

definition aggregated_secret :: "Colony \<Rightarrow> labels \<Rightarrow> KSecret" where
  "aggregated_secret colony references =
     \<lparr>sec_Name = col_Name colony @ ''-kubeconfigs'', sec_Namespace = col_Namespace colony, sec_Data = references,
      sec_Labels = [], sec_Owners = []\<rparr>"

definition ensureAggregatedKubeconfigSecretExists ::
  "('w, 'x, 'q) infra_api \<Rightarrow> Colony \<Rightarrow> ('w, 'x, 'q, Result \<times> goerr option) inm" where
  "ensureAggregatedKubeconfigSecretExists api colony = do {
     lr \<leftarrow> collect_references api colony (cst_ClusterDeploymentRefs (col_Status colony)) [];
     (case lr of
        Inl res \<Rightarrow> State_Monad.return res
      | Inr references \<Rightarrow> do {
          gr \<leftarrow> get_secret api Management (col_Namespace colony) (col_Name colony @ ''-kubeconfigs'');
          (case gr of
             Inl e \<Rightarrow>
               if IsNotFound e then do {
                 let secret = aggregated_secret colony references;
                 ar \<leftarrow> call (ICreateSecret secret) (ia_create_secret api secret);
                 State_Monad.return (no_requeue, ar)
               }
               else State_Monad.return (no_requeue, Some e)
           | Inr secret \<Rightarrow> do {
               let secret = secret\<lparr>sec_Data := references\<rparr>;
               ur \<leftarrow> call (IUpdateSecret secret) (ia_update_secret api secret);
               (case ur of
                  Inl e \<Rightarrow> State_Monad.return (no_requeue, Some e)
                | Inr secret \<Rightarrow>
                    (case ia_set_controller api colony (sec_Owners secret) of
                       Inl e \<Rightarrow> State_Monad.return (no_requeue, Some e)
                     | Inr owners \<Rightarrow> State_Monad.return (no_requeue, None)))
             })
        })
   }"

section \<open>API endpoints of the child clusters\<close>

definition isConnectionError :: "goerr option \<Rightarrow> bool" where
  "isConnectionError err =
     (case err of
        None \<Rightarrow> False
      | Some e \<Rightarrow>
          str_contains (emsg e) ''connection refused'' \<or> str_contains (emsg e) ''i/o timeout'' \<or>
          str_contains (emsg e) ''no such host'' \<or> str_contains (emsg e) ''connect: connection timed out'')"

definition getNotReadyReason :: "goerr \<Rightarrow> string" where
  "getNotReadyReason err =
     (if IsNotFound err then ''kubeconfig not found''
      else if str_contains (emsg err) ''connection refused'' then ''API server not ready''
      else if str_contains (emsg err) ''i/o timeout'' then ''API server timeout''
      else if str_contains (emsg err) ''no such host'' then ''DNS not ready''
      else ''cluster starting up'')"

text \<open>One round of the loop; every failure is logged and skipped, a panic is not.\<close>

definition ensure_endpoint_configmap ::
  "('w, 'x, 'q) infra_api \<Rightarrow> Colony \<Rightarrow> ObjectReference \<Rightarrow> ('w, 'x, 'q, unit outcome) inm" where
  "ensure_endpoint_configmap api colony clusterRef = do {
     let clusterName = ExtractClusterNameFromDeploymentName (or_Name clusterRef) (col_Name colony);
     if clusterName = [] then State_Monad.return (Ok ())
     else do {
       rc \<leftarrow> ResolveRegionalClient api colony clusterName;
       (case rc of (regionalClient, isRegional, err) \<Rightarrow>
          if err \<noteq> None then State_Monad.return (Ok ())
          else do {
            let discoveryClient = (case (isRegional, regionalClient) of (True, Some kc) \<Rightarrow> Remote kc | _ \<Rightarrow> Management);
            sr \<leftarrow> DiscoverControlPlaneService api discoveryClient (col_Namespace colony) (col_Name colony) clusterName;
            (case sr of
               Inl e \<Rightarrow> State_Monad.return (Ok ())
             | Inr service \<Rightarrow> do {
                 cr \<leftarrow> (if ksv_Type service = ServiceTypeNodePort
                        then GetCAPICluster api discoveryClient (col_Namespace colony) (or_Name clusterRef)
                        else State_Monad.return (Inr None));
                 (case cr of
                    Inl e \<Rightarrow> State_Monad.return (Ok ())
                  | Inr capiCluster \<Rightarrow>
                      (case DetermineAPIEndpoint service capiCluster of
                         Inl e \<Rightarrow> State_Monad.return (Ok ())
                       | Inr endpoint \<Rightarrow> do {
                           er \<leftarrow> EnsureAPIEndpointConfigMap api colony clusterName endpoint regionalClient;
                           State_Monad.return (case er of Panic m \<Rightarrow> Panic m | _ \<Rightarrow> Ok ())
                         }))
               })
          })
     }
   }"

fun ensure_endpoint_configmaps ::
  "('w, 'x, 'q) infra_api \<Rightarrow> Colony \<Rightarrow> ObjectReference list \<Rightarrow> ('w, 'x, 'q, unit outcome) inm" where
  "ensure_endpoint_configmaps api colony [] = State_Monad.return (Ok ())"
| "ensure_endpoint_configmaps api colony (ref # refs) = do {
     er \<leftarrow> ensure_endpoint_configmap api colony ref;
     (case er of Panic m \<Rightarrow> State_Monad.return (Panic m) | _ \<Rightarrow> ensure_endpoint_configmaps api colony refs)
   }"

definition ensureAPIEndpointConfigMapForAllClusters ::
  "('w, 'x, 'q) infra_api \<Rightarrow> Colony \<Rightarrow> ('w, 'x, 'q, unit outcome) inm" where
  "ensureAPIEndpointConfigMapForAllClusters api colony =
     ensure_endpoint_configmaps api colony (cst_ClusterDeploymentRefs (col_Status colony))"

section \<open>Reconcile\<close>

text \<open>The loop that ensures every specified cluster: the errors so far and the Colony.\<close>

fun ensure_clusters ::
  "('w, 'x, 'q) infra_api \<Rightarrow> ColonyCluster list \<Rightarrow> Colony \<Rightarrow> goerr list \<Rightarrow> ('w, 'x, 'q, goerr list \<times> Colony) inm" where
  "ensure_clusters api [] colony errs = State_Monad.return (errs, colony)"
| "ensure_clusters api (cc # ccs) colony errs =
     (if cc_ClusterDeploymentSpec cc = None then ensure_clusters api ccs colony errs
      else do {
        er \<leftarrow> EnsureClusterDeployment api colony cc;
        (case er of
           (Some e, colony) \<Rightarrow> ensure_clusters api ccs colony (errs @ [wrapf (''cluster '' @ fmt_q (cc_ClusterName cc)) e])
         | (None, colony) \<Rightarrow> ensure_clusters api ccs colony errs)
      })"

text \<open>After the status is persisted: endpoints, then errors, readiness and the kubeconfigs.\<close>

definition finish_reconcile ::
  "('w, 'x, 'q) infra_api \<Rightarrow> Colony \<Rightarrow> goerr list \<Rightarrow> ('w, 'x, 'q, reconcile_result) inm" where
  "finish_reconcile api colony clusterErrs = do {
     er \<leftarrow> ensureAPIEndpointConfigMapForAllClusters api colony;
     (case er of
        Panic m \<Rightarrow> State_Monad.return (Panicked m)
      | _ \<Rightarrow>
          if clusterErrs \<noteq> [] then State_Monad.return (Return no_requeue (Some (join_errors clusterErrs)))
          else if cst_ReadyClusters (col_Status colony) \<noteq> cst_TotalClusters (col_Status colony)
          then State_Monad.return (Return (after_seconds 30) None)
          else do {
            kr \<leftarrow> ensureAggregatedKubeconfigSecretExists api colony;
            (case kr of (result, err) \<Rightarrow>
               if err \<noteq> None then State_Monad.return (Return result err)
               else if RequeueAfter result > 0 then State_Monad.return (Return result None)
               else State_Monad.return (Return (after_seconds 300) None))
          })
   }"

text \<open>Ensure all clusters, judge them, scan their GPUs and persist the status.\<close>

definition reconcile_clusters :: "('w, 'x, 'q) colony_reconciler \<Rightarrow> Colony \<Rightarrow> ('w, 'x, 'q, reconcile_result) inm" where
  "reconcile_clusters r origForStatusPatch = do {
     let api = cr_api r;
     er \<leftarrow> ensure_clusters api (col_ColonyClusters origForStatusPatch) origForStatusPatch [];
     (case er of (clusterErrs, colony) \<Rightarrow> do {
        ur \<leftarrow> updateColonyStatusFromClusters api colony clusterErrs;
        (case ur of
           (Some e, _) \<Rightarrow> State_Monad.return (Return (after_seconds 10) (Some e))
         | (None, colony) \<Rightarrow> do {
             colony \<leftarrow> refreshGPUInventory r colony;
             pr \<leftarrow> call (IPatchStatus origForStatusPatch colony) (ia_patch_colony_status api origForStatusPatch colony);
             (case pr of
                Inl e \<Rightarrow> State_Monad.return (Return (after_seconds 10) (Some e))
              | Inr colony \<Rightarrow> finish_reconcile api colony clusterErrs)
           })
      })
   }"

definition reconcileColony :: "('w, 'x, 'q) colony_reconciler \<Rightarrow> Colony \<Rightarrow> ('w, 'x, 'q, reconcile_result) inm" where
  "reconcileColony r colony = do {
     lr \<leftarrow> CleanupOrphanedClusterDeployments (cr_api r) colony;
     (case lr of
        (Inl e, _) \<Rightarrow> State_Monad.return (Return no_requeue (Some e))
      | (Inr hasPendingDeletions, colony) \<Rightarrow>
          if hasPendingDeletions then State_Monad.return (Return (after_seconds 10) None)
          else reconcile_clusters r colony)
   }"

section \<open>Deletion\<close>

definition cleanupAssociatedResources ::
  "('w, 'x, 'q) infra_api \<Rightarrow> Colony \<Rightarrow> ColonyCluster \<Rightarrow> ('w, 'x, 'q, goerr + bool) inm" where
  "cleanupAssociatedResources api colony colonyCluster = do {
     let name = cd_name colony colonyCluster;
     gr \<leftarrow> get_kcd api (col_Namespace colony) name;
     (case gr of
        Inl e \<Rightarrow>
          if IsNotFound e then do {
            _ \<leftarrow> DeletePVCForClusterDeployment api (col_Namespace colony) name;
            State_Monad.return (Inr False)
          }
          else State_Monad.return (Inl e)
      | Inr cd \<Rightarrow>
          if kcd_DeletionTimestamp cd = 0 then do {
            dr \<leftarrow> call (IDeleteCD cd) (ia_delete_cd api cd);
            (case dr of
               Some e \<Rightarrow> if IsNotFound e then State_Monad.return (Inr True) else State_Monad.return (Inl e)
             | None \<Rightarrow> State_Monad.return (Inr True))
          }
          else State_Monad.return (Inr True))
   }"

fun cleanup_clusters ::
  "('w, 'x, 'q) infra_api \<Rightarrow> Colony \<Rightarrow> ColonyCluster list \<Rightarrow> bool \<Rightarrow> ('w, 'x, 'q, goerr + bool) inm" where
  "cleanup_clusters api colony [] anyStillDeleting = State_Monad.return (Inr anyStillDeleting)"
| "cleanup_clusters api colony (cc # ccs) anyStillDeleting = do {
     cr \<leftarrow> cleanupAssociatedResources api colony cc;
     (case cr of
        Inl e \<Rightarrow> State_Monad.return (Inl e)
      | Inr stillExists \<Rightarrow> cleanup_clusters api colony ccs (anyStillDeleting \<or> stillExists))
   }"

definition handleColonyDeletion ::
  "('w, 'x, 'q) infra_api \<Rightarrow> string \<Rightarrow> string \<Rightarrow> Colony \<Rightarrow> ('w, 'x, 'q, reconcile_result) inm" where
  "handleColonyDeletion api ns name colony = do {
     sr \<leftarrow> updateColonyStatusWithRetry api colony ''Deleting'';
     (case sr of
        (Some e, _) \<Rightarrow> State_Monad.return (Return no_requeue (Some e))
      | (None, colony) \<Rightarrow> do {
          cr \<leftarrow> cleanup_clusters api colony (col_ColonyClusters colony) False;
          (case cr of
             Inl e \<Rightarrow> State_Monad.return (Return no_requeue (Some e))
           | Inr anyStillDeleting \<Rightarrow>
               if anyStillDeleting then State_Monad.return (Return (after_seconds 10) None)
               else do {
                 gr \<leftarrow> call (IGetColony ns name) (ia_get_colony api ns name);
                 (case gr of
                    Inl e \<Rightarrow> if IsNotFound e then State_Monad.return (Return no_requeue None)
                             else State_Monad.return (Return no_requeue (Some e))
                  | Inr colony \<Rightarrow> do {
                      let colony = ia_remove_finalizer api colony colonyFinalizer;
                      ur \<leftarrow> call (IUpdateColony colony) (ia_update_colony api colony);
                      State_Monad.return (Return no_requeue ur)
                    })
               })
        })
   }"

definition addFinalizer :: "('w, 'x, 'q) infra_api \<Rightarrow> Colony \<Rightarrow> ('w, 'x, 'q, reconcile_result) inm" where
  "addFinalizer api colony = do {
     let colony = ia_add_finalizer api colony colonyFinalizer;
     ur \<leftarrow> call (IUpdateColony colony) (ia_update_colony api colony);
     State_Monad.return (Return no_requeue ur)
   }"

definition ColonyReconcile :: "('w, 'x, 'q) colony_reconciler \<Rightarrow> string \<Rightarrow> string \<Rightarrow> ('w, 'x, 'q, reconcile_result) inm" where
  "ColonyReconcile r ns name = do {
     let api = cr_api r;
     gr \<leftarrow> call (IGetColony ns name) (ia_get_colony api ns name);
     (case gr of
        Inl e \<Rightarrow> if IsNotFound e then State_Monad.return (Return no_requeue None)
                 else State_Monad.return (Return no_requeue (Some e))
      | Inr colony \<Rightarrow>
          if col_DeletionTimestamp colony \<noteq> None then handleColonyDeletion api ns name colony
          else if \<not> ia_contains_finalizer api colony colonyFinalizer then addFinalizer api colony
          else reconcileColony r colony)
   }"

end
