(* ===== verification/Retry_Loops.thy ===== *)
theory Retry_Loops
  imports Call_Trace
begin

text \<open>
  Retry loops with backoff.  A loop that submits at most once per attempt and that sleeps for the
  backoff, at most once per attempt, before it tries again with one attempt less and the next backoff, ends
  after a bounded number of submissions and a bounded time.  \<open>budget\<close> is that time.
\<close>

definition within :: "('e \<Rightarrow> bool) \<Rightarrow> ('e \<Rightarrow> int) \<Rightarrow> nat \<Rightarrow> int \<Rightarrow> 'e list \<Rightarrow> bool" where
  "within submits sleeps n t es \<longleftrightarrow>
     length (filter submits es) \<le> n \<and> 0 \<le> sum_list (map sleeps es) \<and> sum_list (map sleeps es) \<le> t"

primrec budget :: "(int \<Rightarrow> int) \<Rightarrow> nat \<Rightarrow> int \<Rightarrow> int" where
  "budget grow 0 b = 0"
| "budget grow (Suc n) b = b + budget grow n (grow b)"

lemma budget_double: "budget (\<lambda>b. b * 2) n b = b * (2 ^ n - 1)"
  by (induction n arbitrary: b) (simp_all add: algebra_simps)

lemma within_append:
  assumes "within submits sleeps m t es" and "within submits sleeps n u es'"
  shows "within submits sleeps (m + n) (t + u) (es @ es')"
  using assms by (auto simp: within_def)

lemma within_mono: "within submits sleeps m t es \<Longrightarrow> m \<le> n \<Longrightarrow> t \<le> u \<Longrightarrow> within submits sleeps n u es"
  by (auto simp: within_def)

text \<open>\<open>admissible\<close> are the backoffs that the loop can reach; \<open>'st\<close> is what else it carries along.\<close>

locale bounded_retry =
  fixes attempts :: "'st \<Rightarrow> nat \<Rightarrow> int \<Rightarrow> ('w, 'e, 'a) calls"
    and submits :: "'e \<Rightarrow> bool" and sleeps :: "'e \<Rightarrow> int" and grow :: "int \<Rightarrow> int" and admissible :: "int \<Rightarrow> bool"
  assumes admissible_nonneg: "admissible b \<Longrightarrow> 0 \<le> b" and admissible_grow: "admissible b \<Longrightarrow> admissible (grow b)"
    and exhausted: "wp (attempts st 0 b) (\<lambda>_ s'. cs_trace s' = cs_trace s) s"
    and attempt:
      "(\<And>a s' es. cs_trace s' = cs_trace s @ es \<Longrightarrow> length (filter submits es) \<le> 1 \<Longrightarrow>
          sum_list (map sleeps es) = 0 \<or> sum_list (map sleeps es) = b \<Longrightarrow> Q a s') \<Longrightarrow>
       (\<And>st' s' es. cs_trace s' = cs_trace s @ es \<Longrightarrow> length (filter submits es) \<le> 1 \<Longrightarrow>
          sum_list (map sleeps es) = b \<Longrightarrow> wp (attempts st' n (grow b)) Q s') \<Longrightarrow>
       wp (attempts st (Suc n) b) Q s"
begin

lemma budget_nonneg: "admissible b \<Longrightarrow> 0 \<le> budget grow n b"
  by (induction n arbitrary: b) (auto intro: add_nonneg_nonneg admissible_nonneg admissible_grow)

lemma bounded:
  assumes "admissible b"
  shows "wp (attempts st n b) (\<lambda>_ s'. \<exists>es. cs_trace s' = cs_trace s @ es \<and> within submits sleeps n (budget grow n b) es) s"
  using assms
proof (induction n arbitrary: st b s)
  case 0
  show ?case by (rule wp_mono [OF exhausted]) (simp add: within_def)
next
  case (Suc n)
  have rest: "0 \<le> b" "0 \<le> budget grow n (grow b)"
    using Suc.prems by (auto intro: admissible_nonneg admissible_grow budget_nonneg)
  show ?case
  proof (rule attempt)
    fix s' :: "('w, 'e) cstate" and es
    assume es: "cs_trace s' = cs_trace s @ es" "length (filter submits es) \<le> 1"
      "sum_list (map sleeps es) = 0 \<or> sum_list (map sleeps es) = b"
    then show "\<exists>es. cs_trace s' = cs_trace s @ es \<and> within submits sleeps (Suc n) (budget grow (Suc n) b) es"
      using rest by (auto simp: within_def)
  next
    fix st' and s' :: "('w, 'e) cstate" and es
    assume es: "cs_trace s' = cs_trace s @ es" "length (filter submits es) \<le> 1" "sum_list (map sleeps es) = b"
    then have "within submits sleeps 1 b es" using rest(1) by (simp add: within_def)
    note more = within_append [OF this, of n "budget grow n (grow b)"]
    show "wp (attempts st' n (grow b)) (\<lambda>_ s''. \<exists>es. cs_trace s'' = cs_trace s @ es \<and> within submits sleeps (Suc n) (budget grow (Suc n) b) es) s'"
      by (rule wp_mono [OF Suc.IH [OF admissible_grow [OF Suc.prems]]]) (use es more in auto)
  qed
qed

end

end
