(* ===== verification/Cluster_Deployment_Properties.thy ===== *)
theory Cluster_Deployment_Properties
  imports Cluster_Deployments Retry_Loops "HOL-Library.Sublist"
begin

text \<open>
  What the operations of \<open>Cluster_Deployments\<close> do: the retry loop ends, the managed fields converge,
  every create and update carries the specification of a cluster of the Colony, and the cleanup only
  deletes what the Colony no longer lists.
\<close>

section \<open>The retry loop\<close>

fun slept :: "('x, 'q) iev \<Rightarrow> int" where
  "slept (ISleep d) = d"
| "slept _ = 0"

fun is_cd_update :: "('x, 'q) iev \<Rightarrow> bool" where
  "is_cd_update (IUpdateCD _ _) = True"
| "is_cd_update _ = False"

lemma update_attempt_once:
  assumes "\<And>a s' es. cs_trace s' = cs_trace s @ es \<Longrightarrow> length (filter is_cd_update es) \<le> 1 \<Longrightarrow>
      sum_list (map slept es) = 0 \<or> sum_list (map slept es) = b \<Longrightarrow> Q a s'"
    and "\<And>s' es. cs_trace s' = cs_trace s @ es \<Longrightarrow> length (filter is_cd_update es) \<le> 1 \<Longrightarrow>
      sum_list (map slept es) = b \<Longrightarrow> wp (update_attempts api change existing n (b * 2)) Q s'"
  shows "wp (update_attempts api change existing (Suc n) b) Q s"
  unfolding update_attempts.simps get_kcd_def sleep_def
  by (intro wp_intros) ((rule assms, simp, simp, simp)+)

interpretation cd_retry: bounded_retry "\<lambda>_ :: unit. update_attempts api change existing" is_cd_update slept "\<lambda>b. b * 2" "\<lambda>b. 0 \<le> b"
  by unfold_locales (simp, simp, simp, rule update_attempt_once)

section \<open>Equality of configurations\<close>

text \<open>Values as a decoder yields them: the keys of every object are distinct.\<close>

function json_ok :: "hval \<Rightarrow> bool" where
  "json_ok (HMap xs) = (map_ok xs \<and> (\<forall>kv \<in> set xs. json_ok (snd kv)))"
| "json_ok (HArr xs) = (\<forall>x \<in> set xs. json_ok x)"
| "json_ok HNull = True"
| "json_ok (HBool b) = True"
| "json_ok (HNum n) = True"
| "json_ok (HInt i) = True"
| "json_ok (HStr s) = True"
  by pat_completeness auto

termination
  by (relation "measure size") (auto dest: size_in_map intro: less_SucI le_imp_less_Suc size_list_estimation')

lemma json_equal_refl: "json_ok v \<Longrightarrow> json_equal v v"
proof (induction v rule: json_ok.induct)
  case (1 xs)
  then show ?case by (auto simp: map_ok_def)
next
  case (2 xs)
  then show ?case by (auto simp: zip_same_conv_map)
qed simp_all

definition config_ok :: "(rawjson \<Rightarrow> goerr + hval) \<Rightarrow> rawjson option \<Rightarrow> bool" where
  "config_ok decode config \<longleftrightarrow> (\<forall>raw. config = Some raw \<longrightarrow> (\<exists>v. decode raw = Inr v \<and> json_ok v))"

lemma jsonConfigsEqual_refl: "config_ok decode c \<Longrightarrow> jsonConfigsEqual decode c c"
  by (auto simp: jsonConfigsEqual_def config_ok_def json_equal_refl split: option.splits)

section \<open>The managed fields\<close>

definition managed_as :: "(rawjson \<Rightarrow> goerr + hval) \<Rightarrow> 'x ClusterDeploymentSpec \<Rightarrow> 'x ClusterDeploymentSpec \<Rightarrow> bool" where
  "managed_as decode spec sp \<longleftrightarrow>
     jsonConfigsEqual decode (cds_Config sp) (cds_Config spec) \<and> cds_Credential sp = cds_Credential spec \<and>
     cds_Template sp = cds_Template spec \<and> cds_ServiceSpec sp = cds_ServiceSpec spec \<and>
     cds_PropagateCredentials sp = cds_PropagateCredentials spec"

lemma map_val_merge:
  "map_val (mergeLabels old new) = mput_all (map_val new) (mput_all (map_val old) [])"
  "mergeAnnotations old new = mergeLabels old new"
  by (simp_all add: mergeLabels_def mergeAnnotations_def map_val_def)

lemma map_of_merge:
  assumes "map_ok (map_val old)" and "map_ok (map_val new)"
  shows "map_of (map_val (mergeLabels old new)) = map_of (map_val old) ++ map_of (map_val new)"
    and "map_ok (map_val (mergeLabels old new))"
  using assms by (simp_all add: map_val_merge gomap)

lemma deep_equal_map_of:
  assumes "deep_equal a b" and "map_ok (map_val a)" and "map_ok (map_val b)"
  shows "map_of (map_val a) = map_of (map_val b)"
  using assms by (auto simp: deep_equal_def map_val_def map_ok_def map_of_inject_set split: option.splits)

lemma deep_equal_merged:
  assumes "map_ok (map_val old)" and "map_ok (map_val new)"
  shows "deep_equal (mergeLabels old new) (mergeLabels (mergeLabels old new) new)"
proof -
  let ?m = "mput_all (map_val new) (mput_all (map_val old) [])"
  have ok: "map_ok ?m" by (simp add: gomap)
  have "map_of (mput_all (map_val new) (mput_all ?m [])) = map_of ?m"
    using assms ok by (auto simp: map_of_mput_all fun_eq_iff map_add_def split: option.splits)
  then have "set (mput_all (map_val new) (mput_all ?m [])) = set ?m"
    using ok map_of_inject_set [of "mput_all (map_val new) (mput_all ?m [])" ?m] map_ok_mput_all map_ok_Nil
    unfolding map_ok_def by blast
  then show ?thesis by (simp add: deep_equal_def mergeLabels_def map_val_def)
qed

text \<open>Labels that were merged in once are not merged in again.\<close>

lemma label_step:
  assumes "map_ok (map_val old)" and "map_ok (map_val new)"
    and "l = (if \<not> deep_equal old (mergeLabels old new) then mergeLabels old new else old)"
  shows "map_of (map_val l) = map_of (map_val old) ++ map_of (map_val new)" and "deep_equal l (mergeLabels l new)"
    and "map_ok (map_val l)"
  using assms map_of_merge [OF assms(1,2)] deep_equal_map_of [of old "mergeLabels old new"] deep_equal_merged [OF assms(1,2)]
  by (auto split: if_splits)

text \<open>The seven conditional assignments, as one record update.\<close>

lemma assign_if_different:
  "(if c then sp\<lparr>cds_Config := g\<rparr> else sp) = sp\<lparr>cds_Config := if c then g else cds_Config sp\<rparr>"
  "(if cds_Credential sp \<noteq> x then sp\<lparr>cds_Credential := x\<rparr> else sp) = sp\<lparr>cds_Credential := x\<rparr>"
  "(if cds_Template sp \<noteq> x then sp\<lparr>cds_Template := x\<rparr> else sp) = sp\<lparr>cds_Template := x\<rparr>"
  "(if cds_ServiceSpec sp \<noteq> y then sp\<lparr>cds_ServiceSpec := y\<rparr> else sp) = sp\<lparr>cds_ServiceSpec := y\<rparr>"
  "(if cds_PropagateCredentials sp \<noteq> b then sp\<lparr>cds_PropagateCredentials := b\<rparr> else sp) = sp\<lparr>cds_PropagateCredentials := b\<rparr>"
  "(if c then cd\<lparr>kcd_Labels := l\<rparr> else cd) = cd\<lparr>kcd_Labels := if c then l else kcd_Labels cd\<rparr>"
  "(if c then cd\<lparr>kcd_Annotations := l\<rparr> else cd) = cd\<lparr>kcd_Annotations := if c then l else kcd_Annotations cd\<rparr>"
  by (cases sp; simp)+

definition healed :: "labels option \<Rightarrow> labels option \<Rightarrow> labels option" where
  "healed old new = (if \<not> deep_equal old (mergeLabels old new) then mergeLabels old new else old)"

lemma managed_update_alt:
  "managed_update decode spec ls as cd =
     (cd\<lparr>kcd_Labels := healed (kcd_Labels cd) ls, kcd_Annotations := healed (kcd_Annotations cd) as,
        kcd_Spec := (kcd_Spec cd)\<lparr>
          cds_Config := if \<not> jsonConfigsEqual decode (cds_Config (kcd_Spec cd)) (cds_Config spec) then cds_Config spec
                        else cds_Config (kcd_Spec cd),
          cds_Credential := cds_Credential spec, cds_Template := cds_Template spec,
          cds_ServiceSpec := cds_ServiceSpec spec, cds_PropagateCredentials := cds_PropagateCredentials spec\<rparr>\<rparr>,
      \<not> (managed_as decode spec (kcd_Spec cd) \<and> deep_equal (kcd_Labels cd) (mergeLabels (kcd_Labels cd) ls) \<and>
         deep_equal (kcd_Annotations cd) (mergeLabels (kcd_Annotations cd) as)))"
  unfolding managed_update_def Let_def assign_if_different map_val_merge(2) healed_def managed_as_def by simp


lemma healed_step:
  assumes "map_ok (map_val old)" and "map_ok (map_val new)"
  shows "map_of (map_val (healed old new)) = map_of (map_val old) ++ map_of (map_val new)"
    and "deep_equal (healed old new) (mergeLabels (healed old new) new)" and "map_ok (map_val (healed old new))"
  using label_step [OF assms refl] by (simp_all add: healed_def)

lemma managed_update_settled:
  assumes "managed_update decode spec ls as cd = (cd', changed)" and "config_ok decode (cds_Config spec)"
    and "map_ok (map_val (kcd_Labels cd))" and "map_ok (map_val ls)"
    and "map_ok (map_val (kcd_Annotations cd))" and "map_ok (map_val as)"
  shows "managed_as decode spec (kcd_Spec cd')" and "\<not> snd (managed_update decode spec ls as cd')"
proof -
  have "jsonConfigsEqual decode (cds_Config (kcd_Spec cd')) (cds_Config spec)"
    using assms(1) jsonConfigsEqual_refl [OF assms(2)] by (auto simp: managed_update_alt split: if_splits)
  then show managed: "managed_as decode spec (kcd_Spec cd')"
    using assms(1) by (auto simp: managed_update_alt managed_as_def)
  show "\<not> snd (managed_update decode spec ls as cd')"
    using assms(1) managed healed_step(2) [OF assms(3,4)] healed_step(2) [OF assms(5,6)]
    by (auto simp: managed_update_alt)
qed

text \<open>A ClusterDeployment without labels is updated whatever the Colony asks for.\<close>

lemma nil_labels_updated: "kcd_Labels cd = None \<Longrightarrow> snd (managed_update decode spec ls as cd)"
  by (simp add: managed_update_alt deep_equal_def mergeLabels_def)


section \<open>What the operations write\<close>

text \<open>
  What an API server documents of \<open>Get\<close>, \<open>Create\<close> and \<open>Update\<close>: the object it answers with is the one
  asked for.
\<close>

definition keyed_cds :: "('w, 'x, 'q) infra_api \<Rightarrow> bool" where
  "keyed_cds api \<longleftrightarrow>
     (\<forall>ns name w cd. fst (ia_get_cd api ns name w) = Inr cd \<longrightarrow> kcd_Namespace cd = ns \<and> kcd_Name cd = name) \<and>
     (\<forall>cd w cd'. fst (ia_create_cd api cd w) = Inr cd' \<longrightarrow> kcd_Namespace cd' = kcd_Namespace cd \<and> kcd_Name cd' = kcd_Name cd) \<and>
     (\<forall>cd w cd'. fst (ia_update_cd api cd w) = Inr cd' \<longrightarrow> kcd_Namespace cd' = kcd_Namespace cd \<and> kcd_Name cd' = kcd_Name cd)"

lemma keyed_cdsD:
  assumes "keyed_cds api"
  shows "ia_get_cd api ns name w = (Inr cd, w') \<Longrightarrow> kcd_Namespace cd = ns \<and> kcd_Name cd = name"
    and "ia_create_cd api cd w = (Inr cd', w') \<Longrightarrow> kcd_Namespace cd' = kcd_Namespace cd \<and> kcd_Name cd' = kcd_Name cd"
    and "ia_update_cd api cd w = (Inr cd', w') \<Longrightarrow> kcd_Namespace cd' = kcd_Namespace cd \<and> kcd_Name cd' = kcd_Name cd"
  using assms unfolding keyed_cds_def by (metis fst_conv)+

definition has_ref :: "Colony \<Rightarrow> string \<Rightarrow> string \<Rightarrow> bool" where
  "has_ref colony ns name \<longleftrightarrow>
     (\<exists>ref \<in> set (cst_ClusterDeploymentRefs (col_Status colony)). or_Namespace ref = ns \<and> or_Name ref = name)"

abbreviation col_refs :: "Colony \<Rightarrow> ObjectReference list" where
  "col_refs colony \<equiv> cst_ClusterDeploymentRefs (col_Status colony)"

definition refs_distinct :: "Colony \<Rightarrow> bool" where
  "refs_distinct colony \<longleftrightarrow> distinct (map (\<lambda>ref. (or_Namespace ref, or_Name ref)) (col_refs colony))"

lemma refs_distinct_subseq: "subseq rs (col_refs colony) \<Longrightarrow> refs_distinct colony \<Longrightarrow> refs_distinct (set_refs rs colony)"
  using subseq_map [of rs "col_refs colony" "\<lambda>ref. (or_Namespace ref, or_Name ref)"]
    subseqs_distinctD [of "map (\<lambda>ref. (or_Namespace ref, or_Name ref)) rs"]
  by (auto simp: refs_distinct_def set_refs_def)

text \<open>The Colony with references appended, none of them twice.\<close>

definition extends :: "Colony \<Rightarrow> Colony \<Rightarrow> bool" where
  "extends colony colony' \<longleftrightarrow>
     (\<exists>rs. colony' = set_refs (col_refs colony @ rs) colony) \<and> (refs_distinct colony \<longrightarrow> refs_distinct colony')"

lemma set_refs_simps [simp]:
  "col_refs (set_refs rs colony) = rs" "set_refs rs (set_refs rs' colony) = set_refs rs colony"
  "set_refs (col_refs colony) colony = colony" "col_Name (set_refs rs colony) = col_Name colony"
  "col_Namespace (set_refs rs colony) = col_Namespace colony"
  "col_ColonyClusters (set_refs rs colony) = col_ColonyClusters colony"
  by (simp_all add: set_refs_def)

lemma extends_refl [simp]: "extends colony colony"
  by (auto simp: extends_def intro: exI [of _ "[]"])

lemma extends_trans: "extends a b \<Longrightarrow> extends b c \<Longrightarrow> extends a c"
  unfolding extends_def by (auto simp: append_assoc)

lemma extendsD:
  assumes "extends colony colony'"
  shows "col_Name colony' = col_Name colony" and "col_Namespace colony' = col_Namespace colony"
    and "col_ColonyClusters colony' = col_ColonyClusters colony"
    and "has_ref colony ns name \<Longrightarrow> has_ref colony' ns name"
  using assms by (auto simp: extends_def has_ref_def)

lemma add_ref_extends: "extends colony (add_ref colony cd)"
  by (auto simp: extends_def add_ref_def Let_def set_refs_def refs_distinct_def same_ref_def list_ex_iff
      intro: exI [of _ "[]"])

lemma add_ref_has: "has_ref (add_ref colony cd) (kcd_Namespace cd) (kcd_Name cd)"
  by (auto simp: has_ref_def add_ref_def Let_def same_ref_def list_ex_iff)

fun update_write :: "('x KClusterDeployment \<Rightarrow> 'x KClusterDeployment \<times> bool) \<Rightarrow> string \<Rightarrow> string \<Rightarrow> ('x, 'q) iev list \<Rightarrow> ('x, 'q) iev \<Rightarrow> bool" where
  "update_write change ns name h (IUpdateCD cd _) = (\<exists>latest. IGetCD ns name (Inr latest) \<in> set h \<and> change latest = (cd, True))"
| "update_write change ns name h e = iev_read e"

lemma tsafe_update_attempts:
  assumes "keyed_cds api" and "\<And>cd. kcd_Namespace (fst (change cd)) = kcd_Namespace cd \<and> kcd_Name (fst (change cd)) = kcd_Name cd"
  shows "tsafe (update_write change (kcd_Namespace existing) (kcd_Name existing)) (update_attempts api change existing n b) s
    (\<lambda>res _. \<forall>cd. res = Inr (Some cd) \<longrightarrow> kcd_Namespace cd = kcd_Namespace existing \<and> kcd_Name cd = kcd_Name existing)"
proof (induction n arbitrary: b s)
  case (Suc n)
  have *: "kcd_Namespace cd' = kcd_Namespace existing \<and> kcd_Name cd' = kcd_Name existing"
    if "ia_get_cd api (kcd_Namespace existing) (kcd_Name existing) w = (Inr latest, w')" "change latest = (cd, c)"
       "ia_update_cd api cd v = (Inr cd', v')" for w latest w' cd c v cd' v'
    using keyed_cdsD(1,3) [OF assms(1)] that assms(2) [of latest] by (metis fst_conv)
  show ?case
    unfolding update_attempts.simps get_kcd_def sleep_def
    by (intro traced_rules conjI Suc.IH) (auto dest: *)
qed (simp add: traced_def)

fun cd_write :: "('w, 'x, 'q) infra_api \<Rightarrow> Colony \<Rightarrow> ('x, 'q) iev list \<Rightarrow> ('x, 'q) iev \<Rightarrow> bool" where
  "cd_write api colony h (ICreateCD cd _) =
     (\<exists>cc \<in> set (col_ColonyClusters colony). \<exists>spec owners colony' e.
        GetClusterDeploymentSpec api cc = Inr (Some spec) \<and> extends colony colony' \<and>
        ia_set_controller api colony' [] = Inr owners \<and> cd = (new_cd colony cc spec)\<lparr>kcd_Owners := owners\<rparr> \<and>
        IsNotFound e \<and> IGetCD (col_Namespace colony) (cd_name colony cc) (Inl e) \<in> set h)"
| "cd_write api colony h (IUpdateCD cd _) =
     (\<exists>cc \<in> set (col_ColonyClusters colony). \<exists>spec latest.
        GetClusterDeploymentSpec api cc = Inr (Some spec) \<and>
        IGetCD (col_Namespace colony) (cd_name colony cc) (Inr latest) \<in> set h \<and>
        managed_update (ia_decode api) spec (cc_ClusterLabels cc) (cc_ClusterAnnotations cc) latest = (cd, True))"
| "cd_write api colony h e = iev_read e"

lemma managed_update_key:
  "kcd_Namespace (fst (managed_update decode spec ls as cd)) = kcd_Namespace cd \<and>
   kcd_Name (fst (managed_update decode spec ls as cd)) = kcd_Name cd"
  by (simp add: managed_update_alt)

lemma update_write_cd_write:
  assumes "update_write (managed_update (ia_decode api) spec (cc_ClusterLabels cc) (cc_ClusterAnnotations cc))
      (col_Namespace colony) (cd_name colony cc) h e"
    and "cc \<in> set (col_ColonyClusters colony)" and "GetClusterDeploymentSpec api cc = Inr (Some spec)"
  shows "cd_write api colony h e"
  using assms by (cases e) auto

lemma cd_write_extends: "cd_write api colony' h e \<Longrightarrow> extends colony colony' \<Longrightarrow> cd_write api colony h e"
  by (cases e) (auto simp: extendsD cd_name_def new_cd_def, blast intro: extends_trans)

lemma cd_write_read: "iev_read e \<Longrightarrow> cd_write api colony h e"
  by (cases e) auto

lemma add_ref_has': "kcd_Namespace cd = ns \<Longrightarrow> kcd_Name cd = name \<Longrightarrow> has_ref (add_ref colony cd) ns name"
  using add_ref_has [of colony cd] by simp

lemma tsafe_EnsureClusterDeployment:
  assumes "keyed_cds api" and cc: "cc \<in> set (col_ColonyClusters colony)"
  shows "tsafe (cd_write api colony) (EnsureClusterDeployment api colony cc) s
    (\<lambda>(e, colony') _. extends colony colony' \<and>
       (e = None \<and> cc_ClusterDeploymentSpec cc \<noteq> None \<longrightarrow> has_ref colony' (col_Namespace colony) (cd_name colony cc)))"
proof -
  have upd: "tsafe (cd_write api colony)
      (updateManagedFields api existing spec (cc_ClusterLabels cc) (cc_ClusterAnnotations cc)) s Q"
    if "GetClusterDeploymentSpec api cc = Inr (Some spec)" "kcd_Namespace existing = col_Namespace colony"
      "kcd_Name existing = cd_name colony cc"
      "\<And>res s'. \<forall>cd. res = Inr (Some cd) \<longrightarrow> kcd_Namespace cd = col_Namespace colony \<and> kcd_Name cd = cd_name colony cc \<Longrightarrow> Q res s'"
    for spec existing s Q
    unfolding updateManagedFields_def
    using that cc by (intro traced_weaken [OF tsafe_update_attempts [OF assms(1), of "managed_update _ _ _ _", OF managed_update_key]])
      (auto intro: update_write_cd_write)
  have nospec: "cc_ClusterDeploymentSpec cc = None" if "GetClusterDeploymentSpec api cc = Inr None"
    using that by (auto simp: GetClusterDeploymentSpec_def split: option.splits sum.splits)
  have key: "kcd_Namespace (new_cd colony cc sp) = col_Namespace colony" "kcd_Name (new_cd colony cc sp) = cd_name colony cc"
    "kcd_Owners (new_cd colony cc sp) = []" for sp :: "'b ClusterDeploymentSpec"
    by (simp_all add: new_cd_def)
  have made: "cd_write api colony h (ICreateCD ((new_cd colony cc spec)\<lparr>kcd_Owners := owners\<rparr>) r)"
    if "GetClusterDeploymentSpec api cc = Inr (Some spec)" "ia_set_controller api colony [] = Inr owners"
      "IsNotFound e" "IGetCD (col_Namespace colony) (cd_name colony cc) (Inl e) \<in> set h" for spec owners e h r
    using that cc extends_refl unfolding cd_write.simps by blast
  show ?thesis
    unfolding EnsureClusterDeployment_def get_kcd_def
    by (intro traced_rules conjI upd)
      (auto simp: nospec key add_ref_extends add_ref_has' cd_write_read dest: keyed_cdsD [OF assms(1)] intro: made simp del: cd_write.simps)
qed


text \<open>The loop: what has a specification and was ensured without error is referenced.\<close>

abbreviation specified :: "ColonyCluster \<Rightarrow> bool" where
  "specified cc \<equiv> cc_ClusterDeploymentSpec cc \<noteq> None"

section \<open>What the cleanup deletes\<close>

definition seen_absent :: "('x, 'q) iev list \<Rightarrow> string \<Rightarrow> string \<Rightarrow> bool" where
  "seen_absent h ns name \<longleftrightarrow> (\<exists>e. IsNotFound e \<and> IGetCD ns name (Inl e) \<in> set h)"

lemma seen_absent_append [simp]: "seen_absent h ns name \<Longrightarrow> seen_absent (h @ es) ns name"
  by (auto simp: seen_absent_def)

fun pvc_write :: "string \<Rightarrow> string \<Rightarrow> ('x, 'q) iev \<Rightarrow> bool" where
  "pvc_write ns name (IDeletePVC c ns' pvc _) = (ns' = ns \<and> pvc = pvc_name name)"
| "pvc_write ns name e = iev_read e"

lemma tsafe_delete_pvc_regional:
  "tsafe (\<lambda>_. pvc_write ns name) (delete_pvc_regional api ns (pvc_name name) rcds) s (\<lambda>_ _. True)"
proof (induction rcds arbitrary: s)
  case (Cons rcd rcds)
  have "pvc_write ns name e" if "iev_read e" for e :: "('b, 'c) iev"
    using that by (cases e) auto
  then show ?case
    unfolding delete_pvc_regional.simps
    by (intro traced_rules traced_lift [OF in_readsD [OF in_reads_client]] Cons.IH conjI) auto
qed (simp add: traced_def)

lemma tsafe_DeletePVC: "tsafe (\<lambda>_. pvc_write ns name) (DeletePVCForClusterDeployment api ns name) s (\<lambda>_ _. True)"
  unfolding DeletePVCForClusterDeployment_def FindRegionalClusterDeploymentsByRole_def Let_def
  by (intro traced_rules tsafe_delete_pvc_regional conjI) auto

definition orphan_ref :: "Colony \<Rightarrow> ObjectReference \<Rightarrow> bool" where
  "orphan_ref colony ref \<longleftrightarrow>
     ref \<in> set (col_refs colony) \<and> or_Name ref \<notin> cd_name colony ` set (col_ColonyClusters colony)"

fun orphan_write :: "Colony \<Rightarrow> ('x, 'q) iev list \<Rightarrow> ('x, 'q) iev \<Rightarrow> bool" where
  "orphan_write colony h (IDeleteCD cd _) =
     (\<exists>ref. orphan_ref colony ref \<and> IGetCD (or_Namespace ref) (or_Name ref) (Inr cd) \<in> set h \<and> kcd_DeletionTimestamp cd = 0)"
| "orphan_write colony h (IDeletePVC c ns pvc _) =
     (\<exists>ref. orphan_ref colony ref \<and> ns = or_Namespace ref \<and> pvc = pvc_name (or_Name ref) \<and> seen_absent h ns (or_Name ref))"
| "orphan_write colony h (IPatchStatus orig new _) =
     (orig = colony \<and> (\<exists>rs. new = set_refs rs colony \<and> subseq rs (col_refs colony) \<and>
        (\<forall>ref \<in> set (col_refs colony) - set rs. orphan_ref colony ref \<and> seen_absent h (or_Namespace ref) (or_Name ref))))"
| "orphan_write colony h e = iev_read e"

lemma pvc_orphan_write:
  "pvc_write (or_Namespace ref) (or_Name ref) e \<Longrightarrow> orphan_ref colony ref \<Longrightarrow>
   seen_absent h (or_Namespace ref) (or_Name ref) \<Longrightarrow> orphan_write colony h e"
  by (cases e) auto

lemma tsafe_cleanup_refs:
  assumes "expected = map (cd_name colony) (col_ColonyClusters colony)" and "set refs \<subseteq> set (col_refs colony)"
    and "\<And>ref. ref \<in> set deleted \<Longrightarrow> orphan_ref colony ref \<and> seen_absent (cs_trace s) (or_Namespace ref) (or_Name ref)"
  shows "tsafe (orphan_write colony) (cleanup_refs api expected refs deleted pending) s
    (\<lambda>res s'. \<forall>deleted' pending'. res = Inr (deleted', pending') \<longrightarrow>
       (\<forall>ref \<in> set deleted'. orphan_ref colony ref \<and> seen_absent (cs_trace s') (or_Namespace ref) (or_Name ref)))"
  using assms(2,3)
proof (induction refs arbitrary: deleted pending s)
  case (Cons ref refs)
  have orphan: "orphan_ref colony ref" if "or_Name ref \<notin> set expected"
    using that Cons.prems(1) assms(1) by (simp add: orphan_ref_def)
  have pvc: "tsafe (orphan_write colony) (DeletePVCForClusterDeployment api (or_Namespace ref) (or_Name ref)) s' Q"
    if "or_Name ref \<notin> set expected" "seen_absent (cs_trace s') (or_Namespace ref) (or_Name ref)"
      "\<And>a s'' es. cs_trace s'' = cs_trace s' @ es \<Longrightarrow> Q a s''" for s' Q
    using that orphan by (intro traced_lift_ext [OF tsafe_DeletePVC]) (auto intro!: pvc_orphan_write)
  show ?case
    unfolding cleanup_refs.simps get_kcd_def
    by (intro traced_rules pvc conjI Cons.IH) (use Cons.prems orphan in \<open>auto simp: seen_absent_def\<close>)
qed (simp add: traced_def)


lemma tsafe_CleanupOrphaned:
  "tsafe (orphan_write colony) (CleanupOrphanedClusterDeployments api colony) s
     (\<lambda>(res, colony') s'. \<forall>b. res = Inr b \<longrightarrow>
        colony' = colony \<or> (\<exists>orig new. IPatchStatus orig new (Inr colony') \<in> set (cs_trace s')))"
proof -
  have patch: "orphan_write colony h (IPatchStatus colony (set_refs (filter (\<lambda>ref. \<not> list_ex (same_ref ref) deleted) (col_refs colony)) colony) r)"
    if del: "\<forall>ref \<in> set deleted. orphan_ref colony ref \<and> seen_absent h (or_Namespace ref) (or_Name ref)" for h deleted r
  proof -
    let ?rs = "filter (\<lambda>ref. \<not> list_ex (same_ref ref) deleted) (col_refs colony)"
    have "orphan_ref colony ref \<and> seen_absent h (or_Namespace ref) (or_Name ref)"
      if ref: "ref \<in> set (col_refs colony) - set ?rs" for ref
    proof -
      obtain d where "d \<in> set deleted" "or_Name ref = or_Name d" "or_Namespace ref = or_Namespace d"
        using ref by (auto simp: list_ex_iff same_ref_def)
      with ref del show ?thesis by (metis DiffD1 orphan_ref_def)
    qed
    moreover have "subseq ?rs (col_refs colony)" by (rule subseq_filter_left)
    ultimately show ?thesis unfolding orphan_write.simps by (auto intro!: exI [of _ ?rs])
  qed
  show ?thesis
    unfolding CleanupOrphanedClusterDeployments_def Let_def
    by (intro traced_rules traced_lift [OF tsafe_cleanup_refs [OF refl subset_refl]] conjI)
      (auto intro!: patch simp del: orphan_write.simps)
qed

section \<open>The update, in one statement\<close>

definition example_cd :: "string \<Rightarrow> string \<Rightarrow> int KClusterDeployment" where
  "example_cd ns name =
     \<lparr>kcd_APIVersion = ''v1beta1'', kcd_Kind = ''ClusterDeployment'', kcd_Name = name, kcd_Namespace = ns, kcd_Labels = None,
      kcd_Annotations = None, kcd_Owners = [], kcd_DeletionTimestamp = 0,
      kcd_Spec = \<lparr>cds_Config = None, cds_Credential = ''old'', cds_Template = [], cds_ServiceSpec = 0,
        cds_PropagateCredentials = False, cds_Unmanaged = 7\<rparr>,
      kcd_Conditions = [\<lparr>c_Type = ''Ready'', c_Status = ConditionTrue, c_Reason = [], c_Message = [], c_ObservedGeneration = 0, c_LastTransitionTime = 0\<rparr>]\<rparr>"

text \<open>
  C19: an update converges.  The object submitted has the managed fields of the specification (the
  configuration up to JSON equality), its labels and annotations are the old ones overridden by the
  Colony's, and nothing else of the ClusterDeployment changes; an object that needs no change is left
  alone, and one update is enough.
\<close>

theorem managed_update_spec:
  assumes "managed_update decode spec ls as cd = (cd', changed)" and "config_ok decode (cds_Config spec)"
    and "map_ok (map_val (kcd_Labels cd))" and "map_ok (map_val ls)"
    and "map_ok (map_val (kcd_Annotations cd))" and "map_ok (map_val as)"
  shows "managed_as decode spec (kcd_Spec cd') \<and>
    map_of (map_val (kcd_Labels cd')) = map_of (map_val (kcd_Labels cd)) ++ map_of (map_val ls) \<and>
    map_of (map_val (kcd_Annotations cd')) = map_of (map_val (kcd_Annotations cd)) ++ map_of (map_val as) \<and>
    cd' = cd\<lparr>kcd_Labels := kcd_Labels cd', kcd_Annotations := kcd_Annotations cd',
             kcd_Spec := (kcd_Spec cd')\<lparr>cds_Unmanaged := cds_Unmanaged (kcd_Spec cd)\<rparr>\<rparr> \<and>
    (\<not> changed \<longrightarrow> cd' = cd) \<and> \<not> snd (managed_update decode spec ls as cd')"
proof (intro conjI impI)
  show "managed_as decode spec (kcd_Spec cd')" "\<not> snd (managed_update decode spec ls as cd')"
    using managed_update_settled [OF assms] by simp_all
  show "map_of (map_val (kcd_Labels cd')) = map_of (map_val (kcd_Labels cd)) ++ map_of (map_val ls)"
    "map_of (map_val (kcd_Annotations cd')) = map_of (map_val (kcd_Annotations cd)) ++ map_of (map_val as)"
    using assms(1) healed_step(1) [OF assms(3,4)] healed_step(1) [OF assms(5,6)] by (auto simp: managed_update_alt)
  show "cd' = cd\<lparr>kcd_Labels := kcd_Labels cd', kcd_Annotations := kcd_Annotations cd',
             kcd_Spec := (kcd_Spec cd')\<lparr>cds_Unmanaged := cds_Unmanaged (kcd_Spec cd)\<rparr>\<rparr>"
    using assms(1) by (auto simp: managed_update_alt)
  show "cd' = cd" if "\<not> changed"
    using assms(1) that by (auto simp: managed_update_alt managed_as_def healed_def)
qed

definition example_decode :: "rawjson \<Rightarrow> goerr + hval" where
  "example_decode _ = Inr HNull"

definition example_spec :: "int ClusterDeploymentSpec" where
  "example_spec = (kcd_Spec (example_cd ''n'' ''c-a''))\<lparr>cds_Credential := ''new''\<rparr>"

definition example_update :: "int KClusterDeployment \<times> bool" where
  "example_update = managed_update example_decode example_spec (Some [(''k'', ''v'')]) None (example_cd ''n'' ''c-a'')"

theorem managed_update_spec_witness:
  "managed_as example_decode example_spec (kcd_Spec (fst example_update)) \<and>
   map_of (map_val (kcd_Labels (fst example_update))) = [''k'' \<mapsto> ''v''] \<and>
   cds_Unmanaged (kcd_Spec (fst example_update)) = 7 \<and>
   \<not> snd (managed_update example_decode example_spec (Some [(''k'', ''v'')]) None (fst example_update))"
  using managed_update_spec [of example_decode example_spec "Some [(''k'', ''v'')]" None "example_cd ''n'' ''c-a''"
      "fst example_update" "snd example_update"]
  by (simp add: example_update_def [symmetric])
    (auto simp: example_spec_def example_cd_def example_decode_def config_ok_def map_val_def map_ok_def example_update_def managed_update_alt)

end
