(* ===== verification/Colony_Properties.thy ===== *)
theory Colony_Properties
  imports Colony_Controller Cluster_Deployment_Properties
begin

text \<open>
  What a reconcile of a Colony writes, on any API server: while the Colony lives and while it is deleted.
\<close>

section \<open>Ensuring and judging the clusters\<close>

lemma tsafe_ensure_clusters:
  assumes "keyed_cds api" and "set ccs \<subseteq> set (col_ColonyClusters colony)"
  shows "tsafe (cd_write api colony) (ensure_clusters api ccs colony errs) s
    (\<lambda>(errs', colony') _. extends colony colony' \<and>
       (errs' = [] \<longrightarrow> errs = [] \<and> (\<forall>cc \<in> set ccs. specified cc \<longrightarrow> has_ref colony' (col_Namespace colony) (cd_name colony cc))))"
  using assms(2)
proof (induction ccs arbitrary: colony errs s)
  case (Cons cc ccs)
  let ?post = "\<lambda>(errs', colony') (_ :: ('a, ('b, 'c) iev) cstate). extends colony colony' \<and> (errs' = [] \<longrightarrow>
    errs = [] \<and> (\<forall>cc \<in> set (cc # ccs). specified cc \<longrightarrow> has_ref colony' (col_Namespace colony) (cd_name colony cc)))"
  have more: "tsafe (cd_write api colony) (ensure_clusters api ccs colony' errs') s' ?post"
    if ext: "extends colony colony'" and "errs' = [] \<longrightarrow> errs = [] \<and> (specified cc \<longrightarrow> has_ref colony' (col_Namespace colony) (cd_name colony cc))"
    for colony' errs' and s' :: "('a, ('b, 'c) iev) cstate"
  proof (rule traced_weaken [OF Cons.IH [of colony' errs' s']])
    show "set ccs \<subseteq> set (col_ColonyClusters colony')" using Cons.prems extendsD(3) [OF ext] by simp
  qed (use that in \<open>auto intro: cd_write_extends extends_trans simp: extendsD cd_name_def\<close>)
  have cc: "cc \<in> set (col_ColonyClusters colony)" using Cons.prems by simp
  show ?case
    unfolding ensure_clusters.simps
    by (intro traced_rules traced_lift [OF tsafe_EnsureClusterDeployment [OF assms(1) cc]] more) auto
qed (simp add: traced_def)

definition seen_ready :: "('x, 'q) iev list \<Rightarrow> string \<Rightarrow> string \<Rightarrow> bool" where
  "seen_ready h ns name \<longleftrightarrow> (\<exists>cd. IGetCD ns name (Inr cd) \<in> set h \<and> cd_ready cd)"

lemma seen_ready_append [simp]: "seen_ready h ns name \<Longrightarrow> seen_ready (h @ es) ns name"
  and seen_ready_append' [simp]: "seen_ready (h @ es) ns name \<Longrightarrow> seen_ready (h @ es @ es') ns name"
  by (auto simp: seen_ready_def)

lemma tsafe_count_ready:
  "tsafe (\<lambda>_ e. iev_read e) (count_ready api refs ready notReady) s
     (\<lambda>res s'. \<forall>n names. res = Inr (n, names) \<longrightarrow> names = [] \<longrightarrow> notReady = [] \<and> n = ready + length refs \<and>
        (\<forall>ref \<in> set refs. seen_ready (cs_trace s') (or_Namespace ref) (or_Name ref)))"
proof (induction refs arbitrary: ready notReady s)
  case (Cons ref refs)
  show ?case
    unfolding count_ready.simps get_kcd_def
    by (intro traced_rules traced_lift_hist [OF Cons.IH] conjI) (auto simp: seen_ready_def)
qed (simp add: traced_def)

text \<open>The status fields that follow from the clusters, and nothing else, change.\<close>

definition judged_ready :: "('x, 'q) iev list \<Rightarrow> Colony \<Rightarrow> bool" where
  "judged_ready h colony \<longleftrightarrow>
     (\<forall>ref \<in> set (col_refs colony). seen_ready h (or_Namespace ref) (or_Name ref)) \<and>
     length (col_refs colony) = count_specified (col_ColonyClusters colony)"

definition same_spec :: "Colony \<Rightarrow> Colony \<Rightarrow> bool" where
  "same_spec colony colony' \<longleftrightarrow>
     col_Name colony' = col_Name colony \<and> col_Namespace colony' = col_Namespace colony \<and>
     col_ColonyClusters colony' = col_ColonyClusters colony \<and> col_refs colony' = col_refs colony"

lemma tsafe_updateStatus:
  "tsafe (\<lambda>_ e. iev_read e) (updateColonyStatusFromClusters api colony errs) s
     (\<lambda>(e, colony') s'. e = None \<longrightarrow> same_spec colony colony' \<and>
        cst_TotalClusters (col_Status colony') = i32 (int (count_specified (col_ColonyClusters colony))) \<and>
        (cst_Phase (col_Status colony') = ''Ready'' \<longrightarrow> errs = [] \<and>
           cst_ReadyClusters (col_Status colony') = cst_TotalClusters (col_Status colony') \<and> judged_ready (cs_trace s') colony))"
  unfolding updateColonyStatusFromClusters_def Let_def colony_verdict_def
  by (intro traced_rules traced_lift [OF tsafe_count_ready] conjI)
    (auto simp: judged_ready_def same_spec_def split: if_splits)

lemma in_reads_scan: "in_reads (scanClusterGPUOfferings r kc)"
  unfolding in_reads_def scanClusterGPUOfferings_def by (intro allI traced_rules conjI) simp_all

lemma in_reads_scan_refs: "cr_childClientForCD r = None \<Longrightarrow> in_reads (scan_refs r previous refs inventory)"
proof (induction refs arbitrary: inventory)
  case (Cons ref refs)
  have client: "client_for r = infra_cluster_client (cr_api r)" using Cons.prems by (simp add: client_for_def)
  show ?case
    unfolding in_reads_def scan_refs.simps client
    by (intro allI traced_rules traced_lift [OF in_readsD [OF in_reads_client]] traced_lift [OF in_readsD [OF in_reads_scan]]
        in_readsD [OF Cons.IH] conjI) (use Cons.prems in simp_all)
qed (simp add: in_reads_def traced_def)

text \<open>An inventory of a Colony: one entry per name, and only for clusters it refers to.\<close>

definition inventory_of :: "Colony \<Rightarrow> bool" where
  "inventory_of colony \<longleftrightarrow>
     map_ok (cst_GPUInventory (col_Status colony)) \<and>
     fst ` set (cst_GPUInventory (col_Status colony)) \<subseteq> or_Name ` set (col_refs colony)"

lemma keys_mput: "fst ` set (mput k v m) = insert k (fst ` set m)"
  by (induction m) auto

lemma keepPrevious_ok:
  assumes "map_ok gpus" and "fst ` set gpus \<subseteq> N" and "k \<in> N"
  shows "map_ok (keepPrevious previous k gpus)" and "fst ` set (keepPrevious previous k gpus) \<subseteq> N"
  using assms by (auto simp: keepPrevious_def keys_mput gomap split: option.splits)

lemma wp_scan_refs:
  assumes "map_ok gpus" and "fst ` set gpus \<subseteq> N" and "or_Name ` set refs \<subseteq> N"
  shows "wp (scan_refs r previous refs gpus) (\<lambda>gpus' _. map_ok gpus' \<and> fst ` set gpus' \<subseteq> N) s"
  using assms
proof (induction refs arbitrary: gpus s)
  case (Cons ref refs)
  have client: "wp (client_for r (or_Namespace ref) (or_Name ref)) (\<lambda>_ _. True) s" for s
    by (simp add: wp_def split: prod.splits)
  have "wp (scan_refs r previous refs (keepPrevious previous (or_Name ref) gpus)) (\<lambda>gpus' _. map_ok gpus' \<and> fst ` set gpus' \<subseteq> N) s'"
    "wp (scan_refs r previous refs (mput (or_Name ref) gi gpus)) (\<lambda>gpus' _. map_ok gpus' \<and> fst ` set gpus' \<subseteq> N) s'" for s' gi
    using Cons.prems keepPrevious_ok [OF Cons.prems(1,2), of "or_Name ref" previous]
    by (intro Cons.IH; simp add: keys_mput gomap)+
  then show ?case
    unfolding scan_refs.simps scanClusterGPUOfferings_def
    by (intro wp_intros wp_mono [OF client]) simp_all
qed simp

lemma tsafe_refreshGPU:
  assumes "cr_childClientForCD r = None"
  shows "tsafe (\<lambda>_ e. iev_read e) (refreshGPUInventory r colony) s
    (\<lambda>colony' _. (\<exists>gpus. colony' = colony\<lparr>col_Status := (col_Status colony)\<lparr>cst_GPUInventory := gpus\<rparr>\<rparr>) \<and> inventory_of colony')"
proof -
  have scan: "tsafe (\<lambda>_ e. iev_read e) (scan_refs r previous (col_refs colony) []) s
      (\<lambda>gpus _. map_ok gpus \<and> fst ` set gpus \<subseteq> or_Name ` set (col_refs colony))" for previous s
    using traced_wp [OF in_readsD [OF in_reads_scan_refs [OF assms]] wp_scan_refs [OF _ _ subset_refl]] by (simp add: gomap)
  show ?thesis
    unfolding refreshGPUInventory_def Let_def
    by (intro traced_rules traced_lift [OF scan]) (auto simp: inventory_of_def)
qed

section \<open>Secrets and ConfigMaps\<close>

fun secret_write :: "Colony \<Rightarrow> ('x, 'q) iev list \<Rightarrow> ('x, 'q) iev \<Rightarrow> bool" where
  "secret_write colony h (ICreateSecret s _) = (sec_Namespace s = col_Namespace colony \<and> sec_Owners s = [])"
| "secret_write colony h (IUpdateSecret s _) =
     (\<exists>name old. IGetSecret Management (col_Namespace colony) name (Inr old) \<in> set h \<and> s = old\<lparr>sec_Data := sec_Data s\<rparr>)"
| "secret_write colony h e = iev_read e"

lemma secret_write_read: "iev_read e \<Longrightarrow> secret_write colony h e"
  by (cases e) auto

lemma tsafe_mirror: "tsafe (secret_write colony) (mirrorKubeconfigSecret api colony src) s (\<lambda>_ _. True)"
  unfolding mirrorKubeconfigSecret_def get_secret_def Let_def
  by (intro traced_rules conjI) (auto intro!: exI)

lemma tsafe_reference: "tsafe (secret_write colony) (kubeconfig_reference api colony ref) s (\<lambda>_ _. True)"
  unfolding kubeconfig_reference_def get_secret_def Let_def
  by (intro traced_rules traced_lift [OF tsafe_ResolveRegional] traced_lift [OF tsafe_mirror] conjI)
    (auto intro: secret_write_read)

lemma tsafe_collect: "tsafe (secret_write colony) (collect_references api colony refs references) s (\<lambda>_ _. True)"
proof (induction refs arbitrary: references s)
  case (Cons ref refs)
  show ?case unfolding collect_references.simps
    by (intro traced_rules traced_lift [OF tsafe_reference] Cons.IH) auto
qed (simp add: traced_def)

lemma tsafe_aggregated: "tsafe (secret_write colony) (ensureAggregatedKubeconfigSecretExists api colony) s (\<lambda>_ _. True)"
  unfolding ensureAggregatedKubeconfigSecretExists_def get_secret_def Let_def
  by (intro traced_rules traced_lift [OF tsafe_collect] conjI) (auto simp: aggregated_secret_def)


fun endpoint_write :: "('x, 'q) iev list \<Rightarrow> ('x, 'q) iev \<Rightarrow> bool" where
  "endpoint_write h (ICreateCM kc cm _) = (cm_Name cm = ConfigMapName \<and> cm_Namespace cm = ConfigMapNamespace)"
| "endpoint_write h (IUpdateCM kc cm _) =
     (\<exists>old. IGetCM kc ConfigMapNamespace ConfigMapName (Inr old) \<in> set h \<and> cm = old\<lparr>cm_Data := cm_Data cm\<rparr>)"
| "endpoint_write h e = iev_read e"

lemma endpoint_write_read: "iev_read e \<Longrightarrow> endpoint_write h e"
  by (cases e) auto

lemma in_reads_child: "in_reads (getClientForChildCluster api c colony clusterName)"
  unfolding in_reads_def getClientForChildCluster_def get_secret_def new_client_def Let_def
  by (intro allI traced_rules conjI) simp_all

lemma tsafe_EnsureConfigMap: "tsafe endpoint_write (EnsureAPIEndpointConfigMap api colony clusterName endpoint kc) s (\<lambda>_ _. True)"
  unfolding EnsureAPIEndpointConfigMap_def Let_def
  by (intro traced_rules traced_lift [OF in_readsD [OF in_reads_child]] conjI)
    (auto simp: new_configmap_def intro: endpoint_write_read)

lemma in_reads_Discover: "in_reads (DiscoverControlPlaneService api c ns colonyName clusterName)"
  unfolding in_reads_def DiscoverControlPlaneService_def Let_def by (intro allI traced_rules conjI) simp_all

lemma in_reads_GetCAPI: "in_reads (GetCAPICluster api c ns name)"
  unfolding in_reads_def GetCAPICluster_def by (intro allI traced_rules conjI) simp_all

lemma tsafe_endpoint_configmap: "tsafe endpoint_write (ensure_endpoint_configmap api colony ref) s (\<lambda>_ _. True)"
  unfolding ensure_endpoint_configmap_def Let_def
  by (intro traced_rules traced_lift [OF tsafe_ResolveRegional] traced_lift [OF in_readsD [OF in_reads_Discover]]
      traced_lift [OF in_readsD [OF in_reads_GetCAPI]] traced_lift [OF tsafe_EnsureConfigMap])
    (auto intro: endpoint_write_read)

lemma traced_case_outcome [traced_rules]:
  "(\<And>x. v = Ok x \<Longrightarrow> traced tr P (f x) s Q) \<Longrightarrow> (\<And>e. v = Err e \<Longrightarrow> traced tr P (g e) s Q) \<Longrightarrow>
   (\<And>m. v = Panic m \<Longrightarrow> traced tr P (k m) s Q) \<Longrightarrow>
   traced tr P (case v of Ok x \<Rightarrow> f x | Err e \<Rightarrow> g e | Panic m \<Rightarrow> k m) s Q"
  by (cases v) simp_all

lemma tsafe_endpoint_configmaps: "tsafe endpoint_write (ensure_endpoint_configmaps api colony refs) s (\<lambda>_ _. True)"
proof (induction refs arbitrary: s)
  case (Cons ref refs)
  show ?case unfolding ensure_endpoint_configmaps.simps
    by (intro traced_rules traced_lift [OF tsafe_endpoint_configmap] Cons.IH) auto
qed (simp add: traced_def)

section \<open>A whole reconcile\<close>

definition seen_colony :: "('x, 'q) iev list \<Rightarrow> Colony \<Rightarrow> bool" where
  "seen_colony h colony \<longleftrightarrow>
     (\<exists>ns name. IGetColony ns name (Inr colony) \<in> set h) \<or> (\<exists>orig new. IPatchStatus orig new (Inr colony) \<in> set h)"

lemma seen_colony_append [simp]: "seen_colony h c \<Longrightarrow> seen_colony (h @ es) c"
  by (auto simp: seen_colony_def)

text \<open>Every cluster with a specification was seen, and not reported as not ready.\<close>

definition ready_backed :: "('x, 'q) iev list \<Rightarrow> Colony \<Rightarrow> bool" where
  "ready_backed h colony \<longleftrightarrow>
     (\<forall>cc \<in> set (col_ColonyClusters colony). specified cc \<longrightarrow> seen_ready h (col_Namespace colony) (cd_name colony cc)) \<and>
     cst_ReadyClusters (col_Status colony) = cst_TotalClusters (col_Status colony) \<and>
     cst_TotalClusters (col_Status colony) = i32 (int (count_specified (col_ColonyClusters colony)))"

fun live_write :: "('w, 'x, 'q) infra_api \<Rightarrow> Colony \<Rightarrow> ('x, 'q) iev list \<Rightarrow> ('x, 'q) iev \<Rightarrow> bool" where
  "live_write api colony h (IDeleteCD cd r) = orphan_write colony h (IDeleteCD cd r)"
| "live_write api colony h (IDeletePVC c ns pvc r) = orphan_write colony h (IDeletePVC c ns pvc r)"
| "live_write api colony h (ICreateCD cd r) = (\<exists>c. seen_colony h c \<and> cd_write api c h (ICreateCD cd r))"
| "live_write api colony h (IUpdateCD cd r) = (\<exists>c. seen_colony h c \<and> cd_write api c h (IUpdateCD cd r))"
| "live_write api colony h (IPatchStatus orig new _) =
     (seen_colony h orig \<and> (refs_distinct orig \<longrightarrow> refs_distinct new) \<and>
      ((\<exists>rs. new = set_refs rs orig \<and> subseq rs (col_refs orig)) \<or>
       inventory_of new \<and> (cst_Phase (col_Status new) = ''Ready'' \<longrightarrow> ready_backed h new)))"
| "live_write api colony h (ICreateSecret s r) = (\<exists>c. seen_colony h c \<and> secret_write c h (ICreateSecret s r))"
| "live_write api colony h (IUpdateSecret s r) = (\<exists>c. seen_colony h c \<and> secret_write c h (IUpdateSecret s r))"
| "live_write api colony h (ICreateCM kc cm r) = endpoint_write h (ICreateCM kc cm r)"
| "live_write api colony h (IUpdateCM kc cm r) = endpoint_write h (IUpdateCM kc cm r)"
| "live_write api colony h (IUpdateColony c _) =
     (\<exists>old. seen_colony h old \<and> \<not> ia_contains_finalizer api old colonyFinalizer \<and> c = ia_add_finalizer api old colonyFinalizer)"
| "live_write api colony h (IUpdateStatus _ _) = False"
| "live_write api colony h e = True"

lemma live_write_lifts:
  shows "iev_read e \<Longrightarrow> live_write api colony h e"
    and "orphan_write colony h e \<Longrightarrow> seen_colony h colony \<Longrightarrow> live_write api colony h e"
    and "cd_write api c h e \<Longrightarrow> seen_colony h c \<Longrightarrow> live_write api colony h e"
    and "secret_write c h e \<Longrightarrow> seen_colony h c \<Longrightarrow> live_write api colony h e"
    and "endpoint_write h e \<Longrightarrow> live_write api colony h e"
proof -
  show "live_write api colony h e" if "orphan_write colony h e" "seen_colony h colony"
    using that by (cases e) (auto intro: refs_distinct_subseq)
qed (cases e; fastforce)+

lemma seen_patched: "IPatchStatus orig new (Inr c) \<in> set h \<Longrightarrow> seen_colony h c"
  by (auto simp: seen_colony_def)

lemma seen_last [simp, intro]: "seen_colony (h @ [IGetColony ns name (Inr c)]) c"
  by (auto simp: seen_colony_def)

lemma tsafe_finish:
  assumes "seen_colony (cs_trace s) colony"
  shows "tsafe (live_write api c) (finish_reconcile api colony errs) s (\<lambda>_ _. True)"
  unfolding finish_reconcile_def ensureAPIEndpointConfigMapForAllClusters_def
  by (intro traced_rules traced_lift [OF tsafe_endpoint_configmaps] traced_lift_ext [OF tsafe_aggregated])
    (use assms in \<open>auto intro: live_write_lifts(4,5)\<close>)

lemma judged_backed:
  assumes "judged_ready h colony'" and "\<forall>cc \<in> set (col_ColonyClusters colony). specified cc \<longrightarrow>
      has_ref colony' (col_Namespace colony) (cd_name colony cc)" and "extends colony colony'"
    and "same_spec colony' c" and "cst_ReadyClusters (col_Status c) = cst_TotalClusters (col_Status c)"
    and "cst_TotalClusters (col_Status c) = i32 (int (count_specified (col_ColonyClusters colony')))"
  shows "ready_backed h c"
  using assms extendsD(1-3) [OF assms(3)]
  by (fastforce simp: ready_backed_def judged_ready_def has_ref_def same_spec_def cd_name_def)

lemma ready_backed_append: "ready_backed h c \<Longrightarrow> ready_backed (h @ es) c"
  by (auto simp: ready_backed_def)

lemma ready_backed_inventory [simp]:
  "ready_backed h (c\<lparr>col_Status := (col_Status c)\<lparr>cst_GPUInventory := gpus\<rparr>\<rparr>) \<longleftrightarrow> ready_backed h c"
  by (simp add: ready_backed_def cd_name_def)

lemma refs_distinct_judged:
  "same_spec colony c \<Longrightarrow> extends c\<^sub>0 colony \<Longrightarrow> refs_distinct c\<^sub>0 \<Longrightarrow>
   refs_distinct (c\<lparr>col_Status := (col_Status c)\<lparr>cst_GPUInventory := gpus\<rparr>\<rparr>)"
  by (simp add: refs_distinct_def same_spec_def extends_def)

lemma tsafe_reconcile_clusters:
  assumes "keyed_cds (cr_api r)" and "cr_childClientForCD r = None" and c: "seen_colony (cs_trace s) c"
  shows "tsafe (live_write (cr_api r) colony) (reconcile_clusters r c) s (\<lambda>_ _. True)"
proof -
  let ?P = "live_write (cr_api r) colony"
  have persist: "tsafe ?P (do {
      ur \<leftarrow> updateColonyStatusFromClusters (cr_api r) colony' errs;
      (case ur of
         (Some e, _) \<Rightarrow> State_Monad.return (Return (after_seconds 10) (Some e))
       | (None, colony) \<Rightarrow> do {
           colony \<leftarrow> refreshGPUInventory r colony;
           pr \<leftarrow> call (IPatchStatus c colony) (ia_patch_colony_status (cr_api r) c colony);
           (case pr of
              Inl e \<Rightarrow> State_Monad.return (Return (after_seconds 10) (Some e))
            | Inr colony \<Rightarrow> finish_reconcile (cr_api r) colony errs)
         })}) s' (\<lambda>_ _. True)"
    if seen: "seen_colony (cs_trace s') c" and ext: "extends c colony'"
      and refs: "errs = [] \<Longrightarrow> \<forall>cc \<in> set (col_ColonyClusters c). specified cc \<longrightarrow> has_ref colony' (col_Namespace c) (cd_name c cc)"
    for colony' errs and s' :: "('a, ('b, 'c) iev) cstate"
  proof -
    have backed: "ready_backed (h @ es) x" if "judged_ready h colony'" "same_spec colony' x" "errs = []"
        "cst_ReadyClusters (col_Status x) = i32 (int (count_specified (col_ColonyClusters colony')))"
        "cst_TotalClusters (col_Status x) = i32 (int (count_specified (col_ColonyClusters colony')))"
      for h es x
      using judged_backed [OF that(1) refs [OF that(3)] ext that(2)] that(4,5) by (simp add: ready_backed_append)
    show ?thesis
      by (intro traced_rules traced_lift_ext [OF tsafe_updateStatus] traced_lift_ext [OF tsafe_refreshGPU [OF assms(2)]]
          tsafe_finish conjI)
        (use seen in \<open>auto intro: live_write_lifts(1) backed refs_distinct_judged [OF _ ext] simp: seen_colony_def simp flip: append_assoc\<close>)
  qed
  show ?thesis
    unfolding reconcile_clusters_def Let_def
    by (intro traced_rules traced_lift_ext [OF tsafe_ensure_clusters [OF assms(1) subset_refl]] persist)
      (use c in \<open>auto intro: live_write_lifts(3)\<close>)
qed

lemma tsafe_reconcileColony:
  assumes "keyed_cds (cr_api r)" and "cr_childClientForCD r = None" and c: "seen_colony (cs_trace s) colony"
  shows "tsafe (live_write (cr_api r) colony) (reconcileColony r colony) s (\<lambda>_ _. True)"
  unfolding reconcileColony_def
  by (intro traced_rules traced_lift_ext [OF tsafe_CleanupOrphaned] tsafe_reconcile_clusters assms(1,2))
    (use c in \<open>auto intro: live_write_lifts(2) seen_patched\<close>)


lemma live_finalizer:
  "seen_colony h old \<Longrightarrow> \<not> ia_contains_finalizer api old colonyFinalizer \<Longrightarrow>
   live_write api colony h (IUpdateColony (ia_add_finalizer api old colonyFinalizer) r)"
  by auto

lemma tsafe_live:
  assumes "keyed_cds (cr_api r)" and "cr_childClientForCD r = None"
    and "fst (ia_get_colony (cr_api r) ns name (cs_world s)) = Inr colony" and "col_DeletionTimestamp colony = None"
  shows "tsafe (live_write (cr_api r) colony) (ColonyReconcile r ns name) s (\<lambda>_ _. True)"
  unfolding ColonyReconcile_def addFinalizer_def Let_def
  by (intro traced_rules conjI)
    (use assms(3,4) in \<open>auto intro!: tsafe_reconcileColony assms(1,2) intro: live_finalizer live_write_lifts(1) simp del: live_write.simps\<close>)

section \<open>Deletion\<close>

text \<open>The Colony whose clusters are torn down: as the status update returned it, or as it was fetched.\<close>

definition deleting :: "('x, 'q) iev list \<Rightarrow> Colony \<Rightarrow> bool" where
  "deleting h colony \<longleftrightarrow>
     (\<exists>sent. IUpdateStatus sent (Inr colony) \<in> set h \<and> cst_Phase (col_Status sent) = ''Deleting'') \<or>
     (\<exists>e. IsNotFound e \<and> IGetColony (col_Namespace colony) (col_Name colony) (Inl e) \<in> set h \<and> seen_colony h colony)"

lemma deleting_append [simp]: "deleting h c \<Longrightarrow> deleting (h @ es) c"
  by (auto simp: deleting_def)

text \<open>
  What deletion may write: the phase Deleting; the deletion of the ClusterDeployments of the Colony being
  deleted, and of their volume claims once they are gone; and, when all are gone, the Colony without
  the finalizer.
\<close>

fun teardown_write :: "('w, 'x, 'q) infra_api \<Rightarrow> ('x, 'q) iev list \<Rightarrow> ('x, 'q) iev \<Rightarrow> bool" where
  "teardown_write api h (IUpdateStatus c _) = (cst_Phase (col_Status c) = ''Deleting'')"
| "teardown_write api h (IDeleteCD cd _) =
     (\<exists>c. deleting h c \<and> (\<exists>cc \<in> set (col_ColonyClusters c).
        IGetCD (col_Namespace c) (cd_name c cc) (Inr cd) \<in> set h \<and> kcd_DeletionTimestamp cd = 0))"
| "teardown_write api h (IDeletePVC k ns pvc _) =
     (\<exists>c. deleting h c \<and> (\<exists>cc \<in> set (col_ColonyClusters c).
        ns = col_Namespace c \<and> pvc = pvc_name (cd_name c cc) \<and> seen_absent h ns (cd_name c cc)))"
| "teardown_write api h (IUpdateColony c _) =
     (\<exists>old. seen_colony h old \<and> c = ia_remove_finalizer api old colonyFinalizer \<and>
        (\<exists>d. deleting h d \<and> (\<forall>cc \<in> set (col_ColonyClusters d). seen_absent h (col_Namespace d) (cd_name d cc))))"
| "teardown_write api h e = iev_read e"

lemma teardown_read: "iev_read e \<Longrightarrow> teardown_write api h e"
  by (cases e) auto

lemma teardown_delete:
  "deleting h c \<Longrightarrow> cc \<in> set (col_ColonyClusters c) \<Longrightarrow> IGetCD (col_Namespace c) (cd_name c cc) (Inr cd) \<in> set h \<Longrightarrow>
   kcd_DeletionTimestamp cd = 0 \<Longrightarrow> teardown_write api h (IDeleteCD cd r)"
  by auto

lemma teardown_finalizer:
  assumes "deleting h d" and "\<forall>cc \<in> set (col_ColonyClusters d). seen_absent (h @ es) (col_Namespace d) (cd_name d cc)"
  shows "teardown_write api ((h @ es) @ [IGetColony ns name (Inr old)])
    (IUpdateColony (ia_remove_finalizer api old colonyFinalizer) r)"
proof -
  have "deleting ((h @ es) @ [IGetColony ns name (Inr old)]) d" using assms(1) by (intro deleting_append)
  moreover have "\<forall>cc \<in> set (col_ColonyClusters d). seen_absent ((h @ es) @ [IGetColony ns name (Inr old)]) (col_Namespace d) (cd_name d cc)"
    using assms(2) seen_absent_append by blast
  ultimately show ?thesis unfolding teardown_write.simps using seen_last by blast
qed

lemma tsafe_status_attempts:
  assumes "seen_colony (cs_trace s) colony"
  shows "tsafe (teardown_write api) (status_attempts api colony ''Deleting'' n b) s
    (\<lambda>(e, colony') s'. e = None \<longrightarrow> deleting (cs_trace s') colony')"
  using assms
proof (induction n arbitrary: b s)
  case (Suc n)
  show ?case
    unfolding status_attempts.simps sleep_def Let_def
    by (intro traced_rules Suc.IH conjI)
      (use Suc.prems in \<open>auto simp: set_phase_def deleting_def seen_colony_def\<close>)
qed (simp add: traced_def)

lemma pvc_teardown:
  "pvc_write (col_Namespace c) (cd_name c cc) e \<Longrightarrow> deleting h c \<Longrightarrow> cc \<in> set (col_ColonyClusters c) \<Longrightarrow>
   seen_absent h (col_Namespace c) (cd_name c cc) \<Longrightarrow> teardown_write api h e"
  by (cases e) auto

lemma tsafe_cleanupAssociated:
  assumes "deleting (cs_trace s) c" and cc: "cc \<in> set (col_ColonyClusters c)"
  shows "tsafe (teardown_write api) (cleanupAssociatedResources api c cc) s
    (\<lambda>res s'. res = Inr False \<longrightarrow> seen_absent (cs_trace s') (col_Namespace c) (cd_name c cc))"
proof -
  have pvc: "tsafe (teardown_write api) (DeletePVCForClusterDeployment api (col_Namespace c) (cd_name c cc)) s' Q"
    if "deleting (cs_trace s') c" "seen_absent (cs_trace s') (col_Namespace c) (cd_name c cc)"
      "\<And>a s'' es. cs_trace s'' = cs_trace s' @ es \<Longrightarrow> Q a s''" for s' Q
    using that cc by (intro traced_lift_ext [OF tsafe_DeletePVC]) (auto intro!: pvc_teardown)
  show ?thesis
    unfolding cleanupAssociatedResources_def get_kcd_def Let_def
    by (intro traced_rules pvc conjI)
      (use assms in \<open>auto simp: seen_absent_def intro: teardown_read teardown_delete [of _ c cc] simp del: teardown_write.simps\<close>)
qed


lemma tsafe_cleanup_clusters:
  assumes "deleting (cs_trace s) c" and "set ccs \<subseteq> set (col_ColonyClusters c)"
  shows "tsafe (teardown_write api) (cleanup_clusters api c ccs still) s
    (\<lambda>res s'. res = Inr False \<longrightarrow> \<not> still \<and> (\<forall>cc \<in> set ccs. seen_absent (cs_trace s') (col_Namespace c) (cd_name c cc)))"
  using assms
proof (induction ccs arbitrary: still s)
  case (Cons cc ccs)
  then have cc: "cc \<in> set (col_ColonyClusters c)" and ccs: "set ccs \<subseteq> set (col_ColonyClusters c)" by auto
  show ?case
    unfolding cleanup_clusters.simps
    by (intro traced_rules traced_lift [OF tsafe_cleanupAssociated [OF Cons.prems(1) cc]] traced_lift [OF Cons.IH [OF _ ccs]])
      (use Cons.prems in \<open>auto simp flip: append_assoc\<close>)
qed (simp add: traced_def)

lemma tsafe_deletion:
  assumes "seen_colony (cs_trace s) colony"
  shows "tsafe (teardown_write api) (handleColonyDeletion api ns name colony) s (\<lambda>_ _. True)"
  unfolding handleColonyDeletion_def updateColonyStatusWithRetry_def Let_def
  by (intro traced_rules traced_lift [OF tsafe_status_attempts [OF assms]] traced_lift [OF tsafe_cleanup_clusters [OF _ subset_refl]] conjI)
    (auto intro: teardown_read teardown_finalizer deleting_append simp del: teardown_write.simps simp flip: append_assoc)

lemma tsafe_teardown:
  assumes "fst (ia_get_colony (cr_api r) ns name (cs_world s)) = Inr colony" and "col_DeletionTimestamp colony \<noteq> None"
  shows "tsafe (teardown_write (cr_api r)) (ColonyReconcile r ns name) s (\<lambda>_ _. True)"
  unfolding ColonyReconcile_def Let_def
  by (intro traced_rules conjI) (use assms in \<open>auto intro!: tsafe_deletion\<close>)

end
