(* ===== verification/Colony_Outputs.thy ===== *)
theory Colony_Outputs
  imports Colony_Lifecycle
begin

text \<open>What a Colony publishes for others: the kubeconfigs of its clusters and their GPU inventory.\<close>

section \<open>Kubeconfigs\<close>

text \<open>The bytes stored for a reference, whose kubeconfig was read.\<close>

definition kubeconfig_entry :: "('w, 'x, 'q) infra_api \<Rightarrow> ('x, 'q) iev list \<Rightarrow> ObjectReference \<Rightarrow> string \<Rightarrow> bool" where
  "kubeconfig_entry api h ref bytes \<longleftrightarrow>
     ia_marshal_ref api \<lparr>or_APIVersion = ''v1'', or_Kind = ''Secret'', or_Namespace = or_Namespace ref, or_Name = or_Name ref @ ''-kubeconfig''\<rparr> = Inr bytes \<and>
     (\<exists>k secret. IGetSecret k (or_Namespace ref) (or_Name ref @ ''-kubeconfig'') (Inr secret) \<in> set h)"

lemma kubeconfig_entry_append [simp]: "kubeconfig_entry api h ref bytes \<Longrightarrow> kubeconfig_entry api (h @ es) ref bytes"
  by (auto simp: kubeconfig_entry_def)

definition gave_up :: "Result \<times> goerr option \<Rightarrow> bool" where
  "gave_up res \<longleftrightarrow> RequeueAfter (fst res) > 0 \<or> snd res \<noteq> None"

lemma wp_extends:
  assumes "tsafe P m s (\<lambda>_ _. True)" and "wp m Q s"
  shows "wp m (\<lambda>a s'. (\<exists>es. cs_trace s' = cs_trace s @ es) \<and> Q a s') s"
  using assms by (auto simp: traced_def wp_def split: prod.splits)

lemma wp_mirror: "wp (mirrorKubeconfigSecret api colony src) (\<lambda>_ s'. \<exists>es. cs_trace s' = cs_trace s @ es) s"
  using wp_extends [OF tsafe_mirror wp_any] by (rule wp_mono) simp

lemma wp_resolve: "wp (ResolveRegionalClient api colony n) (\<lambda>_ s'. \<exists>es. cs_trace s' = cs_trace s @ es) s"
  using wp_extends [OF traced_weaken [OF tsafe_ResolveRegional] wp_any] by (rule wp_mono) simp_all

lemma wp_kubeconfig_reference:
  "wp (kubeconfig_reference api colony ref) (\<lambda>res s'.
     (\<exists>es. cs_trace s' = cs_trace s @ es) \<and> (\<forall>stop. res = Inl stop \<longrightarrow> gave_up stop) \<and>
     (\<forall>bytes. res = Inr bytes \<longrightarrow> kubeconfig_entry api (cs_trace s') ref bytes)) s"
  unfolding kubeconfig_reference_def get_secret_def Let_def
  by (intro wp_intros wp_mono [OF wp_resolve] wp_mono [OF wp_mirror]) (auto simp: gave_up_def kubeconfig_entry_def split: if_splits, blast)

lemma wp_collect:
  assumes "\<And>k bytes. (k, bytes) \<in> set references \<Longrightarrow> \<exists>ref \<in> R. or_Name ref = k \<and> kubeconfig_entry api (cs_trace s) ref bytes"
    and "set refs \<subseteq> R"
  shows "wp (collect_references api colony refs references) (\<lambda>res s'.
     (\<forall>stop. res = Inl stop \<longrightarrow> gave_up stop) \<and>
     (\<forall>references'. res = Inr references' \<longrightarrow> fst ` set references' = fst ` set references \<union> or_Name ` set refs \<and>
        (\<forall>k bytes. (k, bytes) \<in> set references' \<longrightarrow> (\<exists>ref \<in> R. or_Name ref = k \<and> kubeconfig_entry api (cs_trace s') ref bytes)))) s"
  using assms
proof (induction refs arbitrary: references s)
  case (Cons ref refs)
  have put: "(k, v) \<in> set (mput k' v' m) \<Longrightarrow> (k = k' \<and> v = v') \<or> (k, v) \<in> set m" for k v k' and v' :: string and m
    by (induction m) (auto split: if_splits)
  show ?case
    unfolding collect_references.simps
  proof (intro wp_intros wp_mono [OF wp_kubeconfig_reference], goal_cases)
    case (2 res s' bytes)
    have "wp (collect_references api colony refs (mput (or_Name ref) bytes references)) (\<lambda>res s''.
       (\<forall>stop. res = Inl stop \<longrightarrow> gave_up stop) \<and>
       (\<forall>references'. res = Inr references' \<longrightarrow>
          fst ` set references' = fst ` set (mput (or_Name ref) bytes references) \<union> or_Name ` set refs \<and>
          (\<forall>k bytes. (k, bytes) \<in> set references' \<longrightarrow> (\<exists>ref \<in> R. or_Name ref = k \<and> kubeconfig_entry api (cs_trace s'') ref bytes)))) s'"
    proof (rule Cons.IH)
      show "\<exists>ref \<in> R. or_Name ref = k \<and> kubeconfig_entry api (cs_trace s') ref v"
        if "(k, v) \<in> set (mput (or_Name ref) bytes references)" for k v
        using put [OF that] Cons.prems 2 by (metis kubeconfig_entry_append list.set_intros(1) subsetD)
    qed (use Cons.prems in simp)
    then show ?case by (rule wp_mono) (auto simp: keys_mput)
  qed auto
qed simp

text \<open>The data of an aggregated secret: one entry per cluster the Colony refers to, and each is backed.\<close>

definition complete_for :: "('w, 'x, 'q) infra_api \<Rightarrow> Colony \<Rightarrow> ('x, 'q) iev list \<Rightarrow> labels \<Rightarrow> bool" where
  "complete_for api colony h references \<longleftrightarrow>
     fst ` set references = or_Name ` set (col_refs colony) \<and>
     (\<forall>(name, bytes) \<in> set references. \<exists>ref \<in> set (col_refs colony). or_Name ref = name \<and> kubeconfig_entry api h ref bytes)"

lemma complete_for_append [simp]: "complete_for api colony h references \<Longrightarrow> complete_for api colony (h @ es) references"
  unfolding complete_for_def using kubeconfig_entry_append by fast

lemma wp_collect_all:
  "wp (collect_references api colony (col_refs colony) []) (\<lambda>res s'.
     (\<forall>stop. res = Inl stop \<longrightarrow> gave_up stop) \<and>
     (\<forall>references. res = Inr references \<longrightarrow> complete_for api colony (cs_trace s') references)) s"
  by (rule wp_mono [OF wp_collect [where R = "set (col_refs colony)"]]) (auto simp: complete_for_def)

text \<open>
  C31: the aggregated secret is complete.  When the step reports success, its last call stored a secret
  whose keys are exactly the clusters the Colony refers to, each with the encoded reference to a kubeconfig
  secret that was read in this run.
\<close>

theorem kubeconfigs_complete:
  assumes "run_state (ensureAggregatedKubeconfigSecretExists api colony) (idle w) = ((no_requeue, None), s')"
  shows "\<exists>secret. (last (cs_trace s') = ICreateSecret secret None \<or> (\<exists>u. last (cs_trace s') = IUpdateSecret secret (Inr u))) \<and>
    complete_for api colony (cs_trace s') (sec_Data secret)"
proof -
  have "wp (ensureAggregatedKubeconfigSecretExists api colony) (\<lambda>res s'. gave_up res \<or> (\<exists>secret.
      (last (cs_trace s') = ICreateSecret secret None \<or> (\<exists>u. last (cs_trace s') = IUpdateSecret secret (Inr u))) \<and>
      complete_for api colony (cs_trace s') (sec_Data secret))) (idle w)"
    unfolding ensureAggregatedKubeconfigSecretExists_def get_secret_def Let_def
    by (intro wp_intros wp_mono [OF wp_collect_all])
      (auto simp: gave_up_def aggregated_secret_def simp flip: append_assoc)
  from wp_run [OF assms this] show ?thesis by (simp add: gave_up_def)
qed

definition kubeconfigs_run :: "(Result \<times> goerr option) \<times> (unit, (int, int) iev) cstate" where
  "kubeconfigs_run = run_state (ensureAggregatedKubeconfigSecretExists live_infra (colony_at [] [example_cluster] [''c-a''])) (idle ())"

lemma kubeconfigs_run_result:
  "wp (ensureAggregatedKubeconfigSecretExists live_infra (colony_at [] [example_cluster] [''c-a''])) (\<lambda>res _. res = (no_requeue, None)) (idle ())"
  by (simp add: colony_run_defs live_defs wp_rules Let_def)

lemma kubeconfigs_run_eq:
  "run_state (ensureAggregatedKubeconfigSecretExists live_infra (colony_at [] [example_cluster] [''c-a''])) (idle ()) = ((no_requeue, None), snd kubeconfigs_run)"
  using kubeconfigs_run_result by (simp add: kubeconfigs_run_def wp_def prod_eq_iff case_prod_unfold)

theorem kubeconfigs_complete_witness:
  "\<exists>secret. (last (cs_trace (snd kubeconfigs_run)) = ICreateSecret secret None \<or>
      (\<exists>u. last (cs_trace (snd kubeconfigs_run)) = IUpdateSecret secret (Inr u))) \<and>
    complete_for live_infra (colony_at [] [example_cluster] [''c-a'']) (cs_trace (snd kubeconfigs_run)) (sec_Data secret)"
  by (rule kubeconfigs_complete [OF kubeconfigs_run_eq])

section \<open>GPU inventory\<close>

text \<open>An entry that this run computed: from the nodes of the cluster whose kubeconfig it read.\<close>

definition scanned :: "('w, 'x, 'q) colony_reconciler \<Rightarrow> ('x, 'q) iev list \<Rightarrow> ObjectReference \<Rightarrow> ClusterGPUInventory \<Rightarrow> bool" where
  "scanned r h ref entry \<longleftrightarrow>
     (\<exists>secret kc nodes. IGetSecret Management (or_Namespace ref) (or_Name ref @ ''-kubeconfig'') (Inr secret) \<in> set h \<and>
        map_of (sec_Data secret) ''value'' = Some kc \<and> IListNodes kc (Inr nodes) \<in> set h \<and> INow (gi_LastUpdated entry) \<in> set h \<and>
        gi_Offerings entry = map published_offering (DeriveOfferings (cr_iter r) (cr_Q r) nodes no_options))"

lemma scanned_append [simp]: "scanned r h ref entry \<Longrightarrow> scanned r (h @ es) ref entry"
  by (auto simp: scanned_def)

definition inventory_entry_ok :: "('w, 'x, 'q) colony_reconciler \<Rightarrow> Colony \<Rightarrow> ('x, 'q) iev list \<Rightarrow> string \<Rightarrow> ClusterGPUInventory option \<Rightarrow> bool" where
  "inventory_entry_ok r colony h name entry \<longleftrightarrow>
     entry = map_of (cst_GPUInventory (col_Status colony)) name \<or>
     (\<exists>ref \<in> set (col_refs colony). \<exists>e. or_Name ref = name \<and> entry = Some e \<and> scanned r h ref e)"

lemma inventory_entry_ok_append [simp]: "inventory_entry_ok r colony h name entry \<Longrightarrow> inventory_entry_ok r colony (h @ es) name entry"
  unfolding inventory_entry_ok_def by (metis scanned_append)

lemma truncated_data: "map_sum id Secret.truncate a = Inr secret \<Longrightarrow> \<exists>full. a = Inr full \<and> sec_Data full = sec_Data secret"
  by (cases a) (auto simp: Secret.truncate_def)

lemma wp_child_client:
  "wp (infra_cluster_client api ns name) (\<lambda>res s'. (\<exists>es. cs_trace s' = cs_trace s @ es) \<and>
     (\<forall>kc. res = Inr kc \<longrightarrow> (\<exists>secret. IGetSecret Management ns (name @ ''-kubeconfig'') (Inr secret) \<in> set (cs_trace s') \<and>
        map_of (sec_Data secret) ''value'' = Some kc))) s"
  unfolding infra_cluster_client_def cluster_client_for_cd_def get_secret_def new_client_def Let_def
  by (intro wp_intros) (auto dest!: truncated_data)

text \<open>The loop: the names done so far have an entry of this run or the previous one, the others none.\<close>

definition gpu_inv :: "('w, 'x, 'q) colony_reconciler \<Rightarrow> Colony \<Rightarrow> string set \<Rightarrow> ClusterGPUInventory gomap \<Rightarrow> ('x, 'q) iev list \<Rightarrow> bool" where
  "gpu_inv r colony names gpus h \<longleftrightarrow>
     (\<forall>k. k \<notin> names \<longrightarrow> map_of gpus k = None) \<and> (\<forall>k \<in> names. inventory_entry_ok r colony h k (map_of gpus k))"

lemma gpu_inv_append: "gpu_inv r colony names gpus h \<Longrightarrow> gpu_inv r colony names gpus (h @ es)"
  by (simp add: gpu_inv_def)

lemma gpu_inv_keep:
  assumes "gpu_inv r colony names gpus h"
  shows "gpu_inv r colony (insert k names) (keepPrevious (cst_GPUInventory (col_Status colony)) k gpus) h"
  using assms by (cases "k \<in> names") (auto simp: gpu_inv_def keepPrevious_def inventory_entry_ok_def gomap split: option.splits)

lemma gpu_inv_put:
  assumes "gpu_inv r colony names gpus h" and "ref \<in> set (col_refs colony)" and "scanned r h ref e"
  shows "gpu_inv r colony (insert (or_Name ref) names) (mput (or_Name ref) e gpus) h"
  using assms by (auto simp: gpu_inv_def inventory_entry_ok_def gomap)

lemma wp_scan:
  assumes "cr_childClientForCD r = None" and "gpu_inv r colony names gpus (cs_trace s)" and "set refs \<subseteq> set (col_refs colony)"
  shows "wp (scan_refs r (cst_GPUInventory (col_Status colony)) refs gpus)
    (\<lambda>gpus' s'. gpu_inv r colony (names \<union> or_Name ` set refs) gpus' (cs_trace s')) s"
  using assms(2,3)
proof (induction refs arbitrary: names gpus s)
  case (Cons ref refs)
  have client: "client_for r = infra_cluster_client (cr_api r)" using assms(1) by (simp add: client_for_def)
  have step: "wp (scan_refs r (cst_GPUInventory (col_Status colony)) refs gpus')
      (\<lambda>gpus'' s''. gpu_inv r colony (names \<union> or_Name ` set (ref # refs)) gpus'' (cs_trace s'')) s'"
    if "gpu_inv r colony (insert (or_Name ref) names) gpus' (cs_trace s')" for gpus' s'
    using Cons.IH [OF that] Cons.prems(2) by simp
  show ?case
    unfolding scan_refs.simps client scanClusterGPUOfferings_def
  proof (intro wp_intros wp_mono [OF wp_child_client], goal_cases)
    case (1 cr s' e)
    with Cons.prems(1) show ?case by (intro step gpu_inv_keep) (auto intro: gpu_inv_append)
  next
    case (2 cr s' kc nr w' e)
    with Cons.prems(1) show ?case by (intro step gpu_inv_keep) (auto intro: gpu_inv_append)
  next
    case (3 cr s' kc nr w' offerings t w'')
    with Cons.prems show ?case
      by (intro step gpu_inv_put) (auto intro: gpu_inv_append simp: scanned_def split: sum.splits)
  qed
qed simp

lemma refresh_inventory:
  assumes "cr_childClientForCD r = None" and "run_state (refreshGPUInventory r colony) (idle w) = (colony', s')"
  shows "gpu_inv r colony (or_Name ` set (col_refs colony)) (cst_GPUInventory (col_Status colony')) (cs_trace s')"
proof -
  have "wp (refreshGPUInventory r colony)
      (\<lambda>colony' s'. gpu_inv r colony (or_Name ` set (col_refs colony)) (cst_GPUInventory (col_Status colony')) (cs_trace s')) (idle w)"
    unfolding refreshGPUInventory_def Let_def
    by (intro wp_intros wp_mono [OF wp_scan [OF assms(1), of _ "{}"]]) (auto simp: gpu_inv_def)
  from wp_run [OF assms(2) this] show ?thesis .
qed

text \<open>
  C32: the GPU inventory is fresh or kept.  After the refresh, every cluster the Colony refers to has the
  entry it had before (none, if it had none), or one computed from the nodes of that cluster, read with its
  own kubeconfig in this run; a cluster that cannot be reached keeps its entry and does not disturb the
  others, and clusters the Colony does not refer to have none.
\<close>

theorem gpu_inventory_fresh_or_kept:
  assumes "cr_childClientForCD r = None" and "run_state (refreshGPUInventory r colony) (idle w) = (colony', s')"
  shows "(\<forall>name \<in> or_Name ` set (col_refs colony).
      inventory_entry_ok r colony (cs_trace s') name (map_of (cst_GPUInventory (col_Status colony')) name)) \<and>
    (\<forall>name. name \<notin> or_Name ` set (col_refs colony) \<longrightarrow> map_of (cst_GPUInventory (col_Status colony')) name = None)"
  using refresh_inventory [OF assms] by (auto simp: gpu_inv_def)

definition gpu_run :: "Colony \<times> (unit, (int, int) iev) cstate" where
  "gpu_run = run_state (refreshGPUInventory (reconciler_of live_infra) (colony_at [] [example_cluster] [''c-a''])) (idle ())"

theorem gpu_inventory_fresh_or_kept_witness:
  "inventory_entry_ok (reconciler_of live_infra) (colony_at [] [example_cluster] [''c-a'']) (cs_trace (snd gpu_run)) ''c-a''
     (map_of (cst_GPUInventory (col_Status (fst gpu_run))) ''c-a'') \<and>
   map_of (cst_GPUInventory (col_Status (fst gpu_run))) ''c-b'' = None"
  using gpu_inventory_fresh_or_kept [of "reconciler_of live_infra" "colony_at [] [example_cluster] [''c-a'']" "()" "fst gpu_run" "snd gpu_run"]
  by (simp add: gpu_run_def reconciler_of_def colony_at_def)

end
