(* ===== verification/Colony_Workspace.thy ===== *)
theory Colony_Workspace
  imports Colony_Outputs Reconcile_Properties
begin

text \<open>
  The two sides of the operator together: what the Colony controller publishes in
  \<open>status.gpuInventory\<close> and what the workspace controller later checks at its GPU gate; the kubeconfig
  Secrets the Colony controller mirrors and the client the workspace controller builds from them.
\<close>

section \<open>Lemmas\<close>

lemma offering_selector_map_ok:
  assumes "\<And>xs. mset (iter xs) = mset xs" and "x \<in> set (DeriveOfferings iter Q nodes no_options)"
  shows "map_ok (o_Selector x)"
proof -
  obtain k where "(k, x) \<in> set (foldl (derive_node Q no_options) [] nodes)"
    using assms(2) by (auto simp: set_DeriveOfferings [OF assms(1)])
  with grouped_derive have "group_entry Q no_options (contributions Q nodes) k x" by (fastforce simp: grouped_def)
  then show ?thesis
    by (auto simp: group_entry_def contrib_selector_def resolveModelSelector_def Let_def map_ok_def split: option.splits)
qed

text \<open>A user who copies the selector of an offering into \<open>gpuNodeSelector\<close> asks for exactly it.\<close>

definition picks :: "'q WorkspaceDeployment \<Rightarrow> GPUOffering \<Rightarrow> bool" where
  "picks w off \<longleftrightarrow>
     (\<exists>u. wss_Resources (wsd_Spec w) = Some u \<and> rr_GPUNodeSelector (ws_PerReplica u) = Some (go_Selector off) \<and>
        rr_GPUType (ws_PerReplica u) = None)"

lemma picks_selector:
  "picks w off \<Longrightarrow> map_ok (go_Selector off) \<Longrightarrow> gpuSelectorOf (resolved_of wsc w) = go_Selector off"
  by (auto simp: picks_def resolved_of_def gpuSelectorOf_def BuildSelector_def mergeResources_def Let_def
      gpuModelOf_def node_selector_def)

text \<open>The child cluster as the gate sees it: these nodes, no pods, and no older workspace waiting.\<close>

definition shows_idle :: "('w, 'q) reconciler \<Rightarrow> 'q WorkspaceDeployment \<Rightarrow> labels \<Rightarrow> 'q Node list \<Rightarrow> bool" where
  "shows_idle wr w sel nodes \<longleftrightarrow>
     (\<exists>kc. answers_child wr w kc \<and> (\<forall>v. fst (api_list_nodes (r_api wr) kc v) = Inr nodes) \<and>
        (\<forall>v. fst (api_list_pods (r_api wr) kc v) = Inr [])) \<and>
     (\<exists>items. (\<forall>v. fst (api_list_wsds (r_api wr) None v) = Inr items) \<and> \<not> older_waiting items w (selectorKey sel))"

lemma wp_hasOlder:
  assumes "\<forall>v. fst (api_list_wsds (r_api wr) None v) = Inr items" and "\<not> older_waiting items (rs_wsd s) (selectorKey sel)"
  shows "wp (hasOlderWaitingSibling wr sel) (\<lambda>a s'. a = Inr False) s"
  using assms by (auto simp: hasOlderWaitingSibling_def wp_exec split: prod.splits)

lemma wp_gate_open:
  assumes "gpuSelectorOf (resolved_of wsc (rs_wsd s)) = sel" and "shows_idle wr (rs_wsd s) sel nodes"
    and "sa_Found (AvailabilityForSelector (r_Q wr) nodes [] sel)"
    and "gpuDemand (resolved_of wsc (rs_wsd s)) \<le> sa_Free (AvailabilityForSelector (r_Q wr) nodes [] sel)"
  shows "wp (gateGPUOffering wr wsc) (\<lambda>a _. a = (no_requeue, True)) s"
proof (cases "sel = []")
  case True
  then show ?thesis
    using assms(1) by (simp add: gateGPUOffering_def resolved_of_def Let_def wp_exec)
next
  case False
  let ?avail = "AvailabilityForSelector (r_Q wr) nodes [] sel"
  from assms(2) obtain kc items where kc: "answers_child wr (rs_wsd s) kc"
    and nodes: "\<And>v. fst (api_list_nodes (r_api wr) kc v) = Inr nodes" and pods: "\<And>v. fst (api_list_pods (r_api wr) kc v) = Inr []"
    and items: "\<forall>v. fst (api_list_wsds (r_api wr) None v) = Inr items" "\<not> older_waiting items (rs_wsd s) (selectorKey sel)"
    by (auto simp: shows_idle_def)
  have decide: "wp (gate_decision wr (resolved_of wsc (rs_wsd s)) sel ?avail) (\<lambda>a _. a = (no_requeue, True)) t"
    if "rs_wsd t = rs_wsd s" for t
    unfolding gate_decision_def Let_def
    using assms(3,4) that items(2)
    by (auto simp: wp_exec intro!: wp_mono [OF wp_hasOlder [OF items(1)]])
  show ?thesis
    unfolding gateGPUOffering_def Let_def
    using False assms(1) decide
    by (auto simp: wp_exec resolved_of_def nodes pods intro!: wp_mono [OF wp_child [OF kc]])
qed

text \<open>
  C21: Picking what is published opens the gate.  When a refresh recomputes the entry of a cluster, then
  the offerings published there are derived from nodes it listed, and for every one with a selector: a
  workspace whose \<open>gpuNodeSelector\<close> is that selector and which demands no more GPUs than the offering's
  total passes the GPU gate whenever the gate finds the nodes the refresh read, no pods using them and no
  older workspace waiting, provided the GPUs of the schedulable nodes together are an \<open>int64\<close>.
\<close>

theorem published_offering_passes_gate:
  assumes "\<And>xs. mset (cr_iter r xs) = mset xs" and "cr_childClientForCD r = None"
    and "run_state (refreshGPUInventory r colony) (idle v) = (colony', s')"
    and "map_of (cst_GPUInventory (col_Status colony')) name = Some entry"
    and "map_of (cst_GPUInventory (col_Status colony)) name \<noteq> Some entry"
    and "off \<in> set (gi_Offerings entry)" and "go_Selector off \<noteq> []"
  shows "\<exists>kc nodes. IListNodes kc (Inr nodes) \<in> set (cs_trace s') \<and>
    gi_Offerings entry = map published_offering (DeriveOfferings (cr_iter r) (cr_Q r) nodes no_options) \<and>
    (\<forall>wr wsc s res s''. is_i64 (\<Sum>n \<leftarrow> filter nodeIsSchedulable nodes. node_total (cr_Q r) n) \<and>
       r_Q wr = cr_Q r \<and> picks (rs_wsd s) off \<and>
       gpuDemand (resolved_of wsc (rs_wsd s)) \<le> go_Total off \<and>
       shows_idle (wr :: ('v, 'q) reconciler) (rs_wsd s) (go_Selector off) nodes \<and>
       run_state (gateGPUOffering wr wsc) s = (res, s'') \<longrightarrow> res = (no_requeue, True))"
proof -
  have inv: "gpu_inv r colony (or_Name ` set (col_refs colony)) (cst_GPUInventory (col_Status colony')) (cs_trace s')"
    by (rule refresh_inventory [OF assms(2,3)])
  have "name \<in> or_Name ` set (col_refs colony)"
  proof (rule ccontr)
    assume "name \<notin> or_Name ` set (col_refs colony)"
    then show False using inv assms(4) by (simp add: gpu_inv_def)
  qed
  with inv assms(4,5) obtain ref where "scanned r (cs_trace s') ref entry"
    by (fastforce simp: gpu_inv_def inventory_entry_ok_def)
  then obtain kc nodes where n: "IListNodes kc (Inr nodes) \<in> set (cs_trace s')"
    and o: "gi_Offerings entry = map published_offering (DeriveOfferings (cr_iter r) (cr_Q r) nodes no_options)"
    by (auto simp: scanned_def)
  from assms(6) o obtain x where x: "x \<in> set (DeriveOfferings (cr_iter r) (cr_Q r) nodes no_options)"
    and off: "off = published_offering x" by auto
  have sel: "go_Selector off = o_Selector x" "go_Total off = o_Total x" by (simp_all add: off published_offering_def)
  have ok: "map_ok (go_Selector off)" using offering_selector_map_ok [OF assms(1) x] by (simp add: sel)
  have av: "sa_Found (AvailabilityForSelector (cr_Q r) nodes [] (go_Selector off)) \<and>
      go_Total off \<le> sa_Free (AvailabilityForSelector (cr_Q r) nodes [] (go_Selector off))"
    if "is_i64 (\<Sum>n \<leftarrow> filter nodeIsSchedulable nodes. node_total (cr_Q r) n)"
    using offering_selector_passes_gate [OF assms(1) x _ that] assms(7) by (simp add: sel)
  have "res = (no_requeue, True)"
    if "r_Q wr = cr_Q r" "picks (rs_wsd s) off" "gpuDemand (resolved_of wsc (rs_wsd s)) \<le> go_Total off"
      "shows_idle wr (rs_wsd s) (go_Selector off) nodes" "run_state (gateGPUOffering wr wsc) s = (res, s'')"
      "is_i64 (\<Sum>n \<leftarrow> filter nodeIsSchedulable nodes. node_total (cr_Q r) n)"
    for wr :: "('v, 'q) reconciler" and wsc s res s''
    by (rule wp_run [OF that(5)], rule wp_gate_open [OF picks_selector [OF that(2) ok] that(4)])
       (use av [OF that(6)] that(1,3) in simp_all)
  then show ?thesis using n o by blast
qed

section \<open>A concrete pick\<close>

definition gpu_infra :: "(unit, int, int) infra_api" where
  "gpu_infra = live_infra\<lparr>ia_list_nodes := (\<lambda>_ w. (Inr demo_nodes, w))\<rparr>"

definition demo_colony :: Colony where
  "demo_colony = colony_at [] [example_cluster] [''c-a'']"

definition demo_inventory :: ClusterGPUInventory where
  "demo_inventory = \<lparr>gi_LastUpdated = 1,
     gi_Offerings = map published_offering (DeriveOfferings id int_qops demo_nodes no_options)\<rparr>"

definition l40_offering :: GPUOffering where
  "l40_offering = published_offering (DeriveOfferings id int_qops demo_nodes no_options ! 1)"

definition picking_wsd :: "int WorkspaceDeployment" where
  "picking_wsd = (demo_wsd ''cd'' ''w'')\<lparr>wsd_Spec := (wsd_Spec (demo_wsd ''cd'' ''w''))\<lparr>wss_Resources := Some
     \<lparr>ws_Replicas = None, ws_PerReplica = \<lparr>rr_CPU = None, rr_Memory = None, rr_Storage = None, rr_GPUCount = Some 2,
        rr_GPUVendor = None, rr_GPUType = None, rr_GPUNodeSelector = Some [(''nvidia.com/gpu.product'', ''NVIDIA-L40'')]\<rparr>\<rparr>\<rparr>\<rparr>"

definition picking_world :: "(int, int) reconciler" where
  "picking_world = demo_r\<lparr>r_api := demo_api\<lparr>api_list_nodes := (\<lambda>_ v. (Inr demo_nodes, v))\<rparr>\<rparr>"

lemma l40_offering_sel:
  "go_Selector l40_offering = [(''nvidia.com/gpu.product'', ''NVIDIA-L40'')]" "go_Total l40_offering = 2"
  "l40_offering \<in> set (gi_Offerings demo_inventory)"
proof -
  show "go_Selector l40_offering = [(''nvidia.com/gpu.product'', ''NVIDIA-L40'')]" by code_simp
  show "go_Total l40_offering = 2" by code_simp
  have "length (DeriveOfferings id int_qops demo_nodes no_options) = 2" by code_simp
  then show "l40_offering \<in> set (gi_Offerings demo_inventory)" by (simp add: demo_inventory_def l40_offering_def)
qed

lemma demo_refresh:
  "wp (refreshGPUInventory (reconciler_of gpu_infra) demo_colony)
     (\<lambda>c s'. map_of (cst_GPUInventory (col_Status c)) ''c-a'' = Some demo_inventory \<and>
        (\<forall>kc nodes. IListNodes kc (Inr nodes) \<in> set (cs_trace s') \<longrightarrow> nodes = demo_nodes)) (idle ())"
  by (simp add: refreshGPUInventory_def demo_colony_def colony_at_def reconciler_of_def client_for_def infra_cluster_client_def
      cluster_client_for_cd_def get_secret_def new_client_def scanClusterGPUOfferings_def gpu_infra_def live_infra_def
      empty_infra_def demo_inventory_def Secret.truncate_def wp_rules Let_def)

lemma picking_idle: "shows_idle picking_world picking_wsd (go_Selector l40_offering) demo_nodes"
  by (auto simp: shows_idle_def answers_child_def picking_world_def demo_r_def demo_api_def older_waiting_def)

lemma picking_demand: "picks picking_wsd l40_offering" "gpuDemand (resolved_of (demo_wsc []) picking_wsd) \<le> go_Total l40_offering"
  by (simp_all add: picks_def picking_wsd_def l40_offering_sel resolved_of_def gpuDemand_def mergeResources_def Let_def i64_def demo_wsc_def)

theorem published_offering_passes_gate_witness:
  "fst (run_state (gateGPUOffering picking_world (demo_wsc [])) (demo_s picking_wsd)) = (no_requeue, True)"
proof -
  obtain c s' where run: "run_state (refreshGPUInventory (reconciler_of gpu_infra) demo_colony) (idle ()) = (c, s')"
    by fastforce
  from wp_run [OF run demo_refresh]
  have inv: "map_of (cst_GPUInventory (col_Status c)) ''c-a'' = Some demo_inventory"
    and only: "\<And>kc nodes. IListNodes kc (Inr nodes) \<in> set (cs_trace s') \<Longrightarrow> nodes = demo_nodes" by auto
  have laws: "mset (cr_iter (reconciler_of gpu_infra) xs) = mset xs" "cr_childClientForCD (reconciler_of gpu_infra) = None"
    "map_of (cst_GPUInventory (col_Status demo_colony)) ''c-a'' \<noteq> Some demo_inventory" "go_Selector l40_offering \<noteq> []"
    "r_Q picking_world = cr_Q (reconciler_of gpu_infra)" for xs
    by (simp_all add: reconciler_of_def demo_colony_def colony_at_def l40_offering_sel picking_world_def demo_r_def)
  have "is_i64 (\<Sum>n \<leftarrow> filter nodeIsSchedulable demo_nodes. node_total int_qops n)" by code_simp
  then have range: "is_i64 (\<Sum>n \<leftarrow> filter nodeIsSchedulable demo_nodes. node_total (cr_Q (reconciler_of gpu_infra)) n)"
    by (simp add: reconciler_of_def)
  from published_offering_passes_gate [OF laws(1,2) run inv laws(3) l40_offering_sel(3) laws(4), where 'v = int] only
  show ?thesis using laws(5) picking_demand picking_idle range
    by (metis demo_s_def prod.collapse rstate.select_convs(2))
qed

section \<open>Kubeconfigs handed over\<close>

text \<open>API servers that store the Secrets they accept: \<open>view\<close> is what the management cluster holds under
  a namespace and a name in a world.  Reads change nothing and return the object that was asked for.\<close>

definition stores_secrets ::
  "('w, 'x, 'q) infra_api \<Rightarrow> ('w \<Rightarrow> string \<times> string \<Rightarrow> KSecret option) \<Rightarrow> bool" where
  "stores_secrets api view \<longleftrightarrow>
     (\<forall>c ns name w secret w'. ia_get_secret api c ns name w = (Inr secret, w') \<longrightarrow>
        sec_Namespace secret = ns \<and> sec_Name secret = name \<and> (c = Management \<longrightarrow> w' = w \<and> view w (ns, name) = Some secret)) \<and>
     (\<forall>secret w w'. ia_create_secret api secret w = (None, w') \<longrightarrow>
        view w' = (view w)((sec_Namespace secret, sec_Name secret) \<mapsto> secret)) \<and>
     (\<forall>secret w stored w'. ia_update_secret api secret w = (Inr stored, w') \<longrightarrow>
        view w' = (view w)((sec_Namespace secret, sec_Name secret) \<mapsto> secret))"

lemma stores_secretsD:
  assumes "stores_secrets api view"
  shows "ia_get_secret api c ns name w = (Inr secret, w') \<Longrightarrow> sec_Namespace secret = ns \<and> sec_Name secret = name"
    and "ia_get_secret api Management ns name w = (Inr secret, w') \<Longrightarrow>
      w' = w \<and> view w (ns, name) = Some secret \<and> sec_Namespace secret = ns \<and> sec_Name secret = name"
    and "ia_create_secret api secret w = (None, w') \<Longrightarrow> view w' = (view w)((sec_Namespace secret, sec_Name secret) \<mapsto> secret)"
    and "ia_update_secret api secret w = (Inr stored, w') \<Longrightarrow> view w' = (view w)((sec_Namespace secret, sec_Name secret) \<mapsto> secret)"
  using assms unfolding stores_secrets_def by blast+

text \<open>What is held at a place carries the kubeconfig of \<open>src\<close>.\<close>

definition holds_kubeconfig :: "(string \<times> string \<Rightarrow> KSecret option) \<Rightarrow> string \<Rightarrow> string \<Rightarrow> KSecret \<Rightarrow> bool" where
  "holds_kubeconfig held ns name src \<longleftrightarrow>
     (\<exists>m. held (ns, name) = Some m \<and>
        (\<forall>kc. map_of (sec_Data src) ''value'' = Some kc \<and> kc \<noteq> [] \<longrightarrow> map_of (sec_Data m) ''value'' = Some kc))"

lemma lget_value: "lget m k = lget m' k \<Longrightarrow> map_of m' k = Some v \<Longrightarrow> v \<noteq> [] \<Longrightarrow> map_of m k = Some v"
  by (auto simp: lget_def split: option.splits)

lemma wp_mirror_stored:
  assumes "stores_secrets api view"
  shows "wp (mirrorKubeconfigSecret api colony src) (\<lambda>res s'. (\<exists>es. cs_trace s' = cs_trace s @ es) \<and>
    (res = None \<longrightarrow> holds_kubeconfig (view (cs_world s')) (col_Namespace colony) (sec_Name src) src)) s"
  unfolding mirrorKubeconfigSecret_def get_secret_def Let_def
  by (intro wp_intros) (auto simp: holds_kubeconfig_def
      dest!: stores_secretsD(2-4) [OF assms] intro: lget_value)

lemma wp_reference_stored:
  assumes "stores_secrets api view" and "or_Namespace ref = col_Namespace colony"
  shows "wp (kubeconfig_reference api colony ref) (\<lambda>res s'. \<forall>bytes. res = Inr bytes \<longrightarrow>
    (\<exists>c src. IGetSecret c (or_Namespace ref) (or_Name ref @ ''-kubeconfig'') (Inr src) \<in> set (cs_trace s') \<and>
       holds_kubeconfig (view (cs_world s')) (or_Namespace ref) (or_Name ref @ ''-kubeconfig'') src)) s"
  unfolding kubeconfig_reference_def get_secret_def Let_def
  by (intro wp_intros wp_mono [OF wp_any [where m = "ResolveRegionalClient api colony n" for n]] wp_mono [OF wp_mirror_stored [OF assms(1)]])
     (auto simp: assms(2) holds_kubeconfig_def dest!: stores_secretsD(2) [OF assms(1)],
      metis stores_secretsD(1) [OF assms(1)])

text \<open>The workspace controller reads the Secrets held and its client library accepts the kubeconfig.\<close>

definition reads_held :: "('v, 'q) reconciler \<Rightarrow> 'v \<Rightarrow> (string \<times> string \<Rightarrow> KSecret option) \<Rightarrow> bool" where
  "reads_held wr v held \<longleftrightarrow>
     (\<forall>ns name secret. held (ns, name) = Some secret \<longrightarrow> fst (api_get_secret (r_api wr) ns name v) = Inr (Secret.truncate secret))"

definition accepts_kubeconfig :: "('v, 'q) reconciler \<Rightarrow> kubeconfig \<Rightarrow> bool" where
  "accepts_kubeconfig wr kc \<longleftrightarrow> api_rest_config (r_api wr) kc = None \<and> (\<forall>v. fst (api_new_client (r_api wr) kc v) = None)"

lemma wp_client_of_held:
  assumes "holds_kubeconfig held ns (cd @ ''-kubeconfig'') src" and "reads_held wr (rs_world t) held"
    and "map_of (sec_Data src) ''value'' = Some kc" and "kc \<noteq> []" and "accepts_kubeconfig wr kc"
  shows "wp (GetClusterClientForCD wr ns cd) (\<lambda>res _. res = Inr kc) t"
  using assms
  by (auto simp: GetClusterClientForCD_def cluster_client_for_cd_def holds_kubeconfig_def reads_held_def accepts_kubeconfig_def
      Let_def wp_exec Secret.truncate_def)

text \<open>
  C22: A published kubeconfig reference can be followed.  When a round of the Colony's kubeconfig loop
  yields a reference for a cluster in the Colony's namespace, then some cluster's Secret was read for
  it, and the workspace controller that later reads what the management cluster then holds gets a
  client with exactly the kubeconfig of that Secret (its value not empty), also when the Secret lives
  in a regional cluster and only its mirror, created now or brought up to date, is on the management
  cluster.
\<close>

theorem referenced_kubeconfig_opens_client:
  assumes "stores_secrets api view" and "or_Namespace ref = col_Namespace colony"
    and "run_state (kubeconfig_reference api colony ref) s = (Inr bytes, s')"
  shows "\<exists>c src. IGetSecret c (or_Namespace ref) (or_Name ref @ ''-kubeconfig'') (Inr src) \<in> set (cs_trace s') \<and>
    (\<forall>kc wr t res t'. map_of (sec_Data src) ''value'' = Some kc \<and> kc \<noteq> [] \<and>
       reads_held (wr :: ('v, 'r) reconciler) (rs_world t) (view (cs_world s')) \<and> accepts_kubeconfig wr kc \<and>
       run_state (GetClusterClientForCD wr (or_Namespace ref) (or_Name ref)) t = (res, t') \<longrightarrow> res = Inr kc)"
proof -
  from wp_run [OF assms(3) wp_reference_stored [OF assms(1,2)]] obtain c src
    where read: "IGetSecret c (or_Namespace ref) (or_Name ref @ ''-kubeconfig'') (Inr src) \<in> set (cs_trace s')"
      and held: "holds_kubeconfig (view (cs_world s')) (or_Namespace ref) (or_Name ref @ ''-kubeconfig'') src" by auto
  have "res = Inr kc"
    if "map_of (sec_Data src) ''value'' = Some kc" "kc \<noteq> []" "reads_held wr (rs_world t) (view (cs_world s'))"
      "accepts_kubeconfig wr kc" "run_state (GetClusterClientForCD wr (or_Namespace ref) (or_Name ref)) t = (res, t')"
    for kc res t' and wr :: "('v, 'r) reconciler" and t
    by (rule wp_run [OF that(5)], rule wp_client_of_held [OF held that(3,1,2,4)])
  with read show ?thesis by blast
qed

section \<open>A concrete mirror\<close>

text \<open>A management cluster that keeps its Secrets in a list, the latest first, and holds the kubeconfig of
  the region \<open>r\<close>, whose cluster holds that of its child \<open>c-a\<close>.\<close>

definition held :: "KSecret list \<Rightarrow> string \<times> string \<Rightarrow> KSecret option" where
  "held w = (\<lambda>(ns, name). find (\<lambda>s. sec_Namespace s = ns \<and> sec_Name s = name) w)"

definition kubeconfig_secret :: "string \<Rightarrow> string \<Rightarrow> string \<Rightarrow> KSecret" where
  "kubeconfig_secret ns name kc =
     \<lparr>sec_Name = name, sec_Namespace = ns, sec_Data = [(''value'', kc)], sec_Labels = [], sec_Owners = []\<rparr>"

definition region_infra :: "(KSecret list, int, int) infra_api" where
  "region_infra = empty_infra\<lparr>
     ia_list_cds := \<lambda>ns _ _ w. (Inr [example_cd ns ''r''], w),
     ia_get_secret := \<lambda>c ns name w. (case c of
         Remote _ \<Rightarrow> Inr (kubeconfig_secret ns name ''child-kc'')
       | Management \<Rightarrow> (case held w (ns, name) of None \<Rightarrow> Inl nothing_found | Some s \<Rightarrow> Inr s), w),
     ia_create_secret := \<lambda>s w. (None, s # w), ia_update_secret := \<lambda>s w. (Inr s, s # w)\<rparr>"

definition region_colony :: Colony where
  "region_colony = colony_at [] [example_cluster\<lparr>cc_ClusterLabels := Some [(LabelKOFRegionalClusterName, ''r'')]\<rparr>] [''c-a'']"

definition child_ref :: ObjectReference where
  "child_ref = \<lparr>or_APIVersion = [], or_Kind = [], or_Namespace = ''n'', or_Name = ''c-a''\<rparr>"

definition mirror_run :: "((Result \<times> goerr option) + string) \<times> (KSecret list, (int, int) iev) cstate" where
  "mirror_run = run_state (kubeconfig_reference region_infra region_colony child_ref)
     (idle [kubeconfig_secret ''n'' ''r-kubeconfig'' ''region-kc''])"

definition following_r :: "(int, int) reconciler" where
  "following_r = demo_r\<lparr>r_api := demo_api\<lparr>api_get_secret := \<lambda>ns name v.
     (case held (cs_world (snd mirror_run)) (ns, name) of None \<Rightarrow> Inl nothing_found | Some s \<Rightarrow> Inr (Secret.truncate s), v)\<rparr>\<rparr>"

lemma region_infra_stores: "stores_secrets region_infra held"
  by (auto simp: stores_secrets_def region_infra_def held_def fun_eq_iff find_Some_iff kubeconfig_secret_def
      split: option.splits kclient.splits)

lemma mirror_run_result:
  "wp (kubeconfig_reference region_infra region_colony child_ref)
     (\<lambda>res s'. res = Inr ''c-a-kubeconfig'' \<and>
        (\<forall>c src. IGetSecret c ''n'' ''c-a-kubeconfig'' (Inr src) \<in> set (cs_trace s') \<longrightarrow> sec_Data src = [(''value'', ''child-kc'')]))
     (idle [kubeconfig_secret ''n'' ''r-kubeconfig'' ''region-kc''])"
  by (simp add: colony_run_defs live_defs wp_rules Let_def region_infra_def region_colony_def child_ref_def held_def
      kubeconfig_secret_def infra_find_regional_def find_regional_cd_def mirrorKubeconfigSecret_def LabelKOFRegionalClusterName_def)

theorem referenced_kubeconfig_opens_client_witness:
  "fst (run_state (GetClusterClientForCD following_r ''n'' ''c-a'') (demo_s picking_wsd)) = Inr ''child-kc''"
proof -
  have run: "run_state (kubeconfig_reference region_infra region_colony child_ref)
      (idle [kubeconfig_secret ''n'' ''r-kubeconfig'' ''region-kc'']) = (Inr ''c-a-kubeconfig'', snd mirror_run)"
    and data: "\<And>c src. IGetSecret c ''n'' ''c-a-kubeconfig'' (Inr src) \<in> set (cs_trace (snd mirror_run)) \<Longrightarrow>
      sec_Data src = [(''value'', ''child-kc'')]"
    using mirror_run_result by (auto simp: wp_def mirror_run_def split: prod.splits)
  have ns: "or_Namespace child_ref = col_Namespace region_colony" "or_Namespace child_ref = ''n''" "or_Name child_ref = ''c-a''"
    by (simp_all add: child_ref_def region_colony_def colony_at_def)
  have "reads_held following_r 100 (held (cs_world (snd mirror_run)))" "accepts_kubeconfig following_r ''child-kc''"
    by (simp_all add: reads_held_def accepts_kubeconfig_def following_r_def demo_r_def demo_api_def)
  moreover obtain c src where src: "IGetSecret c ''n'' ''c-a-kubeconfig'' (Inr src) \<in> set (cs_trace (snd mirror_run))"
    and opens: "\<forall>kc wr t res t'. map_of (sec_Data src) ''value'' = Some kc \<and> kc \<noteq> [] \<and>
       reads_held (wr :: (int, int) reconciler) (rs_world t) (held (cs_world (snd mirror_run))) \<and> accepts_kubeconfig wr kc \<and>
       run_state (GetClusterClientForCD wr ''n'' ''c-a'') t = (res, t') \<longrightarrow> res = Inr kc"
    using referenced_kubeconfig_opens_client [OF region_infra_stores ns(1) run, where 'v = int and 'r = int] ns(2,3) by auto
  moreover obtain res t' where "run_state (GetClusterClientForCD following_r ''n'' ''c-a'') (demo_s picking_wsd) = (res, t')"
    by (cases "run_state (GetClusterClientForCD following_r ''n'' ''c-a'') (demo_s picking_wsd)")
  moreover have "map_of (sec_Data src) ''value'' = Some ''child-kc''" "rs_world (demo_s picking_wsd) = 100"
    using data [OF src] by (simp_all add: demo_s_def)
  ultimately have "res = Inr ''child-kc''"
    by (intro opens [rule_format, of "''child-kc''" following_r "demo_s picking_wsd"] conjI) simp_all
  then show ?thesis by (simp add: \<open>run_state _ _ = (res, t')\<close>)
qed

end
