(* ===== verification/Endpoint_Properties.thy ===== *)
theory Endpoint_Properties
  imports Service_Discovery
begin

text \<open>
  The endpoint of a control plane on its way from the service to the ConfigMap: what
  \<open>DetermineAPIEndpoint\<close> prints, \<open>parseEndpoint\<close> reads back, and the address published is one that
  workers can dial.
\<close>

section \<open>Round trips\<close>

lemma split_colon_plain: "CHR '':'' \<notin> set s \<Longrightarrow> split_colon acc s = [rev acc @ s]"
  by (induction s arbitrary: acc) auto

lemma split_colon_append: "CHR '':'' \<notin> set a \<Longrightarrow> split_colon acc (a @ CHR '':'' # b) = (rev acc @ a) # split_colon [] b"
  by (induction a arbitrary: acc) auto

lemma nat_digits_range: "c \<in> set (nat_digits n) \<Longrightarrow> (of_char c :: nat) < 58"
proof (induction n rule: nat_digits.induct)
  case (1 n)
  show ?case
  proof (cases "n < 10")
    case True
    with 1 have "c = char_of (48 + n)" by (simp add: nat_digits.simps [of n])
    with True show ?thesis by simp
  next
    case False
    with 1 show ?thesis by (auto simp: nat_digits.simps [of n])
  qed
qed

lemma fmt_d_plain: "CHR '':'' \<notin> set (fmt_d i)" "fmt_d i \<noteq> []"
  using nat_digits_range [of "CHR '':''"] hd_nat_digits by (auto simp: fmt_d_def)

text \<open>A host as Kubernetes reports it: a name or an address, without brackets.\<close>

definition plain_host :: "string \<Rightarrow> bool" where
  "plain_host host \<longleftrightarrow> host \<noteq> [] \<and> CHR ''['' \<notin> set host \<and> CHR '']'' \<notin> set host"

lemma plain_host_ne: "plain_host host \<Longrightarrow> host \<noteq> []"
  by (simp add: plain_host_def)

lemma parse_join:
  assumes "plain_host host"
  shows "parseEndpoint (joinHostPort host port) = Inr (host, fmt_d port)"
proof (cases "CHR '':'' \<in> set host")
  case True
  have "takeWhile (\<lambda>c. c \<noteq> CHR '']'') (CHR ''['' # host @ CHR '']'' # CHR '':'' # fmt_d port) = CHR ''['' # host"
    using assms by (subst takeWhile.simps, subst takeWhile_append2) (auto simp: plain_host_def)
  then have "cut_bracket (joinHostPort host port) = Some (CHR ''['' # host, CHR '':'' # fmt_d port)"
    using True by (simp add: cut_bracket_def joinHostPort_def Let_def)
  with True show ?thesis by (simp add: parseEndpoint_def joinHostPort_def)
next
  case False
  have "\<not> prefix ''['' (host @ CHR '':'' # fmt_d port)"
    using assms by (cases host) (auto simp: plain_host_def)
  with False assms show ?thesis
    by (simp add: parseEndpoint_def joinHostPort_def split_colon_append split_colon_plain fmt_d_plain plain_host_def)
qed

lemma extract_cluster_name: "ExtractClusterNameFromDeploymentName d c = n \<and> n \<noteq> [] \<longleftrightarrow> d = c @ ''-'' @ n \<and> n \<noteq> []"
  by (auto simp: ExtractClusterNameFromDeploymentName_def Let_def) (metis append_Cons append_Nil append_assoc append_take_drop_id)


section \<open>What is published\<close>

text \<open>
  The address that workers can dial: the external address of a load balancer, the control plane endpoint
  of the Cluster API cluster behind a NodePort, and the cluster IP of anything else.
\<close>

definition external :: "KService \<Rightarrow> string option" where
  "external service =
     (if ksv_Type service = ServiceTypeLoadBalancer then
        (case ksv_Ingress service of
           [] \<Rightarrow> None
         | i # _ \<Rightarrow> if lbi_Hostname i \<noteq> [] then Some (lbi_Hostname i) else if lbi_IP i \<noteq> [] then Some (lbi_IP i) else None)
      else None)"

definition dialable :: "KService \<Rightarrow> CAPICluster option \<Rightarrow> string \<Rightarrow> int \<Rightarrow> bool" where
  "dialable service capi host port \<longleftrightarrow>
     (case external service of
        Some address \<Rightarrow> host = address \<and> port = GetAPIServerPort service
      | None \<Rightarrow>
          if ksv_Type service = ServiceTypeNodePort then
            (\<exists>c. capi = Some c \<and> host = ce_Host c \<and> port = (if ce_Port c = 0 then GetAPIServerPort service else ce_Port c))
          else host = ksv_ClusterIP service \<and> port = GetAPIServerPort service)"

definition plain_addresses :: "KService \<Rightarrow> CAPICluster option \<Rightarrow> bool" where
  "plain_addresses service capi \<longleftrightarrow>
     (\<forall>a. external service = Some a \<longrightarrow> plain_host a) \<and> plain_host (ksv_ClusterIP service) \<and>
     (\<forall>c. capi = Some c \<and> ce_Host c \<noteq> [] \<longrightarrow> plain_host (ce_Host c))"

lemma GetServiceExternalAddress_external:
  "GetServiceExternalAddress service = (case external service of Some a \<Rightarrow> (a, True) | None \<Rightarrow> ([], False))"
  by (auto simp: GetServiceExternalAddress_def external_def split: list.splits)

lemma endpoint_dialable:
  assumes "DetermineAPIEndpoint service capi = Inr endpoint" and "plain_addresses service capi"
  shows "\<exists>host port. parseEndpoint endpoint = Inr (host, fmt_d port) \<and> host \<noteq> [] \<and> dialable service capi host port"
  using assms
  by (auto simp: DetermineAPIEndpoint_def GetServiceExternalAddress_external Let_def dialable_def plain_addresses_def parse_join plain_host_ne
      split: if_splits option.splits)

fun publishes :: "string \<Rightarrow> string \<Rightarrow> ('x, 'q) iev \<Rightarrow> bool" where
  "publishes host port (IGetCM kc ns name (Inr cm)) =
     (ns = ConfigMapNamespace \<and> name = ConfigMapName \<and>
      (\<exists>d. cm_Data cm = Some d \<and> lget d ''host'' = host \<and> lget d ''port'' = port))"
| "publishes host port (ICreateCM kc cm None) =
     (cm_Namespace cm = ConfigMapNamespace \<and> cm_Name cm = ConfigMapName \<and> cm_Data cm = Some [(''host'', host), (''port'', port)])"
| "publishes host port (IUpdateCM kc cm None) =
     (\<exists>d. cm_Data cm = Some d \<and> lget d ''host'' = host \<and> lget d ''port'' = port)"
| "publishes host port _ = False"

lemma lget_Nil: "lget [] k = []"
  by (simp add: lget_def)

lemma wp_EnsureConfigMap:
  assumes "parseEndpoint endpoint = Inr (host, port)" and "host \<noteq> []"
  shows "wp (EnsureAPIEndpointConfigMap api colony clusterName endpoint kc)
    (\<lambda>res s'. res = Ok () \<longrightarrow> cs_trace s' \<noteq> [] \<and> publishes host port (last (cs_trace s'))) s"
  unfolding EnsureAPIEndpointConfigMap_def getClientForChildCluster_def get_secret_def new_client_def Let_def assms(1)
  by (simp, intro wp_intros) (use assms(2) in \<open>auto simp: new_configmap_def lget_Nil split: option.splits\<close>)

text \<open>
  C33: workers are told an address they can dial.  Whenever an endpoint is determined for a control
  plane service, and the ConfigMap step returns without error, the ConfigMap of the child cluster holds
  a host and a port (it was read with them, or written with them last), and these are the external
  address of the load balancer, the control plane endpoint of the Cluster API cluster for a NodePort
  (never the cluster IP, which remote workers cannot reach), and the cluster IP otherwise.  The string
  in between is formatted by one component and parsed by the other; IPv6 addresses survive it.
\<close>

theorem endpoint_published:
  assumes "DetermineAPIEndpoint service capi = Inr endpoint" and "plain_addresses service capi"
    and "run_state (EnsureAPIEndpointConfigMap api colony clusterName endpoint kc) (idle w) = (Ok (), s')"
  shows "\<exists>host port. dialable service capi host port \<and> publishes host (fmt_d port) (last (cs_trace s'))"
proof -
  obtain host port where "parseEndpoint endpoint = Inr (host, fmt_d port)" "host \<noteq> []" and "dialable service capi host port"
    using endpoint_dialable [OF assms(1,2)] by blast
  with wp_run [OF assms(3) wp_EnsureConfigMap] show ?thesis by blast
qed

section \<open>A concrete run\<close>

definition example_service :: KService where
  "example_service = \<lparr>ksv_Name = ''kmc'', ksv_Type = ServiceTypeNodePort, ksv_ClusterIP = ''10.0.0.1'',
     ksv_Ports = [\<lparr>ksp_Name = ''api'', ksp_Port = 30443\<rparr>, \<lparr>ksp_Name = ''konnectivity'', ksp_Port = 30132\<rparr>], ksv_Ingress = []\<rparr>"

definition example_capi :: CAPICluster where
  "example_capi = \<lparr>ce_Host = ''fd00::1'', ce_Port = 6443\<rparr>"

definition reachable_infra :: "(unit, int, int) infra_api" where
  "reachable_infra = empty_infra\<lparr>ia_get_secret := \<lambda>_ ns name w. (Inr \<lparr>sec_Name = name, sec_Namespace = ns,
     sec_Data = [(''value'', ''kc'')], sec_Labels = [], sec_Owners = []\<rparr>, w)\<rparr>"

lemma char_digits:
  "char_of (51 :: nat) = CHR ''3''" "char_of (52 :: nat) = CHR ''4''" "char_of (54 :: nat) = CHR ''6''"
  by code_simp+

lemma fmt_6443: "fmt_d 6443 = ''6443''"
  by (simp add: fmt_d_def nat_digits.simps char_digits)

lemma example_endpoint: "DetermineAPIEndpoint example_service (Some example_capi) = Inr ''[fd00::1]:6443''"
  by (simp add: DetermineAPIEndpoint_def GetServiceExternalAddress_def no_cluster_ip_def joinHostPort_def example_service_def example_capi_def fmt_6443)

lemma example_addresses: "plain_addresses example_service (Some example_capi)"
  by (simp add: plain_addresses_def plain_host_def external_def example_service_def example_capi_def)

definition example_publish :: "unit outcome \<times> (unit, (int, int) iev) cstate" where
  "example_publish = run_state (EnsureAPIEndpointConfigMap reachable_infra (colony_at [] [] []) ''a'' ''[fd00::1]:6443'' None) (idle ())"

lemma example_publish_run:
  "fst example_publish = Ok ()" "last (cs_trace (snd example_publish)) =
     ICreateCM ''kc'' (new_configmap (colony_at [] [] []) ''a'' ''fd00::1'' ''6443'') None"
  by code_simp+

theorem endpoint_published_witness:
  "\<exists>host port. dialable example_service (Some example_capi) host port \<and>
     publishes host (fmt_d port) (last (cs_trace (snd example_publish)))"
  using endpoint_published [OF example_endpoint example_addresses, of reachable_infra "colony_at [] [] []" "''a''" None "()" "snd example_publish"]
    example_publish_run(1) by (simp add: example_publish_def prod_eq_iff)

end
