(* ===== verification/Preflight.thy ===== *)
theory Preflight
  imports Retry_Loops
begin

text \<open>
  \<open>internal/preflight/crd_check.go\<close>: which controllers find their CRDs in the cluster.  The discovery
  client, the context and the order in which Go ranges over a map are outside.
\<close>

section \<open>Data\<close>

record CRDDependency =
  crd_GroupVersion :: string
  crd_Resource :: string
  crd_Description :: string

record ControllerDependencies =
  ctd_Name :: string
  ctd_Dependencies :: "CRDDependency list"

record CheckResult =
  chk_Name :: string
  chk_Available :: bool
  chk_Missing :: "CRDDependency list"

text \<open>Durations are nanoseconds.\<close>

record CheckOptions =
  opt_MaxRetries :: int
  opt_InitialBackoff :: int
  opt_MaxBackoff :: int

definition DefaultCheckOptions :: CheckOptions where
  "DefaultCheckOptions = \<lparr>opt_MaxRetries = 5, opt_InitialBackoff = 2000000000, opt_MaxBackoff = 15000000000\<rparr>"

definition OperatorDependencies :: "ControllerDependencies list" where
  "OperatorDependencies =
     [\<lparr>ctd_Name = ''Colony'',
       ctd_Dependencies = [\<lparr>crd_GroupVersion = ''k0rdent.mirantis.com/v1beta1'', crd_Resource = ''clusterdeployments'',
                            crd_Description = ''K0rdent ClusterDeployment''\<rparr>]\<rparr>]"

text \<open>\<open>gvr\<close>: a group version and a resource.\<close>

type_synonym gvr = "string \<times> string"

definition gvr_of :: "CRDDependency \<Rightarrow> gvr" where
  "gvr_of d = (crd_GroupVersion d, crd_Resource d)"

section \<open>The outside\<close>

text \<open>
  \<open>dc_wait\<close> is the \<open>select\<close>: it returns the error of the context if that is done, and nothing once the
  backoff has passed.  \<open>dc_invalidate\<close> is there if the client has the method.  \<open>dc_iter\<close> is the order in
  which an attempt ranges over the map.
\<close>

record 'w discovery =
  dc_new :: "'w \<Rightarrow> goerr option \<times> 'w"
  dc_resources :: "string \<Rightarrow> 'w \<Rightarrow> (goerr + string list) \<times> 'w"
  dc_wait :: "int \<Rightarrow> 'w \<Rightarrow> goerr option \<times> 'w"
  dc_invalidate :: "('w \<Rightarrow> unit \<times> 'w) option"
  dc_iter :: "nat \<Rightarrow> gvr list \<Rightarrow> gvr list"

datatype dev =
    DNew "goerr option"
  | DResources gvr "goerr + string list"
  | DWait int "goerr option"
  | DInvalidate

type_synonym ('w, 'a) dcm = "('w, dev, 'a) calls"

section \<open>The check\<close>

text \<open>The keys of \<open>needed\<close>, each once.\<close>

definition needed_of :: "ControllerDependencies list \<Rightarrow> gvr list" where
  "needed_of deps = remdups (concat (map (\<lambda>cd. map gvr_of (ctd_Dependencies cd)) deps))"

text \<open>One round over the map; the found keys are those of \<open>available\<close>.\<close>

fun discover :: "'w discovery \<Rightarrow> gvr list \<Rightarrow> gvr list \<Rightarrow> ('w, gvr list) dcm" where
  "discover dc [] available = State_Monad.return available"
| "discover dc (g # gs) available =
     (if g \<in> set available then discover dc gs available
      else do {
        rr \<leftarrow> call (DResources g) (dc_resources dc (fst g));
        (case rr of
           Inl e \<Rightarrow> discover dc gs available
         | Inr names \<Rightarrow> discover dc gs (if snd g \<in> set names then g # available else available))
      })"

text \<open>Before every attempt but the first: wait, invalidate, and double the backoff up to its cap.\<close>

definition next_backoff :: "CheckOptions \<Rightarrow> int \<Rightarrow> int" where
  "next_backoff opts backoff =
     (let backoff = i64 (backoff * 2) in if backoff > opt_MaxBackoff opts then opt_MaxBackoff opts else backoff)"

definition before_retry :: "'w discovery \<Rightarrow> CheckOptions \<Rightarrow> int \<Rightarrow> ('w, goerr + int) dcm" where
  "before_retry dc opts backoff = do {
     wr \<leftarrow> call (DWait backoff) (dc_wait dc backoff);
     (case wr of
        Some e \<Rightarrow> State_Monad.return (Inl e)
      | None \<Rightarrow> do {
          (case dc_invalidate dc of
             None \<Rightarrow> State_Monad.return ()
           | Some f \<Rightarrow> call (\<lambda>_. DInvalidate) f);
          State_Monad.return (Inr (next_backoff opts backoff))
        })
   }"

text \<open>The loop, with the number of the attempt and the attempts left.\<close>

fun discovery_attempts ::
  "'w discovery \<Rightarrow> CheckOptions \<Rightarrow> gvr list \<Rightarrow> nat \<Rightarrow> nat \<Rightarrow> int \<Rightarrow> gvr list \<Rightarrow> ('w, goerr + gvr list) dcm" where
  "discovery_attempts dc opts needed 0 attempt backoff available = State_Monad.return (Inr available)"
| "discovery_attempts dc opts needed (Suc left) attempt backoff available = do {
     br \<leftarrow> (if attempt > 0 then before_retry dc opts backoff else State_Monad.return (Inr backoff));
     (case br of
        Inl e \<Rightarrow> State_Monad.return (Inl e)
      | Inr backoff \<Rightarrow> do {
          available \<leftarrow> discover dc (dc_iter dc attempt needed) available;
          if list_all (\<lambda>g. g \<in> set available) needed then State_Monad.return (Inr available)
          else discovery_attempts dc opts needed left (Suc attempt) backoff available
        })
   }"

definition check_result :: "gvr list \<Rightarrow> ControllerDependencies \<Rightarrow> CheckResult" where
  "check_result available cd =
     (let missing = filter (\<lambda>d. gvr_of d \<notin> set available) (ctd_Dependencies cd) in
      \<lparr>chk_Name = ctd_Name cd, chk_Available = (missing = []), chk_Missing = missing\<rparr>)"

definition checkCRDsWithClient ::
  "'w discovery \<Rightarrow> ControllerDependencies list \<Rightarrow> CheckOptions \<Rightarrow> ('w, goerr + CheckResult list) dcm" where
  "checkCRDsWithClient dc deps opts = do {
     ar \<leftarrow> discovery_attempts dc opts (needed_of deps) (nat (opt_MaxRetries opts + 1)) 0 (opt_InitialBackoff opts) [];
     State_Monad.return (case ar of Inl e \<Rightarrow> Inl e | Inr available \<Rightarrow> Inr (map (check_result available) deps))
   }"

definition CheckCRDsAvailable ::
  "'w discovery \<Rightarrow> ControllerDependencies list \<Rightarrow> CheckOptions \<Rightarrow> ('w, goerr + CheckResult list) dcm" where
  "CheckCRDsAvailable dc deps opts = do {
     ne \<leftarrow> call DNew (dc_new dc);
     (case ne of
        Some e \<Rightarrow> State_Monad.return (Inl (wrapf ''creating discovery client'' e))
      | None \<Rightarrow> checkCRDsWithClient dc deps opts)
   }"

section \<open>What is found\<close>

text \<open>Ranging over a map yields every key once.\<close>

definition ranges :: "'w discovery \<Rightarrow> bool" where
  "ranges dc \<longleftrightarrow> (\<forall>n gs. distinct gs \<longrightarrow> distinct (dc_iter dc n gs) \<and> set (dc_iter dc n gs) = set gs)"

definition served :: "dev list \<Rightarrow> gvr \<Rightarrow> bool" where
  "served h g \<longleftrightarrow> (\<exists>names. DResources g (Inr names) \<in> set h \<and> snd g \<in> set names)"

lemma served_append [simp]: "served (h @ es) g \<longleftrightarrow> served h g \<or> served es g"
  by (auto simp: served_def)

lemma served_Cons [simp]: "served (e # es) g \<longleftrightarrow> (\<exists>names. e = DResources g (Inr names) \<and> snd g \<in> set names) \<or> served es g"
  by (auto simp: served_def)

lemma served_Nil [simp]: "\<not> served [] g"
  by (simp add: served_def)

lemma wp_discover:
  assumes "\<And>g. g \<in> set available \<longleftrightarrow> served (cs_trace s) g"
  shows "wp (discover dc gs available) (\<lambda>av s'. \<forall>g. g \<in> set av \<longleftrightarrow> served (cs_trace s') g) s"
  using assms
proof (induction gs arbitrary: available s)
  case (Cons g gs)
  show ?case
    unfolding discover.simps
    by (intro wp_intros Cons.IH) (use Cons.prems in \<open>auto split: if_splits\<close>)
qed auto

lemma wp_before_retry:
  "wp (before_retry dc opts b) (\<lambda>res s'. (\<forall>g. served (cs_trace s') g \<longleftrightarrow> served (cs_trace s) g)) s"
  unfolding before_retry_def by (intro wp_intros) auto

lemma wp_attempts:
  assumes "\<And>g. g \<in> set available \<longleftrightarrow> served (cs_trace s) g"
  shows "wp (discovery_attempts dc opts needed n k b available)
    (\<lambda>res s'. \<forall>av. res = Inr av \<longrightarrow> (\<forall>g. g \<in> set av \<longleftrightarrow> served (cs_trace s') g)) s"
  using assms
proof (induction n arbitrary: k b available s)
  case (Suc n)
  show ?case
    unfolding discovery_attempts.simps
    by (intro wp_intros wp_mono [OF wp_before_retry] wp_mono [OF wp_discover] Suc.IH) (use Suc.prems in auto)
qed auto

text \<open>How often a resource was asked for.\<close>

definition asks :: "dev list \<Rightarrow> gvr \<Rightarrow> nat" where
  "asks h g = length (filter (\<lambda>e. case e of DResources g' _ \<Rightarrow> g' = g | _ \<Rightarrow> False) h)"

lemma asks_simps [simp]:
  "asks (h @ es) g = asks h g + asks es g" "asks (DResources g' r # es) g = (if g' = g then 1 else 0) + asks es g" "asks [] g = 0"
  "asks (DWait d e # es) g = asks es g" "asks (DInvalidate # es) g = asks es g"
  by (simp_all add: asks_def)

lemma wp_discover_asks:
  assumes "distinct gs"
  shows "wp (discover dc gs available) (\<lambda>av s'. set available \<subseteq> set av \<and>
    (\<forall>g. g \<notin> set av \<longrightarrow> asks (cs_trace s') g = asks (cs_trace s) g + (if g \<in> set gs then 1 else 0))) s"
  using assms
proof (induction gs arbitrary: available s)
  case (Cons g gs)
  show ?case
    unfolding discover.simps
    by (intro wp_intros wp_mono [OF Cons.IH]) (use Cons.prems in \<open>auto split: if_splits\<close>)
qed auto

lemma wp_retry_asks: "wp (before_retry dc opts b) (\<lambda>_ s'. \<forall>g. asks (cs_trace s') g = asks (cs_trace s) g) s"
  unfolding before_retry_def by (intro wp_intros) auto

lemma wp_attempts_asks:
  assumes "ranges dc" and "distinct needed"
  shows "wp (discovery_attempts dc opts needed n k b available) (\<lambda>res s'. \<forall>av. res = Inr av \<longrightarrow> set available \<subseteq> set av \<and>
    (\<forall>g \<in> set needed. g \<notin> set av \<longrightarrow> asks (cs_trace s') g = asks (cs_trace s) g + n)) s"
proof (induction n arbitrary: k b available s)
  case (Suc n)
  have iter: "distinct (dc_iter dc k needed)" "set (dc_iter dc k needed) = set needed" for k
    using assms by (auto simp: ranges_def)
  have more: "wp (discovery_attempts dc opts needed n k' b' av) (\<lambda>res s''. \<forall>av'. res = Inr av' \<longrightarrow> set available \<subseteq> set av' \<and>
      (\<forall>g \<in> set needed. g \<notin> set av' \<longrightarrow> asks (cs_trace s'') g = asks (cs_trace s) g + Suc n)) s'"
    if "set available \<subseteq> set av" "\<And>g. g \<in> set needed \<Longrightarrow> g \<notin> set av \<Longrightarrow> asks (cs_trace s') g = asks (cs_trace s) g + 1" for k' b' av s'
    by (rule wp_mono [OF Suc.IH]) (use that in fastforce)
  show ?case
    unfolding discovery_attempts.simps
    by (intro wp_intros wp_mono [OF wp_retry_asks] wp_mono [OF wp_discover_asks [OF iter(1)]] more) (auto simp: iter(2) list_all_iff)
qed simp

text \<open>
  The preflight check reports what the cluster serves.  When it returns, there is one result per
  controller, in order; the missing dependencies of a controller are exactly those that no answer of this
  run listed, and each of them was asked for in every attempt; a controller is available if and only if
  none is missing.
\<close>

theorem checkCRDs_reports_served:
  assumes "run_state (checkCRDsWithClient dc deps opts) (idle w) = (Inr results, s')" and "ranges dc"
  shows "results = map (\<lambda>cd. let missing = filter (\<lambda>d. \<not> served (cs_trace s') (gvr_of d)) (ctd_Dependencies cd) in
      \<lparr>chk_Name = ctd_Name cd, chk_Available = (missing = []), chk_Missing = missing\<rparr>) deps \<and>
    (\<forall>r \<in> set results. \<forall>d \<in> set (chk_Missing r). asks (cs_trace s') (gvr_of d) = nat (opt_MaxRetries opts + 1))"
proof -
  have "wp (checkCRDsWithClient dc deps opts) (\<lambda>res s'. \<forall>results. res = Inr results \<longrightarrow>
      (\<exists>av. results = map (check_result av) deps \<and> (\<forall>g. g \<in> set av \<longleftrightarrow> served (cs_trace s') g) \<and>
         (\<forall>g \<in> set (needed_of deps). g \<notin> set av \<longrightarrow> asks (cs_trace s') g = nat (opt_MaxRetries opts + 1)))) (idle w)"
    unfolding checkCRDsWithClient_def
    by (intro wp_intros wp_mono [OF wp_conj [OF wp_attempts wp_attempts_asks [OF assms(2)]]]) (auto simp: needed_of_def split: sum.splits)
  from wp_run [OF assms(1) this] obtain av where av: "results = map (check_result av) deps"
      "\<forall>g. g \<in> set av \<longleftrightarrow> served (cs_trace s') g"
      "\<forall>g \<in> set (needed_of deps). g \<notin> set av \<longrightarrow> asks (cs_trace s') g = nat (opt_MaxRetries opts + 1)"
    by blast
  have gvr: "gvr_of d \<in> set av \<longleftrightarrow> served (cs_trace s') (gvr_of d)" for d using av(2) by blast
  have "gvr_of d \<in> set (needed_of deps)" if "cd \<in> set deps" "d \<in> set (ctd_Dependencies cd)" for cd d
    using that by (auto simp: needed_of_def)
  with av(1,3) gvr show ?thesis by (auto simp: check_result_def Let_def)
qed

section \<open>The time it takes\<close>

fun waits :: "dev \<Rightarrow> bool" where
  "waits (DWait _ _) = True"
| "waits _ = False"

fun waited :: "dev \<Rightarrow> int" where
  "waited (DWait d _) = d"
| "waited _ = 0"

definition quiet :: "dev list \<Rightarrow> bool" where
  "quiet es \<longleftrightarrow> filter waits es = [] \<and> sum_list (map waited es) = 0"

lemma quiet_Cons [simp]: "quiet (DResources g r # es) = quiet es"
  by (simp add: quiet_def)

lemma wp_discover_quiet: "wp (discover dc gs available) (\<lambda>_ s'. \<exists>es. cs_trace s' = cs_trace s @ es \<and> quiet es) s"
proof (induction gs arbitrary: available s)
  case (Cons g gs)
  show ?case
    unfolding discover.simps
    by (intro wp_intros wp_mono [OF Cons.IH]) auto
qed (simp add: quiet_def)

text \<open>The backoffs that cannot overflow.\<close>

definition short :: "int \<Rightarrow> bool" where
  "short b \<longleftrightarrow> 0 \<le> b \<and> b < 2 ^ 62"

lemma next_backoff_short:
  assumes "short b" and "short (opt_MaxBackoff opts)"
  shows "next_backoff opts b = min (b * 2) (opt_MaxBackoff opts)" and "short (next_backoff opts b)"
  using assms by (auto simp: next_backoff_def short_def is_i64_def min_def Let_def)

text \<open>A later attempt: one wait, then a round of discovery.\<close>

lemma retry_once:
  assumes "\<And>a s' es. cs_trace s' = cs_trace s @ es \<Longrightarrow> length (filter waits es) \<le> 1 \<Longrightarrow>
      sum_list (map waited es) = 0 \<or> sum_list (map waited es) = b \<Longrightarrow> Q a s'"
    and "\<And>k' av' s' es. cs_trace s' = cs_trace s @ es \<Longrightarrow> length (filter waits es) \<le> 1 \<Longrightarrow>
      sum_list (map waited es) = b \<Longrightarrow> wp (discovery_attempts dc opts needed n (Suc k') (next_backoff opts b) av') Q s'"
  shows "wp (discovery_attempts dc opts needed (Suc n) (Suc k) b av) Q s"
  unfolding discovery_attempts.simps before_retry_def
  by (intro wp_intros wp_mono [OF wp_discover_quiet])
    (auto simp: quiet_def intro!: assms split: option.splits)

lemma default_backoff_short: "short b \<Longrightarrow> short (next_backoff DefaultCheckOptions b)"
  by (rule next_backoff_short(2)) (simp_all add: DefaultCheckOptions_def short_def)

interpretation crd_retry: bounded_retry "\<lambda>(k, av) n b. discovery_attempts dc DefaultCheckOptions needed n (Suc k) b av"
  waits waited "next_backoff DefaultCheckOptions" short
proof unfold_locales
  show "short b \<Longrightarrow> 0 \<le> b" for b by (simp add: short_def)
  show "short b \<Longrightarrow> short (next_backoff DefaultCheckOptions b)" for b by (rule default_backoff_short)
qed (auto intro!: retry_once)

lemma default_budget: "budget (next_backoff DefaultCheckOptions) 5 2000000000 = 44000000000"
  by (simp add: numeral_eq_Suc next_backoff_def DefaultCheckOptions_def is_i64_def Let_def)

text \<open>
  The preflight check cannot hold up the start.  With the default options it waits at most five times
  and for at most 44 seconds in all (2, 4, 8, 15 and 15), whatever the cluster serves.
\<close>

lemma checkCRDs_bounded:
  "\<exists>es. cs_trace (snd (run_state (checkCRDsWithClient dc deps DefaultCheckOptions) s)) = cs_trace s @ es \<and>
     within waits waited 5 44000000000 es"
proof -
  have later: "wp (discovery_attempts dc DefaultCheckOptions needed 5 (Suc k) 2000000000 av)
      (\<lambda>_ s'. \<exists>es. cs_trace s' = cs_trace s @ es \<and> within waits waited 5 44000000000 es) s" for needed k av and s :: "('a, dev) cstate"
    using crd_retry.bounded [of 2000000000 dc needed "(k, av)" 5 s] by (simp add: default_budget short_def)
  have quiet: "within waits waited 5 44000000000 (es @ es')" if "quiet es" "within waits waited 5 44000000000 es'" for es es'
    using that by (simp add: within_def quiet_def)
  have found: "within waits waited 5 44000000000 es" if "quiet es" for es
    using that by (simp add: within_def quiet_def)
  have six: "nat (opt_MaxRetries DefaultCheckOptions + 1) = Suc 5" and init: "opt_InitialBackoff DefaultCheckOptions = 2000000000"
    by (simp_all add: DefaultCheckOptions_def)
  have "wp (checkCRDsWithClient dc deps DefaultCheckOptions) (\<lambda>_ s'. \<exists>es. cs_trace s' = cs_trace s @ es \<and> within waits waited 5 44000000000 es) s"
    unfolding checkCRDsWithClient_def six init discovery_attempts.simps
    by (intro wp_intros wp_mono [OF wp_discover_quiet]) (auto intro!: wp_mono [OF later] intro: quiet found)
  then show ?thesis by (simp add: wp_def case_prod_unfold)
qed

section \<open>A concrete run\<close>

text \<open>The CRD is installed between the first attempt and the second; the world counts the queries.\<close>

definition late_crd :: "nat discovery" where
  "late_crd =
     \<lparr>dc_new = (\<lambda>w. (None, w)),
      dc_resources = (\<lambda>_ w. (if w = 0 then Inl (errorf ''the server could not find the requested resource'') else Inr [''clusterdeployments''], Suc w)),
      dc_wait = (\<lambda>_ w. (None, w)), dc_invalidate = None, dc_iter = (\<lambda>_ gs. gs)\<rparr>"

definition late_run :: "(goerr + CheckResult list) \<times> (nat, dev) cstate" where
  "late_run = run_state (checkCRDsWithClient late_crd OperatorDependencies DefaultCheckOptions) (idle 0)"

lemma late_run_result:
  "wp (checkCRDsWithClient late_crd OperatorDependencies DefaultCheckOptions)
     (\<lambda>res _. res = Inr [\<lparr>chk_Name = ''Colony'', chk_Available = True, chk_Missing = []\<rparr>]) (idle 0)"
  by (simp add: checkCRDsWithClient_def OperatorDependencies_def DefaultCheckOptions_def late_crd_def needed_of_def gvr_of_def
      before_retry_def next_backoff_def check_result_def numeral_eq_Suc wp_rules Let_def)

lemma late_run_eq:
  "run_state (checkCRDsWithClient late_crd OperatorDependencies DefaultCheckOptions) (idle 0) =
     (Inr [\<lparr>chk_Name = ''Colony'', chk_Available = True, chk_Missing = []\<rparr>], snd late_run)"
  using late_run_result by (simp add: late_run_def wp_def prod_eq_iff case_prod_unfold)

lemma late_ranges: "ranges late_crd"
  by (simp add: ranges_def late_crd_def)

theorem checkCRDs_reports_served_witness:
  "served (cs_trace (snd late_run)) (''k0rdent.mirantis.com/v1beta1'', ''clusterdeployments'')"
  using checkCRDs_reports_served [OF late_run_eq late_ranges]
  by (simp add: OperatorDependencies_def gvr_of_def Let_def split: if_splits)

end
