(* ===== verification/Process_Start.thy ===== *)
theory Process_Start
  imports Preflight Gateway_Provider
begin

text \<open>
  \<open>cmd/main.go\<close>: the scheme, the flags, the preflight check and the registration of the controllers,
  with the \<open>SetupWithManager\<close> method of each controller.  The manager, the controller builder and the
  certificate watcher are outside; a failure of any of them ends the process with exit code 1.
\<close>

section \<open>Data\<close>

record Flags =
  fl_metricsAddr :: string
  fl_probeAddr :: string
  fl_enableLeaderElection :: bool
  fl_secureMetrics :: bool
  fl_metricsCertPath :: string
  fl_metricsCertName :: string
  fl_metricsCertKey :: string
  fl_enableHTTP2 :: bool
  fl_workspaceGatewayName :: string
  fl_workspaceGatewayNamespace :: string
  fl_workspaceMeshMode :: string
  fl_workspaceWaypointEnabled :: bool
  fl_workspaceWaypointNamespace :: string

definition default_flags :: Flags where
  "default_flags =
     \<lparr>fl_metricsAddr = ''0'', fl_probeAddr = '':8081'', fl_enableLeaderElection = False, fl_secureMetrics = True,
      fl_metricsCertPath = [], fl_metricsCertName = ''tls.crt'', fl_metricsCertKey = ''tls.key'', fl_enableHTTP2 = False,
      fl_workspaceGatewayName = DefaultGatewayName, fl_workspaceGatewayNamespace = DefaultGatewayNamespace,
      fl_workspaceMeshMode = ''ambient'', fl_workspaceWaypointEnabled = True, fl_workspaceWaypointNamespace = ''istio-system''\<rparr>"

datatype tls_opt = DisableHTTP2 | GetCertificate

record MetricsOptions =
  mo_BindAddress :: string
  mo_SecureServing :: bool
  mo_TLSOpts :: "tls_opt list"
  mo_FilterProvider :: bool

record ManagerOptions =
  mg_Metrics :: MetricsOptions
  mg_HealthProbeBindAddress :: string
  mg_LeaderElection :: bool
  mg_LeaderElectionID :: string

text \<open>A controller with the configuration it is built with.\<close>

datatype RouteProvider = NoRouteProvider | GatewayAPIProvider Config

datatype controller =
    ColonyController
  | WorkspaceDeploymentController RouteProvider MeshConfig
  | WorkspaceClassController

text \<open>What \<open>ctrl.NewControllerManagedBy(mgr)\<close> is told: the kind that is reconciled, the kinds that are
  watched with the function that maps their events to requests, and the name.\<close>

datatype map_func = MapServiceSet | MapServiceTemplate

record builder =
  bd_For :: string
  bd_Watches :: "(string \<times> map_func) list"
  bd_Named :: string

text \<open>\<open>mgr.Add(&orphanRouteSweeper\{...\})\<close>: the periodic sweep over the routes of a provider.\<close>

datatype orphanRouteSweeper = OrphanRouteSweeper RouteProvider

text \<open>The API groups of the operator: a group with its version, and the kinds that the \<open>init\<close> functions
  register with its \<open>SchemeBuilder\<close>.\<close>

definition infra_GroupVersion :: "string \<times> string" where
  "infra_GroupVersion = (''infra.exalsius.ai'', ''v1'')"

definition workspaces_GroupVersion :: "string \<times> string" where
  "workspaces_GroupVersion = (''workspaces.exalsius.ai'', ''v1'')"

definition infra_SchemeBuilder :: "(string \<times> string) \<times> string list" where
  "infra_SchemeBuilder = (infra_GroupVersion, [''Colony'', ''ColonyList''])"

definition workspaces_SchemeBuilder :: "(string \<times> string) \<times> string list" where
  "workspaces_SchemeBuilder = (workspaces_GroupVersion,
     [''WorkspaceClass'', ''WorkspaceClassList''] @ [''WorkspaceDeployment'', ''WorkspaceDeploymentList''])"

definition registered_kinds :: "string \<Rightarrow> string list" where
  "registered_kinds g =
     (if g = ''infrav1'' then snd infra_SchemeBuilder
      else if g = ''workspacesv1'' then snd workspaces_SchemeBuilder else [])"

text \<open>The conversion of the flag's string keeps it, known mode or not.\<close>

definition mesh_mode :: "string \<Rightarrow> MeshMode" where
  "mesh_mode s =
     (if s = ''ambient'' then MeshModeAmbient else if s = ''sidecar'' then MeshModeSidecar
      else if s = ''none'' then MeshModeNone else MeshModeOther s)"

definition mesh_config :: "Flags \<Rightarrow> MeshConfig" where
  "mesh_config fl = \<lparr>mesh_Mode = mesh_mode (fl_workspaceMeshMode fl), mesh_WaypointEnabled = fl_workspaceWaypointEnabled fl,
     mesh_WaypointNamespace = fl_workspaceWaypointNamespace fl\<rparr>"

definition gateway_config :: "Flags \<Rightarrow> Config" where
  "gateway_config fl = \<lparr>cfg_GatewayName = fl_workspaceGatewayName fl, cfg_GatewayNamespace = fl_workspaceGatewayNamespace fl,
     cfg_Mesh = mesh_config fl\<rparr>"

section \<open>The outside\<close>

text \<open>A certificate file is given by the directory and the name that \<open>filepath.Join\<close> puts together.\<close>

record 'w process =
  po_add_scheme :: "string \<Rightarrow> 'w \<Rightarrow> goerr option \<times> 'w"
  po_cert_watcher :: "string \<times> string \<Rightarrow> string \<times> string \<Rightarrow> 'w \<Rightarrow> goerr option \<times> 'w"
  po_new_manager :: "ManagerOptions \<Rightarrow> 'w \<Rightarrow> goerr option \<times> 'w"
  po_discovery :: "'w discovery"
  po_add_sweeper :: "orphanRouteSweeper \<Rightarrow> 'w \<Rightarrow> goerr option \<times> 'w"
  po_complete :: "builder \<Rightarrow> controller \<Rightarrow> 'w \<Rightarrow> goerr option \<times> 'w"
  po_add_watcher :: "'w \<Rightarrow> goerr option \<times> 'w"
  po_add_check :: "string \<Rightarrow> 'w \<Rightarrow> goerr option \<times> 'w"
  po_start :: "'w \<Rightarrow> goerr option \<times> 'w"

datatype pev =
    PScheme string "goerr option"
  | PCertWatcher "string \<times> string" "string \<times> string" "goerr option"
  | PNewManager ManagerOptions "goerr option"
  | PDiscovery dev
  | PAddSweeper orphanRouteSweeper "goerr option"
  | PSetup builder controller "goerr option"
  | PAddWatcher "goerr option"
  | PAddCheck string "goerr option"
  | PStart "goerr option"

type_synonym ('w, 'a) pm = "('w, pev, 'a) calls"

datatype process_end = Exit nat | Returned | Crashed string

text \<open>\<open>if err := ...; err != nil { os.Exit(1) }\<close>, and \<open>utilruntime.Must\<close>.\<close>

definition or_exit :: "('w, goerr option) pm \<Rightarrow> ('w, process_end) pm \<Rightarrow> ('w, process_end) pm" where
  "or_exit m k = do { r \<leftarrow> m; (case r of Some e \<Rightarrow> State_Monad.return (Exit 1) | None \<Rightarrow> k) }"

definition must :: "('w, goerr option) pm \<Rightarrow> ('w, process_end) pm \<Rightarrow> ('w, process_end) pm" where
  "must m k = do { r \<leftarrow> m; (case r of Some e \<Rightarrow> State_Monad.return (Crashed (emsg e)) | None \<Rightarrow> k) }"

section \<open>init\<close>

definition add_scheme :: "'w process \<Rightarrow> string \<Rightarrow> ('w, goerr option) pm" where
  "add_scheme p name = call (PScheme name) (po_add_scheme p name)"

definition init_then :: "'w process \<Rightarrow> ('w, process_end) pm \<Rightarrow> ('w, process_end) pm" where
  "init_then p k =
     must (add_scheme p ''clientgoscheme'') (must (add_scheme p ''infrav1'') (must (add_scheme p ''workspacesv1'')
       (must (add_scheme p ''gatewayv1'') (must (add_scheme p ''gatewayv1alpha2'')
         (or_exit (add_scheme p ''clusterv1'') (or_exit (add_scheme p ''k0sv1beta1'') (or_exit (add_scheme p ''capdv1beta1'')
           (or_exit (add_scheme p ''bootstrapv1beta1'') (or_exit (add_scheme p ''k0sinfrav1beta1'')
             (or_exit (add_scheme p ''k0rdentv1beta1'') k))))))))))"

section \<open>main\<close>

definition metrics_options :: "Flags \<Rightarrow> MetricsOptions" where
  "metrics_options fl =
     (let tlsOpts = (if \<not> fl_enableHTTP2 fl then [DisableHTTP2] else []);
          mo = \<lparr>mo_BindAddress = fl_metricsAddr fl, mo_SecureServing = fl_secureMetrics fl, mo_TLSOpts = tlsOpts, mo_FilterProvider = False\<rparr>
      in if fl_secureMetrics fl then mo\<lparr>mo_FilterProvider := True\<rparr> else mo)"

definition manager_options :: "Flags \<Rightarrow> MetricsOptions \<Rightarrow> ManagerOptions" where
  "manager_options fl mo = \<lparr>mg_Metrics = mo, mg_HealthProbeBindAddress = fl_probeAddr fl,
     mg_LeaderElection = fl_enableLeaderElection fl, mg_LeaderElectionID = ''3bb9c912.exalsius.ai''\<rparr>"

definition enabled_of :: "CheckResult list \<Rightarrow> bool gomap" where
  "enabled_of results = foldl (\<lambda>m r. mput (chk_Name r) (chk_Available r) m) [] results"

definition is_enabled :: "bool gomap \<Rightarrow> string \<Rightarrow> bool" where
  "is_enabled m name = (case map_of m name of Some b \<Rightarrow> b | None \<Rightarrow> False)"

definition complete :: "'w process \<Rightarrow> builder \<Rightarrow> controller \<Rightarrow> ('w, goerr option) pm" where
  "complete p b c = call (PSetup b c) (po_complete p b c)"

definition colony_builder :: builder where
  "colony_builder = \<lparr>bd_For = ''Colony'', bd_Watches = [], bd_Named = ''infra-colony''\<rparr>"

definition deployment_builder :: builder where
  "deployment_builder = \<lparr>bd_For = ''WorkspaceDeployment'', bd_Watches = [(''ServiceSet'', MapServiceSet)],
     bd_Named = ''workspace-deployment''\<rparr>"

definition class_builder :: builder where
  "class_builder = \<lparr>bd_For = ''WorkspaceClass'', bd_Watches = [(''ServiceTemplate'', MapServiceTemplate)],
     bd_Named = ''workspace-class''\<rparr>"

text \<open>\<open>r.RouteProvider.(routing.OrphanSweeper)\<close>: the Gateway API provider has a \<open>SweepOrphans\<close>
  method, a nil provider has none.\<close>

fun as_OrphanSweeper :: "RouteProvider \<Rightarrow> RouteProvider option" where
  "as_OrphanSweeper NoRouteProvider = None"
| "as_OrphanSweeper (GatewayAPIProvider cfg) = Some (GatewayAPIProvider cfg)"

definition Colony_SetupWithManager :: "'w process \<Rightarrow> ('w, goerr option) pm" where
  "Colony_SetupWithManager p = complete p colony_builder ColonyController"

definition WorkspaceDeployment_SetupWithManager :: "'w process \<Rightarrow> RouteProvider \<Rightarrow> MeshConfig \<Rightarrow> ('w, goerr option) pm" where
  "WorkspaceDeployment_SetupWithManager p provider mesh = do {
     r \<leftarrow> (case as_OrphanSweeper provider of
            Some sweeper \<Rightarrow> call (PAddSweeper (OrphanRouteSweeper sweeper)) (po_add_sweeper p (OrphanRouteSweeper sweeper))
          | None \<Rightarrow> State_Monad.return None);
     (case r of
        Some e \<Rightarrow> State_Monad.return (Some e)
      | None \<Rightarrow> complete p deployment_builder (WorkspaceDeploymentController provider mesh))
   }"

definition WorkspaceClass_SetupWithManager :: "'w process \<Rightarrow> ('w, goerr option) pm" where
  "WorkspaceClass_SetupWithManager p = complete p class_builder WorkspaceClassController"

text \<open>From the watcher of the certificates on: checks, then the manager runs until it stops.\<close>

definition run_manager :: "'w process \<Rightarrow> bool \<Rightarrow> ('w, process_end) pm" where
  "run_manager p watcher =
     or_exit (if watcher then call PAddWatcher (po_add_watcher p) else State_Monad.return None)
       (or_exit (call (PAddCheck ''healthz'') (po_add_check p ''healthz''))
         (or_exit (call (PAddCheck ''readyz'') (po_add_check p ''readyz''))
           (or_exit (call PStart (po_start p)) (State_Monad.return Returned))))"

definition register_controllers :: "'w process \<Rightarrow> Flags \<Rightarrow> bool gomap \<Rightarrow> ('w, process_end) pm \<Rightarrow> ('w, process_end) pm" where
  "register_controllers p fl enabled k =
     or_exit (if is_enabled enabled ''Colony'' then Colony_SetupWithManager p else State_Monad.return None)
       (or_exit (WorkspaceDeployment_SetupWithManager p (GatewayAPIProvider (gateway_config fl)) (mesh_config fl))
         (or_exit (WorkspaceClass_SetupWithManager p) k))"

text \<open>Once there is a manager: the preflight check, the controllers it enables, and the manager itself.\<close>

definition start_controllers :: "'w process \<Rightarrow> Flags \<Rightarrow> bool \<Rightarrow> ('w, process_end) pm" where
  "start_controllers p fl watcher = do {
     cr \<leftarrow> embed PDiscovery (CheckCRDsAvailable (po_discovery p) OperatorDependencies DefaultCheckOptions);
     (case cr of
        Inl e \<Rightarrow> State_Monad.return (Exit 1)
      | Inr preflightResults \<Rightarrow> register_controllers p fl (enabled_of preflightResults) (run_manager p watcher))
   }"

definition main_run :: "'w process \<Rightarrow> Flags \<Rightarrow> ('w, process_end) pm" where
  "main_run p fl = init_then p (do {
     let watcher = (fl_metricsCertPath fl \<noteq> []);
     let mo = metrics_options fl;
     or_exit
       (if watcher
        then call (PCertWatcher (fl_metricsCertPath fl, fl_metricsCertName fl) (fl_metricsCertPath fl, fl_metricsCertKey fl))
               (po_cert_watcher p (fl_metricsCertPath fl, fl_metricsCertName fl) (fl_metricsCertPath fl, fl_metricsCertKey fl))
        else State_Monad.return None)
       (do {
          let mo = (if watcher then mo\<lparr>mo_TLSOpts := mo_TLSOpts mo @ [GetCertificate]\<rparr> else mo);
          let mgr = manager_options fl mo;
          or_exit (call (PNewManager mgr) (po_new_manager p mgr)) (start_controllers p fl watcher)
        })
   })"

section \<open>What is registered\<close>

definition discovered :: "pev list \<Rightarrow> dev list" where
  "discovered h = List.map_filter (\<lambda>e. case e of PDiscovery d \<Rightarrow> Some d | _ \<Rightarrow> None) h"

lemma discovered_simps [simp]:
  "discovered (h @ es) = discovered h @ discovered es" "discovered [] = []" "discovered (map PDiscovery ds) = ds"
  "discovered (PDiscovery d # es) = d # discovered es" "discovered (PScheme n r # es) = discovered es"
  "discovered (PCertWatcher a b r # es) = discovered es" "discovered (PNewManager m r # es) = discovered es"
  "discovered (PSetup bd c r # es) = discovered es"
  "discovered (PAddSweeper sw r # es) = discovered es" "discovered (PAddWatcher r # es) = discovered es"
  "discovered (PAddCheck n r # es) = discovered es" "discovered (PStart r # es) = discovered es"
  by (simp_all add: discovered_def map_filter_def comp_def)

definition ClusterDeploymentCRD :: gvr where
  "ClusterDeploymentCRD = (''k0rdent.mirantis.com/v1beta1'', ''clusterdeployments'')"

lemma wp_preflight:
  "wp (CheckCRDsAvailable dc OperatorDependencies opts) (\<lambda>res t. \<forall>results. res = Inr results \<longrightarrow>
     (is_enabled (enabled_of results) ''Colony'' \<longleftrightarrow> served (cs_trace t) ClusterDeploymentCRD)) (idle w)"
  unfolding CheckCRDsAvailable_def checkCRDsWithClient_def
  by (intro wp_intros wp_mono [OF wp_attempts])
    (auto simp: check_result_def OperatorDependencies_def enabled_of_def is_enabled_def gvr_of_def ClusterDeploymentCRD_def Let_def
      split: sum.splits)

text \<open>The state after the preflight check, as far as the registration goes.\<close>

definition in_scheme :: "pev list \<Rightarrow> string \<Rightarrow> bool" where
  "in_scheme h kind \<longleftrightarrow> (\<exists>g. PScheme g None \<in> set h \<and> kind \<in> set (registered_kinds g))"

definition started_ok :: "Flags \<Rightarrow> pev list \<Rightarrow> bool" where
  "started_ok fl h \<longleftrightarrow>
     (PSetup colony_builder ColonyController None \<in> set h \<longleftrightarrow> served (discovered h) ClusterDeploymentCRD) \<and>
     PSetup deployment_builder
       (WorkspaceDeploymentController (GatewayAPIProvider (gateway_config fl)) (mesh_config fl)) None \<in> set h \<and>
     PAddSweeper (OrphanRouteSweeper (GatewayAPIProvider (gateway_config fl))) None \<in> set h \<and>
     PSetup class_builder WorkspaceClassController None \<in> set h \<and>
     (\<forall>b c r. PSetup b c r \<in> set h \<longrightarrow> in_scheme h (bd_For b)) \<and>
     (\<exists>mgr. PNewManager mgr None \<in> set h \<and>
        (DisableHTTP2 \<in> set (mo_TLSOpts (mg_Metrics mgr)) \<longleftrightarrow> \<not> fl_enableHTTP2 fl) \<and>
        mo_FilterProvider (mg_Metrics mgr) = fl_secureMetrics fl)"

lemma options_ok:
  "DisableHTTP2 \<in> set (mo_TLSOpts (metrics_options fl)) \<longleftrightarrow> \<not> fl_enableHTTP2 fl"
  "mo_FilterProvider (metrics_options fl) = fl_secureMetrics fl"
  by (simp_all add: metrics_options_def Let_def)

lemma wp_or_exit [wp_intros]:
  "wp m (\<lambda>r s'. (\<forall>e. r = Some e \<longrightarrow> Q (Exit 1) s') \<and> (r = None \<longrightarrow> wp k Q s')) s \<Longrightarrow> wp (or_exit m k) Q s"
  unfolding or_exit_def by (intro wp_intros) (auto elim!: wp_mono split: option.splits)

lemma wp_must [wp_intros]:
  "wp m (\<lambda>r s'. (\<forall>e. r = Some e \<longrightarrow> Q (Crashed (emsg e)) s') \<and> (r = None \<longrightarrow> wp k Q s')) s \<Longrightarrow> wp (must m k) Q s"
  unfolding must_def by (intro wp_intros) (auto elim!: wp_mono split: option.splits)

text \<open>Nothing registered, started or discovered yet.\<close>

definition fresh :: "pev list \<Rightarrow> bool" where
  "fresh h \<longleftrightarrow> discovered h = [] \<and> (\<forall>b c r. PSetup b c r \<notin> set h) \<and> (\<forall>r. PStart r \<notin> set h)"

definition registration_ok :: "Flags \<Rightarrow> pev list \<Rightarrow> bool" where
  "registration_ok fl h \<longleftrightarrow>
     ((\<exists>b r. PSetup b ColonyController r \<in> set h) \<longrightarrow> served (discovered h) ClusterDeploymentCRD) \<and>
     ((\<exists>r. PStart r \<in> set h) \<longrightarrow> started_ok fl h)"

lemma fresh_ok: "fresh h \<Longrightarrow> registration_ok fl h"
  by (auto simp: fresh_def registration_ok_def)

lemma fresh_simps [simp]:
  "fresh []" "fresh (h @ es) \<longleftrightarrow> fresh h \<and> fresh es" "fresh (PScheme n r # es) = fresh es"
  "fresh (PCertWatcher a b r # es) = fresh es" "fresh (PNewManager m r # es) = fresh es"
  by (auto simp: fresh_def)

text \<open>Both API groups of the operator are in the scheme.\<close>

definition groups_added :: "pev list \<Rightarrow> bool" where
  "groups_added h \<longleftrightarrow> PScheme ''infrav1'' None \<in> set h \<and> PScheme ''workspacesv1'' None \<in> set h"

lemma groups_added_append [simp]: "groups_added h \<Longrightarrow> groups_added (h @ es)"
  by (simp add: groups_added_def)

lemma in_scheme_append [simp]: "in_scheme h k \<Longrightarrow> in_scheme (h @ es) k"
  by (auto simp: in_scheme_def)

lemma builders_in_scheme:
  assumes "groups_added h"
  shows "in_scheme h (bd_For colony_builder)" "in_scheme h (bd_For deployment_builder)" "in_scheme h (bd_For class_builder)"
  using assms unfolding in_scheme_def groups_added_def
  by (auto intro!: exI [of _ "''infrav1''"] exI [of _ "''workspacesv1''"] simp: registered_kinds_def colony_builder_def
      deployment_builder_def class_builder_def infra_SchemeBuilder_def workspaces_SchemeBuilder_def)

lemma wp_scheme_steps:
  assumes "fresh (cs_trace s)" and "\<And>res s'. fresh (cs_trace s') \<Longrightarrow> Q res s'"
    and "\<And>s'. cs_trace s' = cs_trace s @ [PScheme g None] \<Longrightarrow> wp k Q s'"
  shows "wp (must (add_scheme p g) k) Q s" "wp (or_exit (add_scheme p g) k) Q s"
  unfolding add_scheme_def
  by (intro wp_intros conjI allI impI assms(2,3); simp add: assms(1))+

lemma wp_init_then:
  assumes "fresh (cs_trace s)" and "\<And>res s'. fresh (cs_trace s') \<Longrightarrow> Q res s'"
    and "\<And>s'. fresh (cs_trace s') \<Longrightarrow> groups_added (cs_trace s') \<Longrightarrow> wp k Q s'"
  shows "wp (init_then p k) Q s"
  unfolding init_then_def
  by (intro wp_scheme_steps assms(2,3)) (simp_all only: fresh_simps set_append assms(1) groups_added_def, simp_all)

lemma wp_register:
  assumes "fresh h" and "groups_added h" and "PNewManager mgr None \<in> set h" and "DisableHTTP2 \<in> set (mo_TLSOpts (mg_Metrics mgr)) \<longleftrightarrow> \<not> fl_enableHTTP2 fl"
    and "mo_FilterProvider (mg_Metrics mgr) = fl_secureMetrics fl" and "cs_trace s = h @ map PDiscovery ds"
    and "is_enabled enabled ''Colony'' \<longleftrightarrow> served ds ClusterDeploymentCRD"
  shows "wp (register_controllers p fl enabled (run_manager p watcher)) (\<lambda>_ s'. registration_ok fl (cs_trace s')) s"
proof -
  note S = builders_in_scheme [OF assms(2)]
  have fresh: "discovered h = []" "\<And>b c r. PSetup b c r \<notin> set h" "\<And>r. PStart r \<notin> set h"
    using assms(1) by (auto simp: fresh_def)
  have early: "registration_ok fl (h @ map PDiscovery ds @ es)"
    if "(\<exists>b r. PSetup b ColonyController r \<in> set es) \<longrightarrow> is_enabled enabled ''Colony''" "\<forall>r. PStart r \<notin> set es"
      "discovered es = []" for es
    using that fresh assms(7) by (auto simp: registration_ok_def)
  have started: "registration_ok fl (h @ map PDiscovery ds @ es)"
    if "discovered es = []"
      "PSetup colony_builder ColonyController None \<in> set es \<longleftrightarrow> is_enabled enabled ''Colony''"
      "\<forall>b c r. PSetup b c r \<in> set es \<longrightarrow> b \<in> {colony_builder, deployment_builder, class_builder} \<and>
         (c = ColonyController \<longrightarrow> is_enabled enabled ''Colony'')"
      "PSetup deployment_builder
         (WorkspaceDeploymentController (GatewayAPIProvider (gateway_config fl)) (mesh_config fl)) None \<in> set es"
      "PAddSweeper (OrphanRouteSweeper (GatewayAPIProvider (gateway_config fl))) None \<in> set es"
      "PSetup class_builder WorkspaceClassController None \<in> set es" for es
  proof -
    have "in_scheme (h @ map PDiscovery ds @ es) (bd_For b)" if x: "PSetup b c r \<in> set (h @ map PDiscovery ds @ es)" for b c r
    proof -
      have "PSetup b c r \<in> set es" using x fresh(2) by auto
      with \<open>\<forall>b c r. _\<close> have "b \<in> {colony_builder, deployment_builder, class_builder}" by blast
      with S show ?thesis by auto
    qed
    with that fresh assms(3-5,7) show ?thesis by (auto simp: registration_ok_def started_ok_def)
  qed
  show ?thesis
    unfolding register_controllers_def run_manager_def complete_def Colony_SetupWithManager_def
      WorkspaceDeployment_SetupWithManager_def WorkspaceClass_SetupWithManager_def as_OrphanSweeper.simps option.case
    by (intro wp_intros conjI allI impI)
      (use assms(6) in \<open>simp_all add: early started\<close>)
qed

lemma wp_start_controllers:
  assumes "fresh (cs_trace s)" and "groups_added (cs_trace s)" and "PNewManager mgr None \<in> set (cs_trace s)"
    and "DisableHTTP2 \<in> set (mo_TLSOpts (mg_Metrics mgr)) \<longleftrightarrow> \<not> fl_enableHTTP2 fl"
    and "mo_FilterProvider (mg_Metrics mgr) = fl_secureMetrics fl"
  shows "wp (start_controllers p fl watcher) (\<lambda>_ s'. registration_ok fl (cs_trace s')) s"
proof -
  have pre: "is_enabled (enabled_of results) ''Colony'' \<longleftrightarrow> served (cs_trace t) ClusterDeploymentCRD"
    if "run_state (CheckCRDsAvailable (po_discovery p) OperatorDependencies DefaultCheckOptions) (idle v) = (Inr results, t)" for v t results
    using wp_run [OF that wp_preflight] by simp
  have early: "registration_ok fl (cs_trace s @ map PDiscovery ds)" for ds
    using assms(1) by (auto simp: fresh_def registration_ok_def)
  show ?thesis
    unfolding start_controllers_def
    by (intro wp_intros wp_register [OF assms]) (auto simp: early pre)
qed

text \<open>
  C34: what the process registers.  In every run, the Colony controller is only set up when the discovery of
  this run listed the ClusterDeployment CRD.  When the manager is started, it is set up exactly then, both
  workspace controllers are set up with their watches and the gateway and mesh configuration of the flags,
  the orphan sweeper runs on the same route provider, the kind of every controller that is set up is in the
  scheme, and the metrics server has HTTP/2 disabled unless it was asked for and its authentication filter
  whenever it is secure.
\<close>

theorem main_registers:
  assumes "run_state (main_run p fl) (idle w) = (res, s')"
  shows "registration_ok fl (cs_trace s')"
proof -
  have mgr: "wp (start_controllers p fl watcher) (\<lambda>_ s'. registration_ok fl (cs_trace s'))
      (s\<lparr>cs_world := v, cs_trace := h @ [PNewManager (manager_options fl mo) None]\<rparr>)"
    if "fresh h" "groups_added h" "mo = metrics_options fl \<or> mo = (metrics_options fl)\<lparr>mo_TLSOpts := mo_TLSOpts (metrics_options fl) @ [GetCertificate]\<rparr>"
    for watcher h mo v and s :: "('a, pev) cstate"
    by (rule wp_start_controllers [where mgr = "manager_options fl mo"]) (use that in \<open>auto simp: manager_options_def options_ok\<close>)
  have "wp (main_run p fl) (\<lambda>_ s'. registration_ok fl (cs_trace s')) (idle w)"
    unfolding main_run_def Let_def
    by (intro wp_init_then wp_intros conjI allI impI) (auto simp: fresh_ok intro!: mgr simp flip: append_assoc)
  from wp_run [OF assms this] show ?thesis .
qed

section \<open>A concrete run\<close>

definition example_process :: "nat process" where
  "example_process =
     \<lparr>po_add_scheme = (\<lambda>_ w. (None, w)), po_cert_watcher = (\<lambda>_ _ w. (None, w)), po_new_manager = (\<lambda>_ w. (None, w)),
      po_discovery = late_crd, po_add_sweeper = (\<lambda>_ w. (None, w)), po_complete = (\<lambda>_ _ w. (None, w)), po_add_watcher = (\<lambda>w. (None, w)),
      po_add_check = (\<lambda>_ w. (None, w)), po_start = (\<lambda>w. (None, w))\<rparr>"

definition start_run :: "process_end \<times> (nat, pev) cstate" where
  "start_run = run_state (main_run example_process default_flags) (idle 0)"

lemma start_run_eq: "run_state (main_run example_process default_flags) (idle 0) = (fst start_run, snd start_run)"
  by (simp add: start_run_def)

lemma wp_start: "wp (main_run example_process default_flags) (\<lambda>_ s'. PStart None \<in> set (cs_trace s')) (idle 0)"
  by (simp add: main_run_def init_then_def add_scheme_def must_def or_exit_def start_controllers_def register_controllers_def
      complete_def Colony_SetupWithManager_def WorkspaceDeployment_SetupWithManager_def
      WorkspaceClass_SetupWithManager_def run_manager_def example_process_def default_flags_def
      CheckCRDsAvailable_def checkCRDsWithClient_def OperatorDependencies_def DefaultCheckOptions_def late_crd_def
      needed_of_def gvr_of_def before_retry_def next_backoff_def check_result_def numeral_eq_Suc wp_rules wp_embed Let_def)

theorem main_registers_witness: "started_ok default_flags (cs_trace (snd start_run))"
  using main_registers [OF start_run_eq] wp_run [OF start_run_eq wp_start] by (auto simp: registration_ok_def)

end
