(* ===== verification/Status_Schema.thy ===== *)
theory Status_Schema
  imports Reconcile_Properties
begin

text \<open>
  The status of a \<open>WorkspaceDeployment\<close> against the schema of its CRD
  (\<open>workspacedeployment_types.go\<close>): conditions, prerequisites and access entries are lists keyed by
  type or name, so the API server rejects a status with two entries of one key, and the conditions
  use the declared types and reasons only.

  \<open>keeps\<close> is a small program logic for such an invariant of the object in memory: an operation
  that starts with a valid status ends with one and submits only valid ones, as long as what it was
  told by the outside is valid.  Its rules follow the program text.
\<close>

section \<open>The schema\<close>

definition condition_types :: "string list" where
  "condition_types =
     [ConditionReady, ConditionClassResolved, ConditionPrerequisitesMet, ConditionHelmReleaseReady,
      ConditionClusterDeploymentResolved, ConditionRoutesReady, ConditionFeasible, ConditionResourcesInjected]"

definition condition_reasons :: "string list" where
  "condition_reasons =
     [ReasonClassNotFound, ReasonClassResolved, ReasonClusterDeploymentResolved, ReasonClusterDeploymentNotFound,
      ReasonPrerequisitesNotReady, ReasonPrerequisitesMet, ReasonInstallingPrerequisites, ReasonHelmReleaseNotReady,
      ReasonHelmReleaseDeployed, ReasonHelmReleaseFailed, ReasonDeploymentReady, ReasonDeletionInProgress,
      ReasonInternalError, ReasonSuspended, ReasonInvalidPrerequisite, ReasonPrerequisiteNamespaceConflict,
      ReasonResourcesAvailable, ReasonInsufficientResources, ReasonFeasibilityUnknown, ReasonResourcesInjected,
      ReasonUserPathsOverwritten, ReasonInvalidWorkspaceClass, ReasonRoutesReady, ReasonRoutingInProgress,
      ReasonRoutingError, ReasonRoutingInfraNotReady, ReasonGpuOfferingUnavailable, ReasonWaitingForGpuCapacity,
      ReasonCleanupAbandoned]"

definition condition_valid :: "Condition \<Rightarrow> bool" where
  "condition_valid c \<longleftrightarrow> c_Type c \<in> set condition_types \<and> c_Reason c \<in> set condition_reasons"

definition prerequisites_valid :: "PrerequisiteStatus list \<Rightarrow> bool" where
  "prerequisites_valid ps \<longleftrightarrow> distinct (map ps_Name ps) \<and> list_all (\<lambda>p. ps_Phase p \<noteq> PrerequisitePhaseNone) ps"

definition status_valid :: "'q WorkspaceDeploymentStatus \<Rightarrow> bool" where
  "status_valid st \<longleftrightarrow>
     distinct (map c_Type (st_Conditions st)) \<and> list_all condition_valid (st_Conditions st) \<and>
     prerequisites_valid (st_Prerequisites st) \<and> distinct (map ae_Name (st_Access st))"

text \<open>What the outside tells: stored objects passed the schema, a class lists a template once among
  its prerequisites, and a provider reports an endpoint once.\<close>

definition prerequisite_names :: "'q WorkspaceClass \<Rightarrow> string list" where
  "prerequisite_names wsc = map (\<lambda>p. str_Name (pq_ServiceTemplate p)) (wsc_Prerequisites (wsc_Spec wsc))"

fun input_valid :: "'q ev \<Rightarrow> bool" where
  "input_valid (EGetWsd (Inr w)) \<longleftrightarrow> status_valid (wsd_Status w)"
| "input_valid (EGetWsc _ (Inr wsc)) \<longleftrightarrow> distinct (prerequisite_names wsc)"
| "input_valid (EEnsureRoutes (Inr entries)) \<longleftrightarrow> distinct (map ae_Name entries)"
| "input_valid _ \<longleftrightarrow> True"

fun submits_valid :: "'q ev \<Rightarrow> bool" where
  "submits_valid (EStatus w _) \<longleftrightarrow> status_valid (wsd_Status w)"
| "submits_valid _ \<longleftrightarrow> True"

section \<open>A program logic for the status\<close>

definition inputs_valid :: "'q ev list \<Rightarrow> bool" where
  "inputs_valid h \<longleftrightarrow> list_all input_valid h"

definition keeps :: "bool \<Rightarrow> ('w, 'q, 'a) rec \<Rightarrow> ('a \<Rightarrow> bool) \<Rightarrow> bool" where
  "keeps G m R \<longleftrightarrow>
     (\<forall>s. (inputs_valid (rs_trace s) \<longrightarrow> G \<and> status_valid (wsd_Status (rs_wsd s))) \<longrightarrow>
        safe (\<lambda>h e. inputs_valid h \<longrightarrow> submits_valid e) m s
          (\<lambda>a s'. inputs_valid (rs_trace s') \<longrightarrow> R a \<and> status_valid (wsd_Status (rs_wsd s'))))"

named_theorems keeps_rules \<comment> \<open>the operations of the reconciler in the logic\<close>

lemma inputs_valid_append [simp]: "inputs_valid (h @ es) \<longleftrightarrow> inputs_valid h \<and> inputs_valid es"
  by (simp add: inputs_valid_def)

lemma inputs_valid_Cons [simp]: "inputs_valid (e # es) \<longleftrightarrow> input_valid e \<and> inputs_valid es"
  by (simp add: inputs_valid_def)

lemma inputs_valid_Nil [simp]: "inputs_valid []"
  by (simp add: inputs_valid_def)

lemma keeps_bind:
  fixes m :: "('w, 'q, 'a) rec"
  assumes "keeps G m R" and "\<And>a. keeps (G \<and> R a) (f a) R'"
  shows "keeps G (State_Monad.bind m f) R'"
  unfolding keeps_def
proof (intro allI impI)
  fix s :: "('w, 'q) rstate"
  assume s: "inputs_valid (rs_trace s) \<longrightarrow> G \<and> status_valid (wsd_Status (rs_wsd s))"
  let ?P = "\<lambda>h e. inputs_valid h \<longrightarrow> submits_valid e"
  let ?Q = "\<lambda>a s'. inputs_valid (rs_trace s') \<longrightarrow> R' a \<and> status_valid (wsd_Status (rs_wsd s'))"
  have "safe ?P m s (\<lambda>a s'. inputs_valid (rs_trace s') \<longrightarrow> R a \<and> status_valid (wsd_Status (rs_wsd s')))"
    using assms(1) s by (simp add: keeps_def)
  then have "safe ?P m s (\<lambda>a s'. safe ?P (f a) s' ?Q)"
    by (rule safe_lift) (use s assms(2) in \<open>auto simp: keeps_def\<close>)
  then show "safe ?P (State_Monad.bind m f) s ?Q" by (rule safe_bind)
qed

lemma keeps_weaken: "keeps G m R \<Longrightarrow> (\<And>a. R a \<Longrightarrow> R' a) \<Longrightarrow> keeps G m R'"
  unfolding keeps_def by (blast intro: safe_weaken)

lemma keeps_forget: "keeps G m R \<Longrightarrow> keeps G m (\<lambda>_. True)"
  by (erule keeps_weaken) simp

lemma keeps_return: "(G \<Longrightarrow> R a) \<Longrightarrow> keeps G (State_Monad.return a) R"
  by (auto simp: keeps_def intro!: safe_return)

lemma keeps_read_only:
  fixes m :: "('w, 'q, 'a) rec"
  assumes m: "read_only m"
  shows "keeps G m (\<lambda>_. True)"
  unfolding keeps_def
proof (intro allI impI)
  fix s :: "('w, 'q) rstate"
  assume s: "inputs_valid (rs_trace s) \<longrightarrow> G \<and> status_valid (wsd_Status (rs_wsd s))"
  have "is_read e \<Longrightarrow> submits_valid e" for e :: "'q ev" by (cases e) simp_all
  then show "safe (\<lambda>h e. inputs_valid h \<longrightarrow> submits_valid e) m s
      (\<lambda>a s'. inputs_valid (rs_trace s') \<longrightarrow> True \<and> status_valid (wsd_Status (rs_wsd s')))"
    by (intro read_only_safe [OF m]) (use s in auto)
qed

lemma keeps_invoke:
  assumes "\<And>a. submits_valid (mk a)"
  shows "keeps G (invoke mk f) (\<lambda>a. input_valid (mk a))"
  unfolding keeps_def by (intro allI impI safe_invoke) (use assms in auto)

lemma keeps_get_wsd: "keeps G get_wsd (\<lambda>_. True)"
  unfolding keeps_def by (intro allI impI safe_get_wsd) auto

lemma keeps_put_wsd: "(G \<Longrightarrow> status_valid (wsd_Status w)) \<Longrightarrow> keeps G (put_wsd w) (\<lambda>_. True)"
  unfolding keeps_def by (intro allI impI safe_put_wsd) auto

lemma keeps_modify_wsd:
  "(\<And>w. G \<Longrightarrow> status_valid (wsd_Status w) \<Longrightarrow> status_valid (wsd_Status (f w))) \<Longrightarrow> keeps G (modify_wsd f) (\<lambda>_. True)"
  unfolding keeps_def by (intro allI impI safe_modify_wsd) auto

lemma keeps_modify_status:
  "(\<And>st. G \<Longrightarrow> status_valid st \<Longrightarrow> status_valid (f st)) \<Longrightarrow> keeps G (modify_status f) (\<lambda>_. True)"
  unfolding modify_status_def by (rule keeps_modify_wsd) simp

lemma keeps_update_status: "keeps G (update_status r) (\<lambda>_. True)"
  unfolding keeps_def by (intro allI impI safe_update_status) auto

lemma keeps_update_wsd: "keeps G (update_wsd r) (\<lambda>_. True)"
  unfolding keeps_def by (intro allI impI safe_update_wsd) auto

lemma keeps_if: "(b \<Longrightarrow> keeps G m R) \<Longrightarrow> (\<not> b \<Longrightarrow> keeps G n R) \<Longrightarrow> keeps G (if b then m else n) R"
  by simp

lemma keeps_case_sum:
  "(\<And>x. v = Inl x \<Longrightarrow> keeps G (f x) R) \<Longrightarrow> (\<And>y. v = Inr y \<Longrightarrow> keeps G (g y) R) \<Longrightarrow>
   keeps G (case v of Inl x \<Rightarrow> f x | Inr y \<Rightarrow> g y) R"
  by (cases v) simp_all

lemma keeps_case_option:
  "(v = None \<Longrightarrow> keeps G f R) \<Longrightarrow> (\<And>y. v = Some y \<Longrightarrow> keeps G (g y) R) \<Longrightarrow>
   keeps G (case v of None \<Rightarrow> f | Some y \<Rightarrow> g y) R"
  by (cases v) simp_all

lemma keeps_case_prod: "(\<And>x y. v = (x, y) \<Longrightarrow> keeps G (f x y) R) \<Longrightarrow> keeps G (case v of (x, y) \<Rightarrow> f x y) R"
  by (cases v) simp

lemma keeps_case_bool:
  "(v \<Longrightarrow> keeps G f R) \<Longrightarrow> (\<not> v \<Longrightarrow> keeps G g R) \<Longrightarrow> keeps G (case v of True \<Rightarrow> f | False \<Rightarrow> g) R"
  by (cases v) simp_all

lemma keeps_case_outcome:
  "(\<And>x. v = Ok x \<Longrightarrow> keeps G (f x) R) \<Longrightarrow> (\<And>e. v = Err e \<Longrightarrow> keeps G (g e) R) \<Longrightarrow>
   (\<And>m. v = Panic m \<Longrightarrow> keeps G (k m) R) \<Longrightarrow>
   keeps G (case v of Ok x \<Rightarrow> f x | Err e \<Rightarrow> g e | Panic m \<Rightarrow> k m) R"
  by (cases v) simp_all

lemma keeps_let: "(\<And>x. x = v \<Longrightarrow> keeps G (f x) R) \<Longrightarrow> keeps G (Let v f) R"
  by simp

text \<open>Fields without a constraint.\<close>

lemma status_valid_update [simp]:
  "status_valid (st\<lparr>st_Phase := p\<rparr>) = status_valid st"
  "status_valid (st\<lparr>st_Message := m\<rparr>) = status_valid st"
  "status_valid (st\<lparr>st_Feasibility := f\<rparr>) = status_valid st"
  "status_valid (st\<lparr>st_ResolvedResources := rr\<rparr>) = status_valid st"
  "status_valid (st\<lparr>st_ServiceEntryName := n\<rparr>) = status_valid st"
  "status_valid (st\<lparr>st_FailureContext := fc\<rparr>) = status_valid st"
  "status_valid (st\<lparr>st_ObservedGeneration := g\<rparr>) = status_valid st"
  by (simp_all add: status_valid_def)

lemma put_condition_valid:
  "list_all condition_valid cs \<Longrightarrow> condition_valid c \<Longrightarrow> list_all condition_valid (put_condition c cs)"
  by (induction cs) (auto simp: condition_valid_def)

lemma keeps_setCondition:
  assumes "condition_valid c" shows "keeps G (setCondition r c) (\<lambda>_. True)"
  unfolding setCondition_def now_def
proof (rule keeps_bind [OF keeps_invoke], goal_cases)
  case (2 t)
  have "condition_valid (c\<lparr>c_LastTransitionTime := t\<rparr>)" using assms by (simp add: condition_valid_def)
  then show ?case
    by (intro keeps_modify_status)
       (use put_condition_distinct in \<open>auto simp: status_valid_def types_distinct_def put_condition_valid\<close>)
qed simp

lemma keeps_set_condition:
  assumes "ty \<in> set condition_types" and "reason \<in> set condition_reasons"
  shows "keeps G (set_condition r ty status reason msg) (\<lambda>_. True)"
  unfolding set_condition_def
  by (intro keeps_bind [OF keeps_get_wsd] keeps_setCondition)
     (use assms in \<open>simp add: condition_valid_def mk_condition_def\<close>)

lemma keeps_return_True: "keeps G (State_Monad.return a) (\<lambda>_. True)"
  by (rule keeps_return) simp

lemma keeps_get_ss: "keeps G (get_ss r ns name) (\<lambda>_. True)"
  unfolding get_ss_def by (rule keeps_forget [OF keeps_invoke]) simp

lemma keeps_get_cd: "keeps G (get_cd r ns name) (\<lambda>_. True)"
  unfolding get_cd_def by (rule keeps_forget [OF keeps_invoke]) simp

lemma keeps_get_wsc: "keeps G (get_wsc r name) (\<lambda>a. \<forall>wsc. a = Inr wsc \<longrightarrow> distinct (prerequisite_names wsc))"
  unfolding get_wsc_def by (rule keeps_weaken [OF keeps_invoke]) auto

lemma keeps_now: "keeps G (now r) (\<lambda>_. True)"
  unfolding now_def by (rule keeps_forget [OF keeps_invoke]) simp

lemma keeps_eventf: "keeps G (eventf r ty reason act msg) (\<lambda>_. True)"
  unfolding eventf_def by (intro keeps_if keeps_return_True keeps_forget [OF keeps_invoke]) simp

text \<open>The forms of a program, and the operations that are not defined by it.  Where the continuation
  relies on what was read, the rule for the call comes first.\<close>

lemma keeps_then: "keeps G m (\<lambda>_. True) \<Longrightarrow> (\<And>a. keeps G (f a) R) \<Longrightarrow> keeps G (State_Monad.bind m f) R"
  by (rule keeps_bind [where R = "\<lambda>_. True"]) simp_all

lemma keeps_invoke_True: "(\<And>a. submits_valid (mk a)) \<Longrightarrow> keeps G (invoke mk f) (\<lambda>_. True)"
  by (rule keeps_forget [OF keeps_invoke])

lemma keeps_fetch_wsd:
  assumes "\<And>e. keeps G (f (Inl e)) R" and "\<And>w. keeps (G \<and> status_valid (wsd_Status w)) (f (Inr w)) R"
  shows "keeps G (State_Monad.bind (invoke EGetWsd g) f) R"
proof (rule keeps_bind [OF keeps_invoke])
  show "keeps (G \<and> input_valid (EGetWsd a)) (f a) R" for a
    by (cases a) (use assms in simp_all)
qed simp

lemma keeps_ensure_routes:
  assumes "\<And>e. keeps G (f (Inl e)) R" and "\<And>es. keeps (G \<and> distinct (map ae_Name es)) (f (Inr es)) R"
  shows "keeps G (State_Monad.bind (invoke EEnsureRoutes g) f) R"
proof (rule keeps_bind [OF keeps_invoke])
  show "keeps (G \<and> input_valid (EEnsureRoutes a :: 'b ev)) (f a) R" for a
    by (cases a) (use assms in simp_all)
qed simp

lemmas keeps_forms =
  keeps_then keeps_return_True keeps_if keeps_case_sum keeps_case_option keeps_case_prod keeps_case_bool
  keeps_case_outcome keeps_let keeps_invoke_True keeps_get_wsd keeps_put_wsd keeps_modify_wsd keeps_modify_status
  keeps_update_status keeps_update_wsd keeps_set_condition keeps_get_ss keeps_get_cd keeps_now keeps_eventf
  keeps_read_only [OF read_only_GetClusterClientForCD] keeps_read_only [OF read_only_getChildClusterClient]
  keeps_read_only [OF read_only_resolveGPUResource] keeps_read_only [OF read_only_retry_or_abandon]
  keeps_read_only [OF read_only_recentEvents]

lemmas vocabulary = condition_types_def condition_reasons_def

section \<open>The operations\<close>

lemma keeps_buildFailureContext [keeps_rules]: "keeps G (buildFailureContext r reason msg) (\<lambda>_. True)"
  unfolding buildFailureContext_def by (intro keeps_forms)

lemma keeps_markFailed [keeps_rules]: "keeps G (markFailed r reason msg) (\<lambda>_. True)"
  unfolding markFailed_def by (intro keeps_forms keeps_rules) simp_all

lemma keeps_ensureWorkspaceNamespace [keeps_rules]: "keeps G (ensureWorkspaceNamespace r child mesh) (\<lambda>_. True)"
  unfolding ensureWorkspaceNamespace_def by (intro keeps_forms) simp_all

lemma keeps_deleteWorkspaceNamespace [keeps_rules]: "keeps G (deleteWorkspaceNamespace r child) (\<lambda>_. True)"
  unfolding deleteWorkspaceNamespace_def by (intro keeps_forms) simp_all

lemma keeps_ensureWorkspaceServiceSet [keeps_rules]: "keeps G (ensureWorkspaceServiceSet r wsc vals) (\<lambda>_. True)"
  unfolding ensureWorkspaceServiceSet_def by (intro keeps_forms) simp_all

lemma keeps_ensureWorkspaceServiceSetDeleted [keeps_rules]: "keeps G (ensureWorkspaceServiceSetDeleted r) (\<lambda>_. True)"
  unfolding ensureWorkspaceServiceSetDeleted_def recheck_serviceset_def by (intro keeps_forms) simp_all

lemma keeps_forceDeleteWorkspaceServiceSet [keeps_rules]: "keeps G (forceDeleteWorkspaceServiceSet r) (\<lambda>_. True)"
  unfolding forceDeleteWorkspaceServiceSet_def clear_finalizers_def by (intro keeps_forms) simp_all

lemma keeps_ensurePrerequisiteServiceSet [keeps_rules]: "keeps G (ensurePrerequisiteServiceSet r wsc prereq) (\<lambda>_. True)"
  unfolding ensurePrerequisiteServiceSet_def by (intro keeps_forms) simp_all

lemma keeps_gateGPUOffering [keeps_rules]: "keeps G (gateGPUOffering r wsc) (\<lambda>_. True)"
  unfolding gateGPUOffering_def gate_decision_def keep_pending_def enterWaiting_def hasOlderWaitingSibling_def
  by (intro keeps_forms keeps_rules) simp_all

lemma keeps_resolveClusterDeployment [keeps_rules]: "keeps G (resolveClusterDeployment r) (\<lambda>_. True)"
  unfolding resolveClusterDeployment_def by (intro keeps_forms) (simp_all add: vocabulary)

lemma keeps_refreshFeasibility [keeps_rules]: "keeps G (refreshFeasibility r wsc) (\<lambda>_. True)"
  unfolding refreshFeasibility_def feasibility_unknown_def computeFeasibility_def
  by (intro keeps_forms) (simp_all add: vocabulary)

lemma keeps_startDeployment [keeps_rules]: "keeps G (startDeployment r wsc) (\<lambda>_. True)"
  unfolding startDeployment_def apply_workspace_def wait_with_def fail_with_def setResourcesInjectedCondition_def
  by (intro keeps_forms keeps_rules) (simp_all add: vocabulary)

lemma keeps_readiness_loop [keeps_rules]: "keeps G (readiness_loop r entry svcs) (\<lambda>_. True)"
proof (induction svcs arbitrary: G)
  case (Cons svc svcs)
  show ?case
    unfolding readiness_loop.simps service_deployed_def service_failed_def
    by (intro keeps_fetch_wsd keeps_if keeps_then [OF keeps_get_wsd] Cons.IH;
        simp only: sum.case; intro keeps_forms keeps_rules Cons.IH) (simp_all add: vocabulary)
qed (simp add: keeps_return_True)

lemma keeps_checkServiceReadiness [keeps_rules]: "keeps G (checkServiceReadiness r) (\<lambda>_. True)"
  unfolding checkServiceReadiness_def by (intro keeps_forms keeps_rules)

lemma keeps_reconcileRoutes [keeps_rules]: "keeps G (reconcileRoutes r wsc) (\<lambda>_. True)"
  unfolding reconcileRoutes_def
  by (intro keeps_ensure_routes keeps_case_option keeps_if keeps_then [OF keeps_get_wsd] keeps_return_True;
      simp only: sum.case; intro keeps_forms keeps_setCondition)
     (auto simp: vocabulary status_valid_def routes_condition_def condition_valid_def mk_condition_def split: option.splits)

text \<open>Prerequisites: the evaluation reports every template of the class once, and the installation
  changes phases only.\<close>

definition evaluated_valid :: "goerr + PrerequisitesVerdict \<times> PrerequisiteStatus list \<Rightarrow> bool" where
  "evaluated_valid res \<longleftrightarrow> (\<forall>v sts. res = Inr (v, sts) \<longrightarrow> prerequisites_valid sts)"

lemma eval_own_entry:
  "(v, st) = eval_own prereq ss overall \<Longrightarrow>
     ps_Name st = str_Name (pq_ServiceTemplate prereq) \<and> ps_Phase st \<noteq> PrerequisitePhaseNone"
  by (auto simp: eval_own_def prereq_status_def Let_def split: prod.splits if_splits)

lemma eval_colony_entry:
  "(v, st) = eval_colony prereq cd overall \<Longrightarrow>
     ps_Name st = str_Name (pq_ServiceTemplate prereq) \<and> ps_Phase st \<noteq> PrerequisitePhaseNone"
  by (auto simp: eval_colony_def prereq_status_def Let_def split: if_splits)

lemma keeps_eval_loop:
  assumes "G \<Longrightarrow> distinct (map ps_Name sts @ map (\<lambda>p. str_Name (pq_ServiceTemplate p)) prereqs)"
    and "G \<Longrightarrow> list_all (\<lambda>p. ps_Phase p \<noteq> PrerequisitePhaseNone) sts"
  shows "keeps G (eval_loop r cdRef cd prereqs overall sts) evaluated_valid"
  using assms
proof (induction prereqs arbitrary: overall sts)
  case Nil
  then show ?case
    by (auto simp: evaluated_valid_def prerequisites_valid_def intro!: keeps_return)
next
  case (Cons prereq prereqs)
  have step: "keeps G (eval_loop r cdRef cd prereqs overall' (sts @ [st])) evaluated_valid"
    if "ps_Name st = str_Name (pq_ServiceTemplate prereq)" "ps_Phase st \<noteq> PrerequisitePhaseNone" for overall' st
    by (rule Cons.IH) (use Cons.prems that in auto)
  show ?case
    unfolding eval_loop.simps
    by (intro keeps_if keeps_return keeps_let keeps_then [OF keeps_get_ss] keeps_case_sum keeps_case_prod step)
       (auto simp: evaluated_valid_def prerequisites_valid_def version_constraint_status_def
          dest: eval_own_entry eval_colony_entry)
qed

lemma keeps_evaluatePrerequisites:
  assumes "G \<Longrightarrow> distinct (prerequisite_names wsc)"
  shows "keeps G (evaluatePrerequisites r wsc) evaluated_valid"
  unfolding evaluatePrerequisites_def
  by (intro keeps_then [OF keeps_get_wsd] keeps_let keeps_then [OF keeps_get_cd] keeps_case_sum keeps_if keeps_return
        keeps_eval_loop)
     (use assms in \<open>simp_all add: evaluated_valid_def prerequisite_names_def\<close>)

lemma keeps_install_loop:
  assumes "G \<Longrightarrow> prerequisites_valid (sts @ map fst zs)"
  shows "keeps G (install_loop r wsc sts zs) (\<lambda>res. \<forall>sts'. res = Inr sts' \<longrightarrow> prerequisites_valid sts')"
  using assms
proof (induction zs arbitrary: sts)
  case Nil
  then show ?case by (auto intro!: keeps_return)
next
  case (Cons z zs)
  obtain st prereq where z: "z = (st, prereq)" by (cases z)
  let ?st = "st\<lparr>ps_Phase := PrerequisitePhaseInstalling\<rparr>"
  have "G \<Longrightarrow> prerequisites_valid (sts @ ?st # map fst zs)"
    using Cons.prems by (simp add: z prerequisites_valid_def)
  with Cons show ?case
    unfolding z install_loop.simps
    by (intro keeps_if keeps_let keeps_then keeps_case_option keeps_return keeps_modify_status keeps_rules Cons.IH)
       (auto simp: z status_valid_def)
qed

lemma keeps_report_installing [keeps_rules]: "keeps G (report_installing r sts) (\<lambda>_. True)"
  unfolding report_installing_def by (intro keeps_forms) (simp_all add: vocabulary)

lemma keeps_report_failed [keeps_rules]:
  "reason \<in> set condition_reasons \<Longrightarrow> keeps G (report_failed r reason msg) (\<lambda>_. True)"
  unfolding report_failed_def by (intro keeps_forms keeps_rules) (simp_all add: vocabulary)

lemma keeps_install_missing:
  assumes "G \<Longrightarrow> prerequisites_valid sts"
  shows "keeps G (do {
      ir \<leftarrow> install_loop r wsc [] (zip sts prereqs);
      (case ir of
         Inl e \<Rightarrow> State_Monad.return (no_requeue, True, Some e)
       | Inr sts' \<Rightarrow> do {
           modify_status (\<lambda>x. x\<lparr>st_Prerequisites := sts'\<rparr>);
           report_installing r sts'
         })
    }) (\<lambda>_. True)"
proof (rule keeps_bind [OF keeps_install_loop], goal_cases)
  case 1
  then show ?case
    using assms by (auto simp: prerequisites_valid_def map_fst_zip_take list_all_iff dest: in_set_takeD simp flip: take_map)
next
  case (2 ir)
  then show ?case
    by (intro keeps_forms keeps_rules) (auto simp: status_valid_def)
qed

lemma keeps_reconcilePrerequisites:
  assumes "G \<Longrightarrow> distinct (prerequisite_names wsc)"
  shows "keeps G (reconcilePrerequisites r wsc) (\<lambda>_. True)"
  unfolding reconcilePrerequisites_def
proof (rule keeps_bind [OF keeps_evaluatePrerequisites], goal_cases)
  case 1
  then show ?case by (rule assms)
next
  case (2 ev)
  show ?case
  proof (cases ev)
    case (Inr p)
    obtain v sts where p: "p = (v, sts)" by (cases p)
    show ?thesis
      unfolding Inr p sum.case prod.case
      by (rule keeps_then; (cases v)?; simp only: PrerequisitesVerdict.case;
          (intro keeps_forms keeps_rules keeps_install_missing)?)
         (auto simp: evaluated_valid_def status_valid_def vocabulary)
  qed (simp add: keeps_return_True)
qed

section \<open>Reconcile\<close>

lemma keeps_resolveWorkspaceClass:
  "keeps G (resolveWorkspaceClass r) (\<lambda>res. \<forall>wsc. res = Inr (Some wsc) \<longrightarrow> distinct (prerequisite_names wsc))"
  unfolding resolveWorkspaceClass_def
proof (intro keeps_then [OF keeps_get_wsd] keeps_let keeps_bind [OF keeps_get_wsc], goal_cases)
  case (1 w ref cr)
  then show ?case
    by (intro keeps_case_sum keeps_if keeps_then [OF keeps_get_wsd] keeps_then [OF keeps_update_status]
          keeps_then [OF keeps_markFailed] keeps_then [OF keeps_set_condition] keeps_case_option keeps_return)
       (auto simp: vocabulary)
qed

text \<open>The finalizer operations change the finalizers.\<close>

lemma finalizers_keep_status:
  assumes "finalizers_ok r"
  shows "wsd_Status (api_add_finalizer (r_api r) w f) = wsd_Status w"
    and "wsd_Status (api_remove_finalizer (r_api r) w f) = wsd_Status w"
proof -
  obtain fs where "api_add_finalizer (r_api r) w f = w\<lparr>wsd_Finalizers := fs\<rparr>"
    using assms unfolding finalizers_ok_def by blast
  then show "wsd_Status (api_add_finalizer (r_api r) w f) = wsd_Status w" by simp
  obtain fs where "api_remove_finalizer (r_api r) w f = w\<lparr>wsd_Finalizers := fs\<rparr>"
    using assms unfolding finalizers_ok_def by blast
  then show "wsd_Status (api_remove_finalizer (r_api r) w f) = wsd_Status w" by simp
qed

lemma keeps_get_wsc_True: "keeps G (get_wsc r name) (\<lambda>_. True)"
  by (rule keeps_forget [OF keeps_get_wsc])

lemma keeps_reconcileDelete:
  assumes "finalizers_ok r" shows "keeps G (reconcileDelete r) (\<lambda>_. True)"
  unfolding reconcileDelete_def mark_deleting_def cleanupRoutes_def delete_backend_def targetClusterGone_def
    cleanupWorkspaceNamespace_def namespace_step_def remove_finalizer_def
  by (intro keeps_forms keeps_rules keeps_get_wsc_True) (simp_all add: finalizers_keep_status [OF assms])

lemma keeps_reconcile_phase [keeps_rules]: "keeps G (reconcile_phase r wsc) (\<lambda>_. True)"
  unfolding reconcile_phase_def by (intro keeps_forms keeps_rules)

lemma keeps_reconcile_resolved:
  assumes "G \<Longrightarrow> distinct (prerequisite_names wsc)"
  shows "keeps G (reconcile_resolved r wsc) (\<lambda>_. True)"
  unfolding reconcile_resolved_def feasibility_refresh_def capacity_gate_def prerequisites_gate_def
  by (intro keeps_forms keeps_rules keeps_reconcilePrerequisites) (use assms in \<open>simp_all add: vocabulary\<close>)

lemma keeps_reconcile_live:
  assumes "finalizers_ok r" shows "keeps G (reconcile_live r) (\<lambda>_. True)"
  unfolding reconcile_live_def ensure_finalizer_def
  by (intro keeps_bind [OF keeps_resolveWorkspaceClass] keeps_reconcile_resolved keeps_case_sum keeps_case_option
        keeps_then keeps_get_wsd keeps_if keeps_return_True keeps_modify_wsd keeps_update_wsd)
     (auto simp: finalizers_keep_status [OF assms])

lemma keeps_Reconcile:
  assumes "finalizers_ok r" shows "keeps G (Reconcile r ns name) (\<lambda>_. True)"
  unfolding Reconcile_def reconcile_fetched_def
  by (rule keeps_fetch_wsd; simp only: sum.case;
      intro keeps_forms keeps_reconcileDelete keeps_reconcile_live) (simp_all add: assms)

text \<open>
  C20: Every status that a reconcile submits passes the schema of the CRD: one condition per type, with a
  declared type and reason, one prerequisite entry per name, each with a phase, and one access entry
  per name.  What it relies on is in the events before the submission: the object that was read is
  valid, the class names no template twice among its prerequisites, the provider reports no
  endpoint twice.  Object and server state are otherwise arbitrary, and any call may fail.
\<close>

theorem Reconcile_submits_valid_status:
  assumes "finalizers_ok r" and "status_valid (wsd_Status (rs_wsd s))" and "rs_trace s = []"
    and "run_state (Reconcile r ns name) s = (res, s')"
    and "rs_trace s' = h @ EStatus w a # h'" and "list_all input_valid h"
  shows "status_valid (wsd_Status w)"
proof -
  have "safe (\<lambda>h e. inputs_valid h \<longrightarrow> submits_valid e) (Reconcile r ns name) s
      (\<lambda>a s'. inputs_valid (rs_trace s') \<longrightarrow> True \<and> status_valid (wsd_Status (rs_wsd s')))"
    using keeps_Reconcile [OF assms(1), of True ns name] assms(2) by (simp add: keeps_def)
  from safe_run [OF this assms(4)] obtain es where "rs_trace s' = rs_trace s @ es"
    and "hist_ok (\<lambda>h e. inputs_valid h \<longrightarrow> submits_valid e) (rs_trace s) es" by metis
  then have "hist_ok (\<lambda>h e. inputs_valid h \<longrightarrow> submits_valid e) [] (h @ EStatus w a # h')"
    using assms(3,5) by simp
  then show ?thesis using assms(6) by (simp add: hist_ok_append inputs_valid_def)
qed

definition demo_classless :: "(int, int) reconciler" where
  "demo_classless = demo_r\<lparr>r_api := demo_api\<lparr>api_get_wsd := (\<lambda>_ _ v. (Inr demo_new, v))\<rparr>\<rparr>"

lemma demo_classless_finalizers: "finalizers_ok demo_classless"
  using demo_finalizers_ok by (simp add: finalizers_ok_def demo_classless_def demo_r_def demo_api_def)

lemma demo_statuses: "status_valid (wsd_Status demo_new)" "status_valid (wsd_Status (rs_wsd demo_start))"
  by (simp_all add: status_valid_def prerequisites_valid_def demo_new_def demo_start_def demo_wsd_def)

lemma demo_classless_run:
  "\<exists>w es. rs_trace (snd (run_state (Reconcile demo_classless ''org'' ''w'') demo_start)) = es @ EStatus w None # [] \<and>
     list_all input_valid es \<and> st_Phase (wsd_Status w) = PhaseFailed"
  by (simp add: Reconcile_def reconcile_fetched_def reconcile_live_def ensure_finalizer_def resolveWorkspaceClass_def
      markFailed_def buildFailureContext_def recentEvents_def get_wsc_def get_ss_def update_status_def set_condition_def
      setCondition_def now_def eventf_def run_simps demo_classless_def demo_r_def demo_api_def demo_start_def demo_new_sel
      not_found_def demo_statuses del: put_condition.simps)

theorem Reconcile_submits_valid_status_witness:
  "\<exists>w es. rs_trace (snd (run_state (Reconcile demo_classless ''org'' ''w'') demo_start)) = es @ [EStatus w None] \<and>
     st_Phase (wsd_Status w) = PhaseFailed \<and> status_valid (wsd_Status w)"
proof -
  obtain w es where t: "rs_trace (snd (run_state (Reconcile demo_classless ''org'' ''w'') demo_start)) = es @ EStatus w None # []"
    and i: "list_all input_valid es" and p: "st_Phase (wsd_Status w) = PhaseFailed"
    using demo_classless_run by blast
  from Reconcile_submits_valid_status [OF demo_classless_finalizers demo_statuses(2) demo_start_trace surjective_pairing t i]
  show ?thesis using t p by auto
qed

text \<open>Nothing keeps a class from naming a template twice; the status submitted for it then does not
  pass the schema, so it is never stored.\<close>

theorem duplicate_prerequisites_invalid:
  "\<exists>w x. EStatus w x \<in> set (rs_trace (snd (run_state
       (reconcilePrerequisites demo_r_cd (demo_wsc [demo_prereq ''a'', demo_prereq ''a''])) (demo_s (demo_wsd ''cd'' ''w''))))) \<and>
     \<not> status_valid (wsd_Status w)"
  by (simp add: reconcilePrerequisites_def evaluatePrerequisites_def run_simps get_cd_def get_ss_def demo_r_cd_def
      demo_env demo_wsc_def demo_prereq_def demo_cd_def eval_colony_def colonyDeployed_def colonyKnown_def
      colonyNamespace_def bump_wait_def effectivePrerequisiteNamespace_def prereq_status_def
      ensurePrerequisiteServiceSet_def prerequisite_values_def report_installing_def set_condition_def
      setCondition_def now_def update_status_def status_valid_def prerequisites_valid_def)

end
