(* ===== verification/Go_Store.thy ===== *)
theory Go_Store
  imports Operator_Prelude
begin

text \<open>
  Go values in a store, for the code whose correctness is about sharing: the generated deep
  copies (\<open>zz_generated.deepcopy.go\<close>) and the functions that build one object out of the
  pointers of another (\<open>mergeResources\<close>).  Everywhere else the objects are immutable values
  and records suffice.

  A store is the list of the cells allocated so far, an address an index into it, so \<open>new\<close>
  appends a cell.  A struct value lies where its variable or its containing struct lies; a pointer,
  a slice and a map are a reference to a cell that holds the pointed-to value, the elements or the
  entries (slices here cover their whole array, as decoded objects' slices do).  A type
  directs \<open>read\<close>, the tree a value stands for, and \<open>footprint\<close>, the cells that tree is read
  from.
\<close>

section \<open>Values, types and stores\<close>

type_synonym addr = nat

datatype gval =
    GStr string | GInt int | GBool bool
  | GNil                                   \<comment> \<open>the nil pointer, slice or map\<close>
  | GRef addr
  | GStruct "(string \<times> gval) list"        \<comment> \<open>the fields in the order of the declaration\<close>
  | GArr "gval list"                       \<comment> \<open>what a slice refers to\<close>
  | GTbl "(string \<times> gval) list"           \<comment> \<open>what a map refers to\<close>

type_synonym store = "gval list"
type_synonym gfields = "(string \<times> gval) list"

datatype gtype =
    TString | TInt | TBool
  | TPtr gtype | TSlice gtype | TMap gtype
  | TStruct "(string \<times> gtype) list"

datatype gtree =
    VStr string | VInt int | VBool bool | VNil
  | VPtr gtree | VSlice "gtree list" | VMap "(string \<times> gtree) list"
  | VStruct "(string \<times> gtree) list"

definition cell :: "store \<Rightarrow> addr \<Rightarrow> gval option" where
  "cell h a = (if a < length h then Some (h ! a) else None)"

definition read_all :: "('a \<Rightarrow> 'b option) \<Rightarrow> 'a list \<Rightarrow> 'b list option" where
  "read_all f xs = those (map f xs)"

fun elems :: "gval option \<Rightarrow> gval list option" where
  "elems (Some (GArr xs)) = Some xs"
| "elems _ = None"

fun entries :: "gval option \<Rightarrow> gfields option" where
  "entries (Some (GTbl kvs)) = Some kvs"
| "entries _ = None"

text \<open>The tree a value stands for; \<open>None\<close> when the value is not of the type (a dangling
  reference, another kind of value).\<close>

fun read :: "store \<Rightarrow> gtype \<Rightarrow> gval \<Rightarrow> gtree option"
and read_fields :: "store \<Rightarrow> (string \<times> gtype) list \<Rightarrow> gfields \<Rightarrow> (string \<times> gtree) list option" where
  "read h TString v = (case v of GStr s \<Rightarrow> Some (VStr s) | _ \<Rightarrow> None)"
| "read h TInt v = (case v of GInt i \<Rightarrow> Some (VInt i) | _ \<Rightarrow> None)"
| "read h TBool v = (case v of GBool b \<Rightarrow> Some (VBool b) | _ \<Rightarrow> None)"
| "read h (TPtr t) v =
     (case v of
        GNil \<Rightarrow> Some VNil
      | GRef a \<Rightarrow> (case cell h a of None \<Rightarrow> None | Some x \<Rightarrow> map_option VPtr (read h t x))
      | _ \<Rightarrow> None)"
| "read h (TSlice t) v =
     (case v of
        GNil \<Rightarrow> Some VNil
      | GRef a \<Rightarrow> (case elems (cell h a) of None \<Rightarrow> None
                   | Some xs \<Rightarrow> map_option VSlice (read_all (\<lambda>x. read h t x) xs))
      | _ \<Rightarrow> None)"
| "read h (TMap t) v =
     (case v of
        GNil \<Rightarrow> Some VNil
      | GRef a \<Rightarrow> (case entries (cell h a) of None \<Rightarrow> None
                   | Some kvs \<Rightarrow> map_option VMap
                       (read_all (\<lambda>kv. map_option (Pair (fst kv)) (read h t (snd kv))) kvs))
      | _ \<Rightarrow> None)"
| "read h (TStruct fts) v =
     (case v of GStruct fs \<Rightarrow> map_option VStruct (read_fields h fts fs) | _ \<Rightarrow> None)"
| "read_fields h [] fs = (if fs = [] then Some [] else None)"
| "read_fields h (ft # fts) fs =
     (case fs of
        [] \<Rightarrow> None
      | f # fs' \<Rightarrow>
          if fst f \<noteq> fst ft then None
          else (case read h (snd ft) (snd f) of None \<Rightarrow> None
                | Some u \<Rightarrow> map_option (Cons (fst ft, u)) (read_fields h fts fs')))"

text \<open>The cells a value's tree is read from.\<close>

fun footprint :: "store \<Rightarrow> gtype \<Rightarrow> gval \<Rightarrow> addr set"
and footprint_fields :: "store \<Rightarrow> (string \<times> gtype) list \<Rightarrow> gfields \<Rightarrow> addr set" where
  "footprint h TString v = {}"
| "footprint h TInt v = {}"
| "footprint h TBool v = {}"
| "footprint h (TPtr t) v =
     (case v of GRef a \<Rightarrow> insert a (case cell h a of None \<Rightarrow> {} | Some x \<Rightarrow> footprint h t x) | _ \<Rightarrow> {})"
| "footprint h (TSlice t) v =
     (case v of GRef a \<Rightarrow> insert a (case elems (cell h a) of None \<Rightarrow> {}
                            | Some xs \<Rightarrow> \<Union> (set (map (\<lambda>x. footprint h t x) xs))) | _ \<Rightarrow> {})"
| "footprint h (TMap t) v =
     (case v of GRef a \<Rightarrow> insert a (case entries (cell h a) of None \<Rightarrow> {}
                            | Some kvs \<Rightarrow> \<Union> (set (map (\<lambda>kv. footprint h t (snd kv)) kvs))) | _ \<Rightarrow> {})"
| "footprint h (TStruct fts) v = (case v of GStruct fs \<Rightarrow> footprint_fields h fts fs | _ \<Rightarrow> {})"
| "footprint_fields h [] fs = {}"
| "footprint_fields h (ft # fts) fs =
     (case fs of [] \<Rightarrow> {} | f # fs' \<Rightarrow> footprint h (snd ft) (snd f) \<union> footprint_fields h fts fs')"

text \<open>Types without a reference: an assignment copies their values whole.\<close>

fun flat :: "gtype \<Rightarrow> bool"
and flat_fields :: "(string \<times> gtype) list \<Rightarrow> bool" where
  "flat TString = True"
| "flat TInt = True"
| "flat TBool = True"
| "flat (TPtr t) = False"
| "flat (TSlice t) = False"
| "flat (TMap t) = False"
| "flat (TStruct fts) = flat_fields fts"
| "flat_fields [] = True"
| "flat_fields (ft # fts) = (flat (snd ft) \<and> flat_fields fts)"

section \<open>Frame lemmas\<close>

lemma read_all_cong [fundef_cong]:
  "xs = ys \<Longrightarrow> (\<And>x. x \<in> set ys \<Longrightarrow> f x = g x) \<Longrightarrow> read_all f xs = read_all g ys"
  by (simp add: read_all_def cong: map_cong)

lemma read_all_Nil [simp]: "read_all f [] = Some []"
  by (simp add: read_all_def)

lemma read_all_Cons [simp]:
  "read_all f (x # xs) = (case f x of None \<Rightarrow> None | Some y \<Rightarrow> map_option (Cons y) (read_all f xs))"
  by (simp add: read_all_def split: option.split)

lemma read_all_SomeD: "read_all f xs = Some ys \<Longrightarrow> x \<in> set xs \<Longrightarrow> \<exists>y. f x = Some y"
  by (induction xs arbitrary: ys) (auto split: option.splits)

lemma read_frame:
  shows "\<forall>a \<in> footprint h t v. cell h' a = cell h a \<Longrightarrow>
           read h' t v = read h t v \<and> footprint h' t v = footprint h t v"
    and "\<forall>a \<in> footprint_fields h fts fs. cell h' a = cell h a \<Longrightarrow>
           read_fields h' fts fs = read_fields h fts fs \<and>
           footprint_fields h' fts fs = footprint_fields h fts fs"
proof (induction h t v and h fts fs rule: footprint_footprint_fields.induct)
  case (4 h t v)
  then show ?case by (cases v) (auto split: option.splits)
next
  case (5 h t v)
  show ?case
  proof (cases v)
    case (GRef a)
    have c: "cell h' a = cell h a" using 5(2) GRef by simp
    show ?thesis
    proof (cases "elems (cell h a)")
      case (Some xs)
      have "read h' t x = read h t x \<and> footprint h' t x = footprint h t x" if "x \<in> set xs" for x
        by (rule 5(1) [OF GRef Some that]) (use 5(2) GRef Some that in auto)
      with GRef Some c show ?thesis by (simp cong: read_all_cong)
    qed (simp add: GRef c)
  qed simp_all
next
  case (6 h t v)
  show ?case
  proof (cases v)
    case (GRef a)
    have c: "cell h' a = cell h a" using 6(2) GRef by simp
    show ?thesis
    proof (cases "entries (cell h a)")
      case (Some kvs)
      have "read h' t (snd kv) = read h t (snd kv) \<and> footprint h' t (snd kv) = footprint h t (snd kv)"
        if "kv \<in> set kvs" for kv
        by (rule 6(1) [OF GRef Some that]) (use 6(2) GRef Some that in auto)
      with GRef Some c show ?thesis by (simp cong: read_all_cong)
    qed (simp add: GRef c)
  qed simp_all
next
  case (7 h fts v)
  then show ?case by (cases v) auto
next
  case (9 h ft fts fs)
  then show ?case by (cases fs) (auto split: option.splits)
qed (simp_all)

lemma cell_dom: "cell h a = Some x \<Longrightarrow> a < length h"
  by (simp add: cell_def split: if_splits)

lemma elems_dom: "elems (cell h a) = Some xs \<Longrightarrow> a < length h"
  by (cases "cell h a") (auto dest: cell_dom)

lemma entries_dom: "entries (cell h a) = Some kvs \<Longrightarrow> a < length h"
  by (cases "cell h a") (auto dest: cell_dom)

text \<open>A well-typed value refers to allocated cells only.\<close>

lemma read_dom:
  shows "read h t v = Some u \<Longrightarrow> footprint h t v \<subseteq> {..<length h}"
    and "read_fields h fts fs = Some us \<Longrightarrow> footprint_fields h fts fs \<subseteq> {..<length h}"
proof (induction h t v and h fts fs arbitrary: u and us rule: read_read_fields.induct)
  case (4 h t v)
  then show ?case by (auto split: gval.splits option.splits dest: cell_dom)
next
  case (5 h t v)
  show ?case
  proof (cases v)
    case (GRef a)
    with 5(2) obtain xs us where xs: "elems (cell h a) = Some xs"
      and us: "read_all (read h t) xs = Some us" by (auto split: option.splits)
    have "footprint h t x \<subseteq> {..<length h}" if "x \<in> set xs" for x
      using read_all_SomeD [OF us that] 5(1) [OF GRef xs] by blast
    then show ?thesis using GRef xs elems_dom [OF xs] by auto
  qed (use 5(2) in auto)
next
  case (6 h t v)
  show ?case
  proof (cases v)
    case (GRef a)
    with 6(2) obtain kvs us where kvs: "entries (cell h a) = Some kvs"
      and us: "read_all (\<lambda>kv. map_option (Pair (fst kv)) (read h t (snd kv))) kvs = Some us"
      by (auto split: option.splits)
    have "footprint h t (snd kv) \<subseteq> {..<length h}" if "kv \<in> set kvs" for kv
      using read_all_SomeD [OF us that] 6(1) [OF GRef kvs] by blast
    then show ?thesis using GRef kvs entries_dom [OF kvs] by auto
  qed (use 6(2) in auto)
next
  case (7 h fts v)
  then show ?case by (auto split: gval.splits)
next
  case (9 h ft fts fs)
  show ?case
  proof (cases fs)
    case (Cons f fs')
    with 9(3) obtain x ys where "fst f = fst ft" "read h (snd ft) (snd f) = Some x"
      "read_fields h fts fs' = Some ys" by (auto split: option.splits if_splits)
    with 9(1,2) Cons show ?thesis by simp
  qed (use 9(3) in simp)
qed (auto split: gval.splits if_splits)

lemma cell_append [simp]: "a < length h \<Longrightarrow> cell (h @ e) a = cell h a"
  by (simp add: cell_def nth_append)

lemma cell_new [simp]: "cell (h @ x # e) (length h) = Some x"
  by (simp add: cell_def)

text \<open>Allocation and writes outside the footprint keep what a value stands for.\<close>

lemma read_append:
  assumes "read h t v = Some u"
  shows "read (h @ e) t v = Some u" and "footprint (h @ e) t v = footprint h t v"
proof -
  have "\<forall>a \<in> footprint h t v. cell (h @ e) a = cell h a" using read_dom(1) [OF assms] by auto
  from read_frame(1) [OF this] assms
  show "read (h @ e) t v = Some u" and "footprint (h @ e) t v = footprint h t v" by simp_all
qed

lemma read_prefix:
  assumes "prefix h h'" and "read h t v = Some u"
  shows "read h' t v = Some u" and "footprint h' t v = footprint h t v"
  using assms read_append by (auto simp: prefix_def)

lemma cell_write: "cell (h[a := x]) b = (if b = a \<and> a < length h then Some x else cell h b)"
  by (simp add: cell_def)

lemma read_write:
  assumes "a \<notin> footprint h t v"
  shows "read (h[a := x]) t v = read h t v" and "footprint (h[a := x]) t v = footprint h t v"
proof -
  have "\<forall>b \<in> footprint h t v. cell (h[a := x]) b = cell h b" using assms by (auto simp: cell_write)
  from read_frame(1) [OF this]
  show "read (h[a := x]) t v = read h t v" and "footprint (h[a := x]) t v = footprint h t v"
    by simp_all
qed

lemma flat_footprint:
  shows "flat t \<Longrightarrow> footprint h t v = {}"
    and "flat_fields fts \<Longrightarrow> footprint_fields h fts fs = {}"
  by (induction h t v and h fts fs rule: footprint_footprint_fields.induct)
     (auto split: gval.splits list.splits)

section \<open>The copying steps of the generated code\<close>

text \<open>
  A copier takes the store and the value under \<open>in\<close> and returns the store and the value left
  under \<open>out\<close>.  \<open>copy_flat\<close> is the assignment \<open>*out = *in\<close>.  \<open>copy_new\<close> is
  \<open>if in != nil \{ *out = new(T); (*in).DeepCopyInto(*out) \}\<close>, also the whole of a
  \<open>DeepCopy\<close> method; \<open>copy_addr\<close> is \<open>x := (*in).DeepCopy(); *out = &x\<close>; \<open>copy_val\<close> is
  \<open>*val.DeepCopy()\<close>, whose fresh cell becomes garbage.  A fresh cell holds a placeholder for
  the zero value until it is assigned.
\<close>

type_synonym copier = "store \<Rightarrow> gval \<Rightarrow> store \<times> gval"

definition copy_flat :: copier where
  "copy_flat h v = (h, v)"

definition copy_val :: "copier \<Rightarrow> copier" where
  "copy_val c h x = (let a = length h; (h', x') = c (h @ [GNil]) x in (h'[a := x'], x'))"

definition copy_new :: "copier \<Rightarrow> copier" where
  "copy_new c h v =
     (case v of
        GRef a \<Rightarrow> (case cell h a of None \<Rightarrow> (h, v) | Some x \<Rightarrow> (fst (copy_val c h x), GRef (length h)))
      | _ \<Rightarrow> (h, v))"

definition copy_addr :: "copier \<Rightarrow> copier" where
  "copy_addr c h v =
     (case v of
        GRef a \<Rightarrow> (case cell h a of None \<Rightarrow> (h, v)
                   | Some x \<Rightarrow> (let (h', x') = c h x in (h' @ [x'], GRef (length h'))))
      | _ \<Rightarrow> (h, v))"

text \<open>The loops over a slice and over a map.  Element \<open>i\<close> of the new array is assigned in
  iteration \<open>i\<close>; nothing reads the array before the loop ends, so it is stored once, after it.\<close>

fun copy_elems :: "copier \<Rightarrow> store \<Rightarrow> gval list \<Rightarrow> store \<times> gval list" where
  "copy_elems c h [] = (h, [])"
| "copy_elems c h (x # xs) =
     (let (h1, y) = c h x; (h2, ys) = copy_elems c h1 xs in (h2, y # ys))"

definition copy_slice :: "copier \<Rightarrow> copier" where
  "copy_slice c h v =
     (case v of
        GRef a \<Rightarrow> (case elems (cell h a) of None \<Rightarrow> (h, v)
                   | Some xs \<Rightarrow>
                       (let (h', ys) = copy_elems c (h @ [GArr (replicate (length xs) GNil)]) xs
                        in (h'[length h := GArr ys], GRef (length h))))
      | _ \<Rightarrow> (h, v))"

definition copy_map :: "copier \<Rightarrow> copier" where
  "copy_map c h v =
     (case v of
        GRef a \<Rightarrow> (case entries (cell h a) of None \<Rightarrow> (h, v)
                   | Some kvs \<Rightarrow>
                       (let (h', ys) = copy_elems c (h @ [GTbl []]) (map snd kvs)
                        in (h'[length h := GTbl (zip (map fst kvs) ys)], GRef (length h))))
      | _ \<Rightarrow> (h, v))"

text \<open>A struct's \<open>DeepCopyInto\<close>: \<open>*out = *in\<close>, then the statements for single fields, in order.\<close>

fun copy_fields :: "(string \<times> copier) list \<Rightarrow> store \<Rightarrow> gfields \<Rightarrow> gfields \<Rightarrow> store \<times> gfields" where
  "copy_fields [] h fin fout = (h, fout)"
| "copy_fields (nc # cs) h fin fout =
     (case map_of fin (fst nc) of
        None \<Rightarrow> copy_fields cs h fin fout
      | Some x \<Rightarrow> (let (h', x') = snd nc h x in copy_fields cs h' fin (mput (fst nc) x' fout)))"

definition copy_struct :: "(string \<times> copier) list \<Rightarrow> copier" where
  "copy_struct cs h v =
     (case v of GStruct fs \<Rightarrow> (let (h', fout) = copy_fields cs h fs fs in (h', GStruct fout))
      | _ \<Rightarrow> (h, v))"

section \<open>What a deep copy promises\<close>

text \<open>The copy stands for the same tree, in cells that did not exist before; the cells that
  existed are as they were.\<close>

definition fresh_copy :: "store \<Rightarrow> gtype \<Rightarrow> gtree \<Rightarrow> store \<Rightarrow> gval \<Rightarrow> bool" where
  "fresh_copy h t u h' v' \<longleftrightarrow>
     prefix h h' \<and> read h' t v' = Some u \<and> footprint h' t v' \<subseteq> {length h..}"

locale deep_copier =
  fixes t :: gtype and c :: copier
  assumes copies: "read h t v = Some u \<Longrightarrow> c h v = (h', v') \<Longrightarrow> fresh_copy h t u h' v'"
begin

lemma original_kept:
  assumes "read h t v = Some u" and "c h v = (h', v')"
  shows "read h' t v = Some u" and "footprint h' t v \<subseteq> {..<length h}"
proof -
  have p: "prefix h h'" using copies [OF assms] by (simp add: fresh_copy_def)
  show "read h' t v = Some u" by (rule read_prefix(1) [OF p assms(1)])
  show "footprint h' t v \<subseteq> {..<length h}"
    using read_dom(1) [OF assms(1)] by (simp add: read_prefix(2) [OF p assms(1)])
qed

lemma shares_nothing:
  assumes "read h t v = Some u" and "c h v = (h', v')"
  shows "footprint h' t v \<inter> footprint h' t v' = {}"
proof -
  have "footprint h' t v' \<subseteq> {length h..}" using copies [OF assms] by (simp add: fresh_copy_def)
  moreover have "footprint h' t v \<subseteq> {..<length h}" using original_kept(2) [OF assms] .
  ultimately have "\<And>a. a \<in> footprint h' t v \<Longrightarrow> a \<in> footprint h' t v' \<Longrightarrow> False"
    by (meson atLeast_iff in_mono lessThan_iff not_less)
  then show ?thesis by blast
qed

text \<open>Whatever is later written through the one is invisible through the other.\<close>

lemma writes_to_copy_invisible:
  assumes "read h t v = Some u" and "c h v = (h', v')"
    and "\<forall>a. a \<notin> footprint h' t v' \<longrightarrow> a < length h' \<longrightarrow> cell h'' a = cell h' a"
  shows "read h'' t v = Some u"
proof -
  have "\<forall>a \<in> footprint h' t v. cell h'' a = cell h' a"
    using assms(3) shares_nothing [OF assms(1,2)] read_dom(1) [OF original_kept(1) [OF assms(1,2)]]
    by blast
  from read_frame(1) [OF this] original_kept(1) [OF assms(1,2)] show ?thesis by simp
qed

lemma writes_to_original_invisible:
  assumes "read h t v = Some u" and "c h v = (h', v')"
    and "\<forall>a. a \<notin> footprint h' t v \<longrightarrow> a < length h' \<longrightarrow> cell h'' a = cell h' a"
  shows "read h'' t v' = Some u"
proof -
  have r: "read h' t v' = Some u" using copies [OF assms(1,2)] by (simp add: fresh_copy_def)
  then have "\<forall>a \<in> footprint h' t v'. cell h'' a = cell h' a"
    using assms(3) shares_nothing [OF assms(1,2)] read_dom(1) [OF r] by blast
  from read_frame(1) [OF this] r show ?thesis by simp
qed

end

section \<open>The copying steps are deep copies\<close>

named_theorems copiers \<comment> \<open>which copier is a deep copy at which type\<close>

lemma deep_copier_flat [copiers]: "flat t \<Longrightarrow> deep_copier t copy_flat"
  by unfold_locales (auto simp: copy_flat_def fresh_copy_def flat_footprint)

lemma prefix_store:
  assumes "prefix (h @ [y]) h'"
  shows "prefix h (h'[length h := x])" and "cell (h'[length h := x]) (length h) = Some x"
  using assms by (auto simp: prefix_def cell_def)

lemma fresh_copy_store:
  assumes "fresh_copy (h @ [y]) t u h' x'"
  shows "read (h'[length h := z]) t x' = Some u"
    and "footprint (h'[length h := z]) t x' = footprint h' t x'"
    and "footprint h' t x' \<subseteq> {length h..}"
proof -
  have "length h \<notin> footprint h' t x'" using assms by (auto simp: fresh_copy_def)
  then show "read (h'[length h := z]) t x' = Some u"
    and "footprint (h'[length h := z]) t x' = footprint h' t x'"
    using assms by (simp_all add: fresh_copy_def read_write)
  show "footprint h' t x' \<subseteq> {length h..}" using assms by (auto simp: fresh_copy_def)
qed

lemma deep_copier_val [copiers]:
  assumes "deep_copier t c" shows "deep_copier t (copy_val c)"
proof
  fix h v u h' v' assume r: "read h t v = Some u" and "copy_val c h v = (h', v')"
  then obtain k where c: "c (h @ [GNil]) v = (k, v')" and h': "h' = k[length h := v']"
    by (auto simp: copy_val_def Let_def split: prod.splits)
  have f: "fresh_copy (h @ [GNil]) t u k v'"
    using deep_copier.copies [OF assms read_append(1) [OF r] c] .
  then have "prefix (h @ [GNil]) k" by (simp add: fresh_copy_def)
  then show "fresh_copy h t u h' v'"
    using fresh_copy_store [OF f] prefix_store(1) [of h GNil k v'] by (simp add: fresh_copy_def h')
qed

lemma deep_copier_new [copiers]:
  assumes "deep_copier t c" shows "deep_copier (TPtr t) (copy_new c)"
proof
  fix h v u h' v' assume r: "read h (TPtr t) v = Some u" and c: "copy_new c h v = (h', v')"
  show "fresh_copy h (TPtr t) u h' v'"
  proof (cases v)
    case (GRef a)
    with r obtain x w where x: "cell h a = Some x" and w: "read h t x = Some w" and u: "u = VPtr w"
      by (auto split: option.splits)
    obtain k x' where k: "c (h @ [GNil]) x = (k, x')" by fastforce
    have f: "fresh_copy (h @ [GNil]) t w k x'"
      using deep_copier.copies [OF assms read_append(1) [OF w] k] .
    then have p: "prefix (h @ [GNil]) k" by (simp add: fresh_copy_def)
    have "h' = k[length h := x']" "v' = GRef (length h)"
      using c k GRef x by (auto simp: copy_new_def copy_val_def)
    then show ?thesis
      using fresh_copy_store [OF f] prefix_store [OF p, of x'] u by (simp add: fresh_copy_def)
  qed (use r c in \<open>auto simp: copy_new_def fresh_copy_def\<close>)
qed

lemma deep_copier_addr [copiers]:
  assumes "deep_copier t c" shows "deep_copier (TPtr t) (copy_addr c)"
proof
  fix h v u h' v' assume r: "read h (TPtr t) v = Some u" and c: "copy_addr c h v = (h', v')"
  show "fresh_copy h (TPtr t) u h' v'"
  proof (cases v)
    case (GRef a)
    with r obtain x w where x: "cell h a = Some x" and w: "read h t x = Some w" and u: "u = VPtr w"
      by (auto split: option.splits)
    obtain k x' where k: "c h x = (k, x')" by fastforce
    have f: "fresh_copy h t w k x'" using deep_copier.copies [OF assms w k] .
    then have "read (k @ [x']) t x' = Some w" "footprint (k @ [x']) t x' = footprint k t x'"
      "length h \<le> length k"
      using read_append [of k t x' w] by (auto simp: fresh_copy_def prefix_length_le)
    moreover have "h' = k @ [x']" "v' = GRef (length k)"
      using c k GRef x by (auto simp: copy_addr_def)
    ultimately show ?thesis using f u by (auto simp: fresh_copy_def)
  qed (use r c in \<open>auto simp: copy_addr_def fresh_copy_def\<close>)
qed

lemma copy_elems_fresh:
  assumes "deep_copier t c" and "read_all (read h t) xs = Some us" and "copy_elems c h xs = (h', ys)"
  shows "prefix h h' \<and> read_all (read h' t) ys = Some us \<and> length ys = length xs \<and>
         (\<forall>y \<in> set ys. footprint h' t y \<subseteq> {length h..})"
  using assms(2,3)
proof (induction xs arbitrary: h us ys)
  case (Cons x xs)
  then obtain u us' where u: "read h t x = Some u" and us': "read_all (read h t) xs = Some us'"
    and us: "us = u # us'" by (auto split: option.splits)
  obtain k y ys' where y: "c h x = (k, y)" and ys': "copy_elems c k xs = (h', ys')" and ys: "ys = y # ys'"
    using Cons.prems(2) by (auto split: prod.splits)
  have f: "fresh_copy h t u k y" by (rule deep_copier.copies [OF assms(1) u y])
  then have p: "prefix h k" by (simp add: fresh_copy_def)
  have "\<And>z w. read h t z = Some w \<Longrightarrow> read k t z = Some w" by (rule read_prefix(1) [OF p])
  with us' have "read_all (read k t) xs = Some us'"
    by (induction xs arbitrary: us') (auto split: option.splits)
  note IH = Cons.IH [OF this ys']
  have "read h' t y = Some u" "footprint h' t y = footprint k t y"
    using f IH read_prefix [of k h' t y u] by (auto simp: fresh_copy_def)
  with f IH us ys prefix_length_le [OF p] show ?case by (fastforce simp: fresh_copy_def)
qed simp

lemma copy_elems_stored:
  assumes "deep_copier t c" and "read_all (read h t) xs = Some us"
    and "copy_elems c (h @ [y]) xs = (k, ys)"
  shows "prefix h (k[length h := z])" and "cell (k[length h := z]) (length h) = Some z"
    and "read_all (read (k[length h := z]) t) ys = Some us" and "length ys = length xs"
    and "\<And>y a. y \<in> set ys \<Longrightarrow> a \<in> footprint (k[length h := z]) t y \<Longrightarrow> length h \<le> a"
proof -
  have "\<And>x w. read h t x = Some w \<Longrightarrow> read (h @ [y]) t x = Some w" by (rule read_append(1))
  with assms(2) have "read_all (read (h @ [y]) t) xs = Some us"
    by (induction xs arbitrary: us) (auto split: option.splits)
  note E = copy_elems_fresh [OF assms(1) this assms(3)]
  have o: "length h \<notin> footprint k t x" if "x \<in> set ys" for x using E that by fastforce
  show "prefix h (k[length h := z])" "cell (k[length h := z]) (length h) = Some z"
    using E prefix_store by auto
  show "length ys = length xs" using E by simp
  have "read_all (read (k[length h := z]) t) ys = read_all (read k t) ys"
    by (rule read_all_cong) (simp_all add: read_write(1) [OF o])
  with E show "read_all (read (k[length h := z]) t) ys = Some us" by simp
  show "length h \<le> a" if "x \<in> set ys" "a \<in> footprint (k[length h := z]) t x" for x a
    using E that by (fastforce simp: read_write(2) [OF o])
qed

lemma deep_copier_slice [copiers]:
  assumes "deep_copier t c" shows "deep_copier (TSlice t) (copy_slice c)"
proof
  fix h v u h' v' assume r: "read h (TSlice t) v = Some u" and c: "copy_slice c h v = (h', v')"
  show "fresh_copy h (TSlice t) u h' v'"
  proof (cases v)
    case (GRef a)
    with r obtain xs us where xs: "elems (cell h a) = Some xs"
      and us: "read_all (read h t) xs = Some us" and u: "u = VSlice us"
      by (auto split: option.splits)
    obtain k ys where k: "copy_elems c (h @ [GArr (replicate (length xs) GNil)]) xs = (k, ys)"
      by fastforce
    have "h' = k[length h := GArr ys]" "v' = GRef (length h)"
      using c k GRef xs by (auto simp: copy_slice_def)
    then show ?thesis
      using copy_elems_stored [OF assms us k] u by (auto simp: fresh_copy_def)
  qed (use r c in \<open>auto simp: copy_slice_def fresh_copy_def\<close>)
qed

lemma read_entries:
  "read_all (\<lambda>kv. map_option (Pair (fst kv)) (f (snd kv))) kvs = Some us \<longleftrightarrow>
     map fst us = map fst kvs \<and> read_all f (map snd kvs) = Some (map snd us)"
proof (induction kvs arbitrary: us)
  case (Cons kv kvs)
  show ?case by (cases us) (use Cons in \<open>auto split: option.splits\<close>)
qed auto

lemma deep_copier_map [copiers]:
  assumes "deep_copier t c" shows "deep_copier (TMap t) (copy_map c)"
proof
  fix h v u h' v' assume r: "read h (TMap t) v = Some u" and c: "copy_map c h v = (h', v')"
  show "fresh_copy h (TMap t) u h' v'"
  proof (cases v)
    case (GRef a)
    with r obtain kvs us where kvs: "entries (cell h a) = Some kvs" and u: "u = VMap us"
      and us: "map fst us = map fst kvs" "read_all (read h t) (map snd kvs) = Some (map snd us)"
      by (auto split: option.splits simp: read_entries)
    obtain k ys where k: "copy_elems c (h @ [GTbl []]) (map snd kvs) = (k, ys)"
      by fastforce
    have "h' = k[length h := GTbl (zip (map fst kvs) ys)]" "v' = GRef (length h)"
      using c k GRef kvs by (auto simp: copy_map_def)
    then show ?thesis
      using copy_elems_stored [OF assms us(2) k] u us(1)
      by (auto simp: fresh_copy_def read_entries dest!: set_zip_rightD)
  qed (use r c in \<open>auto simp: copy_map_def fresh_copy_def\<close>)
qed

text \<open>The statements of a \<open>DeepCopyInto\<close> against the declaration of the struct: every field
  that holds a reference has a deep copy of its type, in the order of the declaration.\<close>

fun covered :: "(string \<times> gtype) list \<Rightarrow> (string \<times> copier) list \<Rightarrow> bool" where
  "covered [] cs \<longleftrightarrow> cs = []"
| "covered (ft # fts) [] \<longleftrightarrow> flat (snd ft) \<and> covered fts []"
| "covered (ft # fts) (nc # cs) \<longleftrightarrow>
     (if fst ft = fst nc then deep_copier (snd ft) (snd nc) \<and> covered fts cs
      else flat (snd ft) \<and> covered fts (nc # cs))"

lemma covered_names: "covered fts cs \<Longrightarrow> fst ` set cs \<subseteq> fst ` set fts"
  by (induction fts cs rule: covered.induct) (auto split: if_splits)

lemma copy_fields_skip:
  "n \<notin> fst ` set cs \<Longrightarrow>
   copy_fields cs h ((n, x) # fs) ((n, y) # fout) =
     (let (h', fout') = copy_fields cs h fs fout in (h', (n, y) # fout'))"
  by (induction cs arbitrary: h fout) (auto split: option.splits prod.splits)

lemma read_fields_ConsE:
  assumes "read_fields h (ft # fts) fs = Some us"
  obtains x fs0 u us0 where "fs = (fst ft, x) # fs0" "read h (snd ft) x = Some u"
    "read_fields h fts fs0 = Some us0" "us = (fst ft, u) # us0"
  using assms by (cases fs) (auto split: option.splits if_splits)

lemma fresh_copy_extend:
  assumes "fresh_copy h t u k x'" and "prefix k h'"
  shows "prefix h h'" "read h' t x' = Some u" "footprint h' t x' \<subseteq> {length h..}" "{length k..} \<subseteq> {length h..}"
proof -
  have f: "prefix h k" "read k t x' = Some u" "footprint k t x' \<subseteq> {length h..}" using assms(1) by (simp_all add: fresh_copy_def)
  show "prefix h h'" using f(1) assms(2) by (rule prefix_order.trans)
  show "read h' t x' = Some u" "footprint h' t x' \<subseteq> {length h..}" using read_prefix [OF assms(2) f(2)] f(3) by simp_all
  show "{length k..} \<subseteq> {length h..}" using prefix_length_le [OF f(1)] by auto
qed

lemma copy_fields_fresh:
  assumes "covered fts cs" and "distinct (map fst fts)" and "read_fields h fts fs = Some us"
    and "copy_fields cs h fs fs = (h', fs')"
  shows "prefix h h' \<and> read_fields h' fts fs' = Some us \<and> footprint_fields h' fts fs' \<subseteq> {length h..}"
  using assms
proof (induction fts cs arbitrary: h fs us fs' rule: covered.induct)
  case (1 cs)
  then show ?case by (auto split: if_splits)
next
  case (2 ft fts)
  from 2(4) obtain x fs0 u us0 where fs: "fs = (fst ft, x) # fs0" "read h (snd ft) x = Some u"
    "read_fields h fts fs0 = Some us0" "us = (fst ft, u) # us0" by (rule read_fields_ConsE)
  have "h' = h" "fs' = fs" using 2(5) by simp_all
  with 2(1) [OF _ _ fs(3)] 2(2,3) fs show ?case by (auto simp: flat_footprint)
next
  case (3 ft fts nc cs)
  from 3(5) obtain x fs0 u us0 where fs: "fs = (fst ft, x) # fs0" and u: "read h (snd ft) x = Some u"
    and us0: "read_fields h fts fs0 = Some us0" and us: "us = (fst ft, u) # us0" by (rule read_fields_ConsE)
  show ?case
  proof (cases "fst ft = fst nc")
    case True
    then have dc: "deep_copier (snd ft) (snd nc)" and cov: "covered fts cs" using 3(3) by simp_all
    obtain k x' where k: "snd nc h x = (k, x')" by fastforce
    have f: "fresh_copy h (snd ft) u k x'" by (rule deep_copier.copies [OF dc u k])
    have n: "fst ft \<notin> fst ` set cs" using covered_names [OF cov] 3(4) by auto
    obtain g where g: "copy_fields cs k fs0 fs0 = (h', g)" and fs': "fs' = (fst ft, x') # g"
      using 3(6) True k copy_fields_skip [OF n, of k x fs0 x' fs0] unfolding fs
      by (auto split: prod.splits)
    have "read_fields k fts fs0 = Some us0"
      using read_prefix(1) [of h k "TStruct fts" "GStruct fs0"] us0 f by (auto simp: fresh_copy_def)
    from 3(1) [OF True cov _ this g] 3(4)
    show ?thesis using fresh_copy_extend [OF f, of h'] us fs' by auto
  next
    case False
    then have fl: "flat (snd ft)" and cov: "covered fts (nc # cs)" using 3(3) by simp_all
    have n: "fst ft \<notin> fst ` set (nc # cs)"
      using subsetD [OF covered_names [OF cov], of "fst ft"] 3(4) by (metis distinct.simps(2) list.simps(9) set_map)
    obtain g where g: "copy_fields (nc # cs) h fs0 fs0 = (h', g)" and fs': "fs' = (fst ft, x) # g"
      using 3(6) copy_fields_skip [OF n, of h x fs0 x fs0] unfolding fs by (auto split: prod.splits)
    from 3(2) [OF False cov _ us0 g] 3(4)
    show ?thesis using read_prefix(1) [OF _ u, of h'] us fs' by (simp add: flat_footprint(1) [OF fl])
  qed
qed

lemma deep_copier_struct:
  assumes "distinct (map fst fts)" and "covered fts cs"
  shows "deep_copier (TStruct fts) (copy_struct cs)"
proof
  fix h v u h' v' assume r: "read h (TStruct fts) v = Some u" and c: "copy_struct cs h v = (h', v')"
  then obtain fs us where v: "v = GStruct fs" and us: "read_fields h fts fs = Some us" "u = VStruct us"
    by (auto split: gval.splits)
  with c obtain g where g: "copy_fields cs h fs fs = (h', g)" "v' = GStruct g"
    by (auto simp: copy_struct_def split: prod.splits)
  from copy_fields_fresh [OF assms(2,1) us(1) g(1)] us g(2)
  show "fresh_copy h (TStruct fts) u h' v'" by (simp add: fresh_copy_def)
qed

end
