(* ===== verification/Api_Schema.thy ===== *)
theory Api_Schema
  imports Go_Store
begin

text \<open>
  The Go declarations of the operator's API types, with every field and in the order of the source:
  \<open>workspaceclass_types.go\<close>, \<open>workspacedeployment_types.go\<close> and \<open>colony_types.go\<close>.
  They say where an object holds pointers, slices and maps.  Types of other modules
  (\<open>metav1\<close>, \<open>corev1\<close>, \<open>resource.Quantity\<close>, \<open>apiextensionsv1.JSON\<close>,
  \<open>runtime.RawExtension\<close>) are the fields of \<open>library\<close>, with their copy methods.
\<close>

record library =
  lib_TypeMeta :: gtype
  lib_Duration :: gtype
  lib_ObjectReference :: gtype
  lib_Quantity :: gtype
  lib_Quantity_DeepCopy :: copier
  lib_Time :: gtype
  lib_Time_DeepCopyInto :: copier
  lib_ObjectMeta :: gtype
  lib_ObjectMeta_DeepCopyInto :: copier
  lib_ListMeta :: gtype
  lib_ListMeta_DeepCopyInto :: copier
  lib_Condition :: gtype
  lib_Condition_DeepCopyInto :: copier
  lib_JSON :: gtype
  lib_JSON_DeepCopyInto :: copier
  lib_RawExtension :: gtype
  lib_RawExtension_DeepCopyInto :: copier

text \<open>What the generated code relies on: the copy methods it calls are deep copies, and the types
  it assigns as a whole hold no reference.\<close>

definition library_copies :: "library \<Rightarrow> bool" where
  "library_copies X \<longleftrightarrow>
     flat (lib_TypeMeta X) \<and> flat (lib_Duration X) \<and> flat (lib_ObjectReference X) \<and>
     deep_copier (lib_Quantity X) (lib_Quantity_DeepCopy X) \<and>
     deep_copier (lib_Time X) (lib_Time_DeepCopyInto X) \<and>
     deep_copier (lib_ObjectMeta X) (lib_ObjectMeta_DeepCopyInto X) \<and>
     deep_copier (lib_ListMeta X) (lib_ListMeta_DeepCopyInto X) \<and>
     deep_copier (lib_Condition X) (lib_Condition_DeepCopyInto X) \<and>
     deep_copier (lib_JSON X) (lib_JSON_DeepCopyInto X) \<and>
     deep_copier (lib_RawExtension X) (lib_RawExtension_DeepCopyInto X)"

section \<open>Declarations of \<open>workspaceclass_types.go\<close>\<close>

definition GPUVendor_t :: gtype where "GPUVendor_t = TString"

definition ResourceRequirements_t :: "library \<Rightarrow> gtype" where
  "ResourceRequirements_t X = TStruct [
     (''CPU'', TPtr (lib_Quantity X)), (''Memory'', TPtr (lib_Quantity X)),
     (''Storage'', TPtr (lib_Quantity X)), (''GPUCount'', TPtr TInt),
     (''GPUVendor'', TPtr GPUVendor_t), (''GPUType'', TPtr TString),
     (''GPUNodeSelector'', TMap TString)]"

definition WorkspaceResourceSpec_t :: "library \<Rightarrow> gtype" where
  "WorkspaceResourceSpec_t X = TStruct [
     (''Replicas'', TPtr TInt), (''PerReplica'', ResourceRequirements_t X)]"

definition ServiceTemplateRef_t :: "gtype" where
  "ServiceTemplateRef_t = TStruct [
     (''Name'', TString), (''Namespace'', TString), (''VersionConstraint'', TString)]"

definition RouteProtocol_t :: gtype where "RouteProtocol_t = TString"

definition AccessEndpoint_t :: "gtype" where
  "AccessEndpoint_t = TStruct [
     (''Name'', TString), (''Protocol'', RouteProtocol_t), (''Port'', TInt),
     (''ServiceName'', TString), (''Description'', TString)]"

definition ConfigFieldType_t :: gtype where "ConfigFieldType_t = TString"

definition UserFacingConfigField_t :: "library \<Rightarrow> gtype" where
  "UserFacingConfigField_t X = TStruct [
     (''HelmValuePath'', TString), (''DisplayName'', TString), (''Description'', TString),
     (''Type'', ConfigFieldType_t), (''Required'', TBool),
     (''Default'', TPtr (lib_JSON X)), (''Options'', TSlice TString)]"

definition PrerequisiteSpec_t :: "library \<Rightarrow> gtype" where
  "PrerequisiteSpec_t X = TStruct [
     (''ServiceTemplate'', ServiceTemplateRef_t), (''Namespace'', TString),
     (''Values'', TPtr (lib_JSON X))]"

definition InjectionPath_t :: gtype where "InjectionPath_t = TString"

definition ResourceInjectionMap_t :: "gtype" where
  "ResourceInjectionMap_t = TStruct [
     (''Replicas'', TSlice InjectionPath_t), (''CPU'', TSlice InjectionPath_t),
     (''Memory'', TSlice InjectionPath_t), (''Storage'', TSlice InjectionPath_t),
     (''GPUCount'', TSlice InjectionPath_t), (''GPUVendor'', TSlice InjectionPath_t),
     (''GPUType'', TSlice InjectionPath_t)]"

definition WorkspaceClassSpec_t :: "library \<Rightarrow> gtype" where
  "WorkspaceClassSpec_t X = TStruct [
     (''DisplayName'', TString), (''Description'', TString),
     (''ServiceTemplate'', ServiceTemplateRef_t),
     (''DefaultResources'', WorkspaceResourceSpec_t X),
     (''Prerequisites'', TSlice (PrerequisiteSpec_t X)),
     (''AccessEndpoints'', TSlice AccessEndpoint_t),
     (''UserFacingConfig'', TSlice (UserFacingConfigField_t X)),
     (''DeployTimeout'', TPtr (lib_Duration X)),
     (''PrerequisiteDeployTimeout'', TPtr (lib_Duration X)),
     (''DefaultValues'', TPtr (lib_JSON X)),
     (''ResourceInjection'', TPtr ResourceInjectionMap_t)]"

definition WorkspaceClassStatus_t :: "library \<Rightarrow> gtype" where
  "WorkspaceClassStatus_t X = TStruct [
     (''Conditions'', TSlice (lib_Condition X)), (''ObservedGeneration'', TInt),
     (''Valid'', TBool), (''ValidationError'', TString)]"

definition WorkspaceClass_t :: "library \<Rightarrow> gtype" where
  "WorkspaceClass_t X = TStruct [
     (''TypeMeta'', lib_TypeMeta X), (''ObjectMeta'', lib_ObjectMeta X),
     (''Spec'', WorkspaceClassSpec_t X), (''Status'', WorkspaceClassStatus_t X)]"

definition WorkspaceClassList_t :: "library \<Rightarrow> gtype" where
  "WorkspaceClassList_t X = TStruct [
     (''TypeMeta'', lib_TypeMeta X), (''ListMeta'', lib_ListMeta X),
     (''Items'', TSlice (WorkspaceClass_t X))]"

section \<open>Declarations of \<open>workspacedeployment_types.go\<close>\<close>

definition WorkspaceDeploymentPhase_t :: gtype where "WorkspaceDeploymentPhase_t = TString"

definition PrerequisitePhase_t :: gtype where "PrerequisitePhase_t = TString"

definition PrerequisiteSource_t :: gtype where "PrerequisiteSource_t = TString"

definition ResourceTotals_t :: "library \<Rightarrow> gtype" where
  "ResourceTotals_t X = TStruct [
     (''CPU'', TPtr (lib_Quantity X)), (''Memory'', TPtr (lib_Quantity X)),
     (''Storage'', TPtr (lib_Quantity X)), (''GPUCount'', TPtr TInt),
     (''GPUVendor'', TPtr GPUVendor_t), (''GPUType'', TPtr TString)]"

definition FeasibilityStatus_t :: "library \<Rightarrow> gtype" where
  "FeasibilityStatus_t X = TStruct [
     (''Fits'', TBool), (''EvaluatedAt'', lib_Time X), (''Demanded'', ResourceTotals_t X),
     (''Available'', ResourceTotals_t X), (''Missing'', TPtr (ResourceTotals_t X)),
     (''Message'', TString)]"

definition PrerequisiteStatus_t :: "gtype" where
  "PrerequisiteStatus_t = TStruct [
     (''Name'', TString), (''Phase'', PrerequisitePhase_t),
     (''Source'', PrerequisiteSource_t), (''Namespace'', TString), (''Message'', TString)]"

definition ServiceStateSummary_t :: "gtype" where
  "ServiceStateSummary_t = TStruct [
     (''Name'', TString), (''State'', TString), (''FailureMessage'', TString)]"

definition ServiceSetStatusSummary_t :: "gtype" where
  "ServiceSetStatusSummary_t = TStruct [
     (''Name'', TString), (''Deployed'', TBool),
     (''Services'', TSlice ServiceStateSummary_t)]"

definition EventSummary_t :: "library \<Rightarrow> gtype" where
  "EventSummary_t X = TStruct [
     (''LastSeen'', lib_Time X), (''Type'', TString), (''Reason'', TString),
     (''Message'', TString)]"

definition FailureContext_t :: "library \<Rightarrow> gtype" where
  "FailureContext_t X = TStruct [
     (''PhaseWhenFailed'', WorkspaceDeploymentPhase_t), (''Reason'', TString),
     (''ServiceSetStatus'', TPtr ServiceSetStatusSummary_t),
     (''RecentEvents'', TSlice (EventSummary_t X))]"

definition AccessEntry_t :: "gtype" where
  "AccessEntry_t = TStruct [
     (''Name'', TString), (''Protocol'', RouteProtocol_t), (''URL'', TString),
     (''Ready'', TBool), (''Message'', TString)]"

definition ClusterDeploymentRef_t :: "gtype" where
  "ClusterDeploymentRef_t = TStruct [
     (''Name'', TString), (''Namespace'', TString)]"

definition WorkspaceDeploymentSpec_t :: "library \<Rightarrow> gtype" where
  "WorkspaceDeploymentSpec_t X = TStruct [
     (''WorkspaceClassRef'', TString), (''ClusterDeploymentRef'', ClusterDeploymentRef_t),
     (''Resources'', TPtr (WorkspaceResourceSpec_t X)), (''Values'', TPtr (lib_JSON X)),
     (''Suspend'', TBool)]"

definition WorkspaceDeploymentStatus_t :: "library \<Rightarrow> gtype" where
  "WorkspaceDeploymentStatus_t X = TStruct [
     (''Phase'', WorkspaceDeploymentPhase_t), (''Conditions'', TSlice (lib_Condition X)),
     (''ObservedGeneration'', TInt), (''ServiceEntryName'', TString),
     (''ResolvedResources'', TPtr (WorkspaceResourceSpec_t X)),
     (''Prerequisites'', TSlice PrerequisiteStatus_t),
     (''Feasibility'', TPtr (FeasibilityStatus_t X)), (''Access'', TSlice AccessEntry_t),
     (''FailureContext'', TPtr (FailureContext_t X)), (''Message'', TString)]"

definition WorkspaceDeployment_t :: "library \<Rightarrow> gtype" where
  "WorkspaceDeployment_t X = TStruct [
     (''TypeMeta'', lib_TypeMeta X), (''ObjectMeta'', lib_ObjectMeta X),
     (''Spec'', WorkspaceDeploymentSpec_t X), (''Status'', WorkspaceDeploymentStatus_t X)]"

definition WorkspaceDeploymentList_t :: "library \<Rightarrow> gtype" where
  "WorkspaceDeploymentList_t X = TStruct [
     (''TypeMeta'', lib_TypeMeta X), (''ListMeta'', lib_ListMeta X),
     (''Items'', TSlice (WorkspaceDeployment_t X))]"

section \<open>Declarations of \<open>colony_types.go\<close>\<close>

definition ColonyCluster_t :: "library \<Rightarrow> gtype" where
  "ColonyCluster_t X = TStruct [
     (''ClusterName'', TString), (''ClusterDeploymentSpec'', TPtr (lib_RawExtension X)),
     (''ClusterLabels'', TMap TString), (''ClusterAnnotations'', TMap TString)]"

definition ColonySpec_t :: "library \<Rightarrow> gtype" where
  "ColonySpec_t X = TStruct [
     (''ColonyClusters'', TSlice (ColonyCluster_t X))]"

definition GPUOffering_t :: "gtype" where
  "GPUOffering_t = TStruct [
     (''Model'', TString), (''Selector'', TMap TString), (''Vendor'', TString),
     (''ResourceName'', TString), (''Total'', TInt), (''Nodes'', TInt),
     (''Labels'', TMap TString)]"

definition ClusterGPUInventory_t :: "library \<Rightarrow> gtype" where
  "ClusterGPUInventory_t X = TStruct [
     (''LastUpdated'', lib_Time X), (''Offerings'', TSlice GPUOffering_t)]"

definition ColonyStatus_t :: "library \<Rightarrow> gtype" where
  "ColonyStatus_t X = TStruct [
     (''Phase'', TString), (''Conditions'', TSlice (lib_Condition X)),
     (''ClusterDeploymentRefs'', TSlice (TPtr (lib_ObjectReference X))),
     (''TotalClusters'', TInt), (''ReadyClusters'', TInt),
     (''GPUInventory'', TMap (ClusterGPUInventory_t X))]"

definition Colony_t :: "library \<Rightarrow> gtype" where
  "Colony_t X = TStruct [
     (''TypeMeta'', lib_TypeMeta X), (''ObjectMeta'', lib_ObjectMeta X),
     (''Spec'', ColonySpec_t X), (''Status'', ColonyStatus_t X)]"

definition ColonyList_t :: "library \<Rightarrow> gtype" where
  "ColonyList_t X = TStruct [
     (''TypeMeta'', lib_TypeMeta X), (''ListMeta'', lib_ListMeta X),
     (''Items'', TSlice (Colony_t X))]"

section \<open>Declarations without a reference\<close>

lemma flat_GPUVendor [copiers]: "flat GPUVendor_t"
  by (simp add: GPUVendor_t_def)

lemma flat_ServiceTemplateRef [copiers]: "flat ServiceTemplateRef_t"
  by (simp add: ServiceTemplateRef_t_def copiers)

lemma flat_RouteProtocol [copiers]: "flat RouteProtocol_t"
  by (simp add: RouteProtocol_t_def)

lemma flat_AccessEndpoint [copiers]: "flat AccessEndpoint_t"
  by (simp add: AccessEndpoint_t_def copiers)

lemma flat_ConfigFieldType [copiers]: "flat ConfigFieldType_t"
  by (simp add: ConfigFieldType_t_def)

lemma flat_InjectionPath [copiers]: "flat InjectionPath_t"
  by (simp add: InjectionPath_t_def)

lemma flat_WorkspaceDeploymentPhase [copiers]: "flat WorkspaceDeploymentPhase_t"
  by (simp add: WorkspaceDeploymentPhase_t_def)

lemma flat_PrerequisitePhase [copiers]: "flat PrerequisitePhase_t"
  by (simp add: PrerequisitePhase_t_def)

lemma flat_PrerequisiteSource [copiers]: "flat PrerequisiteSource_t"
  by (simp add: PrerequisiteSource_t_def)

lemma flat_PrerequisiteStatus [copiers]: "flat PrerequisiteStatus_t"
  by (simp add: PrerequisiteStatus_t_def copiers)

lemma flat_ServiceStateSummary [copiers]: "flat ServiceStateSummary_t"
  by (simp add: ServiceStateSummary_t_def copiers)

lemma flat_AccessEntry [copiers]: "flat AccessEntry_t"
  by (simp add: AccessEntry_t_def copiers)

lemma flat_ClusterDeploymentRef [copiers]: "flat ClusterDeploymentRef_t"
  by (simp add: ClusterDeploymentRef_t_def copiers)

lemma library_copiesD [copiers]:
  assumes "library_copies X"
  shows "flat (lib_TypeMeta X)" and "flat (lib_Duration X)" and "flat (lib_ObjectReference X)"
    and "deep_copier (lib_Quantity X) (lib_Quantity_DeepCopy X)"
    and "deep_copier (lib_Time X) (lib_Time_DeepCopyInto X)"
    and "deep_copier (lib_ObjectMeta X) (lib_ObjectMeta_DeepCopyInto X)"
    and "deep_copier (lib_ListMeta X) (lib_ListMeta_DeepCopyInto X)"
    and "deep_copier (lib_Condition X) (lib_Condition_DeepCopyInto X)"
    and "deep_copier (lib_JSON X) (lib_JSON_DeepCopyInto X)"
    and "deep_copier (lib_RawExtension X) (lib_RawExtension_DeepCopyInto X)"
  using assms by (simp_all add: library_copies_def)

end
