(* ===== verification/Deep_Copy.thy ===== *)
theory Deep_Copy
  imports Api_Schema
begin

text \<open>
  The generated \<open>DeepCopyInto\<close>, \<open>DeepCopy\<close> and \<open>DeepCopyObject\<close> methods of
  \<open>api/workspaces/v1\<close> and \<open>api/infra/v1\<close>, each as the list of its statements after
  \<open>*out = *in\<close>.  The controllers rely on them where an object is changed in place while its
  earlier state must survive: the base of the colony's status patch, of the finalizer patch on a
  ServiceSet, and the class defaults in \<open>mergeResources\<close>.  Against the declarations, each is
  shown to copy every reference its type holds.
\<close>

text \<open>\<open>if c := in.DeepCopy(); c != nil \{ return c \}; return nil\<close>.\<close>

definition as_object :: "copier \<Rightarrow> copier" where
  "as_object c h v = (let (h', r) = c h v in if r \<noteq> GNil then (h', r) else (h', GNil))"

section \<open>Generated copies of \<open>api/workspaces/v1/zz_generated.deepcopy.go\<close>\<close>

definition ResourceRequirements_DeepCopyInto :: "library \<Rightarrow> copier" where
  "ResourceRequirements_DeepCopyInto X = copy_struct [
     (''CPU'', copy_addr (lib_Quantity_DeepCopy X)),
     (''Memory'', copy_addr (lib_Quantity_DeepCopy X)),
     (''Storage'', copy_addr (lib_Quantity_DeepCopy X)),
     (''GPUCount'', copy_new copy_flat), (''GPUVendor'', copy_new copy_flat),
     (''GPUType'', copy_new copy_flat), (''GPUNodeSelector'', copy_map copy_flat)]"

definition ResourceRequirements_DeepCopy :: "library \<Rightarrow> copier" where
  "ResourceRequirements_DeepCopy X = copy_new (ResourceRequirements_DeepCopyInto X)"

definition WorkspaceResourceSpec_DeepCopyInto :: "library \<Rightarrow> copier" where
  "WorkspaceResourceSpec_DeepCopyInto X = copy_struct [
     (''Replicas'', copy_new copy_flat),
     (''PerReplica'', ResourceRequirements_DeepCopyInto X)]"

definition WorkspaceResourceSpec_DeepCopy :: "library \<Rightarrow> copier" where
  "WorkspaceResourceSpec_DeepCopy X = copy_new (WorkspaceResourceSpec_DeepCopyInto X)"

definition ServiceTemplateRef_DeepCopyInto :: "copier" where
  "ServiceTemplateRef_DeepCopyInto = copy_struct []"

definition ServiceTemplateRef_DeepCopy :: "copier" where
  "ServiceTemplateRef_DeepCopy = copy_new ServiceTemplateRef_DeepCopyInto"

definition AccessEndpoint_DeepCopyInto :: "copier" where
  "AccessEndpoint_DeepCopyInto = copy_struct []"

definition AccessEndpoint_DeepCopy :: "copier" where
  "AccessEndpoint_DeepCopy = copy_new AccessEndpoint_DeepCopyInto"

definition UserFacingConfigField_DeepCopyInto :: "library \<Rightarrow> copier" where
  "UserFacingConfigField_DeepCopyInto X = copy_struct [
     (''Default'', copy_new (lib_JSON_DeepCopyInto X)), (''Options'', copy_slice copy_flat)]"

definition UserFacingConfigField_DeepCopy :: "library \<Rightarrow> copier" where
  "UserFacingConfigField_DeepCopy X = copy_new (UserFacingConfigField_DeepCopyInto X)"

definition PrerequisiteSpec_DeepCopyInto :: "library \<Rightarrow> copier" where
  "PrerequisiteSpec_DeepCopyInto X = copy_struct [
     (''ServiceTemplate'', copy_flat), (''Values'', copy_new (lib_JSON_DeepCopyInto X))]"

definition PrerequisiteSpec_DeepCopy :: "library \<Rightarrow> copier" where
  "PrerequisiteSpec_DeepCopy X = copy_new (PrerequisiteSpec_DeepCopyInto X)"

definition ResourceInjectionMap_DeepCopyInto :: "copier" where
  "ResourceInjectionMap_DeepCopyInto = copy_struct [
     (''Replicas'', copy_slice copy_flat), (''CPU'', copy_slice copy_flat),
     (''Memory'', copy_slice copy_flat), (''Storage'', copy_slice copy_flat),
     (''GPUCount'', copy_slice copy_flat), (''GPUVendor'', copy_slice copy_flat),
     (''GPUType'', copy_slice copy_flat)]"

definition ResourceInjectionMap_DeepCopy :: "copier" where
  "ResourceInjectionMap_DeepCopy = copy_new ResourceInjectionMap_DeepCopyInto"

definition WorkspaceClassSpec_DeepCopyInto :: "library \<Rightarrow> copier" where
  "WorkspaceClassSpec_DeepCopyInto X = copy_struct [
     (''ServiceTemplate'', copy_flat),
     (''DefaultResources'', WorkspaceResourceSpec_DeepCopyInto X),
     (''Prerequisites'', copy_slice (PrerequisiteSpec_DeepCopyInto X)),
     (''AccessEndpoints'', copy_slice copy_flat),
     (''UserFacingConfig'', copy_slice (UserFacingConfigField_DeepCopyInto X)),
     (''DeployTimeout'', copy_new copy_flat),
     (''PrerequisiteDeployTimeout'', copy_new copy_flat),
     (''DefaultValues'', copy_new (lib_JSON_DeepCopyInto X)),
     (''ResourceInjection'', copy_new ResourceInjectionMap_DeepCopyInto)]"

definition WorkspaceClassSpec_DeepCopy :: "library \<Rightarrow> copier" where
  "WorkspaceClassSpec_DeepCopy X = copy_new (WorkspaceClassSpec_DeepCopyInto X)"

definition WorkspaceClassStatus_DeepCopyInto :: "library \<Rightarrow> copier" where
  "WorkspaceClassStatus_DeepCopyInto X = copy_struct [
     (''Conditions'', copy_slice (lib_Condition_DeepCopyInto X))]"

definition WorkspaceClassStatus_DeepCopy :: "library \<Rightarrow> copier" where
  "WorkspaceClassStatus_DeepCopy X = copy_new (WorkspaceClassStatus_DeepCopyInto X)"

definition WorkspaceClass_DeepCopyInto :: "library \<Rightarrow> copier" where
  "WorkspaceClass_DeepCopyInto X = copy_struct [
     (''TypeMeta'', copy_flat), (''ObjectMeta'', lib_ObjectMeta_DeepCopyInto X),
     (''Spec'', WorkspaceClassSpec_DeepCopyInto X),
     (''Status'', WorkspaceClassStatus_DeepCopyInto X)]"

definition WorkspaceClass_DeepCopy :: "library \<Rightarrow> copier" where
  "WorkspaceClass_DeepCopy X = copy_new (WorkspaceClass_DeepCopyInto X)"

definition WorkspaceClass_DeepCopyObject :: "library \<Rightarrow> copier" where
  "WorkspaceClass_DeepCopyObject X = as_object (WorkspaceClass_DeepCopy X)"

definition WorkspaceClassList_DeepCopyInto :: "library \<Rightarrow> copier" where
  "WorkspaceClassList_DeepCopyInto X = copy_struct [
     (''TypeMeta'', copy_flat), (''ListMeta'', lib_ListMeta_DeepCopyInto X),
     (''Items'', copy_slice (WorkspaceClass_DeepCopyInto X))]"

definition WorkspaceClassList_DeepCopy :: "library \<Rightarrow> copier" where
  "WorkspaceClassList_DeepCopy X = copy_new (WorkspaceClassList_DeepCopyInto X)"

definition WorkspaceClassList_DeepCopyObject :: "library \<Rightarrow> copier" where
  "WorkspaceClassList_DeepCopyObject X = as_object (WorkspaceClassList_DeepCopy X)"

definition ResourceTotals_DeepCopyInto :: "library \<Rightarrow> copier" where
  "ResourceTotals_DeepCopyInto X = copy_struct [
     (''CPU'', copy_addr (lib_Quantity_DeepCopy X)),
     (''Memory'', copy_addr (lib_Quantity_DeepCopy X)),
     (''Storage'', copy_addr (lib_Quantity_DeepCopy X)),
     (''GPUCount'', copy_new copy_flat), (''GPUVendor'', copy_new copy_flat),
     (''GPUType'', copy_new copy_flat)]"

definition ResourceTotals_DeepCopy :: "library \<Rightarrow> copier" where
  "ResourceTotals_DeepCopy X = copy_new (ResourceTotals_DeepCopyInto X)"

definition FeasibilityStatus_DeepCopyInto :: "library \<Rightarrow> copier" where
  "FeasibilityStatus_DeepCopyInto X = copy_struct [
     (''EvaluatedAt'', lib_Time_DeepCopyInto X),
     (''Demanded'', ResourceTotals_DeepCopyInto X),
     (''Available'', ResourceTotals_DeepCopyInto X),
     (''Missing'', copy_new (ResourceTotals_DeepCopyInto X))]"

definition FeasibilityStatus_DeepCopy :: "library \<Rightarrow> copier" where
  "FeasibilityStatus_DeepCopy X = copy_new (FeasibilityStatus_DeepCopyInto X)"

definition PrerequisiteStatus_DeepCopyInto :: "copier" where
  "PrerequisiteStatus_DeepCopyInto = copy_struct []"

definition PrerequisiteStatus_DeepCopy :: "copier" where
  "PrerequisiteStatus_DeepCopy = copy_new PrerequisiteStatus_DeepCopyInto"

definition ServiceStateSummary_DeepCopyInto :: "copier" where
  "ServiceStateSummary_DeepCopyInto = copy_struct []"

definition ServiceStateSummary_DeepCopy :: "copier" where
  "ServiceStateSummary_DeepCopy = copy_new ServiceStateSummary_DeepCopyInto"

definition ServiceSetStatusSummary_DeepCopyInto :: "copier" where
  "ServiceSetStatusSummary_DeepCopyInto = copy_struct [
     (''Services'', copy_slice copy_flat)]"

definition ServiceSetStatusSummary_DeepCopy :: "copier" where
  "ServiceSetStatusSummary_DeepCopy = copy_new ServiceSetStatusSummary_DeepCopyInto"

definition EventSummary_DeepCopyInto :: "library \<Rightarrow> copier" where
  "EventSummary_DeepCopyInto X = copy_struct [
     (''LastSeen'', lib_Time_DeepCopyInto X)]"

definition EventSummary_DeepCopy :: "library \<Rightarrow> copier" where
  "EventSummary_DeepCopy X = copy_new (EventSummary_DeepCopyInto X)"

definition FailureContext_DeepCopyInto :: "library \<Rightarrow> copier" where
  "FailureContext_DeepCopyInto X = copy_struct [
     (''ServiceSetStatus'', copy_new ServiceSetStatusSummary_DeepCopyInto),
     (''RecentEvents'', copy_slice (EventSummary_DeepCopyInto X))]"

definition FailureContext_DeepCopy :: "library \<Rightarrow> copier" where
  "FailureContext_DeepCopy X = copy_new (FailureContext_DeepCopyInto X)"

definition AccessEntry_DeepCopyInto :: "copier" where
  "AccessEntry_DeepCopyInto = copy_struct []"

definition AccessEntry_DeepCopy :: "copier" where
  "AccessEntry_DeepCopy = copy_new AccessEntry_DeepCopyInto"

definition ClusterDeploymentRef_DeepCopyInto :: "copier" where
  "ClusterDeploymentRef_DeepCopyInto = copy_struct []"

definition ClusterDeploymentRef_DeepCopy :: "copier" where
  "ClusterDeploymentRef_DeepCopy = copy_new ClusterDeploymentRef_DeepCopyInto"

definition WorkspaceDeploymentSpec_DeepCopyInto :: "library \<Rightarrow> copier" where
  "WorkspaceDeploymentSpec_DeepCopyInto X = copy_struct [
     (''ClusterDeploymentRef'', copy_flat),
     (''Resources'', copy_new (WorkspaceResourceSpec_DeepCopyInto X)),
     (''Values'', copy_new (lib_JSON_DeepCopyInto X))]"

definition WorkspaceDeploymentSpec_DeepCopy :: "library \<Rightarrow> copier" where
  "WorkspaceDeploymentSpec_DeepCopy X = copy_new (WorkspaceDeploymentSpec_DeepCopyInto X)"

definition WorkspaceDeploymentStatus_DeepCopyInto :: "library \<Rightarrow> copier" where
  "WorkspaceDeploymentStatus_DeepCopyInto X = copy_struct [
     (''Conditions'', copy_slice (lib_Condition_DeepCopyInto X)),
     (''ResolvedResources'', copy_new (WorkspaceResourceSpec_DeepCopyInto X)),
     (''Prerequisites'', copy_slice copy_flat),
     (''Feasibility'', copy_new (FeasibilityStatus_DeepCopyInto X)),
     (''Access'', copy_slice copy_flat),
     (''FailureContext'', copy_new (FailureContext_DeepCopyInto X))]"

definition WorkspaceDeploymentStatus_DeepCopy :: "library \<Rightarrow> copier" where
  "WorkspaceDeploymentStatus_DeepCopy X = copy_new (WorkspaceDeploymentStatus_DeepCopyInto X)"

definition WorkspaceDeployment_DeepCopyInto :: "library \<Rightarrow> copier" where
  "WorkspaceDeployment_DeepCopyInto X = copy_struct [
     (''TypeMeta'', copy_flat), (''ObjectMeta'', lib_ObjectMeta_DeepCopyInto X),
     (''Spec'', WorkspaceDeploymentSpec_DeepCopyInto X),
     (''Status'', WorkspaceDeploymentStatus_DeepCopyInto X)]"

definition WorkspaceDeployment_DeepCopy :: "library \<Rightarrow> copier" where
  "WorkspaceDeployment_DeepCopy X = copy_new (WorkspaceDeployment_DeepCopyInto X)"

definition WorkspaceDeployment_DeepCopyObject :: "library \<Rightarrow> copier" where
  "WorkspaceDeployment_DeepCopyObject X = as_object (WorkspaceDeployment_DeepCopy X)"

definition WorkspaceDeploymentList_DeepCopyInto :: "library \<Rightarrow> copier" where
  "WorkspaceDeploymentList_DeepCopyInto X = copy_struct [
     (''TypeMeta'', copy_flat), (''ListMeta'', lib_ListMeta_DeepCopyInto X),
     (''Items'', copy_slice (WorkspaceDeployment_DeepCopyInto X))]"

definition WorkspaceDeploymentList_DeepCopy :: "library \<Rightarrow> copier" where
  "WorkspaceDeploymentList_DeepCopy X = copy_new (WorkspaceDeploymentList_DeepCopyInto X)"

definition WorkspaceDeploymentList_DeepCopyObject :: "library \<Rightarrow> copier" where
  "WorkspaceDeploymentList_DeepCopyObject X = as_object (WorkspaceDeploymentList_DeepCopy X)"

section \<open>Generated copies of \<open>api/infra/v1/zz_generated.deepcopy.go\<close>\<close>

definition ColonyCluster_DeepCopyInto :: "library \<Rightarrow> copier" where
  "ColonyCluster_DeepCopyInto X = copy_struct [
     (''ClusterDeploymentSpec'', copy_new (lib_RawExtension_DeepCopyInto X)),
     (''ClusterLabels'', copy_map copy_flat), (''ClusterAnnotations'', copy_map copy_flat)]"

definition ColonyCluster_DeepCopy :: "library \<Rightarrow> copier" where
  "ColonyCluster_DeepCopy X = copy_new (ColonyCluster_DeepCopyInto X)"

definition ColonySpec_DeepCopyInto :: "library \<Rightarrow> copier" where
  "ColonySpec_DeepCopyInto X = copy_struct [
     (''ColonyClusters'', copy_slice (ColonyCluster_DeepCopyInto X))]"

definition ColonySpec_DeepCopy :: "library \<Rightarrow> copier" where
  "ColonySpec_DeepCopy X = copy_new (ColonySpec_DeepCopyInto X)"

definition GPUOffering_DeepCopyInto :: "copier" where
  "GPUOffering_DeepCopyInto = copy_struct [
     (''Selector'', copy_map copy_flat), (''Labels'', copy_map copy_flat)]"

definition GPUOffering_DeepCopy :: "copier" where
  "GPUOffering_DeepCopy = copy_new GPUOffering_DeepCopyInto"

definition ClusterGPUInventory_DeepCopyInto :: "library \<Rightarrow> copier" where
  "ClusterGPUInventory_DeepCopyInto X = copy_struct [
     (''LastUpdated'', lib_Time_DeepCopyInto X),
     (''Offerings'', copy_slice GPUOffering_DeepCopyInto)]"

definition ClusterGPUInventory_DeepCopy :: "library \<Rightarrow> copier" where
  "ClusterGPUInventory_DeepCopy X = copy_new (ClusterGPUInventory_DeepCopyInto X)"

definition ColonyStatus_DeepCopyInto :: "library \<Rightarrow> copier" where
  "ColonyStatus_DeepCopyInto X = copy_struct [
     (''Conditions'', copy_slice (lib_Condition_DeepCopyInto X)),
     (''ClusterDeploymentRefs'', copy_slice (copy_new copy_flat)),
     (''GPUInventory'', copy_map (copy_val (ClusterGPUInventory_DeepCopyInto X)))]"

definition ColonyStatus_DeepCopy :: "library \<Rightarrow> copier" where
  "ColonyStatus_DeepCopy X = copy_new (ColonyStatus_DeepCopyInto X)"

definition Colony_DeepCopyInto :: "library \<Rightarrow> copier" where
  "Colony_DeepCopyInto X = copy_struct [
     (''TypeMeta'', copy_flat), (''ObjectMeta'', lib_ObjectMeta_DeepCopyInto X),
     (''Spec'', ColonySpec_DeepCopyInto X), (''Status'', ColonyStatus_DeepCopyInto X)]"

definition Colony_DeepCopy :: "library \<Rightarrow> copier" where
  "Colony_DeepCopy X = copy_new (Colony_DeepCopyInto X)"

definition Colony_DeepCopyObject :: "library \<Rightarrow> copier" where
  "Colony_DeepCopyObject X = as_object (Colony_DeepCopy X)"

definition ColonyList_DeepCopyInto :: "library \<Rightarrow> copier" where
  "ColonyList_DeepCopyInto X = copy_struct [
     (''TypeMeta'', copy_flat), (''ListMeta'', lib_ListMeta_DeepCopyInto X),
     (''Items'', copy_slice (Colony_DeepCopyInto X))]"

definition ColonyList_DeepCopy :: "library \<Rightarrow> copier" where
  "ColonyList_DeepCopy X = copy_new (ColonyList_DeepCopyInto X)"

definition ColonyList_DeepCopyObject :: "library \<Rightarrow> copier" where
  "ColonyList_DeepCopyObject X = as_object (ColonyList_DeepCopy X)"

text \<open>All of them, with the type they copy.\<close>

definition generated_copies :: "library \<Rightarrow> (string \<times> gtype \<times> copier) list" where
  "generated_copies X = [
     (''ResourceRequirements.DeepCopy'', ResourceRequirements_t X, ResourceRequirements_DeepCopy X),
     (''WorkspaceResourceSpec.DeepCopy'', WorkspaceResourceSpec_t X, WorkspaceResourceSpec_DeepCopy X),
     (''ServiceTemplateRef.DeepCopy'', ServiceTemplateRef_t, ServiceTemplateRef_DeepCopy),
     (''AccessEndpoint.DeepCopy'', AccessEndpoint_t, AccessEndpoint_DeepCopy),
     (''UserFacingConfigField.DeepCopy'', UserFacingConfigField_t X, UserFacingConfigField_DeepCopy X),
     (''PrerequisiteSpec.DeepCopy'', PrerequisiteSpec_t X, PrerequisiteSpec_DeepCopy X),
     (''ResourceInjectionMap.DeepCopy'', ResourceInjectionMap_t, ResourceInjectionMap_DeepCopy),
     (''WorkspaceClassSpec.DeepCopy'', WorkspaceClassSpec_t X, WorkspaceClassSpec_DeepCopy X),
     (''WorkspaceClassStatus.DeepCopy'', WorkspaceClassStatus_t X, WorkspaceClassStatus_DeepCopy X),
     (''WorkspaceClass.DeepCopy'', WorkspaceClass_t X, WorkspaceClass_DeepCopy X),
     (''WorkspaceClass.DeepCopyObject'', WorkspaceClass_t X, WorkspaceClass_DeepCopyObject X),
     (''WorkspaceClassList.DeepCopy'', WorkspaceClassList_t X, WorkspaceClassList_DeepCopy X),
     (''WorkspaceClassList.DeepCopyObject'', WorkspaceClassList_t X, WorkspaceClassList_DeepCopyObject X),
     (''ResourceTotals.DeepCopy'', ResourceTotals_t X, ResourceTotals_DeepCopy X),
     (''FeasibilityStatus.DeepCopy'', FeasibilityStatus_t X, FeasibilityStatus_DeepCopy X),
     (''PrerequisiteStatus.DeepCopy'', PrerequisiteStatus_t, PrerequisiteStatus_DeepCopy),
     (''ServiceStateSummary.DeepCopy'', ServiceStateSummary_t, ServiceStateSummary_DeepCopy),
     (''ServiceSetStatusSummary.DeepCopy'', ServiceSetStatusSummary_t, ServiceSetStatusSummary_DeepCopy),
     (''EventSummary.DeepCopy'', EventSummary_t X, EventSummary_DeepCopy X),
     (''FailureContext.DeepCopy'', FailureContext_t X, FailureContext_DeepCopy X),
     (''AccessEntry.DeepCopy'', AccessEntry_t, AccessEntry_DeepCopy),
     (''ClusterDeploymentRef.DeepCopy'', ClusterDeploymentRef_t, ClusterDeploymentRef_DeepCopy),
     (''WorkspaceDeploymentSpec.DeepCopy'', WorkspaceDeploymentSpec_t X, WorkspaceDeploymentSpec_DeepCopy X),
     (''WorkspaceDeploymentStatus.DeepCopy'', WorkspaceDeploymentStatus_t X, WorkspaceDeploymentStatus_DeepCopy X),
     (''WorkspaceDeployment.DeepCopy'', WorkspaceDeployment_t X, WorkspaceDeployment_DeepCopy X),
     (''WorkspaceDeployment.DeepCopyObject'', WorkspaceDeployment_t X, WorkspaceDeployment_DeepCopyObject X),
     (''WorkspaceDeploymentList.DeepCopy'', WorkspaceDeploymentList_t X, WorkspaceDeploymentList_DeepCopy X),
     (''WorkspaceDeploymentList.DeepCopyObject'', WorkspaceDeploymentList_t X, WorkspaceDeploymentList_DeepCopyObject X),
     (''ColonyCluster.DeepCopy'', ColonyCluster_t X, ColonyCluster_DeepCopy X),
     (''ColonySpec.DeepCopy'', ColonySpec_t X, ColonySpec_DeepCopy X),
     (''GPUOffering.DeepCopy'', GPUOffering_t, GPUOffering_DeepCopy),
     (''ClusterGPUInventory.DeepCopy'', ClusterGPUInventory_t X, ClusterGPUInventory_DeepCopy X),
     (''ColonyStatus.DeepCopy'', ColonyStatus_t X, ColonyStatus_DeepCopy X),
     (''Colony.DeepCopy'', Colony_t X, Colony_DeepCopy X),
     (''Colony.DeepCopyObject'', Colony_t X, Colony_DeepCopyObject X),
     (''ColonyList.DeepCopy'', ColonyList_t X, ColonyList_DeepCopy X),
     (''ColonyList.DeepCopyObject'', ColonyList_t X, ColonyList_DeepCopyObject X)]"

section \<open>Each copies every reference of its type\<close>

lemma as_object_id [copiers]: "deep_copier t c \<Longrightarrow> deep_copier t (as_object c)"
proof -
  have "as_object c = c" by (auto simp: as_object_def fun_eq_iff split: prod.splits)
  then show "deep_copier t c \<Longrightarrow> deep_copier t (as_object c)" by simp
qed

lemma ResourceRequirements_copier [copiers]: "library_copies X \<Longrightarrow> deep_copier (ResourceRequirements_t X) (ResourceRequirements_DeepCopyInto X)"
  unfolding ResourceRequirements_t_def ResourceRequirements_DeepCopyInto_def
  by (rule deep_copier_struct) (simp_all add: copiers)

lemma WorkspaceResourceSpec_copier [copiers]: "library_copies X \<Longrightarrow> deep_copier (WorkspaceResourceSpec_t X) (WorkspaceResourceSpec_DeepCopyInto X)"
  unfolding WorkspaceResourceSpec_t_def WorkspaceResourceSpec_DeepCopyInto_def
  by (rule deep_copier_struct) (simp_all add: copiers)

lemma ServiceTemplateRef_copier [copiers]: "deep_copier ServiceTemplateRef_t ServiceTemplateRef_DeepCopyInto"
  unfolding ServiceTemplateRef_t_def ServiceTemplateRef_DeepCopyInto_def
  by (rule deep_copier_struct) (simp_all add: copiers)

lemma AccessEndpoint_copier [copiers]: "deep_copier AccessEndpoint_t AccessEndpoint_DeepCopyInto"
  unfolding AccessEndpoint_t_def AccessEndpoint_DeepCopyInto_def
  by (rule deep_copier_struct) (simp_all add: copiers)

lemma UserFacingConfigField_copier [copiers]: "library_copies X \<Longrightarrow> deep_copier (UserFacingConfigField_t X) (UserFacingConfigField_DeepCopyInto X)"
  unfolding UserFacingConfigField_t_def UserFacingConfigField_DeepCopyInto_def
  by (rule deep_copier_struct) (simp_all add: copiers)

lemma PrerequisiteSpec_copier [copiers]: "library_copies X \<Longrightarrow> deep_copier (PrerequisiteSpec_t X) (PrerequisiteSpec_DeepCopyInto X)"
  unfolding PrerequisiteSpec_t_def PrerequisiteSpec_DeepCopyInto_def
  by (rule deep_copier_struct) (simp_all add: copiers)

lemma ResourceInjectionMap_copier [copiers]: "deep_copier ResourceInjectionMap_t ResourceInjectionMap_DeepCopyInto"
  unfolding ResourceInjectionMap_t_def ResourceInjectionMap_DeepCopyInto_def
  by (rule deep_copier_struct) (simp_all add: copiers)

lemma WorkspaceClassSpec_copier [copiers]: "library_copies X \<Longrightarrow> deep_copier (WorkspaceClassSpec_t X) (WorkspaceClassSpec_DeepCopyInto X)"
  unfolding WorkspaceClassSpec_t_def WorkspaceClassSpec_DeepCopyInto_def
  by (rule deep_copier_struct) (simp_all add: copiers)

lemma WorkspaceClassStatus_copier [copiers]: "library_copies X \<Longrightarrow> deep_copier (WorkspaceClassStatus_t X) (WorkspaceClassStatus_DeepCopyInto X)"
  unfolding WorkspaceClassStatus_t_def WorkspaceClassStatus_DeepCopyInto_def
  by (rule deep_copier_struct) (simp_all add: copiers)

lemma WorkspaceClass_copier [copiers]: "library_copies X \<Longrightarrow> deep_copier (WorkspaceClass_t X) (WorkspaceClass_DeepCopyInto X)"
  unfolding WorkspaceClass_t_def WorkspaceClass_DeepCopyInto_def
  by (rule deep_copier_struct) (simp_all add: copiers)

lemma WorkspaceClassList_copier [copiers]: "library_copies X \<Longrightarrow> deep_copier (WorkspaceClassList_t X) (WorkspaceClassList_DeepCopyInto X)"
  unfolding WorkspaceClassList_t_def WorkspaceClassList_DeepCopyInto_def
  by (rule deep_copier_struct) (simp_all add: copiers)

lemma ResourceTotals_copier [copiers]: "library_copies X \<Longrightarrow> deep_copier (ResourceTotals_t X) (ResourceTotals_DeepCopyInto X)"
  unfolding ResourceTotals_t_def ResourceTotals_DeepCopyInto_def
  by (rule deep_copier_struct) (simp_all add: copiers)

lemma FeasibilityStatus_copier [copiers]: "library_copies X \<Longrightarrow> deep_copier (FeasibilityStatus_t X) (FeasibilityStatus_DeepCopyInto X)"
  unfolding FeasibilityStatus_t_def FeasibilityStatus_DeepCopyInto_def
  by (rule deep_copier_struct) (simp_all add: copiers)

lemma PrerequisiteStatus_copier [copiers]: "deep_copier PrerequisiteStatus_t PrerequisiteStatus_DeepCopyInto"
  unfolding PrerequisiteStatus_t_def PrerequisiteStatus_DeepCopyInto_def
  by (rule deep_copier_struct) (simp_all add: copiers)

lemma ServiceStateSummary_copier [copiers]: "deep_copier ServiceStateSummary_t ServiceStateSummary_DeepCopyInto"
  unfolding ServiceStateSummary_t_def ServiceStateSummary_DeepCopyInto_def
  by (rule deep_copier_struct) (simp_all add: copiers)

lemma ServiceSetStatusSummary_copier [copiers]: "deep_copier ServiceSetStatusSummary_t ServiceSetStatusSummary_DeepCopyInto"
  unfolding ServiceSetStatusSummary_t_def ServiceSetStatusSummary_DeepCopyInto_def
  by (rule deep_copier_struct) (simp_all add: copiers)

lemma EventSummary_copier [copiers]: "library_copies X \<Longrightarrow> deep_copier (EventSummary_t X) (EventSummary_DeepCopyInto X)"
  unfolding EventSummary_t_def EventSummary_DeepCopyInto_def
  by (rule deep_copier_struct) (simp_all add: copiers)

lemma FailureContext_copier [copiers]: "library_copies X \<Longrightarrow> deep_copier (FailureContext_t X) (FailureContext_DeepCopyInto X)"
  unfolding FailureContext_t_def FailureContext_DeepCopyInto_def
  by (rule deep_copier_struct) (simp_all add: copiers)

lemma AccessEntry_copier [copiers]: "deep_copier AccessEntry_t AccessEntry_DeepCopyInto"
  unfolding AccessEntry_t_def AccessEntry_DeepCopyInto_def
  by (rule deep_copier_struct) (simp_all add: copiers)

lemma ClusterDeploymentRef_copier [copiers]: "deep_copier ClusterDeploymentRef_t ClusterDeploymentRef_DeepCopyInto"
  unfolding ClusterDeploymentRef_t_def ClusterDeploymentRef_DeepCopyInto_def
  by (rule deep_copier_struct) (simp_all add: copiers)

lemma WorkspaceDeploymentSpec_copier [copiers]: "library_copies X \<Longrightarrow> deep_copier (WorkspaceDeploymentSpec_t X) (WorkspaceDeploymentSpec_DeepCopyInto X)"
  unfolding WorkspaceDeploymentSpec_t_def WorkspaceDeploymentSpec_DeepCopyInto_def
  by (rule deep_copier_struct) (simp_all add: copiers)

lemma WorkspaceDeploymentStatus_copier [copiers]: "library_copies X \<Longrightarrow> deep_copier (WorkspaceDeploymentStatus_t X) (WorkspaceDeploymentStatus_DeepCopyInto X)"
  unfolding WorkspaceDeploymentStatus_t_def WorkspaceDeploymentStatus_DeepCopyInto_def
  by (rule deep_copier_struct) (simp_all add: copiers)

lemma WorkspaceDeployment_copier [copiers]: "library_copies X \<Longrightarrow> deep_copier (WorkspaceDeployment_t X) (WorkspaceDeployment_DeepCopyInto X)"
  unfolding WorkspaceDeployment_t_def WorkspaceDeployment_DeepCopyInto_def
  by (rule deep_copier_struct) (simp_all add: copiers)

lemma WorkspaceDeploymentList_copier [copiers]: "library_copies X \<Longrightarrow> deep_copier (WorkspaceDeploymentList_t X) (WorkspaceDeploymentList_DeepCopyInto X)"
  unfolding WorkspaceDeploymentList_t_def WorkspaceDeploymentList_DeepCopyInto_def
  by (rule deep_copier_struct) (simp_all add: copiers)

lemma ColonyCluster_copier [copiers]: "library_copies X \<Longrightarrow> deep_copier (ColonyCluster_t X) (ColonyCluster_DeepCopyInto X)"
  unfolding ColonyCluster_t_def ColonyCluster_DeepCopyInto_def
  by (rule deep_copier_struct) (simp_all add: copiers)

lemma ColonySpec_copier [copiers]: "library_copies X \<Longrightarrow> deep_copier (ColonySpec_t X) (ColonySpec_DeepCopyInto X)"
  unfolding ColonySpec_t_def ColonySpec_DeepCopyInto_def
  by (rule deep_copier_struct) (simp_all add: copiers)

lemma GPUOffering_copier [copiers]: "deep_copier GPUOffering_t GPUOffering_DeepCopyInto"
  unfolding GPUOffering_t_def GPUOffering_DeepCopyInto_def
  by (rule deep_copier_struct) (simp_all add: copiers)

lemma ClusterGPUInventory_copier [copiers]: "library_copies X \<Longrightarrow> deep_copier (ClusterGPUInventory_t X) (ClusterGPUInventory_DeepCopyInto X)"
  unfolding ClusterGPUInventory_t_def ClusterGPUInventory_DeepCopyInto_def
  by (rule deep_copier_struct) (simp_all add: copiers)

lemma ColonyStatus_copier [copiers]: "library_copies X \<Longrightarrow> deep_copier (ColonyStatus_t X) (ColonyStatus_DeepCopyInto X)"
  unfolding ColonyStatus_t_def ColonyStatus_DeepCopyInto_def
  by (rule deep_copier_struct) (simp_all add: copiers)

lemma Colony_copier [copiers]: "library_copies X \<Longrightarrow> deep_copier (Colony_t X) (Colony_DeepCopyInto X)"
  unfolding Colony_t_def Colony_DeepCopyInto_def
  by (rule deep_copier_struct) (simp_all add: copiers)

lemma ColonyList_copier [copiers]: "library_copies X \<Longrightarrow> deep_copier (ColonyList_t X) (ColonyList_DeepCopyInto X)"
  unfolding ColonyList_t_def ColonyList_DeepCopyInto_def
  by (rule deep_copier_struct) (simp_all add: copiers)

lemmas copy_methods =
  ResourceRequirements_DeepCopy_def
  WorkspaceResourceSpec_DeepCopy_def
  ServiceTemplateRef_DeepCopy_def
  AccessEndpoint_DeepCopy_def
  UserFacingConfigField_DeepCopy_def
  PrerequisiteSpec_DeepCopy_def
  ResourceInjectionMap_DeepCopy_def
  WorkspaceClassSpec_DeepCopy_def
  WorkspaceClassStatus_DeepCopy_def
  WorkspaceClass_DeepCopy_def
  WorkspaceClass_DeepCopyObject_def
  WorkspaceClassList_DeepCopy_def
  WorkspaceClassList_DeepCopyObject_def
  ResourceTotals_DeepCopy_def
  FeasibilityStatus_DeepCopy_def
  PrerequisiteStatus_DeepCopy_def
  ServiceStateSummary_DeepCopy_def
  ServiceSetStatusSummary_DeepCopy_def
  EventSummary_DeepCopy_def
  FailureContext_DeepCopy_def
  AccessEntry_DeepCopy_def
  ClusterDeploymentRef_DeepCopy_def
  WorkspaceDeploymentSpec_DeepCopy_def
  WorkspaceDeploymentStatus_DeepCopy_def
  WorkspaceDeployment_DeepCopy_def
  WorkspaceDeployment_DeepCopyObject_def
  WorkspaceDeploymentList_DeepCopy_def
  WorkspaceDeploymentList_DeepCopyObject_def
  ColonyCluster_DeepCopy_def
  ColonySpec_DeepCopy_def
  GPUOffering_DeepCopy_def
  ClusterGPUInventory_DeepCopy_def
  ColonyStatus_DeepCopy_def
  Colony_DeepCopy_def
  Colony_DeepCopyObject_def
  ColonyList_DeepCopy_def
  ColonyList_DeepCopyObject_def

lemma generated_copiers:
  "library_copies X \<Longrightarrow> (n, t, c) \<in> set (generated_copies X) \<Longrightarrow> deep_copier (TPtr t) c"
  by (auto simp: generated_copies_def copy_methods copiers)

interpretation offering_copy: deep_copier GPUOffering_t GPUOffering_DeepCopyInto
  by (rule GPUOffering_copier)

interpretation injection_copy: deep_copier ResourceInjectionMap_t ResourceInjectionMap_DeepCopyInto
  by (rule ResourceInjectionMap_copier)

section \<open>Isolation\<close>

text \<open>
  C23: Every generated \<open>DeepCopy\<close> and \<open>DeepCopyObject\<close> of the two API groups isolates: the
  copy of a well-typed object stands for the same tree as the original, the original and every cell
  that existed are as before, no cell belongs to both, and so whatever is later written into the
  cells of one of them (and into newly allocated cells) leaves what the other stands for unchanged.
\<close>

theorem deep_copies_isolate:
  assumes "library_copies X" and "(n, t, c) \<in> set (generated_copies X)"
    and "read h (TPtr t) p = Some u" and "c h p = (h', q)"
  shows "prefix h h' \<and> read h' (TPtr t) p = Some u \<and> read h' (TPtr t) q = Some u \<and>
         footprint h' (TPtr t) p \<inter> footprint h' (TPtr t) q = {} \<and>
         (\<forall>h''. (\<forall>a. a \<notin> footprint h' (TPtr t) q \<longrightarrow> a < length h' \<longrightarrow> cell h'' a = cell h' a) \<longrightarrow>
                read h'' (TPtr t) p = Some u) \<and>
         (\<forall>h''. (\<forall>a. a \<notin> footprint h' (TPtr t) p \<longrightarrow> a < length h' \<longrightarrow> cell h'' a = cell h' a) \<longrightarrow>
                read h'' (TPtr t) q = Some u)"
proof -
  have D: "deep_copier (TPtr t) c" by (rule generated_copiers [OF assms(1,2)])
  have "fresh_copy h (TPtr t) u h' q" by (rule deep_copier.copies [OF D assms(3,4)])
  then show ?thesis
    using deep_copier.original_kept(1) [OF D assms(3,4)] deep_copier.shares_nothing [OF D assms(3,4)]
      deep_copier.writes_to_copy_invisible [OF D assms(3,4)]
      deep_copier.writes_to_original_invisible [OF D assms(3,4)]
    by (simp add: fresh_copy_def)
qed

text \<open>A library whose quantities and metadata hold references, and a resource request in a store.\<close>

definition sample_library :: library where
  "sample_library =
     (let meta = TStruct [(''Name'', TString), (''Labels'', TMap TString)];
          meta_copy = copy_struct [(''Labels'', copy_map copy_flat)];
          raw = TStruct [(''Raw'', TSlice TInt)]; raw_copy = copy_struct [(''Raw'', copy_slice copy_flat)]
      in \<lparr>lib_TypeMeta = TStruct [(''Kind'', TString), (''APIVersion'', TString)], lib_Duration = TInt,
          lib_ObjectReference = TStruct [(''Name'', TString)],
          lib_Quantity = TStruct [(''d'', TPtr TInt)],
          lib_Quantity_DeepCopy = copy_struct [(''d'', copy_new copy_flat)],
          lib_Time = TInt, lib_Time_DeepCopyInto = copy_flat,
          lib_ObjectMeta = meta, lib_ObjectMeta_DeepCopyInto = meta_copy,
          lib_ListMeta = TString, lib_ListMeta_DeepCopyInto = copy_flat,
          lib_Condition = TStruct [(''Type'', TString)], lib_Condition_DeepCopyInto = copy_struct [],
          lib_JSON = raw, lib_JSON_DeepCopyInto = raw_copy,
          lib_RawExtension = raw, lib_RawExtension_DeepCopyInto = raw_copy\<rparr>)"

lemma sample_library_copies: "library_copies sample_library"
  by (simp add: library_copies_def sample_library_def Let_def copiers deep_copier_struct)

definition sample_request :: gval where
  "sample_request = GStruct [(''CPU'', GNil), (''Memory'', GNil), (''Storage'', GNil),
     (''GPUCount'', GRef 1), (''GPUVendor'', GNil), (''GPUType'', GNil),
     (''GPUNodeSelector'', GRef 0)]"

definition sample_store :: store where
  "sample_store = [GTbl [(''gpu'', GStr ''H100'')], GInt 4, sample_request]"

theorem deep_copies_isolate_witness:
  "ResourceRequirements_DeepCopy sample_library sample_store (GRef 2) =
     (sample_store @ [GStruct [(''CPU'', GNil), (''Memory'', GNil), (''Storage'', GNil),
        (''GPUCount'', GRef 4), (''GPUVendor'', GNil), (''GPUType'', GNil),
        (''GPUNodeSelector'', GRef 5)], GInt 4, GTbl [(''gpu'', GStr ''H100'')]], GRef 3) \<and>
   footprint (fst (ResourceRequirements_DeepCopy sample_library sample_store (GRef 2)))
     (TPtr (ResourceRequirements_t sample_library)) (GRef 2) \<inter>
   footprint (fst (ResourceRequirements_DeepCopy sample_library sample_store (GRef 2)))
     (TPtr (ResourceRequirements_t sample_library)) (GRef 3) = {}"
proof -
  let ?T = "ResourceRequirements_t sample_library" and ?c = "ResourceRequirements_DeepCopy sample_library"
  have run: "?c sample_store (GRef 2) = (sample_store @ [GStruct [(''CPU'', GNil), (''Memory'', GNil),
      (''Storage'', GNil), (''GPUCount'', GRef 4), (''GPUVendor'', GNil), (''GPUType'', GNil),
      (''GPUNodeSelector'', GRef 5)], GInt 4, GTbl [(''gpu'', GStr ''H100'')]], GRef 3)"
    by (simp add: ResourceRequirements_DeepCopy_def ResourceRequirements_DeepCopyInto_def copy_new_def
        copy_val_def copy_struct_def copy_addr_def copy_flat_def copy_map_def sample_store_def
        sample_request_def cell_def)
  have mem: "(''ResourceRequirements.DeepCopy'', ?T, ?c) \<in> set (generated_copies sample_library)"
    by (simp add: generated_copies_def)
  have "\<exists>u. read sample_store (TPtr ?T) (GRef 2) = Some u"
    by (simp add: sample_store_def sample_request_def ResourceRequirements_t_def cell_def)
  then obtain u where u: "read sample_store (TPtr ?T) (GRef 2) = Some u" by blast
  show ?thesis
    using deep_copies_isolate [OF sample_library_copies mem u run] by (simp add: run del: footprint.simps)
qed

end
