(* ===== verification/Merge_Store.thy ===== *)
theory Merge_Store
  imports Deep_Copy Merge_Resources
begin

text \<open>
  \<open>mergeResources\<close> of \<open>merge.go\<close> once more, with its pointers: the result starts as a deep
  copy of the class defaults and then takes the user's pointers over.  The value model
  (\<open>Merge_Resources\<close>) says which fields the result has; this theory says whose memory they are.
\<close>

section \<open>Definitions\<close>

fun gfield :: "string \<Rightarrow> gval \<Rightarrow> gval" where
  "gfield n (GStruct fs) = (case map_of fs n of Some x \<Rightarrow> x | None \<Rightarrow> GNil)"
| "gfield n _ = GNil"

fun gset :: "string \<Rightarrow> gval \<Rightarrow> gval \<Rightarrow> gval" where
  "gset n x (GStruct fs) = GStruct (mput n x fs)"
| "gset n x v = v"

text \<open>\<open>if from.n != nil \{ into.n = from.n \}\<close>: the pointer is assigned, not what it points to.\<close>

definition take_field :: "gval \<Rightarrow> string \<Rightarrow> gval \<Rightarrow> gval" where
  "take_field from n into = (if gfield n from \<noteq> GNil then gset n (gfield n from) into else into)"

definition deref :: "store \<Rightarrow> gval \<Rightarrow> gval" where
  "deref h p = (case p of GRef a \<Rightarrow> (case cell h a of Some x \<Rightarrow> x | None \<Rightarrow> GNil) | _ \<Rightarrow> GNil)"

text \<open>\<open>*classDefaults.DeepCopy()\<close> is the value \<open>DeepCopyInto\<close> fills in; the cell \<open>DeepCopy\<close> allocates for it
  is read once and unreachable afterwards, so it is left out.\<close>

definition mergeResources_h :: "library \<Rightarrow> store \<Rightarrow> gval \<Rightarrow> gval \<Rightarrow> store \<times> gval" where
  "mergeResources_h X h classDefaults userOverrides =
     (let (h', copy) = copy_val (WorkspaceResourceSpec_DeepCopyInto X) h classDefaults;
          result = gset ''PerReplica''
            (gset ''GPUNodeSelector'' GNil (gset ''GPUType'' GNil (gfield ''PerReplica'' copy))) copy
      in if userOverrides = GNil then (h', result)
         else
           (let u = deref h' userOverrides; p = gfield ''PerReplica'' u;
                result = take_field u ''Replicas'' result
            in (h', gset ''PerReplica''
                 (take_field p ''GPUNodeSelector'' (take_field p ''GPUType'' (take_field p ''GPUVendor''
                   (take_field p ''GPUCount'' (take_field p ''Storage'' (take_field p ''Memory''
                     (take_field p ''CPU'' (gfield ''PerReplica'' result)))))))) result)))"

text \<open>The records of the value model, read off a tree; a quantity is its tree.\<close>

fun opt :: "gtree \<Rightarrow> gtree option" where
  "opt (VPtr u) = Some u"
| "opt _ = None"

fun tree_int :: "gtree \<Rightarrow> int" where
  "tree_int (VInt i) = i"
| "tree_int _ = 0"

fun tree_str :: "gtree \<Rightarrow> string" where
  "tree_str (VStr s) = s"
| "tree_str _ = []"

fun tree_labels :: "gtree \<Rightarrow> labels option" where
  "tree_labels (VMap kvs) = Some (map (\<lambda>kv. (fst kv, tree_str (snd kv))) kvs)"
| "tree_labels _ = None"

fun tfield :: "string \<Rightarrow> gtree \<Rightarrow> gtree" where
  "tfield n (VStruct fs) = (case map_of fs n of Some u \<Rightarrow> u | None \<Rightarrow> VNil)"
| "tfield n _ = VNil"

definition requirements_of :: "gtree \<Rightarrow> gtree ResourceRequirements" where
  "requirements_of u = \<lparr>rr_CPU = opt (tfield ''CPU'' u), rr_Memory = opt (tfield ''Memory'' u),
     rr_Storage = opt (tfield ''Storage'' u),
     rr_GPUCount = map_option tree_int (opt (tfield ''GPUCount'' u)),
     rr_GPUVendor = map_option tree_str (opt (tfield ''GPUVendor'' u)),
     rr_GPUType = map_option tree_str (opt (tfield ''GPUType'' u)),
     rr_GPUNodeSelector = tree_labels (tfield ''GPUNodeSelector'' u)\<rparr>"

definition resource_spec_of :: "gtree \<Rightarrow> gtree WorkspaceResourceSpec" where
  "resource_spec_of u = \<lparr>ws_Replicas = map_option tree_int (opt (tfield ''Replicas'' u)),
     ws_PerReplica = requirements_of (tfield ''PerReplica'' u)\<rparr>"

section \<open>Lemmas\<close>

definition pick :: "gval \<Rightarrow> gval \<Rightarrow> gval" where
  "pick x y = (if x \<noteq> GNil then x else y)"

definition pick_tree :: "gtree \<Rightarrow> gtree \<Rightarrow> gtree" where
  "pick_tree u w = (if u \<noteq> VNil then u else w)"

lemma mput_same: "map_of fs n = Some y \<Longrightarrow> mput n y fs = fs"
  by (induction fs) auto

lemma take_field_struct:
  "map_of fs n = Some y \<Longrightarrow> take_field from n (GStruct fs) = GStruct (mput n (pick (gfield n from) y) fs)"
  by (simp add: take_field_def pick_def mput_same)

text \<open>The types whose nil is \<open>GNil\<close>.\<close>

fun nilable :: "gtype \<Rightarrow> bool" where
  "nilable (TPtr t) = True"
| "nilable (TSlice t) = True"
| "nilable (TMap t) = True"
| "nilable _ = False"

lemma read_VNil: "nilable t \<Longrightarrow> read h t x = Some u \<Longrightarrow> x = GNil \<longleftrightarrow> u = VNil"
  by (cases t) (auto split: gval.splits option.splits)

lemma read_pick:
  assumes "nilable t" and "read h t x = Some u" and "read h t y = Some w"
  shows "read h t (pick x y) = Some (pick_tree u w)"
    and "footprint h t (pick x y) \<subseteq> footprint h t x \<union> footprint h t y"
  using assms read_VNil [OF assms(1,2)] by (auto simp: pick_def pick_tree_def)

lemma opt_pick: "read h (TPtr t) x = Some u \<Longrightarrow> opt (pick_tree u w) = override (opt u) (opt w)"
  by (auto simp: pick_tree_def split: gval.splits option.splits)

lemma labels_pick:
  "read h (TMap t) x = Some u \<Longrightarrow>
   tree_labels (pick_tree u w) = override (tree_labels u) (tree_labels w)"
  by (auto simp: pick_tree_def split: gval.splits option.splits)

lemma map_option_override: "map_option f (override a b) = override (map_option f a) (map_option f b)"
  by (cases a) simp_all

lemma read_struct:
  "read h (TStruct fts) v = Some u \<longleftrightarrow>
     (\<exists>fs us. v = GStruct fs \<and> u = VStruct us \<and> read_fields h fts fs = Some us)"
  by (cases v) auto

lemma read_fields_Cons:
  "read_fields h (ft # fts) fs = Some us \<longleftrightarrow>
     (\<exists>x fs' u us'. fs = (fst ft, x) # fs' \<and> us = (fst ft, u) # us' \<and>
        read h (snd ft) x = Some u \<and> read_fields h fts fs' = Some us')"
  by (cases fs) (auto split: option.splits)

lemma read_fields_Nil: "read_fields h [] fs = Some us \<longleftrightarrow> fs = [] \<and> us = []"
  by auto

lemmas read_struct_simps = read_struct read_fields_Cons read_fields_Nil

lemma footprint_GNil [simp]: "nilable t \<Longrightarrow> footprint h t GNil = {}"
  by (cases t) auto

lemma read_GNil [simp]: "nilable t \<Longrightarrow> read h t GNil = Some VNil"
  by (cases t) auto

text \<open>The two structs of a resource specification, field by field.\<close>

abbreviation requirements_fields :: "'a \<Rightarrow> 'a \<Rightarrow> 'a \<Rightarrow> 'a \<Rightarrow> 'a \<Rightarrow> 'a \<Rightarrow> 'a \<Rightarrow> (string \<times> 'a) list" where
  "requirements_fields a b c d e f g \<equiv>
     [(''CPU'', a), (''Memory'', b), (''Storage'', c), (''GPUCount'', d), (''GPUVendor'', e),
      (''GPUType'', f), (''GPUNodeSelector'', g)]"

lemma read_requirements:
  "read h (ResourceRequirements_t X) v = Some u \<longleftrightarrow>
     (\<exists>a b c d e f g a' b' c' d' e' f' g'.
        v = GStruct (requirements_fields a b c d e f g) \<and>
        u = VStruct (requirements_fields a' b' c' d' e' f' g') \<and>
        read h (TPtr (lib_Quantity X)) a = Some a' \<and> read h (TPtr (lib_Quantity X)) b = Some b' \<and>
        read h (TPtr (lib_Quantity X)) c = Some c' \<and> read h (TPtr TInt) d = Some d' \<and>
        read h (TPtr GPUVendor_t) e = Some e' \<and> read h (TPtr TString) f = Some f' \<and>
        read h (TMap TString) g = Some g')"
  unfolding ResourceRequirements_t_def read_struct_simps fst_conv snd_conv
  by (rule iffI; elim exE conjE; simp del: read.simps)

lemma footprint_requirements:
  "footprint h (ResourceRequirements_t X) (GStruct (requirements_fields a b c d e f g)) =
     footprint h (TPtr (lib_Quantity X)) a \<union> footprint h (TPtr (lib_Quantity X)) b \<union>
     footprint h (TPtr (lib_Quantity X)) c \<union> footprint h (TPtr TInt) d \<union>
     footprint h (TPtr GPUVendor_t) e \<union> footprint h (TPtr TString) f \<union> footprint h (TMap TString) g"
  by (simp add: ResourceRequirements_t_def Un_assoc del: footprint.simps(4,6))

lemma read_resource_spec:
  "read h (WorkspaceResourceSpec_t X) v = Some u \<longleftrightarrow>
     (\<exists>n p n' p'. v = GStruct [(''Replicas'', n), (''PerReplica'', p)] \<and>
        u = VStruct [(''Replicas'', n'), (''PerReplica'', p')] \<and>
        read h (TPtr TInt) n = Some n' \<and> read h (ResourceRequirements_t X) p = Some p')"
  unfolding WorkspaceResourceSpec_t_def read_struct_simps fst_conv snd_conv
  by (rule iffI; elim exE conjE; simp del: read.simps)

lemma footprint_resource_spec:
  "footprint h (WorkspaceResourceSpec_t X) (GStruct [(''Replicas'', n), (''PerReplica'', p)]) =
     footprint h (TPtr TInt) n \<union> footprint h (ResourceRequirements_t X) p"
  by (simp add: WorkspaceResourceSpec_t_def del: footprint.simps(4))

lemma footprint_ptr:
  "cell h a = Some x \<Longrightarrow> footprint h (TPtr t) (GRef a) = insert a (footprint h t x)"
  by simp

lemma read_ptr:
  "read h (TPtr t) v = Some u \<longleftrightarrow>
     v = GNil \<and> u = VNil \<or>
     (\<exists>a x w. v = GRef a \<and> cell h a = Some x \<and> read h t x = Some w \<and> u = VPtr w)"
  by (cases v) (auto split: option.splits)

text \<open>One override at the level of the per-replica struct.\<close>

lemma merged_requirements:
  assumes "read h (ResourceRequirements_t X) r = Some ru"
    and "read h (ResourceRequirements_t X) p = Some pu"
  defines "q \<equiv> gset ''GPUNodeSelector'' GNil (gset ''GPUType'' GNil r)"
  defines "m \<equiv> take_field p ''GPUNodeSelector'' (take_field p ''GPUType'' (take_field p ''GPUVendor''
                 (take_field p ''GPUCount'' (take_field p ''Storage'' (take_field p ''Memory''
                   (take_field p ''CPU'' q))))))"
  shows "\<exists>mu. read h (ResourceRequirements_t X) m = Some mu \<and>
           requirements_of mu = (let R = requirements_of ru; P = requirements_of pu in
             R\<lparr>rr_CPU := override (rr_CPU P) (rr_CPU R), rr_Memory := override (rr_Memory P) (rr_Memory R),
               rr_Storage := override (rr_Storage P) (rr_Storage R),
               rr_GPUCount := override (rr_GPUCount P) (rr_GPUCount R),
               rr_GPUVendor := override (rr_GPUVendor P) (rr_GPUVendor R),
               rr_GPUType := rr_GPUType P, rr_GPUNodeSelector := rr_GPUNodeSelector P\<rparr>) \<and>
           footprint h (ResourceRequirements_t X) m \<subseteq>
             footprint h (ResourceRequirements_t X) r \<union> footprint h (ResourceRequirements_t X) p"
proof -
  obtain a b c d e f g a' b' c' d' e' f' g' where r: "r = GStruct (requirements_fields a b c d e f g)"
    and ru: "ru = VStruct (requirements_fields a' b' c' d' e' f' g')"
    and rr: "read h (TPtr (lib_Quantity X)) a = Some a'" "read h (TPtr (lib_Quantity X)) b = Some b'"
      "read h (TPtr (lib_Quantity X)) c = Some c'" "read h (TPtr TInt) d = Some d'"
      "read h (TPtr GPUVendor_t) e = Some e'"
    using assms(1) unfolding read_requirements by (elim exE conjE) (rule that)
  obtain A B C D E F G A' B' C' D' E' F' G' where p: "p = GStruct (requirements_fields A B C D E F G)"
    and pu: "pu = VStruct (requirements_fields A' B' C' D' E' F' G')"
    and pp: "read h (TPtr (lib_Quantity X)) A = Some A'" "read h (TPtr (lib_Quantity X)) B = Some B'"
      "read h (TPtr (lib_Quantity X)) C = Some C'" "read h (TPtr TInt) D = Some D'"
      "read h (TPtr GPUVendor_t) E = Some E'" "read h (TPtr TString) F = Some F'"
      "read h (TMap TString) G = Some G'"
    using assms(2) unfolding read_requirements by (elim exE conjE) (rule that)
  have m: "m = GStruct (requirements_fields (pick A a) (pick B b) (pick C c) (pick D d) (pick E e) F G)"
    by (simp add: m_def q_def r p take_field_struct) (simp add: pick_def)
  let ?mu = "VStruct (requirements_fields (pick_tree A' a') (pick_tree B' b') (pick_tree C' c')
               (pick_tree D' d') (pick_tree E' e') F' G')"
  have nl: "\<And>t. nilable (TPtr t)" by simp
  have "read h (ResourceRequirements_t X) m = Some ?mu"
    unfolding read_requirements m using rr pp by (simp add: read_pick(1) [OF nl] del: read.simps)
  moreover have "requirements_of ?mu = (let R = requirements_of ru; P = requirements_of pu in
             R\<lparr>rr_CPU := override (rr_CPU P) (rr_CPU R), rr_Memory := override (rr_Memory P) (rr_Memory R),
               rr_Storage := override (rr_Storage P) (rr_Storage R),
               rr_GPUCount := override (rr_GPUCount P) (rr_GPUCount R),
               rr_GPUVendor := override (rr_GPUVendor P) (rr_GPUVendor R),
               rr_GPUType := rr_GPUType P, rr_GPUNodeSelector := rr_GPUNodeSelector P\<rparr>)"
    by (simp add: requirements_of_def ru pu Let_def map_option_override
          opt_pick [OF pp(1)] opt_pick [OF pp(2)] opt_pick [OF pp(3)] opt_pick [OF pp(4)] opt_pick [OF pp(5)])
  moreover have "footprint h (ResourceRequirements_t X) m \<subseteq>
             footprint h (ResourceRequirements_t X) r \<union> footprint h (ResourceRequirements_t X) p"
    unfolding m r p footprint_requirements
    using read_pick(2) [OF nl pp(1) rr(1)] read_pick(2) [OF nl pp(2) rr(2)]
      read_pick(2) [OF nl pp(3) rr(3)] read_pick(2) [OF nl pp(4) rr(4)]
      read_pick(2) [OF nl pp(5) rr(5)] by blast
  ultimately show ?thesis by blast
qed

lemma wiped_requirements:
  assumes "read h (ResourceRequirements_t X) r = Some ru"
  defines "q \<equiv> gset ''GPUNodeSelector'' GNil (gset ''GPUType'' GNil r)"
  shows "\<exists>qu. read h (ResourceRequirements_t X) q = Some qu \<and>
           requirements_of qu = (requirements_of ru)\<lparr>rr_GPUType := None, rr_GPUNodeSelector := None\<rparr> \<and>
           footprint h (ResourceRequirements_t X) q \<subseteq> footprint h (ResourceRequirements_t X) r"
proof -
  obtain a b c d e f g a' b' c' d' e' f' g' where r: "r = GStruct (requirements_fields a b c d e f g)"
    and ru: "ru = VStruct (requirements_fields a' b' c' d' e' f' g')"
    and rr: "read h (TPtr (lib_Quantity X)) a = Some a'" "read h (TPtr (lib_Quantity X)) b = Some b'"
      "read h (TPtr (lib_Quantity X)) c = Some c'" "read h (TPtr TInt) d = Some d'"
      "read h (TPtr GPUVendor_t) e = Some e'"
    using assms(1) unfolding read_requirements by (elim exE conjE) (rule that)
  have q: "q = GStruct (requirements_fields a b c d e GNil GNil)" by (simp add: q_def r)
  have "read h (ResourceRequirements_t X) q = Some (VStruct (requirements_fields a' b' c' d' e' VNil VNil))"
    unfolding read_requirements q using rr by (simp del: read.simps)
  then show ?thesis
    unfolding q r footprint_requirements by (simp add: ru requirements_of_def del: footprint.simps) blast
qed

text \<open>The same for the whole specification: first without, then with overrides.\<close>

lemma wiped_spec:
  assumes "read h (WorkspaceResourceSpec_t X) copy = Some uc"
  defines "r \<equiv> gset ''PerReplica''
            (gset ''GPUNodeSelector'' GNil (gset ''GPUType'' GNil (gfield ''PerReplica'' copy))) copy"
  shows "\<exists>ur. read h (WorkspaceResourceSpec_t X) r = Some ur \<and>
           resource_spec_of ur = mergeResources (resource_spec_of uc) None \<and>
           footprint h (WorkspaceResourceSpec_t X) r \<subseteq> footprint h (WorkspaceResourceSpec_t X) copy"
proof -
  let ?S = "WorkspaceResourceSpec_t X" and ?R = "ResourceRequirements_t X"
  obtain n q n' q' where copy: "copy = GStruct [(''Replicas'', n), (''PerReplica'', q)]"
    and uc: "uc = VStruct [(''Replicas'', n'), (''PerReplica'', q')]"
    and rn: "read h (TPtr TInt) n = Some n'" and rq: "read h ?R q = Some q'"
    using assms(1) unfolding read_resource_spec by (elim exE conjE) (rule that)
  let ?q = "gset ''GPUNodeSelector'' GNil (gset ''GPUType'' GNil q)"
  obtain w where w: "read h ?R ?q = Some w" "footprint h ?R ?q \<subseteq> footprint h ?R q"
    "requirements_of w = (requirements_of q')\<lparr>rr_GPUType := None, rr_GPUNodeSelector := None\<rparr>"
    using wiped_requirements [OF rq] by blast
  have r: "r = GStruct [(''Replicas'', n), (''PerReplica'', ?q)]" by (simp add: r_def copy)
  have "read h ?S r = Some (VStruct [(''Replicas'', n'), (''PerReplica'', w)])"
    unfolding read_resource_spec r using rn w(1) by (simp del: read.simps)
  moreover have "footprint h ?S r \<subseteq> footprint h ?S copy"
    unfolding r copy footprint_resource_spec using w(2) by blast
  ultimately show ?thesis using w(3) by (auto simp: resource_spec_of_def uc mergeResources_def)
qed

lemma merged_spec:
  assumes "read h (WorkspaceResourceSpec_t X) copy = Some uc"
    and "read h (WorkspaceResourceSpec_t X) u = Some ux"
  defines "p \<equiv> gfield ''PerReplica'' u"
  defines "r \<equiv> take_field u ''Replicas'' (gset ''PerReplica''
            (gset ''GPUNodeSelector'' GNil (gset ''GPUType'' GNil (gfield ''PerReplica'' copy))) copy)"
  defines "m \<equiv> gset ''PerReplica''
                 (take_field p ''GPUNodeSelector'' (take_field p ''GPUType'' (take_field p ''GPUVendor''
                   (take_field p ''GPUCount'' (take_field p ''Storage'' (take_field p ''Memory''
                     (take_field p ''CPU'' (gfield ''PerReplica'' r)))))))) r"
  shows "\<exists>ur. read h (WorkspaceResourceSpec_t X) m = Some ur \<and>
           resource_spec_of ur = mergeResources (resource_spec_of uc) (Some (resource_spec_of ux)) \<and>
           footprint h (WorkspaceResourceSpec_t X) m \<subseteq>
             footprint h (WorkspaceResourceSpec_t X) copy \<union> footprint h (WorkspaceResourceSpec_t X) u"
proof -
  let ?S = "WorkspaceResourceSpec_t X" and ?R = "ResourceRequirements_t X"
  obtain n q n' q' where copy: "copy = GStruct [(''Replicas'', n), (''PerReplica'', q)]"
    and uc: "uc = VStruct [(''Replicas'', n'), (''PerReplica'', q')]"
    and rn: "read h (TPtr TInt) n = Some n'" and rq: "read h ?R q = Some q'"
    using assms(1) unfolding read_resource_spec by (elim exE conjE) (rule that)
  obtain N P N' P' where u: "u = GStruct [(''Replicas'', N), (''PerReplica'', P)]"
    and ux: "ux = VStruct [(''Replicas'', N'), (''PerReplica'', P')]"
    and rN: "read h (TPtr TInt) N = Some N'" and rP: "read h ?R P = Some P'"
    using assms(2) unfolding read_resource_spec by (elim exE conjE) (rule that)
  define k where "k = take_field P ''GPUNodeSelector'' (take_field P ''GPUType'' (take_field P ''GPUVendor''
    (take_field P ''GPUCount'' (take_field P ''Storage'' (take_field P ''Memory''
      (take_field P ''CPU'' (gset ''GPUNodeSelector'' GNil (gset ''GPUType'' GNil q))))))))"
  note mr = merged_requirements [OF rq rP, folded k_def]
  obtain w where w: "read h ?R k = Some w" "footprint h ?R k \<subseteq> footprint h ?R q \<union> footprint h ?R P"
    and mw: "ws_PerReplica (mergeResources (resource_spec_of uc) (Some (resource_spec_of ux))) = requirements_of w"
    using mr by (auto simp: mergeResources_def Let_def resource_spec_of_def uc ux)
  have m: "m = GStruct [(''Replicas'', pick N n), (''PerReplica'', k)]"
    by (simp add: m_def r_def copy p_def u take_field_struct k_def)
  have nl: "nilable (TPtr TInt)" by simp
  have "read h ?S m = Some (VStruct [(''Replicas'', pick_tree N' n'), (''PerReplica'', w)])"
    unfolding read_resource_spec m using rn w(1) read_pick(1) [OF nl rN rn] by (simp del: read.simps)
  moreover have "footprint h ?S m \<subseteq> footprint h ?S copy \<union> footprint h ?S u"
    unfolding m copy u footprint_resource_spec using w(2) read_pick(2) [OF nl rN rn] by blast
  ultimately show ?thesis
    using mw by (auto simp: resource_spec_of_def uc ux mergeResources_def Let_def map_option_override
        opt_pick [OF rN])
qed

lemma mergeResources_h_spec:
  assumes X: "library_copies X"
    and cls: "read h (WorkspaceResourceSpec_t X) cls = Some uc"
    and user: "read h (TPtr (WorkspaceResourceSpec_t X)) user = Some uu"
    and run: "mergeResources_h X h cls user = (h', r)"
  shows "\<exists>ur. prefix h h' \<and> read h' (WorkspaceResourceSpec_t X) r = Some ur \<and>
           resource_spec_of ur = mergeResources (resource_spec_of uc) (map_option resource_spec_of (opt uu)) \<and>
           footprint h' (WorkspaceResourceSpec_t X) r \<subseteq>
             {length h..} \<union> footprint h' (TPtr (WorkspaceResourceSpec_t X)) user"
proof -
  let ?S = "WorkspaceResourceSpec_t X"
  obtain copy where k: "copy_val (WorkspaceResourceSpec_DeepCopyInto X) h cls = (h', copy)"
    using run by (auto simp: mergeResources_h_def Let_def split: if_splits prod.splits)
  have "deep_copier ?S (copy_val (WorkspaceResourceSpec_DeepCopyInto X))"
    by (intro deep_copier_val WorkspaceResourceSpec_copier X)
  from deep_copier.copies [OF this cls k]
  have p: "prefix h h'" and rc: "read h' ?S copy = Some uc" and fc: "footprint h' ?S copy \<subseteq> {length h..}"
    by (simp_all add: fresh_copy_def)
  show ?thesis
  proof (cases "user = GNil")
    case True
    then have "uu = VNil" using user by simp
    moreover have "r = gset ''PerReplica''
        (gset ''GPUNodeSelector'' GNil (gset ''GPUType'' GNil (gfield ''PerReplica'' copy))) copy"
      using run k True by (simp add: mergeResources_h_def)
    ultimately show ?thesis using wiped_spec [OF rc] p fc by auto
  next
    case False
    then obtain a x ux where a: "user = GRef a" "cell h a = Some x" "uu = VPtr ux"
      and x: "read h ?S x = Some ux" using user unfolding read_ptr by blast
    have ca: "cell h' a = Some x" using p a(2) cell_dom [OF a(2)] by (auto simp: prefix_def)
    from merged_spec [OF rc read_prefix(1) [OF p x]] obtain ur where "read h' ?S r = Some ur"
      "resource_spec_of ur = mergeResources (resource_spec_of uc) (Some (resource_spec_of ux))"
      "footprint h' ?S r \<subseteq> footprint h' ?S copy \<union> footprint h' ?S x"
      using run k False ca by (auto simp: mergeResources_h_def Let_def deref_def a)
    with p fc show ?thesis unfolding a(1) footprint_ptr [OF ca] by (auto simp: a(3))
  qed
qed

section \<open>Merging in the store\<close>

text \<open>
  C24: In the store, \<open>mergeResources\<close> computes the merge of the value model, changes no existing
  cell, and its result shares cells with the user's overrides only (the pointers it assigns), never
  with the class defaults it started from, which belong to the class object in the informer cache.
\<close>

theorem mergeResources_store_refines:
  assumes "library_copies X"
    and "read h (WorkspaceResourceSpec_t X) classDefaults = Some uc"
    and "read h (TPtr (WorkspaceResourceSpec_t X)) userOverrides = Some uu"
    and "footprint h (WorkspaceResourceSpec_t X) classDefaults \<inter>
         footprint h (TPtr (WorkspaceResourceSpec_t X)) userOverrides = {}"
    and "mergeResources_h X h classDefaults userOverrides = (h', result)"
  shows "prefix h h' \<and>
         (\<exists>ur. read h' (WorkspaceResourceSpec_t X) result = Some ur \<and>
            resource_spec_of ur =
              mergeResources (resource_spec_of uc) (map_option resource_spec_of (opt uu))) \<and>
         footprint h' (WorkspaceResourceSpec_t X) result \<subseteq>
           {length h..} \<union> footprint h (TPtr (WorkspaceResourceSpec_t X)) userOverrides \<and>
         footprint h' (WorkspaceResourceSpec_t X) result \<inter>
           footprint h' (WorkspaceResourceSpec_t X) classDefaults = {}"
proof -
  let ?S = "WorkspaceResourceSpec_t X"
  from mergeResources_h_spec [OF assms(1,2,3,5)] obtain ur where p: "prefix h h'"
    and ur: "read h' ?S result = Some ur"
      "resource_spec_of ur = mergeResources (resource_spec_of uc) (map_option resource_spec_of (opt uu))"
    and f: "footprint h' ?S result \<subseteq> {length h..} \<union> footprint h' (TPtr ?S) userOverrides" by blast
  have "footprint h' ?S classDefaults = footprint h ?S classDefaults"
    "footprint h' (TPtr ?S) userOverrides = footprint h (TPtr ?S) userOverrides"
    by (rule read_prefix(2) [OF p assms(2)], rule read_prefix(2) [OF p assms(3)])
  moreover have "footprint h ?S classDefaults \<inter> {length h..} = {}"
    using read_dom(1) [OF assms(2)] by fastforce
  ultimately show ?thesis using p ur f assms(4) by blast
qed

definition sample_class_defaults :: gval where
  "sample_class_defaults = GStruct [(''Replicas'', GRef 1), (''PerReplica'', sample_request)]"

definition sample_overrides :: gval where
  "sample_overrides = GStruct [(''Replicas'', GRef 3), (''PerReplica'',
     GStruct [(''CPU'', GNil), (''Memory'', GNil), (''Storage'', GNil), (''GPUCount'', GNil),
       (''GPUVendor'', GNil), (''GPUType'', GRef 4), (''GPUNodeSelector'', GNil)])]"

definition merge_store :: store where
  "merge_store = [GTbl [(''gpu'', GStr ''H100'')], GInt 1, GNil, GInt 2, GStr ''A100'', sample_overrides]"

theorem mergeResources_store_refines_witness:
  "footprint (fst (mergeResources_h sample_library merge_store sample_class_defaults (GRef 5)))
     (WorkspaceResourceSpec_t sample_library)
     (snd (mergeResources_h sample_library merge_store sample_class_defaults (GRef 5))) \<inter>
   footprint (fst (mergeResources_h sample_library merge_store sample_class_defaults (GRef 5)))
     (WorkspaceResourceSpec_t sample_library) sample_class_defaults = {}"
proof -
  let ?T = "WorkspaceResourceSpec_t sample_library"
  note ev = merge_store_def sample_class_defaults_def sample_overrides_def sample_request_def
    WorkspaceResourceSpec_t_def ResourceRequirements_t_def GPUVendor_t_def cell_def
  have "\<exists>uc. read merge_store ?T sample_class_defaults = Some uc" by (simp add: ev)
  then obtain uc where uc: "read merge_store ?T sample_class_defaults = Some uc" by blast
  have "\<exists>uu. read merge_store (TPtr ?T) (GRef 5) = Some uu" by (simp add: ev)
  then obtain uu where uu: "read merge_store (TPtr ?T) (GRef 5) = Some uu" by blast
  have d: "footprint merge_store ?T sample_class_defaults \<inter> footprint merge_store (TPtr ?T) (GRef 5) = {}"
    by (simp add: ev)
  show ?thesis
    using mergeResources_store_refines [OF sample_library_copies uc uu d surjective_pairing] by blast
qed

end
