(* ===== verification/Spec2Isabelle.thy ===== *)
theory Spec2Isabelle
  imports Route_Composition Colony_Workspace Endpoint_Properties Process_Start Status_Schema Merge_Store
begin

text \<open>
  Verification of the exalsius operator.

  \<^bold>\<open>The program.\<close>  The operator (\<open>src/\<close>, Go, controller-runtime) has two sides.

  The infra side turns a \<open>Colony\<close> into child clusters.  \<open>internal/controller/infra/colony_controller.go\<close>
  keeps one k0rdent \<open>ClusterDeployment\<close> per cluster of the Colony, publishes their readiness, kubeconfigs
  and GPU inventory, tells the workers of every child cluster which API endpoint to dial, and tears all
  of it down when the Colony is deleted.

  The workspace side turns \<open>WorkspaceDeployment\<close> objects into Helm releases on these clusters.  A
  \<open>WorkspaceDeployment\<close> names a \<open>WorkspaceClass\<close> (the chart, default resources and values, prerequisites,
  access endpoints) and a \<open>ClusterDeployment\<close>.  One reconcile of
  \<open>internal/controller/workspaces/workspacedeployment_controller.go\<close> resolves class and cluster,
  refreshes a feasibility verdict, holds the workspace at the GPU gate, installs prerequisites, and then
  either starts the deployment (merged values, injected resources, labelled namespace, \<open>ServiceSet\<close>),
  polls the \<open>ServiceSet\<close> of a deploying workspace, keeps the routes of a running one through a route
  provider (Gateway API routes and a pool of TCP ports on a regional cluster), or tears a deleted one
  down.  A periodic sweep removes routes of workspaces that are gone, and the WorkspaceClass controller
  validates classes.  \<open>cmd/main.go\<close> registers the controllers whose CRDs a preflight check finds.

  \<^bold>\<open>Theories: the library.\<close>

  \<^item> \<open>Operator_Prelude\<close>: Go's errors, maps (association lists with distinct keys), strings,
    32- and 64-bit wrap-around, \<open>fmt\<close> verbs, panics as outcomes, and \<open>wp\<close>, the weakest precondition of
    a state-monad program.
  \<^item> \<open>Call_Trace\<close>: programs that call code outside the repository.  Every call is a function from a
    world of any type to a result and a next world, so failures, conflicts and interference of other
    clients are all covered; each call leaves an event in a trace.  \<open>traced\<close> (\<open>tsafe\<close> for the plain state)
    says that every event satisfies a predicate given the events before it; \<open>hist_ok\<close> is that statement
    about a trace.  The rules of \<open>traced_rules\<close> and \<open>wp_intros\<close> follow the program text.
  \<^item> \<open>Retry_Loops\<close>: the locale \<open>bounded_retry\<close> of loops with backoff, with the bound on submissions
    and on time; it is interpreted on all three retry loops of the program.
  \<^item> \<open>Api_Types\<close>: the types of \<open>api/workspaces/v1\<close> and of the Kubernetes and k0rdent objects the code
    touches; \<open>resource.Quantity\<close> is a type parameter with operations \<open>qops\<close> whose documented laws are
    \<open>quantity_exact\<close>.
  \<^item> \<open>Go_Store\<close>: Go values in memory.  A store of cells, values with references into it, the declared
    types, what a value reads as (\<open>read\<close>) and which cells it occupies (\<open>footprint\<close>), and the statements the
    generated copies are made of; the locale \<open>deep_copier\<close> is the contract of a deep copy.
  \<^item> \<open>Api_Schema\<close> (\<open>api/*/v1/*_types.go\<close>): every declared type with all its fields, as a type of that
    store; the types of libraries are the fields of \<open>library\<close>.  \<open>Deep_Copy\<close>
    (\<open>api/*/v1/zz_generated.deepcopy.go\<close>): every generated copy, statement by statement.  \<open>Merge_Store\<close>:
    \<open>merge.go\<close> once more on that store, where assigning a pointer shares what it points to.
  \<^item> \<open>Cluster_Topology\<close> and \<open>Reconciler_Env\<close>: regional lookup and cluster clients
    (\<open>infra/common/regional.go\<close>), used by both sides, and the outside of the workspace reconciler.

  \<^bold>\<open>Theories: the workspace side.\<close>

  \<^item> \<open>Gpu_Offering\<close> (\<open>internal/gpu/offering.go\<close>): offerings of a cluster and what a selector finds;
    the locale \<open>gpu_probe\<close> is the contract of the two availability queries.
  \<^item> \<open>Merge_Resources\<close> (\<open>merge.go\<close>), \<open>Feasibility\<close> (\<open>feasibility.go\<close>) and \<open>Value_Injection\<close>
    (\<open>inject.go\<close>): resolution of resources and Helm values, capacity arithmetic, the path parser and
    the nested writes; the locale \<open>path_store\<close> is the contract of a nested write.
  \<^item> \<open>Names\<close> (\<open>prerequisites.go\<close>, \<open>service_apply.go\<close>, \<open>routing/naming.go\<close>): bounded names, label
    values, mesh labels; SHA-256 is a parameter.
  \<^item> \<open>Conditions\<close>, \<open>Failure_Context\<close> (\<open>failurecontext.go\<close>), \<open>Namespaces\<close> (\<open>namespace.go\<close>),
    \<open>Service_Sets\<close> (\<open>service_apply.go\<close>), \<open>Prerequisites\<close> (\<open>prerequisites.go\<close> and
    \<open>reconcilePrerequisites\<close>), \<open>Gpu_Gate\<close> (the gate of the controller), \<open>Routes\<close> (\<open>routes.go\<close> and the
    grace period): one operation each, with a lemma on what it may call and what it has established
    when it succeeds.  Locales: \<open>condition_store\<close>, \<open>seniority\<close> (the order among waiting workspaces),
    \<open>bounded_step\<close> (a remote deletion step that gives up after the grace period).
  \<^item> \<open>Deletion\<close> (\<open>reconcileDelete\<close>), \<open>Deployment_Reconciler\<close> (\<open>Reconcile\<close>, \<open>startDeployment\<close>,
    \<open>checkServiceReadiness\<close>, the watch mapper), \<open>Reconcile_Events\<close> (the phase machine as an inductive
    relation, and every step of a reconcile respects it), \<open>Reconcile_Properties\<close>, \<open>Status_Schema\<close> (the
    statuses it submits against the list and condition markers of \<open>workspacedeployment_types.go\<close>).
  \<^item> \<open>Gateway_Api\<close>, \<open>Gateway_Provider\<close>, \<open>Gateway_Properties\<close> (\<open>routing/gatewayapi/provider.go\<close>),
    \<open>Port_Pool\<close>, \<open>Port_Allocation\<close> (\<open>portpool.go\<close>; the abstract allocator and its refinement),
    \<open>Route_Sweeper\<close> (\<open>sweep.go\<close>, \<open>routes_sweeper.go\<close>), \<open>Workspace_Class\<close>
    (\<open>workspaceclass_controller.go\<close>), and \<open>Route_Composition\<close>, where the provider is plugged into the
    reconciler.

  \<^bold>\<open>Theories: the infra side.\<close>

  \<^item> \<open>Colony_Api\<close> (\<open>api/infra/v1/colony_types.go\<close>, \<open>regional.go\<close>): the Colony, the objects around it,
    and the API servers as \<open>infra_api\<close>.
  \<^item> \<open>Service_Discovery\<close> (\<open>infra/common/service_discovery.go\<close>, \<open>infra/cilium/api_endpoint_configmap.go\<close>)
    and \<open>Endpoint_Properties\<close>: the endpoint of a hosted control plane on its way into the child cluster.
  \<^item> \<open>Cluster_Deployments\<close> (\<open>infra/clusterdeployment/clusterdeployment.go\<close>) and
    \<open>Cluster_Deployment_Properties\<close>: creation, field-wise update, orphans and volume claims.
  \<^item> \<open>Colony_Controller\<close> (\<open>colony_controller.go\<close>), \<open>Colony_Properties\<close> (what every step may write),
    \<open>Colony_Lifecycle\<close> (whole reconciles) and \<open>Colony_Outputs\<close> (kubeconfigs and GPU inventory).
  \<^item> \<open>Colony_Workspace\<close>: both sides together, what the Colony controller publishes as the workspace
    controller uses it.
  \<^item> \<open>Preflight\<close> (\<open>internal/preflight/crd_check.go\<close>) and \<open>Process_Start\<close> (\<open>cmd/main.go\<close>, the
    \<open>SetupWithManager\<close> of the controllers, \<open>groupversion_info.go\<close>).

  \<^bold>\<open>What is shown.\<close>  For a whole reconcile of a workspace against any API server: the phases written follow
  the phase machine; Deploying is written only behind an open gate, satisfied prerequisites, a labelled
  namespace and an accepted ServiceSet; Running only after the ServiceSet reported the release; a live
  workspace is never torn down and a suspended one never written; deletion goes in order and, past the
  grace period, ends whatever the remote clusters do; and a deployable workspace is deployed.  A gate that
  opens is backed by the listings themselves: a node that carries the selector, enough free GPUs on such
  nodes, nobody ahead.  The route step reports routes ready only when the provider it just called had them
  accepted by the tenant Gateway; the provider writes on the regional cluster of the workspace, and on the
  child only the label that makes a Service global.  The port pool refines an abstract allocator and never
  gives a port twice; the sweep deletes orphans only, and deals with all of them on every regional cluster
  it can reach.  A status that is submitted passes the schema of the CRD if the object read did, the class
  names every prerequisite once and the provider every endpoint once.

  For a whole reconcile of a Colony against any API servers: every write is accounted for by the calls
  before it; Ready is backed by readings of every cluster; the status stays well formed; once no orphan is
  left, a broken cluster is isolated and reported; deletion releases the Colony last, and completes; the retry loops end.  For its
  parts: the update of a ClusterDeployment converges and keeps what others manage, the kubeconfig secret is
  complete, the inventory is fresh or kept, the published endpoint is one that workers can dial.  The
  preflight check reports what the cluster serves, and the process registers controllers accordingly.

  Between the two: an offering that is published opens the GPU gate of a workspace that picks it while the
  GPUs of the cluster are within 64 bits, and a
  kubeconfig reference that is published leads the workspace controller to a client of that cluster.

  In memory: a generated copy reads as its source and shares no cell with it, so neither can be
  changed through the other; the merge of resources computes what its functional model says and leaves the
  cached class as it was, and its result shares the fields of the user with the workspace.

  Some theorems pin down behaviour that differs from the comments or from the intent: overflow of the GPU
  demand, silently replaced values, name collisions, missed events, revived failures, colliding hostnames,
  cleanup that takes a failed lookup for a cluster that is gone, clusters that count as ready without saying
  so, references that keep a Colony from becoming Ready, clusters that deletion forgets,
  classes whose prerequisites make a status no server accepts.

  \<^bold>\<open>Hypotheses.\<close>  \<open>finalizers_ok\<close> and \<open>owner_ok\<close> are what controller-runtime documents of its finalizer
  and owner-reference helpers; \<open>sha_ok\<close> is the length of the hash; \<open>quantity_exact\<close> the arithmetic of
  quantities; \<open>past_grace\<close> that the clock has passed the deadline; \<open>keyed_gets\<close> and \<open>keyed_cds\<close> that a
  server answers with the object asked for; \<open>tcp_server\<close> a server that stores its TCPRoutes, \<open>pool_ok\<close> and
  \<open>tcp_healthy\<close> the listeners of a gateway and a server that answers; \<open>iterates\<close> and \<open>ranges\<close> that a Go map
  yields every key once; \<open>released\<close> a server on which the clusters of a Colony are gone; \<open>ownable\<close> that
  owner references can be set; \<open>is_i64\<close>, \<open>is_i32\<close>, \<open>exact_counts\<close> and \<open>gpu_counts_in_range\<close> that
  exact numbers fit the width the code computes in; \<open>plain_addresses\<close> that hosts carry no brackets; \<open>library_copies\<close> that the
  \<open>DeepCopy\<close> methods of library types are deep copies; \<open>stores_secrets\<close> and \<open>reads_held\<close> a management
  cluster that keeps the Secrets it accepts and shows them to both controllers; \<open>shows_idle\<close> a cluster with
  given nodes and no pods.  The theorems about a Colony are about the production configuration, without the
  test hook for child clients.  Each property with hypotheses has a witness on a concrete outside.

  \<^bold>\<open>Bounds and termination.\<close>  Loops run over lists, and the path parser terminates by the length of its
  input.  The two conflict loops have five attempts with a backoff of 100 ms that doubles, which is 3.1
  seconds at most, and the preflight check waits five times, 44 seconds at most; the attempts left are the
  structural argument of these loops.  The ticks of the sweeper and the choices of the \<open>select\<close> in
  \<open>WaitForClusterDeletion\<close> are arguments.  Every count keeps its Go width where the code computes in it,
  the GPU sums included: additions, subtractions, products and conversions wrap (\<open>i32\<close>, \<open>i64\<close>), and a
  theorem that equates such a count with an exact sum says so or asks for the range.  Times are integers in nanoseconds, 0 for the zero time.

  \<^bold>\<open>Not modelled.\<close>  Logging; the fields a server fills into an object it accepts, unless the call returns
  the object; the order of Go's map iteration and of its unstable sort among equals, where one order is
  taken (offerings with equal keys, events with equal times, listeners of equal port); the inside of
  controller-runtime (caches, work queues, leader election), to which the watches are handed over; the parsing of flags; nil entries of
  \<open>ClusterDeploymentRefs\<close>; and of the kubebuilder markers all but the list types and the condition schema
  of the workspace status, since the API server reads them and the program does not.
\<close>

section \<open>All retry loops end\<close>

text \<open>
  C25: The retry loops of the program end, whatever the API servers answer.  An update of a ClusterDeployment and
  the status update of a Colony under deletion submit the object at most five times and sleep at most 3.1
  seconds in all (100 ms, doubled after every conflict); the preflight check with its default options waits at
  most five times and 44 seconds in all (2, 4, 8, 15 and 15).
\<close>

theorem retry_loops_end:
  "(\<exists>es. cs_trace (snd (run_state (updateManagedFields api existing spec ls as) s)) = cs_trace s @ es \<and>
      within is_cd_update slept 5 3100000000 es) \<and>
   (\<exists>es. cs_trace (snd (run_state (updateColonyStatusWithRetry api colony phase) s)) = cs_trace s @ es \<and>
      within is_status_update slept 5 3100000000 es) \<and>
   (\<exists>es. cs_trace (snd (run_state (checkCRDsWithClient dc deps DefaultCheckOptions) t)) = cs_trace t @ es \<and>
      within waits waited 5 44000000000 es)"
  using cd_retry.bounded [of firstBackoff api "managed_update (ia_decode api) spec ls as" existing maxRetries s]
    status_retry.bounded [of firstBackoff api colony phase maxRetries s] checkCRDs_bounded [of dc deps t]
  by (simp add: budget_double wp_def case_prod_unfold updateManagedFields_def updateColonyStatusWithRetry_def firstBackoff_def maxRetries_def)

end
